(* ===== verification/JsNumber.thy ===== *)
theory JsNumber
  imports Complex_Main
begin

text \<open>
  Numbers of the source language. A JavaScript number that is neither an infinity nor NaN is the
  rational it denotes; every arithmetic result is rounded to the nearest double, ties to the even
  mantissa (\<open>rnd\<close>). The exponent is not bounded: overflow to infinity (above \<open>2 ^ 1024\<close>) and
  underflow (below \<open>2 ^ -1074\<close>) are outside the model, as is the sign of zero. A decimal string,
  the form in which the database driver returns a \<open>numeric\<close> column, is the rational it denotes:
  \<open>parse_float\<close> reads one, \<open>to_fixed\<close> is \<open>Number.prototype.toFixed\<close> (for values below
  \<open>10 ^ 21\<close>), \<open>num_to_string\<close> is \<open>Number.prototype.toString\<close> (the shortest decimal that
  reads back) and \<open>pg_numeric s\<close> is what a \<open>numeric(p, s)\<close> column keeps of a decimal.
\<close>

lemma powi2_less_iff: "(2::rat) powi a < 2 powi b \<longleftrightarrow> a < b"
proof
  show "a < b \<Longrightarrow> (2::rat) powi a < 2 powi b" by (rule power_int_strict_increasing) auto
  assume "(2::rat) powi a < 2 powi b"
  moreover have "b \<le> a \<Longrightarrow> (2::rat) powi b \<le> 2 powi a" by (rule power_int_increasing) auto
  ultimately show "a < b" by (meson not_le)
qed

lemma powi2_le_iff: "(2::rat) powi a \<le> 2 powi b \<longleftrightarrow> a \<le> b"
  using powi2_less_iff [of b a] by (meson not_le)

section \<open>Binary logarithm of a positive rational\<close>

fun log2n :: "nat \<Rightarrow> nat" where
  "log2n n = (if n < 2 then 0 else Suc (log2n (n div 2)))"

declare log2n.simps [simp del]

lemma log2n_bounds: "0 < n \<Longrightarrow> 2 ^ log2n n \<le> n \<and> n < 2 ^ Suc (log2n n)"
proof (induction n rule: log2n.induct)
  case (1 n)
  show ?case
  proof (cases "n < 2")
    case True
    with 1 show ?thesis by (auto simp: log2n.simps [of n])
  next
    case False
    with 1 have "2 ^ log2n (n div 2) \<le> n div 2 \<and> n div 2 < 2 ^ Suc (log2n (n div 2))"
      by simp
    with False show ?thesis by (auto simp: log2n.simps [of n])
  qed
qed

definition clog2n :: "nat \<Rightarrow> nat" where
  "clog2n n = (if n < 2 then 0 else Suc (log2n (n - 1)))"

lemma clog2n_bounds: "2 \<le> n \<Longrightarrow> 2 ^ (clog2n n - 1) < n \<and> n \<le> 2 ^ clog2n n \<and> 0 < clog2n n"
  using log2n_bounds [of "n - 1"] by (auto simp: clog2n_def)

definition ilog2 :: "rat \<Rightarrow> int" where
  "ilog2 x = (if 1 \<le> x then int (log2n (nat \<lfloor>x\<rfloor>)) else - int (clog2n (nat \<lceil>1 / x\<rceil>)))"

lemma ilog2_ge1:
  assumes "1 \<le> x"
  shows "2 powi ilog2 x \<le> x \<and> x < 2 powi (ilog2 x + 1)"
proof -
  let ?n = "nat \<lfloor>x\<rfloor>"
  from assms have n: "0 < ?n" by (simp add: le_floor_iff)
  have le: "of_nat ?n \<le> x" and less: "x < of_nat (Suc ?n)"
    using assms by (auto simp: of_nat_nat le_floor_iff) linarith
  from log2n_bounds [OF n] have "2 ^ log2n ?n \<le> ?n" and "Suc ?n \<le> 2 ^ Suc (log2n ?n)" by auto
  then have "(of_nat (2 ^ log2n ?n) :: rat) \<le> of_nat ?n"
    and "(of_nat (Suc ?n) :: rat) \<le> of_nat (2 ^ Suc (log2n ?n))"
    by (simp_all only: of_nat_le_iff)
  then have "(2::rat) ^ log2n ?n \<le> of_nat ?n" and "of_nat (Suc ?n) \<le> (2::rat) ^ Suc (log2n ?n)"
    by (simp_all only: of_nat_power of_nat_numeral)
  with le less have "(2::rat) ^ log2n ?n \<le> x" and "x < (2::rat) ^ Suc (log2n ?n)"
    by (meson order_trans less_le_trans)+
  moreover have "(2::rat) powi (int (log2n ?n) + 1) = 2 ^ Suc (log2n ?n)"
    by (simp add: power_int_add)
  ultimately show ?thesis using assms by (simp add: ilog2_def)
qed

lemma ilog2_less1:
  assumes "0 < x" "x < 1"
  shows "2 powi ilog2 x \<le> x \<and> x < 2 powi (ilog2 x + 1)"
proof -
  let ?n = "nat \<lceil>1 / x\<rceil>"
  have gt1: "1 < 1 / x" using assms by simp
  then have n: "2 \<le> ?n" by linarith
  have ge: "1 / x \<le> of_nat ?n" using gt1 by linarith
  have lt: "of_nat (?n - 1) < 1 / x" using gt1 by linarith
  have k: "0 < clog2n ?n" and b: "2 ^ (clog2n ?n - 1) \<le> ?n - 1" "?n \<le> 2 ^ clog2n ?n"
    using clog2n_bounds [OF n] by linarith+
  from b have "(of_nat (2 ^ (clog2n ?n - 1)) :: rat) \<le> of_nat (?n - 1)"
    and "(of_nat ?n :: rat) \<le> of_nat (2 ^ clog2n ?n)"
    by (simp_all only: of_nat_le_iff)
  then have "(2::rat) ^ (clog2n ?n - 1) \<le> of_nat (?n - 1)" and "of_nat ?n \<le> (2::rat) ^ clog2n ?n"
    by (simp_all only: of_nat_power of_nat_numeral)
  with ge lt have u: "1 / x \<le> 2 ^ clog2n ?n" and l: "2 ^ (clog2n ?n - 1) < 1 / x"
    by linarith+
  have e1: "(2::rat) powi ilog2 x = inverse (2 ^ clog2n ?n)"
    using assms by (simp add: ilog2_def power_int_minus)
  have "(2::rat) powi (ilog2 x + 1) = inverse (2 ^ (clog2n ?n - 1))"
  proof -
    have "ilog2 x + 1 = - int (clog2n ?n - 1)" using assms k by (simp add: ilog2_def)
    then show ?thesis by (simp add: power_int_minus)
  qed
  moreover have "inverse (2 ^ clog2n ?n) \<le> x"
    using u assms by (simp add: field_simps)
  moreover have "x < inverse (2 ^ (clog2n ?n - 1))"
    using l assms by (simp add: field_simps)
  ultimately show ?thesis using e1 by simp
qed

lemma ilog2_bounds: "0 < x \<Longrightarrow> 2 powi ilog2 x \<le> x \<and> x < 2 powi (ilog2 x + 1)"
  using ilog2_ge1 ilog2_less1 by (cases "1 \<le> x") auto

lemma ilog2_unique:
  assumes "2 powi e \<le> x" and "x < 2 powi (e + 1)"
  shows "ilog2 x = e"
proof -
  have "0 < x" using assms(1) by (rule less_le_trans [rotated]) simp
  note b = ilog2_bounds [OF this]
  have "(2::rat) powi ilog2 x < 2 powi (e + 1)" using b assms by linarith
  then have 1: "ilog2 x < e + 1" by (simp add: powi2_less_iff)
  have "(2::rat) powi e < 2 powi (ilog2 x + 1)" using b assms by linarith
  then have "e < ilog2 x + 1" by (simp add: powi2_less_iff)
  with 1 show ?thesis by simp
qed

lemma ilog2_mono: "0 < x \<Longrightarrow> x \<le> y \<Longrightarrow> ilog2 x \<le> ilog2 y"
proof -
  assume "0 < x" "x \<le> y"
  with ilog2_bounds [of x] ilog2_bounds [of y] have "(2::rat) powi ilog2 x < 2 powi (ilog2 y + 1)"
    by linarith
  then have "ilog2 x < ilog2 y + 1" by (simp add: powi2_less_iff)
  then show ?thesis by simp
qed

section \<open>Rounding to nearest, ties to even\<close>

definition rne :: "rat \<Rightarrow> int" where
  "rne y = (let f = \<lfloor>y\<rfloor>; d = y - of_int f in
     if d < 1 / 2 then f else if 1 / 2 < d then f + 1 else if even f then f else f + 1)"

lemma rne_of_int [simp]: "rne (of_int n) = n"
  by (simp add: rne_def)

lemma rne_error: "\<bar>of_int (rne y) - y\<bar> \<le> 1 / 2"
  unfolding rne_def Let_def by (auto simp: abs_if; linarith)

lemma rne_mono: "x \<le> y \<Longrightarrow> rne x \<le> rne y"
proof -
  assume le: "x \<le> y"
  then have f: "\<lfloor>x\<rfloor> \<le> \<lfloor>y\<rfloor>" by (rule floor_mono)
  show ?thesis
  proof (cases "\<lfloor>x\<rfloor> = \<lfloor>y\<rfloor>")
    case True
    with le show ?thesis by (auto simp: rne_def Let_def)
  next
    case False
    with f have "\<lfloor>x\<rfloor> + 1 \<le> \<lfloor>y\<rfloor>" by simp
    moreover have "rne x \<le> \<lfloor>x\<rfloor> + 1" "\<lfloor>y\<rfloor> \<le> rne y" by (auto simp: rne_def Let_def)
    ultimately show ?thesis by simp
  qed
qed

lemma rne_minus: "rne (- y) = - rne y"
proof (cases "y = of_int \<lfloor>y\<rfloor>")
  case True
  then obtain n where "y = of_int n" by blast
  then show ?thesis by (metis of_int_minus rne_of_int)
next
  case False
  then have "\<lfloor>- y\<rfloor> = - \<lfloor>y\<rfloor> - 1"
    by linarith
  then show ?thesis by (auto simp: rne_def Let_def)
qed


section \<open>Rounding to a double\<close>

definition rnd :: "rat \<Rightarrow> rat" where
  "rnd x = (if x = 0 then 0
     else let u = 2 powi (ilog2 \<bar>x\<bar> - 52) in of_int (rne (x / u)) * u)"

definition is_double :: "rat \<Rightarrow> bool" where
  "is_double x \<longleftrightarrow> rnd x = x"

lemma rnd_0 [simp]: "rnd 0 = 0"
  by (simp add: rnd_def)

lemma rnd_minus: "rnd (- x) = - rnd x"
  by (simp add: rnd_def Let_def rne_minus)

lemma powi_nat: "0 \<le> k \<Longrightarrow> (2::rat) powi k = of_int (2 ^ nat k)"
  by (simp add: power_int_def)

lemma rnd_lower: "2 powi e \<le> x \<Longrightarrow> 2 powi e \<le> rnd x"
proof -
  assume le: "2 powi e \<le> x"
  have p: "0 < x" using le by (rule less_le_trans [rotated]) simp
  let ?e = "ilog2 x" and ?u = "(2::rat) powi (ilog2 x - 52)"
  have up: "0 < ?u" by simp
  have "2 powi ?e \<le> x" using ilog2_bounds [OF p] by simp
  moreover have "(2::rat) powi ?e = of_int (2 ^ 52) * ?u"
    using power_int_add [of "2::rat" 52 "?e - 52"] by simp
  ultimately have "of_int (2 ^ 52) \<le> x / ?u" using up by (simp add: field_simps)
  then have "2 ^ 52 \<le> rne (x / ?u)" by (metis rne_mono rne_of_int)
  then have "of_int (2 ^ 52) \<le> (of_int (rne (x / ?u)) :: rat)" by (simp only: of_int_le_iff)
  then have "2 powi ?e \<le> rnd x"
    using p up \<open>2 powi ?e = _\<close> by (simp add: rnd_def Let_def del: of_int_power of_int_numeral)
  moreover have "(2::rat) powi e < 2 powi (?e + 1)" using le ilog2_bounds [OF p] by linarith
  then have "e \<le> ?e" by (simp add: powi2_less_iff)
  then have "(2::rat) powi e \<le> 2 powi ?e" by (simp add: powi2_le_iff)
  ultimately show ?thesis by linarith
qed

lemma rnd_upper: "0 < x \<Longrightarrow> x \<le> 2 powi e \<Longrightarrow> rnd x \<le> 2 powi e"
proof -
  assume p: "0 < x" and le: "x \<le> 2 powi e"
  let ?e = "ilog2 x" and ?u = "(2::rat) powi (ilog2 x - 52)"
  have up: "0 < ?u" by simp
  have "2 powi ?e \<le> x" "x < 2 powi (?e + 1)" using ilog2_bounds [OF p] by simp_all
  show ?thesis
  proof (cases "x = 2 powi e")
    case True
    then have e: "?e = e" by (simp add: ilog2_unique powi2_less_iff)
    have "(2::rat) powi e = of_int (2 ^ 52) * ?u"
      using power_int_add [of "2::rat" 52 "?e - 52"] e by simp
    then have "x / ?u = of_int (2 ^ 52)" using True up by (simp add: field_simps)
    then have "rne (x / ?u) = 2 ^ 52" by (metis rne_of_int)
    with True p \<open>2 powi e = _\<close> show ?thesis by (simp add: rnd_def Let_def)
  next
    case False
    with le have "(2::rat) powi ?e < 2 powi e" using \<open>2 powi ?e \<le> x\<close> by linarith
    then have "?e + 1 \<le> e" by (simp add: powi2_less_iff)
    then have m: "(2::rat) powi (?e + 1) \<le> 2 powi e" by (simp only: powi2_le_iff)
    have eq: "(2::rat) powi (?e + 1) = of_int (2 ^ 53) * ?u"
      using power_int_add [of "2::rat" 53 "?e - 52"] by (simp add: add.commute)
    then have "x / ?u \<le> of_int (2 ^ 53)"
      using \<open>x < 2 powi (?e + 1)\<close> up by (simp add: field_simps)
    then have "rne (x / ?u) \<le> 2 ^ 53" by (metis rne_mono rne_of_int)
    then have "(of_int (rne (x / ?u)) :: rat) \<le> of_int (2 ^ 53)" by (simp only: of_int_le_iff)
    then have "of_int (rne (x / ?u)) * ?u \<le> of_int (2 ^ 53) * ?u"
      using up by (intro mult_right_mono) auto
    then have "rnd x \<le> 2 powi (?e + 1)" using p eq by (simp add: rnd_def Let_def)
    with m show ?thesis by linarith
  qed
qed

lemma rnd_mono_pos: "0 < x \<Longrightarrow> x \<le> y \<Longrightarrow> rnd x \<le> rnd y"
proof -
  assume x: "0 < x" and le: "x \<le> y"
  then have y: "0 < y" by simp
  show ?thesis
  proof (cases "ilog2 x = ilog2 y")
    case True
    let ?u = "(2::rat) powi (ilog2 y - 52)"
    have "x / ?u \<le> y / ?u" using le by (simp add: divide_right_mono)
    then have "rne (x / ?u) \<le> rne (y / ?u)" by (rule rne_mono)
    then have "(of_int (rne (x / ?u)) :: rat) \<le> of_int (rne (y / ?u))" by simp
    with True x y show ?thesis by (simp add: rnd_def Let_def mult_right_mono)
  next
    case False
    with ilog2_mono [OF x le] have "ilog2 x + 1 \<le> ilog2 y" by simp
    then have "(2::rat) powi (ilog2 x + 1) \<le> 2 powi ilog2 y" by (simp only: powi2_le_iff)
    moreover have "rnd x \<le> 2 powi (ilog2 x + 1)"
      using ilog2_bounds [OF x] by (intro rnd_upper [OF x]) simp
    moreover have "2 powi ilog2 y \<le> rnd y"
      using ilog2_bounds [OF y] by (intro rnd_lower) simp
    ultimately show ?thesis by linarith
  qed
qed

lemma rnd_pos: "0 < x \<Longrightarrow> 0 < rnd x"
  using rnd_lower [of "ilog2 x" x] ilog2_bounds [of x]
  by (meson less_le_trans zero_less_numeral zero_less_power_int)

lemma rnd_nonneg: "0 \<le> x \<Longrightarrow> 0 \<le> rnd x"
  using rnd_pos [of x] by (cases "x = 0") auto

lemma rnd_neg: "x < 0 \<Longrightarrow> rnd x < 0"
  using rnd_pos [of "- x"] by (simp add: rnd_minus)

lemma rnd_mono: "x \<le> y \<Longrightarrow> rnd x \<le> rnd y"
proof -
  assume le: "x \<le> y"
  consider "0 < x" | "x \<le> 0" "0 \<le> y" | "y < 0" by linarith
  then show ?thesis
  proof cases
    case 1
    then show ?thesis using le by (rule rnd_mono_pos)
  next
    case 2
    then have "rnd x \<le> 0" using rnd_neg [of x] by (cases "x = 0") auto
    with 2 rnd_nonneg [of y] show ?thesis by simp
  next
    case 3
    with le rnd_mono_pos [of "- y" "- x"] show ?thesis by (simp add: rnd_minus)
  qed
qed

lemma rnd_0_iff [simp]: "rnd x = 0 \<longleftrightarrow> x = 0"
  using rnd_pos [of x] rnd_neg [of x] by (cases x "0::rat" rule: linorder_cases) auto

text \<open>Every integer of at most 53 bits, scaled by any power of two, is a double.\<close>

lemma is_double_dyadic_pos:
  assumes "0 < n" "n \<le> 2 ^ 53"
  shows "is_double (of_int n * 2 powi k)"
proof -
  let ?x = "(of_int n :: rat) * 2 powi k" and ?e = "ilog2 (of_int n * 2 powi k)"
  have p: "0 < ?x" using assms by simp
  show ?thesis
  proof (cases "n = 2 ^ 53")
    case True
    then have eq: "?x = 2 powi (53 + k)" by (simp add: power_int_add)
    then have "2 powi (53 + k) \<le> ?x" and "?x \<le> 2 powi (53 + k)" by simp_all
    with rnd_lower rnd_upper [OF p] eq show ?thesis unfolding is_double_def by (metis order_antisym)
  next
    case False
    with assms have "n < 2 ^ 53" by simp
    then have "(of_int n :: rat) < of_int (2 ^ 53)" by (simp only: of_int_less_iff)
    then have "?x < of_int (2 ^ 53) * 2 powi k" by (intro mult_strict_right_mono) simp_all
    also have "\<dots> = 2 powi (53 + k)" by (simp add: power_int_add)
    finally have "(2::rat) powi ?e < 2 powi (53 + k)" using ilog2_bounds [OF p] by linarith
    then have e: "?e - 52 \<le> k" by (simp add: powi2_less_iff)
    have "(2::rat) powi k = 2 powi (k - (?e - 52)) * 2 powi (?e - 52)"
      by (simp flip: power_int_add)
    then have "?x / 2 powi (?e - 52) = of_int (n * 2 ^ nat (k - (?e - 52)))"
      using powi_nat [of "k - (?e - 52)"] e by (simp add: field_simps)
    then have "of_int (rne (?x / 2 powi (?e - 52))) = ?x / 2 powi (?e - 52)"
      by (metis rne_of_int)
    with p show ?thesis by (simp add: is_double_def rnd_def Let_def)
  qed
qed

lemma is_double_dyadic: "\<bar>n\<bar> \<le> 2 ^ 53 \<Longrightarrow> is_double (of_int n * 2 powi k)"
proof -
  assume a: "\<bar>n\<bar> \<le> 2 ^ 53"
  consider "n = 0" | "0 < n" | "n < 0" by linarith
  then show ?thesis
  proof cases
    case 3
    with a is_double_dyadic_pos [of "- n" k] show ?thesis by (simp add: is_double_def rnd_minus)
  qed (use a is_double_dyadic_pos in \<open>auto simp: is_double_def\<close>)
qed

lemma is_double_int: "\<bar>n\<bar> \<le> 2 ^ 53 \<Longrightarrow> is_double (of_int n)"
  using is_double_dyadic [of n 0] by simp

lemma is_double_rnd [simp]: "is_double (rnd x)"
proof (cases "x = 0")
  case False
  let ?e = "ilog2 \<bar>x\<bar>" and ?u = "(2::rat) powi (ilog2 \<bar>x\<bar> - 52)"
  have "\<bar>x\<bar> < 2 powi (?e + 1)" using ilog2_bounds [of "\<bar>x\<bar>"] False by simp
  moreover have "(2::rat) powi (?e + 1) = of_int (2 ^ 53) * ?u"
    using power_int_add [of "2::rat" 53 "?e - 52"] by (simp add: add.commute)
  ultimately have "\<bar>x\<bar> \<le> of_int (2 ^ 53) * ?u" by simp
  then have "x \<le> of_int (2 ^ 53) * ?u" and "- (of_int (2 ^ 53) * ?u) \<le> x" by linarith+
  then have "x / ?u \<le> of_int (2 ^ 53)" and "of_int (- (2 ^ 53)) \<le> x / ?u"
    by (simp_all add: field_simps)
  then have "rne (x / ?u) \<le> 2 ^ 53" and "- (2 ^ 53) \<le> rne (x / ?u)"
    by (metis rne_mono rne_of_int)+
  then have "\<bar>rne (x / ?u)\<bar> \<le> 2 ^ 53" by simp
  then have "is_double (of_int (rne (x / ?u)) * ?u)" by (rule is_double_dyadic)
  with False show ?thesis by (simp add: rnd_def Let_def)
qed (simp add: is_double_def)

lemma rnd_rnd [simp]: "rnd (rnd x) = rnd x"
  using is_double_rnd by (simp add: is_double_def)

lemma rnd_le: "x \<le> y \<Longrightarrow> is_double y \<Longrightarrow> rnd x \<le> y"
  using rnd_mono [of x y] by (simp add: is_double_def)

lemma rnd_ge: "y \<le> x \<Longrightarrow> is_double y \<Longrightarrow> y \<le> rnd x"
  using rnd_mono [of y x] by (simp add: is_double_def)

lemma rnd_error: "\<bar>rnd x - x\<bar> \<le> \<bar>x\<bar> * 2 powi - 53"
proof (cases "x = 0")
  case False
  let ?e = "ilog2 \<bar>x\<bar>" and ?u = "(2::rat) powi (ilog2 \<bar>x\<bar> - 52)"
  have le: "2 powi ?e \<le> \<bar>x\<bar>" using ilog2_bounds [of "\<bar>x\<bar>"] False by simp
  have "rnd x - x = (of_int (rne (x / ?u)) - x / ?u) * ?u"
    using False by (simp add: rnd_def Let_def field_simps)
  then have "\<bar>rnd x - x\<bar> = \<bar>of_int (rne (x / ?u)) - x / ?u\<bar> * ?u" by (simp add: abs_mult)
  also have "\<dots> \<le> 1 / 2 * ?u" by (intro mult_right_mono rne_error) simp
  also have "\<dots> = 2 powi ?e * 2 powi - 53"
    by (simp add: power_int_diff power_int_minus field_simps)
  also have "\<dots> \<le> \<bar>x\<bar> * 2 powi - 53" using le by (intro mult_right_mono) simp_all
  finally show ?thesis .
qed simp


section \<open>JavaScript arithmetic on finite numbers\<close>

definition js_add :: "rat \<Rightarrow> rat \<Rightarrow> rat" where
  "js_add a b = rnd (a + b)"

definition js_sub :: "rat \<Rightarrow> rat \<Rightarrow> rat" where
  "js_sub a b = rnd (a - b)"

definition js_mul :: "rat \<Rightarrow> rat \<Rightarrow> rat" where
  "js_mul a b = rnd (a * b)"

definition js_div :: "rat \<Rightarrow> rat \<Rightarrow> rat" where
  "js_div a b = rnd (a / b)"

named_theorems js_bounds \<open>Order facts about rounded arithmetic\<close>

lemma js_double [simp]:
  "is_double (js_add a b)" "is_double (js_sub a b)" "is_double (js_mul a b)" "is_double (js_div a b)"
  by (simp_all add: js_add_def js_sub_def js_mul_def js_div_def)

lemma js_sub_nonneg [js_bounds]: "b \<le> a \<Longrightarrow> 0 \<le> js_sub a b"
  by (simp add: js_sub_def rnd_nonneg)

lemma js_sub_le [js_bounds]: "is_double a \<Longrightarrow> 0 \<le> b \<Longrightarrow> js_sub a b \<le> a"
  by (simp add: js_sub_def rnd_le)

lemma js_add_nonneg [js_bounds]: "0 \<le> a \<Longrightarrow> 0 \<le> b \<Longrightarrow> 0 \<le> js_add a b"
  by (simp add: js_add_def rnd_nonneg)

lemma js_add_ge [js_bounds]: "is_double a \<Longrightarrow> 0 \<le> b \<Longrightarrow> a \<le> js_add a b"
  by (simp add: js_add_def rnd_ge)

lemma js_mul_nonneg [js_bounds]: "0 \<le> a \<Longrightarrow> 0 \<le> b \<Longrightarrow> 0 \<le> js_mul a b"
  by (simp add: js_mul_def rnd_nonneg)

lemma js_mul_le [js_bounds]: "is_double a \<Longrightarrow> 0 \<le> a \<Longrightarrow> b \<le> 1 \<Longrightarrow> js_mul a b \<le> a"
  using mult_left_le [of b a] by (simp add: js_mul_def rnd_le)

lemma js_div_nonneg [js_bounds]: "0 \<le> a \<Longrightarrow> 0 \<le> b \<Longrightarrow> 0 \<le> js_div a b"
  by (simp add: js_div_def rnd_nonneg)

lemma js_add_exact: "is_double (a + b) \<Longrightarrow> js_add a b = a + b"
  by (simp add: js_add_def is_double_def)

lemma js_sub_exact: "is_double (a - b) \<Longrightarrow> js_sub a b = a - b"
  by (simp add: js_sub_def is_double_def)

lemma js_add_0 [simp]: "is_double a \<Longrightarrow> js_add a 0 = a" "is_double a \<Longrightarrow> js_add 0 a = a"
  by (simp_all add: js_add_def is_double_def)

lemma js_sub_0 [simp]: "is_double a \<Longrightarrow> js_sub a 0 = a"
  by (simp add: js_sub_def is_double_def)

lemma is_double_numeral [simp]:
  "is_double 0" "is_double 1" "(numeral k :: int) \<le> 2 ^ 53 \<Longrightarrow> is_double (numeral k)"
  using is_double_int [of 0] is_double_int [of 1] is_double_int [of "numeral k"] by simp_all

section \<open>Decimal strings\<close>

definition dec_round :: "nat \<Rightarrow> rat \<Rightarrow> rat" where
  "dec_round f x = sgn x * (of_int \<lfloor>\<bar>x\<bar> * 10 ^ f + 1 / 2\<rfloor> / 10 ^ f)"

definition parse_float :: "rat \<Rightarrow> rat" where
  "parse_float d = rnd d"

definition to_fixed :: "nat \<Rightarrow> rat \<Rightarrow> rat" where
  "to_fixed f x = dec_round f x"

definition pg_numeric :: "nat \<Rightarrow> rat \<Rightarrow> rat" where
  "pg_numeric s d = dec_round s d"

definition is_dec :: "nat \<Rightarrow> rat \<Rightarrow> bool" where
  "is_dec s d \<longleftrightarrow> dec_round s d = d"

lemma dec_round_0 [simp]: "dec_round f 0 = 0"
  by (simp add: dec_round_def)

lemma dec_round_minus: "dec_round f (- x) = - dec_round f x"
  by (simp add: dec_round_def)

lemma dec_round_nonneg: "0 \<le> x \<Longrightarrow> 0 \<le> dec_round f x"
  by (simp add: dec_round_def sgn_if)

lemma dec_round_mono: "0 \<le> x \<Longrightarrow> x \<le> y \<Longrightarrow> dec_round f x \<le> dec_round f y"
proof -
  assume a: "0 \<le> x" "x \<le> y"
  have n: "0 \<le> \<lfloor>y * 10 ^ f + 1 / 2\<rfloor>" using a by (simp add: zero_le_floor)
  have "\<lfloor>x * 10 ^ f + 1 / 2\<rfloor> \<le> \<lfloor>y * 10 ^ f + 1 / 2\<rfloor>"
    using a by (intro floor_mono add_mono mult_right_mono) simp_all
  then have "(of_int \<lfloor>x * 10 ^ f + 1 / 2\<rfloor> :: rat) \<le> of_int \<lfloor>y * 10 ^ f + 1 / 2\<rfloor>"
    by (simp only: of_int_le_iff)
  then show ?thesis using a n
    by (cases "x = 0"; cases "y = 0") (auto simp: dec_round_def sgn_if divide_right_mono)
qed

lemma dec_round_of_scaled: "dec_round f (of_int n / 10 ^ f) = of_int n / 10 ^ f"
proof -
  have fl: "\<lfloor>(of_int k :: rat) + 1 / 2\<rfloor> = k" for k by linarith
  have "\<bar>(of_int n / 10 ^ f :: rat)\<bar> * 10 ^ f = of_int \<bar>n\<bar>" by simp
  then have "dec_round f (of_int n / 10 ^ f) = sgn (of_int n / 10 ^ f) * (of_int \<bar>n\<bar> / 10 ^ f)"
    by (simp only: dec_round_def fl)
  then show ?thesis
    by (cases n "0::int" rule: linorder_cases) (simp_all add: sgn_if divide_pos_pos divide_neg_pos not_less less_imp_le)
qed

lemma is_dec_iff: "is_dec f d \<longleftrightarrow> (\<exists>n. d = of_int n / 10 ^ f)"
proof
  assume "is_dec f d"
  then have "d = sgn d * (of_int \<lfloor>\<bar>d\<bar> * 10 ^ f + 1 / 2\<rfloor> / 10 ^ f)"
    by (simp add: is_dec_def dec_round_def)
  then have "d = of_int (sgn \<lfloor>d\<rfloor> * 0 + (if 0 < d then 1 else if d < 0 then - 1 else 0)
      * \<lfloor>\<bar>d\<bar> * 10 ^ f + 1 / 2\<rfloor>) / 10 ^ f"
    by (auto simp: sgn_if split: if_splits)
  then show "\<exists>n. d = of_int n / 10 ^ f" by blast
qed (auto simp: is_dec_def dec_round_of_scaled)

lemma is_dec_dec_round [simp]: "is_dec f (dec_round f x)"
proof -
  have "dec_round f x = of_int ((if 0 < x then 1 else if x < 0 then - 1 else 0)
      * \<lfloor>\<bar>x\<bar> * 10 ^ f + 1 / 2\<rfloor>) / 10 ^ f"
    by (auto simp: dec_round_def sgn_if)
  then show ?thesis unfolding is_dec_iff by blast
qed

lemma dec_round_idem [simp]: "dec_round f (dec_round f x) = dec_round f x"
  using is_dec_dec_round [of f x] unfolding is_dec_def .

lemma dec_round_error: "\<bar>dec_round f x - x\<bar> \<le> 1 / 2 / 10 ^ f"
proof -
  have pos: "\<bar>dec_round f y - y\<bar> \<le> 1 / 2 / 10 ^ f" if "0 < y" for y
  proof -
    have "\<bar>of_int \<lfloor>y * 10 ^ f + 1 / 2\<rfloor> - y * 10 ^ f\<bar> \<le> 1 / 2" by linarith
    then have "\<bar>of_int \<lfloor>y * 10 ^ f + 1 / 2\<rfloor> - y * 10 ^ f\<bar> / 10 ^ f \<le> 1 / 2 / 10 ^ f"
      by (intro divide_right_mono) simp_all
    moreover have "dec_round f y - y = (of_int \<lfloor>y * 10 ^ f + 1 / 2\<rfloor> - y * 10 ^ f) / 10 ^ f"
      using that by (simp add: dec_round_def field_simps)
    then have "\<bar>dec_round f y - y\<bar> = \<bar>of_int \<lfloor>y * 10 ^ f + 1 / 2\<rfloor> - y * 10 ^ f\<bar> / 10 ^ f"
      by (simp add: abs_divide)
    ultimately show ?thesis by simp
  qed
  consider "0 < x" | "x = 0" | "x < 0" by linarith
  then show ?thesis
  proof cases
    case 3
    then have "\<bar>dec_round f (- x) - (- x)\<bar> \<le> 1 / 2 / 10 ^ f" by (intro pos) simp
    then show ?thesis by (simp add: dec_round_minus abs_minus_commute)
  qed (use pos in auto)
qed

lemma dec_round_unique:
  assumes "is_dec f d" and "\<bar>x - d\<bar> < 1 / 2 / 10 ^ f"
  shows "dec_round f x = d"
proof -
  from assms(1) obtain n where d: "d = of_int n / 10 ^ f" by (auto simp: is_dec_iff)
  from is_dec_dec_round [of f x] obtain m where m: "dec_round f x = of_int m / 10 ^ f"
    by (auto simp: is_dec_iff)
  have "\<bar>dec_round f x - d\<bar> < 1 / 10 ^ f"
    using dec_round_error [of f x] assms(2) by (simp add: abs_if split: if_splits)
  then have "\<bar>of_int (m - n) / 10 ^ f :: rat\<bar> < 1 / 10 ^ f"
    using m d by (simp add: diff_divide_distrib)
  then have "\<bar>of_int (m - n) :: rat\<bar> < 1"
    by (simp add: abs_divide divide_less_cancel)
  then have "m = n" by linarith
  with m d show ?thesis by simp
qed

text \<open>Reading a decimal column as a number and writing it back with \<open>toFixed\<close> loses nothing
  as long as the value has at most 52 bits of units in the last place.\<close>

lemma to_fixed_parse_float:
  assumes "is_dec f d" and "\<bar>d\<bar> * 10 ^ f < 2 ^ 52"
  shows "to_fixed f (parse_float d) = d"
  unfolding to_fixed_def parse_float_def
proof (rule dec_round_unique [OF assms(1)])
  have "\<bar>d\<bar> * 2 powi - 53 * 10 ^ f < 2 ^ 52 * 2 powi - 53"
    using mult_strict_right_mono [OF assms(2), of "2 powi - 53"] by (simp add: mult.commute mult.left_commute)
  then have "\<bar>d\<bar> * 2 powi - 53 < 1 / 2 / 10 ^ f" by (simp add: power_int_minus field_simps)
  with rnd_error [of d] show "\<bar>rnd d - d\<bar> < 1 / 2 / 10 ^ f" by linarith
qed

section \<open>\<open>Number.prototype.toString\<close>\<close>

fun log10n :: "nat \<Rightarrow> nat" where
  "log10n n = (if n < 10 then 0 else Suc (log10n (n div 10)))"

declare log10n.simps [simp del]

definition ilog10 :: "rat \<Rightarrow> int" where
  "ilog10 x = (if 1 \<le> x then int (log10n (nat \<lfloor>x\<rfloor>))
     else - int (Suc (log10n (nat (\<lceil>1 / x\<rceil> - 1)))))"

definition digits_cand :: "nat \<Rightarrow> rat \<Rightarrow> rat option" where
  "digits_cand k x =
     (let q = 10 powi (ilog10 x + 1 - int k);
          lo = of_int \<lfloor>x / q\<rfloor> * q; hi = of_int (\<lfloor>x / q\<rfloor> + 1) * q
      in if rnd lo = x \<and> (rnd hi = x \<longrightarrow> x - lo \<le> hi - x) then Some lo
         else if rnd hi = x then Some hi else None)"

fun shortest :: "nat \<Rightarrow> nat \<Rightarrow> rat \<Rightarrow> rat" where
  "shortest k 0 x = x"
| "shortest k (Suc fuel) x =
     (case digits_cand k x of Some d \<Rightarrow> d | None \<Rightarrow> shortest (Suc k) fuel x)"

definition num_to_string :: "rat \<Rightarrow> rat" where
  "num_to_string x = sgn x * shortest 1 17 \<bar>x\<bar>"

lemma rnd_shortest: "is_double x \<Longrightarrow> rnd (shortest k n x) = x"
proof (induction k n x rule: shortest.induct)
  case (2 k fuel x)
  have "digits_cand k x = Some d \<Longrightarrow> rnd d = x" for d
    by (auto simp: digits_cand_def Let_def split: if_splits)
  with 2 show ?case by (auto split: option.splits)
qed (simp add: is_double_def)

lemma is_double_abs: "is_double x \<Longrightarrow> is_double \<bar>x\<bar>"
  by (simp add: is_double_def abs_if rnd_minus)

lemma parse_float_to_string: "is_double x \<Longrightarrow> parse_float (num_to_string x) = x"
  using rnd_shortest [OF is_double_abs, of x 1 17]
  by (auto simp: num_to_string_def parse_float_def sgn_if rnd_minus abs_if split: if_splits)


lemma num_to_string_nonneg [js_bounds]: "is_double x \<Longrightarrow> 0 \<le> x \<Longrightarrow> 0 \<le> num_to_string x"
  using parse_float_to_string [of x] rnd_neg [of "num_to_string x"]
  by (fastforce simp: parse_float_def)

lemma dec_round_10pow_le: "d \<le> x \<Longrightarrow> is_dec f d \<Longrightarrow> 0 \<le> d \<Longrightarrow> d \<le> dec_round f x"
  using dec_round_mono [of d x f] by (simp add: is_dec_def)

lemma is_dec_int [simp]: "is_dec f (of_int n)"
  unfolding is_dec_iff by (rule exI [of _ "n * 10 ^ f"]) simp

lemma is_dec_numeral [simp]: "is_dec f 0" "is_dec f 1" "is_dec f (numeral k)"
  using is_dec_int [of f 0] is_dec_int [of f 1] is_dec_int [of f "numeral k"] by simp_all

lemma to_fixed_dec [simp]: "is_dec f x \<Longrightarrow> to_fixed f x = x"
  by (simp add: to_fixed_def is_dec_def)

lemma pg_numeric_dec [simp]: "is_dec f x \<Longrightarrow> pg_numeric f x = x"
  by (simp add: pg_numeric_def is_dec_def)

lemma is_dec_to_fixed [simp]: "is_dec f (to_fixed f x)" "is_dec f (pg_numeric f x)"
  by (simp_all add: to_fixed_def pg_numeric_def)

lemma to_fixed_nonneg [js_bounds]: "0 \<le> x \<Longrightarrow> 0 \<le> to_fixed f x" "0 \<le> x \<Longrightarrow> 0 \<le> pg_numeric f x"
  by (simp_all add: to_fixed_def pg_numeric_def dec_round_nonneg)

lemma to_fixed_mono: "0 \<le> x \<Longrightarrow> x \<le> y \<Longrightarrow> to_fixed f x \<le> to_fixed f y"
  by (simp add: to_fixed_def dec_round_mono)

text \<open>Sums of decimals, and decimals that a printed or stored number approximates.\<close>

lemma is_dec_add: "is_dec f x \<Longrightarrow> is_dec f y \<Longrightarrow> is_dec f (x + y)"
  by (auto simp: is_dec_iff) (metis add_divide_distrib of_int_add)

lemma is_dec_diff: "is_dec f x \<Longrightarrow> is_dec f y \<Longrightarrow> is_dec f (x - y)"
  by (auto simp: is_dec_iff) (metis diff_divide_distrib of_int_diff)

lemma is_dec_sum_list: "(\<And>x. x \<in> set xs \<Longrightarrow> is_dec f x) \<Longrightarrow> is_dec f (sum_list xs)"
  by (induction xs) (auto intro: is_dec_add)

lemma printed_error: "is_double x \<Longrightarrow> \<bar>num_to_string x - x\<bar> \<le> \<bar>num_to_string x\<bar> * 2 powi - 53"
  using rnd_error [of "num_to_string x"] parse_float_to_string [of x] by (simp add: parse_float_def abs_minus_commute)

lemma pg_numeric_at_most:
  assumes "is_dec f d" and "0 \<le> x" and "x - d < 1 / 2 / 10 ^ f"
  shows "pg_numeric f x \<le> d"
proof (cases "x \<le> d")
  case True
  with assms(1,2) dec_round_mono [of x d f] show ?thesis by (simp add: pg_numeric_def is_dec_def)
next
  case False
  with assms dec_round_unique [of f d x] show ?thesis by (simp add: pg_numeric_def)
qed

lemma parse_float_nonneg [js_bounds]: "0 \<le> d \<Longrightarrow> 0 \<le> parse_float d"
  by (simp add: parse_float_def rnd_nonneg)

lemma parse_float_mono: "d \<le> e \<Longrightarrow> parse_float d \<le> parse_float e"
  by (simp add: parse_float_def rnd_mono)

lemma parse_float_double [simp]: "is_double (parse_float d)"
  by (simp add: parse_float_def)

lemma parse_float_id [simp]: "is_double d \<Longrightarrow> parse_float d = d"
  by (simp add: parse_float_def is_double_def)

lemma parse_float_0_iff [simp]: "parse_float d = 0 \<longleftrightarrow> d = 0"
  by (simp add: parse_float_def)

lemma parse_float_pos_iff [simp]: "0 < parse_float d \<longleftrightarrow> 0 < d" "parse_float d \<le> 0 \<longleftrightarrow> d \<le> 0"
  using rnd_pos [of d] rnd_neg [of d]
  by (cases d "0 :: rat" rule: linorder_cases; simp add: parse_float_def)+

text \<open>Integers below \<open>2 ^ 53\<close> print exactly.\<close>

lemma log10n_bounds: "0 < n \<Longrightarrow> 10 ^ log10n n \<le> n"
proof (induction n rule: log10n.induct)
  case (1 n)
  show ?case
  proof (cases "n < 10")
    case False
    with 1 have "10 ^ log10n (n div 10) \<le> n div 10" by simp
    with False show ?thesis by (auto simp: log10n.simps [of n])
  qed (use 1 in \<open>simp add: log10n.simps [of n]\<close>)
qed

lemma digits_cand_scaled:
  assumes "digits_cand k x = Some d"
  shows "\<exists>m. d = of_int m * 10 powi (ilog10 x + 1 - int k) \<and> rnd d = x"
proof -
  let ?q = "(10::rat) powi (ilog10 x + 1 - int k)"
  from assms have "(d = of_int \<lfloor>x / ?q\<rfloor> * ?q \<or> d = of_int (\<lfloor>x / ?q\<rfloor> + 1) * ?q) \<and> rnd d = x"
    unfolding digits_cand_def Let_def by (metis option.distinct(1) option.inject)
  then show ?thesis by blast
qed

lemma digits_cand_int:
  assumes n: "0 < n" "n < 2 ^ 53" and k: "int k \<le> ilog10 (of_int n) + 1"
    and d: "digits_cand k (of_int n) = Some d"
  shows "d = of_int n"
proof -
  let ?j = "ilog10 (of_int n) + 1 - int k"
  have q: "(10::rat) powi ?j = of_int (10 ^ nat ?j)" using k by (simp add: power_int_def)
  from d obtain m where m: "d = of_int m * 10 powi ?j" and r: "rnd d = of_int n"
    using digits_cand_scaled [OF d] by blast
  then have dm: "d = of_int (m * 10 ^ nat ?j)" using q by simp
  show ?thesis
  proof (cases "m * 10 ^ nat ?j \<le> 2 ^ 53")
    case True
    have "0 < m * 10 ^ nat ?j"
    proof (rule ccontr)
      assume "\<not> 0 < m * 10 ^ nat ?j"
      then have "d \<le> 0" using dm by (simp del: of_int_mult of_int_power)
      then have "rnd d \<le> 0" using rnd_mono [of d 0] by simp
      with r n show False by simp
    qed
    with True is_double_int [of "m * 10 ^ nat ?j"] r dm show ?thesis by (simp add: is_double_def)
  next
    case False
    then have "(2 ^ 53 :: int) \<le> m * 10 ^ nat ?j" by linarith
    then have "of_int (2 ^ 53) \<le> d" unfolding dm by (simp only: of_int_le_iff)
    then have "of_int (2 ^ 53) \<le> rnd d" by (rule rnd_ge) (rule is_double_int, simp)
    with r n show ?thesis by (metis not_le of_int_less_iff)
  qed
qed

lemma shortest_int:
  assumes n: "0 < n" "n < 2 ^ 53"
  shows "int k \<le> ilog10 (of_int n) + 1 \<Longrightarrow> ilog10 (of_int n) + 1 < int (k + fuel) \<Longrightarrow>
    shortest k fuel (of_int n) = of_int n"
proof (induction k fuel "of_int n :: rat" rule: shortest.induct)
  case (2 k fuel)
  show ?case
  proof (cases "digits_cand k (of_int n)")
    case None
    have "int k \<noteq> ilog10 (of_int n) + 1"
    proof
      assume "int k = ilog10 (of_int n) + 1"
      moreover have "rnd (of_int n) = of_int n"
        using is_double_int [of n] n by (simp add: is_double_def)
      ultimately have "digits_cand k (of_int n) \<noteq> None" by (simp add: digits_cand_def)
      with None show False by simp
    qed
    with 2 None show ?thesis by simp
  next
    case (Some d)
    with digits_cand_int [OF n] 2 show ?thesis by simp
  qed
qed simp

lemma num_to_string_int_pos: "0 < n \<Longrightarrow> n < 2 ^ 53 \<Longrightarrow> num_to_string (of_int n) = of_int n"
proof -
  assume n: "0 < n" "n < 2 ^ 53"
  have il: "ilog10 (of_int n) = int (log10n (nat n))" using n by (simp add: ilog10_def)
  have "10 ^ log10n (nat n) \<le> nat n" using n by (intro log10n_bounds) simp
  also have "nat n < 2 ^ 53" using n by (simp add: nat_less_iff)
  also have "(2 ^ 53 :: nat) < 10 ^ 16" by simp
  finally have "log10n (nat n) < 16" by (rule power_less_imp_less_exp [rotated]) simp
  then have "shortest 1 17 (of_int n) = of_int n" using il by (intro shortest_int n) auto
  with n show ?thesis by (simp add: num_to_string_def)
qed

lemma num_to_string_int: "\<bar>n\<bar> < 2 ^ 53 \<Longrightarrow> num_to_string (of_int n) = of_int n"
  using num_to_string_int_pos [of n] num_to_string_int_pos [of "- n"]
  by (cases n "0::int" rule: linorder_cases) (simp_all add: num_to_string_def sgn_if)

lemma num_to_string_numeral [simp]:
  "num_to_string 0 = 0" "num_to_string 1 = 1"
  "(numeral k :: int) < 2 ^ 53 \<Longrightarrow> num_to_string (numeral k) = numeral k"
  using num_to_string_int [of 0] num_to_string_int [of 1] num_to_string_int [of "numeral k"]
  by simp_all

text \<open>Sums and differences of small integers are exact.\<close>

lemma js_numeral_exact:
  "\<bar>m + n\<bar> \<le> 2 ^ 53 \<Longrightarrow> js_add (of_int m) (of_int n) = of_int (m + n)"
  "\<bar>m - n\<bar> \<le> 2 ^ 53 \<Longrightarrow> js_sub (of_int m) (of_int n) = of_int (m - n)"
  "\<bar>m * n\<bar> \<le> 2 ^ 53 \<Longrightarrow> js_mul (of_int m) (of_int n) = of_int (m * n)"
  using is_double_int [of "m + n"] is_double_int [of "m - n"] is_double_int [of "m * n"]
  by (simp_all add: js_add_def js_sub_def js_mul_def is_double_def)

lemma rnd_numeral [simp]:
  "rnd 1 = 1" "(numeral k :: int) \<le> 2 ^ 53 \<Longrightarrow> rnd (numeral k) = numeral k"
  "(numeral k :: int) \<le> 2 ^ 53 \<Longrightarrow> rnd (- numeral k) = - numeral k"
  using is_double_numeral(2) is_double_numeral(3) [of k]
  by (simp_all add: is_double_def rnd_minus del: is_double_numeral)

section \<open>Relative error\<close>

text \<open>\<open>close k x y\<close>: \<open>x\<close> and \<open>y\<close> differ at most by the relative error of \<open>k\<close> roundings.\<close>

definition unit_roundoff :: rat where
  "unit_roundoff = 2 powi - 53"

definition close :: "nat \<Rightarrow> rat \<Rightarrow> rat \<Rightarrow> bool" where
  "close k x y \<longleftrightarrow> y * (1 - unit_roundoff) ^ k \<le> x \<and> x * (1 - unit_roundoff) ^ k \<le> y"

lemma unit_roundoff_eq: "unit_roundoff = 1 / 9007199254740992"
  by (simp add: unit_roundoff_def power_int_def power_one_over)

lemma unit_roundoff_bounds: "0 < unit_roundoff" "unit_roundoff < 1"
  by (simp_all add: unit_roundoff_eq)

lemma close_power: "0 < (1 - unit_roundoff) ^ k" "(1 - unit_roundoff) ^ k \<le> 1"
  using unit_roundoff_bounds by (auto intro: power_le_one)

lemma close_refl [simp]: "0 \<le> x \<Longrightarrow> close k x x"
  by (simp add: close_def close_power mult_left_le)

lemma close_nonneg: "close k x y \<Longrightarrow> 0 \<le> y \<Longrightarrow> 0 \<le> x"
  unfolding close_def using close_power(1) [of k] by (meson less_eq_rat_def mult_nonneg_nonneg order_trans)

lemma close_mono:
  assumes "close j x y" and "j \<le> k" and "0 \<le> y"
  shows "close k x y"
proof -
  have "(1 - unit_roundoff) ^ k \<le> (1 - unit_roundoff) ^ j"
    using unit_roundoff_bounds assms(2) by (intro power_decreasing) auto
  with close_nonneg [OF assms(1,3)] assms(1,3) show ?thesis
    unfolding close_def by (meson mult_left_mono order_trans)
qed

lemma close_rnd:
  assumes "close k x y" and "0 \<le> y"
  shows "close (Suc k) (rnd x) y"
proof -
  note x = close_nonneg [OF assms]
  let ?g = "(1 - unit_roundoff) ^ k"
  from rnd_error [of x] x have "\<bar>rnd x - x\<bar> \<le> x * unit_roundoff" by (simp add: unit_roundoff_def)
  then have r: "x * (1 - unit_roundoff) \<le> rnd x" "rnd x \<le> x * (1 + unit_roundoff)"
    unfolding abs_le_iff right_diff_distrib distrib_left by simp_all
  have "y * ?g * (1 - unit_roundoff) \<le> x * (1 - unit_roundoff)"
    using assms(1) unit_roundoff_bounds by (intro mult_right_mono) (auto simp: close_def)
  with r(1) have lower: "y * (1 - unit_roundoff) ^ Suc k \<le> rnd x" by (simp add: mult_ac)
  have "rnd x * (1 - unit_roundoff) \<le> x * (1 + unit_roundoff) * (1 - unit_roundoff)"
    using r(2) unit_roundoff_bounds by (intro mult_right_mono) auto
  also have "\<dots> = x * (1 - unit_roundoff * unit_roundoff)" by (simp add: algebra_simps)
  also have "\<dots> \<le> x * 1" using x by (intro mult_left_mono) auto
  finally have "rnd x * (1 - unit_roundoff) * ?g \<le> x * ?g"
    using close_power(1) [of k] by (intro mult_right_mono) auto
  also have "\<dots> \<le> y" using assms(1) by (simp add: close_def)
  finally show ?thesis using lower by (simp add: close_def mult_ac)
qed

lemma close_add: "close k x y \<Longrightarrow> close k x' y' \<Longrightarrow> close k (x + x') (y + y')"
  by (auto simp: close_def distrib_right)

lemma close_scale: "close k x y \<Longrightarrow> 0 \<le> c \<Longrightarrow> close k (x * c) (y * c)"
  unfolding close_def using mult_right_mono by (metis mult.assoc mult.commute)

lemma close_pos: "close k x y \<Longrightarrow> 0 < y \<Longrightarrow> 0 < x"
  unfolding close_def using close_power(1) [of k] by (meson less_le_trans mult_pos_pos)

lemma close_div:
  assumes "close j a b" and "close k c d" and "0 \<le> b" and "0 < d"
  shows "close (j + k) (a / c) (b / d)"
proof -
  let ?g = "\<lambda>k. (1 - unit_roundoff) ^ k"
  have c: "0 < c" and a: "0 \<le> a" using close_pos assms(2,4) close_nonneg assms(1,3) by blast+
  have "(b * ?g j) * (c * ?g k) \<le> a * d"
    using assms close_power(1) [of j] close_power(1) [of k] c a by (intro mult_mono) (auto simp: close_def)
  moreover have "(a * ?g j) * (d * ?g k) \<le> b * c"
    using assms close_power(1) [of j] close_power(1) [of k] c a by (intro mult_mono) (auto simp: close_def)
  ultimately show ?thesis using c assms(4) by (simp add: close_def power_add field_simps)
qed

lemma close_bounds:
  assumes "close k x y" and "0 \<le> y" and "of_nat k * unit_roundoff \<le> e"
  shows "y * (1 - e) \<le> x" and "x * (1 - e) \<le> y"
proof -
  have "1 + of_nat k * (- unit_roundoff) \<le> (1 + (- unit_roundoff)) ^ k"
    using unit_roundoff_bounds by (intro Bernoulli_inequality) auto
  with assms(3) have g: "1 - e \<le> (1 - unit_roundoff) ^ k" by simp
  show "y * (1 - e) \<le> x" using mult_left_mono [OF g assms(2)] assms(1) by (simp add: close_def)
  show "x * (1 - e) \<le> y" using mult_left_mono [OF g close_nonneg [OF assms(1,2)]] assms(1) by (simp add: close_def)
qed

end
