(* ===== verification/Prelude.thy ===== *)
theory Prelude
  imports JsNumber "HOL-Library.AList"
begin

text \<open>
  What every component shares: the exceptions of the framework, operations that read and write a
  state and may throw (\<open>op\<close>), database transactions that roll back, sequential loops, and tables.
  An exception carries the message text of the source; an interpolated message is carried as its
  template. A thrown exception keeps the state reached so far, because effects made outside a
  database transaction are not undone.
\<close>

section \<open>Exceptions and operations\<close>

datatype exn =
    BadRequestException string
  | NotFoundException string
  | ForbiddenException string
  | UnauthorizedException string
  | UnprocessableEntityException string
  | ConflictException string
  | InternalServerErrorException string
  | ThrottlerException string
  | HttpException int string
  | PlainError string

text \<open>\<open>err.message\<close>.\<close>

fun exn_message :: "exn \<Rightarrow> string" where
  "exn_message (BadRequestException m) = m"
| "exn_message (NotFoundException m) = m"
| "exn_message (ForbiddenException m) = m"
| "exn_message (UnauthorizedException m) = m"
| "exn_message (UnprocessableEntityException m) = m"
| "exn_message (ConflictException m) = m"
| "exn_message (InternalServerErrorException m) = m"
| "exn_message (ThrottlerException m) = m"
| "exn_message (PlainError m) = m"
| "exn_message (HttpException status m) = m"

type_synonym ('s, 'a) op = "'s \<Rightarrow> (exn + 'a) \<times> 's"

definition ret :: "'a \<Rightarrow> ('s, 'a) op" where
  "ret a s = (Inr a, s)"

definition throw :: "exn \<Rightarrow> ('s, 'a) op" where
  "throw e s = (Inl e, s)"

definition bindE :: "('s, 'a) op \<Rightarrow> ('a \<Rightarrow> ('s, 'b) op) \<Rightarrow> ('s, 'b) op" where
  "bindE m f s = (case m s of (Inl e, t) \<Rightarrow> (Inl e, t) | (Inr a, t) \<Rightarrow> f a t)"

definition gets :: "('s \<Rightarrow> 'a) \<Rightarrow> ('s, 'a) op" where
  "gets f s = (Inr (f s), s)"

definition modify :: "('s \<Rightarrow> 's) \<Rightarrow> ('s, unit) op" where
  "modify f s = (Inr (), f s)"

definition require :: "bool \<Rightarrow> exn \<Rightarrow> ('s, unit) op" where
  "require c e = (if c then ret () else throw e)"

definition from_option :: "exn \<Rightarrow> 'a option \<Rightarrow> ('s, 'a) op" where
  "from_option e x = (case x of None \<Rightarrow> throw e | Some a \<Rightarrow> ret a)"

definition from_sum :: "exn + 'a \<Rightarrow> ('s, 'a) op" where
  "from_sum x s = (x, s)"

definition tryE :: "('s, 'a) op \<Rightarrow> (exn \<Rightarrow> ('s, 'a) op) \<Rightarrow> ('s, 'a) op" where
  "tryE m h s = (case m s of (Inl e, t) \<Rightarrow> h e t | (Inr a, t) \<Rightarrow> (Inr a, t))"

text \<open>A database transaction: when its body throws, the tables it writes through are restored by
  \<open>rollback\<close> (which receives the state before and after), everything else stays.\<close>

definition transactionE :: "('s \<Rightarrow> 's \<Rightarrow> 's) \<Rightarrow> ('s, 'a) op \<Rightarrow> ('s, 'a) op" where
  "transactionE rollback m s =
     (case m s of (Inl e, t) \<Rightarrow> (Inl e, rollback s t) | (Inr a, t) \<Rightarrow> (Inr a, t))"

fun forE :: "'x list \<Rightarrow> ('x \<Rightarrow> ('s, unit) op) \<Rightarrow> ('s, unit) op" where
  "forE [] f = ret ()"
| "forE (x # xs) f = bindE (f x) (\<lambda>_. forE xs f)"

lemmas op_defs = ret_def throw_def bindE_def gets_def modify_def require_def from_option_def
  from_sum_def tryE_def transactionE_def

subsection \<open>Outcomes of composed operations\<close>

named_theorems op_iff \<open>When does a composed operation return, or throw?\<close>

lemma bindE_Inr [op_iff]:
  "bindE m f s = (Inr b, t) \<longleftrightarrow> (\<exists>a u. m s = (Inr a, u) \<and> f a u = (Inr b, t))"
  by (auto simp: bindE_def split: prod.splits sum.splits)

lemma bindE_Inl [op_iff]:
  "bindE m f s = (Inl e, t) \<longleftrightarrow>
     m s = (Inl e, t) \<or> (\<exists>a u. m s = (Inr a, u) \<and> f a u = (Inl e, t))"
  by (auto simp: bindE_def split: prod.splits sum.splits)

lemma ret_iff [op_iff]: "ret a s = (r, t) \<longleftrightarrow> r = Inr a \<and> t = s"
  by (auto simp: ret_def)

lemma throw_iff [op_iff]: "throw e s = (r, t) \<longleftrightarrow> r = Inl e \<and> t = s"
  by (auto simp: throw_def)

lemma gets_iff [op_iff]: "gets f s = (r, t) \<longleftrightarrow> r = Inr (f s) \<and> t = s"
  by (auto simp: gets_def)

lemma modify_iff [op_iff]: "modify f s = (r, t) \<longleftrightarrow> r = Inr () \<and> t = f s"
  by (auto simp: modify_def)

lemma require_Inr [op_iff]: "require c e s = (Inr u, t) \<longleftrightarrow> c \<and> t = s"
  by (auto simp: require_def op_iff)

lemma require_Inl [op_iff]: "require c e s = (Inl e', t) \<longleftrightarrow> \<not> c \<and> e' = e \<and> t = s"
  by (auto simp: require_def op_iff)

lemma from_option_Inr [op_iff]: "from_option e x s = (Inr a, t) \<longleftrightarrow> x = Some a \<and> t = s"
  by (auto simp: from_option_def op_iff split: option.splits)

lemma from_option_Inl [op_iff]: "from_option e x s = (Inl e', t) \<longleftrightarrow> x = None \<and> e' = e \<and> t = s"
  by (auto simp: from_option_def op_iff split: option.splits)

lemma from_sum_iff [op_iff]: "from_sum x s = (r, t) \<longleftrightarrow> x = r \<and> t = s"
  by (auto simp: from_sum_def)

lemma tryE_Inr [op_iff]:
  "tryE m h s = (Inr a, t) \<longleftrightarrow>
     m s = (Inr a, t) \<or> (\<exists>e u. m s = (Inl e, u) \<and> h e u = (Inr a, t))"
  by (auto simp: tryE_def split: prod.splits sum.splits)

lemma tryE_Inl [op_iff]:
  "tryE m h s = (Inl e, t) \<longleftrightarrow> (\<exists>e' u. m s = (Inl e', u) \<and> h e' u = (Inl e, t))"
  by (auto simp: tryE_def split: prod.splits sum.splits)

lemma transactionE_Inr [op_iff]: "transactionE r m s = (Inr a, t) \<longleftrightarrow> m s = (Inr a, t)"
  by (auto simp: transactionE_def split: prod.splits sum.splits)

lemma transactionE_Inl [op_iff]:
  "transactionE r m s = (Inl e, t) \<longleftrightarrow> (\<exists>u. m s = (Inl e, u) \<and> t = r s u)"
  by (auto simp: transactionE_def split: prod.splits sum.splits)

text \<open>An operation on a part of the state.\<close>

definition zoomE :: "('s \<Rightarrow> 't) \<Rightarrow> ('t \<Rightarrow> 's \<Rightarrow> 's) \<Rightarrow> ('t, 'a) op \<Rightarrow> ('s, 'a) op" where
  "zoomE get put m s = (case m (get s) of (r, t) \<Rightarrow> (r, put t s))"

lemma zoomE_iff [op_iff]: "zoomE get put m s = (r, t) \<longleftrightarrow> (\<exists>u. m (get s) = (r, u) \<and> t = put u s)"
  by (auto simp: zoomE_def split: prod.splits)

text \<open>An operation that only reads a part of the state.\<close>

definition readE :: "('s \<Rightarrow> 't) \<Rightarrow> ('t, 'a) op \<Rightarrow> ('s, 'a) op" where
  "readE get m s = (fst (m (get s)), s)"

lemma readE_iff [op_iff]: "readE get m s = (r, t) \<longleftrightarrow> (\<exists>u. m (get s) = (r, u)) \<and> t = s"
  by (auto simp: readE_def) (metis prod.collapse)

text \<open>A local object that an operation changes in place. What was assigned before an exception is still seen by
  the handler of the exception.\<close>

definition lift_op :: "('s, 'a) op \<Rightarrow> ('s \<times> 'v, 'a) op" where
  "lift_op m = zoomE fst (\<lambda>s p. (s, snd p)) m"

definition assign_obj :: "('v \<Rightarrow> 'v) \<Rightarrow> ('s \<times> 'v, unit) op" where
  "assign_obj f = modify (\<lambda>(s, v). (s, f v))"

definition run_obj :: "'v \<Rightarrow> ('s \<times> 'v, 'a) op \<Rightarrow> ('s, 'a) op" where
  "run_obj v m s = (case m (s, v) of (r, (t, w)) \<Rightarrow> (r, t))"

lemma lift_op_iff [op_iff]: "lift_op m p = (r, q) \<longleftrightarrow> m (fst p) = (r, fst q) \<and> snd q = snd p"
  by (cases q) (auto simp: lift_op_def op_iff)

lemma assign_obj_iff [op_iff]: "assign_obj f p = (r, q) \<longleftrightarrow> r = Inr () \<and> q = (fst p, f (snd p))"
  by (cases p) (auto simp: assign_obj_def op_iff)

lemma run_obj_iff [op_iff]: "run_obj v m s = (r, t) \<longleftrightarrow> (\<exists>w. m (s, v) = (r, (t, w)))"
  by (auto simp: run_obj_def split: prod.splits)

subsection \<open>Preserved predicates\<close>

definition preserves :: "('s \<Rightarrow> bool) \<Rightarrow> ('s, 'a) op \<Rightarrow> bool" where
  "preserves P m \<longleftrightarrow> (\<forall>s. P s \<longrightarrow> P (snd (m s)))"

named_theorems pres \<open>Composition rules for preserved predicates\<close>

lemma preservesD: "preserves P m \<Longrightarrow> P s \<Longrightarrow> m s = (r, t) \<Longrightarrow> P t"
  unfolding preserves_def by (metis snd_conv)

lemma preserves_ret [pres]: "preserves P (ret a)"
  by (simp add: preserves_def ret_def)

lemma preserves_throw [pres]: "preserves P (throw e)"
  by (simp add: preserves_def throw_def)

lemma preserves_gets [pres]: "preserves P (gets f)"
  by (simp add: preserves_def gets_def)

lemma preserves_require [pres]: "preserves P (require c e)"
  by (simp add: preserves_def require_def ret_def throw_def)

lemma preserves_from_option [pres]: "preserves P (from_option e x)"
  by (simp add: preserves_def from_option_def ret_def throw_def split: option.splits)

lemma preserves_from_sum [pres]: "preserves P (from_sum x)"
  by (simp add: preserves_def from_sum_def)

lemma preserves_modify [pres]: "(\<And>s. P s \<Longrightarrow> P (f s)) \<Longrightarrow> preserves P (modify f)"
  by (simp add: preserves_def modify_def)

lemma preserves_bindE [pres]:
  "preserves P m \<Longrightarrow> (\<And>a. preserves P (f a)) \<Longrightarrow> preserves P (bindE m f)"
  unfolding preserves_def bindE_def by (auto split: prod.splits sum.splits)

lemma preserves_tryE [pres]:
  "preserves P m \<Longrightarrow> (\<And>e. preserves P (h e)) \<Longrightarrow> preserves P (tryE m h)"
  unfolding preserves_def tryE_def by (auto split: prod.splits sum.splits)

lemma preserves_transactionE [pres]:
  "preserves P m \<Longrightarrow> (\<And>s t. P s \<Longrightarrow> P t \<Longrightarrow> P (r s t)) \<Longrightarrow> preserves P (transactionE r m)"
  unfolding preserves_def transactionE_def by (auto split: prod.splits sum.splits)

lemma preserves_readE [pres]: "preserves P (readE get m)"
  by (simp add: preserves_def readE_def)

lemma preserves_zoomE [pres]: "(\<And>u s. P s \<Longrightarrow> P (put u s)) \<Longrightarrow> preserves P (zoomE get put m)"
  by (simp add: preserves_def zoomE_def split: prod.split)

definition objP :: "('s \<Rightarrow> bool) \<Rightarrow> 's \<times> 'v \<Rightarrow> bool" where
  "objP P p \<longleftrightarrow> P (fst p)"

lemma preserves_lift_op [pres]: "preserves P m \<Longrightarrow> preserves (objP P) (lift_op m)"
  by (auto simp: preserves_def objP_def lift_op_def zoomE_def split: prod.splits)

lemma preserves_assign_obj [pres]: "preserves (objP P) (assign_obj f)"
  by (auto simp: preserves_def objP_def assign_obj_def modify_def)

lemma preserves_run_obj [pres]: "preserves (objP P) m \<Longrightarrow> preserves P (run_obj v m)"
  by (auto simp: preserves_def objP_def run_obj_def split: prod.splits) (metis fst_conv snd_conv)

lemma preserves_if [pres]:
  "preserves P m \<Longrightarrow> preserves P n \<Longrightarrow> preserves P (if c then m else n)"
  by simp

lemma preserves_option [pres]:
  "preserves P m \<Longrightarrow> (\<And>a. preserves P (f a)) \<Longrightarrow>
    preserves P (case x of None \<Rightarrow> m | Some a \<Rightarrow> f a)"
  by (cases x) simp_all

lemma preserves_forE [pres]: "(\<And>x. preserves P (f x)) \<Longrightarrow> preserves P (forE xs f)"
  by (induction xs) (auto intro: pres)

text \<open>A loop whose body keeps an invariant over the elements still to come.\<close>

lemma forE_invariant:
  assumes "forE xs f s = (r, t)" and "I xs s"
    and "\<And>x xs s r t. I (x # xs) s \<Longrightarrow> f x s = (r, t) \<Longrightarrow> I xs t"
  shows "\<exists>ys. I ys t"
  using assms(1,2)
proof (induction xs arbitrary: s)
  case Nil
  then show ?case by (auto simp: op_iff)
next
  case (Cons x xs)
  obtain r' u where fx: "f x s = (r', u)" by fastforce
  from assms(3) [OF Cons.prems(2) fx] have "I xs u" .
  with Cons fx show ?case by (cases r') (auto simp: bindE_def)
qed

text \<open>A loop whose body never throws while the invariant holds.\<close>

lemma forE_total:
  assumes "I xs s" and "\<And>x xs s. I (x # xs) s \<Longrightarrow> \<exists>t. f x s = (Inr (), t) \<and> I xs t"
  shows "\<exists>t. forE xs f s = (Inr (), t) \<and> I [] t"
  using assms(1)
proof (induction xs arbitrary: s)
  case (Cons x xs)
  from assms(2) [OF Cons.prems] obtain u where "f x s = (Inr (), u)" "I xs u" by blast
  with Cons.IH show ?case by (auto simp: bindE_def)
qed (simp add: ret_def)

section \<open>Tables\<close>

type_synonym 'v table = "(string \<times> 'v) list"

definition tbl_find :: "string \<Rightarrow> 'v table \<Rightarrow> 'v option" where
  "tbl_find k t = map_of t k"

definition tbl_save :: "string \<Rightarrow> 'v \<Rightarrow> 'v table \<Rightarrow> 'v table" where
  "tbl_save k v t = AList.update k v t"

definition tbl_update :: "string \<Rightarrow> ('v \<Rightarrow> 'v) \<Rightarrow> 'v table \<Rightarrow> 'v table" where
  "tbl_update k f t = map (\<lambda>(j, v). if j = k then (j, f v) else (j, v)) t"

definition tbl_remove :: "string \<Rightarrow> 'v table \<Rightarrow> 'v table" where
  "tbl_remove k t = filter (\<lambda>(j, v). j \<noteq> k) t"

text \<open>The repository interface: what the services rely on when they read and write rows by id.
  \<open>save\<close> inserts or replaces a row, \<open>update\<close> changes a row if it is there.\<close>

locale repository =
  fixes find :: "'k \<Rightarrow> 't \<Rightarrow> 'v option"
    and save :: "'k \<Rightarrow> 'v \<Rightarrow> 't \<Rightarrow> 't"
    and modify :: "'k \<Rightarrow> ('v \<Rightarrow> 'v) \<Rightarrow> 't \<Rightarrow> 't"
    and remove :: "'k \<Rightarrow> 't \<Rightarrow> 't"
  assumes find_save: "find j (save k v t) = (if j = k then Some v else find j t)"
    and find_modify: "find j (modify k f t) = (if j = k then map_option f (find k t) else find j t)"
    and find_remove: "find j (remove k t) = (if j = k then None else find j t)"
begin

lemma find_save_same [simp]: "find k (save k v t) = Some v"
  by (simp add: find_save)

lemma find_save_other [simp]: "j \<noteq> k \<Longrightarrow> find j (save k v t) = find j t"
  by (simp add: find_save)

lemma find_modify_Some:
  "find k t = Some v \<Longrightarrow> find j (modify k f t) = (if j = k then Some (f v) else find j t)"
  by (simp add: find_modify)

lemma find_modify_None: "find k t = None \<Longrightarrow> find j (modify k f t) = find j t"
  by (simp add: find_modify)

lemma save_all:
  "(\<And>j w. find j t = Some w \<Longrightarrow> P j w) \<Longrightarrow> P k v \<Longrightarrow>
    find j (save k v t) = Some w \<Longrightarrow> P j w"
  by (auto simp: find_save split: if_splits)

lemma modify_all:
  "(\<And>j w. find j t = Some w \<Longrightarrow> P j w) \<Longrightarrow> (\<And>w. find k t = Some w \<Longrightarrow> P k (f w)) \<Longrightarrow>
    find j (modify k f t) = Some w \<Longrightarrow> P j w"
  by (auto simp: find_modify split: if_splits)

end

interpretation tbl: repository tbl_find tbl_save tbl_update tbl_remove
proof unfold_locales
  show "tbl_find j (tbl_save k v t) = (if j = k then Some v else tbl_find j t)"
    for j k and v :: 'a and t
    by (simp add: tbl_find_def tbl_save_def update_conv')
  show "tbl_find j (tbl_update k f t) = (if j = k then map_option f (tbl_find k t) else tbl_find j t)"
    for j k and f :: "'a \<Rightarrow> 'a" and t
    by (induction t) (auto simp: tbl_find_def tbl_update_def)
  show "tbl_find j (tbl_remove k t) = (if j = k then None else tbl_find j t)"
    for j k and t :: "'a table"
    by (induction t) (auto simp: tbl_find_def tbl_remove_def)
qed

lemmas tbl_simps = tbl.find_save tbl.find_modify tbl.find_remove

lemma tbl_update_keys [simp]: "map fst (tbl_update k f t) = map fst t"
  by (induction t) (auto simp: tbl_update_def)

lemma tbl_find_None_keys: "tbl_find k t = None \<longleftrightarrow> k \<notin> set (map fst t)"
  by (simp add: tbl_find_def map_of_eq_None_iff)

lemma tbl_find_in: "tbl_find k t = Some v \<Longrightarrow> (k, v) \<in> set t"
  by (simp add: tbl_find_def map_of_SomeD)

lemma tbl_distinct_in: "distinct (map fst t) \<Longrightarrow> (k, v) \<in> set t \<longleftrightarrow> tbl_find k t = Some v"
  by (simp add: tbl_find_def)

lemma distinct_fst_filter: "distinct (map fst t) \<Longrightarrow> distinct (map fst (filter P t))"
  by (induction t) auto

lemma tbl_save_distinct [simp]: "distinct (map fst t) \<Longrightarrow> distinct (map fst (tbl_save k v t))"
  by (simp add: tbl_save_def distinct_update)

lemma tbl_remove_distinct [simp]: "distinct (map fst t) \<Longrightarrow> distinct (map fst (tbl_remove k t))"
  by (induction t) (auto simp: tbl_remove_def)

text \<open>Lookups by another column than the id, and what saving a row does to them.\<close>

lemma keys_update: "distinct (map fst t) \<Longrightarrow> (i, r0) \<in> set t \<Longrightarrow> k r = k r0 \<Longrightarrow>
    map (k \<circ> snd) (tbl_save i r t) = map (k \<circ> snd) t \<and> map fst (tbl_save i r t) = map fst t"
  by (induction t) (auto simp: tbl_save_def image_iff)

lemma find_update: "distinct (map fst t) \<Longrightarrow> distinct (map (k \<circ> snd) t) \<Longrightarrow> (i, r0) \<in> set t \<Longrightarrow> k r = k r0 \<Longrightarrow>
    List.find (\<lambda>(j, q). k q = e) (tbl_save i r t) =
      (if e = k r then Some (i, r) else List.find (\<lambda>(j, q). k q = e) t)"
  by (induction t) (auto simp: tbl_save_def image_iff)

lemma find_SomeD: "List.find P xs = Some x \<Longrightarrow> x \<in> set xs \<and> P x"
  by (induction xs) (auto split: if_splits)

lemma find_append: "List.find P (xs @ ys) = (case List.find P xs of None \<Rightarrow> List.find P ys | Some x \<Rightarrow> Some x)"
  by (induction xs) auto

lemma tbl_save_new: "tbl_find k t = None \<Longrightarrow> tbl_save k v t = t @ [(k, v)]"
  by (induction t) (auto simp: tbl_save_def tbl_find_def split: if_splits)

lemma tbl_save_keys: "tbl_find k t = Some w \<Longrightarrow> map fst (tbl_save k v t) = map fst t"
  by (induction t) (auto simp: tbl_save_def tbl_find_def split: if_splits)

lemma set_tbl_save: "set (tbl_save k v t) \<subseteq> insert (k, v) (set t)"
  by (induction t) (auto simp: tbl_save_def)

section \<open>Runs of a system\<close>

text \<open>A system executes a list of events; a predicate that every valid event keeps holds after every
  run of valid events.\<close>

locale invariant_system =
  fixes step :: "'e \<Rightarrow> 's \<Rightarrow> 's" and valid :: "'e \<Rightarrow> bool" and inv :: "'s \<Rightarrow> bool"
  assumes inv_step: "inv s \<Longrightarrow> valid e \<Longrightarrow> inv (step e s)"
begin

lemma inv_run: "inv s \<Longrightarrow> (\<And>e. e \<in> set es \<Longrightarrow> valid e) \<Longrightarrow> inv (fold step es s)"
  by (induction es arbitrary: s) (auto intro: inv_step)

end

text \<open>A status machine: every event moves the status of a row along the paths of a transition relation.
  The status of a missing row counts as a status, and \<open>keeps k e\<close> says that the event \<open>e\<close> does not
  insert a new row under the id \<open>k\<close>.\<close>

locale status_machine = invariant_system step valid inv
  for step :: "'e \<Rightarrow> 's \<Rightarrow> 's" and valid :: "'e \<Rightarrow> bool" and inv :: "'s \<Rightarrow> bool" +
  fixes keeps :: "'k \<Rightarrow> 'e \<Rightarrow> bool"
    and status :: "'k \<Rightarrow> 's \<Rightarrow> 'st"
    and trans :: "'st \<Rightarrow> 'st \<Rightarrow> bool"
  assumes step_trans:
    "inv s \<Longrightarrow> valid e \<Longrightarrow> keeps k e \<Longrightarrow> trans\<^sup>*\<^sup>* (status k s) (status k (step e s))"
begin

lemma run_trans:
  "inv s \<Longrightarrow> (\<And>e. e \<in> set es \<Longrightarrow> valid e \<and> keeps k e) \<Longrightarrow>
    trans\<^sup>*\<^sup>* (status k s) (status k (fold step es s))"
proof (induction es arbitrary: s)
  case (Cons e es)
  then have "trans\<^sup>*\<^sup>* (status k s) (status k (step e s))"
    and "trans\<^sup>*\<^sup>* (status k (step e s)) (status k (fold step es (step e s)))"
    by (auto intro: step_trans inv_step)
  then show ?case by (metis fold_simps(2) rtranclp_trans)
qed simp

text \<open>A set of statuses without a way out is never left.\<close>

lemma run_closed:
  assumes "inv s" and "\<And>e. e \<in> set es \<Longrightarrow> valid e \<and> keeps k e" and "status k s \<in> C"
    and "\<And>a b. a \<in> C \<Longrightarrow> trans a b \<Longrightarrow> b \<in> C"
  shows "status k (fold step es s) \<in> C"
proof -
  have "trans\<^sup>*\<^sup>* a b \<Longrightarrow> a \<in> C \<Longrightarrow> b \<in> C" for a b
    by (induction rule: rtranclp_induct) (auto intro: assms(4))
  with run_trans [OF assms(1,2)] assms(3) show ?thesis by blast
qed

end

text \<open>The statuses of the rows of two states are related by paths of a transition relation.\<close>

definition moves :: "('k \<Rightarrow> 's \<Rightarrow> 'st option) \<Rightarrow> ('st \<Rightarrow> 'st \<Rightarrow> bool) \<Rightarrow> 's \<Rightarrow> 's \<Rightarrow> bool" where
  "moves status R s t \<longleftrightarrow>
     (\<forall>k a. status k s = Some a \<longrightarrow> (\<exists>b. status k t = Some b \<and> R\<^sup>*\<^sup>* a b))"

lemma moves_refl: "moves status R s s"
  by (simp add: moves_def)

lemma moves_trans: "moves status R s t \<Longrightarrow> moves status R t u \<Longrightarrow> moves status R s u"
  unfolding moves_def by (meson rtranclp_trans)

lemma preserves_moves:
  "(\<And>s r t. m s = (r, t) \<Longrightarrow> moves status R s t) \<Longrightarrow> preserves (moves status R s0) m"
  unfolding preserves_def by (metis moves_trans prod.collapse)

lemma moves_of_preserves:
  "preserves (moves status R s) m \<Longrightarrow> moves status R s (snd (m s))"
  by (simp add: preserves_def moves_refl)

lemma moves_final:
  assumes "moves status R s t" and "status k s = Some a" and "\<And>b. \<not> R a b"
  shows "status k t = Some a"
proof -
  obtain b where "status k t = Some b" and "R\<^sup>*\<^sup>* a b"
    using assms(1,2) by (auto simp: moves_def)
  moreover from \<open>R\<^sup>*\<^sup>* a b\<close> have "b = a" using assms(3) by (metis converse_rtranclpE)
  ultimately show ?thesis by simp
qed

end
