(* ===== verification/Users.thy ===== *)
theory Users
  imports Prelude
begin

text \<open>
  The part of the user directory the money services use (\<open>users/user.entity.ts\<close>,
  \<open>users/users.service.ts\<close>), the notifications they emit, and the wallet that signs for a user
  (\<open>wallets/wallets.service.ts\<close>). The record \<open>base\<close> is the state these services share; each
  component extends it with its own tables. A user row keeps its balances as a JSON map from
  currency codes to numbers.
\<close>

section \<open>Rows\<close>

datatype user_role = USER | ADMIN | SUPER_ADMIN

datatype user_plan = FREE | PLAN_BASIC | PREMIUM | ENTERPRISE

record notification_types =
  nt_TRANSACTION :: bool
  nt_KYC :: bool
  nt_RATE_ALERT :: bool

record notification_preferences =
  np_email :: bool
  np_push :: bool
  np_types :: notification_types

datatype kyc_tier = KYC_NONE | KYC_BASIC | KYC_STANDARD | KYC_ENHANCED

record user =
  u_email :: string
  u_balances :: "string \<Rightarrow> rat option"
  u_kycTier :: kyc_tier
  u_role :: user_role
  u_failedLoginAttempts :: nat
  u_lockedUntil :: "int option"
  u_walletPublicKey :: string
  u_walletSecretKeyEncrypted :: "string option"
  u_createdAt :: int
  u_referredBy :: "string option"
  u_referralCode :: string
  u_firstName :: "string option"
  u_lastName :: "string option"
  u_phone :: "string option"
  u_isVerified :: bool
  u_isEmailVerified :: bool
  u_isSuspended :: bool
  u_isTwoFactorEnabled :: bool
  u_twoFactorSecret :: "string option"
  u_isActive :: bool
  u_isDeleted :: bool
  u_password :: "string option"
  u_passwordHash :: "string option"
  u_plan :: user_plan
  u_preferredLanguage :: string
  u_fcmToken :: "string option"
  u_fcmTokens :: "string list option"
  u_notificationPreferences :: "notification_preferences option"
  u_balanceLastSyncedAt :: "int option"
  u_consentGdpr :: bool
  u_consentGdprAt :: "int option"
  u_consentGdprVersion :: "string option"

record wallet =
  w_userId :: string
  w_publicKey :: string
  w_encryptedSecretKey :: "string option"
  w_isDefault :: bool

record notification =
  n_userId :: string
  n_title :: string
  n_message :: string

record base =
  users :: "user table"
  wallets :: "wallet table"
  notifications :: "notification list"

section \<open>The user service\<close>

definition ascii_lower :: "char \<Rightarrow> char" where
  "ascii_lower c = (if of_char c \<ge> (65::nat) \<and> of_char c \<le> (90::nat) then char_of (of_char c + (32::nat)) else c)"

definition is_space :: "char \<Rightarrow> bool" where
  "is_space c = ((of_char c :: nat) \<in> {9, 10, 11, 12, 13, 32})"

definition trim :: "string \<Rightarrow> string" where
  "trim s = rev (dropWhile is_space (rev (dropWhile is_space s)))"

definition findByEmail :: "string \<Rightarrow> 'a base_scheme \<Rightarrow> (string \<times> user) option" where
  "findByEmail email s = List.find (\<lambda>(i, u). u_email u = trim (map ascii_lower email)) (users s)"

definition findById :: "string \<Rightarrow> 'a base_scheme \<Rightarrow> user option" where
  "findById userId s = tbl_find userId (users s)"

definition updateByUserId :: "string \<Rightarrow> (user \<Rightarrow> user) \<Rightarrow> 'a base_scheme \<Rightarrow> 'a base_scheme" where
  "updateByUserId userId f s = s\<lparr>users := tbl_update userId f (users s)\<rparr>"

text \<open>\<open>parseFloat(user.balances?.[currency]?.toString() ?? '0')\<close>: a number that is printed and read
  back is the same number, a missing entry reads as zero.\<close>

definition balance_of :: "user \<Rightarrow> string \<Rightarrow> rat" where
  "balance_of u currency = (case u_balances u currency of None \<Rightarrow> 0 | Some n \<Rightarrow> n)"

text \<open>\<open>{ ...user.balances, [currency]: v }\<close>.\<close>

definition set_balance :: "string \<Rightarrow> rat \<Rightarrow> (string \<Rightarrow> rat option) \<Rightarrow> (string \<Rightarrow> rat option)" where
  "set_balance currency v b = b(currency \<mapsto> v)"

definition notify :: "string \<Rightarrow> string \<Rightarrow> string \<Rightarrow> 'a base_scheme \<Rightarrow> 'a base_scheme" where
  "notify userId title msg s =
     s\<lparr>notifications := notifications s @ [\<lparr>n_userId = userId, n_title = title, n_message = msg\<rparr>]\<rparr>"

text \<open>The balance of a user in a state, zero when there is no such user.\<close>

definition user_balance :: "string \<Rightarrow> string \<Rightarrow> 'a base_scheme \<Rightarrow> rat" where
  "user_balance userId currency s = (case findById userId s of None \<Rightarrow> 0 | Some u \<Rightarrow> balance_of u currency)"

definition write_balance :: "string \<Rightarrow> string \<Rightarrow> rat \<Rightarrow> 'a base_scheme \<Rightarrow> 'a base_scheme" where
  "write_balance userId currency v s =
     updateByUserId userId (\<lambda>u. u\<lparr>u_balances := set_balance currency v (u_balances u)\<rparr>) s"

lemma user_balance_cong: "users t = users s \<Longrightarrow> user_balance w c t = user_balance w c s"
  by (simp add: user_balance_def findById_def)

section \<open>The balance store interface\<close>

text \<open>What the money services rely on: a written balance is read back, and no other balance moves.\<close>

locale balance_store =
  fixes get :: "'u \<Rightarrow> 'c \<Rightarrow> 's \<Rightarrow> 'n::ab_group_add"
    and put :: "'u \<Rightarrow> 'c \<Rightarrow> 'n \<Rightarrow> 's \<Rightarrow> 's"
    and member :: "'u \<Rightarrow> 's \<Rightarrow> bool"
  assumes read_write_same: "member u s \<Longrightarrow> get u c (put u c v s) = v"
    and read_write_other: "(u', c') \<noteq> (u, c) \<Longrightarrow> get u' c' (put u c v s) = get u' c' s"
    and member_write: "member u' (put u c v s) = member u' s"
begin

lemma read_write:
  "member u s \<Longrightarrow> get u' c' (put u c v s) = (if u' = u \<and> c' = c then v else get u' c' s)"
  by (auto simp: read_write_same read_write_other)

text \<open>A debit of one user and a credit of another by the same amount keep the sum of the two
  balances.\<close>

lemma transfer_sum:
  assumes "member a s" "member b s" "a \<noteq> b"
  shows "get a c (put b c (get b c s + x) (put a c (get a c s - x) s))
       + get b c (put b c (get b c s + x) (put a c (get a c s - x) s))
       = get a c s + get b c s"
  using assms by (simp add: read_write member_write)

end

interpretation bal: balance_store user_balance write_balance "\<lambda>u s. findById u s \<noteq> None"
proof unfold_locales
  fix u u' c c' :: string and v :: rat and s :: "'a base_scheme"
  show "findById u s \<noteq> None \<Longrightarrow> user_balance u c (write_balance u c v s) = v"
    by (auto simp: user_balance_def write_balance_def updateByUserId_def findById_def tbl_simps
        set_balance_def balance_of_def)
  show "(u', c') \<noteq> (u, c) \<Longrightarrow> user_balance u' c' (write_balance u c v s) = user_balance u' c' s"
    by (auto simp: user_balance_def write_balance_def updateByUserId_def findById_def tbl_simps
        set_balance_def balance_of_def split: option.splits)
  show "(findById u' (write_balance u c v s) \<noteq> None) = (findById u' s \<noteq> None)"
    by (auto simp: write_balance_def updateByUserId_def findById_def tbl_simps)
qed

lemmas users_simps = findById_def updateByUserId_def notify_def

lemma findById_updateByUserId:
  "findById i (updateByUserId j f s) = (if i = j then map_option f (findById j s) else findById i s)"
  by (simp add: users_simps tbl_simps)

lemma findById_notify [simp]: "findById i (notify u t m s) = findById i s"
  by (simp add: users_simps)

section \<open>Well-formed balances\<close>

text \<open>Every balance is a double and not negative.\<close>

definition balances_ok :: "(string \<Rightarrow> rat option) \<Rightarrow> bool" where
  "balances_ok b \<longleftrightarrow> (\<forall>c v. b c = Some v \<longrightarrow> is_double v \<and> 0 \<le> v)"

definition users_ok :: "'a base_scheme \<Rightarrow> bool" where
  "users_ok s \<longleftrightarrow> (\<forall>i u. findById i s = Some u \<longrightarrow> balances_ok (u_balances u))"

lemma balances_ok_read: "balances_ok (u_balances u) \<Longrightarrow> is_double (balance_of u c) \<and> 0 \<le> balance_of u c"
  by (auto simp: balances_ok_def balance_of_def split: option.splits)

lemma balances_ok_set: "balances_ok b \<Longrightarrow> is_double v \<Longrightarrow> 0 \<le> v \<Longrightarrow> balances_ok (set_balance c v b)"
  by (auto simp: balances_ok_def set_balance_def)

lemma users_okD: "users_ok s \<Longrightarrow> findById i s = Some u \<Longrightarrow> balances_ok (u_balances u)"
  by (auto simp: users_ok_def)

lemma users_ok_update:
  assumes "users_ok s" and "\<And>u. findById i s = Some u \<Longrightarrow> balances_ok (u_balances (f u))"
  shows "users_ok (updateByUserId i f s)"
  using assms by (auto simp: users_ok_def findById_updateByUserId split: if_splits)

lemma users_ok_cong: "users s = users t \<Longrightarrow> users_ok s = users_ok t"
  by (simp add: users_ok_def findById_def)

section \<open>The signing wallet\<close>

record wallet_context =
  wc_publicKey :: string
  wc_encryptedSecretKey :: "string option"
  wc_isWatchOnly :: bool

text \<open>A nullable string column read as a condition: null and the empty string are false.\<close>

definition truthy :: "string option \<Rightarrow> bool" where
  "truthy x = (case x of None \<Rightarrow> False | Some t \<Rightarrow> t \<noteq> [])"

definition toTransactionContext :: "wallet \<Rightarrow> wallet_context" where
  "toTransactionContext w = \<lparr>wc_publicKey = w_publicKey w, wc_encryptedSecretKey = w_encryptedSecretKey w,
     wc_isWatchOnly = (\<not> truthy (w_encryptedSecretKey w))\<rparr>"

definition resolveWalletForTransaction ::
    "string \<Rightarrow> string option \<Rightarrow> bool \<Rightarrow> ('a base_scheme, wallet_context) op" where
  "resolveWalletForTransaction userId walletId allowWatchOnly =
     bindE (case walletId of
         Some wid \<Rightarrow>
           bindE (gets (\<lambda>s. List.find (\<lambda>(i, w). i = wid \<and> w_userId w = userId) (wallets s))) (\<lambda>found.
           bindE (require (found \<noteq> None) (NotFoundException ''Wallet not found'')) (\<lambda>_.
           ret (map_option snd found)))
       | None \<Rightarrow>
           gets (\<lambda>s. map_option snd
             (List.find (\<lambda>(i, w). w_userId w = userId \<and> w_isDefault w) (wallets s)))) (\<lambda>wallet.
     case wallet of
       Some w \<Rightarrow>
         bindE (require (allowWatchOnly \<or> truthy (w_encryptedSecretKey w))
           (BadRequestException ''The selected wallet is watch-only and cannot sign transactions.'')) (\<lambda>_.
         ret (toTransactionContext w))
     | None \<Rightarrow>
         bindE (gets (findById userId)) (\<lambda>u.
         bindE (from_option
             (BadRequestException ''No Stellar wallet is configured for this account.'')
             (case u of None \<Rightarrow> None | Some v \<Rightarrow> if u_walletPublicKey v = [] then None else Some v)) (\<lambda>v.
         ret \<lparr>wc_publicKey = u_walletPublicKey v,
              wc_encryptedSecretKey = u_walletSecretKeyEncrypted v,
              wc_isWatchOnly = (\<not> truthy (u_walletSecretKeyEncrypted v))\<rparr>)))"

lemma resolveWallet_state:
  "resolveWalletForTransaction u w a s = (r, t) \<Longrightarrow> t = s"
  by (cases r) (auto simp: resolveWalletForTransaction_def op_iff split: option.splits)

lemma preserves_resolveWallet [pres]: "preserves P (resolveWalletForTransaction u w a)"
  unfolding preserves_def by (metis prod.collapse resolveWallet_state)

text \<open>A wallet context that is not watch-only always carries a key; without the watch-only option
  a stored wallet never resolves to a watch-only context.\<close>

lemma resolveWallet_can_sign:
  assumes "resolveWalletForTransaction u (Some wid) False s = (Inr c, t)"
  shows "\<not> wc_isWatchOnly c \<and> truthy (wc_encryptedSecretKey c)"
  using assms by (auto simp: resolveWalletForTransaction_def op_iff toTransactionContext_def
      split: option.splits)

text \<open>A concrete user for the witnesses of the services, with a balance in one currency.\<close>

definition demo_user :: "rat \<Rightarrow> user" where
  "demo_user b = \<lparr>u_email = ''bob@x.io'', u_balances = [''XLM'' \<mapsto> b], u_kycTier = KYC_BASIC, u_role = USER,
     u_failedLoginAttempts = 0, u_lockedUntil = None, u_walletPublicKey = ''G'',
     u_walletSecretKeyEncrypted = None, u_createdAt = 0, u_referredBy = None,
     u_referralCode = ''BOB00000'', u_firstName = None, u_lastName = None, u_phone = None, u_isVerified = True,
     u_isEmailVerified = True, u_isSuspended = False, u_isTwoFactorEnabled = False, u_twoFactorSecret = None,
     u_isActive = True, u_isDeleted = False, u_password = None, u_passwordHash = Some [], u_plan = FREE,
     u_preferredLanguage = ''en'', u_fcmToken = None, u_fcmTokens = None, u_notificationPreferences = None,
     u_balanceLastSyncedAt = None, u_consentGdpr = False, u_consentGdprAt = None, u_consentGdprVersion = None\<rparr>"

lemma demo_user_ok: "is_double b \<Longrightarrow> 0 \<le> b \<Longrightarrow> balances_ok (u_balances (demo_user b))"
  by (simp add: demo_user_def balances_ok_def)

end
