(* ===== verification/Stellar.thy ===== *)
theory Stellar
  imports Users
begin

text \<open>
  Payments on the Stellar network as the services see them (\<open>modules/stellar/stellar.service.ts\<close>).
  The network and the key material come from third-party packages and are a parameter, the record
  \<open>horizon\<close>: what the n-th submission answers, the n-th random key pair, and the cipher of
  \<open>common/services/encryption.service.ts\<close>. The state counts the calls made, so that an answer may
  change from call to call, and records the payments the network accepted.
\<close>

record payment =
  p_secretKey :: string
  p_destination :: string
  p_amount :: rat
  p_memo :: string

record horizon =
  submit :: "nat \<Rightarrow> payment \<Rightarrow> string option"
  new_keypair :: "nat \<Rightarrow> string \<times> string"
  encrypt :: "string \<Rightarrow> string"
  decrypt :: "string \<Rightarrow> string option"

record chain = base +
  calls :: nat
  payments :: "payment list"

definition sendPayment :: "horizon \<Rightarrow> payment \<Rightarrow> ('a chain_scheme, string) op" where
  "sendPayment H p s =
     (case submit H (calls s) p of
        None \<Rightarrow> (Inl (PlainError ''Stellar payment submission failed''), s\<lparr>calls := Suc (calls s)\<rparr>)
      | Some h \<Rightarrow> (Inr h, s\<lparr>calls := Suc (calls s), payments := payments s @ [p]\<rparr>))"

definition generateWallet :: "horizon \<Rightarrow> ('a chain_scheme, string \<times> string) op" where
  "generateWallet H s = (Inr (new_keypair H (calls s)), s\<lparr>calls := Suc (calls s)\<rparr>)"

definition decrypt_op :: "horizon \<Rightarrow> string \<Rightarrow> ('s, string) op" where
  "decrypt_op H c = from_option (PlainError ''Failed to decrypt'') (decrypt H c)"

lemma sendPayment_Inr [op_iff]:
  "sendPayment H p s = (Inr h, t) \<longleftrightarrow>
     submit H (calls s) p = Some h \<and> t = s\<lparr>calls := Suc (calls s), payments := payments s @ [p]\<rparr>"
  by (auto simp: sendPayment_def split: option.splits)

lemma sendPayment_Inl [op_iff]:
  "sendPayment H p s = (Inl e, t) \<longleftrightarrow>
     submit H (calls s) p = None \<and> e = PlainError ''Stellar payment submission failed'' \<and>
     t = s\<lparr>calls := Suc (calls s)\<rparr>"
  by (auto simp: sendPayment_def split: option.splits)

lemma generateWallet_iff [op_iff]:
  "generateWallet H s = (r, t) \<longleftrightarrow>
     r = Inr (new_keypair H (calls s)) \<and> t = s\<lparr>calls := Suc (calls s)\<rparr>"
  by (auto simp: generateWallet_def)

lemma preserves_sendPayment [pres]:
  "(\<And>s n ps. P s \<Longrightarrow> P (s\<lparr>calls := n\<rparr>) \<and> P (s\<lparr>calls := n, payments := ps\<rparr>)) \<Longrightarrow>
    preserves P (sendPayment H p)"
  by (auto simp: preserves_def sendPayment_def split: option.splits)

lemma preserves_generateWallet [pres]:
  "(\<And>s n. P s \<Longrightarrow> P (s\<lparr>calls := n\<rparr>)) \<Longrightarrow> preserves P (generateWallet H)"
  by (auto simp: preserves_def generateWallet_def)

lemma preserves_decrypt_op [pres]: "preserves P (decrypt_op H c)"
  unfolding decrypt_op_def by (rule pres)

text \<open>A memo of type text holds at most 28 bytes; the SDK throws on a longer one.\<close>

definition rejects_long_memos :: "horizon \<Rightarrow> bool" where
  "rejects_long_memos H \<longleftrightarrow> (\<forall>n p. 28 < length (p_memo p) \<longrightarrow> submit H n p = None)"

end
