(* ===== verification/Escrow.thy ===== *)
theory Escrow
  imports Stellar
begin

text \<open>
  Escrow agreements (\<open>escrow/escrow.service.ts\<close>, \<open>escrow/entities/escrow.entity.ts\<close>): created
  pending, funded from the sender's balance, then released to the recipient or refunded, with a
  dispute in between. The escrow row is written through the transaction's manager; the users' balances
  are written through \<open>UsersService\<close>, outside of it, so a rollback restores the escrow table only.
\<close>

section \<open>State\<close>

datatype escrow_status = PENDING | FUNDED | RELEASED | REFUNDED | DISPUTED | RESOLVED

record escrow =
  e_senderId :: string
  e_recipientId :: string
  e_amount :: rat
  e_currency :: string
  e_title :: string
  e_description :: string
  e_releaseCondition :: string
  e_status :: escrow_status
  e_autoReleaseAt :: "int option"
  e_disputeWindowHours :: int
  e_stellarEscrowPublicKey :: "string option"
  e_stellarEscrowSecretEncrypted :: "string option"
  e_fundedTxHash :: "string option"
  e_releaseTxHash :: "string option"
  e_refundTxHash :: "string option"
  e_fundedAt :: "int option"
  e_releasedAt :: "int option"

record escrow_state = chain +
  escrows :: "escrow table"

record create_escrow_dto =
  recipientEmail :: string
  dto_amount :: rat
  dto_currency :: string
  dto_title :: string
  dto_description :: string
  dto_releaseCondition :: string
  dto_autoReleaseAt :: "int option"
  dto_disputeWindowHours :: "int option"

section \<open>Operations\<close>

definition find_escrow :: "string \<Rightarrow> (escrow_state, escrow) op" where
  "find_escrow i = bindE (gets (\<lambda>s. tbl_find i (escrows s)))
     (from_option (NotFoundException ''Escrow not found''))"

definition save_escrow :: "string \<Rightarrow> escrow \<Rightarrow> (escrow_state, unit) op" where
  "save_escrow i e = modify (\<lambda>s. s\<lparr>escrows := tbl_save i e (escrows s)\<rparr>)"

definition sendStatusNotification :: "escrow \<Rightarrow> string \<Rightarrow> (escrow_state, unit) op" where
  "sendStatusNotification e msg = modify (\<lambda>s.
     notify (e_recipientId e) ''Escrow Update'' msg (notify (e_senderId e) ''Escrow Update'' msg s))"

definition escrow_tx :: "(escrow_state, 'a) op \<Rightarrow> (escrow_state, 'a) op" where
  "escrow_tx = transactionE (\<lambda>s t. t\<lparr>escrows := escrows s\<rparr>)"

definition createEscrow ::
    "string \<Rightarrow> string \<Rightarrow> create_escrow_dto \<Rightarrow> (escrow_state, escrow) op" where
  "createEscrow newId userId dto =
     bindE (gets (findByEmail (recipientEmail dto))) (\<lambda>found.
     bindE (from_option (NotFoundException ''Recipient not found'') found) (\<lambda>recipient.
     let escrow = \<lparr>e_senderId = userId, e_recipientId = fst recipient,
           e_amount = to_fixed 8 (dto_amount dto), e_currency = dto_currency dto,
           e_title = dto_title dto, e_description = dto_description dto,
           e_releaseCondition = dto_releaseCondition dto, e_status = PENDING,
           e_autoReleaseAt = dto_autoReleaseAt dto,
           e_disputeWindowHours = (case dto_disputeWindowHours dto of None \<Rightarrow> 24 | Some h \<Rightarrow> h),
           e_stellarEscrowPublicKey = None, e_stellarEscrowSecretEncrypted = None,
           e_fundedTxHash = None, e_releaseTxHash = None, e_refundTxHash = None,
           e_fundedAt = None, e_releasedAt = None\<rparr>
     in bindE (save_escrow newId escrow) (\<lambda>_.
        bindE (sendStatusNotification escrow ''Escrow agreement created'') (\<lambda>_.
        ret escrow))))"

definition getUserSourcePublicKey :: "string \<Rightarrow> (escrow_state, string) op" where
  "getUserSourcePublicKey userId =
     bindE (resolveWalletForTransaction userId None False) (\<lambda>ctx. ret (wc_publicKey ctx))"

definition getEscrowSecret :: "horizon \<Rightarrow> escrow \<Rightarrow> (escrow_state, string) op" where
  "getEscrowSecret H e =
     bindE (require (truthy (e_stellarEscrowSecretEncrypted e))
       (BadRequestException ''Escrow secret not found'')) (\<lambda>_.
     decrypt_op H (the (e_stellarEscrowSecretEncrypted e)))"

definition updateUserBalance :: "string \<Rightarrow> string \<Rightarrow> rat \<Rightarrow> (escrow_state, unit) op" where
  "updateUserBalance userId currency amount =
     bindE (gets (findById userId)) (\<lambda>found.
     bindE (from_option (NotFoundException ''User not found'') found) (\<lambda>user.
     modify (updateByUserId userId (\<lambda>u. u\<lparr>u_balances :=
       set_balance currency (js_add (balance_of user currency) amount) (u_balances user)\<rparr>))))"

definition fundEscrow :: "horizon \<Rightarrow> int \<Rightarrow> string \<Rightarrow> string \<Rightarrow> (escrow_state, escrow) op" where
  "fundEscrow H now userId escrowId = escrow_tx (
     bindE (find_escrow escrowId) (\<lambda>escrow.
     bindE (require (e_senderId escrow = userId)
       (ForbiddenException ''Only sender can fund escrow'')) (\<lambda>_.
     bindE (require (e_status escrow = PENDING)
       (BadRequestException ''Escrow is not pending funding'')) (\<lambda>_.
     bindE (gets (findById userId)) (\<lambda>found.
     bindE (from_option (NotFoundException ''Sender not found'') found) (\<lambda>sender.
     let currentBalance = balance_of sender (e_currency escrow);
         amount = parse_float (e_amount escrow)
     in
     bindE (require (\<not> currentBalance < amount)
       (BadRequestException ''Insufficient balance'')) (\<lambda>_.
     bindE (modify (updateByUserId userId (\<lambda>u. u\<lparr>u_balances :=
         set_balance (e_currency escrow) (js_sub currentBalance amount) (u_balances sender)\<rparr>))) (\<lambda>_.
     bindE (generateWallet H) (\<lambda>keypair.
     bindE (resolveWalletForTransaction userId None False) (\<lambda>signer.
     bindE (require (truthy (wc_encryptedSecretKey signer))
       (BadRequestException ''Sender wallet cannot sign transactions'')) (\<lambda>_.
     bindE (decrypt_op H (the (wc_encryptedSecretKey signer))) (\<lambda>secretKey.
     bindE (getUserSourcePublicKey userId) (\<lambda>_.
     bindE (sendPayment H \<lparr>p_secretKey = secretKey, p_destination = fst keypair,
         p_amount = e_amount escrow, p_memo = ''ESCROW-FUND-'' @ escrowId\<rparr>) (\<lambda>hash.
     let saved = escrow\<lparr>e_status := FUNDED, e_stellarEscrowPublicKey := Some (fst keypair),
           e_stellarEscrowSecretEncrypted := Some (encrypt H (snd keypair)),
           e_fundedTxHash := Some hash, e_fundedAt := Some now\<rparr>
     in
     bindE (save_escrow escrowId saved) (\<lambda>_.
     bindE (sendStatusNotification saved ''Escrow funded'') (\<lambda>_.
     ret saved))))))))))))))))"

definition releaseEscrow ::
    "horizon \<Rightarrow> int \<Rightarrow> string \<Rightarrow> string \<Rightarrow> bool \<Rightarrow> (escrow_state, escrow) op" where
  "releaseEscrow H now userId escrowId force = escrow_tx (
     bindE (find_escrow escrowId) (\<lambda>escrow.
     bindE (require (e_senderId escrow = userId)
       (ForbiddenException ''Only sender can release escrow'')) (\<lambda>_.
     bindE (require (\<not> (e_status escrow \<noteq> FUNDED \<and> \<not> (force \<and> e_status escrow = DISPUTED)))
       (BadRequestException ''Escrow is not funded'')) (\<lambda>_.
     bindE (gets (findById (e_recipientId escrow))) (\<lambda>found.
     bindE (from_option (NotFoundException ''Recipient not found'') found) (\<lambda>recipient.
     bindE (getEscrowSecret H escrow) (\<lambda>escrowSecret.
     bindE (getUserSourcePublicKey (e_recipientId escrow)) (\<lambda>receiverPublicKey.
     bindE (sendPayment H \<lparr>p_secretKey = escrowSecret, p_destination = receiverPublicKey,
         p_amount = e_amount escrow, p_memo = ''ESCROW-RELEASE-'' @ escrowId\<rparr>) (\<lambda>hash.
     let saved = escrow\<lparr>e_status := RELEASED, e_releaseTxHash := Some hash,
           e_releasedAt := Some now\<rparr>
     in
     bindE (save_escrow escrowId saved) (\<lambda>_.
     bindE (updateUserBalance (e_recipientId escrow) (e_currency escrow)
       (parse_float (e_amount escrow))) (\<lambda>_.
     bindE (sendStatusNotification saved ''Escrow released'') (\<lambda>_.
     ret saved))))))))))))"

definition refundEscrow ::
    "horizon \<Rightarrow> string \<Rightarrow> string \<Rightarrow> (escrow_state, escrow) op" where
  "refundEscrow H userId escrowId = escrow_tx (
     bindE (find_escrow escrowId) (\<lambda>escrow.
     bindE (require (\<not> (e_status escrow \<noteq> FUNDED \<and> e_status escrow \<noteq> DISPUTED))
       (BadRequestException ''Escrow cannot be refunded'')) (\<lambda>_.
     bindE (require (\<not> (e_senderId escrow \<noteq> userId \<and> e_recipientId escrow \<noteq> userId))
       (ForbiddenException ''Only sender, recipient, or admin can refund escrow'')) (\<lambda>_.
     bindE (getEscrowSecret H escrow) (\<lambda>escrowSecret.
     bindE (getUserSourcePublicKey (e_senderId escrow)) (\<lambda>senderPublicKey.
     bindE (sendPayment H \<lparr>p_secretKey = escrowSecret, p_destination = senderPublicKey,
         p_amount = e_amount escrow, p_memo = ''ESCROW-REFUND-'' @ escrowId\<rparr>) (\<lambda>hash.
     let saved = escrow\<lparr>e_status := REFUNDED, e_refundTxHash := Some hash\<rparr>
     in
     bindE (save_escrow escrowId saved) (\<lambda>_.
     bindE (updateUserBalance (e_senderId escrow) (e_currency escrow)
       (parse_float (e_amount escrow))) (\<lambda>_.
     bindE (sendStatusNotification saved ''Escrow refunded'') (\<lambda>_.
     ret saved))))))))))"

definition disputeEscrow :: "string \<Rightarrow> string \<Rightarrow> (escrow_state, escrow) op" where
  "disputeEscrow userId escrowId =
     bindE (find_escrow escrowId) (\<lambda>escrow.
     bindE (require (e_status escrow = FUNDED)
       (BadRequestException ''Only funded escrow can be disputed'')) (\<lambda>_.
     bindE (require (\<not> (e_senderId escrow \<noteq> userId \<and> e_recipientId escrow \<noteq> userId))
       (ForbiddenException ''Only sender or recipient can dispute escrow'')) (\<lambda>_.
     let saved = escrow\<lparr>e_status := DISPUTED\<rparr>
     in
     bindE (save_escrow escrowId saved) (\<lambda>_.
     bindE (sendStatusNotification saved ''Escrow disputed'') (\<lambda>_.
     ret saved)))))"

definition findOne :: "string \<Rightarrow> string \<Rightarrow> (escrow_state, escrow) op" where
  "findOne userId escrowId =
     bindE (find_escrow escrowId) (\<lambda>escrow.
     bindE (require (\<not> (e_senderId escrow \<noteq> userId \<and> e_recipientId escrow \<noteq> userId))
       (ForbiddenException ''Access denied'')) (\<lambda>_.
     ret escrow))"

datatype outcome = Release | Refund

definition resolveEscrow ::
    "horizon \<Rightarrow> int \<Rightarrow> string \<Rightarrow> outcome \<Rightarrow> (escrow_state, escrow) op" where
  "resolveEscrow H now i outcome =
     bindE (find_escrow i) (\<lambda>escrow.
     if outcome = Release then releaseEscrow H now (e_senderId escrow) i True
     else refundEscrow H (e_senderId escrow) i)"

definition due_escrows :: "int \<Rightarrow> escrow_state \<Rightarrow> (string \<times> escrow) list" where
  "due_escrows now s = filter (\<lambda>(i, e). e_status e = FUNDED \<and>
     (case e_autoReleaseAt e of None \<Rightarrow> False | Some t \<Rightarrow> t < now)) (escrows s)"

definition autoReleaseDueEscrows :: "horizon \<Rightarrow> int \<Rightarrow> (escrow_state, unit) op" where
  "autoReleaseDueEscrows H now =
     bindE (gets (due_escrows now)) (\<lambda>es.
     forE es (\<lambda>(i, e).
       if e_status e \<noteq> FUNDED then ret ()
       else tryE (bindE (releaseEscrow H now (e_senderId e) i False) (\<lambda>_. ret ())) (\<lambda>_. ret ())))"

definition findUserEscrows :: "string \<Rightarrow> escrow_status option \<Rightarrow> escrow_state \<Rightarrow> (string \<times> escrow) list" where
  "findUserEscrows userId status s = filter (\<lambda>(i, e).
     (e_senderId e = userId \<or> e_recipientId e = userId) \<and>
     (case status of None \<Rightarrow> True | Some st \<Rightarrow> e_status e = st)) (escrows s)"


section \<open>The status machine\<close>

inductive escrow_trans :: "escrow_status \<Rightarrow> escrow_status \<Rightarrow> bool" where
  fund: "escrow_trans PENDING FUNDED"
| release: "escrow_trans FUNDED RELEASED"
| refund: "escrow_trans FUNDED REFUNDED"
| dispute: "escrow_trans FUNDED DISPUTED"
| settle_release: "escrow_trans DISPUTED RELEASED"
| settle_refund: "escrow_trans DISPUTED REFUNDED"

inductive_simps escrow_trans_simps:
  "escrow_trans PENDING b" "escrow_trans FUNDED b" "escrow_trans DISPUTED b"
  "escrow_trans RELEASED b" "escrow_trans REFUNDED b" "escrow_trans RESOLVED b"

definition escrow_status_of :: "string \<Rightarrow> escrow_state \<Rightarrow> escrow_status option" where
  "escrow_status_of i s = map_option e_status (tbl_find i (escrows s))"

text \<open>What an operation on the escrow \<open>i\<close> does to the escrow table and to the payments: nothing, or
  it funds a pending escrow with one payment, pays a funded or disputed escrow out with one payment,
  or disputes a funded one. Wallets and the set of users never change.\<close>

definition same_terms :: "escrow \<Rightarrow> escrow \<Rightarrow> bool" where
  "same_terms e e' \<longleftrightarrow> e_senderId e' = e_senderId e \<and> e_recipientId e' = e_recipientId e \<and>
     e_amount e' = e_amount e \<and> e_currency e' = e_currency e"

definition same_parties :: "escrow_state \<Rightarrow> escrow_state \<Rightarrow> bool" where
  "same_parties s t \<longleftrightarrow> wallets t = wallets s \<and> map fst (users t) = map fst (users s)"

inductive escrow_effect :: "string \<Rightarrow> escrow_state \<Rightarrow> escrow_state \<Rightarrow> bool" for i s t where
  none: "escrows t = escrows s \<Longrightarrow> payments t = payments s \<Longrightarrow> same_parties s t \<Longrightarrow>
    escrow_effect i s t"
| funded: "tbl_find i (escrows s) = Some e \<Longrightarrow> e_status e = PENDING \<Longrightarrow>
    escrows t = tbl_save i e' (escrows s) \<Longrightarrow> e_status e' = FUNDED \<Longrightarrow> same_terms e e' \<Longrightarrow>
    payments t = payments s @ [p] \<Longrightarrow> p_memo p = ''ESCROW-FUND-'' @ i \<Longrightarrow> p_amount p = e_amount e \<Longrightarrow>
    same_parties s t \<Longrightarrow> escrow_effect i s t"
| paid: "tbl_find i (escrows s) = Some e \<Longrightarrow> e_status e = FUNDED \<or> e_status e = DISPUTED \<Longrightarrow>
    escrows t = tbl_save i e' (escrows s) \<Longrightarrow> e_status e' = RELEASED \<or> e_status e' = REFUNDED \<Longrightarrow>
    same_terms e e' \<Longrightarrow> payments t = payments s @ [p] \<Longrightarrow>
    p_memo p = ''ESCROW-RELEASE-'' @ i \<or> p_memo p = ''ESCROW-REFUND-'' @ i \<Longrightarrow>
    p_amount p = e_amount e \<Longrightarrow> same_parties s t \<Longrightarrow> escrow_effect i s t"
| disputed: "tbl_find i (escrows s) = Some e \<Longrightarrow> e_status e = FUNDED \<Longrightarrow>
    escrows t = tbl_save i e' (escrows s) \<Longrightarrow> e_status e' = DISPUTED \<Longrightarrow> same_terms e e' \<Longrightarrow>
    payments t = payments s \<Longrightarrow> same_parties s t \<Longrightarrow> escrow_effect i s t"

lemmas escrow_op_defs = find_escrow_def save_escrow_def sendStatusNotification_def escrow_tx_def
  getUserSourcePublicKey_def getEscrowSecret_def updateUserBalance_def decrypt_op_def
  users_simps

lemma fundEscrow_effect: "fundEscrow H now u i s = (r, t) \<Longrightarrow> escrow_effect i s t"
  by (cases r) (auto simp: fundEscrow_def escrow_op_defs op_iff Let_def same_parties_def same_terms_def
      dest!: resolveWallet_state intro: escrow_effect.none escrow_effect.funded)

text \<open>The wallet of a user resolves only if the user exists, when every wallet belongs to a user
  (a foreign key of the wallet table).\<close>

definition wallets_owned :: "'a base_scheme \<Rightarrow> bool" where
  "wallets_owned s \<longleftrightarrow> (\<forall>i w. (i, w) \<in> set (wallets s) \<longrightarrow> w_userId w \<in> set (map fst (users s)))"

lemma resolved_user:
  assumes "wallets_owned s" and "resolveWalletForTransaction u None False s = (Inr c, t)"
  shows "\<exists>v. tbl_find u (users s) = Some v"
proof (rule ccontr)
  assume "\<nexists>v. tbl_find u (users s) = Some v"
  then have no: "u \<notin> set (map fst (users s))" and nf: "findById u s = None"
    using tbl_find_None_keys [of u "users s"] by (auto simp: findById_def)
  with assms(1) have "List.find (\<lambda>(i, w). w_userId w = u \<and> w_isDefault w) (wallets s) = None"
    by (auto simp: find_None_iff wallets_owned_def)
  with assms(2) nf show False by (auto simp: resolveWalletForTransaction_def op_iff)
qed

lemma resolveWallet_owned:
  "resolveWalletForTransaction u None False s = (Inr c, t) \<Longrightarrow>
    t = s \<and> (wallets_owned s \<longrightarrow> (\<exists>v. tbl_find u (users s) = Some v))"
  using resolved_user resolveWallet_state by blast

lemma resolveWallet_error:
  "resolveWalletForTransaction u None False s = (Inl e, t) \<Longrightarrow> t = s"
  by (rule resolveWallet_state)

lemma wallets_owned_cong [simp]:
  "wallets_owned (s\<lparr>calls := n\<rparr>) = wallets_owned s"
  "wallets_owned (s\<lparr>payments := ps\<rparr>) = wallets_owned s"
  by (simp_all add: wallets_owned_def)

lemma releaseEscrow_effect: "releaseEscrow H now u i f s = (r, t) \<Longrightarrow> escrow_effect i s t"
  by (cases r) (auto simp: releaseEscrow_def escrow_op_defs op_iff Let_def same_parties_def same_terms_def
      dest!: resolveWallet_state intro: escrow_effect.none escrow_effect.paid)

lemma refundEscrow_effect:
  "wallets_owned s \<Longrightarrow> refundEscrow H u i s = (r, t) \<Longrightarrow> escrow_effect i s t"
  by (cases r) (auto simp: refundEscrow_def escrow_op_defs op_iff Let_def same_parties_def same_terms_def
      dest!: resolveWallet_owned resolveWallet_error intro: escrow_effect.none escrow_effect.paid)

lemma disputeEscrow_effect: "disputeEscrow u i s = (r, t) \<Longrightarrow> escrow_effect i s t"
  by (cases r) (auto simp: disputeEscrow_def escrow_op_defs op_iff Let_def same_parties_def same_terms_def
      intro: escrow_effect.none escrow_effect.disputed)


section \<open>Runs of the service\<close>

text \<open>The events of the service. The database gives a new escrow an id that is not in use.\<close>

datatype escrow_event =
    Create string string create_escrow_dto
  | Fund int string string
  | ReleaseBy int string string
  | RefundBy string string
  | Dispute string string
  | Resolve int string outcome
  | AutoRelease int

fun escrow_step :: "horizon \<Rightarrow> escrow_event \<Rightarrow> escrow_state \<Rightarrow> escrow_state" where
  "escrow_step H (Create i u dto) s =
     (if tbl_find i (escrows s) = None then snd (createEscrow i u dto s) else s)"
| "escrow_step H (Fund now u i) s = snd (fundEscrow H now u i s)"
| "escrow_step H (ReleaseBy now u i) s = snd (releaseEscrow H now u i False s)"
| "escrow_step H (RefundBy u i) s = snd (refundEscrow H u i s)"
| "escrow_step H (Dispute u i) s = snd (disputeEscrow u i s)"
| "escrow_step H (Resolve now i out) s = snd (resolveEscrow H now i out s)"
| "escrow_step H (AutoRelease now) s = snd (autoReleaseDueEscrows H now s)"

text \<open>A predicate that every effect keeps, and every creation, is kept by every event.\<close>

definition new_row :: "string \<Rightarrow> escrow_state \<Rightarrow> escrow_state \<Rightarrow> bool" where
  "new_row i s t \<longleftrightarrow> payments t = payments s \<and> same_parties s t \<and>
     (\<exists>e. escrows t = tbl_save i e (escrows s) \<and> e_status e = PENDING)"

lemma new_rowI:
  "escrows t = tbl_save i e (escrows s) \<Longrightarrow> e_status e = PENDING \<Longrightarrow> payments t = payments s \<Longrightarrow>
    same_parties s t \<Longrightarrow> new_row i s t"
  by (auto simp: new_row_def)

lemma createEscrow_effect:
  "createEscrow i u dto s = (r, t) \<Longrightarrow> escrow_effect i s t \<or> new_row i s t"
  by (cases r) (auto simp: createEscrow_def escrow_op_defs op_iff Let_def same_parties_def
      intro: escrow_effect.none new_rowI)

locale effect_invariant =
  fixes P :: "escrow_state \<Rightarrow> bool"
  assumes owned: "P s \<Longrightarrow> wallets_owned s"
    and effect: "P s \<Longrightarrow> escrow_effect i s t \<Longrightarrow> P t"
    and create: "P s \<Longrightarrow> tbl_find i (escrows s) = None \<Longrightarrow> new_row i s t \<Longrightarrow> P t"
begin

lemma fund_pres: "preserves P (fundEscrow H now u i)"
  unfolding preserves_def by (metis effect fundEscrow_effect prod.collapse)

lemma release_pres: "preserves P (releaseEscrow H now u i f)"
  unfolding preserves_def by (metis effect releaseEscrow_effect prod.collapse)

lemma refund_pres: "preserves P (refundEscrow H u i)"
  unfolding preserves_def by (metis effect owned refundEscrow_effect prod.collapse)

lemma dispute_pres: "preserves P (disputeEscrow u i)"
  unfolding preserves_def by (metis effect disputeEscrow_effect prod.collapse)

lemma resolve_pres: "preserves P (resolveEscrow H now i out)"
  unfolding resolveEscrow_def find_escrow_def by (intro pres release_pres refund_pres)

lemma auto_pres: "preserves P (autoReleaseDueEscrows H now)"
  unfolding autoReleaseDueEscrows_def
  by (intro pres) (auto split: prod.splits intro!: pres release_pres)

lemma create_pres:
  "P s \<Longrightarrow> tbl_find i (escrows s) = None \<Longrightarrow> P (snd (createEscrow i u dto s))"
  by (metis createEscrow_effect create effect prod.collapse)

lemma step_pres: "P s \<Longrightarrow> P (escrow_step H ev s)"
proof (cases ev)
  case (Create i u dto)
  then show "P s \<Longrightarrow> P (escrow_step H ev s)" using create_pres by simp
qed (use fund_pres release_pres refund_pres dispute_pres resolve_pres auto_pres in
    \<open>simp_all add: preserves_def\<close>)

lemma run_pres: "P s \<Longrightarrow> P (fold (escrow_step H) evs s)"
  by (induction evs arbitrary: s) (auto intro: step_pres)

end

lemma wallets_owned_parties: "wallets_owned s \<Longrightarrow> same_parties s t \<Longrightarrow> wallets_owned t"
  by (simp add: wallets_owned_def same_parties_def)

lemma effect_parties: "escrow_effect i s t \<Longrightarrow> same_parties s t"
  by (auto elim: escrow_effect.cases)

lemma effect_moves: "escrow_effect i s t \<Longrightarrow> moves escrow_status_of escrow_trans s t"
  by (auto elim!: escrow_effect.cases simp: moves_def escrow_status_of_def tbl_simps escrow_trans_simps
      intro!: r_into_rtranclp)

text \<open>Along a run from \<open>s0\<close> the statuses move along the transition relation.\<close>

interpretation esc_moves: effect_invariant
  "\<lambda>s. wallets_owned s \<and> moves escrow_status_of escrow_trans s0 s" for s0
proof unfold_locales
  show "wallets_owned s \<and> moves escrow_status_of escrow_trans s0 s \<Longrightarrow> wallets_owned s" for s
    by simp
  show "wallets_owned s \<and> moves escrow_status_of escrow_trans s0 s \<Longrightarrow> escrow_effect i s t \<Longrightarrow>
      wallets_owned t \<and> moves escrow_status_of escrow_trans s0 t" for s i t
    by (meson wallets_owned_parties effect_parties moves_trans effect_moves)
  show "wallets_owned t \<and> moves escrow_status_of escrow_trans s0 t"
    if "wallets_owned s \<and> moves escrow_status_of escrow_trans s0 s"
      "tbl_find i (escrows s) = None" "new_row i s t" for s i t
  proof
    show "wallets_owned t" using that wallets_owned_parties by (auto simp: new_row_def)
    have "moves escrow_status_of escrow_trans s t"
      using that(2,3) by (auto simp: new_row_def moves_def escrow_status_of_def tbl_simps)
    with that(1) show "moves escrow_status_of escrow_trans s0 t" by (blast intro: moves_trans)
  qed
qed

section \<open>At most one payout\<close>

text \<open>The payments out of the wallet of an escrow: those with its release or refund memo. An escrow
  is paid out once when it is settled and not at all before.\<close>

definition payouts :: "string \<Rightarrow> escrow_state \<Rightarrow> nat" where
  "payouts i s = length (filter (\<lambda>p. p_memo p = ''ESCROW-RELEASE-'' @ i \<or>
     p_memo p = ''ESCROW-REFUND-'' @ i) (payments s))"

definition settled :: "string \<Rightarrow> escrow_state \<Rightarrow> bool" where
  "settled i s \<longleftrightarrow> escrow_status_of i s \<in> {Some RELEASED, Some REFUNDED}"

definition payout_inv :: "escrow_state \<Rightarrow> bool" where
  "payout_inv s \<longleftrightarrow> wallets_owned s \<and> (\<forall>i. payouts i s = (if settled i s then 1 else 0))"

lemma effect_payout: "payout_inv s \<Longrightarrow> escrow_effect i s t \<Longrightarrow> payout_inv t"
proof -
  assume inv: "payout_inv s" and eff: "escrow_effect i s t"
  then have "wallets_owned t" by (auto simp: payout_inv_def intro: wallets_owned_parties effect_parties)
  moreover from eff have "payouts j t = (if settled j t then 1 else 0)" for j
  proof cases
    case none
    with inv show ?thesis by (simp add: payout_inv_def payouts_def settled_def escrow_status_of_def)
  next
    case (funded e e' p)
    then have "settled j t = settled j s" and "payouts j t = payouts j s"
      by (auto simp: payouts_def settled_def escrow_status_of_def tbl_simps)
    with inv show ?thesis by (simp add: payout_inv_def)
  next
    case (paid e e' p)
    then have "\<not> settled i s" by (auto simp: settled_def escrow_status_of_def)
    with inv have "payouts i s = 0" by (simp add: payout_inv_def)
    with paid inv show ?thesis
      by (auto simp: payout_inv_def payouts_def settled_def escrow_status_of_def tbl_simps)
  next
    case (disputed e e')
    then have "settled j t = settled j s" and "payouts j t = payouts j s"
      by (auto simp: payouts_def settled_def escrow_status_of_def tbl_simps)
    with inv show ?thesis by (simp add: payout_inv_def)
  qed
  ultimately show ?thesis by (simp add: payout_inv_def)
qed

interpretation esc_payout: effect_invariant payout_inv
proof unfold_locales
  show "payout_inv s \<Longrightarrow> wallets_owned s" for s by (simp add: payout_inv_def)
  show "payout_inv s \<Longrightarrow> escrow_effect i s t \<Longrightarrow> payout_inv t" for s i t by (rule effect_payout)
  show "payout_inv t" if inv: "payout_inv s" and no: "tbl_find i (escrows s) = None"
    and new: "new_row i s t" for s i t
  proof -
    have "settled j t = settled j s" and "payouts j t = payouts j s" for j
      using no new
      by (cases "j = i"; auto simp: new_row_def payouts_def settled_def escrow_status_of_def tbl_simps)+
    moreover have "wallets_owned t"
      using inv new wallets_owned_parties by (auto simp: new_row_def payout_inv_def)
    ultimately show ?thesis using inv by (simp add: payout_inv_def)
  qed
qed


section \<open>What the operations do to balances\<close>

lemma user_balance_update:
  "findById u s = Some v \<Longrightarrow>
    user_balance w c' (updateByUserId u (\<lambda>x. x\<lparr>u_balances := set_balance c b (u_balances v)\<rparr>) s) =
      (if w = u \<and> c' = c then b else user_balance w c' s)"
  by (auto simp: user_balance_def findById_updateByUserId set_balance_def balance_of_def split: option.splits)

lemma user_balance_found: "findById u s = Some v \<Longrightarrow> user_balance u c s = balance_of v c"
  by (simp add: user_balance_def)

lemma fundEscrow_balance:
  assumes "fundEscrow H now u i s = (Inr e', t)"
  shows "\<exists>e. tbl_find i (escrows s) = Some e \<and> e_senderId e = u \<and> e_status e = PENDING \<and>
    findById u s \<noteq> None \<and> tbl_find i (escrows t) = Some e' \<and> e_status e' = FUNDED \<and> same_terms e e' \<and>
    parse_float (e_amount e) \<le> user_balance u (e_currency e) s \<and>
    (\<forall>w c. user_balance w c t = user_balance w c (write_balance u (e_currency e)
       (js_sub (user_balance u (e_currency e) s) (parse_float (e_amount e))) s))"
proof -
  let ?f = "\<lambda>e v x. x\<lparr>u_balances := set_balance (e_currency e)
    (js_sub (balance_of v (e_currency e)) (parse_float (e_amount e))) (u_balances v)\<rparr>"
  from assms obtain e v where f: "tbl_find i (escrows s) = Some e" "e_senderId e = u" "e_status e = PENDING"
      "findById u s = Some v" "parse_float (e_amount e) \<le> balance_of v (e_currency e)"
    and t: "users t = users (updateByUserId u (?f e v) s)" "tbl_find i (escrows t) = Some e'"
      "e_status e' = FUNDED" "same_terms e e'"
    by (auto simp: fundEscrow_def find_escrow_def save_escrow_def escrow_tx_def sendStatusNotification_def
        getUserSourcePublicKey_def decrypt_op_def op_iff Let_def notify_def updateByUserId_def
        tbl_simps same_terms_def not_less dest!: resolveWallet_state)
  then have "user_balance w c t = user_balance w c (write_balance u (e_currency e)
       (js_sub (user_balance u (e_currency e) s) (parse_float (e_amount e))) s)" for w c
    using user_balance_update [OF f(4), of w c] bal.read_write [of u s]
    by (simp add: user_balance_cong [OF t(1)] user_balance_found [OF f(4)])
  with f t show ?thesis by (auto simp: user_balance_found)
qed

lemma updateUserBalance_balance:
  assumes "updateUserBalance u c x s = (Inr r, t)"
  shows "findById u s \<noteq> None \<and>
    (\<forall>w c'. user_balance w c' t = user_balance w c' (write_balance u c (js_add (user_balance u c s) x) s))"
  using assms by (auto simp: updateUserBalance_def op_iff user_balance_update user_balance_found bal.read_write)

lemma releaseEscrow_balance:
  assumes "releaseEscrow H now u i f s = (Inr e', t)"
  shows "\<exists>e. tbl_find i (escrows s) = Some e \<and> e_senderId e = u \<and>
    findById (e_recipientId e) s \<noteq> None \<and> tbl_find i (escrows t) = Some e' \<and> e_status e' = RELEASED \<and>
    (\<forall>w c. user_balance w c t = user_balance w c (write_balance (e_recipientId e) (e_currency e)
       (js_add (user_balance (e_recipientId e) (e_currency e) s) (parse_float (e_amount e))) s))"
proof -
  from assms obtain e s1 s2 r where e: "tbl_find i (escrows s) = Some e" "e_senderId e = u"
    and s1: "users s1 = users s"
    and s2: "updateUserBalance (e_recipientId e) (e_currency e) (parse_float (e_amount e)) s1 = (Inr r, s2)"
    and t: "users t = users s2" "tbl_find i (escrows t) = Some e'" "e_status e' = RELEASED"
    by (auto simp: releaseEscrow_def find_escrow_def save_escrow_def escrow_tx_def
        sendStatusNotification_def getUserSourcePublicKey_def getEscrowSecret_def decrypt_op_def
        updateUserBalance_def op_iff Let_def notify_def updateByUserId_def
        tbl_simps findById_def dest!: resolveWallet_state)
  have "findById w s1 = findById w s" for w using s1 by (simp add: findById_def)
  then have "user_balance w c (write_balance v d x s1) = user_balance w c (write_balance v d x s)"
    for w c v d x
    using s1 by (intro user_balance_cong) (simp add: write_balance_def updateByUserId_def)
  with updateUserBalance_balance [OF s2] e t s1 show ?thesis
    by (simp add: user_balance_cong [OF t(1)] user_balance_cong [OF s1] findById_def)
qed


text \<open>Once the sender is debited every way to fail leaves the debit in place: the balance is written
  outside the transaction that is rolled back.\<close>

lemma fundEscrow_debited:
  assumes "tbl_find i (escrows s) = Some e" and "e_senderId e = u" and "e_status e = PENDING"
    and "findById u s = Some v" and "parse_float (e_amount e) \<le> balance_of v (e_currency e)"
    and "fundEscrow H now u i s = (Inl err, t)"
  shows "user_balance u (e_currency e) t = js_sub (user_balance u (e_currency e) s) (parse_float (e_amount e))
    \<and> escrows t = escrows s \<and> payments t = payments s"
proof -
  let ?f = "\<lambda>x. x\<lparr>u_balances := set_balance (e_currency e)
    (js_sub (balance_of v (e_currency e)) (parse_float (e_amount e))) (u_balances v)\<rparr>"
  from assms have t: "users t = users (updateByUserId u ?f s)" and r: "escrows t = escrows s" "payments t = payments s"
    by (auto simp: fundEscrow_def find_escrow_def save_escrow_def escrow_tx_def sendStatusNotification_def
        getUserSourcePublicKey_def decrypt_op_def op_iff Let_def notify_def updateByUserId_def
        not_less dest!: resolveWallet_state)
  from user_balance_update [OF assms(4)] r show ?thesis
    by (simp add: user_balance_cong [OF t] user_balance_found [OF assms(4)])
qed

text \<open>Balances stay doubles and never become negative, provided no escrow has a negative amount.\<close>

definition amounts_ok :: "escrow_state \<Rightarrow> bool" where
  "amounts_ok s \<longleftrightarrow> users_ok s \<and> (\<forall>i e. tbl_find i (escrows s) = Some e \<longrightarrow> 0 \<le> e_amount e)"

inductive balance_effect :: "string \<Rightarrow> escrow_state \<Rightarrow> escrow_state \<Rightarrow> bool" for i s t where
  same: "users t = users s \<Longrightarrow> balance_effect i s t"
| debit: "tbl_find i (escrows s) = Some e \<Longrightarrow> tbl_find u (users s) = Some v \<Longrightarrow>
    parse_float (e_amount e) \<le> balance_of v c \<Longrightarrow>
    users t = tbl_update u (\<lambda>x. x\<lparr>u_balances :=
      set_balance c (js_sub (balance_of v c) (parse_float (e_amount e))) (u_balances v)\<rparr>) (users s) \<Longrightarrow>
    balance_effect i s t"
| credit: "tbl_find i (escrows s) = Some e \<Longrightarrow> tbl_find u (users s) = Some v \<Longrightarrow>
    users t = tbl_update u (\<lambda>x. x\<lparr>u_balances :=
      set_balance c (js_add (balance_of v c) (parse_float (e_amount e))) (u_balances v)\<rparr>) (users s) \<Longrightarrow>
    balance_effect i s t"

lemma fundEscrow_balance_effect: "fundEscrow H now u i s = (r, t) \<Longrightarrow> balance_effect i s t"
  by (cases r) (auto simp: fundEscrow_def escrow_op_defs op_iff Let_def not_less
      dest!: resolveWallet_state intro: balance_effect.same balance_effect.debit)

lemma releaseEscrow_balance_effect: "releaseEscrow H now u i f s = (r, t) \<Longrightarrow> balance_effect i s t"
  by (cases r) (auto simp: releaseEscrow_def escrow_op_defs op_iff Let_def
      dest!: resolveWallet_state intro: balance_effect.same balance_effect.credit)

lemma refundEscrow_balance_effect: "refundEscrow H u i s = (r, t) \<Longrightarrow> balance_effect i s t"
  by (cases r) (auto simp: refundEscrow_def escrow_op_defs op_iff Let_def
      dest!: resolveWallet_state intro: balance_effect.same balance_effect.credit)

lemma disputeEscrow_balance_effect: "disputeEscrow u i s = (r, t) \<Longrightarrow> balance_effect i s t"
  by (cases r) (auto simp: disputeEscrow_def escrow_op_defs op_iff Let_def intro: balance_effect.same)

lemma balance_effect_users_ok:
  assumes "users_ok s" and "\<And>e. tbl_find i (escrows s) = Some e \<Longrightarrow> 0 \<le> e_amount e"
    and "balance_effect i s t"
  shows "users_ok t"
proof -
  have upd: "users_ok t" if "tbl_find u (users s) = Some v" "is_double b" "0 \<le> b"
      "users t = tbl_update u (\<lambda>x. x\<lparr>u_balances := set_balance c b (u_balances v)\<rparr>) (users s)"
    for u v b c
  proof -
    have "balances_ok (u_balances v)" using assms(1) that(1) by (auto simp: findById_def dest: users_okD)
    then have "users_ok (updateByUserId u (\<lambda>x. x\<lparr>u_balances := set_balance c b (u_balances v)\<rparr>) s)"
      using assms(1) that(2,3) by (intro users_ok_update) (simp_all add: balances_ok_set)
    moreover have "users (updateByUserId u (\<lambda>x. x\<lparr>u_balances := set_balance c b (u_balances v)\<rparr>) s) = users t"
      using that(4) by (simp add: updateByUserId_def)
    ultimately show ?thesis using users_ok_cong by blast
  qed
  from assms(3) show ?thesis
  proof cases
    case same
    then show ?thesis using assms(1) by (simp add: users_ok_def findById_def)
  next
    case (debit e u v c)
    then show ?thesis by (intro upd) (simp_all add: js_bounds)
  next
    case (credit e u v c)
    moreover have "0 \<le> balance_of v c"
      using assms(1) credit(2) by (auto simp: findById_def dest: users_okD balances_ok_read)
    moreover have "0 \<le> parse_float (e_amount e)" using assms(2) credit(1) by (simp add: js_bounds)
    ultimately show ?thesis by (intro upd) (simp_all add: js_bounds)
  qed
qed

lemma effect_amounts:
  assumes "amounts_ok s" and "escrow_effect i s t" and "balance_effect i s t"
  shows "amounts_ok t"
proof -
  have "users_ok t"
    using assms by (intro balance_effect_users_ok [OF _ _ assms(3)]) (simp_all add: amounts_ok_def)
  moreover from assms(2,1) have "\<forall>j e. tbl_find j (escrows t) = Some e \<longrightarrow> 0 \<le> e_amount e"
    by cases (auto simp: amounts_ok_def tbl_simps same_terms_def)
  ultimately show ?thesis by (simp add: amounts_ok_def)
qed

text \<open>The amounts a creation asks for; the request type does not bound them.\<close>

fun nonneg_request :: "escrow_event \<Rightarrow> bool" where
  "nonneg_request (Create i u dto) = (0 \<le> dto_amount dto)"
| "nonneg_request _ = True"

definition amounts_inv :: "escrow_state \<Rightarrow> bool" where
  "amounts_inv s \<longleftrightarrow> wallets_owned s \<and> amounts_ok s"

lemma amounts_inv_op:
  assumes "amounts_inv s" and "escrow_effect i s t" and "balance_effect i s t"
  shows "amounts_inv t"
  using assms effect_amounts effect_parties wallets_owned_parties by (auto simp: amounts_inv_def)

lemma release_amounts [pres]: "preserves amounts_inv (releaseEscrow H now u i f)"
  unfolding preserves_def
  by (metis amounts_inv_op prod.collapse releaseEscrow_balance_effect releaseEscrow_effect)

lemma refund_amounts [pres]: "preserves amounts_inv (refundEscrow H u i)"
  unfolding preserves_def
  by (metis amounts_inv_def amounts_inv_op prod.collapse refundEscrow_balance_effect refundEscrow_effect)

lemma resolve_amounts: "preserves amounts_inv (resolveEscrow H now i out)"
  unfolding resolveEscrow_def find_escrow_def by (intro pres)

lemma auto_amounts: "preserves amounts_inv (autoReleaseDueEscrows H now)"
  unfolding autoReleaseDueEscrows_def by (intro pres) (auto split: prod.splits intro!: pres)

lemma create_amounts:
  assumes "amounts_inv s" and "0 \<le> dto_amount dto" and "createEscrow i u dto s = (r, t)"
  shows "amounts_inv t"
proof -
  have "users t = users s \<and> wallets t = wallets s \<and>
      (\<forall>j e. tbl_find j (escrows t) = Some e \<longrightarrow> 0 \<le> e_amount e)"
    using assms
    by (cases r) (auto simp: createEscrow_def escrow_op_defs op_iff Let_def amounts_inv_def
        amounts_ok_def tbl_simps to_fixed_nonneg split: if_splits)
  with assms(1) show ?thesis
    by (simp add: amounts_inv_def amounts_ok_def users_ok_def findById_def wallets_owned_def)
qed

lemma step_amounts: "amounts_inv s \<Longrightarrow> nonneg_request ev \<Longrightarrow> amounts_inv (escrow_step H ev s)"
proof (cases ev)
  case (Fund now u i)
  then show "amounts_inv s \<Longrightarrow> ?thesis"
    by (metis amounts_inv_op escrow_step.simps(2) fundEscrow_balance_effect fundEscrow_effect prod.collapse)
next
  case (Dispute u i)
  then show "amounts_inv s \<Longrightarrow> ?thesis"
    by (metis amounts_inv_op escrow_step.simps(5) disputeEscrow_balance_effect disputeEscrow_effect
        prod.collapse)
next
  case (Create i u dto)
  then show "amounts_inv s \<Longrightarrow> nonneg_request ev \<Longrightarrow> ?thesis"
    using create_amounts [of s dto i u] by (cases "createEscrow i u dto s") auto
qed (use release_amounts refund_amounts resolve_amounts auto_amounts in \<open>simp_all add: preserves_def\<close>)

lemma run_amounts:
  "amounts_inv s \<Longrightarrow> \<forall>ev \<in> set evs. nonneg_request ev \<Longrightarrow> amounts_inv (fold (escrow_step H) evs s)"
  by (induction evs arbitrary: s) (auto intro: step_amounts)


section \<open>Properties\<close>

text \<open>A concrete service for the witnesses: two users with wallets, a network that accepts every
  payment, and one that accepts none.\<close>

definition demo_wallet :: "string \<Rightarrow> wallet" where
  "demo_wallet u = \<lparr>w_userId = u, w_publicKey = u, w_encryptedSecretKey = Some ''k'', w_isDefault = True\<rparr>"

definition demo_escrow :: "rat \<Rightarrow> escrow_status \<Rightarrow> escrow" where
  "demo_escrow x st = \<lparr>e_senderId = ''alice'', e_recipientId = ''bob'', e_amount = x,
     e_currency = ''XLM'', e_title = ''t'', e_description = ''d'', e_releaseCondition = ''c'',
     e_status = st, e_autoReleaseAt = None, e_disputeWindowHours = 24,
     e_stellarEscrowPublicKey = None, e_stellarEscrowSecretEncrypted = None, e_fundedTxHash = None,
     e_releaseTxHash = None, e_refundTxHash = None, e_fundedAt = None, e_releasedAt = None\<rparr>"

definition demo_state :: "rat \<Rightarrow> escrow_status \<Rightarrow> escrow_state" where
  "demo_state x st = \<lparr>users = [(''alice'', demo_user 100), (''bob'', demo_user 5)],
     wallets = [(''w1'', demo_wallet ''alice''), (''w2'', demo_wallet ''bob'')],
     notifications = [], calls = 0, payments = [], escrows = [(''e1'', demo_escrow x st)]\<rparr>"

definition demo_net :: horizon where
  "demo_net = \<lparr>submit = (\<lambda>n p. Some ''hash''), new_keypair = (\<lambda>n. (''GPUB'', ''SEC'')),
     encrypt = (\<lambda>x. x), decrypt = Some\<rparr>"

definition demo_down :: horizon where
  "demo_down = demo_net\<lparr>submit := (\<lambda>n p. None)\<rparr>"

lemmas demo_defs = demo_state_def demo_escrow_def demo_user_def demo_wallet_def demo_net_def demo_down_def

lemma demo_owned: "wallets_owned (demo_state x st)"
  by (auto simp: wallets_owned_def demo_defs)

text \<open>An escrow that has been released or refunded keeps that status through every later sequence of
  requests and cron runs: no event of the service moves it again.\<close>

theorem escrow_settled_final:
  assumes "wallets_owned s" and "settled i s"
  shows "escrow_status_of i (fold (escrow_step H) evs s) = escrow_status_of i s"
proof -
  have "moves escrow_status_of escrow_trans s (fold (escrow_step H) evs s)"
    using esc_moves.run_pres [of s s H evs] assms(1) by (simp add: moves_refl)
  from moves_final [OF this] assms(2) show ?thesis
    by (auto simp: settled_def escrow_trans_simps)
qed

theorem escrow_settled_final_witness:
  "escrow_status_of ''e1'' (fold (escrow_step demo_net) [Fund 0 ''alice'' ''e1'', RefundBy ''alice'' ''e1'']
     (demo_state 40 RELEASED)) = Some RELEASED"
proof -
  have st: "escrow_status_of ''e1'' (demo_state 40 RELEASED) = Some RELEASED"
    by (simp add: escrow_status_of_def demo_defs tbl_find_def)
  then have "settled ''e1'' (demo_state 40 RELEASED)" by (simp add: settled_def)
  from escrow_settled_final [OF demo_owned this] show ?thesis unfolding st by blast
qed

text \<open>C5. Starting with no settled escrow and no payment made, whatever the requests and whatever the
  network answers, the wallet of an escrow pays out exactly once if the escrow is settled and never
  otherwise: release and refund are mutually exclusive and none happens twice.\<close>

theorem escrow_paid_once:
  assumes "wallets_owned s" and "payments s = []" and "\<And>j. \<not> settled j s"
  shows "payouts i (fold (escrow_step H) evs s) = (if settled i (fold (escrow_step H) evs s) then 1 else 0)"
proof -
  have "payout_inv s" using assms by (simp add: payout_inv_def payouts_def)
  from esc_payout.run_pres [OF this, of H evs] show ?thesis by (simp add: payout_inv_def)
qed

theorem escrow_paid_once_witness:
  "payouts ''e1'' (fold (escrow_step demo_net)
     [Fund 0 ''alice'' ''e1'', ReleaseBy 1 ''alice'' ''e1'', RefundBy ''bob'' ''e1''] (demo_state 40 PENDING)) \<le> 1"
proof -
  have "\<not> settled j (demo_state 40 PENDING)" for j
    by (simp add: settled_def escrow_status_of_def demo_defs tbl_find_def)
  moreover have "payments (demo_state 40 PENDING) = []" by (simp add: demo_state_def)
  ultimately show ?thesis using escrow_paid_once [OF demo_owned] by (metis le_refl zero_le_one)
qed



text \<open>A funding that fails after the sender's balance was checked leaves the sender debited although
  the escrow stays pending and no payment was made: \<open>fundEscrow\<close> writes the balance through the user
  service, outside the transaction that is rolled back.\<close>

theorem escrow_fund_failure_debits:
  assumes "tbl_find i (escrows s) = Some e" and "e_senderId e = u" and "e_status e = PENDING"
    and "findById u s \<noteq> None" and "parse_float (e_amount e) \<le> user_balance u (e_currency e) s"
    and "\<And>n p. submit H n p = None"
  shows "\<exists>err t. fundEscrow H now u i s = (Inl err, t) \<and> escrow_status_of i t = Some PENDING \<and>
    payments t = payments s \<and>
    user_balance u (e_currency e) t = js_sub (user_balance u (e_currency e) s) (parse_float (e_amount e))"
proof (cases "fundEscrow H now u i s")
  case (Pair r t)
  obtain v where v: "findById u s = Some v" using assms(4) by auto
  show ?thesis
  proof (cases r)
    case (Inl err)
    with Pair assms(5) fundEscrow_debited [OF assms(1,2,3) v] have
      "user_balance u (e_currency e) t = js_sub (user_balance u (e_currency e) s) (parse_float (e_amount e))
        \<and> escrows t = escrows s \<and> payments t = payments s"
      by (simp add: user_balance_found [OF v])
    with Pair Inl assms(1,3) show ?thesis by (simp add: escrow_status_of_def)
  next
    case (Inr e')
    with Pair assms(6) show ?thesis
      by (auto simp: fundEscrow_def escrow_op_defs op_iff Let_def)
  qed
qed

theorem escrow_fund_failure_debits_witness:
  "\<exists>err t. fundEscrow demo_down 0 ''alice'' ''e1'' (demo_state (- 40) PENDING) = (Inl err, t) \<and>
     escrow_status_of ''e1'' t = Some PENDING \<and> user_balance ''alice'' ''XLM'' t = 140"
proof -
  let ?s = "demo_state (- 40) PENDING" and ?e = "demo_escrow (- 40) PENDING"
  have e: "tbl_find ''e1'' (escrows ?s) = Some ?e" and u: "findById ''alice'' ?s \<noteq> None"
    and b: "user_balance ''alice'' ''XLM'' ?s = 100"
    by (simp_all add: demo_state_def demo_user_def findById_def tbl_find_def user_balance_def balance_of_def)
  have f: "e_senderId ?e = ''alice''" "e_status ?e = PENDING" "e_currency ?e = ''XLM''"
    "parse_float (e_amount ?e) = - 40" and d: "\<And>n p. submit demo_down n p = None"
    by (simp_all add: demo_escrow_def demo_down_def parse_float_def)
  have "parse_float (e_amount ?e) \<le> user_balance ''alice'' (e_currency ?e) ?s" using f b by simp
  from escrow_fund_failure_debits [OF e f(1,2) u this d, where now = 0] f b show ?thesis
    by (auto simp: js_sub_def)
qed

text \<open>As long as no creation asks for a negative amount, no sequence of requests makes a user balance
  negative, and every balance remains a double.\<close>

theorem escrow_balances_nonneg:
  assumes "wallets_owned s" and "users_ok s"
    and "\<And>i e. tbl_find i (escrows s) = Some e \<Longrightarrow> 0 \<le> e_amount e"
    and "\<forall>ev \<in> set evs. nonneg_request ev"
  shows "users_ok (fold (escrow_step H) evs s)"
  using run_amounts [of s evs H] assms by (auto simp: amounts_inv_def amounts_ok_def)

theorem escrow_balances_nonneg_witness:
  "users_ok (fold (escrow_step demo_net) [Fund 0 ''alice'' ''e1'', Dispute ''bob'' ''e1'', Resolve 3 ''e1'' Refund]
     (demo_state 40 PENDING))"
proof (rule escrow_balances_nonneg [OF demo_owned])
  show "users_ok (demo_state 40 PENDING)"
    by (auto simp: users_ok_def findById_def demo_defs tbl_find_def balances_ok_def split: if_splits)
  show "0 \<le> e_amount e" if "tbl_find i (escrows (demo_state 40 PENDING)) = Some e" for i e
    using that by (auto simp: demo_defs tbl_find_def split: if_splits)
qed simp

end
