(* ===== verification/Ledger.thy ===== *)
theory Ledger
  imports Stellar "HOL-Library.List_Lexorder" "HOL-Library.Char_ord"
begin

text \<open>
  The transaction row (\<open>transactions/entities/transaction.entity.ts\<close>), the double-entry ledger
  (\<open>ledger/services/ledger.service.ts\<close>, \<open>ledger/entities/ledger-entry.entity.ts\<close>) and its
  verification job (\<open>ledger/services/ledger-verification.service.ts\<close>), whose SQL aggregates are
  written out over the list of entries.
\<close>

section \<open>Transactions\<close>

datatype tx_type = DEPOSIT | WITHDRAW | SWAP | LOAN_DISBURSEMENT | LOAN_REPAYMENT

datatype tx_status = PENDING | SUCCESS | FAILED | CANCELLED

record transaction =
  t_userId :: string
  t_type :: tx_type
  t_amount :: rat
  t_currency :: string
  t_rate :: "rat option"
  t_status :: tx_status
  t_txHash :: "string option"
  t_failureReason :: "string option"
  t_feeAmount :: "rat option"
  t_feeCurrency :: "string option"
  t_toCurrency :: "string option"
  t_toAmount :: "rat option"
  t_createdAt :: int
  t_reference :: "string option"
  t_counterpartyMemo :: "string option"
  t_userNote :: "string option"
  t_tags :: "string list option"
  t_categoryId :: "string option"

section \<open>Entries\<close>

datatype account_type = ACC_USER | PLATFORM_ASSET | PLATFORM_LIABILITY | FEE_REVENUE

datatype direction = DEBIT | CREDIT

record ledger_entry =
  le_transactionId :: string
  le_accountType :: account_type
  le_direction :: direction
  le_amount :: rat
  le_currency :: string

definition entry :: "string \<Rightarrow> account_type \<Rightarrow> direction \<Rightarrow> rat \<Rightarrow> string \<Rightarrow> ledger_entry" where
  "entry i acc dir x c = \<lparr>le_transactionId = i, le_accountType = acc, le_direction = dir,
     le_amount = pg_numeric 8 x, le_currency = c\<rparr>"

fun buildEntries :: "string \<Rightarrow> transaction \<Rightarrow> exn + ledger_entry list" where
  "buildEntries i t =
     (let amount = t_amount t; currency = t_currency t;
          feeAmount = (case t_feeAmount t of None \<Rightarrow> 0 | Some f \<Rightarrow> f);
          feeCurrency = (case t_feeCurrency t of None \<Rightarrow> currency | Some c \<Rightarrow> c)
      in if t_type t = DEPOSIT then Inr
             [entry i ACC_USER CREDIT amount currency,
              entry i PLATFORM_LIABILITY DEBIT amount currency]
         else if t_type t = WITHDRAW then Inr
             [entry i ACC_USER DEBIT amount currency,
              entry i PLATFORM_ASSET CREDIT amount currency]
         else if t_type t = SWAP then
             (let toAmount = (case t_toAmount t of None \<Rightarrow> amount | Some x \<Rightarrow> x);
                  destinationCurrency = (case t_toCurrency t of None \<Rightarrow> currency | Some c \<Rightarrow> c)
              in Inr
             [entry i ACC_USER DEBIT amount currency,
              entry i PLATFORM_ASSET CREDIT amount currency,
              entry i PLATFORM_ASSET DEBIT toAmount destinationCurrency,
              entry i ACC_USER CREDIT toAmount destinationCurrency,
              entry i FEE_REVENUE DEBIT feeAmount feeCurrency,
              entry i PLATFORM_ASSET CREDIT feeAmount feeCurrency])
         else if t_type t = LOAN_DISBURSEMENT then Inr
             [entry i ACC_USER CREDIT amount currency,
              entry i PLATFORM_LIABILITY DEBIT amount currency]
         else if t_type t = LOAN_REPAYMENT then Inr
             [entry i ACC_USER DEBIT amount currency,
              entry i PLATFORM_ASSET CREDIT amount currency]
         else Inl (BadRequestException ''Unsupported transaction type: ${transaction.type}''))"

declare buildEntries.simps [simp del]

section \<open>Verification\<close>

text \<open>\<open>CASE WHEN direction = 'CREDIT' THEN amount ELSE -amount END\<close>, and its sum over a group.\<close>

definition signed :: "ledger_entry \<Rightarrow> rat" where
  "signed e = (if le_direction e = CREDIT then le_amount e else - le_amount e)"

definition amountDelta :: "string \<Rightarrow> ledger_entry list \<Rightarrow> rat" where
  "amountDelta c es = sum_list (map signed (filter (\<lambda>e. le_currency e = c) es))"

text \<open>\<open>GROUP BY currency HAVING ... <> 0 ORDER BY currency ASC\<close>.\<close>

definition discrepancies :: "ledger_entry list \<Rightarrow> (string \<times> rat) list" where
  "discrepancies es = filter (\<lambda>(c, d). d \<noteq> 0)
     (map (\<lambda>c. (c, amountDelta c es)) (sort (remdups (map le_currency es))))"

record ledger_state = chain +
  ledger :: "ledger_entry list"

datatype verification = BALANCED | DISCREPANCY "(string \<times> rat) list"

definition notifyAdmins :: "ledger_state \<Rightarrow> ledger_state" where
  "notifyAdmins s = fold (\<lambda>(i, u). notify i ''Ledger discrepancy detected''
       ''Ledger verification found a discrepancy: '')
     (filter (\<lambda>(i, u). u_role u = ADMIN \<or> u_role u = SUPER_ADMIN) (users s)) s"

definition verify :: "(ledger_state, verification) op" where
  "verify = bindE (gets (\<lambda>s. discrepancies (ledger s))) (\<lambda>rows.
     if rows = [] then ret BALANCED
     else bindE (modify notifyAdmins) (\<lambda>_. ret (DISCREPANCY rows)))"

definition getEntries :: "string option \<Rightarrow> (ledger_state, ledger_entry list) op" where
  "getEntries transactionId =
     bindE (require (truthy transactionId) (BadRequestException ''transactionId is required'')) (\<lambda>_.
     gets (\<lambda>s. filter (\<lambda>e. le_transactionId e = the transactionId) (ledger s)))"

definition getBalances :: "ledger_entry list \<Rightarrow> (string \<times> account_type \<times> rat) list" where
  "getBalances es = concat (map (\<lambda>c. map (\<lambda>a. (c, a, sum_list (map signed
       (filter (\<lambda>e. le_currency e = c \<and> le_accountType e = a) es))))
       (filter (\<lambda>a. \<exists>e \<in> set es. le_currency e = c \<and> le_accountType e = a)
         [ACC_USER, PLATFORM_ASSET, PLATFORM_LIABILITY, FEE_REVENUE]))
     (sort (remdups (map le_currency es))))"

section \<open>Balanced entries\<close>

lemma amountDelta_Nil [simp]: "amountDelta c [] = 0"
  by (simp add: amountDelta_def)

lemma amountDelta_Cons:
  "amountDelta c (e # es) = (if le_currency e = c then signed e else 0) + amountDelta c es"
  by (simp add: amountDelta_def)

lemma amountDelta_append [simp]: "amountDelta c (es @ fs) = amountDelta c es + amountDelta c fs"
  by (simp add: amountDelta_def)

lemma amountDelta_absent: "c \<notin> le_currency ` set es \<Longrightarrow> amountDelta c es = 0"
  by (induction es) (auto simp: amountDelta_Cons)

lemma signed_entry [simp]:
  "signed (entry i a CREDIT x c) = pg_numeric 8 x" "signed (entry i a DEBIT x c) = - pg_numeric 8 x"
  by (simp_all add: signed_def entry_def)

lemma entry_currency [simp]: "le_currency (entry i a d x c) = c"
  by (simp add: entry_def)

lemma discrepancies_Nil_iff: "discrepancies es = [] \<longleftrightarrow> (\<forall>c. amountDelta c es = 0)"
proof
  assume "discrepancies es = []"
  then have "\<forall>c \<in> le_currency ` set es. amountDelta c es = 0"
    by (auto simp: discrepancies_def filter_empty_conv)
  then show "\<forall>c. amountDelta c es = 0" using amountDelta_absent by metis
qed (auto simp: discrepancies_def filter_empty_conv)

lemma set_discrepancies: "set (discrepancies es) = {(c, d). d = amountDelta c es \<and> d \<noteq> 0}"
proof -
  have "c \<in> le_currency ` set es" if "amountDelta c es \<noteq> 0" for c
    using that amountDelta_absent by blast
  then show ?thesis by (auto simp: discrepancies_def)
qed

lemma distinct_discrepancies: "distinct (map fst (discrepancies es))"
proof -
  have "map fst (discrepancies es) =
      filter (\<lambda>c. amountDelta c es \<noteq> 0) (sort (remdups (map le_currency es)))"
    unfolding discrepancies_def by (simp add: filter_map o_def map_map)
  then show ?thesis by simp
qed

text \<open>Whoever writes batches of entries that cancel out per currency keeps the ledger balanced.\<close>

locale balanced_source =
  fixes emit :: "'t \<Rightarrow> ledger_entry list"
  assumes emit_balanced: "amountDelta c (emit t) = 0"
begin

lemma append_delta: "amountDelta c (es @ emit t) = amountDelta c es"
  by (simp add: emit_balanced)

lemma history_delta: "amountDelta c (es @ concat (map emit ts)) = amountDelta c es"
  by (induction ts) (simp_all add: emit_balanced)

lemma history_balanced: "discrepancies (concat (map emit ts)) = []"
  using history_delta [of _ "[]" ts] by (simp add: discrepancies_Nil_iff)

end

definition entries_of :: "string \<times> transaction \<Rightarrow> ledger_entry list" where
  "entries_of p = (case buildEntries (fst p) (snd p) of Inl _ \<Rightarrow> [] | Inr es \<Rightarrow> es)"

lemma buildEntries_total: "\<exists>es. buildEntries i t = Inr es"
  by (cases "t_type t") (simp_all add: buildEntries.simps Let_def)

lemma entries_of_Inr: "buildEntries i t = Inr es \<Longrightarrow> entries_of (i, t) = es"
  by (simp add: entries_of_def)

interpretation book: balanced_source entries_of
proof unfold_locales
  fix c and p :: "string \<times> transaction"
  obtain i t where "p = (i, t)" by force
  then show "amountDelta c (entries_of p) = 0"
    by (cases "t_type t") (simp_all add: entries_of_def buildEntries.simps Let_def amountDelta_Cons)
qed

text \<open>The services that write transactions and their entries together work on both tables. A database
  generates the id of a new row; \<open>uuid n\<close> is the id of the n-th row inserted.\<close>

record books = ledger_state +
  transactions :: "transaction table"

definition insert_transaction :: "(nat \<Rightarrow> string) \<Rightarrow> transaction \<Rightarrow> ('a books_scheme, string) op" where
  "insert_transaction uuid t s =
     (let i = uuid (length (transactions s))
      in (Inr i, s\<lparr>transactions := tbl_save i t (transactions s)\<rparr>))"

definition insert_entries :: "ledger_entry list \<Rightarrow> ('a ledger_state_scheme, unit) op" where
  "insert_entries es = modify (\<lambda>s. s\<lparr>ledger := ledger s @ es\<rparr>)"

section \<open>Properties\<close>

text \<open>Recording transactions of any type keeps the ledger balanced: after any history of recorded
  transactions every currency's credits equal its debits, so verification answers BALANCED and notifies
  nobody.\<close>

theorem ledger_history_verifies:
  assumes "ledger s = concat (map entries_of history)"
  shows "verify s = (Inr BALANCED, s)"
  using book.history_balanced [of history] assms by (simp add: verify_def op_defs)

definition demo_tx :: "tx_type \<Rightarrow> transaction" where
  "demo_tx ty = \<lparr>t_userId = ''u'', t_type = ty, t_amount = 10, t_currency = ''XLM'', t_rate = Some 1,
     t_status = PENDING, t_txHash = None, t_failureReason = None, t_feeAmount = Some (1 / 2),
     t_feeCurrency = None, t_toCurrency = Some ''NGN'', t_toAmount = Some 1500, t_createdAt = 0,
     t_reference = None, t_counterpartyMemo = None, t_userNote = None, t_tags = None,
     t_categoryId = None\<rparr>"

definition demo_ledger :: "ledger_entry list \<Rightarrow> ledger_state" where
  "demo_ledger es = \<lparr>users = [], wallets = [], notifications = [], calls = 0, payments = [], ledger = es\<rparr>"

theorem ledger_history_verifies_witness:
  "fst (verify (demo_ledger (concat (map entries_of [(''t1'', demo_tx SWAP), (''t2'', demo_tx DEPOSIT)])))) =
     Inr BALANCED"
proof -
  have "ledger (demo_ledger (concat (map entries_of [(''t1'', demo_tx SWAP), (''t2'', demo_tx DEPOSIT)]))) =
      concat (map entries_of [(''t1'', demo_tx SWAP), (''t2'', demo_tx DEPOSIT)])"
    by (simp only: demo_ledger_def ledger_state.select_convs)
  from ledger_history_verifies [OF this] show ?thesis by (simp only: fst_conv)
qed

text \<open>Verification is exact: it answers BALANCED iff every currency nets to zero, and otherwise lists
  each unbalanced currency once with its net amount, leaving the ledger untouched.\<close>

theorem ledger_verify_exact:
  "(\<exists>t. verify s = (Inr BALANCED, t) \<and> t = s \<and> (\<forall>c. amountDelta c (ledger s) = 0)) \<or>
   (\<exists>rows t. verify s = (Inr (DISCREPANCY rows), t) \<and> ledger t = ledger s \<and> rows \<noteq> [] \<and>
      distinct (map fst rows) \<and> set rows = {(c, d). d = amountDelta c (ledger s) \<and> d \<noteq> 0})"
proof (cases "discrepancies (ledger s) = []")
  case True
  then show ?thesis by (simp add: verify_def op_defs discrepancies_Nil_iff)
next
  case False
  have "ledger (fold (\<lambda>(i, u). notify i a b) us x) = ledger x" for us a b and x :: ledger_state
    by (induction us arbitrary: x) (auto simp: notify_def)
  then have "ledger (notifyAdmins s) = ledger s" by (simp add: notifyAdmins_def)
  with False show ?thesis
    by (auto simp: verify_def op_defs set_discrepancies distinct_discrepancies)
qed

end
