(* ===== verification/Fees.thy ===== *)
theory Fees
  imports Ledger
begin

text \<open>
  Transaction fees (\<open>fees/fees.service.ts\<close>, \<open>fees/entities/fee-config.entity.ts\<close>,
  \<open>fees/entities/fee-record.entity.ts\<close>): the active rule for a transaction type and currency, with the
  wildcard currency as fallback, the fee it gives, and the administration of the rules. Decimal columns
  have scale 8. A row lookup without an order takes the first match of the table.
\<close>

section \<open>Rules\<close>

datatype fee_tx_type = FEE_DEPOSIT | FEE_WITHDRAW | FEE_CONVERT | FEE_SWAP

datatype fee_type = FLAT | PERCENTAGE

record fee_config =
  fc_transactionType :: fee_tx_type
  fc_currency :: string
  fc_feeType :: fee_type
  fc_feeValue :: rat
  fc_minFee :: "rat option"
  fc_maxFee :: "rat option"
  fc_isActive :: bool

record fee_record =
  fr_transactionId :: string
  fr_userId :: string
  fr_feeAmount :: rat
  fr_feeCurrency :: string
  fr_feeType :: fee_type

record calculated_fee =
  feeAmount :: rat
  feeCurrency :: string
  feeType :: fee_type

record create_fee_dto =
  cf_transactionType :: fee_tx_type
  cf_currency :: string
  cf_feeType :: fee_type
  cf_feeValue :: rat
  cf_minFee :: "rat option"
  cf_maxFee :: "rat option"

record update_fee_dto =
  uf_transactionType :: "fee_tx_type option"
  uf_currency :: "string option"
  uf_feeType :: "fee_type option"
  uf_feeValue :: "rat option"
  uf_minFee :: "rat option"
  uf_maxFee :: "rat option"
  uf_isActive :: "bool option"

type_synonym fee_configs = "fee_config table"

definition ascii_upper :: "char \<Rightarrow> char" where
  "ascii_upper c = (if of_char c \<ge> (97::nat) \<and> of_char c \<le> (122::nat) then char_of (of_char c - (32::nat)) else c)"

definition toUpperCase :: "string \<Rightarrow> string" where
  "toUpperCase s = map ascii_upper s"

text \<open>A number as a condition: undefined and zero are false.\<close>

definition num_truthy :: "rat option \<Rightarrow> bool" where
  "num_truthy x = (case x of None \<Rightarrow> False | Some v \<Rightarrow> v \<noteq> 0)"

definition activeRule :: "fee_tx_type \<Rightarrow> string \<Rightarrow> fee_configs \<Rightarrow> fee_config option" where
  "activeRule ty cur cs = map_option snd
     (List.find (\<lambda>(i, c). fc_transactionType c = ty \<and> fc_currency c = cur \<and> fc_isActive c) cs)"

definition findActiveConfig :: "fee_tx_type \<Rightarrow> string \<Rightarrow> fee_configs \<Rightarrow> fee_config option" where
  "findActiveConfig ty currency cs =
     (case activeRule ty (toUpperCase currency) cs of
        Some c \<Rightarrow> Some c
      | None \<Rightarrow> activeRule ty ''*'' cs)"

definition rawFee :: "fee_config \<Rightarrow> rat \<Rightarrow> rat" where
  "rawFee c amount =
     (if fc_feeType c = FLAT then parse_float (fc_feeValue c)
      else let fee = js_mul (js_div (parse_float (fc_feeValue c)) 100) amount;
               minFee = map_option parse_float (fc_minFee c);
               maxFee = map_option parse_float (fc_maxFee c);
               fee1 = (case minFee of None \<Rightarrow> fee | Some lo \<Rightarrow> if fee < lo then lo else fee)
           in (case maxFee of None \<Rightarrow> fee1 | Some hi \<Rightarrow> if fee1 > hi then hi else fee1))"

definition calculateFee :: "fee_tx_type \<Rightarrow> string \<Rightarrow> rat \<Rightarrow> fee_configs \<Rightarrow> calculated_fee" where
  "calculateFee ty currency amount cs =
     (case findActiveConfig ty currency cs of
        None \<Rightarrow> \<lparr>feeAmount = 0, feeCurrency = currency, feeType = FLAT\<rparr>
      | Some c \<Rightarrow> \<lparr>feeAmount = parse_float (to_fixed 8 (rawFee c amount)), feeCurrency = currency,
                   feeType = fc_feeType c\<rparr>)"

definition feeRecord :: "string \<Rightarrow> string \<Rightarrow> calculated_fee \<Rightarrow> fee_record" where
  "feeRecord transactionId userId fee = \<lparr>fr_transactionId = transactionId, fr_userId = userId,
     fr_feeAmount = to_fixed 8 (feeAmount fee), fr_feeCurrency = feeCurrency fee,
     fr_feeType = feeType fee\<rparr>"

section \<open>Administration\<close>

definition column8 :: "rat \<Rightarrow> rat" where
  "column8 x = pg_numeric 8 (num_to_string x)"

definition createFeeConfig :: "string \<Rightarrow> create_fee_dto \<Rightarrow> (fee_configs, fee_config) op" where
  "createFeeConfig newId dto =
     bindE (require (\<not> (cf_feeType dto = FLAT \<and> (num_truthy (cf_minFee dto) \<or> num_truthy (cf_maxFee dto))))
       (BadRequestException ''minFee and maxFee are only applicable for percentage-based fees'')) (\<lambda>_.
     bindE (require (\<not> (num_truthy (cf_minFee dto) \<and> num_truthy (cf_maxFee dto) \<and>
         the (cf_minFee dto) > the (cf_maxFee dto)))
       (BadRequestException ''minFee cannot be greater than maxFee'')) (\<lambda>_.
     bindE (gets (activeRule (cf_transactionType dto) (toUpperCase (cf_currency dto)))) (\<lambda>existing.
     bindE (require (existing = None)
       (BadRequestException ''An active fee config already exists for ${dto.transactionType} / ${dto.currency}. Deactivate or update the existing rule first.'')) (\<lambda>_.
     let config = \<lparr>fc_transactionType = cf_transactionType dto, fc_currency = toUpperCase (cf_currency dto),
           fc_feeType = cf_feeType dto, fc_feeValue = column8 (cf_feeValue dto),
           fc_minFee = map_option column8 (cf_minFee dto), fc_maxFee = map_option column8 (cf_maxFee dto),
           fc_isActive = True\<rparr>
     in bindE (modify (tbl_save newId config)) (\<lambda>_. ret config)))))"

definition updateFeeConfig :: "string \<Rightarrow> update_fee_dto \<Rightarrow> (fee_configs, fee_config) op" where
  "updateFeeConfig i dto =
     bindE (gets (tbl_find i)) (\<lambda>found.
     bindE (from_option (NotFoundException ''Fee config with ID '${id}' not found'') found) (\<lambda>config.
     let resolvedFeeType = (case uf_feeType dto of None \<Rightarrow> fc_feeType config | Some t \<Rightarrow> t);
         hasMinFee = (case uf_minFee dto of None \<Rightarrow> fc_minFee config \<noteq> None | Some v \<Rightarrow> v \<noteq> 0);
         hasMaxFee = (case uf_maxFee dto of None \<Rightarrow> fc_maxFee config \<noteq> None | Some v \<Rightarrow> v \<noteq> 0)
     in
     bindE (require (\<not> (resolvedFeeType = FLAT \<and> (hasMinFee \<or> hasMaxFee)))
       (BadRequestException ''minFee and maxFee are only applicable for percentage-based fees'')) (\<lambda>_.
     let c1 = (case uf_transactionType dto of None \<Rightarrow> config | Some t \<Rightarrow> config\<lparr>fc_transactionType := t\<rparr>);
         c2 = (case uf_currency dto of None \<Rightarrow> c1 | Some c \<Rightarrow> c1\<lparr>fc_currency := toUpperCase c\<rparr>);
         c3 = (case uf_feeType dto of None \<Rightarrow> c2 | Some t \<Rightarrow> c2\<lparr>fc_feeType := t\<rparr>);
         c4 = (case uf_feeValue dto of None \<Rightarrow> c3 | Some v \<Rightarrow> c3\<lparr>fc_feeValue := column8 v\<rparr>);
         c5 = (case uf_minFee dto of None \<Rightarrow> c4 | Some v \<Rightarrow> c4\<lparr>fc_minFee := Some (column8 v)\<rparr>);
         c6 = (case uf_maxFee dto of None \<Rightarrow> c5 | Some v \<Rightarrow> c5\<lparr>fc_maxFee := Some (column8 v)\<rparr>);
         c7 = (case uf_isActive dto of None \<Rightarrow> c6 | Some b \<Rightarrow> c6\<lparr>fc_isActive := b\<rparr>)
     in bindE (modify (tbl_save i c7)) (\<lambda>_. ret c7))))"

section \<open>Facts about the fee\<close>

lemma activeRule_Some:
  "activeRule ty cur cs = Some c \<Longrightarrow> fc_transactionType c = ty \<and> fc_currency c = cur \<and> fc_isActive c"
  by (auto simp: activeRule_def find_Some_iff)

lemma activeRule_None_iff:
  "activeRule ty cur cs = None \<longleftrightarrow>
     (\<forall>(i, c) \<in> set cs. \<not> (fc_transactionType c = ty \<and> fc_currency c = cur \<and> fc_isActive c))"
  by (auto simp: activeRule_def find_None_iff)

text \<open>A decimal bound of at most 52 bits is read exactly enough for the rounding to respect it.\<close>

lemma small_bound:
  assumes "is_dec 8 d" and "\<bar>d\<bar> * 10 ^ 8 < 2 ^ 52"
  shows "parse_float (to_fixed 8 (parse_float d)) = parse_float d"
  by (simp add: to_fixed_parse_float [OF assms])

lemma fee_upper:
  assumes "0 \<le> x" and "x \<le> parse_float hi" and "is_dec 8 hi" and "\<bar>hi\<bar> * 10 ^ 8 < 2 ^ 52"
  shows "parse_float (to_fixed 8 x) \<le> parse_float hi"
  using parse_float_mono [OF to_fixed_mono [OF assms(1,2)], of 8] small_bound [OF assms(3,4)] by simp

lemma fee_lower:
  assumes "0 \<le> lo" and "parse_float lo \<le> x" and "is_dec 8 lo" and "\<bar>lo\<bar> * 10 ^ 8 < 2 ^ 52"
  shows "parse_float lo \<le> parse_float (to_fixed 8 x)"
  using parse_float_mono [OF to_fixed_mono [OF parse_float_nonneg [OF assms(1)] assms(2)], of 8]
    small_bound [OF assms(3,4)] by simp

lemma rawFee_bounds:
  assumes "fc_feeType c = PERCENTAGE" and "fc_minFee c = Some lo" and "fc_maxFee c = Some hi" and "lo \<le> hi"
  shows "parse_float lo \<le> rawFee c amount \<and> rawFee c amount \<le> parse_float hi"
  using parse_float_mono [OF assms(4)] assms(1-3) by (auto simp: rawFee_def Let_def not_less)

lemma rawFee_nonneg:
  assumes "0 \<le> fc_feeValue c" "0 \<le> amount" "pred_option (\<lambda>x. 0 \<le> x) (fc_minFee c)"
    "pred_option (\<lambda>x. 0 \<le> x) (fc_maxFee c)"
  shows "0 \<le> rawFee c amount"
  using assms by (auto simp: rawFee_def Let_def js_bounds split: option.splits)

text \<open>At most one active rule per transaction type and currency.\<close>

definition active_unique :: "fee_configs \<Rightarrow> bool" where
  "active_unique cs \<longleftrightarrow> (\<forall>i j c d. tbl_find i cs = Some c \<longrightarrow> tbl_find j cs = Some d \<longrightarrow>
     fc_isActive c \<longrightarrow> fc_isActive d \<longrightarrow> fc_transactionType c = fc_transactionType d \<longrightarrow>
     fc_currency c = fc_currency d \<longrightarrow> i = j)"

lemma activeRule_None_find:
  "activeRule ty cur cs = None \<Longrightarrow> tbl_find i cs = Some c \<Longrightarrow> fc_isActive c \<Longrightarrow>
    fc_transactionType c = ty \<Longrightarrow> fc_currency c \<noteq> cur"
  by (fastforce simp: activeRule_None_iff dest: tbl_find_in)

section \<open>Properties\<close>

definition demo_rule :: "rat option \<Rightarrow> rat option \<Rightarrow> fee_config" where
  "demo_rule lo hi = \<lparr>fc_transactionType = FEE_SWAP, fc_currency = ''XLM'', fc_feeType = PERCENTAGE,
     fc_feeValue = 1, fc_minFee = lo, fc_maxFee = hi, fc_isActive = True\<rparr>"

text \<open>C30. A percentage fee with both bounds set lies between them, rounding included, for bounds below
  \<open>2 ^ 52\<close> units of the eighth decimal (about 45 million), whatever the amount.\<close>

theorem fee_within_bounds:
  assumes "findActiveConfig ty currency cs = Some c" and "fc_feeType c = PERCENTAGE"
    and "fc_minFee c = Some lo" and "fc_maxFee c = Some hi" and "0 \<le> lo" and "lo \<le> hi"
    and "is_dec 8 lo" and "is_dec 8 hi" and "hi * 10 ^ 8 < 2 ^ 52"
  shows "parse_float lo \<le> feeAmount (calculateFee ty currency amount cs) \<and>
    feeAmount (calculateFee ty currency amount cs) \<le> parse_float hi"
proof -
  have "lo * 10 ^ 8 \<le> hi * 10 ^ 8" using assms(6) by (intro mult_right_mono) simp_all
  then have "\<bar>lo\<bar> * 10 ^ 8 < 2 ^ 52" "\<bar>hi\<bar> * 10 ^ 8 < 2 ^ 52" using assms(5,6,9) by simp_all
  moreover note b = rawFee_bounds [OF assms(2-4) assms(6), of amount]
  moreover have "0 \<le> rawFee c amount" using b parse_float_nonneg [OF assms(5)] by linarith
  ultimately show ?thesis using assms fee_upper fee_lower by (simp add: calculateFee_def)
qed

theorem fee_within_bounds_witness:
  "feeAmount (calculateFee FEE_SWAP ''XLM'' 1000000 [(''r'', demo_rule (Some 2) (Some 50))]) \<le> 50"
proof -
  let ?cs = "[(''r'', demo_rule (Some 2) (Some 50))]" and ?c = "demo_rule (Some 2) (Some 50)"
  have f: "findActiveConfig FEE_SWAP ''XLM'' ?cs = Some ?c"
    by (simp add: findActiveConfig_def activeRule_def demo_rule_def toUpperCase_def ascii_upper_def)
  from fee_within_bounds [OF f, of 2 50 1000000] show ?thesis
    by (simp add: demo_rule_def parse_float_def)
qed

text \<open>Creating rules keeps at most one active rule per transaction type and currency: a creation that
  would add a second one is refused and changes nothing.\<close>

theorem fee_create_keeps_unique:
  assumes "active_unique cs" and "tbl_find newId cs = None"
  shows "active_unique (snd (createFeeConfig newId dto cs))"
proof (cases "createFeeConfig newId dto cs")
  case (Pair r t)
  show ?thesis
  proof (cases r)
    case (Inl e)
    with Pair have "t = cs" by (auto simp: createFeeConfig_def op_iff Let_def)
    with Pair assms show ?thesis by simp
  next
    case (Inr config)
    with Pair have "t = tbl_save newId config cs"
      and no: "activeRule (fc_transactionType config) (fc_currency config) cs = None"
      by (auto simp: createFeeConfig_def op_iff Let_def)
    with Pair assms activeRule_None_find [OF no] show ?thesis
      unfolding active_unique_def by (auto simp: tbl_simps) metis+
  qed
qed

definition demo_create :: "string \<Rightarrow> create_fee_dto" where
  "demo_create cur = \<lparr>cf_transactionType = FEE_SWAP, cf_currency = cur, cf_feeType = FLAT, cf_feeValue = 3,
     cf_minFee = None, cf_maxFee = None\<rparr>"

theorem fee_create_keeps_unique_witness:
  "active_unique (snd (createFeeConfig ''r2'' (demo_create ''xlm'') [(''r'', demo_rule None None)]))"
proof (rule fee_create_keeps_unique)
  show "active_unique [(''r'', demo_rule None None)]"
    by (simp add: active_unique_def tbl_find_def)
  show "tbl_find ''r2'' [(''r'', demo_rule None None)] = None" by (simp add: tbl_find_def)
qed

definition demo_reactivate :: update_fee_dto where
  "demo_reactivate = \<lparr>uf_transactionType = None, uf_currency = None, uf_feeType = None, uf_feeValue = None,
     uf_minFee = None, uf_maxFee = None, uf_isActive = Some True\<rparr>"

text \<open>Updating a rule does not check for another active rule: from two rules of which one is inactive,
  reactivating it leaves two active rules for the same transaction type and currency.\<close>

theorem fee_update_breaks_unique:
  "\<exists>cs. active_unique cs \<and> fst (updateFeeConfig ''r2'' demo_reactivate cs) = Inr (demo_rule None None) \<and>
     \<not> active_unique (snd (updateFeeConfig ''r2'' demo_reactivate cs))"
proof (intro exI conjI)
  let ?cs = "[(''r1'', demo_rule None None), (''r2'', (demo_rule None None)\<lparr>fc_isActive := False\<rparr>)]"
  show "active_unique ?cs" by (auto simp: active_unique_def tbl_find_def demo_rule_def split: if_splits)
  have u: "updateFeeConfig ''r2'' demo_reactivate ?cs =
      (Inr (demo_rule None None), [(''r1'', demo_rule None None), (''r2'', demo_rule None None)])"
    by (simp add: updateFeeConfig_def op_defs demo_reactivate_def tbl_find_def tbl_save_def demo_rule_def Let_def)
  show "fst (updateFeeConfig ''r2'' demo_reactivate ?cs) = Inr (demo_rule None None)" using u by simp
  have "\<not> active_unique [(''r1'', demo_rule None None), (''r2'', demo_rule None None)]"
  proof
    assume "active_unique [(''r1'', demo_rule None None), (''r2'', demo_rule None None)]"
    from this [unfolded active_unique_def, rule_format, of "''r1''" "demo_rule None None" "''r2''"
        "demo_rule None None"]
    show False by (simp add: tbl_find_def demo_rule_def)
  qed
  with u show "\<not> active_unique (snd (updateFeeConfig ''r2'' demo_reactivate ?cs))" by simp
qed

end
