(* ===== verification/JsDate.thy ===== *)
theory JsDate
  imports JsNumber
begin

text \<open>
  The parts of JavaScript's \<open>Date\<close> the services use. A point in time is its number of
  milliseconds since 1970-01-01 (\<open>getTime\<close>), negative before; the server computes with the UTC
  calendar. The calendar is the proleptic Gregorian one, computed in eras of 400 years
  that start on 1 March.
\<close>

definition ms_per_day :: int where
  "ms_per_day = 86400000"

definition utc_days :: "int \<Rightarrow> int" where
  "utc_days t = t div ms_per_day"

definition getUTCDay :: "int \<Rightarrow> int" where
  "getUTCDay t = (utc_days t + 4) mod 7"

definition day_of_year_of_era :: "int \<Rightarrow> int \<times> int" where
  "day_of_year_of_era doe =
     (let yoe = (doe - doe div 1460 + doe div 36524 - doe div 146096) div 365
      in (yoe, doe - (365 * yoe + yoe div 4 - yoe div 100)))"

definition civil_from_days :: "int \<Rightarrow> int \<times> int \<times> int" where
  "civil_from_days z =
     (let era = (z + 719468) div 146097;
          (yoe, doy) = day_of_year_of_era ((z + 719468) mod 146097);
          mp = (5 * doy + 2) div 153;
          m = (if mp < 10 then mp + 3 else mp - 9)
      in (yoe + era * 400 + (if m \<le> 2 then 1 else 0), m, doy - (153 * mp + 2) div 5 + 1))"

definition days_from_civil :: "int \<Rightarrow> int \<Rightarrow> int \<Rightarrow> int" where
  "days_from_civil y m d =
     (let y' = (if m \<le> 2 then y - 1 else y);
          doy = (153 * (if 2 < m then m - 3 else m + 9) + 2) div 5 + d - 1;
          doe = y' mod 400 * 365 + y' mod 400 div 4 - y' mod 400 div 100 + doy
      in y' div 400 * 146097 + doe - 719468)"

definition getUTCFullYear :: "int \<Rightarrow> int" where
  "getUTCFullYear t = fst (civil_from_days (utc_days t))"

definition getUTCMonth :: "int \<Rightarrow> int" where
  "getUTCMonth t = fst (snd (civil_from_days (utc_days t))) - 1"

definition getUTCDate :: "int \<Rightarrow> int" where
  "getUTCDate t = snd (snd (civil_from_days (utc_days t)))"

text \<open>\<open>Date.UTC(y, m, d)\<close> with a month counted from zero that may lie outside a year.\<close>

definition date_utc :: "int \<Rightarrow> int \<Rightarrow> int \<Rightarrow> int" where
  "date_utc y m d = (days_from_civil (y + m div 12) (m mod 12 + 1) 1 + (d - 1)) * ms_per_day"

lemma getUTCDay_range: "0 \<le> getUTCDay t \<and> getUTCDay t \<le> 6"
proof -
  have "(utc_days t + 4) mod 7 < 7" by simp
  then show ?thesis by (simp add: getUTCDay_def)
qed

text \<open>Fixed points of the calendar: the epoch was a Thursday, leap days exist in 2000 and 2024.\<close>

lemma calendar_epoch: "civil_from_days 0 = (1970, 1, 1)" "days_from_civil 1970 1 1 = 0" "getUTCDay 0 = 4"
  by (simp_all add: civil_from_days_def days_from_civil_def day_of_year_of_era_def getUTCDay_def
      utc_days_def ms_per_day_def)

lemma calendar_leap:
  "civil_from_days (days_from_civil 2000 2 28 + 1) = (2000, 2, 29)"
  "civil_from_days (days_from_civil 2024 2 29 + 1) = (2024, 3, 1)"
  "civil_from_days (days_from_civil 2100 2 28 + 1) = (2100, 3, 1)"
  by (simp_all add: civil_from_days_def days_from_civil_def day_of_year_of_era_def)

end
