(* ===== verification/Vaults.thy ===== *)
theory Vaults
  imports Users JsDate
begin

text \<open>
  Savings vaults (\<open>vaults/vaults.service.ts\<close>): creating, filling, withdrawing and deleting a vault,
  and the three scheduled jobs (daily interest, maturity, automatic deposits). Every operation that
  moves money reads and checks before it opens its database transaction; \<open>deposit\<close> and \<open>withdraw\<close>
  are therefore compositions of a reading phase and a writing phase, so that two requests can be
  interleaved. Decimal columns hold 8 (rates 4) places; the values a service writes are printed
  numbers, rounded by the column when they are stored. The id and the creation time of a vault
  transaction are left out, the newest transaction is the last one of the list.
\<close>

section \<open>Data\<close>

datatype vault_status = ACTIVE | MATURED | CLOSED | BROKEN

datatype vault_tx_type = VT_DEPOSIT | VT_WITHDRAWAL | VT_INTEREST | VT_PENALTY

datatype frequency = DAILY | WEEKLY | MONTHLY

record vault =
  v_userId :: string
  v_name :: string
  v_currency :: string
  v_targetAmount :: rat
  v_currentBalance :: rat
  v_annualInterestRate :: rat
  v_accruedInterest :: rat
  v_unlockAt :: int
  v_status :: vault_status
  v_earlyWithdrawalPenaltyPercent :: rat
  v_autoDepositAmount :: "rat option"
  v_autoDepositFrequency :: "frequency option"
  v_lastInterestAccruedAt :: "int option"
  v_maturedAt :: "int option"
  v_closedAt :: "int option"
  v_createdAt :: int

record vault_tx =
  vt_vaultId :: string
  vt_type :: vault_tx_type
  vt_amount :: rat
  vt_balanceBefore :: rat
  vt_balanceAfter :: rat
  vt_note :: string

record vault_state = base +
  vaults :: "vault table"
  vault_txs :: "vault_tx list"

record create_vault_dto =
  cv_name :: string
  cv_currency :: string
  cv_targetAmount :: rat
  cv_unlockAt :: int
  cv_autoDepositAmount :: "rat option"
  cv_autoDepositFrequency :: "frequency option"

record vault_dto =
  vd_id :: string
  vd_vault :: vault
  vd_progressPercent :: rat
  vd_transactions :: "vault_tx list"

section \<open>Rows\<close>

definition vault_row :: "vault \<Rightarrow> vault" where
  "vault_row v = v\<lparr>v_targetAmount := pg_numeric 8 (v_targetAmount v),
     v_currentBalance := pg_numeric 8 (v_currentBalance v),
     v_annualInterestRate := pg_numeric 4 (v_annualInterestRate v),
     v_accruedInterest := pg_numeric 8 (v_accruedInterest v),
     v_earlyWithdrawalPenaltyPercent := pg_numeric 4 (v_earlyWithdrawalPenaltyPercent v),
     v_autoDepositAmount := map_option (pg_numeric 8) (v_autoDepositAmount v)\<rparr>"

definition save_vault :: "string \<Rightarrow> vault \<Rightarrow> (vault_state, unit) op" where
  "save_vault i v = modify (\<lambda>s. s\<lparr>vaults := tbl_save i (vault_row v) (vaults s)\<rparr>)"

definition save_vault_tx :: "vault_tx \<Rightarrow> (vault_state, unit) op" where
  "save_vault_tx x = modify (\<lambda>s. s\<lparr>vault_txs := vault_txs s @
     [x\<lparr>vt_amount := pg_numeric 8 (vt_amount x), vt_balanceBefore := pg_numeric 8 (vt_balanceBefore x),
        vt_balanceAfter := pg_numeric 8 (vt_balanceAfter x)\<rparr>]\<rparr>)"

definition vault_history :: "string \<Rightarrow> vault_state \<Rightarrow> vault_tx list" where
  "vault_history i s = rev (filter (\<lambda>x. vt_vaultId x = i) (vault_txs s))"

definition mapToDto :: "string \<Rightarrow> vault \<Rightarrow> vault_tx list \<Rightarrow> vault_dto" where
  "mapToDto i v txs =
     (let targetAmount = parse_float (v_targetAmount v);
          currentBalance = parse_float (v_currentBalance v);
          progressPercent = (if 0 < targetAmount
            then min 100 (js_mul (js_div currentBalance targetAmount) 100) else 0)
      in \<lparr>vd_id = i, vd_vault = v, vd_progressPercent = parse_float (to_fixed 2 progressPercent),
          vd_transactions = txs\<rparr>)"

definition vault_transaction :: "(vault_state, 'a) op \<Rightarrow> (vault_state, 'a) op" where
  "vault_transaction = transactionE
     (\<lambda>s t. t\<lparr>users := users s, vaults := vaults s, vault_txs := vault_txs s\<rparr>)"

definition find_vault :: "string \<Rightarrow> (vault_state, vault) op" where
  "find_vault i = bindE (gets (\<lambda>s. tbl_find i (vaults s)))
     (from_option (NotFoundException ''Vault not found''))"

definition findOwnedVault :: "string \<Rightarrow> string \<Rightarrow> (vault_state, vault) op" where
  "findOwnedVault userId vaultId =
     bindE (find_vault vaultId) (\<lambda>v.
     bindE (require (v_userId v = userId) (NotFoundException ''Vault not found'')) (\<lambda>_.
     ret v))"

section \<open>Requests of users\<close>

definition createVault ::
    "rat option \<Rightarrow> int \<Rightarrow> string \<Rightarrow> string \<Rightarrow> create_vault_dto \<Rightarrow> (vault_state, vault_dto) op" where
  "createVault configRate now newId userId dto =
     (let interestRate = (case configRate of None \<Rightarrow> 5 / 100 | Some r \<Rightarrow> r);
          v = \<lparr>v_userId = userId, v_name = cv_name dto, v_currency = cv_currency dto,
            v_targetAmount = num_to_string (cv_targetAmount dto), v_currentBalance = 0,
            v_annualInterestRate = interestRate, v_accruedInterest = 0,
            v_unlockAt = cv_unlockAt dto, v_status = ACTIVE,
            v_earlyWithdrawalPenaltyPercent = 1 / 10,
            v_autoDepositAmount = map_option num_to_string (cv_autoDepositAmount dto),
            v_autoDepositFrequency = cv_autoDepositFrequency dto,
            v_lastInterestAccruedAt = None, v_maturedAt = None, v_closedAt = None,
            v_createdAt = now\<rparr>
      in bindE (save_vault newId v) (\<lambda>_. ret (mapToDto newId v [])))"

definition deposit_read :: "string \<Rightarrow> string \<Rightarrow> rat \<Rightarrow> (vault_state, user \<times> rat) op" where
  "deposit_read userId vaultId amount =
     bindE (findOwnedVault userId vaultId) (\<lambda>vault.
     bindE (require (v_status vault = ACTIVE)
       (BadRequestException ''Cannot deposit into a vault with status'')) (\<lambda>_.
     bindE (gets (findById userId)) (\<lambda>found.
     bindE (from_option (NotFoundException ''User not found'') found) (\<lambda>user.
     let currentUserBalance = balance_of user (v_currency vault)
     in
     bindE (require (\<not> currentUserBalance < amount)
       (BadRequestException ''Insufficient balance in main wallet'')) (\<lambda>_.
     ret (user, currentUserBalance))))))"

definition deposit_write ::
    "string \<Rightarrow> string \<Rightarrow> rat \<Rightarrow> user \<times> rat \<Rightarrow> (vault_state, vault_dto) op" where
  "deposit_write userId vaultId amount = (\<lambda>(user, currentUserBalance). vault_transaction (
     bindE (find_vault vaultId) (\<lambda>lockedVault.
     let balanceBefore = parse_float (v_currentBalance lockedVault);
         balanceAfter = js_add balanceBefore amount;
         saved = lockedVault\<lparr>v_currentBalance := num_to_string balanceAfter\<rparr>
     in
     bindE (save_vault vaultId saved) (\<lambda>_.
     bindE (save_vault_tx \<lparr>vt_vaultId = vaultId, vt_type = VT_DEPOSIT, vt_amount = num_to_string amount,
       vt_balanceBefore = num_to_string balanceBefore, vt_balanceAfter = num_to_string balanceAfter,
       vt_note = ''Manual deposit from main wallet''\<rparr>) (\<lambda>_.
     bindE (modify (updateByUserId userId (\<lambda>u. u\<lparr>u_balances :=
       set_balance (v_currency lockedVault) (js_sub currentUserBalance amount) (u_balances user)\<rparr>))) (\<lambda>_.
     bindE (gets (vault_history vaultId)) (\<lambda>transactions.
     ret (mapToDto vaultId saved transactions))))))))"

definition deposit :: "string \<Rightarrow> string \<Rightarrow> rat \<Rightarrow> (vault_state, vault_dto) op" where
  "deposit userId vaultId amount =
     bindE (deposit_read userId vaultId amount) (deposit_write userId vaultId amount)"

definition withdrawn :: "vault \<Rightarrow> bool" where
  "withdrawn v \<longleftrightarrow> v_status v = CLOSED \<or> v_status v = BROKEN"

definition withdraw_read :: "int \<Rightarrow> string \<Rightarrow> string \<Rightarrow> (vault_state, user \<times> bool) op" where
  "withdraw_read now userId vaultId =
     bindE (findOwnedVault userId vaultId) (\<lambda>vault.
     bindE (require (\<not> withdrawn vault) (BadRequestException ''Vault has already been withdrawn'')) (\<lambda>_.
     bindE (gets (findById userId)) (\<lambda>found.
     bindE (from_option (NotFoundException ''User not found'') found) (\<lambda>user.
     ret (user, now < v_unlockAt vault)))))"

text \<open>What is paid out: the balance and the interest, less the penalty of an early withdrawal.\<close>

definition penalty_of :: "vault \<Rightarrow> rat \<Rightarrow> rat" where
  "penalty_of v amount = js_mul amount (parse_float (v_earlyWithdrawalPenaltyPercent v))"

definition vault_total :: "vault \<Rightarrow> rat" where
  "vault_total v = js_add (parse_float (v_currentBalance v)) (parse_float (v_accruedInterest v))"

definition vault_payout :: "bool \<Rightarrow> vault \<Rightarrow> rat" where
  "vault_payout isEarly v = (if isEarly then js_sub (vault_total v) (penalty_of v (vault_total v))
     else vault_total v)"

definition withdraw_write ::
    "int \<Rightarrow> string \<Rightarrow> string \<Rightarrow> user \<times> bool \<Rightarrow> (vault_state, vault_dto) op" where
  "withdraw_write now userId vaultId = (\<lambda>(user, isEarly). vault_transaction (
     bindE (find_vault vaultId) (\<lambda>lockedVault.
     bindE (require (\<not> withdrawn lockedVault)
       (BadRequestException ''Vault has already been withdrawn'')) (\<lambda>_.
     let total = vault_total lockedVault;
         penalty = penalty_of lockedVault total;
         totalAmount = vault_payout isEarly lockedVault;
         saved = lockedVault\<lparr>v_status := (if isEarly then BROKEN else CLOSED),
           v_currentBalance := 0, v_accruedInterest := 0, v_closedAt := Some now\<rparr>
     in
     bindE (if isEarly then
         bindE (save_vault_tx \<lparr>vt_vaultId = vaultId, vt_type = VT_PENALTY,
           vt_amount = to_fixed 8 penalty, vt_balanceBefore = num_to_string total,
           vt_balanceAfter = num_to_string totalAmount, vt_note = ''Early withdrawal penalty''\<rparr>) (\<lambda>_.
         save_vault_tx \<lparr>vt_vaultId = vaultId, vt_type = VT_WITHDRAWAL,
           vt_amount = to_fixed 8 totalAmount, vt_balanceBefore = num_to_string totalAmount,
           vt_balanceAfter = 0, vt_note = ''Early withdrawal after penalty''\<rparr>)
       else save_vault_tx \<lparr>vt_vaultId = vaultId, vt_type = VT_WITHDRAWAL,
           vt_amount = to_fixed 8 totalAmount, vt_balanceBefore = num_to_string totalAmount,
           vt_balanceAfter = 0, vt_note = ''Matured withdrawal''\<rparr>) (\<lambda>_.
     bindE (save_vault vaultId saved) (\<lambda>_.
     bindE (modify (updateByUserId userId (\<lambda>u. u\<lparr>u_balances :=
       set_balance (v_currency lockedVault)
         (js_add (balance_of user (v_currency lockedVault)) totalAmount) (u_balances user)\<rparr>))) (\<lambda>_.
     bindE (gets (vault_history vaultId)) (\<lambda>existingTxs.
     ret (mapToDto vaultId saved existingTxs)))))))))"

definition withdraw :: "int \<Rightarrow> string \<Rightarrow> string \<Rightarrow> (vault_state, vault_dto) op" where
  "withdraw now userId vaultId =
     bindE (withdraw_read now userId vaultId) (withdraw_write now userId vaultId)"

definition listVaults :: "string \<Rightarrow> vault_state \<Rightarrow> vault_dto list" where
  "listVaults userId s = map (\<lambda>(i, v). mapToDto i v [])
     (rev (filter (\<lambda>(i, v). v_userId v = userId) (vaults s)))"

definition getVaultDetail :: "string \<Rightarrow> string \<Rightarrow> (vault_state, vault_dto) op" where
  "getVaultDetail userId vaultId =
     bindE (findOwnedVault userId vaultId) (\<lambda>v.
     bindE (gets (vault_history vaultId)) (\<lambda>transactions.
     ret (mapToDto vaultId v transactions)))"

text \<open>Deleting a vault deletes its transactions with it.\<close>

definition deleteVault :: "string \<Rightarrow> string \<Rightarrow> (vault_state, unit) op" where
  "deleteVault userId vaultId =
     bindE (findOwnedVault userId vaultId) (\<lambda>v.
     bindE (require (\<not> (v_status v = ACTIVE \<or> v_status v = BROKEN))
       (UnprocessableEntityException
         ''Cannot delete a vault that is ACTIVE or BROKEN. Withdraw funds first.'')) (\<lambda>_.
     modify (\<lambda>s. s\<lparr>vaults := tbl_remove vaultId (vaults s),
       vault_txs := filter (\<lambda>x. vt_vaultId x \<noteq> vaultId) (vault_txs s)\<rparr>)))"

section \<open>Scheduled jobs\<close>

text \<open>Each job reads its vaults once and handles one after the other; a failure is logged and the
  next vault is handled.\<close>

definition attempt :: "('s, unit) op \<Rightarrow> ('s, unit) op" where
  "attempt m = tryE m (\<lambda>_. ret ())"

definition daily_interest :: "vault \<Rightarrow> rat" where
  "daily_interest v = parse_float (to_fixed 8
     (js_mul (js_div (parse_float (v_annualInterestRate v)) 365) (parse_float (v_currentBalance v))))"

definition accrue_vault :: "int \<Rightarrow> string \<times> vault \<Rightarrow> (vault_state, unit) op" where
  "accrue_vault now = (\<lambda>(i, v).
     let currentBalance = parse_float (v_currentBalance v);
         roundedInterest = daily_interest v
     in if currentBalance \<le> 0 then ret ()
        else if roundedInterest \<le> 0 then ret ()
        else
          bindE (save_vault i (v\<lparr>v_accruedInterest :=
              num_to_string (js_add (parse_float (v_accruedInterest v)) roundedInterest),
              v_lastInterestAccruedAt := Some now\<rparr>)) (\<lambda>_.
          save_vault_tx \<lparr>vt_vaultId = i, vt_type = VT_INTEREST, vt_amount = num_to_string roundedInterest,
            vt_balanceBefore = num_to_string currentBalance, vt_balanceAfter = num_to_string currentBalance,
            vt_note = ''Daily interest''\<rparr>))"

definition accrueInterest :: "int \<Rightarrow> (vault_state, unit) op" where
  "accrueInterest now =
     bindE (gets (\<lambda>s. filter (\<lambda>(i, v). v_status v = ACTIVE) (vaults s))) (\<lambda>activeVaults.
     forE activeVaults (\<lambda>x. attempt (accrue_vault now x)))"

definition mature_vault :: "int \<Rightarrow> string \<times> vault \<Rightarrow> (vault_state, unit) op" where
  "mature_vault now = (\<lambda>(i, v).
     let accruedInterest = parse_float (v_accruedInterest v);
         balance = num_to_string (js_add (parse_float (v_currentBalance v)) accruedInterest)
     in
     bindE (save_vault i (v\<lparr>v_currentBalance := balance, v_accruedInterest := 0, v_status := MATURED,
       v_maturedAt := Some now\<rparr>)) (\<lambda>_.
     bindE (if 0 < accruedInterest then
         save_vault_tx \<lparr>vt_vaultId = i, vt_type = VT_INTEREST, vt_amount = num_to_string accruedInterest,
           vt_balanceBefore = num_to_string (js_sub (parse_float balance) accruedInterest),
           vt_balanceAfter = balance, vt_note = ''Interest credited at maturity''\<rparr>
       else ret ()) (\<lambda>_.
     modify (notify (v_userId v) ''Vault Matured'' ''Your savings vault has matured!''))))"

definition processMaturity :: "int \<Rightarrow> (vault_state, unit) op" where
  "processMaturity now =
     bindE (gets (\<lambda>s. filter (\<lambda>(i, v). v_status v = ACTIVE \<and> v_unlockAt v \<le> now) (vaults s)))
       (\<lambda>maturingVaults. forE maturingVaults (\<lambda>x. attempt (mature_vault now x)))"

definition due_today :: "int \<Rightarrow> frequency option \<Rightarrow> bool" where
  "due_today now f = (case f of None \<Rightarrow> False | Some DAILY \<Rightarrow> True
     | Some WEEKLY \<Rightarrow> getUTCDay now = 1 | Some MONTHLY \<Rightarrow> getUTCDate now = 1)"

definition auto_deposit :: "string \<times> vault \<Rightarrow> (vault_state, unit) op" where
  "auto_deposit = (\<lambda>(i, v).
     case v_autoDepositAmount v of None \<Rightarrow> ret () | Some text \<Rightarrow>
     let amount = parse_float text
     in
     bindE (gets (findById (v_userId v))) (\<lambda>found.
     case found of None \<Rightarrow> ret () | Some user \<Rightarrow>
     let currentBalance = balance_of user (v_currency v)
     in if currentBalance < amount
        then modify (notify (v_userId v) ''Auto-Deposit Skipped''
          ''Auto-deposit was skipped due to insufficient main wallet balance.'')
        else vault_transaction (
          bindE (gets (\<lambda>s. tbl_find i (vaults s))) (\<lambda>locked.
          case locked of None \<Rightarrow> ret () | Some lockedVault \<Rightarrow>
          let balBefore = parse_float (v_currentBalance lockedVault);
              balAfter = js_add balBefore amount
          in
          bindE (save_vault i (lockedVault\<lparr>v_currentBalance := num_to_string balAfter\<rparr>)) (\<lambda>_.
          bindE (save_vault_tx \<lparr>vt_vaultId = i, vt_type = VT_DEPOSIT, vt_amount = num_to_string amount,
            vt_balanceBefore = num_to_string balBefore, vt_balanceAfter = num_to_string balAfter,
            vt_note = ''Auto-deposit''\<rparr>) (\<lambda>_.
          modify (updateByUserId (v_userId lockedVault) (\<lambda>u. u\<lparr>u_balances :=
            set_balance (v_currency lockedVault) (js_sub currentBalance amount) (u_balances user)\<rparr>))))))))"

definition processAutoDeposits :: "int \<Rightarrow> (vault_state, unit) op" where
  "processAutoDeposits now =
     bindE (gets (\<lambda>s. filter (\<lambda>(i, v). v_status v = ACTIVE \<and> v_autoDepositAmount v \<noteq> None \<and>
         v_autoDepositFrequency v \<noteq> None) (vaults s))) (\<lambda>autoDepositVaults.
     forE (filter (\<lambda>(i, v). due_today now (v_autoDepositFrequency v)) autoDepositVaults)
       (\<lambda>x. attempt (auto_deposit x)))"

section \<open>What one write does\<close>

definition vault_ok :: "vault \<Rightarrow> bool" where
  "vault_ok v \<longleftrightarrow> 0 \<le> v_currentBalance v \<and> 0 \<le> v_accruedInterest v \<and> 0 \<le> v_annualInterestRate v \<and>
     0 \<le> v_earlyWithdrawalPenaltyPercent v \<and> v_earlyWithdrawalPenaltyPercent v \<le> 1 \<and>
     (\<forall>a. v_autoDepositAmount v = Some a \<longrightarrow> 0 \<le> a) \<and>
     (withdrawn v \<longrightarrow> v_currentBalance v = 0 \<and> v_accruedInterest v = 0)"

definition vault_inv :: "vault_state \<Rightarrow> bool" where
  "vault_inv s \<longleftrightarrow> users_ok s \<and> distinct (map fst (vaults s)) \<and>
     (\<forall>i v. tbl_find i (vaults s) = Some v \<longrightarrow> vault_ok v)"

definition vault_status_of :: "string \<Rightarrow> vault_state \<Rightarrow> vault_status option" where
  "vault_status_of i s = map_option v_status (tbl_find i (vaults s))"

inductive vault_trans :: "vault_status option \<Rightarrow> vault_status option \<Rightarrow> bool" where
  mature: "vault_trans (Some ACTIVE) (Some MATURED)"
| close: "a \<in> {ACTIVE, MATURED} \<Longrightarrow> b \<in> {CLOSED, BROKEN} \<Longrightarrow> vault_trans (Some a) (Some b)"
| delete: "a \<in> {MATURED, CLOSED} \<Longrightarrow> vault_trans (Some a) None"

inductive_simps vault_trans_simps: "vault_trans a b"

lemma vault_row_simps [simp]:
  "v_status (vault_row v) = v_status v" "v_userId (vault_row v) = v_userId v"
  "v_currency (vault_row v) = v_currency v" "v_unlockAt (vault_row v) = v_unlockAt v"
  "v_currentBalance (vault_row v) = pg_numeric 8 (v_currentBalance v)"
  "v_accruedInterest (vault_row v) = pg_numeric 8 (v_accruedInterest v)"
  by (simp_all add: vault_row_def)

lemma pg_numeric_le1: "0 \<le> x \<Longrightarrow> x \<le> 1 \<Longrightarrow> pg_numeric f x \<le> 1"
  using dec_round_mono [of x 1 f] is_dec_numeral(2) [of f] by (simp add: pg_numeric_def is_dec_def)

lemma vault_ok_row: "vault_ok v \<Longrightarrow> vault_ok (vault_row v)"
  by (auto simp: vault_ok_def vault_row_def withdrawn_def pg_numeric_le1 intro: js_bounds)

text \<open>A write to the row \<open>i\<close> that respects the invariant and the transition relation.\<close>

definition vault_write :: "string \<Rightarrow> vault_state \<Rightarrow> vault_state \<Rightarrow> bool" where
  "vault_write i s t \<longleftrightarrow> vault_inv t \<and> (\<forall>j. j \<noteq> i \<longrightarrow> tbl_find j (vaults t) = tbl_find j (vaults s)) \<and>
     vault_trans\<^sup>*\<^sup>* (vault_status_of i s) (vault_status_of i t)"

lemma vault_write_same:
  "vault_inv s \<Longrightarrow> users_ok t \<Longrightarrow> vaults t = vaults s \<Longrightarrow> vault_write i s t"
  by (simp add: vault_write_def vault_inv_def vault_status_of_def)

lemma vault_write_save:
  assumes "vault_inv s" and "tbl_find i (vaults s) = Some v" and "vault_ok w"
    and "v_status v = v_status w \<or> vault_trans (Some (v_status v)) (Some (v_status w))"
    and "users_ok t" and "vaults t = tbl_save i (vault_row w) (vaults s)"
  shows "vault_write i s t"
  using assms vault_ok_row [OF assms(3)]
  by (auto simp: vault_write_def vault_inv_def vault_status_of_def tbl_simps split: if_splits)

lemma vault_write_other:
  "vault_write i s t \<Longrightarrow> vault_trans\<^sup>*\<^sup>* (vault_status_of j s) (vault_status_of j t)"
  by (cases "j = i") (auto simp: vault_write_def vault_status_of_def)

lemma vault_inv_write: "vault_write i s t \<Longrightarrow> vault_inv t"
  by (simp add: vault_write_def)

lemmas vault_op_defs = find_vault_def findOwnedVault_def save_vault_def save_vault_tx_def
  vault_transaction_def

lemma users_ok_set_balance:
  "users_ok s \<Longrightarrow> balances_ok (u_balances user) \<Longrightarrow> is_double x \<Longrightarrow> 0 \<le> x \<Longrightarrow>
    users_ok (updateByUserId u (\<lambda>w. w\<lparr>u_balances := set_balance c x (u_balances user)\<rparr>) s)"
  by (rule users_ok_update) (auto intro: balances_ok_set)

section \<open>What the requests do\<close>

lemma deposit_read_Inr:
  "deposit_read u i a s = (Inr p, t) \<longleftrightarrow> t = s \<and> (\<exists>v. tbl_find i (vaults s) = Some v \<and>
     v_userId v = u \<and> v_status v = ACTIVE \<and> findById u s = Some (fst p) \<and>
     snd p = balance_of (fst p) (v_currency v) \<and> a \<le> snd p)"
  by (cases p) (auto simp: deposit_read_def vault_op_defs op_iff Let_def not_less)

lemma deposit_read_Inl: "deposit_read u i a s = (Inl e, t) \<Longrightarrow> t = s"
  by (auto simp: deposit_read_def vault_op_defs op_iff Let_def)

lemma deposit_write_Inr:
  assumes "deposit_write u i a p s = (Inr d, t)"
  obtains v where "tbl_find i (vaults s) = Some v"
    and "vaults t = tbl_save i (vault_row (v\<lparr>v_currentBalance :=
      num_to_string (js_add (parse_float (v_currentBalance v)) a)\<rparr>)) (vaults s)"
    and "users t = users (updateByUserId u (\<lambda>w. w\<lparr>u_balances :=
      set_balance (v_currency v) (js_sub (snd p) a) (u_balances (fst p))\<rparr>) s)"
  using assms by (cases p) (auto simp: deposit_write_def vault_op_defs op_iff Let_def updateByUserId_def)

lemma deposit_write_Inl: "deposit_write u i a p s = (Inl e, t) \<Longrightarrow> t = s"
  by (cases p) (auto simp: deposit_write_def vault_op_defs op_iff Let_def)

lemma withdraw_read_Inr:
  "withdraw_read now u i s = (Inr p, t) \<longleftrightarrow> t = s \<and> (\<exists>v. tbl_find i (vaults s) = Some v \<and>
     v_userId v = u \<and> \<not> withdrawn v \<and> findById u s = Some (fst p) \<and> snd p = (now < v_unlockAt v))"
  by (cases p) (auto simp: withdraw_read_def vault_op_defs op_iff)

lemma withdraw_read_Inl: "withdraw_read now u i s = (Inl e, t) \<Longrightarrow> t = s"
  by (auto simp: withdraw_read_def vault_op_defs op_iff)

lemma withdraw_write_Inr:
  assumes "withdraw_write now u i p s = (Inr d, t)"
  obtains v where "tbl_find i (vaults s) = Some v" and "\<not> withdrawn v"
    and "vaults t = tbl_save i (vault_row (v\<lparr>v_status := (if snd p then BROKEN else CLOSED),
      v_currentBalance := 0, v_accruedInterest := 0, v_closedAt := Some now\<rparr>)) (vaults s)"
    and "users t = users (updateByUserId u (\<lambda>w. w\<lparr>u_balances := set_balance (v_currency v)
      (js_add (balance_of (fst p) (v_currency v)) (vault_payout (snd p) v)) (u_balances (fst p))\<rparr>) s)"
  using assms
  by (cases p) (auto simp: withdraw_write_def vault_op_defs op_iff Let_def updateByUserId_def split: if_splits)

lemma withdraw_write_Inl: "withdraw_write now u i p s = (Inl e, t) \<Longrightarrow> t = s"
  by (cases p) (auto simp: withdraw_write_def vault_op_defs op_iff Let_def split: if_splits)

lemma deleteVault_Inr:
  "deleteVault u i s = (Inr x, t) \<longleftrightarrow> (\<exists>v. tbl_find i (vaults s) = Some v \<and> v_userId v = u \<and>
     v_status v \<in> {MATURED, CLOSED} \<and>
     t = s\<lparr>vaults := tbl_remove i (vaults s), vault_txs := filter (\<lambda>x. vt_vaultId x \<noteq> i) (vault_txs s)\<rparr>)"
proof -
  have "st \<noteq> ACTIVE \<and> st \<noteq> BROKEN \<longleftrightarrow> st \<in> {MATURED, CLOSED}" for st by (cases st) auto
  then show ?thesis by (auto simp: deleteVault_def vault_op_defs op_iff)
qed

lemma deleteVault_Inl: "deleteVault u i s = (Inl e, t) \<Longrightarrow> t = s"
  by (auto simp: deleteVault_def vault_op_defs op_iff)

lemma vault_total_ok: "vault_ok v \<Longrightarrow> is_double (vault_total v) \<and> 0 \<le> vault_total v"
  by (auto simp: vault_total_def vault_ok_def intro: js_bounds)

lemma vault_payout_ok:
  assumes "vault_ok v"
  shows "is_double (vault_payout e v) \<and> 0 \<le> vault_payout e v \<and> vault_payout e v \<le> vault_total v"
proof -
  let ?p = "parse_float (v_earlyWithdrawalPenaltyPercent v)"
  have p: "0 \<le> ?p" "?p \<le> 1"
    using assms parse_float_mono [of "v_earlyWithdrawalPenaltyPercent v" 1]
    by (simp_all add: vault_ok_def parse_float_nonneg)
  with vault_total_ok [OF assms]
  have "0 \<le> penalty_of v (vault_total v)" "penalty_of v (vault_total v) \<le> vault_total v"
    by (simp_all add: penalty_of_def js_mul_nonneg js_mul_le)
  with vault_total_ok [OF assms] show ?thesis
    by (auto simp: vault_payout_def js_sub_nonneg js_sub_le)
qed

lemma deposit_vault_write:
  assumes inv: "vault_inv s" and a: "is_double a" "0 \<le> a" and d: "deposit u i a s = (r, t)"
  shows "vault_write i s t"
proof (cases r)
  case (Inl e)
  with d have "t = s" by (auto simp: deposit_def op_iff dest: deposit_read_Inl deposit_write_Inl)
    (auto simp: deposit_read_Inr dest: deposit_write_Inl)
  with inv show ?thesis by (simp add: vault_write_same vault_inv_def)
next
  case (Inr x)
  with d obtain p where r: "deposit_read u i a s = (Inr p, s)" and w: "deposit_write u i a p s = (Inr x, t)"
    by (auto simp: deposit_def op_iff deposit_read_Inr)
  from w obtain v where v: "tbl_find i (vaults s) = Some v"
    and vt: "vaults t = tbl_save i (vault_row (v\<lparr>v_currentBalance :=
      num_to_string (js_add (parse_float (v_currentBalance v)) a)\<rparr>)) (vaults s)"
    and ut: "users t = users (updateByUserId u (\<lambda>w. w\<lparr>u_balances :=
      set_balance (v_currency v) (js_sub (snd p) a) (u_balances (fst p))\<rparr>) s)"
    by (rule deposit_write_Inr)
  from inv v have ok: "vault_ok v" "users_ok s" by (auto simp: vault_inv_def)
  from r v have p: "findById u s = Some (fst p)" "a \<le> snd p" "v_status v = ACTIVE"
    by (auto simp: deposit_read_Inr)
  have "users_ok t" unfolding users_ok_cong [OF ut] using ok p
    by (intro users_ok_set_balance) (auto intro: users_okD js_bounds)
  moreover have "vault_ok (v\<lparr>v_currentBalance := num_to_string (js_add (parse_float (v_currentBalance v)) a)\<rparr>)"
    using ok a p by (auto simp: vault_ok_def withdrawn_def intro!: js_bounds)
  ultimately show ?thesis by (intro vault_write_save [OF inv v _ _ _ vt]) simp_all
qed

lemma withdraw_vault_write:
  assumes inv: "vault_inv s" and d: "withdraw now u i s = (r, t)"
  shows "vault_write i s t"
proof (cases r)
  case (Inl e)
  with d have "t = s" by (auto simp: withdraw_def op_iff dest: withdraw_read_Inl withdraw_write_Inl)
    (auto simp: withdraw_read_Inr dest: withdraw_write_Inl)
  with inv show ?thesis by (simp add: vault_write_same vault_inv_def)
next
  case (Inr x)
  with d obtain p where r: "withdraw_read now u i s = (Inr p, s)" and w: "withdraw_write now u i p s = (Inr x, t)"
    by (auto simp: withdraw_def op_iff withdraw_read_Inr)
  from w obtain v where v: "tbl_find i (vaults s) = Some v" "\<not> withdrawn v"
    and vt: "vaults t = tbl_save i (vault_row (v\<lparr>v_status := (if snd p then BROKEN else CLOSED),
      v_currentBalance := 0, v_accruedInterest := 0, v_closedAt := Some now\<rparr>)) (vaults s)"
    and ut: "users t = users (updateByUserId u (\<lambda>w. w\<lparr>u_balances := set_balance (v_currency v)
      (js_add (balance_of (fst p) (v_currency v)) (vault_payout (snd p) v)) (u_balances (fst p))\<rparr>) s)"
    by (rule withdraw_write_Inr)
  from inv v have ok: "vault_ok v" "users_ok s" by (auto simp: vault_inv_def)
  from r v have p: "findById u s = Some (fst p)" by (auto simp: withdraw_read_Inr)
  have "users_ok t" unfolding users_ok_cong [OF ut]
    using ok users_okD [OF ok(2) p] balances_ok_read [of "fst p" "v_currency v"] vault_payout_ok [OF ok(1)]
    by (intro users_ok_set_balance) (auto intro: js_bounds)
  moreover have "v_status v \<in> {ACTIVE, MATURED}" using v(2) by (cases "v_status v") (auto simp: withdrawn_def)
  ultimately show ?thesis using ok
    by (intro vault_write_save [OF inv v(1) _ _ _ vt]) (auto simp: vault_ok_def vault_trans_simps)
qed

lemma delete_vault_write:
  assumes inv: "vault_inv s" and d: "deleteVault u i s = (r, t)"
  shows "vault_write i s t"
proof (cases r)
  case (Inl e)
  with d inv show ?thesis by (auto simp: vault_inv_def dest!: deleteVault_Inl intro!: vault_write_same)
next
  case (Inr x)
  with d inv show ?thesis
    by (auto simp: deleteVault_Inr vault_write_def vault_inv_def vault_status_of_def tbl_simps users_ok_def
        findById_def vault_trans_simps split: if_splits)
qed

lemma attempt_iff: "attempt m s = (r, t) \<longleftrightarrow> r = Inr () \<and> t = snd (m s)"
  by (auto simp: attempt_def tryE_def ret_def split: prod.splits sum.splits)

lemma daily_interest_double [simp]: "is_double (daily_interest v)"
  by (simp add: daily_interest_def)

lemma accrue_vault_write:
  assumes inv: "vault_inv s" and v: "tbl_find i (vaults s) = Some v" and d: "accrue_vault now (i, v) s = (r, t)"
  shows "vault_write i s t"
proof -
  let ?w = "v\<lparr>v_accruedInterest := num_to_string (js_add (parse_float (v_accruedInterest v)) (daily_interest v)),
              v_lastInterestAccruedAt := Some now\<rparr>"
  from d consider "t = s" | "0 < v_currentBalance v" "0 < daily_interest v" "users t = users s"
      "vaults t = tbl_save i (vault_row ?w) (vaults s)"
    by (auto simp: accrue_vault_def vault_op_defs op_defs Let_def not_le split: if_splits)
  then show ?thesis
  proof cases
    case 2
    from inv v have ok: "vault_ok v" "users_ok s" by (auto simp: vault_inv_def)
    moreover have "users_ok t" using users_ok_cong [OF 2(3)] ok by simp
    moreover have "vault_ok ?w" using ok 2 by (auto simp: vault_ok_def withdrawn_def intro!: js_bounds)
    ultimately show ?thesis by (intro vault_write_save [OF inv v _ _ _ 2(4)]) simp_all
  qed (use inv in \<open>auto simp: vault_inv_def intro: vault_write_same\<close>)
qed

lemma mature_vault_write:
  assumes inv: "vault_inv s" and v: "tbl_find i (vaults s) = Some v" and a: "v_status v = ACTIVE"
    and d: "mature_vault now (i, v) s = (r, t)"
  shows "vault_write i s t"
proof -
  let ?w = "v\<lparr>v_currentBalance := num_to_string (js_add (parse_float (v_currentBalance v))
      (parse_float (v_accruedInterest v))), v_accruedInterest := 0, v_status := MATURED, v_maturedAt := Some now\<rparr>"
  from d have t: "users t = users s" "vaults t = tbl_save i (vault_row ?w) (vaults s)"
    by (auto simp: mature_vault_def vault_op_defs op_defs Let_def notify_def split: if_splits)
  from inv v have ok: "vault_ok v" "users_ok s" by (auto simp: vault_inv_def)
  moreover have "users_ok t" using users_ok_cong [OF t(1)] ok by simp
  moreover have "vault_ok ?w" using ok by (auto simp: vault_ok_def withdrawn_def intro!: js_bounds)
  ultimately show ?thesis using a
    by (intro vault_write_save [OF inv v _ _ _ t(2)]) (simp_all add: vault_trans_simps)
qed

lemma auto_deposit_write:
  assumes inv: "vault_inv s" and v: "tbl_find i (vaults s) = Some v" and a: "v_status v = ACTIVE"
    and d: "auto_deposit (i, v) s = (r, t)"
  shows "vault_write i s t"
proof -
  from d consider "users t = users s" "vaults t = vaults s"
    | amount user where "v_autoDepositAmount v = Some amount" "findById (v_userId v) s = Some user"
      "parse_float amount \<le> balance_of user (v_currency v)"
      "vaults t = tbl_save i (vault_row (v\<lparr>v_currentBalance :=
         num_to_string (js_add (parse_float (v_currentBalance v)) (parse_float amount))\<rparr>)) (vaults s)"
      "users t = users (updateByUserId (v_userId v) (\<lambda>w. w\<lparr>u_balances := set_balance (v_currency v)
         (js_sub (balance_of user (v_currency v)) (parse_float amount)) (u_balances user)\<rparr>) s)"
    using v by (auto simp: auto_deposit_def vault_op_defs op_defs Let_def notify_def not_less updateByUserId_def
        split: option.splits if_splits)
  then show ?thesis
  proof cases
    case 1
    with inv users_ok_cong [OF 1(1)] show ?thesis by (intro vault_write_same) (auto simp: vault_inv_def)
  next
    case (2 amount user)
    from inv v have ok: "vault_ok v" "users_ok s" by (auto simp: vault_inv_def)
    have "users_ok t" unfolding users_ok_cong [OF 2(5)] using ok 2
      by (intro users_ok_set_balance) (auto intro: users_okD js_bounds)
    moreover have "vault_ok (v\<lparr>v_currentBalance :=
         num_to_string (js_add (parse_float (v_currentBalance v)) (parse_float amount))\<rparr>)"
      using ok 2(1) a by (auto simp: vault_ok_def withdrawn_def intro!: js_bounds)
    ultimately show ?thesis by (intro vault_write_save [OF inv v _ _ _ 2(4)]) simp_all
  qed
qed

text \<open>A job that handles some of the rows it read, one after the other.\<close>

lemma job_writes:
  assumes inv: "vault_inv s" and run: "forE xs (\<lambda>x. attempt (f x)) s = (r, t)"
    and xs: "distinct (map fst xs)" "\<And>i v. (i, v) \<in> set xs \<Longrightarrow> tbl_find i (vaults s) = Some v"
    and body: "\<And>i v s r t. (i, v) \<in> set xs \<Longrightarrow> vault_inv s \<Longrightarrow> tbl_find i (vaults s) = Some v \<Longrightarrow>
      f (i, v) s = (r, t) \<Longrightarrow> vault_write i s t"
  shows "vault_inv t \<and> vault_trans\<^sup>*\<^sup>* (vault_status_of k s) (vault_status_of k t)"
proof -
  let ?I = "\<lambda>ys u. set ys \<subseteq> set xs \<and> distinct (map fst ys) \<and> vault_inv u \<and>
    vault_trans\<^sup>*\<^sup>* (vault_status_of k s) (vault_status_of k u) \<and>
    (\<forall>(i, v) \<in> set ys. tbl_find i (vaults u) = Some v)"
  have "\<exists>ys. ?I ys t"
  proof (rule forE_invariant [OF run])
    show "?I xs s" using inv xs by auto
  next
    fix x ys u r w
    assume I: "?I (x # ys) u" and a: "attempt (f x) u = (r, w)"
    obtain i v where x: "x = (i, v)" by fastforce
    with a have fx: "f (i, v) u = (fst (f x u), w)" by (simp add: attempt_iff)
    from I x have v: "tbl_find i (vaults u) = Some v" "(i, v) \<in> set xs" "i \<notin> fst ` set ys"
      and u: "vault_inv u" "vault_trans\<^sup>*\<^sup>* (vault_status_of k s) (vault_status_of k u)"
      and ys: "set ys \<subseteq> set xs" "distinct (map fst ys)" "\<forall>(i, v) \<in> set ys. tbl_find i (vaults u) = Some v"
      by auto
    from body [OF v(2) u(1) v(1) fx] have w: "vault_write i u w" .
    have "tbl_find j (vaults w) = Some z" if "(j, z) \<in> set ys" for j z
    proof -
      from that v(3) have "j \<noteq> i" by force
      with w that ys(3) show ?thesis by (auto simp: vault_write_def)
    qed
    moreover have "vault_trans\<^sup>*\<^sup>* (vault_status_of k s) (vault_status_of k w)"
      by (rule rtranclp_trans [OF u(2) vault_write_other [OF w]])
    ultimately show "?I ys w" using ys(1,2) vault_inv_write [OF w] by blast
  qed
  then show ?thesis by blast
qed

lemma jobs_inv:
  assumes inv: "vault_inv s"
  shows "accrueInterest now s = (r, t) \<Longrightarrow> vault_inv t \<and> vault_trans\<^sup>*\<^sup>* (vault_status_of k s) (vault_status_of k t)"
    and "processMaturity now s = (r, t) \<Longrightarrow> vault_inv t \<and> vault_trans\<^sup>*\<^sup>* (vault_status_of k s) (vault_status_of k t)"
    and "processAutoDeposits now s = (r, t) \<Longrightarrow> vault_inv t \<and> vault_trans\<^sup>*\<^sup>* (vault_status_of k s) (vault_status_of k t)"
proof -
  from inv have d: "distinct (map fst (vaults s))" by (simp add: vault_inv_def)
  note job = job_writes [OF inv]
  show "vault_inv t \<and> vault_trans\<^sup>*\<^sup>* (vault_status_of k s) (vault_status_of k t)"
    if "accrueInterest now s = (r, t)"
    by (rule job [of "filter (\<lambda>(i, v). v_status v = ACTIVE) (vaults s)" "accrue_vault now" r])
      (use that d in \<open>auto simp: accrueInterest_def bindE_def gets_def distinct_fst_filter tbl_distinct_in
        intro: accrue_vault_write\<close>)
  show "vault_inv t \<and> vault_trans\<^sup>*\<^sup>* (vault_status_of k s) (vault_status_of k t)"
    if "processMaturity now s = (r, t)"
    by (rule job [of "filter (\<lambda>(i, v). v_status v = ACTIVE \<and> v_unlockAt v \<le> now) (vaults s)" "mature_vault now" r])
      (use that d in \<open>auto simp: processMaturity_def bindE_def gets_def distinct_fst_filter tbl_distinct_in
        intro: mature_vault_write\<close>)
  show "vault_inv t \<and> vault_trans\<^sup>*\<^sup>* (vault_status_of k s) (vault_status_of k t)"
    if "processAutoDeposits now s = (r, t)"
    by (rule job [of "filter (\<lambda>(i, v). due_today now (v_autoDepositFrequency v)) (filter (\<lambda>(i, v).
          v_status v = ACTIVE \<and> v_autoDepositAmount v \<noteq> None \<and> v_autoDepositFrequency v \<noteq> None) (vaults s))"
        auto_deposit r])
      (use that d in \<open>auto simp: processAutoDeposits_def bindE_def gets_def distinct_fst_filter tbl_distinct_in
        intro: auto_deposit_write\<close>)
qed

section \<open>Runs of the service\<close>

datatype vault_event =
    CreateVault "rat option" int string string create_vault_dto
  | Deposit string string rat
  | Withdraw int string string
  | DeleteVault string string
  | AccrueInterest int
  | ProcessMaturity int
  | ProcessAutoDeposits int

text \<open>A new vault gets an id that is not in use.\<close>

fun vault_step :: "vault_event \<Rightarrow> vault_state \<Rightarrow> vault_state" where
  "vault_step (CreateVault rate now newId u dto) s =
     (if tbl_find newId (vaults s) = None then snd (createVault rate now newId u dto s) else s)"
| "vault_step (Deposit u i a) s = snd (deposit u i a s)"
| "vault_step (Withdraw now u i) s = snd (withdraw now u i s)"
| "vault_step (DeleteVault u i) s = snd (deleteVault u i s)"
| "vault_step (AccrueInterest now) s = snd (accrueInterest now s)"
| "vault_step (ProcessMaturity now) s = snd (processMaturity now s)"
| "vault_step (ProcessAutoDeposits now) s = snd (processAutoDeposits now s)"

text \<open>What the validation of the requests enforces (\<open>vaults/dto\<close>): numbers that are not negative; and an
  interest rate of the configuration that is not negative.\<close>

fun vault_request_ok :: "vault_event \<Rightarrow> bool" where
  "vault_request_ok (CreateVault rate now newId u dto) \<longleftrightarrow>
     (case rate of None \<Rightarrow> True | Some r \<Rightarrow> 0 \<le> r) \<and>
     (case cv_autoDepositAmount dto of None \<Rightarrow> True | Some a \<Rightarrow> is_double a \<and> 0 \<le> a)"
| "vault_request_ok (Deposit u i a) \<longleftrightarrow> is_double a \<and> 1 / 10 ^ 8 \<le> a"
| "vault_request_ok e \<longleftrightarrow> True"

fun creates_vault :: "string \<Rightarrow> vault_event \<Rightarrow> bool" where
  "creates_vault k (CreateVault rate now newId u dto) \<longleftrightarrow> newId = k"
| "creates_vault k e \<longleftrightarrow> False"

lemma create_vault_inv:
  assumes "vault_inv s" and "vault_request_ok (CreateVault rate now i u dto)"
    and "tbl_find i (vaults s) = None"
  shows "vault_inv (snd (createVault rate now i u dto s))"
proof -
  let ?t = "snd (createVault rate now i u dto s)"
  obtain v where t: "vaults ?t = tbl_save i (vault_row v) (vaults s)" "users ?t = users s" and "vault_ok v"
    using assms(2)
    by (auto simp: createVault_def op_defs vault_op_defs vault_ok_def withdrawn_def Let_def js_bounds
        split: option.splits)
  with assms vault_ok_row users_ok_cong [OF t(2)] show ?thesis
    by (auto simp: vault_inv_def tbl_simps split: if_splits)
qed

lemma vault_step_ok:
  assumes inv: "vault_inv s" and ok: "vault_request_ok e"
  shows "vault_inv (vault_step e s)"
    and "\<not> creates_vault k e \<Longrightarrow> vault_trans\<^sup>*\<^sup>* (vault_status_of k s) (vault_status_of k (vault_step e s))"
proof -
  have "vault_inv (vault_step e s) \<and> (\<not> creates_vault k e \<longrightarrow>
      vault_trans\<^sup>*\<^sup>* (vault_status_of k s) (vault_status_of k (vault_step e s)))"
  proof (cases e)
    case (CreateVault rate now i u dto)
    have "vaults (snd (createVault rate now i u dto s)) = tbl_save i w (vaults s) \<Longrightarrow> i \<noteq> k \<Longrightarrow>
        vault_status_of k (snd (createVault rate now i u dto s)) = vault_status_of k s" for w
      by (simp add: vault_status_of_def tbl_simps)
    moreover obtain w where "vaults (snd (createVault rate now i u dto s)) = tbl_save i w (vaults s)"
      by (auto simp: createVault_def op_defs vault_op_defs Let_def)
    ultimately show ?thesis using CreateVault create_vault_inv [OF inv] inv ok by auto
  next
    case (Deposit u i a)
    then have a: "is_double a" "0 \<le> a" using ok by (auto intro: order_trans [of _ "1 / 10 ^ 8"])
    from deposit_vault_write [OF inv a, of u i] Deposit show ?thesis
      by (metis vault_step.simps(2) prod.collapse vault_inv_write vault_write_other)
  next
    case (Withdraw now u i)
    with withdraw_vault_write [OF inv, of now u i] show ?thesis
      by (metis vault_step.simps(3) prod.collapse vault_inv_write vault_write_other)
  next
    case (DeleteVault u i)
    with delete_vault_write [OF inv, of u i] show ?thesis
      by (metis vault_step.simps(4) prod.collapse vault_inv_write vault_write_other)
  qed (use jobs_inv [OF inv] in \<open>metis vault_step.simps prod.collapse\<close>)+
  then show "vault_inv (vault_step e s)" and "\<not> creates_vault k e \<Longrightarrow>
      vault_trans\<^sup>*\<^sup>* (vault_status_of k s) (vault_status_of k (vault_step e s))" by blast+
qed

interpretation vault_run: status_machine vault_step vault_request_ok vault_inv
  "\<lambda>k e. \<not> creates_vault k e" vault_status_of vault_trans
  by unfold_locales (auto intro: vault_step_ok)

lemma vault_status_final:
  "a \<in> {Some CLOSED, Some BROKEN, None} \<Longrightarrow> vault_trans a b \<Longrightarrow> b \<in> {Some CLOSED, Some BROKEN, None}"
  by (auto simp: vault_trans_simps)

lemma withdraw_final_fails:
  assumes "vault_status_of i s \<in> {Some CLOSED, Some BROKEN, None}"
  shows "\<exists>e. withdraw now u i s = (Inl e, s)"
  using assms by (cases "tbl_find i (vaults s)")
    (auto simp: vault_status_of_def withdraw_def withdraw_read_def withdrawn_def vault_op_defs op_defs)

section \<open>Properties\<close>

definition demo_vault :: "rat \<Rightarrow> vault_status \<Rightarrow> vault" where
  "demo_vault x st = \<lparr>v_userId = ''bob'', v_name = ''car'', v_currency = ''XLM'', v_targetAmount = 500,
     v_currentBalance = x, v_annualInterestRate = 0, v_accruedInterest = 0, v_unlockAt = 1000,
     v_status = st, v_earlyWithdrawalPenaltyPercent = 0, v_autoDepositAmount = None,
     v_autoDepositFrequency = None, v_lastInterestAccruedAt = None, v_maturedAt = None,
     v_closedAt = None, v_createdAt = 0\<rparr>"

definition demo_vaults :: "rat \<Rightarrow> rat \<Rightarrow> vault_status \<Rightarrow> vault_state" where
  "demo_vaults b x st = \<lparr>users = [(''bob'', demo_user b)], wallets = [], notifications = [],
     vaults = [(''v'', demo_vault x st)], vault_txs = []\<rparr>"

lemma demo_vaults_simps [simp]:
  "findById ''bob'' (demo_vaults b x st) = Some (demo_user b)"
  "tbl_find ''v'' (vaults (demo_vaults b x st)) = Some (demo_vault x st)"
  "v_status (demo_vault x st) = st" "v_userId (demo_vault x st) = ''bob''"
  "v_currency (demo_vault x st) = ''XLM''" "v_unlockAt (demo_vault x st) = 1000"
  "v_currentBalance (demo_vault x st) = x" "v_accruedInterest (demo_vault x st) = 0"
  "balance_of (demo_user b) ''XLM'' = b" "user_balance ''bob'' ''XLM'' (demo_vaults b x st) = b"
  by (simp_all add: demo_vaults_def demo_vault_def demo_user_def findById_def tbl_find_def balance_of_def
      user_balance_def)

lemma demo_vaults_inv:
  assumes "is_double b" "0 \<le> b" "0 \<le> x" "st \<in> {ACTIVE, MATURED}"
  shows "vault_inv (demo_vaults b x st)"
  using assms demo_user_ok [of b]
  by (auto simp: vault_inv_def users_ok_def demo_vaults_def findById_def tbl_find_def vault_ok_def demo_vault_def
      withdrawn_def)

text \<open>A vault pays out once: after a successful withdrawal, whatever requests and jobs follow, every
  further withdrawal of the vault is refused and changes nothing.\<close>

theorem vault_withdrawn_once:
  assumes "vault_inv s" and "withdraw now u i s = (Inr d, t)"
    and "\<And>e. e \<in> set es \<Longrightarrow> vault_request_ok e \<and> \<not> creates_vault i e"
  shows "\<exists>e. withdraw now' u' i (fold vault_step es t) = (Inl e, fold vault_step es t)"
proof (rule withdraw_final_fails)
  from assms(2) obtain p where w: "withdraw_write now u i p s = (Inr d, t)"
    by (auto simp: withdraw_def op_iff withdraw_read_Inr)
  then have "vault_status_of i t \<in> {Some CLOSED, Some BROKEN, None}"
    by (rule withdraw_write_Inr) (auto simp: vault_status_of_def tbl_simps)
  moreover have "vault_inv t"
    using withdraw_vault_write [OF assms(1,2)] by (rule vault_inv_write)
  ultimately show "vault_status_of i (fold vault_step es t) \<in> {Some CLOSED, Some BROKEN, None}"
    using assms(3) vault_status_final by (intro vault_run.run_closed)
qed

theorem vault_withdrawn_once_witness:
  "\<exists>d t e. withdraw 2000 ''bob'' ''v'' (demo_vaults 5 50 MATURED) = (Inr d, t) \<and>
     withdraw 3000 ''bob'' ''v'' (fold vault_step [ProcessMaturity 2000, Deposit ''bob'' ''v'' 1] t) =
       (Inl e, fold vault_step [ProcessMaturity 2000, Deposit ''bob'' ''v'' 1] t)"
proof -
  obtain d t where w: "withdraw 2000 ''bob'' ''v'' (demo_vaults 5 50 MATURED) = (Inr d, t)"
    by (auto simp: withdraw_def withdraw_read_def withdraw_write_def withdrawn_def vault_op_defs op_defs Let_def)
  have "vault_inv (demo_vaults 5 50 MATURED)" by (rule demo_vaults_inv) simp_all
  moreover have "vault_request_ok e \<and> \<not> creates_vault ''v'' e"
    if "e \<in> set [ProcessMaturity 2000, Deposit ''bob'' ''v'' 1]" for e
    using that by auto
  ultimately show ?thesis using w vault_withdrawn_once [OF _ w] by blast
qed

text \<open>No run of valid requests and jobs makes a user balance or the balance or interest of a vault
  negative, and a vault that was withdrawn holds nothing.\<close>

theorem vault_balances_nonneg:
  assumes "vault_inv s" and "\<And>e. e \<in> set es \<Longrightarrow> vault_request_ok e"
  shows "0 \<le> user_balance u c (fold vault_step es s) \<and>
    (\<forall>i v. tbl_find i (vaults (fold vault_step es s)) = Some v \<longrightarrow>
      0 \<le> v_currentBalance v \<and> 0 \<le> v_accruedInterest v \<and>
      (withdrawn v \<longrightarrow> v_currentBalance v = 0 \<and> v_accruedInterest v = 0))"
proof -
  have "vault_inv (fold vault_step es s)" using assms by (rule vault_run.inv_run)
  then have "users_ok (fold vault_step es s)"
    and "\<forall>i v. tbl_find i (vaults (fold vault_step es s)) = Some v \<longrightarrow> vault_ok v"
    by (auto simp: vault_inv_def)
  then show ?thesis using balances_ok_read users_okD
    by (auto simp: user_balance_def vault_ok_def split: option.splits) blast+
qed

theorem vault_balances_nonneg_witness:
  "0 \<le> user_balance ''bob'' ''XLM'' (fold vault_step [Deposit ''bob'' ''v'' 3, AccrueInterest 7]
      (demo_vaults 5 50 ACTIVE))"
proof -
  have "vault_inv (demo_vaults 5 50 ACTIVE)" by (rule demo_vaults_inv) simp_all
  moreover have "vault_request_ok e" if "e \<in> set [Deposit ''bob'' ''v'' 3, AccrueInterest 7]" for e
    using that by auto
  ultimately show ?thesis using vault_balances_nonneg by blast
qed

text \<open>Saving and withdrawing returns the savings: in whole units, a deposit into an empty active vault and a
  withdrawal after the unlock date restore the balance of the user and close the vault.\<close>

theorem vault_round_trip:
  assumes v: "tbl_find i (vaults s) = Some v" "v_userId v = u" "v_status v = ACTIVE"
      "v_currentBalance v = 0" "v_accruedInterest v = 0" "v_unlockAt v \<le> now"
    and b: "user_balance u (v_currency v) s = of_int n" "findById u s \<noteq> None"
    and m: "0 < m" "m \<le> n" "n < 2 ^ 53"
  shows "\<exists>d t. bindE (deposit u i (of_int m)) (\<lambda>_. withdraw now u i) s = (Inr d, t) \<and>
    user_balance u (v_currency v) t = of_int n \<and> vault_status_of i t = Some CLOSED"
proof -
  from b obtain user where user: "findById u s = Some user" "balance_of user (v_currency v) = of_int n"
    by (auto simp: user_balance_def)
  have m': "is_double (of_int m)" "js_add 0 (of_int m) = of_int m" "js_add (of_int m) 0 = of_int m"
    "num_to_string (of_int m) = of_int m" "js_sub (of_int n) (of_int m) = of_int (n - m)"
    using m is_double_int [of m] num_to_string_int [of m] js_numeral_exact(2) [of n m] by simp_all
  have nm: "js_add (of_int (n - m)) (of_int m) = of_int n"
    using js_numeral_exact(1) [of "n - m" m] m by simp
  have d: "\<exists>d t. deposit u i (of_int m) s = (Inr d, t) \<and> vaults t = tbl_save i (vault_row (v\<lparr>v_currentBalance :=
      of_int m\<rparr>)) (vaults s) \<and> users t = users (updateByUserId u (\<lambda>w. w\<lparr>u_balances :=
      set_balance (v_currency v) (of_int (n - m)) (u_balances user)\<rparr>) s)"
    using v user m m' by (simp add: deposit_def deposit_read_def deposit_write_def vault_op_defs op_defs Let_def
        updateByUserId_def)
  then obtain d t where t: "deposit u i (of_int m) s = (Inr d, t)"
    "vaults t = tbl_save i (vault_row (v\<lparr>v_currentBalance := of_int m\<rparr>)) (vaults s)"
    "users t = users (updateByUserId u (\<lambda>w. w\<lparr>u_balances :=
      set_balance (v_currency v) (of_int (n - m)) (u_balances user)\<rparr>) s)" by blast
  let ?v = "vault_row (v\<lparr>v_currentBalance := of_int m\<rparr>)"
  let ?user = "user\<lparr>u_balances := set_balance (v_currency v) (of_int (n - m)) (u_balances user)\<rparr>"
  have tv: "tbl_find i (vaults t) = Some ?v" using t(2) by (simp add: tbl_simps)
  have tu: "findById u t = Some ?user" using t(3) user
    by (simp add: findById_def updateByUserId_def tbl_simps)
  have "vault_total ?v = of_int m" using v m' by (simp add: vault_total_def)
  then have "\<exists>d' t'. withdraw now u i t = (Inr d', t') \<and> vault_status_of i t' = Some CLOSED \<and>
      user_balance u (v_currency v) t' = of_int n"
    using tv tu v nm by (simp add: withdraw_def withdraw_read_def withdraw_write_def vault_op_defs op_defs Let_def
        withdrawn_def vault_payout_def vault_status_of_def tbl_simps user_balance_def findById_def updateByUserId_def
        balance_of_def set_balance_def)
  with t(1) show ?thesis by (auto simp: bindE_def)
qed

theorem vault_round_trip_witness:
  "\<exists>d t. bindE (deposit ''bob'' ''v'' (of_int 30)) (\<lambda>_. withdraw 2000 ''bob'' ''v'') (demo_vaults (of_int 40) 0 ACTIVE)
     = (Inr d, t) \<and> user_balance ''bob'' (v_currency (demo_vault 0 ACTIVE)) t = of_int 40 \<and>
     vault_status_of ''v'' t = Some CLOSED"
  by (rule vault_round_trip) simp_all



text \<open>Two deposits of one user that both read before either writes debit the user once: the vault receives
  both amounts, the balance of the user only loses the second one.\<close>

theorem vault_deposit_lost_update:
  assumes "deposit_read u i a s = (Inr p, s)" and "deposit_read u i b s = (Inr q, s)"
    and "deposit_write u i a p s = (Inr d, s')" and "deposit_write u i b q s' = (Inr e, t)"
    and "tbl_find i (vaults s) = Some v"
  shows "user_balance u (v_currency v) t = js_sub (user_balance u (v_currency v) s) b \<and>
    map_option v_currentBalance (tbl_find i (vaults t)) = Some (pg_numeric 8 (num_to_string (js_add
      (parse_float (pg_numeric 8 (num_to_string (js_add (parse_float (v_currentBalance v)) a)))) b)))"
proof -
  from assms(2,5) have q: "findById u s = Some (fst q)" "snd q = balance_of (fst q) (v_currency v)"
    by (auto simp: deposit_read_Inr)
  from assms(3,5) have s': "vaults s' = tbl_save i (vault_row (v\<lparr>v_currentBalance :=
      num_to_string (js_add (parse_float (v_currentBalance v)) a)\<rparr>)) (vaults s)"
    and u': "users s' = users (updateByUserId u (\<lambda>w. w\<lparr>u_balances :=
      set_balance (v_currency v) (js_sub (snd p) a) (u_balances (fst p))\<rparr>) s)"
    by (auto elim!: deposit_write_Inr)
  obtain w where w: "tbl_find i (vaults s') = Some w" and t: "vaults t = tbl_save i (vault_row (w\<lparr>v_currentBalance :=
      num_to_string (js_add (parse_float (v_currentBalance w)) b)\<rparr>)) (vaults s')"
    and ut: "users t = users (updateByUserId u (\<lambda>x. x\<lparr>u_balances :=
      set_balance (v_currency w) (js_sub (snd q) b) (u_balances (fst q))\<rparr>) s')"
    using assms(4) by (rule deposit_write_Inr)
  from w s' have "v_currency w = v_currency v" "v_currentBalance w =
      pg_numeric 8 (num_to_string (js_add (parse_float (v_currentBalance v)) a))"
    by (auto simp: tbl_simps)
  with t ut u' q show ?thesis
    by (simp add: tbl_simps user_balance_def findById_def updateByUserId_def balance_of_def set_balance_def)
qed

theorem vault_deposit_lost_update_witness:
  "\<exists>p q d e s' t. deposit_read ''bob'' ''v'' 80 (demo_vaults 100 0 ACTIVE) = (Inr p, demo_vaults 100 0 ACTIVE) \<and>
     deposit_read ''bob'' ''v'' 80 (demo_vaults 100 0 ACTIVE) = (Inr q, demo_vaults 100 0 ACTIVE) \<and>
     deposit_write ''bob'' ''v'' 80 p (demo_vaults 100 0 ACTIVE) = (Inr d, s') \<and>
     deposit_write ''bob'' ''v'' 80 q s' = (Inr e, t) \<and>
     user_balance ''bob'' ''XLM'' t = 20 \<and> map_option v_currentBalance (tbl_find ''v'' (vaults t)) = Some 160"
proof -
  let ?s = "demo_vaults 100 0 ACTIVE" and ?p = "(demo_user 100, 100)"
  have r: "deposit_read ''bob'' ''v'' 80 ?s = (Inr ?p, ?s)" by (simp add: deposit_read_Inr)
  have W: "\<exists>d t. deposit_write u i a p s = (Inr d, t)" if "tbl_find i (vaults s) = Some v" for u i a p s v
    using that by (cases p) (simp add: deposit_write_def vault_op_defs op_defs Let_def)
  obtain d s' where w: "deposit_write ''bob'' ''v'' 80 ?p ?s = (Inr d, s')"
    using W [of "''v''" ?s] by fastforce
  then have "\<exists>v. tbl_find ''v'' (vaults s') = Some v" by (rule deposit_write_Inr) (simp add: tbl_simps)
  with W obtain e t where w': "deposit_write ''bob'' ''v'' 80 ?p s' = (Inr e, t)" by metis
  have v: "tbl_find ''v'' (vaults ?s) = Some (demo_vault 0 ACTIVE)" by simp
  have "user_balance ''bob'' ''XLM'' t = 20 \<and> map_option v_currentBalance (tbl_find ''v'' (vaults t)) = Some 160"
    using vault_deposit_lost_update [OF r r w w' v] js_numeral_exact(1) [of 0 80] js_numeral_exact(1) [of 80 80]
      js_numeral_exact(2) [of 100 80] by simp
  with r w w' show ?thesis by blast
qed

text \<open>A matured vault can be deleted with its money in it: the vault and its history disappear and no
  balance is credited.\<close>

theorem vault_delete_loses_funds:
  assumes "tbl_find i (vaults s) = Some v" and "v_userId v = u" and "v_status v = MATURED"
  shows "\<exists>t. deleteVault u i s = (Inr (), t) \<and> tbl_find i (vaults t) = None \<and> vault_history i t = [] \<and>
    users t = users s"
  using assms by (simp add: deleteVault_Inr tbl_simps vault_history_def)

theorem vault_delete_loses_funds_witness:
  "\<exists>t. deleteVault ''bob'' ''v'' (demo_vaults 5 1000 MATURED) = (Inr (), t) \<and> tbl_find ''v'' (vaults t) = None \<and>
     vault_history ''v'' t = [] \<and> users t = users (demo_vaults 5 1000 MATURED)"
  by (rule vault_delete_loses_funds [where v = "demo_vault 1000 MATURED"]) simp_all

end
