(* ===== verification/Loans.thy ===== *)
theory Loans
  imports Ledger JsDate
begin

text \<open>
  Loans (\<open>loans/loans.service.ts\<close>) and the credit score behind them
  (\<open>loans/credit-scoring.service.ts\<close>): applications, approval with disbursement and repayment schedule,
  manual repayment, the daily debit of due instalments, penalties and defaults. A due date is a day
  number, which orders like the ISO date string of the source. Decimal columns hold 8 places; the
  interest rate column holds 5 digits, 4 of them after the point, and refuses larger numbers. Rows get
  their ids from the generator \<open>uuid\<close>.
\<close>

section \<open>Data\<close>

datatype loan_status = L_PENDING | L_APPROVED | L_REJECTED | L_ACTIVE | L_REPAID | L_DEFAULTED

datatype repayment_status = SCHEDULED | PAID | PARTIAL | OVERDUE | WAIVED

record loan =
  l_userId :: string
  l_requestedAmount :: rat
  l_currency :: string
  l_termDays :: int
  l_interestRatePercent :: rat
  l_status :: loan_status
  l_creditScore :: int
  l_rejectionReason :: "string option"
  l_reviewedBy :: "string option"
  l_approvedAmount :: "rat option"
  l_disbursedAt :: "int option"
  l_dueDate :: "int option"

record repayment =
  r_loanId :: string
  r_dueDate :: int
  r_principalAmount :: rat
  r_interestAmount :: rat
  r_penaltyAmount :: rat
  r_totalDue :: rat
  r_paidAmount :: rat
  r_status :: repayment_status
  r_paidAt :: "int option"

record compliance_flag =
  cf_userId :: string
  cf_reason :: string
  cf_entityId :: "string option"
  cf_isResolved :: bool
  cf_createdAt :: int

record loan_state = books +
  loans :: "loan table"
  repayments :: "repayment table"
  flags :: "compliance_flag list"

record apply_loan_dto =
  al_requestedAmount :: rat
  al_termDays :: int

record approve_loan_dto =
  ap_approvedAmount :: rat
  ap_interestRatePercent :: rat

section \<open>Credit score\<close>

definition credit_points :: "int \<Rightarrow> string \<Rightarrow> user \<Rightarrow> loan_state \<Rightarrow> int" where
  "credit_points now userId user s =
     (let sixMonthsAgo = now - 6 * 30 * ms_per_day;
          ninetyDaysAgo = now - 90 * ms_per_day;
          txCount = length (filter (\<lambda>(i, t). t_userId t = userId \<and> ninetyDaysAgo < t_createdAt t) (transactions s));
          openFlagsCount = int (length (filter (\<lambda>f. cf_userId f = userId \<and> \<not> cf_isResolved f \<and>
            sixMonthsAgo < cf_createdAt f) (flags s)));
          repaidCount = length (filter (\<lambda>(i, l). l_userId l = userId \<and> l_status l = L_REPAID) (loans s));
          defaultedCount = length (filter (\<lambda>(i, l). l_userId l = userId \<and> l_status l = L_DEFAULTED) (loans s))
      in (if u_kycTier user = KYC_ENHANCED then 20 else 0)
       + (if u_createdAt user < sixMonthsAgo then 20 else 0)
       + (if 20 < txCount then 20 else 0)
       + (if openFlagsCount = 0 then 20 else 0)
       - openFlagsCount * 10
       + (if 0 < repaidCount then 10 else 0)
       - (if 0 < defaultedCount then 20 else 0))"

definition score :: "int \<Rightarrow> string \<Rightarrow> (loan_state, int) op" where
  "score now userId =
     bindE (gets (findById userId)) (\<lambda>found.
     bindE (from_option (PlainError ''EntityNotFoundError'') found) (\<lambda>user.
     bindE (gets (credit_points now userId user)) (\<lambda>points.
     ret (max 0 (min 100 points)))))"

section \<open>Rows\<close>

definition loan_row :: "loan \<Rightarrow> loan" where
  "loan_row l = l\<lparr>l_requestedAmount := pg_numeric 8 (l_requestedAmount l),
     l_interestRatePercent := pg_numeric 4 (l_interestRatePercent l),
     l_approvedAmount := map_option (pg_numeric 8) (l_approvedAmount l)\<rparr>"

text \<open>\<open>decimal(5, 4)\<close> holds numbers below ten only.\<close>

definition rate_fits :: "rat \<Rightarrow> bool" where
  "rate_fits x \<longleftrightarrow> \<bar>pg_numeric 4 x\<bar> < 10"

definition save_loan :: "string \<Rightarrow> loan \<Rightarrow> (loan_state, unit) op" where
  "save_loan i l =
     bindE (require (rate_fits (l_interestRatePercent l)) (PlainError ''numeric field overflow'')) (\<lambda>_.
     modify (\<lambda>s. s\<lparr>loans := tbl_save i (loan_row l) (loans s)\<rparr>))"

definition set_loan_status :: "string \<Rightarrow> loan_status \<Rightarrow> (loan_state, unit) op" where
  "set_loan_status i st = modify (\<lambda>s. s\<lparr>loans := tbl_update i (\<lambda>l. l\<lparr>l_status := st\<rparr>) (loans s)\<rparr>)"

definition save_repayment :: "string \<Rightarrow> repayment \<Rightarrow> (loan_state, unit) op" where
  "save_repayment i r = modify (\<lambda>s. s\<lparr>repayments := tbl_save i r (repayments s)\<rparr>)"

definition insert_loan :: "(nat \<Rightarrow> string) \<Rightarrow> loan \<Rightarrow> (loan_state, string) op" where
  "insert_loan uuid l =
     bindE (gets (\<lambda>s. uuid (length (loans s)))) (\<lambda>i.
     bindE (save_loan i l) (\<lambda>_.
     ret i))"

definition insert_repayment :: "(nat \<Rightarrow> string) \<Rightarrow> repayment \<Rightarrow> (loan_state, unit) op" where
  "insert_repayment uuid r = bindE (gets (\<lambda>s. uuid (length (repayments s)))) (\<lambda>i. save_repayment i r)"

definition loan_transaction :: "(loan_state, 'a) op \<Rightarrow> (loan_state, 'a) op" where
  "loan_transaction = transactionE (\<lambda>s t. t\<lparr>users := users s, ledger := ledger s,
     transactions := transactions s, loans := loans s, repayments := repayments s\<rparr>)"

definition find_loan :: "string \<Rightarrow> (loan_state, loan) op" where
  "find_loan i = bindE (gets (\<lambda>s. tbl_find i (loans s))) (from_option (NotFoundException ''Loan not found''))"

definition set_xlm :: "string \<Rightarrow> user \<Rightarrow> rat \<Rightarrow> (loan_state, unit) op" where
  "set_xlm userId user newBalance = modify (updateByUserId userId
     (\<lambda>u. u\<lparr>u_balances := set_balance ''XLM'' newBalance (u_balances user)\<rparr>))"

definition loan_tx :: "int \<Rightarrow> string \<Rightarrow> tx_type \<Rightarrow> rat \<Rightarrow> transaction" where
  "loan_tx now userId ty x = \<lparr>t_userId = userId, t_type = ty, t_amount = x, t_currency = ''XLM'', t_rate = None,
     t_status = SUCCESS, t_txHash = None, t_failureReason = None, t_feeAmount = None, t_feeCurrency = None,
     t_toCurrency = None, t_toAmount = None, t_createdAt = now, t_reference = None,
     t_counterpartyMemo = None, t_userNote = None, t_tags = None,
     t_categoryId = None\<rparr>"

text \<open>The two legs of a movement: the user on one side, the platform on the other.\<close>

definition disbursement_entries :: "string \<Rightarrow> rat \<Rightarrow> ledger_entry list" where
  "disbursement_entries i x =
     [entry i ACC_USER CREDIT x ''XLM'', entry i PLATFORM_LIABILITY DEBIT x ''XLM'']"

definition repayment_entries :: "string \<Rightarrow> rat \<Rightarrow> ledger_entry list" where
  "repayment_entries i x =
     [entry i ACC_USER DEBIT x ''XLM'', entry i PLATFORM_ASSET CREDIT x ''XLM'']"

definition repayments_of :: "string \<Rightarrow> loan_state \<Rightarrow> (string \<times> repayment) list" where
  "repayments_of loanId s = filter (\<lambda>(i, r). r_loanId r = loanId) (repayments s)"

definition all_paid :: "string \<Rightarrow> loan_state \<Rightarrow> bool" where
  "all_paid loanId s \<longleftrightarrow> list_all (\<lambda>(i, r). r_status r \<in> {PAID, WAIVED}) (repayments_of loanId s)"

section \<open>Operations\<close>

definition applyForLoan ::
    "(nat \<Rightarrow> string) \<Rightarrow> int \<Rightarrow> string \<Rightarrow> apply_loan_dto \<Rightarrow> (loan_state, string \<times> loan) op" where
  "applyForLoan uuid now userId dto =
     bindE (gets (findById userId)) (\<lambda>found.
     bindE (from_option (NotFoundException ''User not found'') found) (\<lambda>user.
     bindE (require (u_kycTier user = KYC_ENHANCED)
       (ForbiddenException ''ENHANCED KYC verification is required to apply for a loan'')) (\<lambda>_.
     bindE (score now userId) (\<lambda>creditScore.
     let application = \<lparr>l_userId = userId, l_requestedAmount = num_to_string (al_requestedAmount dto),
           l_currency = ''XLM'', l_termDays = al_termDays dto, l_interestRatePercent = 0,
           l_status = (if creditScore < 40 then L_REJECTED else L_PENDING), l_creditScore = creditScore,
           l_rejectionReason = (if creditScore < 40
             then Some ''Credit score is below minimum required score of 40'' else None),
           l_reviewedBy = None, l_approvedAmount = None, l_disbursedAt = None, l_dueDate = None\<rparr>
     in
     bindE (insert_loan uuid application) (\<lambda>i.
     ret (i, application))))))"

definition getUserLoans :: "string \<Rightarrow> loan_state \<Rightarrow> (string \<times> loan) list" where
  "getUserLoans userId s = rev (filter (\<lambda>(i, l). l_userId l = userId) (loans s))"

definition getLoanById :: "string \<Rightarrow> string \<Rightarrow> (loan_state, loan \<times> (string \<times> repayment) list) op" where
  "getLoanById userId loanId =
     bindE (find_loan loanId) (\<lambda>loan.
     bindE (require (l_userId loan = userId) (NotFoundException ''Loan not found'')) (\<lambda>_.
     bindE (gets (repayments_of loanId)) (\<lambda>rs.
     ret (loan, rs))))"

text \<open>The part of a repayment that follows the checks: in one database transaction.\<close>

definition record_repayment ::
    "(nat \<Rightarrow> string) \<Rightarrow> int \<Rightarrow> string \<Rightarrow> string \<Rightarrow> user \<Rightarrow> rat \<Rightarrow> string \<Rightarrow> repayment \<Rightarrow> (loan_state, unit) op" where
  "record_repayment uuid now userId loanId user payAmount repaymentId saved =
     bindE (save_repayment repaymentId saved) (\<lambda>_.
     bindE (set_xlm userId user (js_sub (balance_of user ''XLM'') payAmount)) (\<lambda>_.
     bindE (insert_transaction uuid (loan_tx now userId LOAN_REPAYMENT (to_fixed 8 payAmount))) (\<lambda>txId.
     bindE (insert_entries (repayment_entries txId (to_fixed 8 payAmount))) (\<lambda>_.
     bindE (gets (all_paid loanId)) (\<lambda>allPaid.
     if allPaid then set_loan_status loanId L_REPAID else ret ())))))"

definition repayLoan ::
    "(nat \<Rightarrow> string) \<Rightarrow> int \<Rightarrow> string \<Rightarrow> string \<Rightarrow> rat \<Rightarrow> (loan_state, string \<times> repayment) op" where
  "repayLoan uuid now userId loanId amount =
     bindE (getLoanById userId loanId) (\<lambda>(loan, rs).
     bindE (require (l_status loan = L_ACTIVE) (BadRequestException ''Only ACTIVE loans can be repaid'')) (\<lambda>_.
     bindE (gets (findById userId)) (\<lambda>found.
     bindE (from_option (NotFoundException ''User not found'') found) (\<lambda>user.
     bindE (require (\<not> balance_of user ''XLM'' < amount)
       (BadRequestException ''Insufficient XLM balance'')) (\<lambda>_.
     bindE (from_option (BadRequestException ''No outstanding repayments'')
       (case sort_key (\<lambda>(i, r). r_dueDate r)
           (filter (\<lambda>(i, r). r_status r \<in> {SCHEDULED, PARTIAL, OVERDUE}) rs) of
          [] \<Rightarrow> None | x # _ \<Rightarrow> Some x)) (\<lambda>(repaymentId, repayment).
     let remainingDue = js_sub (parse_float (r_totalDue repayment)) (parse_float (r_paidAmount repayment));
         payAmount = min amount remainingDue;
         newPaidAmount = js_add (parse_float (r_paidAmount repayment)) payAmount;
         paid = (js_sub (parse_float (r_totalDue repayment)) (parse_float (5 / 10 ^ 9)) \<le> newPaidAmount);
         saved = repayment\<lparr>r_paidAmount := to_fixed 8 newPaidAmount,
           r_status := (if paid then PAID else PARTIAL),
           r_paidAt := (if paid then Some now else r_paidAt repayment)\<rparr>
     in
     bindE (loan_transaction (record_repayment uuid now userId loanId user payAmount repaymentId saved)) (\<lambda>_.
     ret (repaymentId, saved))))))))"

definition instalments_of :: "int \<Rightarrow> rat" where
  "instalments_of termDays = (if termDays = 30 then 1 else js_div (of_int termDays) 30)"

definition buildRepaymentSchedule :: "int \<Rightarrow> string \<Rightarrow> int \<Rightarrow> approve_loan_dto \<Rightarrow> repayment list" where
  "buildRepaymentSchedule now loanId termDays dto =
     (let instalments = instalments_of termDays;
          principal = js_div (ap_approvedAmount dto) instalments;
          annualRate = js_div (ap_interestRatePercent dto) 100;
          monthlyRate = js_div annualRate 12;
          interestPerInstalment = js_mul (ap_approvedAmount dto) monthlyRate
      in map (\<lambda>i. \<lparr>r_loanId = loanId, r_dueDate = utc_days (now + i * 30 * ms_per_day),
           r_principalAmount = to_fixed 8 principal, r_interestAmount = to_fixed 8 interestPerInstalment,
           r_penaltyAmount = 0, r_totalDue = to_fixed 8 (js_add principal interestPerInstalment),
           r_paidAmount = 0, r_status = SCHEDULED, r_paidAt = None\<rparr>)
         [1 .. \<lfloor>instalments\<rfloor>])"

definition adminApproveLoan ::
    "(nat \<Rightarrow> string) \<Rightarrow> int \<Rightarrow> string \<Rightarrow> string \<Rightarrow> approve_loan_dto \<Rightarrow> (loan_state, loan) op" where
  "adminApproveLoan uuid now adminId loanId dto =
     bindE (find_loan loanId) (\<lambda>loan.
     bindE (require (l_status loan = L_PENDING)
       (BadRequestException ''Only PENDING loans can be approved'')) (\<lambda>_.
     bindE (gets (findById (l_userId loan))) (\<lambda>found.
     bindE (from_option (NotFoundException ''Loan applicant not found'') found) (\<lambda>user.
     bindE (loan_transaction (
       bindE (save_loan loanId (loan\<lparr>l_status := L_ACTIVE,
           l_approvedAmount := Some (num_to_string (ap_approvedAmount dto)),
           l_interestRatePercent := num_to_string (ap_interestRatePercent dto),
           l_reviewedBy := Some adminId, l_disbursedAt := Some now,
           l_dueDate := Some (now + l_termDays loan * ms_per_day)\<rparr>)) (\<lambda>_.
       bindE (set_xlm (l_userId loan) user
           (js_add (balance_of user ''XLM'') (ap_approvedAmount dto))) (\<lambda>_.
       bindE (insert_transaction uuid (loan_tx now (l_userId loan) LOAN_DISBURSEMENT
           (to_fixed 8 (ap_approvedAmount dto)))) (\<lambda>txId.
       bindE (insert_entries (disbursement_entries txId (to_fixed 8 (ap_approvedAmount dto)))) (\<lambda>_.
       forE (buildRepaymentSchedule now loanId (l_termDays loan) dto) (insert_repayment uuid))))))) (\<lambda>_.
     find_loan loanId)))))"

definition adminRejectLoan :: "string \<Rightarrow> string \<Rightarrow> string option \<Rightarrow> (loan_state, loan) op" where
  "adminRejectLoan adminId loanId reason =
     bindE (find_loan loanId) (\<lambda>loan.
     bindE (require (l_status loan = L_PENDING)
       (BadRequestException ''Only PENDING loans can be rejected'')) (\<lambda>_.
     let saved = loan\<lparr>l_status := L_REJECTED, l_reviewedBy := Some adminId,
           l_rejectionReason := Some (case reason of None \<Rightarrow> ''Application rejected by admin'' | Some r \<Rightarrow> r)\<rparr>
     in
     bindE (save_loan loanId saved) (\<lambda>_.
     ret saved)))"

section \<open>Scheduled jobs\<close>

text \<open>The jobs read the repayments together with their loans once, and handle one after the other; a
  failure is logged and the next one is handled.\<close>

definition with_loan :: "loan_state \<Rightarrow> (string \<times> repayment) list \<Rightarrow> (string \<times> repayment \<times> loan) list" where
  "with_loan s rs = concat (map (\<lambda>(i, r). case tbl_find (r_loanId r) (loans s) of None \<Rightarrow> []
     | Some l \<Rightarrow> [(i, r, l)]) rs)"

definition autoDebitRepayment ::
    "(nat \<Rightarrow> string) \<Rightarrow> int \<Rightarrow> string \<times> repayment \<times> loan \<Rightarrow> (loan_state, unit) op" where
  "autoDebitRepayment uuid now = (\<lambda>(i, repayment, loan).
     if l_status loan \<noteq> L_ACTIVE then ret ()
     else bindE (gets (findById (l_userId loan))) (\<lambda>found.
     case found of None \<Rightarrow> ret () | Some user \<Rightarrow>
     let amountDue = js_sub (parse_float (r_totalDue repayment)) (parse_float (r_paidAmount repayment))
     in if balance_of user ''XLM'' < amountDue
        then save_repayment i (repayment\<lparr>r_status := OVERDUE\<rparr>)
        else loan_transaction (
          bindE (set_xlm (l_userId loan) user (js_sub (balance_of user ''XLM'') amountDue)) (\<lambda>_.
          bindE (insert_transaction uuid (loan_tx now (l_userId loan) LOAN_REPAYMENT (to_fixed 8 amountDue))) (\<lambda>txId.
          bindE (insert_entries (repayment_entries txId (to_fixed 8 amountDue))) (\<lambda>_.
          bindE (save_repayment i (repayment\<lparr>r_paidAmount := r_totalDue repayment, r_status := PAID,
            r_paidAt := Some now\<rparr>)) (\<lambda>_.
          bindE (gets (all_paid (r_loanId repayment))) (\<lambda>allPaid.
          if allPaid then set_loan_status (r_loanId repayment) L_REPAID else ret ()))))))))"

definition due_repayments :: "int \<Rightarrow> loan_state \<Rightarrow> (string \<times> repayment \<times> loan) list" where
  "due_repayments now s = with_loan s
     (filter (\<lambda>(i, r). r_status r = SCHEDULED \<and> r_dueDate r \<le> utc_days now) (repayments s))"

definition processScheduledRepayments :: "(nat \<Rightarrow> string) \<Rightarrow> int \<Rightarrow> (loan_state, unit) op" where
  "processScheduledRepayments uuid now =
     bindE (gets (due_repayments now)) (\<lambda>rs.
     forE rs (\<lambda>x. tryE (autoDebitRepayment uuid now x) (\<lambda>_. ret ())))"

definition getOverdueSinceDays :: "int \<Rightarrow> repayment \<Rightarrow> int" where
  "getOverdueSinceDays now r = (now - r_dueDate r * ms_per_day) div ms_per_day"

definition defaultLoan :: "int \<Rightarrow> string \<Rightarrow> loan \<Rightarrow> (loan_state, unit) op" where
  "defaultLoan now loanId loan =
     (if l_status loan = L_DEFAULTED then ret ()
      else bindE (save_loan loanId (loan\<lparr>l_status := L_DEFAULTED\<rparr>)) (\<lambda>_.
        modify (\<lambda>s. s\<lparr>flags := flags s @ [\<lparr>cf_userId = l_userId loan,
          cf_reason = ''Loan defaulted after 7 days overdue'', cf_entityId = Some loanId,
          cf_isResolved = False, cf_createdAt = now\<rparr>]\<rparr>)))"

definition penalise :: "int \<Rightarrow> string \<times> repayment \<times> loan \<Rightarrow> (loan_state, unit) op" where
  "penalise now = (\<lambda>(i, repayment, loan).
     let outstanding = js_sub (parse_float (r_totalDue repayment)) (parse_float (r_paidAmount repayment));
         dailyPenalty = js_mul outstanding (parse_float (5 / 1000));
         newPenalty = js_add (parse_float (r_penaltyAmount repayment)) dailyPenalty;
         newTotalDue = js_add (parse_float (r_totalDue repayment)) dailyPenalty
     in
     bindE (save_repayment i (repayment\<lparr>r_penaltyAmount := to_fixed 8 newPenalty,
       r_totalDue := to_fixed 8 newTotalDue\<rparr>)) (\<lambda>_.
     if 7 \<le> getOverdueSinceDays now repayment then defaultLoan now (r_loanId repayment) loan else ret ()))"

definition applyOverduePenalties :: "int \<Rightarrow> (loan_state, unit) op" where
  "applyOverduePenalties now =
     bindE (gets (\<lambda>s. with_loan s (filter (\<lambda>(i, r). r_status r = OVERDUE) (repayments s)))) (\<lambda>rs.
     forE rs (\<lambda>x. tryE (penalise now x) (\<lambda>_. ret ())))"

section \<open>Invariant\<close>

text \<open>The ids of the rows are those the generator produced, in order.\<close>

definition keys_ok :: "(nat \<Rightarrow> string) \<Rightarrow> 'v table \<Rightarrow> bool" where
  "keys_ok uuid t \<longleftrightarrow> map fst t = map uuid [0..<length t]"

lemma keys_ok_distinct: "inj uuid \<Longrightarrow> keys_ok uuid t \<Longrightarrow> distinct (map fst t)"
  by (simp add: keys_ok_def distinct_map inj_on_subset [OF _ subset_UNIV])

lemma keys_ok_fresh: "inj uuid \<Longrightarrow> keys_ok uuid t \<Longrightarrow> tbl_find (uuid (length t)) t = None"
  by (simp add: keys_ok_def tbl_find_None_keys inj_image_mem_iff)

lemma keys_ok_insert: "inj uuid \<Longrightarrow> keys_ok uuid t \<Longrightarrow> keys_ok uuid (tbl_save (uuid (length t)) v t)"
  using keys_ok_fresh [of uuid t] by (simp add: tbl_save_new keys_ok_def)

lemma keys_ok_save: "keys_ok uuid t \<Longrightarrow> tbl_find k t = Some w \<Longrightarrow> keys_ok uuid (tbl_save k v t)"
  using tbl_save_keys [of k t w v] by (metis keys_ok_def length_map)

lemma keys_ok_update: "keys_ok uuid t \<Longrightarrow> keys_ok uuid (tbl_update k f t)"
  by (simp add: keys_ok_def) (simp add: tbl_update_def)

text \<open>Every instalment belongs to a loan that was disbursed, and the instalments of a repaid loan are
  settled.\<close>

definition repayments_ok :: "loan table \<Rightarrow> repayment table \<Rightarrow> bool" where
  "repayments_ok L R \<longleftrightarrow> (\<forall>i r. tbl_find i R = Some r \<longrightarrow> (\<exists>l. tbl_find (r_loanId r) L = Some l \<and>
     l_status l \<in> {L_ACTIVE, L_REPAID, L_DEFAULTED} \<and>
     (l_status l = L_REPAID \<longrightarrow> r_status r \<in> {PAID, WAIVED})))"

lemma repayments_okD:
  "repayments_ok L R \<Longrightarrow> tbl_find i R = Some r \<Longrightarrow> r_status r \<notin> {PAID, WAIVED} \<Longrightarrow>
    \<exists>l. tbl_find (r_loanId r) L = Some l \<and> l_status l \<in> {L_ACTIVE, L_DEFAULTED}"
  by (fastforce simp: repayments_ok_def)

lemma repayments_ok_save:
  "repayments_ok L R \<Longrightarrow> r_loanId r = k \<Longrightarrow> tbl_find k L = Some l \<Longrightarrow>
    l_status l \<in> {L_ACTIVE, L_DEFAULTED} \<Longrightarrow> repayments_ok L (tbl_save i r R)"
  by (auto simp: repayments_ok_def tbl_simps)

lemma repayments_ok_settle:
  assumes R: "repayments_ok L R"
    and paid: "\<And>i r. tbl_find i R = Some r \<Longrightarrow> r_loanId r = k \<Longrightarrow> r_status r \<in> {PAID, WAIVED}"
  shows "repayments_ok (tbl_update k (\<lambda>l. l\<lparr>l_status := L_REPAID\<rparr>) L) R"
  unfolding repayments_ok_def
proof (intro allI impI)
  fix i r assume r: "tbl_find i R = Some r"
  with R obtain l where l: "tbl_find (r_loanId r) L = Some l" "l_status l \<in> {L_ACTIVE, L_REPAID, L_DEFAULTED}"
    "l_status l = L_REPAID \<longrightarrow> r_status r \<in> {PAID, WAIVED}" by (auto simp: repayments_ok_def)
  with paid [OF r] show "\<exists>l'. tbl_find (r_loanId r) (tbl_update k (\<lambda>l. l\<lparr>l_status := L_REPAID\<rparr>) L) = Some l' \<and>
      l_status l' \<in> {L_ACTIVE, L_REPAID, L_DEFAULTED} \<and> (l_status l' = L_REPAID \<longrightarrow> r_status r \<in> {PAID, WAIVED})"
    by (cases "r_loanId r = k") (auto simp: tbl_simps)
qed

lemma repayments_ok_loan:
  assumes R: "repayments_ok L R"
    and l: "l_status l \<in> {L_ACTIVE, L_DEFAULTED} \<or>
      (\<forall>l'. tbl_find k L = Some l' \<longrightarrow> l_status l' \<notin> {L_ACTIVE, L_REPAID, L_DEFAULTED})"
  shows "repayments_ok (tbl_save k l L) R"
  unfolding repayments_ok_def
proof (intro allI impI)
  fix i r assume "tbl_find i R = Some r"
  with R obtain l' where "tbl_find (r_loanId r) L = Some l'" "l_status l' \<in> {L_ACTIVE, L_REPAID, L_DEFAULTED}"
    "l_status l' = L_REPAID \<longrightarrow> r_status r \<in> {PAID, WAIVED}" by (auto simp: repayments_ok_def)
  with l show "\<exists>l''. tbl_find (r_loanId r) (tbl_save k l L) = Some l'' \<and>
      l_status l'' \<in> {L_ACTIVE, L_REPAID, L_DEFAULTED} \<and> (l_status l'' = L_REPAID \<longrightarrow> r_status r \<in> {PAID, WAIVED})"
    by (cases "r_loanId r = k") (auto simp: tbl_simps)
qed

definition loan_inv :: "(nat \<Rightarrow> string) \<Rightarrow> loan_state \<Rightarrow> bool" where
  "loan_inv uuid s \<longleftrightarrow> inj uuid \<and> users_ok s \<and> keys_ok uuid (loans s) \<and> keys_ok uuid (repayments s) \<and>
     repayments_ok (loans s) (repayments s) \<and> (\<forall>c. amountDelta c (ledger s) = 0)"

definition loan_status_of :: "string \<Rightarrow> loan_state \<Rightarrow> loan_status option" where
  "loan_status_of k s = map_option l_status (tbl_find k (loans s))"

inductive loan_trans :: "loan_status option \<Rightarrow> loan_status option \<Rightarrow> bool" where
  submit: "a \<in> {L_PENDING, L_REJECTED} \<Longrightarrow> loan_trans None (Some a)"
| review: "a \<in> {L_ACTIVE, L_REJECTED} \<Longrightarrow> loan_trans (Some L_PENDING) (Some a)"
| finish: "a \<in> {L_REPAID, L_DEFAULTED} \<Longrightarrow> loan_trans (Some L_ACTIVE) (Some a)"

inductive_simps loan_trans_simps: "loan_trans a b"

definition loan_write :: "(nat \<Rightarrow> string) \<Rightarrow> loan_state \<Rightarrow> loan_state \<Rightarrow> bool" where
  "loan_write uuid s t \<longleftrightarrow> loan_inv uuid t \<and> (\<forall>k. loan_trans\<^sup>*\<^sup>* (loan_status_of k s) (loan_status_of k t))"

lemma loan_write_refl: "loan_inv uuid s \<Longrightarrow> loan_write uuid s s"
  by (simp add: loan_write_def)

lemma loan_write_trans: "loan_write uuid s t \<Longrightarrow> loan_write uuid t u \<Longrightarrow> loan_write uuid s u"
  unfolding loan_write_def by (meson rtranclp_trans)

text \<open>Disbursements and repayments are balanced sources of ledger entries.\<close>

definition loan_entries :: "bool \<times> string \<times> rat \<Rightarrow> ledger_entry list" where
  "loan_entries = (\<lambda>(disburse, i, x). if disburse then disbursement_entries i x else repayment_entries i x)"

interpretation loan_book: balanced_source loan_entries
  by unfold_locales (auto simp: loan_entries_def disbursement_entries_def repayment_entries_def amountDelta_Cons
      amountDelta_Nil split: prod.splits)

lemma loan_delta [simp]: "amountDelta c (disbursement_entries i x) = 0" "amountDelta c (repayment_entries i x) = 0"
  using loan_book.emit_balanced [of c "(True, i, x)"] loan_book.emit_balanced [of c "(False, i, x)"]
  by (simp_all add: loan_entries_def)

lemmas loan_op_defs = find_loan_def save_loan_def set_loan_status_def save_repayment_def insert_loan_def
  insert_repayment_def loan_transaction_def set_xlm_def insert_transaction_def insert_entries_def

section \<open>What the operations do\<close>

definition settle :: "string \<Rightarrow> repayment table \<Rightarrow> loan table \<Rightarrow> loan table" where
  "settle k R L = (if list_all (\<lambda>(i, r). r_status r \<in> {PAID, WAIVED}) (filter (\<lambda>(i, r). r_loanId r = k) R)
     then tbl_update k (\<lambda>l. l\<lparr>l_status := L_REPAID\<rparr>) L else L)"

definition after_repayment ::
    "(nat \<Rightarrow> string) \<Rightarrow> int \<Rightarrow> string \<Rightarrow> string \<Rightarrow> user \<Rightarrow> rat \<Rightarrow> string \<Rightarrow> repayment \<Rightarrow> loan_state \<Rightarrow> loan_state" where
  "after_repayment uuid now userId k user pay i saved s =
     s\<lparr>users := tbl_update userId (\<lambda>u. u\<lparr>u_balances :=
          set_balance ''XLM'' (js_sub (balance_of user ''XLM'') pay) (u_balances user)\<rparr>) (users s),
       ledger := ledger s @ repayment_entries (uuid (length (transactions s))) (to_fixed 8 pay),
       transactions := tbl_save (uuid (length (transactions s)))
          (loan_tx now userId LOAN_REPAYMENT (to_fixed 8 pay)) (transactions s),
       loans := settle k (tbl_save i saved (repayments s)) (loans s),
       repayments := tbl_save i saved (repayments s)\<rparr>"

lemma record_repayment_eq:
  "record_repayment uuid now userId k user pay i saved s =
     (Inr (), after_repayment uuid now userId k user pay i saved s)"
  by (simp add: record_repayment_def loan_op_defs op_defs Let_def after_repayment_def settle_def all_paid_def
      repayments_of_def updateByUserId_def)

lemma autoDebit_cases:
  "autoDebitRepayment uuid now (i, r, l) s =
     (Inr (), if l_status l \<noteq> L_ACTIVE then s
       else case findById (l_userId l) s of None \<Rightarrow> s
       | Some user \<Rightarrow>
           let due = js_sub (parse_float (r_totalDue r)) (parse_float (r_paidAmount r))
           in if balance_of user ''XLM'' < due
              then s\<lparr>repayments := tbl_save i (r\<lparr>r_status := OVERDUE\<rparr>) (repayments s)\<rparr>
              else after_repayment uuid now (l_userId l) (r_loanId r) user due i
                (r\<lparr>r_paidAmount := r_totalDue r, r_status := PAID, r_paidAt := Some now\<rparr>) s)"
  by (simp add: autoDebitRepayment_def loan_op_defs op_defs Let_def after_repayment_def settle_def all_paid_def
      repayments_of_def updateByUserId_def split: option.splits)

lemma settle_find:
  assumes "distinct (map fst R)"
  shows "settle k R L = (if \<forall>i r. tbl_find i R = Some r \<longrightarrow> r_loanId r = k \<longrightarrow> r_status r \<in> {PAID, WAIVED}
     then tbl_update k (\<lambda>l. l\<lparr>l_status := L_REPAID\<rparr>) L else L)"
proof -
  have "list_all (\<lambda>(i, r). r_status r \<in> {PAID, WAIVED}) (filter (\<lambda>(i, r). r_loanId r = k) R) \<longleftrightarrow>
      (\<forall>i r. tbl_find i R = Some r \<longrightarrow> r_loanId r = k \<longrightarrow> r_status r \<in> {PAID, WAIVED})"
    using tbl_distinct_in [OF assms] by (auto simp: list_all_iff)
  then show ?thesis by (simp add: settle_def)
qed

lemma after_repayment_write:
  assumes inv: "loan_inv uuid s" and r: "tbl_find i (repayments s) = Some r" "r_loanId saved = r_loanId r"
    and l: "tbl_find (r_loanId r) (loans s) = Some l" "l_status l = L_ACTIVE"
    and u: "findById userId s = Some user" "pay \<le> balance_of user ''XLM''"
  shows "loan_write uuid s (after_repayment uuid now userId (r_loanId r) user pay i saved s)" (is "loan_write uuid s ?t")
proof -
  let ?R = "tbl_save i saved (repayments s)" and ?k = "r_loanId r"
  from inv have i: "inj uuid" "users_ok s" "keys_ok uuid (loans s)" "keys_ok uuid (repayments s)"
    "repayments_ok (loans s) (repayments s)" "\<And>c. amountDelta c (ledger s) = 0" by (auto simp: loan_inv_def)
  have R: "repayments_ok (loans s) ?R" using i(5) r(2) l by (intro repayments_ok_save) auto
  have kR: "keys_ok uuid ?R" using i(4) r(1) by (rule keys_ok_save)
  note sf = settle_find [OF keys_ok_distinct [OF i(1) kR], of ?k "loans s"]
  have "repayments_ok (loans ?t) (repayments ?t)"
    using R repayments_ok_settle [OF R, of ?k] unfolding after_repayment_def by (simp add: sf)
  moreover have "keys_ok uuid (loans ?t)" using i(3) by (simp add: after_repayment_def settle_def keys_ok_update)
  moreover have "users_ok ?t"
  proof -
    have "users_ok (updateByUserId userId (\<lambda>u. u\<lparr>u_balances :=
          set_balance ''XLM'' (js_sub (balance_of user ''XLM'') pay) (u_balances user)\<rparr>) s)"
      using i(2) u by (intro users_ok_update) (auto intro!: balances_ok_set users_okD js_bounds)
    then show ?thesis by (rule users_ok_cong [THEN iffD1, rotated]) (simp add: after_repayment_def updateByUserId_def)
  qed
  moreover have "loan_trans\<^sup>*\<^sup>* (loan_status_of k s) (loan_status_of k ?t)" for k
    using l by (cases "k = ?k") (auto simp: loan_status_of_def after_repayment_def settle_def tbl_simps loan_trans_simps)
  ultimately show ?thesis using i kR
    by (simp add: loan_write_def loan_inv_def after_repayment_def)
qed

lemma sort_key_head:
  assumes "sort_key f xs = x # ys"
  shows "x \<in> set xs \<and> (\<forall>y \<in> set xs. f x \<le> f y)"
proof -
  have "set (x # ys) = set xs" using assms by (metis set_sort)
  moreover have "sorted (map f (x # ys))" using assms by (metis sorted_sort_key)
  ultimately show ?thesis by auto
qed

text \<open>What a payment on an instalment pays, and the instalment it leaves.\<close>

definition remaining_due :: "repayment \<Rightarrow> rat" where
  "remaining_due r = js_sub (parse_float (r_totalDue r)) (parse_float (r_paidAmount r))"

definition paid_after :: "rat \<Rightarrow> repayment \<Rightarrow> rat" where
  "paid_after amount r = js_add (parse_float (r_paidAmount r)) (min amount (remaining_due r))"

definition repaid :: "int \<Rightarrow> rat \<Rightarrow> repayment \<Rightarrow> repayment" where
  "repaid now amount r =
     (let paid = (js_sub (parse_float (r_totalDue r)) (parse_float (5 / 10 ^ 9)) \<le> paid_after amount r)
      in r\<lparr>r_paidAmount := to_fixed 8 (paid_after amount r), r_status := (if paid then PAID else PARTIAL),
        r_paidAt := (if paid then Some now else r_paidAt r)\<rparr>)"

definition open_instalment :: "repayment \<Rightarrow> bool" where
  "open_instalment r \<longleftrightarrow> r_status r \<in> {SCHEDULED, PARTIAL, OVERDUE}"

lemma repayLoan_Inr:
  assumes "repayLoan uuid now userId k amount s = (Inr res, t)" and "distinct (map fst (repayments s))"
  obtains l user i r where "tbl_find k (loans s) = Some l" "l_userId l = userId" "l_status l = L_ACTIVE"
    "findById userId s = Some user" "amount \<le> balance_of user ''XLM''"
    "tbl_find i (repayments s) = Some r" "r_loanId r = k" "open_instalment r"
    "\<And>j r'. tbl_find j (repayments s) = Some r' \<Longrightarrow> r_loanId r' = k \<Longrightarrow> open_instalment r' \<Longrightarrow> r_dueDate r \<le> r_dueDate r'"
    "res = (i, repaid now amount r)"
    "t = after_repayment uuid now userId k user (min amount (remaining_due r)) i (repaid now amount r) s"
proof -
  from assms(1) obtain l user i r xs where *: "tbl_find k (loans s) = Some l" "l_userId l = userId" "l_status l = L_ACTIVE"
    "findById userId s = Some user" "amount \<le> balance_of user ''XLM''"
    and sk: "sort_key (\<lambda>(i, r). r_dueDate r) (filter (\<lambda>(i, r). r_status r \<in> {SCHEDULED, PARTIAL, OVERDUE})
      (repayments_of k s)) = (i, r) # xs"
    and res: "res = (i, repaid now amount r)"
      "t = after_repayment uuid now userId k user (min amount (remaining_due r)) i (repaid now amount r) s"
    by (auto simp: repayLoan_def getLoanById_def find_loan_def loan_transaction_def op_iff record_repayment_eq Let_def
        repaid_def paid_after_def remaining_due_def not_less split: list.splits)
  from sort_key_head [OF sk] assms(2) have r: "tbl_find i (repayments s) = Some r" "r_loanId r = k" "open_instalment r"
    by (auto simp: repayments_of_def tbl_distinct_in open_instalment_def)
  have "r_dueDate r \<le> r_dueDate r'" if "tbl_find j (repayments s) = Some r'" "r_loanId r' = k" "open_instalment r'" for j r'
  proof -
    from that assms(2) have "(j, r') \<in> set (filter (\<lambda>(i, r). r_status r \<in> {SCHEDULED, PARTIAL, OVERDUE}) (repayments_of k s))"
      by (auto simp: repayments_of_def tbl_distinct_in open_instalment_def)
    with sort_key_head [OF sk] show ?thesis by fastforce
  qed
  from that [OF * r this res] show thesis .
qed

lemma repayLoan_Inl: "repayLoan uuid now userId k amount s = (Inl e, t) \<Longrightarrow> t = s"
  by (auto simp: repayLoan_def getLoanById_def find_loan_def loan_transaction_def op_iff record_repayment_eq Let_def
        split: list.splits)

lemma repayLoan_write:
  assumes inv: "loan_inv uuid s" and run: "repayLoan uuid now userId k amount s = (r, t)"
  shows "loan_write uuid s t"
proof (cases r)
  case (Inl e)
  with run inv show ?thesis by (auto dest!: repayLoan_Inl intro: loan_write_refl)
next
  case (Inr res)
  from inv have d: "distinct (map fst (repayments s))" by (auto simp: loan_inv_def intro: keys_ok_distinct)
  from run Inr have "repayLoan uuid now userId k amount s = (Inr res, t)" by simp
  then show ?thesis
  proof (rule repayLoan_Inr [OF _ d])
    fix l user i x
    assume *: "tbl_find k (loans s) = Some l" "l_userId l = userId" "l_status l = L_ACTIVE"
      "findById userId s = Some user" "amount \<le> balance_of user ''XLM''"
      "tbl_find i (repayments s) = Some x" "r_loanId x = k"
      and t: "t = after_repayment uuid now userId k user (min amount (remaining_due x)) i (repaid now amount x) s"
    have "r_loanId (repaid now amount x) = r_loanId x" by (simp add: repaid_def Let_def)
    with * show ?thesis unfolding t
      by (metis after_repayment_write [OF inv] min.coboundedI1)
  qed
qed

definition insert_all :: "(nat \<Rightarrow> string) \<Rightarrow> repayment list \<Rightarrow> repayment table \<Rightarrow> repayment table" where
  "insert_all uuid rs R = fold (\<lambda>r R. tbl_save (uuid (length R)) r R) rs R"

lemma forE_insert_repayment:
  "forE rs (insert_repayment uuid) s = (Inr (), s\<lparr>repayments := insert_all uuid rs (repayments s)\<rparr>)"
  by (induction rs arbitrary: s) (simp_all add: insert_all_def op_defs loan_op_defs)

lemma insert_all_ok:
  assumes "inj uuid" and "\<And>r. r \<in> set rs \<Longrightarrow> r_loanId r = k"
    and "tbl_find k L = Some l" "l_status l = L_ACTIVE"
  shows "keys_ok uuid R \<Longrightarrow> repayments_ok L R \<Longrightarrow>
    keys_ok uuid (insert_all uuid rs R) \<and> repayments_ok L (insert_all uuid rs R)"
  using assms(2)
proof (induction rs arbitrary: R)
  case (Cons r rs)
  have "keys_ok uuid (tbl_save (uuid (length R)) r R)" using assms(1) Cons.prems(1) by (rule keys_ok_insert)
  moreover have "repayments_ok L (tbl_save (uuid (length R)) r R)"
    using Cons.prems assms(3,4) by (intro repayments_ok_save) auto
  ultimately show ?case using Cons.IH Cons.prems(3) by (simp add: insert_all_def)
qed (simp add: insert_all_def)

definition approved :: "int \<Rightarrow> string \<Rightarrow> approve_loan_dto \<Rightarrow> loan \<Rightarrow> loan" where
  "approved now adminId dto l = l\<lparr>l_status := L_ACTIVE,
     l_approvedAmount := Some (num_to_string (ap_approvedAmount dto)),
     l_interestRatePercent := num_to_string (ap_interestRatePercent dto),
     l_reviewedBy := Some adminId, l_disbursedAt := Some now,
     l_dueDate := Some (now + l_termDays l * ms_per_day)\<rparr>"

lemma approve_Inr:
  assumes "adminApproveLoan uuid now adminId k dto s = (Inr res, t)"
  obtains l user where "tbl_find k (loans s) = Some l" "l_status l = L_PENDING"
    "findById (l_userId l) s = Some user" "rate_fits (num_to_string (ap_interestRatePercent dto))"
    "loans t = tbl_save k (loan_row (approved now adminId dto l)) (loans s)"
    "users t = users (updateByUserId (l_userId l) (\<lambda>u. u\<lparr>u_balances := set_balance ''XLM''
       (js_add (balance_of user ''XLM'') (ap_approvedAmount dto)) (u_balances user)\<rparr>) s)"
    "ledger t = ledger s @ disbursement_entries (uuid (length (transactions s))) (to_fixed 8 (ap_approvedAmount dto))"
    "repayments t = insert_all uuid (buildRepaymentSchedule now k (l_termDays l) dto) (repayments s)"
    "res = loan_row (approved now adminId dto l)"
  using assms
  by (auto simp: adminApproveLoan_def loan_op_defs op_iff forE_insert_repayment Let_def approved_def updateByUserId_def
      tbl_simps)

lemma approve_Inl:
  assumes "adminApproveLoan uuid now adminId k dto s = (Inl e, t)"
  shows "t = s"
  using assms
  by (auto simp: adminApproveLoan_def loan_op_defs op_iff forE_insert_repayment Let_def updateByUserId_def tbl_simps
     insert_transaction_def)

lemma schedule_loanId: "r \<in> set (buildRepaymentSchedule now k d dto) \<Longrightarrow> r_loanId r = k \<and> r_status r = SCHEDULED"
  by (auto simp: buildRepaymentSchedule_def Let_def)

lemma loan_row_simps [simp]: "l_status (loan_row l) = l_status l" "l_userId (loan_row l) = l_userId l"
  by (simp_all add: loan_row_def)

lemma approve_write:
  assumes inv: "loan_inv uuid s" and run: "adminApproveLoan uuid now adminId k dto s = (r, t)"
    and a: "is_double (ap_approvedAmount dto)" "0 \<le> ap_approvedAmount dto"
  shows "loan_write uuid s t"
proof (cases r)
  case (Inl e)
  with run inv show ?thesis by (auto dest!: approve_Inl intro: loan_write_refl)
next
  case (Inr res)
  with run obtain l user where l: "tbl_find k (loans s) = Some l" "l_status l = L_PENDING"
    and u: "findById (l_userId l) s = Some user"
    and t: "loans t = tbl_save k (loan_row (approved now adminId dto l)) (loans s)"
    "users t = users (updateByUserId (l_userId l) (\<lambda>u. u\<lparr>u_balances := set_balance ''XLM''
       (js_add (balance_of user ''XLM'') (ap_approvedAmount dto)) (u_balances user)\<rparr>) s)"
    "ledger t = ledger s @ disbursement_entries (uuid (length (transactions s))) (to_fixed 8 (ap_approvedAmount dto))"
    "repayments t = insert_all uuid (buildRepaymentSchedule now k (l_termDays l) dto) (repayments s)"
    by (auto elim!: approve_Inr)
  from inv have i: "inj uuid" "users_ok s" "keys_ok uuid (loans s)" "keys_ok uuid (repayments s)"
    "repayments_ok (loans s) (repayments s)" "\<And>c. amountDelta c (ledger s) = 0" by (auto simp: loan_inv_def)
  have R: "repayments_ok (loans t) (repayments s)"
    unfolding t(1) using i(5) l by (intro repayments_ok_loan) (auto simp: approved_def)
  have "keys_ok uuid (repayments t) \<and> repayments_ok (loans t) (repayments t)"
    unfolding t(4) by (rule insert_all_ok [OF i(1) _ _ _ i(4) R, of _ k "loan_row (approved now adminId dto l)"])
      (auto dest: schedule_loanId simp: t(1) tbl_simps approved_def)
  moreover have "users_ok t" unfolding users_ok_cong [OF t(2)]
    using i(2) u a balances_ok_read [of user "''XLM''"]
    by (intro users_ok_update) (auto intro!: balances_ok_set users_okD js_bounds dest: users_okD)
  moreover have "loan_trans\<^sup>*\<^sup>* (loan_status_of j s) (loan_status_of j t)" for j
    using l by (cases "j = k") (auto simp: loan_status_of_def t(1) tbl_simps loan_trans_simps approved_def)
  ultimately show ?thesis using i l(1) by (simp add: loan_write_def loan_inv_def t(1,3) keys_ok_save)
qed

text \<open>Writes that only touch the loan table.\<close>

lemma save_loan_write:
  assumes inv: "loan_inv uuid s" and t: "t = s\<lparr>loans := tbl_save k (loan_row l) (loans s)\<rparr>"
    and k: "tbl_find k (loans s) \<noteq> None \<or> k = uuid (length (loans s))"
    and st: "loan_status_of k s = Some (l_status l) \<and> l_status l \<in> {L_ACTIVE, L_DEFAULTED} \<or>
      loan_trans (loan_status_of k s) (Some (l_status l)) \<and> l_status l \<notin> {L_ACTIVE, L_REPAID}"
  shows "loan_write uuid s t"
proof -
  from inv have i: "inj uuid" "users_ok s" "keys_ok uuid (loans s)" "keys_ok uuid (repayments s)"
    "repayments_ok (loans s) (repayments s)" "\<And>c. amountDelta c (ledger s) = 0" by (auto simp: loan_inv_def)
  have "repayments_ok (loans t) (repayments t)"
    unfolding t using i(5) st by (auto intro!: repayments_ok_loan simp: loan_status_of_def loan_trans_simps)
  moreover have "keys_ok uuid (loans t)"
    using k i(1,3) by (auto simp: t intro: keys_ok_insert keys_ok_save)
  moreover have "users_ok t" using i(2) users_ok_cong [of s t] by (simp add: t)
  moreover have "loan_trans\<^sup>*\<^sup>* (loan_status_of j s) (loan_status_of j t)" for j
    using st by (cases "j = k") (auto simp: loan_status_of_def t tbl_simps)
  ultimately show ?thesis using i by (simp add: loan_write_def loan_inv_def t)
qed

definition credit_score :: "int \<Rightarrow> string \<Rightarrow> user \<Rightarrow> loan_state \<Rightarrow> int" where
  "credit_score now u user s = max 0 (min 100 (credit_points now u user s))"

lemma score_iff:
  "score now u s = (Inr c, t) \<longleftrightarrow> (\<exists>user. findById u s = Some user \<and> c = credit_score now u user s \<and> t = s)"
  by (auto simp: score_def op_iff credit_score_def)

lemma score_Inl: "score now u s = (Inl e, t) \<Longrightarrow> t = s"
  by (auto simp: score_def op_iff)

definition application :: "string \<Rightarrow> apply_loan_dto \<Rightarrow> int \<Rightarrow> loan" where
  "application u dto c = \<lparr>l_userId = u, l_requestedAmount = num_to_string (al_requestedAmount dto),
     l_currency = ''XLM'', l_termDays = al_termDays dto, l_interestRatePercent = 0,
     l_status = (if c < 40 then L_REJECTED else L_PENDING), l_creditScore = c,
     l_rejectionReason = (if c < 40 then Some ''Credit score is below minimum required score of 40'' else None),
     l_reviewedBy = None, l_approvedAmount = None, l_disbursedAt = None, l_dueDate = None\<rparr>"

lemma apply_Inr:
  assumes "applyForLoan uuid now u dto s = (Inr (i, l), t)"
  obtains user c where "findById u s = Some user" "u_kycTier user = KYC_ENHANCED"
    "c = credit_score now u user s" "i = uuid (length (loans s))" "l = application u dto c"
    "t = s\<lparr>loans := tbl_save i (loan_row l) (loans s)\<rparr>"
  using assms by (auto simp: applyForLoan_def loan_op_defs op_iff Let_def score_iff application_def)

lemma apply_Inl: "applyForLoan uuid now u dto s = (Inl e, t) \<Longrightarrow> t = s"
  by (auto simp: applyForLoan_def loan_op_defs op_iff Let_def score_iff dest: score_Inl)

lemma apply_write:
  assumes inv: "loan_inv uuid s" and run: "applyForLoan uuid now u dto s = (r, t)"
  shows "loan_write uuid s t"
proof (cases r)
  case (Inl e)
  with run inv show ?thesis by (auto dest!: apply_Inl intro: loan_write_refl)
next
  case (Inr res)
  then obtain i l where r: "r = Inr (i, l)" by (cases res) auto
  from run r have *: "i = uuid (length (loans s))" "l_status l \<in> {L_PENDING, L_REJECTED}"
    "t = s\<lparr>loans := tbl_save i (loan_row l) (loans s)\<rparr>"
    by (auto elim!: apply_Inr simp: application_def)
  have "loan_status_of i s = None"
    using inv * keys_ok_fresh [of uuid "loans s"] by (simp add: loan_inv_def loan_status_of_def)
  with * show ?thesis by (intro save_loan_write [OF inv *(3)]) (auto simp: loan_trans_simps)
qed

lemma reject_write:
  assumes inv: "loan_inv uuid s" and run: "adminRejectLoan a k reason s = (r, t)"
  shows "loan_write uuid s t"
proof -
  from run consider "t = s" | l where "tbl_find k (loans s) = Some l" "l_status l = L_PENDING"
    "t = s\<lparr>loans := tbl_save k (loan_row (l\<lparr>l_status := L_REJECTED, l_reviewedBy := Some a,
      l_rejectionReason := Some (case reason of None \<Rightarrow> ''Application rejected by admin'' | Some r \<Rightarrow> r)\<rparr>)) (loans s)\<rparr>"
    by (cases r) (auto simp: adminRejectLoan_def loan_op_defs op_iff Let_def)
  then show ?thesis
  proof cases
    case 1
    with inv show ?thesis by (simp add: loan_write_refl)
  next
    case (2 l)
    then have "loan_status_of k s = Some L_PENDING" by (simp add: loan_status_of_def)
    with 2(1) show ?thesis by (intro save_loan_write [OF inv 2(3)]) (simp_all add: loan_trans_simps)
  qed
qed

lemma save_repayment_write:
  assumes inv: "loan_inv uuid s" and r: "tbl_find i (repayments s) = Some r" "r_status r \<notin> {PAID, WAIVED}"
    and k: "r_loanId x = r_loanId r"
  shows "loan_write uuid s (s\<lparr>repayments := tbl_save i x (repayments s)\<rparr>)"
proof -
  from inv have i: "users_ok s" "keys_ok uuid (repayments s)" "repayments_ok (loans s) (repayments s)"
    by (auto simp: loan_inv_def)
  from repayments_okD [OF i(3) r] obtain l where "tbl_find (r_loanId r) (loans s) = Some l"
    "l_status l \<in> {L_ACTIVE, L_DEFAULTED}" by blast
  with i(3) k have "repayments_ok (loans s) (tbl_save i x (repayments s))" by (intro repayments_ok_save) auto
  moreover have "users_ok (s\<lparr>repayments := tbl_save i x (repayments s)\<rparr>)"
    using i(1) users_ok_cong [of s "s\<lparr>repayments := tbl_save i x (repayments s)\<rparr>"] by simp
  moreover have "keys_ok uuid (tbl_save i x (repayments s))" using i(2) r(1) by (rule keys_ok_save)
  ultimately show ?thesis using inv by (simp add: loan_write_def loan_inv_def loan_status_of_def)
qed

lemma defaultLoan_write:
  assumes inv: "loan_inv uuid s" and l: "tbl_find k (loans s) = Some l'" "l_status l' \<in> {L_ACTIVE, L_DEFAULTED}"
    and run: "defaultLoan now k l s = (r, t)"
  shows "loan_write uuid s t \<and> repayments t = repayments s"
proof -
  from run consider "t = s" | f where "t = s\<lparr>loans := tbl_save k (loan_row (l\<lparr>l_status := L_DEFAULTED\<rparr>)) (loans s),
      flags := f\<rparr>"
    by (cases r) (auto simp: defaultLoan_def loan_op_defs op_iff split: if_splits)
  then show ?thesis
  proof cases
    case (2 f)
    let ?u = "s\<lparr>loans := tbl_save k (loan_row (l\<lparr>l_status := L_DEFAULTED\<rparr>)) (loans s)\<rparr>"
    have "loan_write uuid s ?u" using l by (intro save_loan_write [OF inv]) (auto simp: loan_status_of_def loan_trans_simps)
    moreover have "loan_inv uuid t = loan_inv uuid ?u" "\<And>j. loan_status_of j t = loan_status_of j ?u"
      using users_ok_cong [of t ?u] by (simp_all add: 2 loan_inv_def loan_status_of_def)
    ultimately show ?thesis by (simp add: loan_write_def 2)
  qed (use inv in \<open>simp add: loan_write_refl\<close>)
qed

lemma with_loan_in: "(i, r, l) \<in> set (with_loan s rs) \<longleftrightarrow> (i, r) \<in> set rs \<and> tbl_find (r_loanId r) (loans s) = Some l"
  by (force simp: with_loan_def split: option.splits)

lemma with_loan_distinct: "distinct (map fst rs) \<Longrightarrow> distinct (map fst (with_loan s rs))"
proof (induction rs)
  case (Cons x rs)
  obtain j r where x: "x = (j, r)" by fastforce
  have "fst ` set (with_loan s rs) \<subseteq> fst ` set rs" by (auto simp: with_loan_in image_iff) force
  with Cons.prems x have "j \<notin> fst ` set (with_loan s rs)" by auto
  moreover have "with_loan s (x # rs) = (case tbl_find (r_loanId r) (loans s) of None \<Rightarrow> [] | Some l \<Rightarrow> [(j, r, l)])
      @ with_loan s rs" by (simp add: x with_loan_def)
  ultimately show ?case using Cons by (simp split: option.splits)
qed (simp add: with_loan_def)

lemma tryE_skip: "tryE m (\<lambda>_. ret ()) s = (Inr (), snd (m s))" for m :: "('s, unit) op"
  by (auto simp: tryE_def ret_def split: prod.splits sum.splits)

text \<open>A job keeps the invariant when its body does, for an instalment that is still as it was read.\<close>

lemma loan_job:
  assumes inv: "loan_inv uuid s" and run: "forE xs (\<lambda>x. tryE (f x) (\<lambda>_. ret ())) s = (r, t)"
    and xs: "distinct (map fst xs)" "\<And>x. x \<in> set xs \<Longrightarrow> P x s \<and> tbl_find (fst x) (repayments s) = Some (fst (snd x))"
    and body: "\<And>x u. x \<in> set xs \<Longrightarrow> loan_inv uuid u \<Longrightarrow> P x u \<Longrightarrow>
      tbl_find (fst x) (repayments u) = Some (fst (snd x)) \<Longrightarrow>
      loan_write uuid u (snd (f x u)) \<and>
      (\<forall>j. j \<noteq> fst x \<longrightarrow> tbl_find j (repayments (snd (f x u))) = tbl_find j (repayments u)) \<and>
      (\<forall>y \<in> set xs. fst y \<noteq> fst x \<longrightarrow> P y u \<longrightarrow> tbl_find (fst y) (repayments u) = Some (fst (snd y)) \<longrightarrow> P y (snd (f x u)))"
  shows "loan_write uuid s t"
proof -
  let ?I = "\<lambda>ys u. set ys \<subseteq> set xs \<and> distinct (map fst ys) \<and> loan_write uuid s u \<and>
    (\<forall>y \<in> set ys. P y u \<and> tbl_find (fst y) (repayments u) = Some (fst (snd y)))"
  have "\<exists>ys. ?I ys t"
  proof (rule forE_invariant [OF run])
    show "?I xs s" using inv xs by (auto simp: loan_write_refl)
  next
    fix x ys u r w
    assume I: "?I (x # ys) u" and a: "tryE (f x) (\<lambda>_. ret ()) u = (r, w)"
    then have w: "w = snd (f x u)" by (simp add: tryE_skip)
    from I have u: "x \<in> set xs" "loan_inv uuid u" "P x u" "tbl_find (fst x) (repayments u) = Some (fst (snd x))"
      by (auto simp: loan_write_def)
    note b = body [OF u, folded w]
    have "P y w \<and> tbl_find (fst y) (repayments w) = Some (fst (snd y))" if "y \<in> set ys" for y
    proof -
      from I that have "fst y \<noteq> fst x" by (auto simp: image_iff)
      moreover from I that have "y \<in> set xs" "P y u" "tbl_find (fst y) (repayments u) = Some (fst (snd y))" by auto
      ultimately show ?thesis using b by simp
    qed
    with I b show "?I ys w" by (auto intro: loan_write_trans)
  qed
  then show ?thesis by blast
qed

lemma scheduled_write:
  assumes inv: "loan_inv uuid s" and run: "processScheduledRepayments uuid now s = (r, t)"
  shows "loan_write uuid s t"
proof -
  let ?P = "\<lambda>(i, r, l) u. r_status r = SCHEDULED \<and> (l_status l = L_ACTIVE \<longrightarrow> loan_status_of (r_loanId r) u = Some L_ACTIVE)"
  have d: "distinct (map fst (repayments s))" using inv by (auto simp: loan_inv_def intro: keys_ok_distinct)
  show ?thesis
  proof (rule loan_job [OF inv, where P = ?P and f = "autoDebitRepayment uuid now"])
    show "forE (due_repayments now s) (\<lambda>x. tryE (autoDebitRepayment uuid now x) (\<lambda>_. ret ())) s = (r, t)"
      using run by (simp add: processScheduledRepayments_def bindE_def gets_def)
    show "distinct (map fst (due_repayments now s))"
      unfolding due_repayments_def by (intro with_loan_distinct distinct_fst_filter d)
    show "?P x s \<and> tbl_find (fst x) (repayments s) = Some (fst (snd x))" if "x \<in> set (due_repayments now s)" for x
      using that by (cases x rule: prod_cases3) (auto simp: due_repayments_def with_loan_in tbl_distinct_in [OF d] loan_status_of_def)
  next
    fix x u
    assume "x \<in> set (due_repayments now s)" and u: "loan_inv uuid u" and P: "?P x u"
      and f: "tbl_find (fst x) (repayments u) = Some (fst (snd x))"
    obtain i p l where x: "x = (i, p, l)" by (cases x) auto
    let ?w = "snd (autoDebitRepayment uuid now x u)" and ?due = "js_sub (parse_float (r_totalDue p)) (parse_float (r_paidAmount p))"
      and ?paid = "p\<lparr>r_paidAmount := r_totalDue p, r_status := PAID, r_paidAt := Some now\<rparr>"
    consider "?w = u" | "?w = u\<lparr>repayments := tbl_save i (p\<lparr>r_status := OVERDUE\<rparr>) (repayments u)\<rparr>"
      | user where "l_status l = L_ACTIVE" "findById (l_userId l) u = Some user" "?due \<le> balance_of user ''XLM''"
        "?w = after_repayment uuid now (l_userId l) (r_loanId p) user ?due i ?paid u"
    proof (cases "l_status l = L_ACTIVE")
      case False
      then show thesis by (intro that(1)) (simp add: x autoDebit_cases)
    next
      case True
      show thesis
      proof (cases "findById (l_userId l) u")
        case None
        then show thesis by (intro that(1)) (simp add: x autoDebit_cases)
      next
        case (Some user)
        show thesis
          by (cases "balance_of user ''XLM'' < ?due")
            (rule that(2) that(3) [OF True Some], simp_all add: x autoDebit_cases True Some Let_def)+
      qed
    qed
    then show "loan_write uuid u ?w \<and> (\<forall>j. j \<noteq> fst x \<longrightarrow> tbl_find j (repayments ?w) = tbl_find j (repayments u)) \<and>
      (\<forall>y \<in> set (due_repayments now s). fst y \<noteq> fst x \<longrightarrow> ?P y u \<longrightarrow> tbl_find (fst y) (repayments u) = Some (fst (snd y)) \<longrightarrow> ?P y ?w)"
    proof cases
      case 1
      with u show ?thesis by (simp add: loan_write_refl)
    next
      case 2
      have "loan_write uuid u ?w" unfolding 2
        by (rule save_repayment_write [OF u]) (use f P x in auto)
      then show ?thesis by (auto simp: 2 [unfolded x] x tbl_simps loan_status_of_def)
    next
      case (3 user)
      from 3(1) P x obtain l' where l': "tbl_find (r_loanId p) (loans u) = Some l'" "l_status l' = L_ACTIVE"
        by (auto simp: loan_status_of_def)
      have "loan_write uuid u ?w" unfolding 3(4)
        by (rule after_repayment_write [OF u _ _ l' 3(2,3)]) (use f x in auto)
      moreover have "?P y ?w" if y: "fst y \<noteq> i" "?P y u" "tbl_find (fst y) (repayments u) = Some (fst (snd y))" for y
      proof -
        obtain j q m where yy: "y = (j, q, m)" by (cases y) auto
        have "distinct (map fst (tbl_save i ?paid (repayments u)))"
          using u by (intro tbl_save_distinct keys_ok_distinct [of uuid]) (simp_all add: loan_inv_def)
        from settle_find [OF this, of "r_loanId p" "loans u"] y
        have "r_loanId q = r_loanId p \<longrightarrow> loans ?w = loans u"
          by (auto simp: yy 3(4) after_repayment_def tbl_simps)
        moreover have "r_loanId q \<noteq> r_loanId p \<Longrightarrow> loan_status_of (r_loanId q) ?w = loan_status_of (r_loanId q) u"
          by (simp add: 3(4) after_repayment_def settle_def loan_status_of_def tbl_simps)
        ultimately show ?thesis using y by (cases "r_loanId q = r_loanId p") (auto simp: yy loan_status_of_def)
      qed
      ultimately show ?thesis by (auto simp: 3(4) [unfolded x] x after_repayment_def tbl_simps)
    qed
  qed
qed

definition penalised :: "repayment \<Rightarrow> repayment" where
  "penalised r =
     (let dailyPenalty = js_mul (js_sub (parse_float (r_totalDue r)) (parse_float (r_paidAmount r))) (parse_float (5 / 1000))
      in r\<lparr>r_penaltyAmount := to_fixed 8 (js_add (parse_float (r_penaltyAmount r)) dailyPenalty),
        r_totalDue := to_fixed 8 (js_add (parse_float (r_totalDue r)) dailyPenalty)\<rparr>)"

lemma penalise_eq:
  "penalise now (i, r, l) s =
     (if 7 \<le> getOverdueSinceDays now r then defaultLoan now (r_loanId r) l else ret ())
       (s\<lparr>repayments := tbl_save i (penalised r) (repayments s)\<rparr>)"
  by (simp add: penalise_def save_repayment_def op_defs Let_def penalised_def)

lemma penalised_loanId [simp]: "r_loanId (penalised r) = r_loanId r" "r_status (penalised r) = r_status r"
  by (simp_all add: penalised_def Let_def)

lemma penalties_write:
  assumes inv: "loan_inv uuid s" and run: "applyOverduePenalties now s = (r, t)"
  shows "loan_write uuid s t"
proof -
  let ?xs = "with_loan s (filter (\<lambda>(i, r). r_status r = OVERDUE) (repayments s))"
  let ?P = "\<lambda>(i, r, l) (u :: loan_state). r_status r = OVERDUE"
  have d: "distinct (map fst (repayments s))" using inv by (auto simp: loan_inv_def intro: keys_ok_distinct)
  show ?thesis
  proof (rule loan_job [OF inv, where P = ?P and f = "penalise now" and xs = ?xs])
    show "forE ?xs (\<lambda>x. tryE (penalise now x) (\<lambda>_. ret ())) s = (r, t)"
      using run by (simp add: applyOverduePenalties_def bindE_def gets_def)
    show "distinct (map fst ?xs)" by (intro with_loan_distinct distinct_fst_filter d)
    show "?P x s \<and> tbl_find (fst x) (repayments s) = Some (fst (snd x))" if "x \<in> set ?xs" for x
      using that by (cases x rule: prod_cases3) (auto simp: with_loan_in tbl_distinct_in [OF d])
  next
    fix x u
    assume "x \<in> set ?xs" and u: "loan_inv uuid u" and P: "?P x u"
      and f: "tbl_find (fst x) (repayments u) = Some (fst (snd x))"
    obtain i p l where x: "x = (i, p, l)" by (cases x) auto
    let ?w = "snd (penalise now x u)"
    let ?v = "u\<lparr>repayments := tbl_save i (penalised p) (repayments u)\<rparr>"
    have w: "?w = ?v \<or> ?w = snd (defaultLoan now (r_loanId p) l ?v)" by (simp add: x penalise_eq ret_def)
    have v: "loan_write uuid u ?v" by (rule save_repayment_write [OF u]) (use f P x in auto)
    obtain l' where l': "tbl_find (r_loanId p) (loans ?v) = Some l'" "l_status l' \<in> {L_ACTIVE, L_DEFAULTED}"
      using repayments_okD [of "loans u" "repayments u" i p] u f P x by (auto simp: loan_inv_def)
    have "loan_inv uuid ?v" using v by (simp add: loan_write_def)
    from defaultLoan_write [OF this l'] have "loan_write uuid ?v ?w \<and> repayments ?w = repayments ?v"
      using w \<open>loan_inv uuid ?v\<close> by (metis loan_write_refl prod.collapse)
    with v show "loan_write uuid u ?w \<and> (\<forall>j. j \<noteq> fst x \<longrightarrow> tbl_find j (repayments ?w) = tbl_find j (repayments u)) \<and>
      (\<forall>y \<in> set ?xs. fst y \<noteq> fst x \<longrightarrow> ?P y u \<longrightarrow> tbl_find (fst y) (repayments u) = Some (fst (snd y)) \<longrightarrow> ?P y ?w)"
      by (auto simp: x tbl_simps intro: loan_write_trans)
  qed
qed

section \<open>Runs of the service\<close>

datatype loan_event =
    ApplyForLoan int string apply_loan_dto
  | RepayLoan int string string rat
  | ApproveLoan int string string approve_loan_dto
  | RejectLoan string string "string option"
  | ScheduledRepayments int
  | OverduePenalties int

fun loan_step :: "(nat \<Rightarrow> string) \<Rightarrow> loan_event \<Rightarrow> loan_state \<Rightarrow> loan_state" where
  "loan_step uuid (ApplyForLoan now u dto) s = snd (applyForLoan uuid now u dto s)"
| "loan_step uuid (RepayLoan now u k a) s = snd (repayLoan uuid now u k a s)"
| "loan_step uuid (ApproveLoan now a k dto) s = snd (adminApproveLoan uuid now a k dto s)"
| "loan_step uuid (RejectLoan a k reason) s = snd (adminRejectLoan a k reason s)"
| "loan_step uuid (ScheduledRepayments now) s = snd (processScheduledRepayments uuid now s)"
| "loan_step uuid (OverduePenalties now) s = snd (applyOverduePenalties now s)"

text \<open>What the validation of an approval enforces: a positive amount.\<close>

fun loan_request_ok :: "loan_event \<Rightarrow> bool" where
  "loan_request_ok (ApproveLoan now a k dto) \<longleftrightarrow> is_double (ap_approvedAmount dto) \<and> 0 < ap_approvedAmount dto"
| "loan_request_ok e \<longleftrightarrow> True"

lemma loan_step_write:
  assumes inv: "loan_inv uuid s" and ok: "loan_request_ok e"
  shows "loan_write uuid s (loan_step uuid e s)"
proof (cases e)
  case (ApplyForLoan now u dto)
  with apply_write [OF inv] show ?thesis by (metis loan_step.simps(1) prod.collapse)
next
  case (RepayLoan now u k a)
  with repayLoan_write [OF inv] show ?thesis by (metis loan_step.simps(2) prod.collapse)
next
  case (ApproveLoan now a k dto)
  with approve_write [OF inv, of now a k dto] ok show ?thesis
    by (metis loan_step.simps(3) loan_request_ok.simps(1) less_imp_le prod.collapse)
next
  case (RejectLoan a k reason)
  with reject_write [OF inv] show ?thesis by (metis loan_step.simps(4) prod.collapse)
next
  case (ScheduledRepayments now)
  with scheduled_write [OF inv] show ?thesis by (metis loan_step.simps(5) prod.collapse)
next
  case (OverduePenalties now)
  with penalties_write [OF inv] show ?thesis by (metis loan_step.simps(6) prod.collapse)
qed

interpretation loan_run: status_machine "loan_step uuid" loan_request_ok "loan_inv uuid"
  "\<lambda>_ _. True" loan_status_of loan_trans for uuid
  using loan_step_write by unfold_locales (auto simp: loan_write_def)

section \<open>Properties\<close>

definition demo_ids :: "nat \<Rightarrow> string" where
  "demo_ids n = replicate n CHR ''i''"

definition demo_loan :: "loan_status \<Rightarrow> loan" where
  "demo_loan st = \<lparr>l_userId = ''bob'', l_requestedAmount = 90, l_currency = ''XLM'', l_termDays = 90,
     l_interestRatePercent = 0, l_status = st, l_creditScore = 60, l_rejectionReason = None,
     l_reviewedBy = None, l_approvedAmount = None, l_disbursedAt = None, l_dueDate = None\<rparr>"

definition demo_instalment :: "rat \<Rightarrow> repayment_status \<Rightarrow> repayment" where
  "demo_instalment paid st = \<lparr>r_loanId = [], r_dueDate = 3, r_principalAmount = 30, r_interestAmount = 0,
     r_penaltyAmount = 0, r_totalDue = 30, r_paidAmount = paid, r_status = st, r_paidAt = None\<rparr>"

definition demo_loans :: "loan_status \<Rightarrow> repayment list \<Rightarrow> loan_state" where
  "demo_loans st rs = \<lparr>users = [(''bob'', demo_user 50)], wallets = [], notifications = [], calls = 0, payments = [], ledger = [],
     transactions = [], loans = [([], demo_loan st)], repayments = zip (map demo_ids [0..<length rs]) rs, flags = []\<rparr>"

lemma demo_ids_inj: "inj demo_ids"
  by (rule injI) (metis demo_ids_def length_replicate)

lemma demo_loans_simps [simp]:
  "tbl_find [] (loans (demo_loans st rs)) = Some (demo_loan st)" "l_status (demo_loan st) = st"
  "l_userId (demo_loan st) = ''bob''" "findById ''bob'' (demo_loans st rs) = Some (demo_user 50)"
  "balance_of (demo_user b) ''XLM'' = b"
  by (simp_all add: demo_loans_def demo_loan_def tbl_find_def findById_def balance_of_def demo_user_def)

lemma demo_loans_inv:
  assumes "st \<in> {L_ACTIVE, L_DEFAULTED} \<or> rs = []" and "\<And>r. r \<in> set rs \<Longrightarrow> r_loanId r = []"
  shows "loan_inv demo_ids (demo_loans st rs)"
proof -
  have "users_ok (demo_loans st rs)" using demo_user_ok [of 50]
    by (auto simp: users_ok_def demo_loans_def findById_def tbl_find_def)
  moreover have "keys_ok demo_ids (loans (demo_loans st rs))" "keys_ok demo_ids (repayments (demo_loans st rs))"
    by (simp_all add: keys_ok_def demo_loans_def demo_ids_def)
  moreover have "repayments_ok (loans (demo_loans st rs)) (repayments (demo_loans st rs))"
    unfolding repayments_ok_def
  proof (intro allI impI)
    fix i r assume "tbl_find i (repayments (demo_loans st rs)) = Some r"
    then have "r \<in> set rs" by (auto simp: demo_loans_def dest!: tbl_find_in set_zip_rightD)
    with assms show "\<exists>l. tbl_find (r_loanId r) (loans (demo_loans st rs)) = Some l \<and>
      l_status l \<in> {L_ACTIVE, L_REPAID, L_DEFAULTED} \<and> (l_status l = L_REPAID \<longrightarrow> r_status r \<in> {PAID, WAIVED})"
      by auto
  qed
  ultimately show ?thesis using demo_ids_inj by (simp add: loan_inv_def demo_loans_def)
qed

text \<open>A loan that was rejected, repaid or defaulted keeps that status through every later run of requests and
  jobs: it is never approved, paid on or defaulted again.\<close>

theorem loan_decided_final:
  assumes "loan_inv uuid s" and "loan_status_of k s = Some a" and "a \<in> {L_REJECTED, L_REPAID, L_DEFAULTED}"
    and "\<And>e. e \<in> set es \<Longrightarrow> loan_request_ok e"
  shows "loan_status_of k (fold (loan_step uuid) es s) = Some a"
proof -
  have "loan_status_of k (fold (loan_step uuid) es s) \<in> {Some a}"
    using assms by (intro loan_run.run_closed) (auto simp: loan_trans_simps)
  then show ?thesis by simp
qed

theorem loan_decided_final_witness:
  "loan_status_of [] (fold (loan_step demo_ids) [RepayLoan 5 ''bob'' [] 10, ScheduledRepayments 5] (demo_loans L_DEFAULTED [demo_instalment 0 OVERDUE]))
     = Some L_DEFAULTED"
proof -
  have "loan_inv demo_ids (demo_loans L_DEFAULTED [demo_instalment 0 OVERDUE])"
    by (rule demo_loans_inv) (simp_all add: demo_instalment_def)
  moreover have "loan_request_ok e" if "e \<in> set [RepayLoan 5 ''bob'' [] 10, ScheduledRepayments 5]" for e
    using that by auto
  ultimately show ?thesis
    by (intro loan_decided_final) (simp_all add: loan_status_of_def)
qed

text \<open>C24. Disbursements and repayments, manual or automatic, keep the books: along every run of valid requests and
  jobs the ledger has no discrepancy and no user balance becomes negative.\<close>

theorem loan_books_balanced:
  assumes "loan_inv uuid s" and "\<And>e. e \<in> set es \<Longrightarrow> loan_request_ok e"
  shows "discrepancies (ledger (fold (loan_step uuid) es s)) = [] \<and> 0 \<le> user_balance u c (fold (loan_step uuid) es s)"
proof -
  have "loan_inv uuid (fold (loan_step uuid) es s)" using assms by (rule loan_run.inv_run)
  then have "users_ok (fold (loan_step uuid) es s)" "\<forall>c. amountDelta c (ledger (fold (loan_step uuid) es s)) = 0"
    by (auto simp: loan_inv_def)
  then show ?thesis using users_okD balances_ok_read
    by (fastforce simp: discrepancies_Nil_iff user_balance_def split: option.splits)
qed

theorem loan_books_balanced_witness:
  "discrepancies (ledger (fold (loan_step demo_ids) [ApproveLoan 0 ''root'' [] \<lparr>ap_approvedAmount = 90, ap_interestRatePercent = 5\<rparr>,
      RepayLoan 5 ''bob'' [] 10] (demo_loans L_PENDING []))) = []"
proof -
  have "loan_inv demo_ids (demo_loans L_PENDING [])" by (rule demo_loans_inv) simp_all
  moreover have "loan_request_ok e" if "e \<in> set [ApproveLoan 0 ''root'' [] \<lparr>ap_approvedAmount = 90, ap_interestRatePercent = 5\<rparr>,
      RepayLoan 5 ''bob'' [] 10]" for e
    using that by auto
  ultimately show ?thesis using loan_books_balanced by blast
qed

text \<open>A payment never leaves an instalment overpaid. The doubles are exact enough for instalments below
  \<open>2 ^ 50\<close> units of the last place, about eleven million.\<close>

lemma repaid_no_overpay:
  assumes T: "is_dec 8 (r_totalDue r)" "r_totalDue r * 10 ^ 8 < 2 ^ 50"
    and P: "0 \<le> r_paidAmount r" "r_paidAmount r \<le> r_totalDue r" and a: "0 \<le> a"
  shows "r_paidAmount (repaid now a r) \<le> r_totalDue r"
proof -
  let ?T = "r_totalDue r"
  define e :: rat where "e = 2 powi - 53"
  define Tp Pp m where "Tp = parse_float ?T" and "Pp = parse_float (r_paidAmount r)" and "m = remaining_due r"
  have e: "0 \<le> e" "e \<le> 1 / 100" by (simp_all add: e_def power_int_minus)
  note rnd_error = rnd_error [folded e_def]
  have T0: "0 \<le> ?T" using P by simp
  have p: "0 \<le> Pp" "Pp \<le> Tp" "0 \<le> m" using P
    by (simp_all add: Tp_def Pp_def m_def remaining_due_def js_sub_nonneg parse_float_nonneg parse_float_mono)
  have e1: "\<bar>Tp - ?T\<bar> \<le> ?T * e" using rnd_error [of ?T] T0 by (simp add: Tp_def parse_float_def)
  have e2: "\<bar>m - (Tp - Pp)\<bar> \<le> (Tp - Pp) * e"
    using rnd_error [of "Tp - Pp"] p by (simp add: m_def remaining_due_def js_sub_def Tp_def Pp_def)
  have e3: "\<bar>rnd (Pp + m) - (Pp + m)\<bar> \<le> (Pp + m) * e" using rnd_error [of "Pp + m"] p by simp
  have b1: "(Tp - Pp) * e \<le> Tp * e" using p e(1) by (simp add: mult_right_mono)
  have b2: "Tp \<le> ?T * (1 + e)" using e1 by (simp add: distrib_left abs_le_iff)
  have Te: "?T * e \<le> ?T * (1 / 100)" "Tp * e \<le> Tp * (1 / 100)"
    using mult_left_mono [OF e(2) T0] mult_left_mono [OF e(2), of Tp] p by simp_all
  have b3: "Tp * e \<le> ?T * e * (11 / 10)"
  proof -
    have "Tp \<le> ?T * (11 / 10)" using b2 Te T0 by (simp add: distrib_left)
    then have "Tp * e \<le> ?T * (11 / 10) * e" by (rule mult_right_mono) (rule e(1))
    then show ?thesis by (simp only: mult.commute mult.left_commute)
  qed
  have b4: "(Pp + m) * e \<le> ?T * e * (12 / 10)"
  proof -
    have "Pp + m \<le> Tp + Tp * e" using e2 b1 by (simp add: abs_le_iff)
    also have "\<dots> \<le> ?T * (12 / 10)" using b2 b3 Te T0 by (simp add: distrib_left)
    finally have "(Pp + m) * e \<le> ?T * (12 / 10) * e" by (rule mult_right_mono) (rule e(1))
    then show ?thesis by (simp only: mult.commute mult.left_commute)
  qed
  have "\<bar>rnd (Pp + m) - ?T\<bar> \<le> ?T * e * 4"
    using e1 e2 e3 b1 b3 b4 T0 by (simp add: abs_le_iff)
  moreover have "?T * e * 4 < 1 / 2 / 10 ^ 8" using T(2) by (simp add: e_def power_int_minus field_simps)
  ultimately have "\<bar>rnd (Pp + m) - ?T\<bar> < 1 / 2 / 10 ^ 8" by linarith
  with T(1) have exact: "to_fixed 8 (rnd (Pp + m)) = ?T" by (simp add: to_fixed_def dec_round_unique)
  have "0 \<le> paid_after a r" "paid_after a r \<le> rnd (Pp + m)"
    using p a by (auto simp: paid_after_def js_add_def Pp_def m_def intro!: rnd_mono rnd_nonneg)
  then have "to_fixed 8 (paid_after a r) \<le> ?T" using to_fixed_mono exact by metis
  then show ?thesis by (simp add: repaid_def Let_def)
qed

text \<open>C25. What a repayment does: it pays on the earliest open instalment of the loan, at most what remains due on
  it, debits the user by exactly what it pays, marks the instalment paid or partly paid, and never
  overpays it.\<close>

theorem loan_repay:
  assumes inv: "loan_inv uuid s" and run: "repayLoan uuid now u k amount s = (Inr (i, r'), t)" and a: "0 \<le> amount"
  shows "\<exists>r. tbl_find i (repayments s) = Some r \<and> r_loanId r = k \<and> open_instalment r \<and>
    (\<forall>j q. tbl_find j (repayments s) = Some q \<and> r_loanId q = k \<and> open_instalment q \<longrightarrow> r_dueDate r \<le> r_dueDate q) \<and>
    tbl_find i (repayments t) = Some r' \<and> r_status r' \<in> {PAID, PARTIAL} \<and>
    user_balance u ''XLM'' t = js_sub (user_balance u ''XLM'' s) (min amount (remaining_due r)) \<and>
    (is_dec 8 (r_totalDue r) \<and> r_totalDue r * 10 ^ 8 < 2 ^ 50 \<and> 0 \<le> r_paidAmount r \<and> r_paidAmount r \<le> r_totalDue r
      \<longrightarrow> r_paidAmount r' \<le> r_totalDue r')"
proof -
  have d: "distinct (map fst (repayments s))"
    using inv by (intro keys_ok_distinct [of uuid]) (simp_all add: loan_inv_def)
  from run show ?thesis
  proof (rule repayLoan_Inr [OF _ d])
    fix l user j r
    assume *: "findById u s = Some user" "tbl_find j (repayments s) = Some r" "r_loanId r = k" "open_instalment r"
      "\<And>j r'. tbl_find j (repayments s) = Some r' \<Longrightarrow> r_loanId r' = k \<Longrightarrow> open_instalment r' \<Longrightarrow> r_dueDate r \<le> r_dueDate r'"
      and res: "(i, r') = (j, repaid now amount r)"
      and t: "t = after_repayment uuid now u k user (min amount (remaining_due r)) j (repaid now amount r) s"
    have "user_balance u ''XLM'' t = js_sub (user_balance u ''XLM'' s) (min amount (remaining_due r))"
      using *(1) by (simp add: t after_repayment_def user_balance_def findById_def tbl_simps balance_of_def set_balance_def)
    moreover have "r_status r' \<in> {PAID, PARTIAL}" "r_totalDue r' = r_totalDue r"
      using res by (simp_all add: repaid_def Let_def)
    moreover have "tbl_find i (repayments t) = Some r'" using res by (simp add: t after_repayment_def tbl_simps)
    ultimately show ?thesis using * res repaid_no_overpay [of r amount now] a
      by (intro exI [of _ r]) auto
  qed
qed

theorem loan_repay_witness:
  "\<exists>i r' t r. repayLoan demo_ids 5 ''bob'' [] 10 (demo_loans L_ACTIVE [demo_instalment 0 SCHEDULED]) = (Inr (i, r'), t) \<and>
     tbl_find i (repayments (demo_loans L_ACTIVE [demo_instalment 0 SCHEDULED])) = Some r \<and>
     user_balance ''bob'' ''XLM'' t = js_sub 50 (min 10 (remaining_due r)) \<and> r_status r' \<in> {PAID, PARTIAL}"
proof -
  let ?s = "demo_loans L_ACTIVE [demo_instalment 0 SCHEDULED]"
  have "repayments_of [] ?s = [(demo_ids 0, demo_instalment 0 SCHEDULED)]"
    by (simp add: repayments_of_def demo_loans_def demo_instalment_def demo_ids_def)
  then obtain i r' t where run: "repayLoan demo_ids 5 ''bob'' [] 10 ?s = (Inr (i, r'), t)"
    by (simp add: repayLoan_def getLoanById_def find_loan_def loan_transaction_def op_defs record_repayment_eq Let_def
        demo_instalment_def)
  have inv: "loan_inv demo_ids ?s" by (rule demo_loans_inv) (simp_all add: demo_instalment_def)
  have b: "user_balance ''bob'' ''XLM'' ?s = 50" by (simp add: user_balance_def)
  obtain r where r: "tbl_find i (repayments ?s) = Some r" "r_status r' \<in> {PAID, PARTIAL}"
    "user_balance ''bob'' ''XLM'' t = js_sub (user_balance ''bob'' ''XLM'' ?s) (min 10 (remaining_due r))"
    using loan_repay [OF inv run] by auto
  show ?thesis
    by (rule exI [of _ i], rule exI [of _ r'], rule exI [of _ t], rule exI [of _ r]) (use run r b in simp)
qed

text \<open>The schedule of an approved loan of 30, 60 or 90 days has one, two or three instalments, unpaid and due
  30 days apart; their principal parts add up to the approved amount up to the rounding of each column.\<close>

theorem loan_schedule:
  assumes n: "n \<in> {1, 2, 3}" and a: "0 < ap_approvedAmount dto"
  shows "let rs = buildRepaymentSchedule now k (30 * int n) dto in length rs = n \<and>
    (\<forall>j < n. r_dueDate (rs ! j) = utc_days now + 30 * (int j + 1) \<and> r_status (rs ! j) = SCHEDULED \<and> r_paidAmount (rs ! j) = 0) \<and>
    \<bar>sum_list (map r_principalAmount rs) - ap_approvedAmount dto\<bar> \<le> of_nat n / 2 / 10 ^ 8 + ap_approvedAmount dto * 2 powi - 53"
proof -
  let ?a = "ap_approvedAmount dto" and ?rs = "buildRepaymentSchedule now k (30 * int n) dto"
  have inst: "instalments_of (30 * int n) = of_nat n"
    using n rnd_numeral(2) [of "num.Bit0 num.One"] rnd_numeral(2) [of "num.Bit1 num.One"]
    by (auto simp: instalments_of_def js_div_def)
  have fl: "\<lfloor>of_nat n :: rat\<rfloor> = int n" by simp
  let ?p = "to_fixed 8 (js_div ?a (of_nat n))"
  have len: "length ?rs = n" by (simp add: buildRepaymentSchedule_def Let_def inst)
  have nth: "?rs ! j = \<lparr>r_loanId = k, r_dueDate = utc_days (now + (int j + 1) * 30 * ms_per_day),
      r_principalAmount = ?p,
      r_interestAmount = to_fixed 8 (js_mul ?a (js_div (js_div (ap_interestRatePercent dto) 100) 12)),
      r_penaltyAmount = 0, r_totalDue = to_fixed 8 (js_add (js_div ?a (of_nat n))
        (js_mul ?a (js_div (js_div (ap_interestRatePercent dto) 100) 12))),
      r_paidAmount = 0, r_status = SCHEDULED, r_paidAt = None\<rparr>" if "j < n" for j
    using that by (simp add: buildRepaymentSchedule_def Let_def inst add.commute)
  have due: "utc_days (now + (int j + 1) * 30 * ms_per_day) = utc_days now + 30 * (int j + 1)" for j
    using div_mult_self1 [of ms_per_day now "(int j + 1) * 30"] by (simp add: utc_days_def ms_per_day_def mult.commute)
  have "map r_principalAmount ?rs = replicate n ?p"
    by (rule nth_equalityI) (simp_all add: len nth)
  then have sum: "sum_list (map r_principalAmount ?rs) = of_nat n * ?p" by (simp add: sum_list_replicate)
  have e1: "\<bar>?p - js_div ?a (of_nat n)\<bar> \<le> 1 / 2 / 10 ^ 8" using dec_round_error [of 8] by (simp add: to_fixed_def)
  have e2: "\<bar>js_div ?a (of_nat n) - ?a / of_nat n\<bar> \<le> ?a / of_nat n * 2 powi - 53"
    using rnd_error [of "?a / of_nat n"] a by (simp add: js_div_def)
  have "\<bar>?p - ?a / of_nat n\<bar> \<le> 1 / 2 / 10 ^ 8 + ?a / of_nat n * 2 powi - 53" using e1 e2 by linarith
  then have "of_nat n * \<bar>?p - ?a / of_nat n\<bar> \<le> of_nat n * (1 / 2 / 10 ^ 8 + ?a / of_nat n * 2 powi - 53)"
    by (rule mult_left_mono) simp
  moreover have "of_nat n * \<bar>?p - ?a / of_nat n\<bar> = \<bar>of_nat n * ?p - ?a\<bar>"
    using n by (auto simp: abs_if algebra_simps)
  moreover have "of_nat n * (1 / 2 / 10 ^ 8 + ?a / of_nat n * 2 powi - 53) = of_nat n / 2 / 10 ^ 8 + ?a * 2 powi - 53"
    using n by (auto simp: field_simps)
  ultimately have "\<bar>sum_list (map r_principalAmount ?rs) - ?a\<bar> \<le> of_nat n / 2 / 10 ^ 8 + ?a * 2 powi - 53"
    unfolding sum by (simp only:)
  then show ?thesis unfolding Let_def by (auto simp: len nth [unfolded due])
qed

theorem loan_schedule_witness:
  "length (buildRepaymentSchedule 5 ''l'' 90 \<lparr>ap_approvedAmount = 100, ap_interestRatePercent = 5\<rparr>) = 3"
  using loan_schedule [of 3 "\<lparr>ap_approvedAmount = 100, ap_interestRatePercent = 5\<rparr>" 5 "''l''"] by (simp add: Let_def)

text \<open>An application succeeds for users with the enhanced KYC tier only; the stored score lies between 0 and 100
  and decides: below 40 the application is stored as rejected, from 40 on as pending.\<close>

theorem loan_eligibility:
  assumes "applyForLoan uuid now u dto s = (Inr (i, l), t)"
  shows "\<exists>user. findById u s = Some user \<and> u_kycTier user = KYC_ENHANCED \<and>
    0 \<le> l_creditScore l \<and> l_creditScore l \<le> 100 \<and>
    loan_status_of i t = Some (if l_creditScore l < 40 then L_REJECTED else L_PENDING)"
  using assms by (auto elim!: apply_Inr simp: application_def credit_score_def loan_status_of_def tbl_simps)

theorem loan_eligibility_witness:
  "\<exists>i l t. loan_status_of i t = Some L_PENDING \<and>
     applyForLoan demo_ids (400 * ms_per_day) ''bob'' \<lparr>al_requestedAmount = 90, al_termDays = 90\<rparr>
       ((demo_loans L_PENDING [])\<lparr>users := [(''bob'', (demo_user 50)\<lparr>u_kycTier := KYC_ENHANCED\<rparr>)]\<rparr>) = (Inr (i, l), t)"
proof -
  let ?s = "(demo_loans L_PENDING [])\<lparr>users := [(''bob'', (demo_user 50)\<lparr>u_kycTier := KYC_ENHANCED\<rparr>)]\<rparr>"
  have f: "findById ''bob'' ?s = Some ((demo_user 50)\<lparr>u_kycTier := KYC_ENHANCED\<rparr>)" by (simp add: findById_def tbl_find_def)
  have "credit_points (400 * ms_per_day) ''bob'' ((demo_user 50)\<lparr>u_kycTier := KYC_ENHANCED\<rparr>) ?s = 60"
    by (simp add: credit_points_def demo_loans_def demo_user_def demo_loan_def ms_per_day_def)
  then have c: "credit_score (400 * ms_per_day) ''bob'' ((demo_user 50)\<lparr>u_kycTier := KYC_ENHANCED\<rparr>) ?s = 60"
    by (simp add: credit_score_def)
  have "score (400 * ms_per_day) ''bob'' ?s = (Inr 60, ?s)" using f c by (auto simp: score_iff)
  with f obtain i l t where run: "applyForLoan demo_ids (400 * ms_per_day) ''bob'' \<lparr>al_requestedAmount = 90, al_termDays = 90\<rparr> ?s
      = (Inr (i, l), t)" and "l_creditScore l = 60"
    by (simp add: applyForLoan_def loan_op_defs op_defs Let_def demo_user_def rate_fits_def)
  with loan_eligibility [OF run] show ?thesis by auto
qed

lemma job_untouched:
  fixes s t :: loan_state
  assumes run: "forE xs (\<lambda>x. tryE (f x) (\<lambda>_. ret ())) s = (r, t)" and i: "i \<notin> fst ` set xs"
    and body: "\<And>x u. i \<noteq> fst x \<Longrightarrow> tbl_find i (repayments (snd (f x u))) = tbl_find i (repayments u)"
  shows "tbl_find i (repayments t) = tbl_find i (repayments s)"
proof -
  let ?I = "\<lambda>ys (u :: loan_state). set ys \<subseteq> set xs \<and> i \<notin> fst ` set ys \<and> tbl_find i (repayments u) = tbl_find i (repayments s)"
  have "\<exists>ys. ?I ys t"
    by (rule forE_invariant [OF run, where I = ?I]) (use i body in \<open>auto simp: tryE_skip\<close>)
  then show ?thesis by blast
qed

lemma autoDebit_untouched:
  "i \<noteq> fst x \<Longrightarrow> tbl_find i (repayments (snd (autoDebitRepayment uuid now x u))) = tbl_find i (repayments u)"
  by (cases x rule: prod_cases3)
    (simp add: autoDebit_cases after_repayment_def tbl_simps Let_def split: option.splits)

lemma penalise_untouched: "i \<noteq> fst x \<Longrightarrow> tbl_find i (repayments (snd (penalise now x u))) = tbl_find i (repayments u)"
  by (cases x rule: prod_cases3)
    (simp add: penalise_eq defaultLoan_def save_loan_def op_defs tbl_simps)

text \<open>A partial payment takes an instalment out of the automatic collection: after it neither the daily debit
  nor the penalties of overdue instalments, on whatever day, touch the instalment again.\<close>

theorem loan_partial_escapes:
  assumes inv: "loan_inv uuid s" and run: "repayLoan uuid now u k amount s = (Inr (i, r), t)" and p: "r_status r = PARTIAL"
  shows "tbl_find i (repayments (snd (processScheduledRepayments uuid later t))) = Some r \<and>
    tbl_find i (repayments (snd (applyOverduePenalties later t))) = Some r"
proof -
  have d: "distinct (map fst (repayments s))"
    using inv by (intro keys_ok_distinct [of uuid]) (simp_all add: loan_inv_def)
  from repayLoan_write [OF inv run] have dt: "distinct (map fst (repayments t))"
    by (intro keys_ok_distinct [of uuid]) (simp_all add: loan_write_def loan_inv_def)
  from run d have i: "tbl_find i (repayments t) = Some r"
    by (auto elim!: repayLoan_Inr simp: after_repayment_def tbl_simps)
  have "i \<notin> fst ` set (due_repayments later t)"
    using i p by (auto simp: due_repayments_def with_loan_in tbl_distinct_in [OF dt])
  moreover have "i \<notin> fst ` set (with_loan t (filter (\<lambda>(i, r). r_status r = OVERDUE) (repayments t)))"
    using i p by (auto simp: with_loan_in tbl_distinct_in [OF dt])
  moreover have "processScheduledRepayments uuid later t =
      forE (due_repayments later t) (\<lambda>x. tryE (autoDebitRepayment uuid later x) (\<lambda>_. ret ())) t"
    "applyOverduePenalties later t = forE (with_loan t (filter (\<lambda>(i, r). r_status r = OVERDUE) (repayments t)))
      (\<lambda>x. tryE (penalise later x) (\<lambda>_. ret ())) t"
    by (simp_all add: processScheduledRepayments_def applyOverduePenalties_def bindE_def gets_def)
  ultimately have "tbl_find i (repayments (snd (processScheduledRepayments uuid later t))) = tbl_find i (repayments t)"
    "tbl_find i (repayments (snd (applyOverduePenalties later t))) = tbl_find i (repayments t)"
    using job_untouched [OF prod.collapse [symmetric] _ autoDebit_untouched]
      job_untouched [OF prod.collapse [symmetric] _ penalise_untouched] by simp_all
  with i show ?thesis by simp
qed

theorem loan_partial_escapes_witness:
  "\<exists>i r t. repayLoan demo_ids 5 ''bob'' [] 10 (demo_loans L_ACTIVE [demo_instalment 0 OVERDUE]) = (Inr (i, r), t) \<and>
     r_status r = PARTIAL \<and> r_paidAmount r = 10 \<and> tbl_find i (repayments (snd (applyOverduePenalties (900 * ms_per_day) t))) = Some r"
proof -
  let ?s = "demo_loans L_ACTIVE [demo_instalment 0 OVERDUE]"
  have e: "js_sub 30 (parse_float (5 / 10 ^ 9)) \<le> 10 \<longleftrightarrow> False"
  proof -
    have "(20 :: rat) \<le> js_sub 30 (parse_float (5 / 10 ^ 9))"
      using parse_float_mono [of "5 / 10 ^ 9" 10] unfolding js_sub_def by (intro rnd_ge) simp_all
    then show ?thesis by simp
  qed
  have "paid_after 10 (demo_instalment 0 OVERDUE) = 10"
    by (simp add: paid_after_def remaining_due_def demo_instalment_def min_def)
  then have r: "repaid 5 10 (demo_instalment 0 OVERDUE) = (demo_instalment 0 OVERDUE)\<lparr>r_paidAmount := 10, r_status := PARTIAL\<rparr>"
    using e by (simp add: repaid_def Let_def demo_instalment_def)
  have "repayments_of [] ?s = [(demo_ids 0, demo_instalment 0 OVERDUE)]"
    by (simp add: repayments_of_def demo_loans_def demo_instalment_def demo_ids_def)
  then obtain i t where run: "repayLoan demo_ids 5 ''bob'' [] 10 ?s = (Inr (i, repaid 5 10 (demo_instalment 0 OVERDUE)), t)"
    by (simp add: repayLoan_def getLoanById_def find_loan_def loan_transaction_def op_defs record_repayment_eq Let_def
        demo_instalment_def repaid_def paid_after_def remaining_due_def)
  have "loan_inv demo_ids ?s" by (rule demo_loans_inv) (simp_all add: demo_instalment_def)
  from loan_partial_escapes [OF this run] r run show ?thesis by simp
qed

lemma rate_fits_lt10:
  assumes "is_double x" and "10 \<le> x"
  shows "\<not> rate_fits (num_to_string x)"
proof -
  let ?d = "num_to_string x"
  have d: "0 \<le> ?d" "rnd ?d = x" using assms parse_float_to_string [of x] by (simp_all add: num_to_string_nonneg parse_float_def)
  have "?d * 2 powi - 53 \<le> ?d * (1 / 10 ^ 6)" using d by (intro mult_left_mono) (simp_all add: power_int_minus)
  with abs_le_D1 [OF rnd_error [of ?d]] d have "x \<le> ?d + ?d * (1 / 10 ^ 6)" by (simp only: abs_of_nonneg)
  with assms(2) have "10 \<le> ?d * (1 + 1 / 10 ^ 6)" by (simp add: distrib_left)
  then have "99999 / 10000 \<le> ?d" by (simp add: field_simps)
  then have "dec_round 4 (999995 / 100000) \<le> dec_round 4 ?d"
    using \<open>10 \<le> ?d * (1 + 1 / 10 ^ 6)\<close> by (intro dec_round_mono) simp_all
  moreover have "dec_round 4 (999995 / 100000 :: rat) = 10" by (simp add: dec_round_def)
  ultimately show ?thesis by (simp add: rate_fits_def pg_numeric_def)
qed

text \<open>A pending loan cannot be approved at ten percent or more: the approval fails, because the rate does not fit
  the column, and nothing is changed.\<close>

theorem loan_high_rate_refused:
  assumes "tbl_find k (loans s) = Some l" and "l_status l = L_PENDING" and "findById (l_userId l) s \<noteq> None"
    and "is_double (ap_interestRatePercent dto)" and "10 \<le> ap_interestRatePercent dto"
  shows "adminApproveLoan uuid now adminId k dto s = (Inl (PlainError ''numeric field overflow''), s)"
  using assms rate_fits_lt10 [OF assms(4,5)]
  by (auto simp: adminApproveLoan_def loan_op_defs op_defs)

theorem loan_high_rate_refused_witness:
  "adminApproveLoan demo_ids 0 ''root'' [] \<lparr>ap_approvedAmount = 90, ap_interestRatePercent = 12\<rparr> (demo_loans L_PENDING []) =
     (Inl (PlainError ''numeric field overflow''), demo_loans L_PENDING [])"
  by (rule loan_high_rate_refused [where l = "demo_loan L_PENDING"]) simp_all

end
