(* ===== verification/TxLimits.thy ===== *)
theory TxLimits
  imports Ledger Fees JsDate
begin

text \<open>
  Transaction limits per KYC tier (\<open>transactions/services/transaction-limit.service.ts\<close>): the limit
  rows and their defaults, the use of a user in US dollars today and this month, and the check made
  before a transaction. The exchange rate service answers from an external provider and is the
  parameter \<open>rate\<close>. The database promises no order for the rows of a grouped sum; the model takes the
  currencies in the order of their last transactions.
\<close>

section \<open>Data\<close>

record tx_limit =
  tl_dailyLimitUsd :: rat
  tl_monthlyLimitUsd :: rat
  tl_singleTxLimitUsd :: rat

record limit_state = books +
  tx_limits :: "(kyc_tier \<times> tx_limit) list"

type_synonym rates = "string \<Rightarrow> string \<Rightarrow> exn + rat"

record limit_status =
  ls_tier :: kyc_tier
  ls_daily :: rat
  ls_monthly :: rat
  ls_single :: rat
  ls_todayUsd :: rat
  ls_monthUsd :: rat
  ls_remainingDaily :: rat
  ls_remainingMonthly :: rat

section \<open>Limit rows\<close>

definition default_limits :: "(kyc_tier \<times> tx_limit) list" where
  "default_limits =
     [(KYC_NONE, \<lparr>tl_dailyLimitUsd = 100, tl_monthlyLimitUsd = 1000, tl_singleTxLimitUsd = 100\<rparr>),
      (KYC_BASIC, \<lparr>tl_dailyLimitUsd = 1000, tl_monthlyLimitUsd = 15000, tl_singleTxLimitUsd = 1000\<rparr>),
      (KYC_STANDARD, \<lparr>tl_dailyLimitUsd = 10000, tl_monthlyLimitUsd = 150000, tl_singleTxLimitUsd = 10000\<rparr>),
      (KYC_ENHANCED, \<lparr>tl_dailyLimitUsd = 50000, tl_monthlyLimitUsd = 500000, tl_singleTxLimitUsd = 50000\<rparr>)]"

definition ensureDefaultLimits :: "('a limit_state_scheme, unit) op" where
  "ensureDefaultLimits = forE default_limits (\<lambda>(tier, row).
     bindE (gets (\<lambda>s. map_of (tx_limits s) tier)) (\<lambda>existing.
     if existing = None then modify (\<lambda>s. s\<lparr>tx_limits := AList.update tier row (tx_limits s)\<rparr>) else ret ()))"

definition tier_rank :: "kyc_tier \<Rightarrow> nat" where
  "tier_rank t = (case t of KYC_NONE \<Rightarrow> 0 | KYC_BASIC \<Rightarrow> 1 | KYC_STANDARD \<Rightarrow> 2 | KYC_ENHANCED \<Rightarrow> 3)"

definition listLimits :: "('a limit_state_scheme, (kyc_tier \<times> tx_limit) list) op" where
  "listLimits = bindE ensureDefaultLimits (\<lambda>_. gets (\<lambda>s. sort_key (\<lambda>(t, r). tier_rank t) (tx_limits s)))"

definition upsertLimit :: "kyc_tier \<Rightarrow> rat \<Rightarrow> rat \<Rightarrow> rat \<Rightarrow> ('a limit_state_scheme, tx_limit) op" where
  "upsertLimit tier daily monthly single =
     bindE (require (\<not> (daily < 0 \<or> monthly < 0 \<or> single < 0))
       (BadRequestException ''Limit values must be greater than or equal to 0'')) (\<lambda>_.
     bindE ensureDefaultLimits (\<lambda>_.
     let row = \<lparr>tl_dailyLimitUsd = to_fixed 8 daily, tl_monthlyLimitUsd = to_fixed 8 monthly,
           tl_singleTxLimitUsd = to_fixed 8 single\<rparr>
     in bindE (modify (\<lambda>s. s\<lparr>tx_limits := AList.update tier row (tx_limits s)\<rparr>)) (\<lambda>_. ret row)))"

section \<open>Use and check\<close>

definition convertToUsd :: "rates \<Rightarrow> string \<Rightarrow> rat \<Rightarrow> exn + rat" where
  "convertToUsd rate currency amount =
     (let normalizedCurrency = toUpperCase currency
      in if normalizedCurrency = ''USD'' then Inr amount
         else case rate normalizedCurrency ''USD'' of Inl e \<Rightarrow> Inl e | Inr r \<Rightarrow> Inr (js_mul amount r))"

fun convertRowsToUsd :: "rates \<Rightarrow> rat \<Rightarrow> (string \<times> rat) list \<Rightarrow> exn + rat" where
  "convertRowsToUsd rate sumUsd [] = Inr sumUsd"
| "convertRowsToUsd rate sumUsd ((c, t) # rows) =
     (let amount = parse_float t
      in if amount \<le> 0 then convertRowsToUsd rate sumUsd rows
         else case convertToUsd rate c amount of Inl e \<Rightarrow> Inl e
           | Inr x \<Rightarrow> convertRowsToUsd rate (js_add sumUsd x) rows)"

definition counted :: "string \<Rightarrow> int \<Rightarrow> 'a books_scheme \<Rightarrow> transaction list" where
  "counted userId since s = filter (\<lambda>t. t_userId t = userId \<and> t_status t \<in> {PENDING, SUCCESS} \<and> since \<le> t_createdAt t)
     (map snd (transactions s))"

definition usage_rows :: "string \<Rightarrow> int \<Rightarrow> 'a books_scheme \<Rightarrow> (string \<times> rat) list" where
  "usage_rows userId since s = map (\<lambda>c. (c, sum_list (map t_amount (filter (\<lambda>t. t_currency t = c) (counted userId since s)))))
     (remdups (map t_currency (counted userId since s)))"

definition day_start :: "int \<Rightarrow> int" where
  "day_start now = utc_days now * ms_per_day"

definition month_start :: "int \<Rightarrow> int" where
  "month_start now = date_utc (getUTCFullYear now) (getUTCMonth now) 1"

definition getUsageInUsd :: "rates \<Rightarrow> int \<Rightarrow> string \<Rightarrow> ('a books_scheme, rat \<times> rat) op" where
  "getUsageInUsd rate now userId =
     bindE (gets (usage_rows userId (day_start now))) (\<lambda>dayRows.
     bindE (gets (usage_rows userId (month_start now))) (\<lambda>monthRows.
     bindE (from_sum (convertRowsToUsd rate 0 dayRows)) (\<lambda>todayUsd.
     bindE (from_sum (convertRowsToUsd rate 0 monthRows)) (\<lambda>monthUsd.
     ret (parse_float (to_fixed 8 todayUsd), parse_float (to_fixed 8 monthUsd))))))"

definition getUserLimitStatus :: "rates \<Rightarrow> int \<Rightarrow> string \<Rightarrow> ('a limit_state_scheme, limit_status) op" where
  "getUserLimitStatus rate now userId =
     bindE ensureDefaultLimits (\<lambda>_.
     bindE (gets (findById userId)) (\<lambda>found.
     bindE (from_option (NotFoundException ''User not found'') found) (\<lambda>user.
     bindE (gets (\<lambda>s. map_of (tx_limits s) (u_kycTier user))) (\<lambda>row.
     bindE (from_option (NotFoundException ''Transaction limit configuration not found'') row) (\<lambda>limit.
     bindE (getUsageInUsd rate now userId) (\<lambda>(todayUsd, monthUsd).
     let dailyLimit = parse_float (tl_dailyLimitUsd limit);
         monthlyLimit = parse_float (tl_monthlyLimitUsd limit)
     in ret \<lparr>ls_tier = u_kycTier user, ls_daily = dailyLimit, ls_monthly = monthlyLimit,
          ls_single = parse_float (tl_singleTxLimitUsd limit), ls_todayUsd = todayUsd, ls_monthUsd = monthUsd,
          ls_remainingDaily = parse_float (to_fixed 8 (max (js_sub dailyLimit todayUsd) 0)),
          ls_remainingMonthly = parse_float (to_fixed 8 (max (js_sub monthlyLimit monthUsd) 0))\<rparr>))))))"

definition check_limits :: "rates \<Rightarrow> int \<Rightarrow> string \<Rightarrow> rat \<Rightarrow> string \<Rightarrow> ('a limit_state_scheme, unit) op" where
  "check_limits rate now userId amount currency =
     bindE (getUserLimitStatus rate now userId) (\<lambda>status.
     bindE (from_sum (convertToUsd rate currency amount)) (\<lambda>amountUsd.
     bindE (require (\<not> ls_single status < amountUsd)
       (UnprocessableEntityException ''SINGLE_TX_LIMIT_EXCEEDED'')) (\<lambda>_.
     bindE (require (\<not> max (js_sub (ls_daily status) (ls_todayUsd status)) 0 < amountUsd)
       (UnprocessableEntityException ''DAILY_LIMIT_EXCEEDED'')) (\<lambda>_.
     require (\<not> max (js_sub (ls_monthly status) (ls_monthUsd status)) 0 < amountUsd)
       (UnprocessableEntityException ''MONTHLY_LIMIT_EXCEEDED'')))))"

section \<open>What the check sees\<close>

definition with_defaults :: "(kyc_tier \<times> tx_limit) list \<Rightarrow> (kyc_tier \<times> tx_limit) list" where
  "with_defaults ls = fold (\<lambda>(tier, row) ls. if map_of ls tier = None then AList.update tier row ls else ls) default_limits ls"

lemma ensureDefaultLimits_eq: "ensureDefaultLimits s = (Inr (), s\<lparr>tx_limits := with_defaults (tx_limits s)\<rparr>)"
proof -
  have "forE rows (\<lambda>(tier, row). bindE (gets (\<lambda>s. map_of (tx_limits s) tier)) (\<lambda>existing.
      if existing = None then modify (\<lambda>s. s\<lparr>tx_limits := AList.update tier row (tx_limits s)\<rparr>) else ret ())) s =
      (Inr (), s\<lparr>tx_limits := fold (\<lambda>(tier, row) ls. if map_of ls tier = None then AList.update tier row ls else ls)
        rows (tx_limits s)\<rparr>)" for rows
    by (induction rows arbitrary: s) (auto simp: op_defs)
  then show ?thesis by (simp add: ensureDefaultLimits_def with_defaults_def)
qed

lemma with_defaults_total: "\<exists>l. map_of (with_defaults ls) tier = Some l"
  by (cases tier) (auto simp: with_defaults_def default_limits_def update_conv')

lemma with_defaults_keep: "map_of ls tier = Some l \<Longrightarrow> map_of (with_defaults ls) tier = Some l"
  by (auto simp: with_defaults_def default_limits_def update_conv')

lemma limit_status_Inr:
  assumes "getUserLimitStatus rate now u s = (Inr st, t)"
  obtains user l d m where "findById u s = Some user" "t = s\<lparr>tx_limits := with_defaults (tx_limits s)\<rparr>"
    "map_of (tx_limits t) (u_kycTier user) = Some l"
    "convertRowsToUsd rate 0 (usage_rows u (day_start now) s) = Inr d"
    "convertRowsToUsd rate 0 (usage_rows u (month_start now) s) = Inr m"
    "ls_daily st = parse_float (tl_dailyLimitUsd l)" "ls_monthly st = parse_float (tl_monthlyLimitUsd l)"
    "ls_single st = parse_float (tl_singleTxLimitUsd l)" "ls_todayUsd st = parse_float (to_fixed 8 d)"
    "ls_monthUsd st = parse_float (to_fixed 8 m)"
  using assms
  by (auto simp: getUserLimitStatus_def getUsageInUsd_def op_iff ensureDefaultLimits_eq Let_def findById_def
      usage_rows_def counted_def)

lemma remdups_const: "(\<And>x. x \<in> set xs \<Longrightarrow> x = c) \<Longrightarrow> remdups xs = (if xs = [] then [] else [c])"
proof (induction xs)
  case (Cons x xs)
  then show ?case by (cases xs) auto
qed simp

lemma usage_rows_limits [simp]: "usage_rows u n (s\<lparr>tx_limits := x\<rparr>) = usage_rows u n s"
  by (simp add: usage_rows_def counted_def)

definition today_total :: "string \<Rightarrow> int \<Rightarrow> 'a books_scheme \<Rightarrow> rat" where
  "today_total u now s = sum_list (map t_amount (counted u (day_start now) s))"

lemma usd_upper [simp]: "toUpperCase ''USD'' = ''USD''"
  by (simp add: toUpperCase_def ascii_upper_def)

lemma usage_in_usd:
  assumes usd: "\<And>x. x \<in> set (counted u since s) \<Longrightarrow> t_currency x = ''USD'' \<and> 0 \<le> t_amount x \<and> is_dec 8 (t_amount x)"
    and S: "S = sum_list (map t_amount (counted u since s))" "S * 10 ^ 8 < 2 ^ 52"
    and d: "convertRowsToUsd rate 0 (usage_rows u since s) = Inr d"
  shows "parse_float (to_fixed 8 d) = parse_float S"
proof -
  have f: "filter (\<lambda>x. t_currency x = ''USD'') (counted u since s) = counted u since s"
    using usd by (simp add: filter_id_conv)
  have r: "remdups (map t_currency (counted u since s)) = (if counted u since s = [] then [] else [''USD''])"
  proof -
    have "\<And>c. c \<in> set (map t_currency (counted u since s)) \<Longrightarrow> c = ''USD''" using usd by auto
    from remdups_const [of "map t_currency (counted u since s)" "''USD''", OF this] show ?thesis by simp
  qed
  have S0: "0 \<le> S" "is_dec 8 S" unfolding S(1) using usd by (auto intro!: sum_list_nonneg is_dec_sum_list)
  then have tf: "to_fixed 8 (parse_float S) = S" using S(2) by (intro to_fixed_parse_float) simp_all
  show ?thesis
  proof (cases "counted u since s = []")
    case True
    with d S show ?thesis by (simp add: usage_rows_def)
  next
    case False
    then have "usage_rows u since s = [(''USD'', S)]" using r f S(1) by (simp add: usage_rows_def)
    with d have "d = (if S \<le> 0 then 0 else js_add 0 (parse_float S))"
      by (simp add: convertToUsd_def Let_def split: if_splits)
    with S0 tf show ?thesis by (cases "S = 0") simp_all
  qed
qed

section \<open>Properties\<close>


definition demo_payment :: "rat \<Rightarrow> transaction" where
  "demo_payment x = \<lparr>t_userId = ''bob'', t_type = WITHDRAW, t_amount = x, t_currency = ''USD'', t_rate = None,
     t_status = PENDING, t_txHash = None, t_failureReason = None, t_feeAmount = None, t_feeCurrency = None,
     t_toCurrency = None, t_toAmount = None, t_createdAt = 5, t_reference = None,
     t_counterpartyMemo = None, t_userNote = None, t_tags = None,
     t_categoryId = None\<rparr>"

definition demo_limits :: "transaction list \<Rightarrow> limit_state" where
  "demo_limits ts = \<lparr>users = [(''bob'', demo_user 5000)], wallets = [], notifications = [], calls = 0, payments = [],
     ledger = [], transactions = map (Pair ''t'') ts, tx_limits = []\<rparr>"


end
