(* ===== verification/Markets.thy ===== *)
theory Markets
  imports TxLimits
begin

text \<open>
  Currencies (\<open>currencies/currencies.service.ts\<close>) and trading pairs
  (\<open>currencies/services/currency-pair.service.ts\<close>): lookup, suspension for a duration, resumption by hand
  or by the scheduled job, and the validation a swap relies on. The unique index on the two codes of a
  pair makes a save fail. \<open>parse_date\<close> stands for the engine's parser of free-form date strings, the
  fallback of \<open>parseDuration\<close>.
\<close>

section \<open>Currencies\<close>

record currency =
  c_code :: string
  c_name :: string
  c_symbol :: "string option"
  c_decimals :: int
  c_isBase :: bool
  c_isActive :: bool

type_synonym currencies = "currency table"

definition findAllCurrencies :: "bool \<Rightarrow> currencies \<Rightarrow> (string \<times> currency) list" where
  "findAllCurrencies activeOnly cs =
     sort_key (\<lambda>(i, c). (if c_isBase c then 0 else 1 :: nat))
       (sort_key (\<lambda>(i, c). c_code c) (filter (\<lambda>(i, c). activeOnly \<longrightarrow> c_isActive c) cs))"

definition currency_by_code :: "string \<Rightarrow> currencies \<Rightarrow> (string \<times> currency) option" where
  "currency_by_code code cs = List.find (\<lambda>(i, c). c_code c = toUpperCase code) cs"

definition getCurrency :: "string \<Rightarrow> (currencies, string \<times> currency) op" where
  "getCurrency code = bindE (gets (currency_by_code code))
     (from_option (NotFoundException ''Currency with code not found''))"

definition getBaseCurrency :: "(currencies, string \<times> currency) op" where
  "getBaseCurrency = bindE (gets (List.find (\<lambda>(i, c). c_isBase c)))
     (from_option (NotFoundException ''Base currency not found''))"

definition isSupported :: "string \<Rightarrow> currencies \<Rightarrow> bool" where
  "isSupported code cs = (case currency_by_code code cs of None \<Rightarrow> False | Some (i, c) \<Rightarrow> c_isActive c)"

definition validateCurrency :: "string \<Rightarrow> (currencies, unit) op" where
  "validateCurrency code = bindE (gets (isSupported code)) (\<lambda>supported.
     require supported (NotFoundException ''Currency is not supported or inactive''))"

definition findCurrency :: "string \<Rightarrow> (currencies, currency) op" where
  "findCurrency i = bindE (gets (tbl_find i)) (from_option (NotFoundException ''Currency with ID not found''))"

section \<open>Trading pairs\<close>

record pair =
  cp_fromCurrencyCode :: string
  cp_toCurrencyCode :: string
  cp_spreadPercent :: rat
  cp_minAmountUsd :: "rat option"
  cp_maxAmountUsd :: "rat option"
  cp_isActive :: bool
  cp_suspendedUntil :: "int option"
  cp_suspensionReason :: "string option"

type_synonym pairs = "pair table"

record pair_patch =
  pp_fromCurrencyCode :: "string option"
  pp_toCurrencyCode :: "string option"
  pp_spreadPercent :: "rat option"
  pp_minAmountUsd :: "rat option"
  pp_maxAmountUsd :: "rat option"
  pp_isActive :: "bool option"

definition codes_taken :: "string \<Rightarrow> pair \<Rightarrow> pairs \<Rightarrow> bool" where
  "codes_taken i p ps = list_ex (\<lambda>(j, q). j \<noteq> i \<and> cp_fromCurrencyCode q = cp_fromCurrencyCode p \<and>
     cp_toCurrencyCode q = cp_toCurrencyCode p) ps"

definition pair_row :: "pair \<Rightarrow> pair" where
  "pair_row p = p\<lparr>cp_spreadPercent := pg_numeric 2 (cp_spreadPercent p),
     cp_minAmountUsd := map_option (pg_numeric 8) (cp_minAmountUsd p),
     cp_maxAmountUsd := map_option (pg_numeric 8) (cp_maxAmountUsd p)\<rparr>"

definition save_pair :: "string \<Rightarrow> pair \<Rightarrow> (pairs, pair) op" where
  "save_pair i p =
     bindE (gets (codes_taken i p)) (\<lambda>taken.
     bindE (require (\<not> taken) (PlainError ''duplicate key value violates unique constraint'')) (\<lambda>_.
     bindE (modify (tbl_save i (pair_row p))) (\<lambda>_.
     ret p)))"

definition findPair :: "string \<Rightarrow> (pairs, pair) op" where
  "findPair i = bindE (gets (tbl_find i)) (from_option (NotFoundException ''Currency pair not found''))"

definition findAllPairs :: "rates \<Rightarrow> bool \<Rightarrow> pairs \<Rightarrow> ((string \<times> pair) \<times> (rat \<times> rat) option) list" where
  "findAllPairs rate activeOnly ps = map (\<lambda>(i, p). ((i, p),
       case rate (cp_fromCurrencyCode p) (cp_toCurrencyCode p) of Inl _ \<Rightarrow> None
       | Inr r \<Rightarrow> Some (r, js_mul r (js_sub 1 (js_div (parse_float (cp_spreadPercent p)) 100)))))
     (filter (\<lambda>(i, p). activeOnly \<longrightarrow> cp_isActive p) ps)"

definition findByCodes :: "string \<Rightarrow> string \<Rightarrow> pairs \<Rightarrow> (string \<times> pair) option" where
  "findByCodes fromCode toCode ps = List.find (\<lambda>(i, p). cp_fromCurrencyCode p = toUpperCase fromCode \<and>
     cp_toCurrencyCode p = toUpperCase toCode) ps"

definition createPair :: "string \<Rightarrow> pair \<Rightarrow> (pairs, pair) op" where
  "createPair newId data = save_pair newId (data\<lparr>cp_fromCurrencyCode := toUpperCase (cp_fromCurrencyCode data),
     cp_toCurrencyCode := toUpperCase (cp_toCurrencyCode data)\<rparr>)"

definition assign :: "'v option \<Rightarrow> 'v \<Rightarrow> 'v" where
  "assign x old = (case x of None \<Rightarrow> old | Some v \<Rightarrow> v)"

definition updatePair :: "string \<Rightarrow> pair_patch \<Rightarrow> (pairs, pair) op" where
  "updatePair i d =
     bindE (findPair i) (\<lambda>p.
     save_pair i (p\<lparr>cp_fromCurrencyCode := assign (pp_fromCurrencyCode d) (cp_fromCurrencyCode p),
       cp_toCurrencyCode := assign (pp_toCurrencyCode d) (cp_toCurrencyCode p),
       cp_spreadPercent := assign (pp_spreadPercent d) (cp_spreadPercent p),
       cp_minAmountUsd := (if pp_minAmountUsd d = None then cp_minAmountUsd p else pp_minAmountUsd d),
       cp_maxAmountUsd := (if pp_maxAmountUsd d = None then cp_maxAmountUsd p else pp_maxAmountUsd d),
       cp_isActive := assign (pp_isActive d) (cp_isActive p)\<rparr>))"

section \<open>Suspension\<close>

definition is_digit :: "char \<Rightarrow> bool" where
  "is_digit c \<longleftrightarrow> 48 \<le> (of_char c :: nat) \<and> of_char c \<le> (57 :: nat)"

definition parse_nat :: "string \<Rightarrow> int" where
  "parse_nat s = foldl (\<lambda>n c. 10 * n + (of_char c - 48)) 0 s"

text \<open>An optional group \<open>(\d+)U\<close> at the front of a text: its number, and the text that follows it.\<close>

definition unit_group :: "char \<Rightarrow> string \<Rightarrow> int \<times> string" where
  "unit_group u s = (let ds = takeWhile is_digit s; rest = dropWhile is_digit s
     in if ds \<noteq> [] \<and> rest \<noteq> [] \<and> hd rest = u then (parse_nat ds, tl rest) else (0, s))"

fun after_PT :: "string \<Rightarrow> string option" where
  "after_PT (c # d # cs) = (if c = CHR ''P'' \<and> d = CHR ''T'' then Some cs else after_PT (d # cs))"
| "after_PT _ = None"

definition parseDuration :: "(string \<Rightarrow> int option) \<Rightarrow> int \<Rightarrow> string \<Rightarrow> int" where
  "parseDuration parse_date now isoDuration =
     (case after_PT isoDuration of
        None \<Rightarrow> (case parse_date isoDuration of None \<Rightarrow> 0 | Some t \<Rightarrow> t - now)
      | Some s \<Rightarrow>
          (let (hours, s1) = unit_group CHR ''H'' s; (minutes, s2) = unit_group CHR ''M'' s1;
               (seconds, s3) = unit_group CHR ''S'' s2
           in (hours * 3600 + minutes * 60 + seconds) * 1000))"

definition suspendPair :: "(string \<Rightarrow> int option) \<Rightarrow> int \<Rightarrow> string \<Rightarrow> string \<Rightarrow> string \<Rightarrow> (pairs, pair) op" where
  "suspendPair parse_date now i reason durationIso =
     bindE (findPair i) (\<lambda>p.
     save_pair i (p\<lparr>cp_isActive := False,
       cp_suspendedUntil := Some (now + parseDuration parse_date now durationIso),
       cp_suspensionReason := Some reason\<rparr>))"

definition resumed :: "pair \<Rightarrow> pair" where
  "resumed p = p\<lparr>cp_isActive := True, cp_suspendedUntil := None, cp_suspensionReason := None\<rparr>"

definition resumePair :: "string \<Rightarrow> (pairs, pair) op" where
  "resumePair i = bindE (findPair i) (\<lambda>p. save_pair i (resumed p))"

definition autoResumePairs :: "int \<Rightarrow> (pairs, nat) op" where
  "autoResumePairs now =
     bindE (gets (filter (\<lambda>(i, p). \<not> cp_isActive p \<and>
       (case cp_suspendedUntil p of None \<Rightarrow> False | Some t \<Rightarrow> t \<le> now)))) (\<lambda>due.
     bindE (forE due (\<lambda>(i, p). bindE (save_pair i (resumed p)) (\<lambda>_. ret ()))) (\<lambda>_.
     ret (length due)))"

definition validatePair :: "string \<Rightarrow> string \<Rightarrow> rat option \<Rightarrow> (pairs, pair) op" where
  "validatePair fromCode toCode amountUsd =
     bindE (gets (findByCodes fromCode toCode)) (\<lambda>found.
     bindE (from_option (BadRequestException ''Trading pair is not supported'') (map_option snd found)) (\<lambda>p.
     bindE (require (cp_isActive p)
       (BadRequestException (if truthy (cp_suspensionReason p) then the (cp_suspensionReason p)
          else ''Trading is temporarily suspended for this pair''))) (\<lambda>_.
     case amountUsd of None \<Rightarrow> ret p | Some a \<Rightarrow>
       bindE (require (\<not> (case cp_minAmountUsd p of None \<Rightarrow> False | Some m \<Rightarrow> a < parse_float m))
         (BadRequestException ''Amount is below the minimum limit'')) (\<lambda>_.
       bindE (require (\<not> (case cp_maxAmountUsd p of None \<Rightarrow> False | Some m \<Rightarrow> parse_float m < a))
         (BadRequestException ''Amount exceeds the maximum limit'')) (\<lambda>_.
       ret p)))))"

section \<open>Facts about suspension\<close>

definition same_codes :: "pair \<Rightarrow> pair \<Rightarrow> bool" where
  "same_codes p q \<longleftrightarrow> cp_fromCurrencyCode p = cp_fromCurrencyCode q \<and> cp_toCurrencyCode p = cp_toCurrencyCode q"

definition pairs_ok :: "pairs \<Rightarrow> bool" where
  "pairs_ok ps \<longleftrightarrow> distinct (map fst ps) \<and>
     (\<forall>i j p q. tbl_find i ps = Some p \<longrightarrow> tbl_find j ps = Some q \<longrightarrow> same_codes p q \<longrightarrow> i = j)"

lemma pair_row_simps [simp]: "same_codes (pair_row p) q = same_codes p q" "same_codes q (pair_row p) = same_codes q p"
  "cp_isActive (pair_row p) = cp_isActive p" "cp_suspendedUntil (pair_row p) = cp_suspendedUntil p"
  "same_codes (resumed p) q = same_codes p q" "cp_isActive (resumed p)"
  by (simp_all add: pair_row_def same_codes_def resumed_def)

lemma codes_taken_iff:
  "distinct (map fst ps) \<Longrightarrow> codes_taken i p ps \<longleftrightarrow> (\<exists>j q. tbl_find j ps = Some q \<and> j \<noteq> i \<and> same_codes q p)"
  by (simp add: codes_taken_def list_ex_iff same_codes_def split_def) (metis (no_types, lifting) fst_conv prod.collapse snd_conv tbl_distinct_in)

lemma save_pair_same:
  assumes ok: "pairs_ok ps" and p: "tbl_find i ps = Some p" and q: "same_codes q p"
  shows "save_pair i q ps = (Inr q, tbl_save i (pair_row q) ps) \<and> pairs_ok (tbl_save i (pair_row q) ps)"
proof -
  have d: "distinct (map fst ps)" and u: "\<And>i j p q. tbl_find i ps = Some p \<Longrightarrow> tbl_find j ps = Some q \<Longrightarrow> same_codes p q \<Longrightarrow> i = j"
    using ok by (auto simp: pairs_ok_def)
  have "\<not> codes_taken i q ps" using u [OF _ p] q by (auto simp: codes_taken_iff [OF d]) (auto simp: same_codes_def)
  moreover have "pairs_ok (tbl_save i (pair_row q) ps)"
    using d u [OF p] u [OF _ p] u q unfolding pairs_ok_def
    by (auto simp: tbl_simps) (auto simp: same_codes_def)
  ultimately show ?thesis by (simp add: save_pair_def op_defs)
qed

lemma find_codes:
  assumes ok: "pairs_ok ps" and p: "tbl_find i ps = Some p"
    and c: "cp_fromCurrencyCode p = toUpperCase f" "cp_toCurrencyCode p = toUpperCase t"
  shows "findByCodes f t ps = Some (i, p)"
proof -
  let ?P = "\<lambda>(i, p). cp_fromCurrencyCode p = toUpperCase f \<and> cp_toCurrencyCode p = toUpperCase t"
  have "List.find ?P ps \<noteq> None" using tbl_find_in [OF p] c by (auto simp: find_None_iff)
  then obtain j q where f: "List.find ?P ps = Some (j, q)" by (cases "List.find ?P ps") auto
  then have "(j, q) \<in> set ps" "?P (j, q)" by (auto simp: find_Some_iff in_set_conv_nth)
  moreover from this ok have "tbl_find j ps = Some q" by (simp add: pairs_ok_def tbl_distinct_in)
  ultimately have "j = i" using ok p c by (auto simp: pairs_ok_def same_codes_def)
  with f \<open>tbl_find j ps = Some q\<close> p show ?thesis by (simp add: findByCodes_def)
qed

definition due_pair :: "int \<Rightarrow> pair \<Rightarrow> bool" where
  "due_pair now p \<longleftrightarrow> \<not> cp_isActive p \<and> (case cp_suspendedUntil p of None \<Rightarrow> False | Some t \<Rightarrow> t \<le> now)"

lemma autoResume_find:
  assumes ok: "pairs_ok ps"
  shows "pairs_ok (snd (autoResumePairs now ps)) \<and> (\<forall>j p. tbl_find j ps = Some p \<longrightarrow>
    tbl_find j (snd (autoResumePairs now ps)) = Some (if due_pair now p then pair_row (resumed p) else p))"
proof -
  let ?due = "filter (\<lambda>(i, p). due_pair now p) ps"
  let ?f = "\<lambda>(i, p). bindE (save_pair i (resumed p)) (\<lambda>_. ret ())"
  have d: "distinct (map fst ps)" using ok by (simp add: pairs_ok_def)
  let ?I = "\<lambda>rest u. pairs_ok u \<and> distinct (map fst rest) \<and> set rest \<subseteq> set ?due \<and> (\<forall>j p. tbl_find j ps = Some p \<longrightarrow>
    tbl_find j u = Some (if due_pair now p \<and> j \<notin> fst ` set rest then pair_row (resumed p) else p))"
  have "\<exists>t. forE ?due ?f ps = (Inr (), t) \<and> ?I [] t"
  proof (rule forE_total [where I = ?I])
    show "?I ?due ps" using ok d by (auto simp: distinct_fst_filter image_iff tbl_distinct_in [OF d])
  next
    fix x xs u
    assume I: "?I (x # xs) u"
    obtain i p where x: "x = (i, p)" by fastforce
    from I x have p: "tbl_find i ps = Some p" "due_pair now p" by (auto simp: tbl_distinct_in [OF d])
    with I x have u: "tbl_find i u = Some p" by auto
    have sc: "same_codes (resumed p) p" by (simp add: same_codes_def resumed_def)
    from I have "pairs_ok u" by simp
    from save_pair_same [OF this u sc]
    have s: "save_pair i (resumed p) u = (Inr (resumed p), tbl_save i (pair_row (resumed p)) u)"
      and ok': "pairs_ok (tbl_save i (pair_row (resumed p)) u)" by simp_all
    have "?I xs (tbl_save i (pair_row (resumed p)) u)" using I ok' x p by (auto simp: tbl_simps)
    with s x show "\<exists>t. ?f x u = (Inr (), t) \<and> ?I xs t" by (simp add: op_defs)
  qed
  then obtain t where "forE ?due ?f ps = (Inr (), t)" "?I [] t" by blast
  moreover from this have "snd (autoResumePairs now ps) = t"
    by (simp add: autoResumePairs_def op_defs due_pair_def)
  ultimately show ?thesis by simp
qed

section \<open>Properties\<close>

definition tradable :: "string \<Rightarrow> string \<Rightarrow> pairs \<Rightarrow> bool" where
  "tradable f t ps \<longleftrightarrow> (\<exists>p. validatePair f t None ps = (Inr p, ps))"

lemma tradable_iff:
  assumes "pairs_ok ps" and "tbl_find i ps = Some p"
    and "cp_fromCurrencyCode p = toUpperCase f" "cp_toCurrencyCode p = toUpperCase t"
  shows "tradable f t ps \<longleftrightarrow> cp_isActive p"
  using find_codes [OF assms] by (auto simp: tradable_def validatePair_def op_defs)

text \<open>A suspended pair cannot be traded until its suspension ends: the scheduled job resumes it from the end
  of the suspension on, and not before.\<close>

theorem pair_suspension:
  assumes ok: "pairs_ok ps" and p: "tbl_find i ps = Some p"
    and c: "cp_fromCurrencyCode p = toUpperCase f" "cp_toCurrencyCode p = toUpperCase t"
    and s: "suspendPair parse_date now i reason dur ps = (Inr q, qs)"
  shows "\<not> tradable f t qs \<and>
    (tradable f t (snd (autoResumePairs later qs)) \<longleftrightarrow> now + parseDuration parse_date now dur \<le> later)"
proof -
  let ?q = "p\<lparr>cp_isActive := False, cp_suspendedUntil := Some (now + parseDuration parse_date now dur),
       cp_suspensionReason := Some reason\<rparr>"
  have "same_codes ?q p" by (simp add: same_codes_def)
  from save_pair_same [OF ok p this] s p have qs: "qs = tbl_save i (pair_row ?q) ps" and ok': "pairs_ok qs"
    by (auto simp: suspendPair_def findPair_def op_defs)
  then have q: "tbl_find i qs = Some (pair_row ?q)" by (simp add: tbl_simps)
  have cq: "cp_fromCurrencyCode (pair_row ?q) = toUpperCase f" "cp_toCurrencyCode (pair_row ?q) = toUpperCase t"
    using c by (simp_all add: pair_row_def)
  let ?r = "if due_pair later (pair_row ?q) then pair_row (resumed (pair_row ?q)) else pair_row ?q"
  have ar: "pairs_ok (snd (autoResumePairs later qs))" "tbl_find i (snd (autoResumePairs later qs)) = Some ?r"
    using autoResume_find [OF ok', of later] q by auto
  have cr: "cp_fromCurrencyCode ?r = toUpperCase f" "cp_toCurrencyCode ?r = toUpperCase t"
    using c by (simp_all add: pair_row_def resumed_def)
  have "cp_isActive ?r \<longleftrightarrow> now + parseDuration parse_date now dur \<le> later" by (simp add: due_pair_def)
  with tradable_iff [OF ok' q cq] tradable_iff [OF ar cr] show ?thesis by simp
qed

definition demo_pair :: pair where
  "demo_pair = \<lparr>cp_fromCurrencyCode = ''XLM'', cp_toCurrencyCode = ''USD'', cp_spreadPercent = 1, cp_minAmountUsd = None,
     cp_maxAmountUsd = None, cp_isActive = True, cp_suspendedUntil = None, cp_suspensionReason = None\<rparr>"

theorem pair_suspension_witness:
  "\<exists>q qs. suspendPair (\<lambda>_. None) 100 ''p'' ''audit'' ''PT1H30M'' [(''p'', demo_pair)] = (Inr q, qs) \<and>
     \<not> tradable ''XLM'' ''USD'' qs \<and> \<not> tradable ''XLM'' ''USD'' (snd (autoResumePairs 5000000 qs)) \<and>
     tradable ''XLM'' ''USD'' (snd (autoResumePairs 5400100 qs))"
proof -
  let ?ps = "[(''p'', demo_pair)]"
  have d: "parseDuration (\<lambda>_. None) 100 ''PT1H30M'' = 5400000"
    by (simp add: parseDuration_def unit_group_def is_digit_def parse_nat_def Let_def)
  have ok: "pairs_ok ?ps" by (auto simp: pairs_ok_def tbl_find_def split: if_splits)
  have p: "tbl_find ''p'' ?ps = Some demo_pair" by (simp add: tbl_find_def)
  have c: "cp_fromCurrencyCode demo_pair = toUpperCase ''XLM''" "cp_toCurrencyCode demo_pair = toUpperCase ''USD''"
    by (simp_all add: demo_pair_def toUpperCase_def ascii_upper_def)
  obtain q qs where s: "suspendPair (\<lambda>_. None) 100 ''p'' ''audit'' ''PT1H30M'' ?ps = (Inr q, qs)"
    by (simp add: suspendPair_def findPair_def save_pair_def codes_taken_def op_defs tbl_find_def)
  from pair_suspension [OF ok p c s, of 5000000] pair_suspension [OF ok p c s, of 5400100] d s
  show ?thesis by simp
qed

end
