(* ===== verification/Beneficiaries.thy ===== *)
theory Beneficiaries
  imports Prelude
begin

text \<open>
  Saved withdrawal destinations (\<open>beneficiaries/beneficiaries.service.ts\<close>). A user marks at most one
  of them as the default; the service clears the old default before it sets a new one.
\<close>

section \<open>Data\<close>

datatype network = STELLAR | OTHER

record beneficiary =
  b_userId :: string
  b_nickname :: string
  b_walletAddress :: string
  b_currency :: string
  b_network :: network
  b_isDefault :: bool
  b_lastUsedAt :: "int option"
  b_createdAt :: int

type_synonym beneficiaries = "beneficiary table"

record create_beneficiary_dto =
  cb_nickname :: string
  cb_walletAddress :: string
  cb_currency :: string
  cb_network :: "network option"
  cb_isDefault :: "bool option"

record update_beneficiary_dto =
  ub_nickname :: "string option"
  ub_walletAddress :: "string option"
  ub_currency :: "string option"
  ub_network :: "network option"
  ub_isDefault :: "bool option"

section \<open>Operations\<close>

definition unset_default :: "string \<Rightarrow> beneficiary \<Rightarrow> beneficiary" where
  "unset_default userId b = (if b_userId b = userId \<and> b_isDefault b then b\<lparr>b_isDefault := False\<rparr> else b)"

definition clear_default :: "string \<Rightarrow> (beneficiaries, unit) op" where
  "clear_default userId = modify (map (\<lambda>(i, b). (i, unset_default userId b)))"

definition new_beneficiary :: "int \<Rightarrow> string \<Rightarrow> create_beneficiary_dto \<Rightarrow> beneficiary" where
  "new_beneficiary now userId dto = \<lparr>b_userId = userId, b_nickname = cb_nickname dto,
     b_walletAddress = cb_walletAddress dto, b_currency = cb_currency dto,
     b_network = (case cb_network dto of None \<Rightarrow> STELLAR | Some n \<Rightarrow> n),
     b_isDefault = (case cb_isDefault dto of None \<Rightarrow> False | Some d \<Rightarrow> d),
     b_lastUsedAt = None, b_createdAt = now\<rparr>"

definition createBeneficiary ::
    "int \<Rightarrow> string \<Rightarrow> string \<Rightarrow> create_beneficiary_dto \<Rightarrow> (beneficiaries, beneficiary) op" where
  "createBeneficiary now newId userId dto =
     bindE (if cb_isDefault dto = Some True then clear_default userId else ret ()) (\<lambda>_.
     bindE (modify (tbl_save newId (new_beneficiary now userId dto))) (\<lambda>_.
     ret (new_beneficiary now userId dto)))"

definition getUserBeneficiaries :: "string \<Rightarrow> beneficiaries \<Rightarrow> (string \<times> beneficiary) list" where
  "getUserBeneficiaries userId bs =
     sort_key (\<lambda>(i, b). (if b_isDefault b then 0 else 1 :: nat))
       (sort_key (\<lambda>(i, b). - b_createdAt b) (filter (\<lambda>(i, b). b_userId b = userId) bs))"

definition getBeneficiaryById :: "string \<Rightarrow> string \<Rightarrow> (beneficiaries, beneficiary) op" where
  "getBeneficiaryById userId i =
     bindE (gets (tbl_find i)) (\<lambda>found.
     bindE (from_option (NotFoundException ''Beneficiary with ID not found'') found) (\<lambda>b.
     bindE (require (b_userId b = userId)
       (ForbiddenException ''You do not have access to this beneficiary'')) (\<lambda>_.
     ret b)))"

definition updateLastUsed :: "int \<Rightarrow> string \<Rightarrow> (beneficiaries, unit) op" where
  "updateLastUsed now i = modify (tbl_update i (\<lambda>b. b\<lparr>b_lastUsedAt := Some now\<rparr>))"

definition patch :: "update_beneficiary_dto \<Rightarrow> beneficiary \<Rightarrow> beneficiary" where
  "patch d b = b\<lparr>b_nickname := (case ub_nickname d of None \<Rightarrow> b_nickname b | Some x \<Rightarrow> x),
     b_walletAddress := (case ub_walletAddress d of None \<Rightarrow> b_walletAddress b | Some x \<Rightarrow> x),
     b_currency := (case ub_currency d of None \<Rightarrow> b_currency b | Some x \<Rightarrow> x),
     b_network := (case ub_network d of None \<Rightarrow> b_network b | Some x \<Rightarrow> x),
     b_isDefault := (case ub_isDefault d of None \<Rightarrow> b_isDefault b | Some x \<Rightarrow> x)\<rparr>"

text \<open>\<open>update({ id, userId }, ...)\<close>: the row with that id, if it belongs to the user.\<close>

definition update_owned :: "string \<Rightarrow> string \<Rightarrow> (beneficiary \<Rightarrow> beneficiary) \<Rightarrow> (beneficiaries, unit) op" where
  "update_owned userId i f = modify (tbl_update i (\<lambda>b. if b_userId b = userId then f b else b))"

definition updateBeneficiary ::
    "string \<Rightarrow> string \<Rightarrow> update_beneficiary_dto \<Rightarrow> (beneficiaries, beneficiary) op" where
  "updateBeneficiary userId i dto =
     bindE (getBeneficiaryById userId i) (\<lambda>_.
     bindE (if ub_isDefault dto = Some True then clear_default userId else ret ()) (\<lambda>_.
     bindE (update_owned userId i (patch dto)) (\<lambda>_.
     getBeneficiaryById userId i)))"

definition deleteBeneficiary :: "string \<Rightarrow> string \<Rightarrow> (beneficiaries, unit) op" where
  "deleteBeneficiary userId i =
     bindE (getBeneficiaryById userId i) (\<lambda>_.
     modify (filter (\<lambda>(j, b). \<not> (j = i \<and> b_userId b = userId))))"

definition setDefault :: "string \<Rightarrow> string \<Rightarrow> (beneficiaries, beneficiary) op" where
  "setDefault userId i =
     bindE (getBeneficiaryById userId i) (\<lambda>_.
     bindE (clear_default userId) (\<lambda>_.
     bindE (update_owned userId i (\<lambda>b. b\<lparr>b_isDefault := True\<rparr>)) (\<lambda>_.
     getBeneficiaryById userId i)))"

section \<open>One default per user\<close>

definition is_default_of :: "string \<Rightarrow> string \<Rightarrow> beneficiaries \<Rightarrow> bool" where
  "is_default_of u i bs \<longleftrightarrow> (\<exists>b. tbl_find i bs = Some b \<and> b_userId b = u \<and> b_isDefault b)"

definition one_default :: "beneficiaries \<Rightarrow> bool" where
  "one_default bs \<longleftrightarrow> (\<forall>u i j. is_default_of u i bs \<longrightarrow> is_default_of u j bs \<longrightarrow> i = j)"

lemma unset_default_simps [simp]: "b_userId (unset_default u b) = b_userId b"
  "b_isDefault (unset_default u b) \<longleftrightarrow> b_isDefault b \<and> b_userId b \<noteq> u"
  by (auto simp: unset_default_def)

lemma clear_default_iff:
  "is_default_of v i (snd (clear_default u bs)) \<longleftrightarrow> v \<noteq> u \<and> is_default_of v i bs"
  by (cases "tbl_find i bs") (auto simp: clear_default_def modify_def is_default_of_def tbl_find_def map_of_map)

text \<open>A write to one row keeps the invariant when the row is no default afterwards, when it was one before, or
  when its user has no default at all.\<close>

lemma one_default_write:
  assumes one: "one_default bs"
    and other: "\<And>j. j \<noteq> i \<Longrightarrow> tbl_find j cs = tbl_find j bs"
    and row: "\<And>u. is_default_of u i cs \<Longrightarrow> is_default_of u i bs \<or> (\<forall>j. \<not> is_default_of u j bs)"
  shows "one_default cs"
proof -
  have o: "is_default_of u j cs \<longleftrightarrow> is_default_of u j bs" if "j \<noteq> i" for u j
    using other [OF that] by (simp add: is_default_of_def)
  show ?thesis unfolding one_default_def
  proof (intro allI impI)
    fix u j k assume "is_default_of u j cs" "is_default_of u k cs"
    with one o row show "j = k" unfolding one_default_def by metis
  qed
qed

lemma one_default_clear: "one_default bs \<Longrightarrow> one_default (snd (clear_default u bs))"
  by (auto simp: one_default_def clear_default_iff)

lemma filter_find:
  assumes "tbl_find j (filter P bs) = Some b" and "distinct (map fst bs)"
  shows "tbl_find j bs = Some b"
  using tbl_find_in [OF assms(1)] tbl_distinct_in [OF assms(2)] by simp

datatype beneficiary_event =
    CreateBeneficiary int string string create_beneficiary_dto
  | UpdateLastUsed int string
  | UpdateBeneficiary string string update_beneficiary_dto
  | DeleteBeneficiary string string
  | SetDefault string string

fun beneficiary_step :: "beneficiary_event \<Rightarrow> beneficiaries \<Rightarrow> beneficiaries" where
  "beneficiary_step (CreateBeneficiary now newId u dto) bs =
     (if tbl_find newId bs = None then snd (createBeneficiary now newId u dto bs) else bs)"
| "beneficiary_step (UpdateLastUsed now i) bs = snd (updateLastUsed now i bs)"
| "beneficiary_step (UpdateBeneficiary u i dto) bs = snd (updateBeneficiary u i dto bs)"
| "beneficiary_step (DeleteBeneficiary u i) bs = snd (deleteBeneficiary u i bs)"
| "beneficiary_step (SetDefault u i) bs = snd (setDefault u i bs)"

definition beneficiaries_ok :: "beneficiaries \<Rightarrow> bool" where
  "beneficiaries_ok bs \<longleftrightarrow> distinct (map fst bs) \<and> one_default bs"

lemma clear_keys: "map fst (snd (clear_default u bs)) = map fst bs"
  by (induction bs) (auto simp: clear_default_def modify_def)

lemma update_owned_ok:
  assumes one: "one_default bs" and keep: "\<And>b. b_userId (f b) = b_userId b"
    and d: "\<And>b. tbl_find i bs = Some b \<Longrightarrow> b_isDefault (f b) \<Longrightarrow> b_isDefault b \<or> (\<forall>j. \<not> is_default_of u j bs)"
  shows "one_default (snd (update_owned u i f bs))"
  by (rule one_default_write [OF one, of i])
    (use keep d in \<open>auto simp: update_owned_def modify_def tbl_simps is_default_of_def split: if_splits\<close>)

lemma getBeneficiary_iff:
  "getBeneficiaryById u i bs = (Inr b, cs) \<longleftrightarrow> cs = bs \<and> tbl_find i bs = Some b \<and> b_userId b = u"
  by (auto simp: getBeneficiaryById_def op_iff)

lemma getBeneficiary_state: "snd (getBeneficiaryById u i bs) = bs"
  by (auto simp: getBeneficiaryById_def op_defs split: option.splits)

lemma update_snd:
  "snd (bindE (getBeneficiaryById u i) (\<lambda>_. bindE m (\<lambda>_ :: unit. bindE (update_owned u i f) (\<lambda>_. getBeneficiaryById u i))) bs) =
     (case fst (getBeneficiaryById u i bs) of Inl _ \<Rightarrow> bs
      | Inr _ \<Rightarrow> (case fst (m bs) of Inl _ \<Rightarrow> snd (m bs) | Inr _ \<Rightarrow> snd (update_owned u i f (snd (m bs)))))"
proof -
  obtain r where g: "getBeneficiaryById u i bs = (r, bs)" by (metis getBeneficiary_state prod.collapse)
  obtain q cs where m: "m bs = (q, cs)" by fastforce
  show ?thesis
    by (cases r; cases q) (simp_all add: bindE_def g m update_owned_def modify_def getBeneficiary_state)
qed

lemma update_owned_keys: "map fst (snd (update_owned u i f bs)) = map fst bs"
  by (simp add: update_owned_def modify_def)

lemma beneficiary_step_ok:
  assumes ok: "beneficiaries_ok bs"
  shows "beneficiaries_ok (beneficiary_step e bs)"
proof -
  from ok have d: "distinct (map fst bs)" and one: "one_default bs" by (auto simp: beneficiaries_ok_def)
  have clear: "distinct (map fst (snd (clear_default u bs)))" "one_default (snd (clear_default u bs))" for u
    using d one clear_keys [of u bs] one_default_clear by auto
  show ?thesis
  proof (cases e)
    case (CreateBeneficiary now newId u dto)
    define cs where "cs = (if cb_isDefault dto = Some True then snd (clear_default u bs) else bs)"
    have cs: "distinct (map fst cs)" "one_default cs" using d one clear by (auto simp: cs_def)
    have no: "\<not> is_default_of u j cs" if "cb_isDefault dto = Some True" for j
      using that by (simp add: cs_def clear_default_iff)
    let ?b = "new_beneficiary now u dto"
    have b: "snd (createBeneficiary now newId u dto bs) = tbl_save newId ?b cs" "b_userId ?b = u"
      "b_isDefault ?b \<Longrightarrow> cb_isDefault dto = Some True"
      by (auto simp: createBeneficiary_def cs_def op_defs clear_default_def new_beneficiary_def split: option.splits)
    have "one_default (tbl_save newId ?b cs)"
      by (rule one_default_write [OF cs(2), of newId])
        (use b no in \<open>auto simp: tbl_simps is_default_of_def\<close>)
    with cs b ok show ?thesis by (simp add: CreateBeneficiary beneficiaries_ok_def)
  next
    case (UpdateLastUsed now i)
    have "one_default (snd (updateLastUsed now i bs))"
      by (rule one_default_write [OF one, of i])
        (auto simp: updateLastUsed_def modify_def tbl_simps is_default_of_def)
    with d show ?thesis by (simp add: UpdateLastUsed beneficiaries_ok_def updateLastUsed_def modify_def)
  next
    case (UpdateBeneficiary u i dto)
    define cs where "cs = (if ub_isDefault dto = Some True then snd (clear_default u bs) else bs)"
    have cs: "distinct (map fst cs)" "one_default cs" using d one clear by (auto simp: cs_def)
    have "\<not> is_default_of u j cs" if "ub_isDefault dto = Some True" for j
      using that by (simp add: cs_def clear_default_iff)
    then have "one_default (snd (update_owned u i (patch dto) cs))"
      by (intro update_owned_ok [OF cs(2)]) (auto simp: patch_def split: option.splits)
    moreover have "distinct (map fst (snd (update_owned u i (patch dto) cs)))" using cs(1) by (simp add: update_owned_keys)
    moreover have "snd (updateBeneficiary u i dto bs) \<in> {bs, snd (update_owned u i (patch dto) cs)}"
      unfolding updateBeneficiary_def update_snd
      by (auto simp: cs_def clear_default_def modify_def ret_def split: sum.splits)
    ultimately show ?thesis using ok by (auto simp: UpdateBeneficiary beneficiaries_ok_def)
  next
    case (DeleteBeneficiary u i)
    let ?cs = "filter (\<lambda>(j, b). \<not> (j = i \<and> b_userId b = u)) bs"
    have "one_default ?cs" using one filter_find [OF _ d] by (fastforce simp: one_default_def is_default_of_def)
    moreover have "snd (deleteBeneficiary u i bs) \<in> {bs, ?cs}"
      using getBeneficiary_state [of u i bs]
      by (auto simp: deleteBeneficiary_def bindE_def modify_def split: prod.splits sum.splits)
    ultimately show ?thesis using ok by (auto simp: DeleteBeneficiary beneficiaries_ok_def distinct_fst_filter)
  next
    case (SetDefault u i)
    let ?cs = "snd (clear_default u bs)" and ?f = "\<lambda>b :: beneficiary. b\<lparr>b_isDefault := True\<rparr>"
    have "one_default (snd (update_owned u i ?f ?cs))"
      by (rule update_owned_ok [OF clear(2)]) (auto simp: clear_default_iff)
    moreover have "distinct (map fst (snd (update_owned u i ?f ?cs)))" using clear(1) by (simp add: update_owned_keys)
    moreover have "snd (setDefault u i bs) \<in> {bs, snd (update_owned u i ?f ?cs)}"
      unfolding setDefault_def update_snd by (auto simp: clear_default_def modify_def split: sum.splits)
    ultimately show ?thesis using ok by (auto simp: SetDefault beneficiaries_ok_def)
  qed
qed

interpretation beneficiary_run: invariant_system beneficiary_step "\<lambda>_. True" beneficiaries_ok
  by unfold_locales (rule beneficiary_step_ok)

section \<open>Property\<close>

text \<open>Whatever a user creates, changes, deletes or selects, at most one of the user's beneficiaries is the
  default.\<close>

theorem beneficiary_one_default:
  assumes "distinct (map fst bs)" and "one_default bs"
    and "is_default_of u i (fold beneficiary_step es bs)" and "is_default_of u j (fold beneficiary_step es bs)"
  shows "i = j"
  using beneficiary_run.inv_run [of bs es] assms by (auto simp: beneficiaries_ok_def one_default_def)

definition demo_beneficiary :: create_beneficiary_dto where
  "demo_beneficiary = \<lparr>cb_nickname = ''cold'', cb_walletAddress = ''GA'', cb_currency = ''XLM'', cb_network = None,
     cb_isDefault = Some True\<rparr>"

theorem beneficiary_one_default_witness:
  "\<not> is_default_of ''bob'' ''b1'' (fold beneficiary_step
     [CreateBeneficiary 1 ''b1'' ''bob'' demo_beneficiary, CreateBeneficiary 2 ''b2'' ''bob'' demo_beneficiary] [])"
proof
  let ?bs = "fold beneficiary_step
     [CreateBeneficiary 1 ''b1'' ''bob'' demo_beneficiary, CreateBeneficiary 2 ''b2'' ''bob'' demo_beneficiary] []"
  assume a: "is_default_of ''bob'' ''b1'' ?bs"
  have b: "is_default_of ''bob'' ''b2'' ?bs"
    by (simp add: is_default_of_def createBeneficiary_def demo_beneficiary_def op_defs clear_default_def tbl_find_def
        tbl_save_def new_beneficiary_def)
  have "distinct (map fst ([] :: beneficiaries))" "one_default []" by (simp_all add: one_default_def is_default_of_def tbl_find_def)
  from beneficiary_one_default [OF this a b] show False by simp
qed

end
