(* ===== verification/Referrals.thy ===== *)
theory Referrals
  imports TxLimits
begin

text \<open>
  Referral rewards (\<open>referrals/referrals.service.ts\<close>, \<open>referrals/entities/referral.entity.ts\<close>). A
  referral belongs to one referred user (the referee); it is rewarded once the referee has a deposit with a hash
  of the network. \<open>referral_config\<close> holds the two environment variables of the reward, the amount read as
  a number. Push messages and webhooks are not part of the state.
\<close>

section \<open>Data\<close>

datatype referral_status = REF_PENDING | REF_REWARDED

record referral =
  rf_referrerId :: string
  rf_refereeId :: string
  rf_status :: referral_status
  rf_rewardAmount :: "rat option"
  rf_rewardCurrency :: "string option"
  rf_rewardedAt :: "int option"
  rf_createdAt :: int

record referral_state = limit_state +
  referrals :: "referral table"

record referral_config =
  REFERRAL_REWARD_AMOUNT :: "rat option"
  REFERRAL_REWARD_CURRENCY :: "string option"

record referral_stats =
  rs_referralCode :: string
  rs_referralCount :: nat
  rs_pendingRewards :: nat
  rs_totalEarned :: rat

section \<open>Operations\<close>

definition find_referral :: "string \<Rightarrow> 'a referral_state_scheme \<Rightarrow> (string \<times> referral) option" where
  "find_referral refereeId s = List.find (\<lambda>(i, r). rf_refereeId r = refereeId) (referrals s)"

definition save_referral :: "string \<Rightarrow> referral \<Rightarrow> 'a referral_state_scheme \<Rightarrow> 'a referral_state_scheme" where
  "save_referral i r s = s\<lparr>referrals := tbl_save i r (referrals s)\<rparr>"

definition createPendingReferral ::
    "(nat \<Rightarrow> string) \<Rightarrow> int \<Rightarrow> string \<Rightarrow> string \<Rightarrow> ('a referral_state_scheme, string \<times> referral) op" where
  "createPendingReferral uuid now referrerId refereeId =
     bindE (require (referrerId \<noteq> refereeId) (BadRequestException ''Users cannot refer themselves'')) (\<lambda>_.
     bindE (gets (find_referral refereeId)) (\<lambda>existing.
     case existing of Some r \<Rightarrow> ret r
     | None \<Rightarrow>
        bindE (gets (\<lambda>s. uuid (length (referrals s)))) (\<lambda>i.
        let r = \<lparr>rf_referrerId = referrerId, rf_refereeId = refereeId, rf_status = REF_PENDING,
              rf_rewardAmount = None, rf_rewardCurrency = None, rf_rewardedAt = None, rf_createdAt = now\<rparr>
        in bindE (modify (save_referral i r)) (\<lambda>_. ret (i, r)))))"

definition getReferralStats :: "string \<Rightarrow> ('a referral_state_scheme, referral_stats) op" where
  "getReferralStats userId =
     bindE (gets (findById userId)) (\<lambda>found.
     bindE (from_option (NotFoundException ''User not found'') found) (\<lambda>user.
     bindE (gets (\<lambda>s. filter (\<lambda>r. rf_referrerId r = userId) (map snd (referrals s)))) (\<lambda>rs.
     ret \<lparr>rs_referralCode = u_referralCode user, rs_referralCount = length rs,
          rs_pendingRewards = length (filter (\<lambda>r. rf_status r = REF_PENDING) rs),
          rs_totalEarned = foldl (\<lambda>sum r. js_add sum (case rf_rewardAmount r of None \<Rightarrow> 0 | Some x \<Rightarrow> parse_float x)) 0
            (filter (\<lambda>r. rf_status r = REF_REWARDED) rs)\<rparr>)))"

definition findByUserId :: "string \<Rightarrow> 'a referral_state_scheme \<Rightarrow> (string \<times> referral) list" where
  "findByUserId userId s = sort_key (\<lambda>(i, r). - rf_createdAt r)
     (filter (\<lambda>(i, r). rf_referrerId r = userId \<or> rf_refereeId r = userId) (referrals s))"

definition on_chain_deposits :: "string \<Rightarrow> 'a books_scheme \<Rightarrow> nat" where
  "on_chain_deposits refereeId s = length (filter (\<lambda>t. t_userId t = refereeId \<and> t_type t = DEPOSIT \<and>
     t_status t \<in> {PENDING, SUCCESS} \<and> truthy (t_txHash t)) (map snd (transactions s)))"

text \<open>The part of the request after the referral is found.\<close>

definition give_reward :: "referral_config \<Rightarrow> int \<Rightarrow> string \<Rightarrow> string \<times> referral \<Rightarrow> ('a referral_state_scheme, unit) op" where
  "give_reward cfg now refereeId = (\<lambda>(i, r).
     if rf_status r = REF_REWARDED then ret () else
     bindE (gets (on_chain_deposits refereeId)) (\<lambda>onChainDepositCount.
     if onChainDepositCount = 0 then ret () else
     let rewardAmount = (case REFERRAL_REWARD_AMOUNT cfg of None \<Rightarrow> 0 | Some x \<Rightarrow> x);
         rewardCurrency = (if truthy (REFERRAL_REWARD_CURRENCY cfg) then the (REFERRAL_REWARD_CURRENCY cfg) else ''USD'');
         saved = r\<lparr>rf_status := REF_REWARDED, rf_rewardAmount := Some (pg_numeric 8 rewardAmount),
           rf_rewardCurrency := Some rewardCurrency, rf_rewardedAt := Some now\<rparr>
     in bindE (modify (save_referral i saved)) (\<lambda>_.
        modify (notify (rf_referrerId r) ''Referral Reward Earned''
          ''You earned ${rewardAmount} ${rewardCurrency} from your referral.''))))"

definition processReferralReward ::
    "referral_config \<Rightarrow> (nat \<Rightarrow> string) \<Rightarrow> int \<Rightarrow> string \<Rightarrow> ('a referral_state_scheme, unit) op" where
  "processReferralReward cfg uuid now refereeId =
     bindE (gets (findById refereeId)) (\<lambda>referee.
     if \<not> (case referee of None \<Rightarrow> False | Some u \<Rightarrow> truthy (u_referredBy u)) then ret () else
     bindE (gets (find_referral refereeId)) (\<lambda>found.
     bindE (case found of Some r \<Rightarrow> ret r
            | None \<Rightarrow> createPendingReferral uuid now (the (u_referredBy (the referee))) refereeId) (\<lambda>r.
     give_reward cfg now refereeId r)))"

section \<open>The abstract book of referrals\<close>

text \<open>What the service promises, without rows and ids: who referred a user, and whether that was rewarded. A
  reward request adds the missing entry, and announces the reward to the referrer the first time the referee has
  paid in.\<close>

type_synonym referral_book = "string \<Rightarrow> (string \<times> bool) option"

definition book_of :: "'a referral_state_scheme \<Rightarrow> referral_book" where
  "book_of s e = map_option (\<lambda>(i, r). (rf_referrerId r, rf_status r = REF_REWARDED)) (find_referral e s)"

definition spec_pending :: "string \<Rightarrow> string \<Rightarrow> referral_book \<Rightarrow> referral_book" where
  "spec_pending r e b = (if b e = None \<and> r \<noteq> e then b(e \<mapsto> (r, False)) else b)"

definition spec_reward :: "string option \<Rightarrow> bool \<Rightarrow> string \<Rightarrow> referral_book \<Rightarrow> referral_book \<times> string list" where
  "spec_reward referredBy paid e b =
     (if \<not> truthy referredBy then (b, []) else
      let b' = spec_pending (the referredBy) e b
      in case b' e of
           Some (r, False) \<Rightarrow> if paid then (b'(e \<mapsto> (r, True)), [r]) else (b', [])
         | _ \<Rightarrow> (b', []))"

definition referrals_ok :: "(nat \<Rightarrow> string) \<Rightarrow> 'a referral_state_scheme \<Rightarrow> bool" where
  "referrals_ok uuid s \<longleftrightarrow> map fst (referrals s) = map uuid [0..<length (referrals s)] \<and>
     distinct (map (rf_refereeId \<circ> snd) (referrals s))"

lemma save_referral_ok:
  assumes ok: "referrals_ok uuid s" and inj: "inj uuid" and e: "rf_refereeId r = e"
    and at: "(\<exists>r0. find_referral e s = Some (i, r0)) \<or> (find_referral e s = None \<and> i = uuid (length (referrals s)))"
  shows "referrals_ok uuid (save_referral i r s) \<and>
    find_referral e' (save_referral i r s) = (if e' = e then Some (i, r) else find_referral e' s)"
proof -
  let ?t = "referrals s"
  from ok have ids: "map fst ?t = map uuid [0..<length ?t]" and d: "distinct (map (rf_refereeId \<circ> snd) ?t)"
    by (auto simp: referrals_ok_def)
  from ids inj have df: "distinct (map fst ?t)" by (simp add: distinct_map inj_on_def)
  from at show ?thesis
  proof
    assume "\<exists>r0. find_referral e s = Some (i, r0)"
    then obtain r0 where r0: "(i, r0) \<in> set ?t" "rf_refereeId r = rf_refereeId r0"
      using e find_SomeD unfolding find_referral_def by fastforce
    have "length (tbl_save i r ?t) = length ?t" using keys_update [OF df r0] by (metis length_map)
    with keys_update [OF df r0] find_update [OF df d r0, of e'] e ids d show ?thesis
      by (simp add: referrals_ok_def save_referral_def find_referral_def)
  next
    assume a: "find_referral e s = None \<and> i = uuid (length ?t)"
    then have "tbl_find i ?t = None"
      using ids inj unfolding tbl_find_None_keys by (metis imageE inj_eq less_irrefl atLeastLessThan_iff set_map set_upt)
    moreover have "e \<notin> set (map (rf_refereeId \<circ> snd) ?t)" using a by (fastforce simp: find_referral_def find_None_iff)
    ultimately show ?thesis using a e ids d
      by (auto simp: referrals_ok_def save_referral_def find_referral_def tbl_save_new find_append
          split: option.splits)
  qed
qed

lemma createPending_Inr:
  assumes ok: "referrals_ok uuid s" and inj: "inj uuid"
    and c: "createPendingReferral uuid now r e s = (x, t)"
  shows "referrals_ok uuid t \<and> book_of t = spec_pending r e (book_of s) \<and> notifications t = notifications s \<and>
    users t = users s \<and> transactions t = transactions s \<and> (x = Inl (BadRequestException ''Users cannot refer themselves'') \<and> r = e \<or>
      (r \<noteq> e \<and> (\<exists>q. x = Inr q \<and> find_referral e t = Some q)))"
proof (cases "r = e \<or> find_referral e s \<noteq> None")
  case True
  with c ok show ?thesis
    by (auto simp: createPendingReferral_def op_defs spec_pending_def book_of_def split: if_splits)
next
  case False
  then have n: "find_referral e s = None" "r \<noteq> e" by blast+
  let ?r = "\<lparr>rf_referrerId = r, rf_refereeId = e, rf_status = REF_PENDING, rf_rewardAmount = None,
    rf_rewardCurrency = None, rf_rewardedAt = None, rf_createdAt = now\<rparr>" and ?i = "uuid (length (referrals s))"
  have t: "t = save_referral ?i ?r s" "x = Inr (?i, ?r)"
    using n c by (auto simp: createPendingReferral_def op_defs Let_def)
  have "find_referral e' t = (if e' = e then Some (?i, ?r) else find_referral e' s)" "referrals_ok uuid t" for e'
    using save_referral_ok [OF ok inj, of ?r e ?i e'] n t(1) by simp_all
  with n t show ?thesis
    by (auto simp: book_of_def spec_pending_def fun_eq_iff save_referral_def)
qed

lemma reward_refines:
  assumes ok: "referrals_ok uuid s" and inj: "inj uuid" and p: "processReferralReward cfg uuid now e s = (x, t)"
    and ref: "referredBy = Option.bind (findById e s) u_referredBy"
    and spec: "spec_reward referredBy (0 < on_chain_deposits e s) e (book_of s) = (b, rs)"
  shows "referrals_ok uuid t \<and> book_of t = b \<and> map n_userId (notifications t) = map n_userId (notifications s) @ rs \<and>
    users t = users s \<and> transactions t = transactions s"
proof (cases "truthy referredBy")
  case False
  with p ref spec ok show ?thesis
    by (auto simp: processReferralReward_def op_defs spec_reward_def truthy_def split: option.splits)
next
  case True
  then obtain u where u: "findById e s = Some u" and r: "truthy (u_referredBy u)" "referredBy = u_referredBy u"
    using ref by (cases "findById e s") (auto simp: truthy_def)
  define r where "r = the (u_referredBy u)"
  define find :: "('a referral_state_scheme, string \<times> referral) op"
    where "find = (case find_referral e s of Some r \<Rightarrow> ret r | None \<Rightarrow> createPendingReferral uuid now r e)"
  obtain y v where f: "find s = (y, v)" by fastforce
  have P: "(x, t) = bindE find (give_reward cfg now e) s"
    using p u r(1) by (cases "find_referral e s") (simp_all add: processReferralReward_def bindE_def gets_def find_def r_def)
  have v: "referrals_ok uuid v \<and> book_of v = spec_pending r e (book_of s) \<and> notifications v = notifications s \<and>
      users v = users s \<and> transactions v = transactions s \<and>
      (r = e \<and> book_of s e = None \<and> (\<exists>z. y = Inl z) \<or> (\<exists>q. y = Inr q \<and> find_referral e v = Some q))"
  proof (cases "find_referral e s")
    case None
    then have "createPendingReferral uuid now r e s = (y, v)" using f by (simp add: find_def)
    from createPending_Inr [OF ok inj this] None show ?thesis by (auto simp: book_of_def)
  next
    case (Some q)
    with f ok show ?thesis by (cases q) (auto simp: find_def ret_def book_of_def spec_pending_def)
  qed
  have dep: "on_chain_deposits e v = on_chain_deposits e s" using v by (simp add: on_chain_deposits_def)
  show ?thesis
  proof (cases y)
    case (Inl z)
    with P f have "t = v" by (simp add: bindE_def)
    with Inl v spec r show ?thesis by (auto simp: spec_reward_def r_def spec_pending_def Let_def)
  next
    case (Inr q)
    obtain i w where q: "q = (i, w)" by fastforce
    with v Inr have fv: "find_referral e v = Some (i, w)" by auto
    then have we: "rf_refereeId w = e" using find_SomeD unfolding find_referral_def by fastforce
    have b: "spec_pending r e (book_of s) e = Some (rf_referrerId w, rf_status w = REF_REWARDED)"
      using v fv by (metis (mono_tags, lifting) book_of_def case_prod_conv option.simps(9))
    show ?thesis
    proof (cases "rf_status w = REF_REWARDED \<or> on_chain_deposits e s = 0")
      case True
      then have "t = v" using P f Inr q dep
        by (cases "rf_status w = REF_REWARDED") (auto simp: give_reward_def op_defs)
      moreover have "b = spec_pending r e (book_of s)" "rs = []"
        using True spec r b by (auto simp: spec_reward_def r_def Let_def split: bool.splits if_splits)
      ultimately show ?thesis using v by simp
    next
      case False
      let ?w = "w\<lparr>rf_status := REF_REWARDED,
         rf_rewardAmount := Some (pg_numeric 8 (case REFERRAL_REWARD_AMOUNT cfg of None \<Rightarrow> 0 | Some x \<Rightarrow> x)),
         rf_rewardCurrency := Some (if truthy (REFERRAL_REWARD_CURRENCY cfg) then the (REFERRAL_REWARD_CURRENCY cfg) else ''USD''),
         rf_rewardedAt := Some now\<rparr>"
      have t: "t = notify (rf_referrerId w) ''Referral Reward Earned''
          ''You earned ${rewardAmount} ${rewardCurrency} from your referral.'' (save_referral i ?w v)"
        using False P f Inr q dep by (simp add: give_reward_def op_defs Let_def)
      have s: "find_referral e' (save_referral i ?w v) = (if e' = e then Some (i, ?w) else find_referral e' v)"
        "referrals_ok uuid (save_referral i ?w v)" for e'
        using save_referral_ok [OF _ inj, of v ?w e i e'] v fv we by auto
      have "book_of t = (book_of v)(e \<mapsto> (rf_referrerId w, True))"
        using s(1) by (auto simp: t book_of_def notify_def find_referral_def fun_eq_iff)
      moreover have "referrals_ok uuid t" using s(2) by (simp add: t referrals_ok_def notify_def)
      moreover have "b = (spec_pending r e (book_of s))(e \<mapsto> (rf_referrerId w, True))" "rs = [rf_referrerId w]"
        using False spec r b by (auto simp: spec_reward_def r_def Let_def)
      ultimately show ?thesis using v by (simp add: t notify_def save_referral_def)
    qed
  qed
qed

section \<open>Runs\<close>

text \<open>Between the requests of this service the rest of the program changes users and transactions.\<close>

datatype referral_event =
    RefCreate int string string
  | RefReward int string
  | RefOutside "user table" "transaction table"

fun referral_step :: "referral_config \<Rightarrow> (nat \<Rightarrow> string) \<Rightarrow> referral_event \<Rightarrow> referral_state \<Rightarrow> referral_state" where
  "referral_step cfg uuid (RefCreate now r e) s = snd (createPendingReferral uuid now r e s)"
| "referral_step cfg uuid (RefReward now e) s = snd (processReferralReward cfg uuid now e s)"
| "referral_step cfg uuid (RefOutside us ts) s = s\<lparr>users := us, transactions := ts\<rparr>"

definition rewarded :: "referral_state \<Rightarrow> string set" where
  "rewarded s = {e. \<exists>r. book_of s e = Some (r, True)}"

lemma finite_rewarded: "finite (rewarded s)"
proof (rule finite_subset)
  show "rewarded s \<subseteq> rf_refereeId ` snd ` set (referrals s)"
  proof
    fix e assume "e \<in> rewarded s"
    then obtain i r where "find_referral e s = Some (i, r)" by (auto simp: rewarded_def book_of_def)
    then have "(i, r) \<in> set (referrals s)" "rf_refereeId r = e" using find_SomeD unfolding find_referral_def by fastforce+
    then show "e \<in> rf_refereeId ` snd ` set (referrals s)" by force
  qed
qed simp

text \<open>The announcements made since a start with the referees \<open>R\<close> rewarded and \<open>n\<close> notifications sent.\<close>

definition accounted :: "(nat \<Rightarrow> string) \<Rightarrow> string set \<Rightarrow> nat \<Rightarrow> referral_state \<Rightarrow> bool" where
  "accounted uuid R n s \<longleftrightarrow> inj uuid \<and> referrals_ok uuid s \<and> R \<subseteq> rewarded s \<and>
     length (notifications s) = n + card (rewarded s - R)"

lemma spec_reward_rewarded:
  assumes "spec_reward r p e b = (b', rs)"
  shows "{e. \<exists>r. b' e = Some (r, True)} = (if rs = [] then {} else {e}) \<union> {e. \<exists>r. b e = Some (r, True)} \<and>
    length rs \<le> 1 \<and> (rs \<noteq> [] \<longrightarrow> (\<forall>q. b e \<noteq> Some (q, True)))"
  using assms by (auto simp: spec_reward_def spec_pending_def Let_def split: if_splits option.splits prod.splits bool.splits)

lemma referral_step_accounted:
  assumes a: "accounted uuid R n s"
  shows "accounted uuid R n (referral_step cfg uuid ev s)"
proof (cases ev)
  case (RefCreate now r e)
  obtain x t where c: "createPendingReferral uuid now r e s = (x, t)" by fastforce
  have "rewarded t = rewarded s" if "book_of t = spec_pending r e (book_of s)"
    using that by (auto simp: rewarded_def spec_pending_def)
  with a createPending_Inr [OF _ _ c] c RefCreate show ?thesis by (auto simp: accounted_def)
next
  case (RefReward now e)
  obtain x t where p: "processReferralReward cfg uuid now e s = (x, t)" by fastforce
  obtain b rs where b: "spec_reward (Option.bind (findById e s) u_referredBy) (0 < on_chain_deposits e s) e (book_of s) = (b, rs)"
    by fastforce
  from a have ok: "referrals_ok uuid s" "inj uuid" by (auto simp: accounted_def)
  from reward_refines [OF ok p refl b] have t: "referrals_ok uuid t" "book_of t = b"
    "length (notifications t) = length (notifications s) + length rs"
    by (auto dest: arg_cong [where f = length])
  from spec_reward_rewarded [OF b] t have r: "rewarded t = (if rs = [] then {} else {e}) \<union> rewarded s"
    "length rs \<le> 1" "rs \<noteq> [] \<Longrightarrow> e \<notin> rewarded s" by (auto simp: rewarded_def)
  show ?thesis
  proof (cases "rs = []")
    case True
    with a t r p RefReward show ?thesis by (simp add: accounted_def)
  next
    case False
    with r have "length rs = 1" "rewarded t - R = insert e (rewarded s - R)" "e \<notin> rewarded s - R"
      using a by (auto simp: accounted_def le_Suc_eq)
    with a t r p RefReward finite_rewarded [of s] show ?thesis by (auto simp: accounted_def)
  qed
next
  case (RefOutside us ts)
  with a show ?thesis by (simp add: accounted_def referrals_ok_def rewarded_def book_of_def find_referral_def)
qed

interpretation referral_run: invariant_system "referral_step cfg uuid" "\<lambda>_. True" "accounted uuid R n" for cfg uuid R n
  by unfold_locales (rule referral_step_accounted)

section \<open>Properties\<close>

text \<open>C31. A reward request does to the rows what the abstract book says: it adds the missing entry, rewards it the
  first time the referee has a deposit on chain and announces that to the referrer. It moves no balance: the
  announced amount is never paid.\<close>

theorem referral_reward_refines:
  assumes "referrals_ok uuid s" and "inj uuid"
    and "spec_reward (Option.bind (findById e s) u_referredBy) (0 < on_chain_deposits e s) e (book_of s) = (b, rs)"
  shows "book_of (snd (processReferralReward cfg uuid now e s)) = b \<and>
    map n_userId (notifications (snd (processReferralReward cfg uuid now e s))) = map n_userId (notifications s) @ rs \<and>
    users (snd (processReferralReward cfg uuid now e s)) = users s"
  using reward_refines [OF assms(1,2) prod.collapse [symmetric] refl assms(3), of cfg now] by simp

definition demo_referral_state :: referral_state where
  "demo_referral_state = \<lparr>users = [(''eve'', (demo_user 5)\<lparr>u_referredBy := Some ''bob''\<rparr>)], wallets = [], notifications = [],
     calls = 0, payments = [], ledger = [],
     transactions = [(''t'', (demo_tx DEPOSIT)\<lparr>t_userId := ''eve'', t_txHash := Some ''h''\<rparr>)],
     tx_limits = [], referrals = []\<rparr>"

definition demo_config :: referral_config where
  "demo_config = \<lparr>REFERRAL_REWARD_AMOUNT = None, REFERRAL_REWARD_CURRENCY = None\<rparr>"

definition demo_uuid :: "nat \<Rightarrow> string" where
  "demo_uuid n = replicate n CHR ''x''"

lemma demo_uuid_inj: "inj demo_uuid"
  unfolding inj_def demo_uuid_def by (metis length_replicate)

theorem referral_reward_refines_witness:
  "book_of (snd (processReferralReward demo_config demo_uuid 7 ''eve'' demo_referral_state)) = [''eve'' \<mapsto> (''bob'', True)] \<and>
   map n_userId (notifications (snd (processReferralReward demo_config demo_uuid 7 ''eve'' demo_referral_state))) = [''bob'']"
proof -
  let ?s = demo_referral_state
  have ok: "referrals_ok demo_uuid ?s" by (simp add: referrals_ok_def demo_referral_state_def)
  have b: "book_of ?s = Map.empty" by (simp add: book_of_def find_referral_def demo_referral_state_def fun_eq_iff)
  have sp: "spec_reward (Option.bind (findById ''eve'' ?s) u_referredBy) (0 < on_chain_deposits ''eve'' ?s) ''eve'' (book_of ?s) =
      ([''eve'' \<mapsto> (''bob'', True)], [''bob''])"
    unfolding b by (simp add: spec_reward_def spec_pending_def findById_def tbl_find_def on_chain_deposits_def truthy_def
        demo_referral_state_def demo_tx_def)
  from referral_reward_refines [OF ok demo_uuid_inj sp, of demo_config 7] show ?thesis
    by (simp add: demo_referral_state_def)
qed

text \<open>Whatever requests arrive and however users and transactions change in between, a referee is rewarded at most
  once: a reward is never taken back, and there are exactly as many announcements as newly rewarded
  referees.\<close>

theorem referral_rewarded_once:
  assumes "referrals_ok uuid s" and "inj uuid"
  shows "rewarded s \<subseteq> rewarded (fold (referral_step cfg uuid) es s) \<and>
    length (notifications (fold (referral_step cfg uuid) es s)) =
      length (notifications s) + card (rewarded (fold (referral_step cfg uuid) es s) - rewarded s)"
  using referral_run.inv_run [of uuid "rewarded s" "length (notifications s)" s es cfg] assms
  by (simp add: accounted_def)

theorem referral_rewarded_once_witness:
  "length (notifications (fold (referral_step demo_config demo_uuid) [RefReward 7 ''eve'', RefReward 8 ''eve''] demo_referral_state)) =
     card (rewarded (fold (referral_step demo_config demo_uuid) [RefReward 7 ''eve'', RefReward 8 ''eve''] demo_referral_state))"
proof -
  have ok: "referrals_ok demo_uuid demo_referral_state" by (simp add: referrals_ok_def demo_referral_state_def)
  have "rewarded demo_referral_state = {}"
    by (simp add: rewarded_def book_of_def find_referral_def demo_referral_state_def)
  with referral_rewarded_once [OF ok demo_uuid_inj, of demo_config "[RefReward 7 ''eve'', RefReward 8 ''eve'']"]
  show ?thesis by (simp add: demo_referral_state_def del: fold_simps)
qed

end
