(* ===== verification/Transactions.thy ===== *)
theory Transactions
  imports Referrals Markets Beneficiaries
begin

text \<open>
  Deposits, withdrawals and swaps (\<open>transactions/services/transaction.service.ts\<close>), their verification on
  the network and by the scheduled job (\<open>transactions/services/transaction-verification.service.ts\<close>), and
  the calls of \<open>modules/stellar/stellar.service.ts\<close> they make. \<open>tx_env\<close> collects what the code gets from
  outside: the network, exchange rates, configuration, the clock and the ids of new rows.
  \<open>te_sdk_in_scope\<close> says whether the names \<open>Operation\<close> and \<open>Asset\<close>, which the service
  uses without an import, are bound; when they are not, using them throws. Texts are byte strings. Log output,
  audit entries, push messages, webhooks and the queues of other services are not part of the state.
\<close>

section \<open>State and environment\<close>

record tx_state = referral_state +
  fee_rules :: fee_configs
  fee_records :: "fee_record list"
  currency_rows :: currencies
  pair_rows :: pairs
  beneficiary_rows :: beneficiaries
  system_categories :: "(string \<times> string) list"

record account_lookup =
  al_status :: "int option"
  al_balances :: "(string \<times> rat) list option"

record path_record =
  pr_source_amount :: rat
  pr_destination_amount :: rat
  pr_path :: "(string \<times> string) list"

datatype send_mode = StrictSend | StrictReceive

record path_op =
  po_mode :: send_mode
  po_sendAsset :: string
  po_sendAmount :: rat
  po_destAsset :: string
  po_destAmount :: rat
  po_destination :: string
  po_path :: "(string \<times> string) list"

record tx_env =
  te_horizon :: horizon
  te_rate :: rates
  te_uuid :: "nat \<Rightarrow> string"
  te_now :: int
  te_hot_secret :: "string option"
  te_referral :: referral_config
  te_load_account :: "string \<Rightarrow> account_lookup"
  te_too_slow :: "string \<Rightarrow> bool"
  te_build :: "string \<Rightarrow> string \<Rightarrow> bool"
  te_sign :: "string \<Rightarrow> bool"
  te_submit :: "nat \<Rightarrow> path_op \<Rightarrow> string \<Rightarrow> string + string option"
  te_lookup :: "nat \<Rightarrow> string \<Rightarrow> bool option"
  te_paths :: "send_mode \<Rightarrow> string \<Rightarrow> string \<Rightarrow> rat \<Rightarrow> path_record list option"
  te_slippage :: "rat option"
  te_sdk_in_scope :: bool

record deposit_dto =
  cd_amount :: rat
  cd_currency :: string
  cd_sourceAddress :: string
  cd_walletId :: "string option"
  cd_memo :: "string option"

record withdrawal_dto =
  cw_amount :: rat
  cw_currency :: string
  cw_destinationAddress :: "string option"
  cw_beneficiaryId :: "string option"
  cw_walletId :: "string option"
  cw_memo :: "string option"

record swap_dto =
  sw_amount :: rat
  sw_fromCurrency :: string
  sw_toCurrency :: string
  sw_sourceAddress :: string
  sw_walletId :: "string option"
  sw_memo :: "string option"

section \<open>Texts\<close>

text \<open>The characters of a UTF-8 text, without an incomplete character at the end.\<close>

definition utf8_length :: "char \<Rightarrow> nat" where
  "utf8_length c = (let n = (of_char c :: nat) in if n < 192 then 1 else if n < 224 then 2 else if n < 240 then 3 else 4)"

function utf8_chars :: "string \<Rightarrow> string list" where
  "utf8_chars [] = []"
| "utf8_chars (c # cs) = (if length (c # cs) < utf8_length c then []
     else take (utf8_length c) (c # cs) # utf8_chars (drop (utf8_length c) (c # cs)))"
  by pat_completeness auto

termination by (relation "measure length") (auto simp: utf8_length_def Let_def)

definition replacement_character :: string where
  "replacement_character = [char_of (0xEF :: nat), char_of (0xBF :: nat), char_of (0xBD :: nat)]"

definition truncateMemoTo28Bytes :: "string \<Rightarrow> string" where
  "truncateMemoTo28Bytes memo = (if length memo \<le> 28 then memo
     else concat (filter (\<lambda>c. c \<noteq> replacement_character) (utf8_chars (take 28 memo))))"

fun has_text :: "string \<Rightarrow> string \<Rightarrow> bool" where
  "has_text p [] \<longleftrightarrow> p = []"
| "has_text p (c # cs) \<longleftrightarrow> take (length p) (c # cs) = p \<or> has_text p cs"

section \<open>The network\<close>

definition getWalletBalances :: "tx_env \<Rightarrow> string \<Rightarrow> exn + (string \<times> rat) list" where
  "getWalletBalances E publicKey =
     (let answer = te_load_account E publicKey in
      case al_balances answer of
        Some bs \<Rightarrow> Inr bs
      | None \<Rightarrow> if al_status answer = Some 404 then Inr []
                else Inl (PlainError ''Failed to fetch Stellar wallet balances''))"

definition validateStellarDestination :: "tx_env \<Rightarrow> string \<Rightarrow> exn + unit" where
  "validateStellarDestination E address =
     (case (if te_too_slow E address then Inl (PlainError ''timeout'') else getWalletBalances E address) of
        Inr _ \<Rightarrow> Inr ()
      | Inl err \<Rightarrow>
          (let message = exn_message err in
           if message = ''timeout'' then Inr ()
           else if has_text ''404'' message \<or> has_text ''not found'' (map ascii_lower message) \<or>
               has_text ''does not exist'' (map ascii_lower message)
             then Inl (BadRequestException ''Destination account is not activated on the Stellar network. '')
           else Inr ()))"

definition createTransaction :: "tx_env \<Rightarrow> string \<Rightarrow> string \<Rightarrow> exn + unit" where
  "createTransaction E sourcePublicKey memo =
     (if te_build E sourcePublicKey memo then Inr () else Inl (PlainError ''Failed to build Stellar transaction''))"

definition signTransaction :: "tx_env \<Rightarrow> string \<Rightarrow> exn + unit" where
  "signTransaction E secretKey =
     (if te_sign E secretKey then Inr () else Inl (PlainError ''Failed to sign Stellar transaction''))"

text \<open>A submission that fails throws the result codes of the network, as a text; an answer without a hash is
  \<open>Inr None\<close>.\<close>

definition submitTransaction :: "tx_env \<Rightarrow> path_op \<Rightarrow> string \<Rightarrow> ('a chain_scheme, string option) op" where
  "submitTransaction E op memo s =
     (case te_submit E (calls s) op memo of
        Inl codes \<Rightarrow> (Inl (PlainError codes), s\<lparr>calls := Suc (calls s)\<rparr>)
      | Inr h \<Rightarrow> (Inr h, s\<lparr>calls := Suc (calls s)\<rparr>))"

definition verify_hash :: "tx_env \<Rightarrow> string \<Rightarrow> ('a chain_scheme, tx_status) op" where
  "verify_hash E txHash s =
     (Inr (case te_lookup E (calls s) txHash of None \<Rightarrow> PENDING | Some True \<Rightarrow> SUCCESS | Some False \<Rightarrow> FAILED),
      s\<lparr>calls := Suc (calls s)\<rparr>)"

definition findBestPath :: "tx_env \<Rightarrow> string \<Rightarrow> string \<Rightarrow> rat \<Rightarrow> send_mode \<Rightarrow> path_record list" where
  "findBestPath E sourceAsset destAsset amount mode =
     (case te_paths E mode sourceAsset destAsset amount of
        None \<Rightarrow> []
      | Some paths \<Rightarrow>
          (case mode of
             StrictSend \<Rightarrow> sort_key (\<lambda>p. - parse_float (pr_destination_amount p)) paths
           | StrictReceive \<Rightarrow> sort_key (\<lambda>p. parse_float (pr_source_amount p)) paths))"

text \<open>The amounts of the request: the smallest amount to receive, or the largest amount to send.\<close>

definition buildPathPaymentOp :: "rat \<Rightarrow> path_op \<Rightarrow> path_op" where
  "buildPathPaymentOp slippage p =
     (case po_mode p of
        StrictSend \<Rightarrow> p\<lparr>po_destAmount := to_fixed 7 (js_mul (parse_float (po_destAmount p)) (js_sub 1 slippage))\<rparr>
      | StrictReceive \<Rightarrow> p\<lparr>po_sendAmount := to_fixed 7 (js_mul (parse_float (po_sendAmount p)) (js_add 1 slippage))\<rparr>)"

section \<open>Helpers of the service\<close>

definition save_tx :: "string \<Rightarrow> transaction \<Rightarrow> ('a books_scheme, unit) op" where
  "save_tx i t = modify (\<lambda>s. s\<lparr>transactions := tbl_save i t (transactions s)\<rparr>)"

definition find_tx :: "string \<Rightarrow> ('a books_scheme, transaction) op" where
  "find_tx i = bindE (gets (\<lambda>s. tbl_find i (transactions s))) (from_option (NotFoundException ''Transaction not found''))"

definition getUserStellarAddress :: "string \<Rightarrow> string option \<Rightarrow> ('a base_scheme, string) op" where
  "getUserStellarAddress userId walletId =
     bindE (resolveWalletForTransaction userId walletId False) (\<lambda>ctx. ret (wc_publicKey ctx))"

definition getUserStellarSecretKey :: "tx_env \<Rightarrow> string \<Rightarrow> string option \<Rightarrow> ('a base_scheme, string) op" where
  "getUserStellarSecretKey E userId walletId =
     bindE (resolveWalletForTransaction userId walletId False) (\<lambda>ctx.
     bindE (require (truthy (wc_encryptedSecretKey ctx))
       (BadRequestException ''This wallet is watch-only and cannot sign transactions'')) (\<lambda>_.
     decrypt_op (te_horizon E) (the (wc_encryptedSecretKey ctx))))"

definition getStellarSecretKey :: "tx_env \<Rightarrow> ('s, string) op" where
  "getStellarSecretKey E =
     bindE (require (truthy (te_hot_secret E))
       (BadRequestException ''Secret key required for this operation. Please provide it securely.'')) (\<lambda>_.
     ret (the (te_hot_secret E)))"

definition getUserBalance :: "string \<Rightarrow> string \<Rightarrow> ('a base_scheme, rat) op" where
  "getUserBalance userId currency =
     bindE (gets (findById userId)) (\<lambda>found.
     bindE (from_option (NotFoundException ''User not found'') found) (\<lambda>user.
     ret (balance_of user currency)))"

definition write_new_balance :: "string \<Rightarrow> string \<Rightarrow> rat \<Rightarrow> user option \<Rightarrow> ('a base_scheme, unit) op" where
  "write_new_balance userId currency amount found =
     bindE (from_option (NotFoundException ''User not found'') found) (\<lambda>user.
     let newBalance = js_add (balance_of user currency) amount in
     bindE (require (\<not> newBalance < 0) (BadRequestException ''Insufficient balance'')) (\<lambda>_.
     modify (updateByUserId userId (\<lambda>u. u\<lparr>u_balances := set_balance currency newBalance (u_balances user)\<rparr>))))"

definition updateUserBalance :: "string \<Rightarrow> string \<Rightarrow> rat \<Rightarrow> ('a base_scheme, unit) op" where
  "updateUserBalance userId currency amount =
     bindE (gets (findById userId)) (write_new_balance userId currency amount)"

definition category_name :: "tx_type \<Rightarrow> string" where
  "category_name ty = (case ty of SWAP \<Rightarrow> ''Exchange'' | WITHDRAW \<Rightarrow> ''Transfers'' | DEPOSIT \<Rightarrow> ''Transfers'' | _ \<Rightarrow> ''Other'')"

text \<open>A transaction of this service carries no metadata with a source, so a deposit is a transfer.\<close>

definition autoAssignCategory :: "string \<Rightarrow> transaction \<Rightarrow> ('a tx_state_scheme, transaction) op" where
  "autoAssignCategory i t =
     bindE (gets (\<lambda>s. List.find (\<lambda>(c, n). n = category_name (t_type t)) (system_categories s))) (\<lambda>category.
     case category of None \<Rightarrow> ret t
     | Some (c, n) \<Rightarrow> bindE (save_tx i (t\<lparr>t_categoryId := Some c\<rparr>)) (\<lambda>_. ret (t\<lparr>t_categoryId := Some c\<rparr>)))"

text \<open>The transaction row, the fee record and the ledger entries are written in one database transaction.\<close>

definition recordFee :: "string \<Rightarrow> string \<Rightarrow> calculated_fee \<Rightarrow> ('a tx_state_scheme, unit) op" where
  "recordFee i userId fee = modify (\<lambda>s. s\<lparr>fee_records := fee_records s @ [feeRecord i userId fee]\<rparr>)"

definition record_entries :: "string \<Rightarrow> transaction \<Rightarrow> ('a ledger_state_scheme, unit) op" where
  "record_entries i t = bindE (from_sum (buildEntries i t)) insert_entries"

definition persistTransactionArtifacts ::
    "(nat \<Rightarrow> string) \<Rightarrow> transaction \<Rightarrow> calculated_fee \<Rightarrow> ('a tx_state_scheme, string) op" where
  "persistTransactionArtifacts uuid t fee =
     transactionE (\<lambda>s u. u\<lparr>transactions := transactions s, fee_records := fee_records s, ledger := ledger s\<rparr>)
      (bindE (insert_transaction uuid t) (\<lambda>i.
       bindE (recordFee i (t_userId t) fee) (\<lambda>_.
       bindE (record_entries i t) (\<lambda>_.
       ret i))))"

text \<open>The handler of a failed submission: the row becomes FAILED with the message, and the request throws.\<close>

definition fail_transaction :: "string \<Rightarrow> string \<Rightarrow> exn \<Rightarrow> ('a books_scheme \<times> transaction, 'b) op" where
  "fail_transaction i answer err =
     bindE (assign_obj (\<lambda>t. t\<lparr>t_status := FAILED, t_failureReason := Some (exn_message err)\<rparr>)) (\<lambda>_.
     bindE (gets snd) (\<lambda>t.
     bindE (lift_op (save_tx i t)) (\<lambda>_.
     throw (InternalServerErrorException answer))))"

definition new_transaction ::
    "int \<Rightarrow> string \<Rightarrow> tx_type \<Rightarrow> rat \<Rightarrow> string \<Rightarrow> rat \<Rightarrow> calculated_fee \<Rightarrow> string option \<Rightarrow> transaction" where
  "new_transaction now userId ty amount currency rate fee memo =
     \<lparr>t_userId = userId, t_type = ty, t_amount = column8 amount, t_currency = currency, t_rate = Some (column8 rate),
      t_status = PENDING, t_txHash = None, t_failureReason = None, t_feeAmount = Some (to_fixed 8 (feeAmount fee)),
      t_feeCurrency = Some (feeCurrency fee), t_toCurrency = None, t_toAmount = None, t_createdAt = now,
      t_reference = None, t_counterpartyMemo = memo, t_userNote = None, t_tags = None, t_categoryId = None\<rparr>"

definition active_currency :: "string \<Rightarrow> ('a tx_state_scheme, unit) op" where
  "active_currency currency =
     bindE (readE currency_rows (findCurrency currency)) (\<lambda>c.
     require (c_isActive c) (BadRequestException ''Currency is not supported or inactive''))"

definition usd_rate :: "tx_env \<Rightarrow> string \<Rightarrow> ('s, rat) op" where
  "usd_rate E currency =
     (case te_rate E currency ''USD'' of Inl _ \<Rightarrow> throw (BadRequestException ''Unable to get exchange rate'')
      | Inr r \<Rightarrow> ret r)"

definition memo_text :: "string option \<Rightarrow> string \<Rightarrow> string \<Rightarrow> string" where
  "memo_text memo prefix i = (if truthy memo then truncateMemoTo28Bytes (the memo) else prefix @ i)"

section \<open>Deposits\<close>

definition deposit_submit :: "tx_env \<Rightarrow> string \<Rightarrow> deposit_dto \<Rightarrow> string \<Rightarrow> ('a tx_state_scheme \<times> transaction, transaction) op" where
  "deposit_submit E userId dto i =
     bindE (lift_op (getUserStellarAddress userId (cd_walletId dto))) (\<lambda>destinationAddress.
     bindE (require (te_sdk_in_scope E) (PlainError ''Operation is not defined'')) (\<lambda>_.
     bindE (from_sum (createTransaction E (cd_sourceAddress dto) (memo_text (cd_memo dto) ''DEPOSIT-'' i))) (\<lambda>_.
     bindE (getStellarSecretKey E) (\<lambda>secretKey.
     bindE (lift_op (sendPayment (te_horizon E) \<lparr>p_secretKey = secretKey, p_destination = destinationAddress,
         p_amount = num_to_string (cd_amount dto), p_memo = ''DEPOSIT-'' @ i\<rparr>)) (\<lambda>hash.
     bindE (assign_obj (\<lambda>t. t\<lparr>t_txHash := Some hash\<rparr>)) (\<lambda>_.
     bindE (gets snd) (\<lambda>t.
     bindE (lift_op (save_tx i t)) (\<lambda>_.
     bindE (lift_op (tryE (processReferralReward (te_referral E) (te_uuid E) (te_now E) userId) (\<lambda>_. ret ()))) (\<lambda>_.
     lift_op (autoAssignCategory i t))))))))))"

definition createDeposit :: "tx_env \<Rightarrow> string \<Rightarrow> deposit_dto \<Rightarrow> ('a tx_state_scheme, transaction) op" where
  "createDeposit E userId dto =
     (let amount = cd_amount dto; currency = cd_currency dto in
     bindE (check_limits (te_rate E) (te_now E) userId amount currency) (\<lambda>_.
     bindE (active_currency currency) (\<lambda>_.
     bindE (usd_rate E currency) (\<lambda>rate.
     bindE (gets (\<lambda>s. calculateFee FEE_DEPOSIT currency amount (fee_rules s))) (\<lambda>fee.
     let t = new_transaction (te_now E) userId DEPOSIT amount currency rate fee (cd_memo dto) in
     bindE (persistTransactionArtifacts (te_uuid E) t fee) (\<lambda>i.
     run_obj t (tryE (deposit_submit E userId dto i)
       (fail_transaction i ''Failed to create deposit transaction on blockchain''))))))))"

section \<open>Withdrawals\<close>

definition withdrawal_destination :: "string \<Rightarrow> withdrawal_dto \<Rightarrow> ('a tx_state_scheme, string) op" where
  "withdrawal_destination userId dto =
     bindE (if truthy (cw_beneficiaryId dto)
       then bindE (readE beneficiary_rows (getBeneficiaryById userId (the (cw_beneficiaryId dto)))) (\<lambda>beneficiary.
            bindE (require (toUpperCase (b_currency beneficiary) = toUpperCase (cw_currency dto))
              (BadRequestException ''Beneficiary currency does not match the withdrawal currency'')) (\<lambda>_.
            ret (Some (b_walletAddress beneficiary))))
       else ret (cw_destinationAddress dto)) (\<lambda>destinationAddress.
     bindE (require (truthy destinationAddress)
       (BadRequestException ''Either destinationAddress or a valid beneficiaryId must be provided.'')) (\<lambda>_.
     ret (the destinationAddress)))"

definition withdrawal_submit ::
    "tx_env \<Rightarrow> string \<Rightarrow> withdrawal_dto \<Rightarrow> string \<Rightarrow> string \<Rightarrow> ('a tx_state_scheme \<times> transaction, transaction) op" where
  "withdrawal_submit E userId dto destinationAddress i =
     bindE (lift_op (getUserStellarAddress userId (cw_walletId dto))) (\<lambda>sourceAddress.
     bindE (require (te_sdk_in_scope E) (PlainError ''Operation is not defined'')) (\<lambda>_.
     bindE (from_sum (createTransaction E sourceAddress (memo_text (cw_memo dto) ''WITHDRAW-'' i))) (\<lambda>_.
     bindE (lift_op (getUserStellarSecretKey E userId (cw_walletId dto))) (\<lambda>secretKey.
     bindE (lift_op (sendPayment (te_horizon E) \<lparr>p_secretKey = secretKey, p_destination = destinationAddress,
         p_amount = num_to_string (cw_amount dto), p_memo = ''WITHDRAW-'' @ i\<rparr>)) (\<lambda>hash.
     bindE (assign_obj (\<lambda>t. t\<lparr>t_txHash := Some hash\<rparr>)) (\<lambda>_.
     bindE (lift_op (updateUserBalance userId (cw_currency dto) (- cw_amount dto))) (\<lambda>_.
     bindE (lift_op (if truthy (cw_beneficiaryId dto)
         then zoomE beneficiary_rows (\<lambda>b s. s\<lparr>beneficiary_rows := b\<rparr>) (updateLastUsed (te_now E) (the (cw_beneficiaryId dto)))
         else ret ())) (\<lambda>_.
     bindE (gets snd) (\<lambda>t.
     lift_op (autoAssignCategory i t))))))))))"

definition withdrawal_checks :: "tx_env \<Rightarrow> string \<Rightarrow> withdrawal_dto \<Rightarrow> ('a tx_state_scheme, string \<times> rat \<times> calculated_fee) op" where
  "withdrawal_checks E userId dto =
     (let amount = cw_amount dto; currency = cw_currency dto in
     bindE (withdrawal_destination userId dto) (\<lambda>destinationAddress.
     bindE (active_currency currency) (\<lambda>_.
     bindE (gets (findById userId)) (\<lambda>user.
     bindE (require (user \<noteq> None) (NotFoundException ''User not found'')) (\<lambda>_.
     bindE (check_limits (te_rate E) (te_now E) userId amount currency) (\<lambda>_.
     bindE (getUserBalance userId currency) (\<lambda>userBalance.
     bindE (require (\<not> userBalance < amount) (BadRequestException ''Insufficient balance'')) (\<lambda>_.
     bindE (usd_rate E currency) (\<lambda>rate.
     bindE (gets (\<lambda>s. calculateFee FEE_WITHDRAW currency amount (fee_rules s))) (\<lambda>fee.
     bindE (require (\<not> userBalance < js_add amount (feeAmount fee))
       (BadRequestException ''Insufficient balance to cover the transaction amount and fee'')) (\<lambda>_.
     bindE (from_sum (validateStellarDestination E destinationAddress)) (\<lambda>_.
     ret (destinationAddress, rate, fee)))))))))))))"

definition createWithdrawal :: "tx_env \<Rightarrow> string \<Rightarrow> withdrawal_dto \<Rightarrow> ('a tx_state_scheme, transaction) op" where
  "createWithdrawal E userId dto =
     bindE (withdrawal_checks E userId dto) (\<lambda>(destinationAddress, rate, fee).
     let t = new_transaction (te_now E) userId WITHDRAW (cw_amount dto) (cw_currency dto) rate fee (cw_memo dto) in
     bindE (persistTransactionArtifacts (te_uuid E) t fee) (\<lambda>i.
     run_obj t (tryE (withdrawal_submit E userId dto destinationAddress i)
       (fail_transaction i ''Failed to create withdrawal transaction on blockchain''))))"

section \<open>Swaps\<close>

definition swap_checks :: "tx_env \<Rightarrow> string \<Rightarrow> swap_dto \<Rightarrow>
    ('a tx_state_scheme, pair \<times> calculated_fee \<times> wallet_context \<times> path_record list) op" where
  "swap_checks E userId dto =
     (let amount = sw_amount dto; fromCurrency = sw_fromCurrency dto; toCurrency = sw_toCurrency dto in
     bindE (check_limits (te_rate E) (te_now E) userId amount fromCurrency) (\<lambda>_.
     bindE (require (fromCurrency \<noteq> toCurrency)
       (BadRequestException ''Source and destination currencies must be different'')) (\<lambda>_.
     bindE (readE pair_rows (validatePair fromCurrency toCurrency None)) (\<lambda>pair.
     bindE (getUserBalance userId fromCurrency) (\<lambda>userBalance.
     bindE (require (\<not> userBalance < amount) (BadRequestException ''Insufficient balance'')) (\<lambda>_.
     bindE (gets (\<lambda>s. calculateFee FEE_SWAP fromCurrency amount (fee_rules s))) (\<lambda>fee.
     bindE (require (\<not> userBalance < js_add amount (feeAmount fee))
       (BadRequestException ''Insufficient balance to cover the swap amount and fee'')) (\<lambda>_.
     bindE (resolveWalletForTransaction userId (sw_walletId dto) False) (\<lambda>txWallet.
     bindE (require (sw_sourceAddress dto = wc_publicKey txWallet)
       (BadRequestException ''sourceAddress must match the public key of the wallet used for this swap'')) (\<lambda>_.
     let paths = findBestPath E fromCurrency toCurrency (num_to_string amount) StrictSend in
     bindE (require (paths \<noteq> []) (BadRequestException ''NO_LIQUIDITY_PATH_FOUND'')) (\<lambda>_.
     ret (pair, fee, txWallet, paths))))))))))))"

definition effective_amount :: "pair \<Rightarrow> path_record \<Rightarrow> rat" where
  "effective_amount pair bestPath =
     js_mul (parse_float (pr_destination_amount bestPath)) (js_sub 1 (js_div (parse_float (cp_spreadPercent pair)) 100))"

definition swap_transaction ::
    "int \<Rightarrow> string \<Rightarrow> swap_dto \<Rightarrow> pair \<Rightarrow> calculated_fee \<Rightarrow> path_record \<Rightarrow> transaction" where
  "swap_transaction now userId dto pair fee bestPath =
     (new_transaction now userId SWAP (sw_amount dto) (sw_fromCurrency dto)
        (js_div (effective_amount pair bestPath) (sw_amount dto)) fee (sw_memo dto))
      \<lparr>t_toCurrency := Some (sw_toCurrency dto), t_toAmount := Some (to_fixed 8 (effective_amount pair bestPath))\<rparr>"

definition swap_submit :: "tx_env \<Rightarrow> string \<Rightarrow> swap_dto \<Rightarrow> pair \<Rightarrow> calculated_fee \<Rightarrow> wallet_context \<Rightarrow> path_record \<Rightarrow>
    string \<Rightarrow> ('a tx_state_scheme \<times> transaction, transaction) op" where
  "swap_submit E userId dto pair fee txWallet bestPath i =
     (let destinationAmount = parse_float (pr_destination_amount bestPath);
          slippageTolerance = (case te_slippage E of None \<Rightarrow> parse_float (5 / 1000) | Some x \<Rightarrow> parse_float x);
          swapOperation = buildPathPaymentOp slippageTolerance \<lparr>po_mode = StrictSend,
            po_sendAsset = sw_fromCurrency dto, po_sendAmount = num_to_string (sw_amount dto),
            po_destAsset = sw_toCurrency dto, po_destAmount = num_to_string destinationAmount,
            po_destination = wc_publicKey txWallet, po_path = pr_path bestPath\<rparr>;
          swapMemo = memo_text (sw_memo dto) ''SWAP-'' i
      in
     bindE (from_sum (createTransaction E (wc_publicKey txWallet) swapMemo)) (\<lambda>_.
     bindE (lift_op (getUserStellarSecretKey E userId (sw_walletId dto))) (\<lambda>secretKey.
     bindE (from_sum (signTransaction E secretKey)) (\<lambda>_.
     bindE (lift_op (submitTransaction E swapOperation swapMemo)) (\<lambda>rawResult.
     bindE (from_option (PlainError ''Unexpected response shape from Stellar submit'') rawResult) (\<lambda>hash.
     bindE (assign_obj (\<lambda>t. t\<lparr>t_txHash := Some hash, t_status := SUCCESS\<rparr>)) (\<lambda>_.
     bindE (gets snd) (\<lambda>t.
     bindE (lift_op (save_tx i t)) (\<lambda>_.
     bindE (lift_op (updateUserBalance userId (sw_fromCurrency dto) (- js_add (sw_amount dto) (feeAmount fee)))) (\<lambda>_.
     bindE (lift_op (updateUserBalance userId (sw_toCurrency dto) (effective_amount pair bestPath))) (\<lambda>_.
     bindE (lift_op (modify (notify userId ''Swap Completed'' ''Successfully swapped''))) (\<lambda>_.
     lift_op (autoAssignCategory i t)))))))))))))"

definition is_slippage_error :: "string \<Rightarrow> bool" where
  "is_slippage_error message \<longleftrightarrow> has_text ''op_under_dest_min'' message \<or> has_text ''tx_too_late'' message \<or>
     has_text ''op_over_source_max'' message"

text \<open>One attempt: \<open>None\<close> asks for the next path.\<close>

definition swap_attempt :: "tx_env \<Rightarrow> string \<Rightarrow> swap_dto \<Rightarrow> pair \<Rightarrow> calculated_fee \<Rightarrow> wallet_context \<Rightarrow> bool \<Rightarrow>
    path_record \<Rightarrow> ('a tx_state_scheme, transaction option) op" where
  "swap_attempt E userId dto pair fee txWallet isLast bestPath =
     (let t = swap_transaction (te_now E) userId dto pair fee bestPath in
     bindE (persistTransactionArtifacts (te_uuid E) t fee) (\<lambda>i.
     run_obj t (tryE
       (bindE (swap_submit E userId dto pair fee txWallet bestPath i) (\<lambda>t. ret (Some t)))
       (\<lambda>err.
         bindE (assign_obj (\<lambda>t. t\<lparr>t_status := FAILED, t_failureReason := Some (exn_message err)\<rparr>)) (\<lambda>_.
         bindE (gets snd) (\<lambda>t.
         bindE (lift_op (save_tx i t)) (\<lambda>_.
         if \<not> is_slippage_error (exn_message err) \<or> isLast then throw (BadRequestException ''Swap failed: '')
         else ret None)))))))"

text \<open>At most one retry, with the next best path.\<close>

fun swap_loop :: "(bool \<Rightarrow> path_record \<Rightarrow> ('s, transaction option) op) \<Rightarrow> path_record list \<Rightarrow> ('s, transaction) op" where
  "swap_loop attempt [] = throw (BadRequestException ''Swap failed: '')"
| "swap_loop attempt (p # ps) =
     bindE (attempt (ps = []) p) (\<lambda>result.
     case result of Some t \<Rightarrow> ret t | None \<Rightarrow> swap_loop attempt ps)"

definition createSwap :: "tx_env \<Rightarrow> string \<Rightarrow> swap_dto \<Rightarrow> ('a tx_state_scheme, transaction) op" where
  "createSwap E userId dto =
     bindE (swap_checks E userId dto) (\<lambda>(pair, fee, txWallet, paths).
     swap_loop (swap_attempt E userId dto pair fee txWallet) (take 2 paths))"

record swap_preview =
  sp_sourceAmount :: rat
  sp_destinationAmount :: rat
  sp_spreadApplied :: rat

text \<open>The preview of a swap, behind its two caches of thirty seconds (\<open>cached\<close> is what they answer).\<close>

definition getSwapPreview :: "tx_env \<Rightarrow> swap_preview list option \<Rightarrow> string \<Rightarrow> string \<Rightarrow> rat \<Rightarrow> send_mode \<Rightarrow>
    ('a tx_state_scheme, swap_preview list) op" where
  "getSwapPreview E cached fromCurrency toCurrency amount mode =
     (case cached of Some r \<Rightarrow> ret r | None \<Rightarrow>
     (let paths = findBestPath E fromCurrency toCurrency (num_to_string amount) mode in
     bindE (require (paths \<noteq> []) (BadRequestException ''NO_LIQUIDITY_PATH_FOUND'')) (\<lambda>_.
     bindE (gets (\<lambda>s. findByCodes fromCurrency toCurrency (pair_rows s))) (\<lambda>pair.
     let spread = (case pair of None \<Rightarrow> 0 | Some (i, p) \<Rightarrow> cp_spreadPercent p);
         part = js_div (parse_float spread) 100
     in ret (map (\<lambda>p. let dest = parse_float (pr_destination_amount p); src = parse_float (pr_source_amount p)
            in \<lparr>sp_sourceAmount = (if mode = StrictReceive then js_mul src (js_add 1 part) else src),
                sp_destinationAmount = (if mode = StrictSend then js_mul dest (js_sub 1 part) else dest),
                sp_spreadApplied = spread\<rparr>) paths)))))"

section \<open>Verification and administration\<close>

definition settle :: "tx_env \<Rightarrow> string \<Rightarrow> transaction \<Rightarrow> ('a tx_state_scheme, transaction) op" where
  "settle E i t =
     bindE (verify_hash E (the (t_txHash t))) (\<lambda>verdict.
     case verdict of
       SUCCESS \<Rightarrow>
         bindE (if t_type t = DEPOSIT then updateUserBalance (t_userId t) (t_currency t) (parse_float (t_amount t)) else ret ()) (\<lambda>_.
         bindE (save_tx i (t\<lparr>t_status := SUCCESS\<rparr>)) (\<lambda>_. ret (t\<lparr>t_status := SUCCESS\<rparr>)))
     | FAILED \<Rightarrow>
         let t' = t\<lparr>t_status := FAILED, t_failureReason := Some ''Transaction verification failed on blockchain''\<rparr> in
         bindE (if t_type t = WITHDRAW then updateUserBalance (t_userId t) (t_currency t) (parse_float (t_amount t)) else ret ()) (\<lambda>_.
         bindE (save_tx i t') (\<lambda>_. ret t'))
     | _ \<Rightarrow> ret t)"

definition verifyTransaction ::
    "tx_env \<Rightarrow> string \<Rightarrow> string option \<Rightarrow> user_role option \<Rightarrow> ('a tx_state_scheme, transaction) op" where
  "verifyTransaction E i requestingUserId requestingUserRole =
     bindE (find_tx i) (\<lambda>t.
     bindE (require (truthy (t_txHash t)) (BadRequestException ''Transaction does not have a blockchain hash yet'')) (\<lambda>_.
     let isAdmin = (requestingUserRole = Some ADMIN) in
     bindE (require (\<not> (truthy requestingUserId \<and> \<not> isAdmin \<and> t_userId t \<noteq> the requestingUserId))
       (ForbiddenException ''You do not have permission to verify this transaction'')) (\<lambda>_.
     bindE (require (\<not> (requestingUserRole \<noteq> None \<and> \<not> isAdmin \<and> t_status t \<noteq> PENDING))
       (BadRequestException ''Transaction is already settled and cannot be re-verified'')) (\<lambda>_.
     tryE (settle E i t) (\<lambda>_. throw (InternalServerErrorException ''Failed to verify transaction on blockchain''))))))"

definition updateTransactionStatus :: "string \<Rightarrow> tx_status \<Rightarrow> string option \<Rightarrow> ('a tx_state_scheme, transaction) op" where
  "updateTransactionStatus i status reason =
     bindE (find_tx i) (\<lambda>t.
     let t' = t\<lparr>t_status := status, t_failureReason := (if truthy reason then reason else t_failureReason t)\<rparr> in
     bindE (save_tx i t') (\<lambda>_. ret t'))"

definition cancelTransaction :: "string \<Rightarrow> string \<Rightarrow> ('a tx_state_scheme, transaction) op" where
  "cancelTransaction i userId =
     bindE (find_tx i) (\<lambda>t.
     bindE (require (t_userId t = userId)
       (ForbiddenException ''You do not have permission to cancel this transaction'')) (\<lambda>_.
     bindE (require (t_status t = PENDING)
       (BadRequestException ''Cannot cancel transaction. Only PENDING transactions can be cancelled.'')) (\<lambda>_.
     bindE (save_tx i (t\<lparr>t_status := CANCELLED\<rparr>)) (\<lambda>_. ret (t\<lparr>t_status := CANCELLED\<rparr>)))))"

definition findOneTransaction :: "string \<Rightarrow> string option \<Rightarrow> ('a tx_state_scheme, transaction) op" where
  "findOneTransaction i userId =
     bindE (gets (\<lambda>s. tbl_find i (transactions s))) (\<lambda>found.
     from_option (NotFoundException ''Transaction not found'')
       (case found of None \<Rightarrow> None | Some t \<Rightarrow> if truthy userId \<and> t_userId t \<noteq> the userId then None else Some t))"

definition getPendingTransactions :: "'a books_scheme \<Rightarrow> (string \<times> transaction) list" where
  "getPendingTransactions s = sort_key (\<lambda>(i, t). t_createdAt t) (filter (\<lambda>(i, t). t_status t = PENDING) (transactions s))"

definition annotate :: "string \<Rightarrow> string \<Rightarrow> (transaction \<Rightarrow> transaction) \<Rightarrow> ('a tx_state_scheme, transaction) op" where
  "annotate i userId f =
     bindE (find_tx i) (\<lambda>t.
     bindE (require (t_userId t = userId)
       (ForbiddenException ''You do not have permission to annotate this transaction'')) (\<lambda>_.
     bindE (save_tx i (f t)) (\<lambda>_. ret (f t))))"

definition updateNote :: "string \<Rightarrow> string \<Rightarrow> string option \<Rightarrow> ('a tx_state_scheme, transaction) op" where
  "updateNote i userId note = annotate i userId (\<lambda>t. t\<lparr>t_userNote := note\<rparr>)"

definition updateTags :: "string \<Rightarrow> string \<Rightarrow> string list \<Rightarrow> ('a tx_state_scheme, transaction) op" where
  "updateTags i userId tags = annotate i userId (\<lambda>t. t\<lparr>t_tags := Some tags\<rparr>)"

definition getUserTags :: "string \<Rightarrow> 'a books_scheme \<Rightarrow> (string \<times> nat) list" where
  "getUserTags userId s =
     (let tags = concat (map (\<lambda>(i, t). if t_userId t = userId then (case t_tags t of None \<Rightarrow> [] | Some ts \<Rightarrow> ts) else []) (transactions s))
      in sort_key (\<lambda>(t, n). - int n) (map (\<lambda>t. (t, count_list tags t)) (remdups tags)))"

text \<open>The job verifies the pending transactions one after the other here; the code starts them together (see
  \<open>tx_concurrent_credits\<close> for what interleaving does).\<close>

definition verifyPendingTransactions :: "tx_env \<Rightarrow> ('a tx_state_scheme, unit) op" where
  "verifyPendingTransactions E =
     bindE (gets getPendingTransactions) (\<lambda>pending.
     forE pending (\<lambda>(i, t). tryE
       (bindE (verifyTransaction E i (Some ''system'') (Some ADMIN)) (\<lambda>_. ret ())) (\<lambda>_. ret ())))"

end
