(* ===== verification/TxSafety.thy ===== *)
theory TxSafety
  imports Transactions
begin

text \<open>
  What the transaction service of \<open>Transactions\<close> keeps and promises: its books stay balanced over every run, the
  statuses of its rows follow the transitions \<open>tx_trans\<close>, and what withdrawals, swaps, verifications and
  cancellations do to balances. \<open>onT\<close> is the frame of the operations that write no transaction row;
  \<open>old_kept\<close> says that a request for a new transaction leaves the older rows alone. Concrete instances at the
  end show that the requests can succeed.
\<close>

section \<open>What every request keeps\<close>

text \<open>No balance is negative, and the ledger verifies.\<close>

definition tx_ok :: "'a ledger_state_scheme \<Rightarrow> bool" where
  "tx_ok s \<longleftrightarrow> users_ok s \<and> (\<forall>c. amountDelta c (ledger s) = 0)"

lemma tx_ok_frame: "tx_ok s \<Longrightarrow> users t = users s \<Longrightarrow> ledger t = ledger s \<Longrightarrow> tx_ok t"
  using users_ok_cong [of t s] by (simp add: tx_ok_def)

lemma updateUserBalance_ok [pres]: "preserves tx_ok (updateUserBalance u c x)"
proof -
  have "tx_ok t" if "tx_ok s" "updateUserBalance u c x s = (r, t)" for r t and s :: "'a ledger_state_scheme"
  proof (cases r)
    case (Inl e)
    with that show ?thesis by (auto simp: updateUserBalance_def write_new_balance_def op_iff Let_def)
  next
    case (Inr v)
    with that obtain user where u: "findById u s = Some user" "\<not> js_add (balance_of user c) x < 0"
      "t = updateByUserId u (\<lambda>w. w\<lparr>u_balances := set_balance c (js_add (balance_of user c) x) (u_balances user)\<rparr>) s"
      by (auto simp: updateUserBalance_def write_new_balance_def op_iff Let_def)
    have "users_ok t" unfolding u(3) using that(1) u(1,2)
      by (intro users_ok_update) (auto simp: tx_ok_def dest!: users_okD intro!: balances_ok_set)
    with that(1) u(3) show ?thesis by (simp add: tx_ok_def updateByUserId_def)
  qed
  then show ?thesis by (auto simp: preserves_def) (metis prod.collapse)
qed

lemma record_entries_ok [pres]: "preserves tx_ok (record_entries i t)"
proof -
  obtain es where b: "buildEntries i t = Inr es" using buildEntries_total by blast
  have "amountDelta c es = 0" for c using book.append_delta [of c "[]" "(i, t)"] entries_of_Inr [OF b] by simp
  moreover have "users_ok (s\<lparr>ledger := x\<rparr>) = users_ok s" for x and s :: "'a ledger_state_scheme"
    by (rule users_ok_cong) simp
  ultimately show ?thesis
    by (auto simp: record_entries_def b preserves_def bindE_def from_sum_def insert_entries_def modify_def tx_ok_def)
qed

lemma tx_frame_pres [pres]:
  "preserves tx_ok (save_tx i t)" "preserves tx_ok (insert_transaction uuid t)" "preserves tx_ok (recordFee i u fee)"
  "preserves tx_ok (submitTransaction E op m)" "preserves tx_ok (verify_hash E h)" "preserves tx_ok (modify (notify u a b))"
  "preserves tx_ok ensureDefaultLimits" "preserves tx_ok (modify (save_referral i r))"
  by (auto simp: preserves_def save_tx_def insert_transaction_def recordFee_def submitTransaction_def verify_hash_def
      op_defs Let_def notify_def ensureDefaultLimits_eq save_referral_def split: sum.split intro: tx_ok_frame)

lemmas tx_intros = pres tx_ok_frame

lemma check_limits_ok [pres]: "preserves tx_ok (check_limits rate now u a c)"
  unfolding check_limits_def getUserLimitStatus_def getUsageInUsd_def Let_def case_prod_unfold by (intro pres)

lemma processReferralReward_ok [pres]: "preserves tx_ok (processReferralReward cfg uuid now e)"
  unfolding processReferralReward_def give_reward_def createPendingReferral_def Let_def case_prod_unfold by (intro pres)

lemma persist_ok [pres]: "preserves tx_ok (persistTransactionArtifacts uuid t fee)"
  unfolding persistTransactionArtifacts_def by (intro pres) (auto simp: tx_ok_def users_ok_def findById_def)

lemma getters_ok [pres]:
  "preserves P (find_tx i)" "preserves P (getUserStellarAddress u w)" "preserves P (getUserStellarSecretKey E u w)"
  "preserves P (getUserBalance u c)" "preserves P (active_currency c)" "preserves P (withdrawal_destination u dto)"
  unfolding find_tx_def getUserStellarAddress_def getUserStellarSecretKey_def getUserBalance_def active_currency_def
    withdrawal_destination_def
  by (intro pres)+

lemma config_ok [pres]: "preserves P (getStellarSecretKey E)" "preserves Q (usd_rate E c)"
  unfolding getStellarSecretKey_def usd_rate_def by (intro pres, cases "te_rate E c ''USD''") (auto intro: pres)

lemma fail_transaction_ok [pres]: "preserves tx_ok (save_tx i t) \<Longrightarrow> preserves (objP tx_ok) (fail_transaction i a e)"
  unfolding fail_transaction_def by (intro pres)

lemma sendPayment_ok [pres]: "preserves tx_ok (sendPayment H p)"
  by (intro pres) (auto intro: tx_ok_frame)

lemma autoAssignCategory_ok [pres]: "preserves tx_ok (autoAssignCategory i t)"
  unfolding autoAssignCategory_def case_prod_unfold by (intro pres)

lemma createDeposit_ok [pres]: "preserves tx_ok (createDeposit E u dto)"
  unfolding createDeposit_def deposit_submit_def Let_def by (intro pres) (auto intro: tx_ok_frame)

lemma createWithdrawal_ok [pres]: "preserves tx_ok (createWithdrawal E u dto)"
  unfolding createWithdrawal_def withdrawal_checks_def withdrawal_submit_def Let_def case_prod_unfold by (intro pres) (auto intro: tx_ok_frame)

lemma swap_loop_pres: "(\<And>b p. preserves P (attempt b p)) \<Longrightarrow> preserves P (swap_loop attempt ps)"
  by (induction ps) (auto intro!: pres)

lemma swap_checks_ok [pres]: "preserves tx_ok (swap_checks E u dto)"
  unfolding swap_checks_def Let_def by (intro pres)

lemma swap_attempt_ok: "preserves tx_ok (swap_attempt E u dto pair fee w l p)"
  unfolding swap_attempt_def swap_submit_def Let_def by (intro pres)

lemma createSwap_ok [pres]: "preserves tx_ok (createSwap E u dto)"
  unfolding createSwap_def case_prod_unfold by (intro pres swap_loop_pres swap_attempt_ok)

lemma preserves_tx_status [pres]:
  "preserves P a \<Longrightarrow> preserves P b \<Longrightarrow> preserves P c \<Longrightarrow> preserves P d \<Longrightarrow>
    preserves P (case v of SUCCESS \<Rightarrow> a | FAILED \<Rightarrow> b | PENDING \<Rightarrow> c | CANCELLED \<Rightarrow> d)"
  by (cases v) simp_all

lemma settle_ok [pres]: "preserves tx_ok (settle E i t)"
  unfolding settle_def Let_def by (intro pres)

lemma verify_ok [pres]: "preserves tx_ok (verifyTransaction E i u r)"
  unfolding verifyTransaction_def Let_def by (intro pres)

lemma admin_ok [pres]: "preserves tx_ok (updateTransactionStatus i st r)" "preserves tx_ok (cancelTransaction i u)"
  "preserves tx_ok (annotate i u f)"
  unfolding updateTransactionStatus_def cancelTransaction_def annotate_def Let_def by (intro pres)+

lemma verify_job_ok [pres]: "preserves tx_ok (verifyPendingTransactions E)"
  unfolding verifyPendingTransactions_def case_prod_unfold by (intro pres)

section \<open>Runs\<close>

datatype tx_event =
    Deposit tx_env string deposit_dto
  | Withdrawal tx_env string withdrawal_dto
  | Swap tx_env string swap_dto
  | Verify tx_env string "string option" "user_role option"
  | VerifyJob tx_env
  | SetStatus string tx_status "string option"
  | Cancel string string
  | Note string string "string option"
  | Tags string string "string list"

fun tx_step :: "tx_event \<Rightarrow> tx_state \<Rightarrow> tx_state" where
  "tx_step (Deposit E u dto) s = snd (createDeposit E u dto s)"
| "tx_step (Withdrawal E u dto) s = snd (createWithdrawal E u dto s)"
| "tx_step (Swap E u dto) s = snd (createSwap E u dto s)"
| "tx_step (Verify E i u r) s = snd (verifyTransaction E i u r s)"
| "tx_step (VerifyJob E) s = snd (verifyPendingTransactions E s)"
| "tx_step (SetStatus i st r) s = snd (updateTransactionStatus i st r s)"
| "tx_step (Cancel i u) s = snd (cancelTransaction i u s)"
| "tx_step (Note i u n) s = snd (updateNote i u n s)"
| "tx_step (Tags i u ts) s = snd (updateTags i u ts s)"

lemma tx_step_ok: "tx_ok s \<Longrightarrow> tx_ok (tx_step e s)"
  by (cases e) (auto simp: updateNote_def updateTags_def
      intro!: createDeposit_ok [unfolded preserves_def, rule_format] createWithdrawal_ok [unfolded preserves_def, rule_format]
        createSwap_ok [unfolded preserves_def, rule_format] verify_ok [unfolded preserves_def, rule_format]
        verify_job_ok [unfolded preserves_def, rule_format] admin_ok [unfolded preserves_def, rule_format])

interpretation tx_books: invariant_system tx_step "\<lambda>_. True" tx_ok
  by unfold_locales (rule tx_step_ok)

section \<open>Statuses\<close>

text \<open>A predicate on the table of transactions is kept by everything that does not write a row.\<close>

definition onT :: "(transaction table \<Rightarrow> bool) \<Rightarrow> 'a books_scheme \<Rightarrow> bool" where
  "onT Q s \<longleftrightarrow> Q (transactions s)"

named_theorems onT \<open>Operations that write no transaction\<close>

lemma onT_modify [onT]: "(\<And>s. transactions (f s) = transactions s) \<Longrightarrow> preserves (onT Q) (modify f)"
  by (simp add: preserves_def onT_def modify_def)

lemma onT_frames [onT]:
  "preserves (onT Q) (updateUserBalance u c x)" "preserves (onT Q) (sendPayment H p)" "preserves (onT Q) ensureDefaultLimits"
  "preserves (onT Q) (submitTransaction E op m)" "preserves (onT Q) (verify_hash E h)" "preserves (onT Q) (modify (notify u a b))"
  "preserves (onT Q) (modify (save_referral i r))"
  by (auto simp: preserves_def onT_def updateUserBalance_def write_new_balance_def sendPayment_def submitTransaction_def verify_hash_def
      updateByUserId_def op_defs Let_def notify_def ensureDefaultLimits_eq save_referral_def
      split: sum.splits option.splits)

lemma onT_beneficiaries [onT]: "preserves (onT Q) (zoomE beneficiary_rows (\<lambda>b s. s\<lparr>beneficiary_rows := b\<rparr>) m)"
  by (intro pres) (simp add: onT_def)

lemma onT_check_limits [onT]: "preserves (onT Q) (check_limits rate now u a c)"
  unfolding check_limits_def getUserLimitStatus_def getUsageInUsd_def Let_def case_prod_unfold by (intro pres onT)

lemma onT_processReferralReward [onT]: "preserves (onT Q) (processReferralReward cfg uuid now e)"
  unfolding processReferralReward_def give_reward_def createPendingReferral_def Let_def case_prod_unfold
  by (intro pres onT)

lemma onT_save_tx: "(\<And>T. Q T \<Longrightarrow> Q (tbl_save i t T)) \<Longrightarrow> preserves (onT Q) (save_tx i t)"
  by (simp add: preserves_def onT_def save_tx_def modify_def)

text \<open>A request for a new transaction keeps every row there was (the table \<open>T0\<close>); \<open>new_row\<close> says
  that \<open>i\<close> is the id of a row inserted since.\<close>

definition old_kept :: "(nat \<Rightarrow> string) \<Rightarrow> transaction table \<Rightarrow> transaction table \<Rightarrow> bool" where
  "old_kept uuid T0 T \<longleftrightarrow> map fst T = map uuid [0..<length T] \<and> (\<forall>k v. tbl_find k T0 = Some v \<longrightarrow> tbl_find k T = Some v)"

definition new_row :: "(nat \<Rightarrow> string) \<Rightarrow> transaction table \<Rightarrow> string \<Rightarrow> transaction table \<Rightarrow> bool" where
  "new_row uuid T0 i T \<longleftrightarrow> old_kept uuid T0 T \<and> tbl_find i T0 = None \<and> tbl_find i T \<noteq> None"

lemma new_row_save: "new_row uuid T0 i T \<Longrightarrow> new_row uuid T0 i (tbl_save i t T)"
proof -
  assume a: "new_row uuid T0 i T"
  then have k: "map fst (tbl_save i t T) = map fst T" by (auto simp: new_row_def intro: tbl_save_keys)
  then have "length (tbl_save i t T) = length T" by (metis length_map)
  with a k show ?thesis by (auto simp: new_row_def old_kept_def tbl_simps)
qed

lemma save_new_row [onT]: "preserves (onT (new_row uuid T0 i)) (save_tx i t)"
  by (rule onT_save_tx) (rule new_row_save)

lemma old_kept_insert:
  assumes "old_kept uuid T0 T" and "inj uuid"
  shows "new_row uuid T0 (uuid (length T)) (tbl_save (uuid (length T)) t T)"
proof -
  from assms have n: "tbl_find (uuid (length T)) T = None"
    unfolding old_kept_def tbl_find_None_keys by (metis imageE inj_eq less_irrefl atLeastLessThan_iff set_map set_upt)
  then have "tbl_find (uuid (length T)) T0 = None" using assms(1) by (cases "tbl_find (uuid (length T)) T0") (auto simp: old_kept_def)
  moreover have "map fst (tbl_save (uuid (length T)) t T) = map uuid [0..<length (tbl_save (uuid (length T)) t T)]"
    using n assms(1) by (simp add: tbl_save_new old_kept_def)
  ultimately show ?thesis using n assms(1) by (auto simp: new_row_def old_kept_def tbl_simps)
qed

lemma persist_eq: "persistTransactionArtifacts uuid t fee s = (let i = uuid (length (transactions s)) in
    (Inr i, s\<lparr>transactions := tbl_save i t (transactions s), fee_records := fee_records s @ [feeRecord i (t_userId t) fee],
      ledger := ledger s @ entries_of (i, t)\<rparr>))"
proof -
  obtain es where b: "buildEntries (uuid (length (transactions s))) t = Inr es" using buildEntries_total by blast
  with entries_of_Inr [OF b] show ?thesis
    by (simp add: persistTransactionArtifacts_def op_defs insert_transaction_def recordFee_def record_entries_def
        insert_entries_def Let_def)
qed

lemma old_kept_persist [onT]:
  assumes "inj uuid" and "\<And>i. preserves (onT (new_row uuid T0 i)) (f i)"
  shows "preserves (onT (old_kept uuid T0)) (bindE (persistTransactionArtifacts uuid t fee) f)"
  unfolding preserves_def
proof (intro allI impI)
  fix s :: "'a tx_state_scheme"
  let ?i = "uuid (length (transactions s))"
  assume "onT (old_kept uuid T0) s"
  then obtain u where "persistTransactionArtifacts uuid t fee s = (Inr ?i, u)" "onT (new_row uuid T0 ?i) u"
    using old_kept_insert [OF _ assms(1)] by (simp add: persist_eq onT_def Let_def)
  moreover from this assms(2) have "onT (new_row uuid T0 ?i) (snd (f ?i u))" by (simp add: preserves_def)
  ultimately show "onT (old_kept uuid T0) (snd (bindE (persistTransactionArtifacts uuid t fee) f s))"
    by (simp add: bindE_def onT_def new_row_def)
qed

lemma fail_new_row [onT]: "preserves (objP (onT (new_row uuid T0 i))) (fail_transaction i a e)"
  unfolding fail_transaction_def by (intro pres onT)

lemma category_new_row [onT]: "preserves (onT (new_row uuid T0 i)) (autoAssignCategory i t)"
  unfolding autoAssignCategory_def case_prod_unfold by (intro pres onT)

lemma createDeposit_old: "inj (te_uuid E) \<Longrightarrow> preserves (onT (old_kept (te_uuid E) T0)) (createDeposit E u dto)"
  unfolding createDeposit_def deposit_submit_def Let_def by (intro onT pres)

lemma createWithdrawal_old: "inj (te_uuid E) \<Longrightarrow> preserves (onT (old_kept (te_uuid E) T0)) (createWithdrawal E u dto)"
  unfolding createWithdrawal_def withdrawal_checks_def withdrawal_submit_def Let_def case_prod_unfold by (intro onT pres)

lemma swap_checks_old [onT]: "preserves (onT Q) (swap_checks E u dto)"
  unfolding swap_checks_def Let_def by (intro onT pres)

lemma createSwap_old: "inj (te_uuid E) \<Longrightarrow> preserves (onT (old_kept (te_uuid E) T0)) (createSwap E u dto)"
  unfolding createSwap_def case_prod_unfold swap_attempt_def swap_submit_def Let_def
  by (intro onT pres swap_loop_pres)

text \<open>The life of a transaction. \<open>None\<close> is a transaction that is not there yet.\<close>

inductive tx_trans :: "tx_status option \<Rightarrow> tx_status option \<Rightarrow> bool" where
  created: "tx_trans None (Some st)"
| confirmed: "tx_trans (Some PENDING) (Some SUCCESS)"
| rejected: "tx_trans (Some PENDING) (Some FAILED)"
| cancelled: "tx_trans (Some PENDING) (Some CANCELLED)"

inductive_simps tx_trans_from: "tx_trans (Some st) x"

definition tx_status_of :: "string \<Rightarrow> 'a books_scheme \<Rightarrow> tx_status option" where
  "tx_status_of k s = map_option t_status (tbl_find k (transactions s))"

definition tx_ids :: "(nat \<Rightarrow> string) \<Rightarrow> 'a books_scheme \<Rightarrow> bool" where
  "tx_ids uuid s \<longleftrightarrow> map fst (transactions s) = map uuid [0..<length (transactions s)]"

definition evolves :: "(nat \<Rightarrow> string) \<Rightarrow> 'a books_scheme \<Rightarrow> 'a books_scheme \<Rightarrow> bool" where
  "evolves uuid s t \<longleftrightarrow> tx_ids uuid t \<and> (\<forall>k. tx_trans\<^sup>*\<^sup>* (tx_status_of k s) (tx_status_of k t))"

lemma evolves_same: "tx_ids uuid s \<Longrightarrow> transactions t = transactions s \<Longrightarrow> evolves uuid s t"
  by (simp add: evolves_def tx_ids_def tx_status_of_def)

lemma evolves_old:
  assumes "tx_ids uuid s" and "preserves (onT (old_kept uuid (transactions s))) m"
  shows "evolves uuid s (snd (m s))"
proof -
  have "onT (old_kept uuid (transactions s)) s" using assms(1) by (simp add: onT_def old_kept_def tx_ids_def)
  with assms(2) have o: "old_kept uuid (transactions s) (transactions (snd (m s)))" by (auto simp: preserves_def onT_def)
  have "tx_trans\<^sup>*\<^sup>* (tx_status_of k s) (tx_status_of k (snd (m s)))" for k
  proof (cases "tbl_find k (transactions s)")
    case None
    then show ?thesis by (cases "tbl_find k (transactions (snd (m s)))") (auto simp: tx_status_of_def intro: created)
  next
    case (Some v)
    with o show ?thesis by (simp add: old_kept_def tx_status_of_def)
  qed
  with o show ?thesis by (simp add: evolves_def tx_ids_def old_kept_def)
qed

lemma evolves_save:
  assumes "tx_ids uuid s" and "tbl_find i (transactions s) = Some t" and "tx_trans\<^sup>*\<^sup>* (Some (t_status t)) (Some (t_status t'))"
    and "transactions u = tbl_save i t' (transactions s)"
  shows "evolves uuid s u"
proof -
  have "map fst (transactions u) = map fst (transactions s)" using assms(2,4) tbl_save_keys by metis
  moreover from this have "length (transactions u) = length (transactions s)" by (metis length_map)
  ultimately show ?thesis using assms by (auto simp: evolves_def tx_ids_def tx_status_of_def tbl_simps)
qed

lemma settle_tx:
  assumes "settle E i t s = (r, u)"
  shows "transactions u = transactions s \<or>
    (\<exists>t'. transactions u = tbl_save i t' (transactions s) \<and> t_status t' \<in> {SUCCESS, FAILED})"
proof -
  have b: "transactions y = transactions x" if "updateUserBalance a c n x = (q, y)" for a c n x q and y :: "'a tx_state_scheme"
    using that by (cases q) (auto simp: updateUserBalance_def write_new_balance_def op_iff Let_def updateByUserId_def)
  show ?thesis using assms
    by (cases "te_lookup E (calls s) (the (t_txHash t))"; cases r)
      (auto simp: settle_def bindE_Inr bindE_Inl verify_hash_def op_iff Let_def save_tx_def dest!: b split: bool.splits if_splits)
qed

lemma verify_shape:
  assumes "verifyTransaction E i u role s = (r, s')"
  shows "s' = s \<or> (\<exists>t r'. tbl_find i (transactions s) = Some t \<and> settle E i t s = (r', s') \<and> truthy (t_txHash t) \<and>
    (role = None \<or> role = Some ADMIN \<or> t_status t = PENDING))"
proof (cases r)
  case (Inl e)
  with assms show ?thesis by (auto simp: verifyTransaction_def find_tx_def op_iff Let_def)
next
  case (Inr t)
  with assms show ?thesis by (auto simp: verifyTransaction_def find_tx_def op_iff Let_def)
qed

lemma verify_evolves:
  assumes ids: "tx_ids uuid s" and v: "verifyTransaction E i u role s = (r, s')"
    and p: "\<And>t. tbl_find i (transactions s) = Some t \<Longrightarrow> role = Some ADMIN \<or> role = None \<Longrightarrow> t_status t = PENDING"
  shows "evolves uuid s s' \<and> (\<forall>k. k \<noteq> i \<longrightarrow> tbl_find k (transactions s') = tbl_find k (transactions s))"
proof (cases "transactions s' = transactions s")
  case True
  with evolves_same [OF ids] show ?thesis by simp
next
  case False
  with verify_shape [OF v] p obtain t r' where t: "tbl_find i (transactions s) = Some t" "settle E i t s = (r', s')"
    "t_status t = PENDING" by auto
  from settle_tx [OF t(2)] False obtain t' where "transactions s' = tbl_save i t' (transactions s)" "t_status t' \<in> {SUCCESS, FAILED}"
    by blast
  moreover from this t(3) have "tx_trans (Some (t_status t)) (Some (t_status t'))" by (auto intro: confirmed rejected)
  ultimately show ?thesis using evolves_save [OF ids t(1) r_into_rtranclp] by (simp add: tbl_simps)
qed

lemma verify_job_evolves:
  assumes ids: "tx_ids uuid s" and inj: "inj uuid"
  shows "evolves uuid s (snd (verifyPendingTransactions E s))"
proof -
  let ?f = "\<lambda>(i, t :: transaction). tryE (bindE (verifyTransaction E i (Some ''system'') (Some ADMIN)) (\<lambda>_. ret ())) (\<lambda>_. ret ())"
  let ?I = "\<lambda>xs u. evolves uuid s u \<and> distinct (map fst xs) \<and>
    (\<forall>(i, t) \<in> set xs. t_status t = PENDING \<and> tbl_find i (transactions u) = Some t)"
  have d: "distinct (map fst (transactions s))" using ids inj by (simp add: tx_ids_def distinct_map inj_on_def)
  have "distinct (map fst (getPendingTransactions s))"
    using distinct_fst_filter [OF d] by (simp add: getPendingTransactions_def distinct_map)
  then have I: "?I (getPendingTransactions s) s"
    using evolves_same [OF ids] by (auto simp: getPendingTransactions_def tbl_distinct_in [OF d])
  obtain r t where l: "forE (getPendingTransactions s) ?f s = (r, t)" by fastforce
  have "\<exists>ys. ?I ys t"
  proof (rule forE_invariant [OF l])
    show "?I (getPendingTransactions s) s" by (rule I)
  next
    fix x xs u q w
    assume a: "?I (x # xs) u" and f: "?f x u = (q, w)"
    obtain i y where x: "x = (i, y)" by fastforce
    obtain r' where "verifyTransaction E i (Some ''system'') (Some ADMIN) u = (r', w)"
      using f x by (cases "verifyTransaction E i (Some ''system'') (Some ADMIN) u"; cases "fst (verifyTransaction E i (Some ''system'') (Some ADMIN) u)")
        (auto simp: tryE_def bindE_def ret_def)
    from verify_evolves [OF _ this, of uuid] a x
    have "evolves uuid u w" "\<And>k. k \<noteq> i \<Longrightarrow> tbl_find k (transactions w) = tbl_find k (transactions u)"
      by (auto simp: evolves_def)
    moreover have "evolves uuid s w" using a \<open>evolves uuid u w\<close> unfolding evolves_def by (metis rtranclp_trans)
    moreover have "j \<noteq> i" if "(j, z) \<in> set xs" for j z using a x that by force
    ultimately show "?I xs w" using a by (simp add: case_prod_unfold) (metis prod.collapse)
  qed
  with l show ?thesis by (auto simp: verifyPendingTransactions_def op_defs)
qed

text \<open>The requests of users: everything but a change of status by an administrator, or a verification that is not
  made in the role of a user. All rows of a run get their ids from one generator.\<close>

fun by_user :: "(nat \<Rightarrow> string) \<Rightarrow> tx_event \<Rightarrow> bool" where
  "by_user uuid (Deposit E u dto) \<longleftrightarrow> te_uuid E = uuid"
| "by_user uuid (Withdrawal E u dto) \<longleftrightarrow> te_uuid E = uuid"
| "by_user uuid (Swap E u dto) \<longleftrightarrow> te_uuid E = uuid"
| "by_user uuid (Verify E i u role) \<longleftrightarrow> role \<noteq> None \<and> role \<noteq> Some ADMIN"
| "by_user uuid (SetStatus i st r) \<longleftrightarrow> False"
| "by_user uuid _ \<longleftrightarrow> True"

lemma annotate_evolves:
  assumes ids: "tx_ids uuid s" and f: "\<And>t. t_status (f t) = t_status t"
  shows "evolves uuid s (snd (annotate i u f s))"
proof -
  have "evolves uuid s (s\<lparr>transactions := tbl_save i (f t) (transactions s)\<rparr>)" if "tbl_find i (transactions s) = Some t" for t
    by (rule evolves_save [OF ids that]) (simp_all add: f)
  then show ?thesis using evolves_same [OF ids, of s]
    by (auto simp: annotate_def find_tx_def op_defs save_tx_def split: option.splits)
qed

lemma cancel_evolves:
  assumes ids: "tx_ids uuid s"
  shows "evolves uuid s (snd (cancelTransaction i u s))"
proof -
  have "evolves uuid s (s\<lparr>transactions := tbl_save i (t\<lparr>t_status := CANCELLED\<rparr>) (transactions s)\<rparr>)"
    if "tbl_find i (transactions s) = Some t" "t_status t = PENDING" for t
    by (rule evolves_save [OF ids that(1)]) (simp_all add: that(2) cancelled r_into_rtranclp)
  then show ?thesis using evolves_same [OF ids, of s]
    by (auto simp: cancelTransaction_def find_tx_def op_defs save_tx_def split: option.splits)
qed

lemma tx_step_evolves:
  assumes ids: "tx_ids uuid s" and inj: "inj uuid" and e: "by_user uuid e"
  shows "evolves uuid s (tx_step e s)"
proof (cases e)
  case (Deposit E u dto)
  with e have i: "te_uuid E = uuid" by simp
  from evolves_old [OF ids createDeposit_old [of E, unfolded i, OF inj]] Deposit show ?thesis by simp
next
  case (Withdrawal E u dto)
  with e have i: "te_uuid E = uuid" by simp
  from evolves_old [OF ids createWithdrawal_old [of E, unfolded i, OF inj]] Withdrawal show ?thesis by simp
next
  case (Swap E u dto)
  with e have i: "te_uuid E = uuid" by simp
  from evolves_old [OF ids createSwap_old [of E, unfolded i, OF inj]] Swap show ?thesis by simp
next
  case (Verify E i u role)
  obtain r t where v: "verifyTransaction E i u role s = (r, t)" by fastforce
  from e Verify have "role \<noteq> None" "role \<noteq> Some ADMIN" by auto
  with verify_evolves [OF ids v] v Verify show ?thesis by simp
next
  case (VerifyJob E)
  with verify_job_evolves [OF ids inj] show ?thesis by simp
next
  case (SetStatus i st r)
  with e show ?thesis by simp
next
  case (Cancel i u)
  with cancel_evolves [OF ids] show ?thesis by simp
next
  case (Note i u n)
  with annotate_evolves [OF ids, of "\<lambda>t. t\<lparr>t_userNote := n\<rparr>"] show ?thesis by (simp add: updateNote_def)
next
  case (Tags i u ts)
  with annotate_evolves [OF ids, of "\<lambda>t. t\<lparr>t_tags := Some ts\<rparr>"] show ?thesis by (simp add: updateTags_def)
qed

interpretation tx_run: status_machine tx_step "by_user uuid" "\<lambda>s. tx_ids uuid s \<and> inj uuid" "\<lambda>_ _. True" tx_status_of tx_trans
  for uuid
  by unfold_locales (use tx_step_evolves in \<open>auto simp: evolves_def\<close>)

section \<open>Amounts\<close>

lemma check_limits_frame:
  "check_limits rate now u a c s = (x, t) \<Longrightarrow> t = s\<lparr>tx_limits := with_defaults (tx_limits s)\<rparr>"
  by (cases x) (auto simp: check_limits_def getUserLimitStatus_def getUsageInUsd_def op_iff ensureDefaultLimits_eq Let_def)

lemma category_frame:
  "autoAssignCategory i t s = (r, s') \<Longrightarrow> users s' = users s \<and> payments s' = payments s \<and>
    (\<exists>t'. r = Inr t' \<and> t_status t' = t_status t \<and> t_txHash t' = t_txHash t \<and> t_type t' = t_type t \<and> t_amount t' = t_amount t)"
  by (cases r) (auto simp: autoAssignCategory_def op_iff save_tx_def split: option.splits prod.splits)

lemma updateUserBalance_Inr:
  assumes "updateUserBalance u c x s = (Inr v, t)"
  shows "\<exists>user. findById u s = Some user \<and> 0 \<le> js_add (balance_of user c) x"
    and "user_balance a d t = (if a = u \<and> d = c then js_add (user_balance u c s) x else user_balance a d s)"
    and "payments t = payments s" and "transactions t = transactions s"
proof -
  from assms obtain user where u: "findById u s = Some user" "\<not> js_add (balance_of user c) x < 0"
    and t: "t = updateByUserId u (\<lambda>w. w\<lparr>u_balances := set_balance c (js_add (balance_of user c) x) (u_balances user)\<rparr>) s"
    by (auto simp: updateUserBalance_def write_new_balance_def op_iff Let_def)
  from u show "\<exists>user. findById u s = Some user \<and> 0 \<le> js_add (balance_of user c) x" by auto
  show "user_balance a d t = (if a = u \<and> d = c then js_add (user_balance u c s) x else user_balance a d s)"
    using u(1) by (auto simp: t user_balance_def findById_updateByUserId balance_of_def set_balance_def)
  show "payments t = payments s" "transactions t = transactions s" by (simp_all add: t updateByUserId_def)
qed

abbreviation withdrawal_payment :: "string \<Rightarrow> string \<Rightarrow> withdrawal_dto \<Rightarrow> string \<Rightarrow> payment" where
  "withdrawal_payment key dest dto i \<equiv> \<lparr>p_secretKey = key, p_destination = dest, p_amount = num_to_string (cw_amount dto),
     p_memo = ''WITHDRAW-'' @ i\<rparr>"

lemma withdrawal_submit_Inr:
  assumes "withdrawal_submit E u dto dest i (s, t0) = (Inr t, (s', t1))"
  shows "t_status t = t_status t0" and "\<exists>h. t_txHash t = Some h"
    and "\<exists>user. findById u s = Some user"
    and "user_balance a d s' = (if a = u \<and> d = cw_currency dto then js_sub (user_balance a d s) (cw_amount dto) else user_balance a d s)"
    and "\<exists>key. payments s' = payments s @ [withdrawal_payment key dest dto i]"
proof -
  obtain key h w b where B: "updateUserBalance u (cw_currency dto) (- cw_amount dto)
      (s\<lparr>calls := Suc (calls s), payments := payments s @ [withdrawal_payment key dest dto i]\<rparr>) = (Inr (), w)"
    and C: "autoAssignCategory i (t0\<lparr>t_txHash := Some h\<rparr>) (w\<lparr>beneficiary_rows := b\<rparr>) = (Inr t, s')"
  proof (cases "truthy (cw_beneficiaryId dto)")
    case True
    with assms that show ?thesis
      by (fastforce simp: withdrawal_submit_def op_iff getUserStellarAddress_def getUserStellarSecretKey_def
          getStellarSecretKey_def decrypt_op_def dest!: resolveWallet_state)
  next
    case False
    obtain key h w where "updateUserBalance u (cw_currency dto) (- cw_amount dto)
        (s\<lparr>calls := Suc (calls s), payments := payments s @ [withdrawal_payment key dest dto i]\<rparr>) = (Inr (), w)"
      "autoAssignCategory i (t0\<lparr>t_txHash := Some h\<rparr>) w = (Inr t, s')"
      using False assms
      by (fastforce simp: withdrawal_submit_def op_iff getUserStellarAddress_def getUserStellarSecretKey_def
          getStellarSecretKey_def decrypt_op_def dest!: resolveWallet_state)
    with that [of key w h "beneficiary_rows w"] show ?thesis by simp
  qed
  note C' = category_frame [OF C] and B' = updateUserBalance_Inr [OF B]
  show "t_status t = t_status t0" "\<exists>h. t_txHash t = Some h" using C' by auto
  show "\<exists>user. findById u s = Some user" using B'(1) by (auto simp: findById_def)
  show "\<exists>key. payments s' = payments s @ [withdrawal_payment key dest dto i]" using B'(3) C' by auto
  have "user_balance a d s' = user_balance a d w" using C' by (intro user_balance_cong) simp
  moreover have "user_balance a d (s\<lparr>calls := n, payments := ps\<rparr>) = user_balance a d s" for a d n ps
    by (rule user_balance_cong) simp
  ultimately show "user_balance a d s' = (if a = u \<and> d = cw_currency dto then js_sub (user_balance a d s) (cw_amount dto) else user_balance a d s)"
    using B'(2) [of a d] by (simp add: js_add_def js_sub_def)
qed

lemma fail_transaction_never: "fail_transaction i a e p \<noteq> (Inr x, q)"
  by (auto simp: fail_transaction_def op_iff)

text \<open>Operations that only read: their outcome, and the state they leave.\<close>

lemma reader_iff: "(\<And>r t. m s = (r, t) \<Longrightarrow> t = s) \<Longrightarrow> m s = (r, t) \<longleftrightarrow> fst (m s) = r \<and> t = s"
  by (metis fst_conv prod.collapse)

lemma destination_iff [op_iff]:
  "withdrawal_destination u dto s = (r, t) \<longleftrightarrow> fst (withdrawal_destination u dto s) = r \<and> t = s"
  by (rule reader_iff) (rename_tac x y, case_tac x, auto simp: withdrawal_destination_def op_iff split: if_splits)

lemma currency_iff [op_iff]: "active_currency c s = (r, t) \<longleftrightarrow> fst (active_currency c s) = r \<and> t = s"
  by (rule reader_iff) (rename_tac x y, case_tac x, auto simp: active_currency_def op_iff)

lemma rate_iff [op_iff]: "usd_rate E c s = (r, t) \<longleftrightarrow> fst (usd_rate E c s) = r \<and> t = s"
  by (rule reader_iff) (auto simp: usd_rate_def op_iff split: sum.splits)

lemma check_limits_iff [op_iff]: "check_limits rate now u a c s = (r, t) \<longleftrightarrow>
    fst (check_limits rate now u a c s) = r \<and> t = s\<lparr>tx_limits := with_defaults (tx_limits s)\<rparr>"
  using check_limits_frame [of rate now u a c s] by (metis fst_conv prod.collapse)

lemma getUserBalance_Inr [op_iff]: "getUserBalance u c s = (Inr b, t) \<longleftrightarrow>
    (\<exists>user. findById u s = Some user \<and> b = balance_of user c) \<and> t = s"
  by (auto simp: getUserBalance_def op_iff)

lemma findById_limits [simp]: "findById u (s\<lparr>tx_limits := x\<rparr>) = findById u s"
  by (simp add: findById_def)

lemma withdrawal_checks_Inr:
  assumes "withdrawal_checks E u dto s = (Inr (dest, rate, fee), s')"
  shows "\<exists>user. findById u s = Some user \<and> cw_amount dto \<le> balance_of user (cw_currency dto) \<and>
      js_add (cw_amount dto) (feeAmount fee) \<le> balance_of user (cw_currency dto)"
    and "withdrawal_destination u dto s = (Inr dest, s)"
    and "fee = calculateFee FEE_WITHDRAW (cw_currency dto) (cw_amount dto) (fee_rules s)"
    and "s' = s\<lparr>tx_limits := with_defaults (tx_limits s)\<rparr>"
  using assms by (auto simp: withdrawal_checks_def op_iff Let_def not_less)

lemma withdrawal_checks_users: "withdrawal_checks E u dto s = (r, t) \<Longrightarrow> users t = users s"
  by (cases r) (auto simp: withdrawal_checks_def op_iff Let_def getUserBalance_def)

lemma createWithdrawal_Inr:
  assumes "createWithdrawal E u dto s = (Inr t, s')"
  obtains dest rate fee v t0 t1 where
    "withdrawal_checks E u dto s = (Inr (dest, rate, fee), s\<lparr>tx_limits := with_defaults (tx_limits s)\<rparr>)"
    "users v = users s" "payments v = payments s" "t_status t0 = PENDING"
    "withdrawal_submit E u dto dest (te_uuid E (length (transactions s))) (v, t0) = (Inr t, (s', t1))"
proof -
  from assms obtain dest rate fee w where c: "withdrawal_checks E u dto s = (Inr (dest, rate, fee), w)"
    and p: "(let t = new_transaction (te_now E) u WITHDRAW (cw_amount dto) (cw_currency dto) rate fee (cw_memo dto) in
     bindE (persistTransactionArtifacts (te_uuid E) t fee) (\<lambda>i.
     run_obj t (tryE (withdrawal_submit E u dto dest i)
       (fail_transaction i ''Failed to create withdrawal transaction on blockchain'')))) w = (Inr t, s')"
    by (auto simp: createWithdrawal_def bindE_Inr [of "withdrawal_checks E u dto"])
  let ?t = "new_transaction (te_now E) u WITHDRAW (cw_amount dto) (cw_currency dto) rate fee (cw_memo dto)"
  obtain t1 v where "withdrawal_submit E u dto dest (te_uuid E (length (transactions w))) (v, ?t) = (Inr t, (s', t1))"
    "users v = users w" "payments v = payments w"
    using p by (auto simp: Let_def op_iff persist_eq fail_transaction_never)
  with that [of dest rate fee v ?t t1] c withdrawal_checks_Inr(4) [OF c] show ?thesis by (simp add: new_transaction_def)
qed

lemma updateUserBalance_Inl:
  assumes "updateUserBalance u c x s = (Inl e, t)"
  shows "t = s" and "\<not> is_slippage_error (exn_message e)"
  using assms by (auto simp: updateUserBalance_def write_new_balance_def op_iff Let_def is_slippage_error_def)

lemma category_Inl: "autoAssignCategory i t s \<noteq> (Inl e, s')"
  using category_frame by fastforce

lemma secret_iff [op_iff]: "getUserStellarSecretKey E u w s = (r, t) \<longleftrightarrow> fst (getUserStellarSecretKey E u w s) = r \<and> t = s"
  by (rule reader_iff) (rename_tac x y, case_tac x,
      auto simp: getUserStellarSecretKey_def decrypt_op_def op_iff dest!: resolveWallet_state)

lemma submit_frame: "submitTransaction E op m s = (r, t) \<Longrightarrow> t = s\<lparr>calls := Suc (calls s)\<rparr>"
  by (auto simp: submitTransaction_def split: sum.splits)

lemma submit_iff [op_iff]: "submitTransaction E op m s = (r, t) \<longleftrightarrow>
    fst (submitTransaction E op m s) = r \<and> t = s\<lparr>calls := Suc (calls s)\<rparr>"
  using submit_frame [of E op m s] by (metis fst_conv prod.collapse)

lemma save_tx_iff [op_iff]: "save_tx i t s = (r, u) \<longleftrightarrow> r = Inr () \<and> u = s\<lparr>transactions := tbl_save i t (transactions s)\<rparr>"
  by (auto simp: save_tx_def op_iff)

lemma swap_submit_Inl:
  assumes "swap_submit E u dto pair fee w p i (s, t0) = (Inl e, (s', t1))" and "is_slippage_error (exn_message e)"
  shows "users s' = users s"
  using assms
  by (auto simp: swap_submit_def op_iff Let_def category_Inl dest: updateUserBalance_Inl)

lemma swap_submit_Inr:
  assumes "swap_submit E u dto pair fee w p i (s, t0) = (Inr t, (s', t1))" and ne: "sw_fromCurrency dto \<noteq> sw_toCurrency dto"
  shows "t_status t = SUCCESS" and "\<exists>h. t_txHash t = Some h"
    and "user_balance a d s' =
      (if a = u \<and> d = sw_fromCurrency dto then js_sub (user_balance a d s) (js_add (sw_amount dto) (feeAmount fee))
       else if a = u \<and> d = sw_toCurrency dto then js_add (user_balance a d s) (effective_amount pair p)
       else user_balance a d s)"
proof -
  obtain h w x where A: "updateUserBalance u (sw_fromCurrency dto) (- js_add (sw_amount dto) (feeAmount fee))
      (s\<lparr>calls := Suc (calls s), transactions := tbl_save i (t0\<lparr>t_txHash := Some h, t_status := SUCCESS\<rparr>) (transactions s)\<rparr>) = (Inr (), w)"
    and B: "updateUserBalance u (sw_toCurrency dto) (effective_amount pair p) w = (Inr (), x)"
    and C: "autoAssignCategory i (t0\<lparr>t_txHash := Some h, t_status := SUCCESS\<rparr>)
      (notify u ''Swap Completed'' ''Successfully swapped'' x) = (Inr t, s')"
    using assms(1) by (fastforce simp: swap_submit_def op_iff Let_def)
  note C' = category_frame [OF C]
  show "t_status t = SUCCESS" "\<exists>h. t_txHash t = Some h" using C' by auto
  have "user_balance a d s' = user_balance a d x" using C' by (intro user_balance_cong) (simp add: notify_def)
  moreover have "user_balance a d (s\<lparr>calls := n, transactions := T\<rparr>) = user_balance a d s" for a d n T
    by (rule user_balance_cong) simp
  ultimately show "user_balance a d s' =
      (if a = u \<and> d = sw_fromCurrency dto then js_sub (user_balance a d s) (js_add (sw_amount dto) (feeAmount fee))
       else if a = u \<and> d = sw_toCurrency dto then js_add (user_balance a d s) (effective_amount pair p)
       else user_balance a d s)"
    using updateUserBalance_Inr(2) [OF B, of a d] updateUserBalance_Inr(2) [OF A] ne by (auto simp: js_add_def js_sub_def)
qed

lemma if_op_iff [op_iff]: "(if c then m else n) s = (r, t) \<longleftrightarrow> (if c then m s = (r, t) else n s = (r, t))"
  by simp

lemma swap_attempt_None:
  assumes "swap_attempt E u dto pair fee w l p s = (Inr None, s')"
  shows "users s' = users s" and "\<not> l"
  using assms
  by (auto simp: swap_attempt_def op_iff Let_def persist_eq dest: swap_submit_Inl split: if_splits)

lemma swap_attempt_Some:
  assumes "swap_attempt E u dto pair fee w l p s = (Inr (Some t), s')"
  obtains v t0 i t1 where "users v = users s" "swap_submit E u dto pair fee w p i (v, t0) = (Inr t, (s', t1))"
proof -
  let ?t = "swap_transaction (te_now E) u dto pair fee p"
  let ?p = "persistTransactionArtifacts (te_uuid E) ?t fee s"
  let ?i = "te_uuid E (length (transactions s))"
  obtain t1 where "swap_submit E u dto pair fee w p ?i (snd ?p, ?t) = (Inr t, (s', t1))"
    using assms by (auto simp: swap_attempt_def op_iff Let_def persist_eq split: if_splits)
  with that [of "snd ?p"] show ?thesis by (simp add: persist_eq Let_def)
qed

text \<open>The loop tries the paths in their order, and the attempts before the last one moved no balance.\<close>

lemma swap_loop_Inr:
  assumes "swap_loop (swap_attempt E u dto pair fee w) ps s = (Inr t, s')"
  obtains p v l where "p \<in> set ps" "users v = users s" "swap_attempt E u dto pair fee w l p v = (Inr (Some t), s')"
  using assms
proof (induction ps arbitrary: s thesis)
  case Nil
  then show ?case by (simp add: op_iff)
next
  case (Cons p ps)
  obtain r v where a: "swap_attempt E u dto pair fee w (ps = []) p s = (r, v)" by fastforce
  with Cons.prems(2) obtain x where r: "r = Inr x" by (auto simp: bindE_Inr)
  show ?case
  proof (cases x)
    case None
    with a r have "users v = users s" using swap_attempt_None by blast
    moreover have "swap_loop (swap_attempt E u dto pair fee w) ps v = (Inr t, s')"
      using Cons.prems(2) a r None by (simp add: bindE_def)
    ultimately show ?thesis using Cons.IH [of v] Cons.prems(1) by (metis list.set_intros(2))
  next
    case (Some t')
    with a r Cons.prems have "t' = t" "v = s'" by (auto simp: bindE_def ret_def)
    with a r Some Cons.prems(1) show ?thesis by (metis list.set_intros(1))
  qed
qed

lemma resolve_iff [op_iff]:
  "resolveWalletForTransaction u w a s = (r, t) \<longleftrightarrow> fst (resolveWalletForTransaction u w a s) = r \<and> t = s"
  by (rule reader_iff) (rule resolveWallet_state)

lemma swap_checks_Inr:
  assumes "swap_checks E u dto s = (Inr (pair, fee, w, paths), s')"
  shows "\<exists>user. findById u s = Some user \<and> js_add (sw_amount dto) (feeAmount fee) \<le> balance_of user (sw_fromCurrency dto)"
    and "sw_fromCurrency dto \<noteq> sw_toCurrency dto"
    and "\<exists>ps. validatePair (sw_fromCurrency dto) (sw_toCurrency dto) None (pair_rows s) = (Inr pair, ps)"
    and "fee = calculateFee FEE_SWAP (sw_fromCurrency dto) (sw_amount dto) (fee_rules s)"
    and "paths = findBestPath E (sw_fromCurrency dto) (sw_toCurrency dto) (num_to_string (sw_amount dto)) StrictSend"
    and "users s' = users s"
  using assms by (auto simp: swap_checks_def op_iff Let_def not_less)

section \<open>Properties\<close>

text \<open>C1. No run of requests, verifications and administrative changes makes a balance negative, and the ledger always
  verifies.\<close>

theorem tx_books_balanced:
  assumes "users_ok s" and "discrepancies (ledger s) = []"
  shows "users_ok (fold tx_step es s) \<and> verify (ledger_state.truncate (fold tx_step es s)) =
    (Inr BALANCED, ledger_state.truncate (fold tx_step es s))"
  using tx_books.inv_run [of s es] assms
  by (simp add: tx_ok_def discrepancies_Nil_iff verify_def op_defs ledger_state.truncate_def)

text \<open>C2. A transaction that is settled or cancelled stays so: no request of a user and no run of the verification job
  changes its status again.\<close>

theorem tx_settled_final:
  assumes "tx_ids uuid s" and "inj uuid" and "\<And>e. e \<in> set es \<Longrightarrow> by_user uuid e"
    and "tx_status_of k s = Some st" and "st \<noteq> PENDING"
  shows "tx_status_of k (fold tx_step es s) = Some st"
proof -
  have "tx_status_of k (fold tx_step es s) \<in> {Some st}"
    by (rule tx_run.run_closed [where uuid = uuid]) (use assms in \<open>auto simp: tx_trans_from\<close>)
  then show ?thesis by simp
qed

lemma withdrawal_facts:
  assumes "createWithdrawal E u dto s = (Inr t, s')"
  shows "\<exists>user fee dest key. findById u s = Some user \<and>
    fee = feeAmount (calculateFee FEE_WITHDRAW (cw_currency dto) (cw_amount dto) (fee_rules s)) \<and>
    js_add (cw_amount dto) fee \<le> balance_of user (cw_currency dto) \<and>
    withdrawal_destination u dto s = (Inr dest, s) \<and>
    payments s' = payments s @ [withdrawal_payment key dest dto (te_uuid E (length (transactions s)))] \<and>
    user_balance u (cw_currency dto) s' = js_sub (balance_of user (cw_currency dto)) (cw_amount dto) \<and>
    (\<forall>v c. (v, c) = (u, cw_currency dto) \<or> user_balance v c s' = user_balance v c s) \<and>
    t_status t = PENDING \<and> (\<exists>h. t_txHash t = Some h)"
proof -
  from assms obtain dest rate fee v t0 t1 where
    c: "withdrawal_checks E u dto s = (Inr (dest, rate, fee), s\<lparr>tx_limits := with_defaults (tx_limits s)\<rparr>)"
    and v: "users v = users s" "payments v = payments s" and t0: "t_status t0 = PENDING"
    and w: "withdrawal_submit E u dto dest (te_uuid E (length (transactions s))) (v, t0) = (Inr t, (s', t1))"
    by (rule createWithdrawal_Inr)
  note w' = withdrawal_submit_Inr [OF w] and c' = withdrawal_checks_Inr [OF c]
  have b: "user_balance a d v = user_balance a d s" for a d using v(1) by (rule user_balance_cong)
  from c'(1) obtain user where user: "findById u s = Some user" by auto
  with b have "user_balance u (cw_currency dto) v = balance_of user (cw_currency dto)" by (simp add: user_balance_def)
  with user c' w' v t0 b show ?thesis by auto
qed



lemma deposit_submit_users: "deposit_submit E u dto i (s, t0) = (r, (s', t1)) \<Longrightarrow>
    \<forall>n p. p_memo p = ''DEPOSIT-'' @ i \<longrightarrow> submit (te_horizon E) n p = None \<Longrightarrow>
    users s' = users s \<and> (\<exists>e. r = Inl e)"
  by (cases r) (auto simp: deposit_submit_def op_iff getUserStellarAddress_def getStellarSecretKey_def)

lemma withdrawal_submit_users: "withdrawal_submit E u dto dest i (s, t0) = (r, (s', t1)) \<Longrightarrow>
    \<forall>n p. p_memo p = ''WITHDRAW-'' @ i \<longrightarrow> submit (te_horizon E) n p = None \<Longrightarrow>
    users s' = users s \<and> (\<exists>e. r = Inl e)"
  by (cases r) (auto simp: withdrawal_submit_def op_iff getUserStellarAddress_def)

text \<open>While the network rejects text memos of more than 28 bytes and ids have 36 characters, no deposit and no withdrawal
  succeeds, since the payments carry the id after a prefix as their memo; and none of these requests moves a balance.\<close>

theorem tx_memo_too_long:
  assumes "rejects_long_memos (te_horizon E)" and "\<And>n. length (te_uuid E n) = 36"
  shows "(\<exists>e. fst (createDeposit E u dd s) = Inl e) \<and> (\<exists>e. fst (createWithdrawal E u wd s) = Inl e) \<and>
    users (snd (createDeposit E u dd s)) = users s \<and> users (snd (createWithdrawal E u wd s)) = users s"
proof -
  have no: "submit (te_horizon E) n p = None" if "p_memo p = ''DEPOSIT-'' @ te_uuid E k \<or> p_memo p = ''WITHDRAW-'' @ te_uuid E k" for n p k
    using assms(1) assms(2) [of k] that by (auto simp: rejects_long_memos_def)
  obtain r1 s1 where d: "createDeposit E u dd s = (r1, s1)" by fastforce
  have "(\<exists>e. r1 = Inl e) \<and> users s1 = users s"
    using d no by (cases r1) (auto simp: createDeposit_def op_iff Let_def persist_eq fail_transaction_def dest!: deposit_submit_users)
  moreover obtain r2 s2 where w: "createWithdrawal E u wd s = (r2, s2)" by fastforce
  have "(\<exists>e. r2 = Inl e) \<and> users s2 = users s"
    using w no by (cases r2) (auto simp: createWithdrawal_def op_iff Let_def persist_eq fail_transaction_def dest!: withdrawal_submit_users withdrawal_checks_users)
  ultimately show ?thesis using d w by simp
qed

text \<open>An administrator who verifies a settled deposit again credits it again.\<close>

theorem tx_reverify_credits_again:
  assumes t: "tbl_find i (transactions s) = Some t" "t_type t = DEPOSIT" "t_status t = SUCCESS" "t_txHash t = Some h" "h \<noteq> []"
    and l: "te_lookup E (calls s) h = Some True"
    and u: "findById (t_userId t) s = Some user" "0 \<le> balance_of user (t_currency t)" "0 \<le> t_amount t"
  shows "\<exists>s'. verifyTransaction E i x (Some ADMIN) s = (Inr t, s') \<and>
    user_balance (t_userId t) (t_currency t) s' = js_add (balance_of user (t_currency t)) (parse_float (t_amount t))"
proof -
  let ?v = "s\<lparr>calls := Suc (calls s)\<rparr>"
  have "0 \<le> js_add (balance_of user (t_currency t)) (parse_float (t_amount t))" using u by (intro js_add_nonneg parse_float_nonneg)
  then obtain w where w: "updateUserBalance (t_userId t) (t_currency t) (parse_float (t_amount t)) ?v = (Inr (), w)"
    using u(1) by (auto simp: updateUserBalance_def write_new_balance_def op_defs findById_def Let_def)
  have "t\<lparr>t_status := t_status t\<rparr> = t" by (cases t) simp
  then have same: "t\<lparr>t_status := SUCCESS\<rparr> = t" using t(3) by simp
  have "verifyTransaction E i x (Some ADMIN) s = (Inr t, w\<lparr>transactions := tbl_save i t (transactions w)\<rparr>)"
    using t l w by (simp add: verifyTransaction_def find_tx_def settle_def verify_hash_def op_defs truthy_def save_tx_def same)
  moreover have "user_balance a c (w\<lparr>transactions := T\<rparr>) = user_balance a c w" for a c T by (rule user_balance_cong) simp
  moreover have "user_balance a c ?v = user_balance a c s" for a c by (rule user_balance_cong) simp
  ultimately show ?thesis using updateUserBalance_Inr(2) [OF w] u(1) by (simp add: user_balance_def)
qed

text \<open>Cancelling a pending withdrawal gives nothing back: the payment is sent and the balance stays debited.\<close>

theorem tx_cancel_keeps_debit:
  assumes "createWithdrawal E u dto s = (Inr t, s1)" and "cancelTransaction i u s1 = (Inr t2, s2)"
  shows "t_status t2 = CANCELLED \<and> payments s2 = payments s1 \<and> length (payments s1) = Suc (length (payments s)) \<and>
    user_balance u (cw_currency dto) s2 = js_sub (user_balance u (cw_currency dto) s) (cw_amount dto)"
proof -
  from withdrawal_facts [OF assms(1)] obtain user where u: "findById u s = Some user" "length (payments s1) = Suc (length (payments s))"
    "user_balance u (cw_currency dto) s1 = js_sub (balance_of user (cw_currency dto)) (cw_amount dto)" by auto
  from assms(2) have s2: "t_status t2 = CANCELLED" "payments s2 = payments s1" "users s2 = users s1"
    by (auto simp: cancelTransaction_def find_tx_def op_iff)
  from user_balance_cong [OF s2(3)] u s2 show ?thesis by (simp add: user_balance_def)
qed

text \<open>Two credits of one user that both read before either writes: the first one is lost. This is how the verification
  job runs its verifications.\<close>

theorem tx_concurrent_credits:
  assumes "findById u s = Some user" and "0 \<le> balance_of user c" and "0 \<le> x" and "0 \<le> y"
  shows "\<exists>s'. bindE (gets (findById u)) (\<lambda>read1. bindE (gets (findById u)) (\<lambda>read2.
      bindE (write_new_balance u c x read1) (\<lambda>_. write_new_balance u c y read2))) s = (Inr (), s') \<and>
    user_balance u c s' = js_add (balance_of user c) y"
proof -
  have "0 \<le> js_add (balance_of user c) x" "0 \<le> js_add (balance_of user c) y" using assms by (auto intro: js_add_nonneg)
  with assms(1) show ?thesis
    by (auto simp: write_new_balance_def op_defs Let_def user_balance_def findById_updateByUserId balance_of_def set_balance_def)
qed

text \<open>The check of the destination never refuses: the lookup hides a missing account behind an empty list, and its
  other failures carry none of the texts the check looks for.\<close>

theorem destination_never_refused: "validateStellarDestination E address = Inr ()"
  by (simp add: validateStellarDestination_def getWalletBalances_def Let_def ascii_lower_def split: option.splits)

section \<open>Concrete instances\<close>

definition demo_env :: tx_env where
  "demo_env = \<lparr>te_horizon = \<lparr>submit = \<lambda>n p. Some ''hash'', new_keypair = \<lambda>n. ([], []), encrypt = id, decrypt = Some\<rparr>,
     te_rate = \<lambda>a b. Inr 1, te_uuid = demo_uuid, te_now = 7, te_hot_secret = Some ''S'',
     te_referral = \<lparr>REFERRAL_REWARD_AMOUNT = None, REFERRAL_REWARD_CURRENCY = None\<rparr>,
     te_load_account = \<lambda>a. \<lparr>al_status = None, al_balances = Some []\<rparr>, te_too_slow = \<lambda>a. False, te_build = \<lambda>a m. True,
     te_sign = \<lambda>k. True, te_submit = \<lambda>n op m. Inr (Some ''hash''), te_lookup = \<lambda>n h. Some True,
     te_paths = \<lambda>m a b x. Some [\<lparr>pr_source_amount = 100, pr_destination_amount = 50, pr_path = []\<rparr>],
     te_slippage = None, te_sdk_in_scope = True\<rparr>"

definition demo_tx_state :: "transaction table \<Rightarrow> tx_state" where
  "demo_tx_state ts = \<lparr>users = [(''bob'', (demo_user 500)\<lparr>u_walletSecretKeyEncrypted := Some ''k''\<rparr>)], wallets = [],
     notifications = [], calls = 0, payments = [], ledger = [], transactions = ts, tx_limits = [], referrals = [],
     fee_rules = [], fee_records = [],
     currency_rows = [(''XLM'', \<lparr>c_code = ''XLM'', c_name = ''Lumen'', c_symbol = None, c_decimals = 7, c_isBase = False, c_isActive = True\<rparr>)],
     pair_rows = [(''p'', demo_pair\<lparr>cp_spreadPercent := 0\<rparr>)], beneficiary_rows = [], system_categories = []\<rparr>"

definition demo_withdrawal :: withdrawal_dto where
  "demo_withdrawal = \<lparr>cw_amount = 100, cw_currency = ''XLM'', cw_destinationAddress = Some ''GD'', cw_beneficiaryId = None,
     cw_walletId = None, cw_memo = None\<rparr>"

definition demo_swap :: swap_dto where
  "demo_swap = \<lparr>sw_amount = 100, sw_fromCurrency = ''XLM'', sw_toCurrency = ''USD'', sw_sourceAddress = ''G'', sw_walletId = None,
     sw_memo = None\<rparr>"

lemma demo_user_row: "findById ''bob'' (demo_tx_state ts) = Some ((demo_user 500)\<lparr>u_walletSecretKeyEncrypted := Some ''k''\<rparr>)"
  by (simp add: demo_tx_state_def findById_def tbl_find_def)

lemma demo_limits_pass: "check_limits (te_rate demo_env) (te_now demo_env) ''bob'' 100 ''XLM'' (demo_tx_state []) =
    (Inr (), (demo_tx_state [])\<lparr>tx_limits := with_defaults []\<rparr>)"
proof -
  let ?s = "demo_tx_state []"
  have k: "u_kycTier ((demo_user 500)\<lparr>u_walletSecretKeyEncrypted := Some ''k''\<rparr>) = KYC_BASIC" by (simp add: demo_user_def)
  have ts: "tx_limits ?s = []" "usage_rows ''bob'' n (?s\<lparr>tx_limits := x\<rparr>) = []" for n x
    by (simp_all add: demo_tx_state_def usage_rows_def counted_def)
  have m: "map_of (with_defaults []) KYC_BASIC = Some \<lparr>tl_dailyLimitUsd = 1000, tl_monthlyLimitUsd = 15000, tl_singleTxLimitUsd = 1000\<rparr>"
    by (simp add: with_defaults_def default_limits_def)
  have x: "js_mul 100 1 = 100" "js_sub 1000 0 = 1000" "js_sub 15000 0 = 15000" by (simp_all add: js_mul_def js_sub_def)
  show ?thesis using demo_user_row [of "[]"] k m x ts
    by (simp add: check_limits_def getUserLimitStatus_def getUsageInUsd_def op_defs ensureDefaultLimits_eq Let_def
        convertToUsd_def findById_def demo_env_def toUpperCase_def ascii_upper_def)
qed

lemma demo_withdrawal_succeeds:
  "\<exists>t s' y. createWithdrawal demo_env ''bob'' demo_withdrawal (demo_tx_state []) = (Inr t, s') \<and>
     tbl_find (demo_uuid 0) (transactions s') = Some y \<and> t_userId y = ''bob'' \<and> t_status y = PENDING"
proof -
  let ?s = "demo_tx_state []" and ?u = "(demo_user 500)\<lparr>u_walletSecretKeyEncrypted := Some ''k''\<rparr>"
  have b: "balance_of ?u ''XLM'' = 500" "u_walletPublicKey ?u = ''G''" "u_walletSecretKeyEncrypted ?u = Some ''k''"
    by (simp_all add: demo_user_def balance_of_def)
  have r: "wallets ?s = []" "fee_rules ?s = []" "system_categories ?s = []" "transactions ?s = []" "calls ?s = 0"
    "\<exists>c. findCurrency ''XLM'' (currency_rows ?s) = (Inr c, currency_rows ?s) \<and> c_isActive c"
    by (simp_all add: demo_tx_state_def findCurrency_def op_defs tbl_find_def)
  have x: "js_add 100 0 = 100" "js_add 500 (- 100) = 400" by (simp_all add: js_add_def)
  let ?fee = "\<lparr>feeAmount = 0, feeCurrency = ''XLM'', feeType = FLAT\<rparr>"
  have c: "withdrawal_checks demo_env ''bob'' demo_withdrawal ?s = (Inr (''GD'', 1, ?fee), ?s\<lparr>tx_limits := with_defaults []\<rparr>)"
    using r b x demo_user_row [of "[]"] demo_limits_pass
    by (auto simp: withdrawal_checks_def demo_withdrawal_def withdrawal_destination_def active_currency_def readE_def op_defs
        truthy_def getUserBalance_def usd_rate_def demo_env_def calculateFee_def findActiveConfig_def activeRule_def
        validateStellarDestination_def getWalletBalances_def Let_def)
  let ?w = "\<lambda>T R L. ?s\<lparr>tx_limits := with_defaults [], transactions := T, fee_records := R, ledger := L\<rparr>"
  have f: "findById ''bob'' (?w T R L) = Some ?u" for T R L
    using demo_user_row [of "[]"] by (simp add: findById_def)
  have w: "resolveWalletForTransaction ''bob'' None False (?w T R L) =
      (Inr \<lparr>wc_publicKey = ''G'', wc_encryptedSecretKey = Some ''k'', wc_isWatchOnly = False\<rparr>, ?w T R L)" for T R L
    using f b r(1) by (simp add: resolveWalletForTransaction_def op_defs truthy_def)
  have "\<exists>t s'. withdrawal_submit demo_env ''bob'' demo_withdrawal ''GD'' i (?w T R L, t0) = (Inr t, s') \<and> transactions (fst s') = T" for i T R L t0
    using w f b x r(3)
    by (simp add: withdrawal_submit_def lift_op_def zoomE_def getUserStellarAddress_def getUserStellarSecretKey_def op_defs
        demo_env_def demo_withdrawal_def createTransaction_def decrypt_op_def sendPayment_def assign_obj_def truthy_def
        updateUserBalance_def write_new_balance_def findById_def Let_def autoAssignCategory_def updateByUserId_def)
  then have sub: "\<exists>t s' t1. withdrawal_submit demo_env ''bob'' demo_withdrawal ''GD'' i (?w T R L, t0) = (Inr t, (s', t1)) \<and>
      transactions s' = T" for i T R L t0
    by (metis prod.collapse)
  let ?t = "new_transaction (te_now demo_env) ''bob'' WITHDRAW (cw_amount demo_withdrawal) (cw_currency demo_withdrawal) 1 ?fee
    (cw_memo demo_withdrawal)" and ?i = "te_uuid demo_env 0"
  obtain t s' t1 where "withdrawal_submit demo_env ''bob'' demo_withdrawal ''GD'' ?i
      (?w (tbl_save ?i ?t []) (fee_records ?s @ [feeRecord ?i (t_userId ?t) ?fee]) (ledger ?s @ entries_of (?i, ?t)), ?t) = (Inr t, (s', t1))"
      "transactions s' = tbl_save ?i ?t []"
    using sub by blast
  with c have "createWithdrawal demo_env ''bob'' demo_withdrawal ?s = (Inr t, s')"
    by (simp add: createWithdrawal_def bindE_def persist_eq Let_def run_obj_def tryE_def r(4))
  moreover have "tbl_find (demo_uuid 0) (transactions s') = Some ?t"
    using \<open>transactions s' = _\<close> by (simp add: tbl_simps demo_env_def)
  ultimately show ?thesis by (auto simp: new_transaction_def)
qed


theorem tx_cancel_keeps_debit_witness:
  "\<exists>t s1 t2 s2. createWithdrawal demo_env ''bob'' demo_withdrawal (demo_tx_state []) = (Inr t, s1) \<and>
     cancelTransaction (demo_uuid 0) ''bob'' s1 = (Inr t2, s2) \<and> t_status t2 = CANCELLED \<and>
     user_balance ''bob'' ''XLM'' s2 = js_sub 500 100"
proof -
  from demo_withdrawal_succeeds obtain t s1 y where w: "createWithdrawal demo_env ''bob'' demo_withdrawal (demo_tx_state []) = (Inr t, s1)"
    and y: "tbl_find (demo_uuid 0) (transactions s1) = Some y" "t_userId y = ''bob''" "t_status y = PENDING" by blast
  from y obtain t2 s2 where c: "cancelTransaction (demo_uuid 0) ''bob'' s1 = (Inr t2, s2)"
    by (simp add: cancelTransaction_def find_tx_def op_defs save_tx_def)
  have b: "user_balance ''bob'' ''XLM'' (demo_tx_state []) = 500"
    by (simp add: user_balance_def demo_user_row) (simp add: demo_user_def balance_of_def)
  from tx_cancel_keeps_debit [OF w c] b w c show ?thesis by (auto simp: demo_withdrawal_def)
qed

theorem tx_books_balanced_witness:
  "users_ok (fold tx_step [Withdrawal demo_env ''bob'' demo_withdrawal, VerifyJob demo_env] (demo_tx_state []))"
proof -
  have "users_ok (demo_tx_state [])"
    by (auto simp: users_ok_def findById_def demo_tx_state_def tbl_find_def balances_ok_def demo_user_def split: if_splits)
  moreover have "discrepancies (ledger (demo_tx_state [])) = []" by (simp add: demo_tx_state_def discrepancies_def)
  ultimately show ?thesis using tx_books_balanced by blast
qed

theorem tx_settled_final_witness:
  "tx_status_of (demo_uuid 0) (fold tx_step [Cancel (demo_uuid 0) ''u'', Verify demo_env (demo_uuid 0) (Some ''u'') (Some USER), VerifyJob demo_env]
     (demo_tx_state [(demo_uuid 0, (demo_tx DEPOSIT)\<lparr>t_status := FAILED, t_txHash := Some ''h''\<rparr>)])) = Some FAILED"
proof (rule tx_settled_final [OF _ demo_uuid_inj])
  show "tx_ids demo_uuid (demo_tx_state [(demo_uuid 0, (demo_tx DEPOSIT)\<lparr>t_status := FAILED, t_txHash := Some ''h''\<rparr>)])"
    by (simp add: tx_ids_def demo_tx_state_def)
qed (auto simp: tx_status_of_def demo_tx_state_def tbl_find_def)

theorem tx_reverify_credits_again_witness:
  "\<exists>s'. verifyTransaction demo_env ''t'' (Some []) (Some ADMIN)
      (demo_tx_state [(''t'', (demo_tx DEPOSIT)\<lparr>t_userId := ''bob'', t_status := SUCCESS, t_txHash := Some ''h''\<rparr>)]) =
      (Inr ((demo_tx DEPOSIT)\<lparr>t_userId := ''bob'', t_status := SUCCESS, t_txHash := Some ''h''\<rparr>), s') \<and>
    user_balance ''bob'' ''XLM'' s' = js_add 500 (parse_float 10)"
  using tx_reverify_credits_again [of "''t''" "demo_tx_state [(''t'', (demo_tx DEPOSIT)\<lparr>t_userId := ''bob'', t_status := SUCCESS, t_txHash := Some ''h''\<rparr>)]"
      "(demo_tx DEPOSIT)\<lparr>t_userId := ''bob'', t_status := SUCCESS, t_txHash := Some ''h''\<rparr>" "''h''" demo_env
      "(demo_user 500)\<lparr>u_walletSecretKeyEncrypted := Some ''k''\<rparr>" "Some []"] demo_user_row
  by (simp add: tbl_find_def) (simp add: demo_tx_state_def demo_tx_def demo_env_def demo_user_def balance_of_def)

definition memo_env :: tx_env where
  "memo_env = demo_env\<lparr>te_uuid := \<lambda>n. replicate 36 CHR ''x'',
     te_horizon := (te_horizon demo_env)\<lparr>submit := \<lambda>n p. if 28 < length (p_memo p) then None else Some ''hash''\<rparr>\<rparr>"

theorem tx_memo_too_long_witness:
  "\<exists>e. fst (createWithdrawal memo_env ''bob'' demo_withdrawal (demo_tx_state [])) = Inl e"
proof -
  have "rejects_long_memos (te_horizon memo_env)" "length (te_uuid memo_env n) = 36" for n
    by (simp_all add: rejects_long_memos_def memo_env_def)
  from tx_memo_too_long [OF this] show ?thesis by blast
qed

lemma demo_swap_succeeds: "\<exists>t s'. createSwap demo_env ''bob'' demo_swap (demo_tx_state []) = (Inr t, s')"
proof -
  let ?s = "demo_tx_state []" and ?u = "(demo_user 500)\<lparr>u_walletSecretKeyEncrypted := Some ''k''\<rparr>"
  let ?pair = "demo_pair\<lparr>cp_spreadPercent := 0\<rparr>" and ?p = "\<lparr>pr_source_amount = 100, pr_destination_amount = 50, pr_path = []\<rparr>"
  let ?fee = "\<lparr>feeAmount = 0, feeCurrency = ''XLM'', feeType = FLAT\<rparr>"
  let ?c = "\<lparr>wc_publicKey = ''G'', wc_encryptedSecretKey = Some ''k'', wc_isWatchOnly = False\<rparr>"
  have b: "balance_of ?u ''XLM'' = 500" "u_walletPublicKey ?u = ''G''" "u_walletSecretKeyEncrypted ?u = Some ''k''"
    by (simp_all add: demo_user_def balance_of_def)
  have x: "js_add 100 0 = 100" "js_add 500 (- 100) = 400" "effective_amount ?pair ?p = 50"
    by (simp_all add: js_add_def effective_amount_def js_mul_def js_sub_def js_div_def)
  have r: "wallets ?s = []" "fee_rules ?s = []" "system_categories ?s = []" "transactions ?s = []"
    "validatePair ''XLM'' ''USD'' None (pair_rows ?s) = (Inr ?pair, pair_rows ?s)"
    by (simp_all add: demo_tx_state_def validatePair_def findByCodes_def toUpperCase_def ascii_upper_def op_defs demo_pair_def)
  have f: "findById ''bob'' (?s\<lparr>tx_limits := with_defaults [], transactions := T, fee_records := R, ledger := L\<rparr>) = Some ?u" for T R L
    using demo_user_row [of "[]"] by (simp add: findById_def)
  have w: "resolveWalletForTransaction ''bob'' None False (?s\<lparr>tx_limits := with_defaults [], transactions := T, fee_records := R, ledger := L\<rparr>) =
      (Inr ?c, ?s\<lparr>tx_limits := with_defaults [], transactions := T, fee_records := R, ledger := L\<rparr>)" for T R L
    using f b r(1) by (simp add: resolveWalletForTransaction_def op_defs truthy_def)
  have "resolveWalletForTransaction ''bob'' None False (?s\<lparr>tx_limits := with_defaults []\<rparr>) = (Inr ?c, ?s\<lparr>tx_limits := with_defaults []\<rparr>)"
    using demo_user_row [of "[]"] b r(1) by (simp add: resolveWalletForTransaction_def op_defs truthy_def)
  then have c: "swap_checks demo_env ''bob'' demo_swap ?s = (Inr (?pair, ?fee, ?c, [?p]), ?s\<lparr>tx_limits := with_defaults []\<rparr>)"
    using r b x demo_user_row [of "[]"] demo_limits_pass
    by (simp add: swap_checks_def demo_swap_def readE_def op_defs getUserBalance_def calculateFee_def findActiveConfig_def
        activeRule_def findBestPath_def Let_def) (simp add: demo_env_def)
  have u: "\<exists>y. updateUserBalance ''bob'' ''XLM'' (- 100) v = (Inr (), y) \<and> findById ''bob'' y \<noteq> None \<and>
      balance_of (the (findById ''bob'' y)) ''USD'' = 0 \<and> system_categories y = []"
    if "findById ''bob'' v = Some ?u" "system_categories v = []" for v :: tx_state
    using that b x by (auto simp: updateUserBalance_def write_new_balance_def op_defs Let_def findById_updateByUserId
        balance_of_def set_balance_def) (simp_all add: demo_user_def updateByUserId_def)
  have u': "\<exists>y. updateUserBalance ''bob'' ''USD'' 50 v = (Inr (), y) \<and> system_categories y = []"
    if "findById ''bob'' v \<noteq> None" "balance_of (the (findById ''bob'' v)) ''USD'' = 0" "system_categories v = []" for v :: tx_state
    using that by (auto simp: updateUserBalance_def write_new_balance_def op_defs Let_def updateByUserId_def js_add_def)
  let ?w = "\<lambda>T R L. ?s\<lparr>tx_limits := with_defaults [], transactions := T, fee_records := R, ledger := L\<rparr>"
  have sub: "\<exists>t q. swap_submit demo_env ''bob'' demo_swap ?pair ?fee ?c ?p i (?w T R L, t0) = (Inr t, q)" for i T R L t0
  proof -
    let ?v = "(?w T R L)\<lparr>calls := Suc (calls ?s), transactions := tbl_save i (t0\<lparr>t_txHash := Some ''hash'', t_status := SUCCESS\<rparr>) T\<rparr>"
    have "findById ''bob'' ?v = Some ?u" "system_categories ?v = []" using f r(3) by (simp_all add: findById_def)
    from u [OF this] obtain y where y: "updateUserBalance ''bob'' ''XLM'' (- 100) ?v = (Inr (), y)" "findById ''bob'' y \<noteq> None"
      "balance_of (the (findById ''bob'' y)) ''USD'' = 0" "system_categories y = []" by blast
    from u' [OF y(2-4)] obtain z where z: "updateUserBalance ''bob'' ''USD'' 50 y = (Inr (), z)" "system_categories z = []" by blast
    show ?thesis using w y(1) z x(1,3)
      by (simp add: swap_submit_def lift_op_def zoomE_def op_defs demo_env_def demo_swap_def createTransaction_def Let_def
          signTransaction_def getUserStellarSecretKey_def decrypt_op_def submitTransaction_def assign_obj_def save_tx_def truthy_def
          notify_def autoAssignCategory_def)
  qed
  let ?t = "swap_transaction (te_now demo_env) ''bob'' demo_swap ?pair ?fee ?p" and ?i = "te_uuid demo_env 0"
  obtain t q where "swap_submit demo_env ''bob'' demo_swap ?pair ?fee ?c ?p ?i
      (?w (tbl_save ?i ?t []) (fee_records ?s @ [feeRecord ?i (t_userId ?t) ?fee]) (ledger ?s @ entries_of (?i, ?t)), ?t) = (Inr t, q)"
    using sub by blast
  with c show ?thesis
    by (cases q) (simp add: createSwap_def swap_attempt_def bindE_def persist_eq Let_def run_obj_def tryE_def ret_def r(4))
qed


end
