(* ===== verification/Reversals.thy ===== *)
theory Reversals
  imports Transactions
begin

text \<open>
  Reversals of settled transactions (\<open>transactions/services/transaction-reversal.service.ts\<close>,
  \<open>transactions/entities/transaction-reversal.entity.ts\<close>): an administrator previews a reversal, which
  stores it, and confirms it, which records a compensating transaction. \<open>maxReversalAgeDays\<close> is the
  configured age limit, 90 days by default.
\<close>

datatype reversal_status = PENDING_CONFIRMATION | REV_COMPLETED | REV_FAILED

record reversal =
  rv_transactionId :: string
  rv_reversalTransactionId :: "string option"
  rv_reason :: "string option"
  rv_authorisedBy :: string
  rv_legalReference :: "string option"
  rv_status :: reversal_status
  rv_completedAt :: "int option"

record reversal_state = tx_state +
  reversals :: "reversal table"

definition getReversalInfo :: "string \<Rightarrow> 'a reversal_state_scheme \<Rightarrow> (string \<times> reversal) option" where
  "getReversalInfo transactionId s = List.find (\<lambda>(i, r). rv_transactionId r = transactionId) (reversals s)"

definition save_reversal :: "string \<Rightarrow> reversal \<Rightarrow> ('a reversal_state_scheme, unit) op" where
  "save_reversal i r = modify (\<lambda>s. s\<lparr>reversals := tbl_save i r (reversals s)\<rparr>)"

definition max_age_days :: "rat option \<Rightarrow> rat" where
  "max_age_days configured = (case configured of None \<Rightarrow> 90 | Some d \<Rightarrow> d)"

definition previewReversal ::
    "rat option \<Rightarrow> (nat \<Rightarrow> string) \<Rightarrow> int \<Rightarrow> string \<Rightarrow> string \<Rightarrow> ('a reversal_state_scheme, string) op" where
  "previewReversal maxDays uuid now transactionId adminId =
     bindE (find_tx transactionId) (\<lambda>tx.
     bindE (require (t_status tx = SUCCESS)
       (UnprocessableEntityException ''Only COMPLETED (SUCCESS) transactions can be reversed'')) (\<lambda>_.
     bindE (gets (getReversalInfo transactionId)) (\<lambda>existing.
     bindE (require (existing = None) (ConflictException ''A reversal already exists for this transaction'')) (\<lambda>_.
     let ageDays = js_div (of_int (now - t_createdAt tx)) (of_int ms_per_day) in
     bindE (require (\<not> max_age_days maxDays < ageDays)
       (UnprocessableEntityException ''Cannot reverse transactions older than the limit'')) (\<lambda>_.
     bindE (gets (\<lambda>s. uuid (length (reversals s)))) (\<lambda>i.
     bindE (save_reversal i \<lparr>rv_transactionId = transactionId, rv_reversalTransactionId = None, rv_reason = None,
       rv_authorisedBy = adminId, rv_legalReference = None, rv_status = PENDING_CONFIRMATION, rv_completedAt = None\<rparr>) (\<lambda>_.
     ret i)))))))"

definition compensating :: "int \<Rightarrow> string \<Rightarrow> transaction \<Rightarrow> transaction" where
  "compensating now i tx = \<lparr>t_userId = t_userId tx, t_type = DEPOSIT, t_amount = t_amount tx, t_currency = t_currency tx,
     t_rate = None, t_status = SUCCESS, t_txHash = None, t_failureReason = None, t_feeAmount = None, t_feeCurrency = None,
     t_toCurrency = None, t_toAmount = None, t_createdAt = now, t_reference = Some (''REVERSAL:'' @ i),
     t_counterpartyMemo = None, t_userNote = None, t_tags = None, t_categoryId = None\<rparr>"

definition confirmReversal :: "(nat \<Rightarrow> string) \<Rightarrow> int \<Rightarrow> string \<Rightarrow> string \<Rightarrow> string option \<Rightarrow>
    ('a reversal_state_scheme, reversal) op" where
  "confirmReversal uuid now transactionId reason legalReference =
     bindE (gets (getReversalInfo transactionId)) (\<lambda>found.
     bindE (from_option (NotFoundException ''No pending reversal found for this transaction'') found) (\<lambda>(i, r).
     bindE (require (rv_status r = PENDING_CONFIRMATION)
       (ConflictException ''Reversal is not in PENDING_CONFIRMATION status'')) (\<lambda>_.
     bindE (find_tx transactionId) (\<lambda>tx.
     tryE
      (bindE (insert_transaction uuid (compensating now transactionId tx)) (\<lambda>j.
       let r' = r\<lparr>rv_reversalTransactionId := Some j, rv_reason := Some reason, rv_legalReference := legalReference,
             rv_status := REV_COMPLETED, rv_completedAt := Some now\<rparr>
       in bindE (save_reversal i r') (\<lambda>_.
          bindE (modify (notify (t_userId tx) ''Transaction Reversed'' ''A transaction has been reversed.'')) (\<lambda>_.
          ret r'))))
      (\<lambda>err. bindE (save_reversal i (r\<lparr>rv_status := REV_FAILED\<rparr>)) (\<lambda>_. throw err))))))"

section \<open>Properties\<close>

text \<open>The rows of the table of reversals have distinct ids and distinct transactions.\<close>

definition reversals_ok :: "(nat \<Rightarrow> string) \<Rightarrow> 'a reversal_state_scheme \<Rightarrow> bool" where
  "reversals_ok uuid s \<longleftrightarrow> map fst (reversals s) = map uuid [0..<length (reversals s)] \<and>
     distinct (map (rv_transactionId \<circ> snd) (reversals s))"

lemma confirm_facts:
  assumes "confirmReversal uuid now i reason legal s = (Inr r, s')" and "reversals_ok uuid s" and "inj uuid"
  shows "\<exists>tx j. tbl_find i (transactions s) = Some tx \<and> rv_reversalTransactionId r = Some j \<and>
    transactions s' = tbl_save j (compensating now i tx) (transactions s) \<and> rv_status r = REV_COMPLETED \<and>
    getReversalInfo i s' = Some (fst (the (getReversalInfo i s)), r) \<and> users s' = users s \<and> ledger s' = ledger s"
proof -
  obtain k q tx where k: "getReversalInfo i s = Some (k, q)" and tx: "tbl_find i (transactions s) = Some tx"
    using assms(1) by (auto simp: confirmReversal_def find_tx_def op_iff)
  let ?j = "uuid (length (transactions s))"
  let ?r = "q\<lparr>rv_reversalTransactionId := Some ?j, rv_reason := Some reason, rv_legalReference := legal,
    rv_status := REV_COMPLETED, rv_completedAt := Some now\<rparr>"
  have s': "r = ?r" "s' = notify (t_userId tx) ''Transaction Reversed'' ''A transaction has been reversed.''
      (s\<lparr>transactions := tbl_save ?j (compensating now i tx) (transactions s), reversals := tbl_save k ?r (reversals s)\<rparr>)"
    using assms(1) k tx
    by (auto simp: confirmReversal_def find_tx_def op_defs insert_transaction_def save_reversal_def Let_def split: if_splits)
  have kq: "(k, q) \<in> set (reversals s)" "rv_transactionId q = i"
    using find_SomeD k unfolding getReversalInfo_def by fastforce+
  have d: "distinct (map fst (reversals s))" "distinct (map (rv_transactionId \<circ> snd) (reversals s))"
    using assms(2,3) by (auto simp: reversals_ok_def distinct_map inj_on_def)
  have "getReversalInfo i s' = Some (k, ?r)"
    using find_update [OF d kq(1), of ?r i] kq(2) by (simp add: s' getReversalInfo_def notify_def)
  with s' tx k show ?thesis by (auto simp: notify_def)
qed

text \<open>A confirmed reversal records a successful deposit of the amount for the owner of the transaction, but credits no
  balance and writes no ledger entry; the transaction cannot be reversed again, neither by a second confirmation nor by
  a new preview.\<close>

theorem reversal_pays_nothing:
  assumes "confirmReversal uuid now i reason legal s = (Inr r, s')" and "reversals_ok uuid s" and "inj uuid"
  shows "(\<exists>tx j. tbl_find i (transactions s) = Some tx \<and> rv_reversalTransactionId r = Some j \<and>
      tbl_find j (transactions s') = Some (compensating now i tx)) \<and>
    users s' = users s \<and> ledger s' = ledger s \<and>
    fst (confirmReversal uuid n2 i reason2 legal2 s') = Inl (ConflictException ''Reversal is not in PENDING_CONFIRMATION status'') \<and>
    (\<exists>e. fst (previewReversal maxDays uuid n3 i admin s') = Inl e)"
proof -
  from confirm_facts [OF assms] obtain tx j where f: "tbl_find i (transactions s) = Some tx" "rv_reversalTransactionId r = Some j"
    "transactions s' = tbl_save j (compensating now i tx) (transactions s)" "rv_status r = REV_COMPLETED"
    "getReversalInfo i s' = Some (fst (the (getReversalInfo i s)), r)" "users s' = users s" "ledger s' = ledger s" by blast
  have "fst (confirmReversal uuid n2 i reason2 legal2 s') = Inl (ConflictException ''Reversal is not in PENDING_CONFIRMATION status'')"
    using f by (simp add: confirmReversal_def op_defs)
  moreover have "\<exists>e. fst (previewReversal maxDays uuid n3 i admin s') = Inl e"
    using f by (auto simp: previewReversal_def find_tx_def op_defs split: option.splits)
  ultimately show ?thesis using f by (auto simp: tbl_simps)
qed

definition demo_reversal_state :: reversal_state where
  "demo_reversal_state = \<lparr>users = [], wallets = [], notifications = [], calls = 0, payments = [], ledger = [],
     transactions = [(demo_uuid 0, (demo_tx WITHDRAW)\<lparr>t_status := SUCCESS\<rparr>)], tx_limits = [], referrals = [], fee_rules = [],
     fee_records = [], currency_rows = [], pair_rows = [], beneficiary_rows = [], system_categories = [], reversals = []\<rparr>"

theorem reversal_pays_nothing_witness:
  "\<exists>k s r s'. previewReversal None demo_uuid 5 (demo_uuid 0) ''root'' demo_reversal_state = (Inr k, s) \<and>
     confirmReversal demo_uuid 6 (demo_uuid 0) ''fraud'' None s = (Inr r, s') \<and> users s' = users s \<and>
     (\<exists>e. fst (previewReversal None demo_uuid 7 (demo_uuid 0) ''root'' s') = Inl e)"
proof -
  let ?i = "demo_uuid 0"
  let ?r = "\<lparr>rv_transactionId = ?i, rv_reversalTransactionId = None, rv_reason = None, rv_authorisedBy = ''root'',
    rv_legalReference = None, rv_status = PENDING_CONFIRMATION, rv_completedAt = None\<rparr>"
  let ?s = "demo_reversal_state\<lparr>reversals := [(?i, ?r)]\<rparr>"
  have "\<not> 90 < js_div 5 (of_int ms_per_day)" 
    unfolding js_div_def not_less by (rule rnd_le) (simp_all add: ms_per_day_def)
  then have p: "previewReversal None demo_uuid 5 ?i ''root'' demo_reversal_state = (Inr ?i, ?s)"
    by (simp add: previewReversal_def find_tx_def op_defs getReversalInfo_def save_reversal_def demo_reversal_state_def
        tbl_find_def tbl_save_def max_age_days_def demo_tx_def Let_def)
  obtain r s' where c: "confirmReversal demo_uuid 6 ?i ''fraud'' None ?s = (Inr r, s')"
    by (simp add: confirmReversal_def find_tx_def op_defs getReversalInfo_def save_reversal_def demo_reversal_state_def
        tbl_find_def insert_transaction_def Let_def)
  have "reversals_ok demo_uuid ?s" by (simp add: reversals_ok_def demo_reversal_state_def)
  from reversal_pays_nothing [OF c this demo_uuid_inj] p c show ?thesis by blast
qed

end
