(* ===== verification/Reconciliation.thy ===== *)
theory Reconciliation
  imports Transactions
begin

text \<open>
  The jobs of \<open>scheduled-jobs/scheduled-jobs.service.ts\<close> that settle transactions: every five minutes the pending
  transactions are claimed, looked up on the network and settled, and the recently failed ones are looked up again.
  A claim is a lock in the row; \<open>tx_locks\<close> holds the columns \<open>processingLockedAt\<close> and \<open>processingLockedBy\<close> and
  \<open>tx_updated\<close> the column \<open>updatedAt\<close>, which every write of a row renews.
\<close>

section \<open>State\<close>

type_synonym tx_lock = "int \<times> string"

record recon_state = tx_state +
  tx_locks :: "tx_lock table"
  tx_updated :: "int table"

text \<open>A row as a job read it, with its lock.\<close>

type_synonym tx_row = "string \<times> transaction \<times> tx_lock option"

definition LOCK_EXPIRY_MS :: int where
  "LOCK_EXPIRY_MS = 5 * 60 * 1000"

definition put_lock :: "string \<Rightarrow> tx_lock option \<Rightarrow> tx_lock table \<Rightarrow> tx_lock table" where
  "put_lock i l ls = (case l of None \<Rightarrow> tbl_remove i ls | Some x \<Rightarrow> tbl_save i x ls)"

definition touch :: "int \<Rightarrow> string \<Rightarrow> 'a recon_state_scheme \<Rightarrow> 'a recon_state_scheme" where
  "touch now i s = s\<lparr>tx_updated := tbl_save i now (tx_updated s)\<rparr>"

text \<open>\<open>transactionRepository.save(transaction)\<close> writes every column of the row as the job holds it.\<close>

definition save_row :: "int \<Rightarrow> tx_row \<Rightarrow> ('a recon_state_scheme, unit) op" where
  "save_row now = (\<lambda>(i, t, l). modify (\<lambda>s. touch now i
     (s\<lparr>transactions := tbl_save i t (transactions s), tx_locks := put_lock i l (tx_locks s)\<rparr>)))"

section \<open>Claims\<close>

definition unlocked :: "int \<Rightarrow> string \<Rightarrow> 'a recon_state_scheme \<Rightarrow> bool" where
  "unlocked now i s = (case tbl_find i (tx_locks s) of None \<Rightarrow> True | Some (lockedAt, lockedBy) \<Rightarrow> lockedAt < now - LOCK_EXPIRY_MS)"

definition lock :: "int \<Rightarrow> string \<Rightarrow> string \<Rightarrow> 'a recon_state_scheme \<Rightarrow> 'a recon_state_scheme" where
  "lock now instance_id i s = touch now i (s\<lparr>tx_locks := tbl_save i (now, instance_id) (tx_locks s)\<rparr>)"

definition claimable :: "int \<Rightarrow> 'a recon_state_scheme \<Rightarrow> string list" where
  "claimable now s = map fst (filter (\<lambda>(i, t). t_status t = PENDING \<and> unlocked now i s) (transactions s))"

definition claimed_rows :: "string \<Rightarrow> 'a recon_state_scheme \<Rightarrow> tx_row list" where
  "claimed_rows instance_id s = map (\<lambda>(i, t). (i, t, tbl_find i (tx_locks s)))
     (sort_key (\<lambda>(i, t). t_createdAt t)
       (filter (\<lambda>(i, t). t_status t = PENDING \<and> map_option snd (tbl_find i (tx_locks s)) = Some instance_id) (transactions s)))"

definition claimPendingTransactions :: "int \<Rightarrow> string \<Rightarrow> ('a recon_state_scheme, tx_row list) op" where
  "claimPendingTransactions now instance_id =
     bindE (gets (claimable now)) (\<lambda>free.
     bindE (modify (fold (lock now instance_id) free)) (\<lambda>_.
     if free = [] then ret [] else gets (claimed_rows instance_id)))"

definition clearTransactionLock :: "int \<Rightarrow> string \<Rightarrow> ('a recon_state_scheme, unit) op" where
  "clearTransactionLock now i = modify (\<lambda>s. touch now i (s\<lparr>tx_locks := tbl_remove i (tx_locks s)\<rparr>))"

definition claimTransactionForRetry :: "int \<Rightarrow> string \<Rightarrow> string \<Rightarrow> ('a recon_state_scheme, bool) op" where
  "claimTransactionForRetry now instance_id i =
     bindE (gets (\<lambda>s. map_option t_status (tbl_find i (transactions s)) = Some FAILED \<and> unlocked now i s)) (\<lambda>free.
     bindE (if free then modify (lock now instance_id i) else ret ()) (\<lambda>_.
     ret free))"

section \<open>Settling\<close>

definition adjust_balance :: "string \<Rightarrow> string \<Rightarrow> rat \<Rightarrow> ('a base_scheme, unit) op" where
  "adjust_balance userId currency amount =
     bindE (gets (findById userId)) (\<lambda>found.
     bindE (from_option (PlainError ''User not found'') found) (\<lambda>u.
     let newBalance = js_add (balance_of u currency) amount in
     bindE (require (\<not> newBalance < 0) (PlainError ''Insufficient balance for this operation'')) (\<lambda>_.
     modify (updateByUserId userId (\<lambda>v. v\<lparr>u_balances := set_balance currency newBalance (u_balances u)\<rparr>)))))"

definition credit_back :: "transaction \<Rightarrow> ('a base_scheme, unit) op" where
  "credit_back t = tryE (adjust_balance (t_userId t) (t_currency t) (parse_float (t_amount t))) (\<lambda>_. ret ())"

definition tell :: "transaction \<Rightarrow> string \<Rightarrow> string \<Rightarrow> ('a base_scheme, unit) op" where
  "tell t title suffix = modify (notify (t_userId t) title
     ((if t_type t = DEPOSIT then ''Your deposit of ${amount} ${currency} '' else ''Your withdrawal of ${amount} ${currency} '') @ suffix))"

definition handleSuccessfulTransaction :: "int \<Rightarrow> tx_row \<Rightarrow> ('a recon_state_scheme, unit) op" where
  "handleSuccessfulTransaction now = (\<lambda>(i, t, l).
     bindE (save_row now (i, t\<lparr>t_status := SUCCESS\<rparr>, l)) (\<lambda>_.
     bindE (if t_type t = DEPOSIT then credit_back t else ret ()) (\<lambda>_.
     tell t ''${type} Confirmed'' ''has been confirmed'')))"

definition handleFailedTransaction :: "int \<Rightarrow> tx_row \<Rightarrow> ('a recon_state_scheme, unit) op" where
  "handleFailedTransaction now = (\<lambda>(i, t, l).
     bindE (save_row now (i, t\<lparr>t_status := FAILED,
       t_failureReason := Some ''Transaction failed on blockchain during reconciliation''\<rparr>, l)) (\<lambda>_.
     bindE (if t_type t = WITHDRAW then credit_back t else ret ()) (\<lambda>_.
     tell t ''${type} Failed'' ''failed'')))"

definition reconcileTransaction :: "tx_env \<Rightarrow> int \<Rightarrow> tx_row \<Rightarrow> ('a recon_state_scheme, unit) op" where
  "reconcileTransaction E now = (\<lambda>(i, t, l).
     if \<not> truthy (t_txHash t) then ret ()
     else bindE (verify_hash E (the (t_txHash t))) (\<lambda>verdict.
       if verdict = SUCCESS then handleSuccessfulTransaction now (i, t, l)
       else if verdict = FAILED then handleFailedTransaction now (i, t, l)
       else ret ()))"

definition retryTransaction :: "tx_env \<Rightarrow> int \<Rightarrow> tx_row \<Rightarrow> ('a recon_state_scheme, unit) op" where
  "retryTransaction E now = (\<lambda>(i, t, l).
     if \<not> truthy (t_txHash t) then ret ()
     else bindE (verify_hash E (the (t_txHash t))) (\<lambda>verdict.
       if verdict = SUCCESS then
         bindE (save_row now (i, t\<lparr>t_status := SUCCESS\<rparr>, l)) (\<lambda>_.
         handleSuccessfulTransaction now (i, t\<lparr>t_status := SUCCESS\<rparr>, l))
       else ret ()))"

section \<open>The jobs\<close>

definition reconcile_one :: "tx_env \<Rightarrow> int \<Rightarrow> tx_row \<Rightarrow> ('a recon_state_scheme, unit) op" where
  "reconcile_one E now r = bindE (tryE (reconcileTransaction E now r) (\<lambda>_. ret ())) (\<lambda>_. clearTransactionLock now (fst r))"

definition reconcilePendingTransactions :: "tx_env \<Rightarrow> int \<Rightarrow> string \<Rightarrow> ('a recon_state_scheme, unit) op" where
  "reconcilePendingTransactions E now instance_id =
     bindE (claimPendingTransactions now instance_id) (\<lambda>rows. forE rows (reconcile_one E now))"

definition recently_failed :: "int \<Rightarrow> 'a recon_state_scheme \<Rightarrow> tx_row list" where
  "recently_failed now s = map (\<lambda>(i, t). (i, t, tbl_find i (tx_locks s)))
     (filter (\<lambda>(i, t). t_status t = FAILED \<and> truthy (t_txHash t) \<and>
        (case tbl_find i (tx_updated s) of None \<Rightarrow> False | Some u \<Rightarrow> now - 24 * 60 * 60 * 1000 \<le> u)) (transactions s))"

definition retry_one :: "tx_env \<Rightarrow> int \<Rightarrow> string \<Rightarrow> tx_row \<Rightarrow> ('a recon_state_scheme, unit) op" where
  "retry_one E now instance_id r =
     bindE (claimTransactionForRetry now instance_id (fst r)) (\<lambda>claimed.
     if \<not> claimed then ret ()
     else bindE (tryE (retryTransaction E now r) (\<lambda>_. ret ())) (\<lambda>_. clearTransactionLock now (fst r)))"

definition retryFailedTransactions :: "tx_env \<Rightarrow> int \<Rightarrow> string \<Rightarrow> ('a recon_state_scheme, unit) op" where
  "retryFailedTransactions E now instance_id =
     bindE (gets (recently_failed now)) (\<lambda>rows. forE rows (retry_one E now instance_id))"

section \<open>What a job credits\<close>

definition verdict :: "tx_env \<Rightarrow> nat \<Rightarrow> transaction \<Rightarrow> tx_status" where
  "verdict E n t = (case te_lookup E n (the (t_txHash t)) of None \<Rightarrow> PENDING | Some True \<Rightarrow> SUCCESS | Some False \<Rightarrow> FAILED)"

definition pays_back :: "transaction \<Rightarrow> tx_status \<Rightarrow> bool" where
  "pays_back t v \<longleftrightarrow> v = SUCCESS \<and> t_type t = DEPOSIT \<or> v = FAILED \<and> t_type t = WITHDRAW"

text \<open>The transactions whose amounts a job credits, in the order it works: confirmed deposits and failed withdrawals.\<close>

fun credited_by :: "tx_env \<Rightarrow> nat \<Rightarrow> tx_row list \<Rightarrow> transaction list" where
  "credited_by E n [] = []"
| "credited_by E n ((i, t, l) # rows) =
     (if \<not> truthy (t_txHash t) then credited_by E n rows
      else (if pays_back t (verdict E n t) then [t] else []) @ credited_by E (Suc n) rows)"

definition credits_to :: "string \<Rightarrow> string \<Rightarrow> transaction list \<Rightarrow> rat list" where
  "credits_to u c ts = map (\<lambda>t. parse_float (t_amount t)) (filter (\<lambda>t. t_userId t = u \<and> t_currency t = c) ts)"

text \<open>The effect of crediting a list of transactions.\<close>

definition credits :: "transaction list \<Rightarrow> 'a ledger_state_scheme \<Rightarrow> 'a ledger_state_scheme \<Rightarrow> bool" where
  "credits ts s s' \<longleftrightarrow> users_ok s' \<and> ledger s' = ledger s \<and>
     (\<forall>u. findById u s \<noteq> None \<longrightarrow> findById u s' \<noteq> None \<and>
       (\<forall>c. user_balance u c s' = foldl js_add (user_balance u c s) (credits_to u c ts)))"

lemma credits_Nil: "users_ok s' \<Longrightarrow> ledger s' = ledger s \<Longrightarrow> users s' = users s \<Longrightarrow> credits [] s s'"
  by (simp add: credits_def credits_to_def user_balance_def findById_def)

lemma credits_append: "credits xs s s' \<Longrightarrow> credits ys s' s'' \<Longrightarrow> credits (xs @ ys) s s''"
  unfolding credits_def credits_to_def by auto

lemma credits_frame: "credits ts s s' \<Longrightarrow> users s'' = users s' \<Longrightarrow> ledger s'' = ledger s' \<Longrightarrow> credits ts s s''"
  unfolding credits_def using users_ok_cong [of s'' s'] by (auto simp: user_balance_def findById_def)

lemma credit_back_credits:
  assumes "users_ok s" and "0 \<le> t_amount t"
  shows "\<exists>s'. credit_back t s = (Inr (), s') \<and> credits [t] s s' \<and> calls s' = calls s"
proof (cases "findById (t_userId t) s")
  case None
  have "credit_back t s = (Inr (), s)" by (simp add: credit_back_def adjust_balance_def op_defs None)
  moreover have "credits [t] s s" using assms(1) None by (auto simp: credits_def credits_to_def)
  ultimately show ?thesis by blast
next
  case (Some u)
  let ?x = "parse_float (t_amount t)" and ?c = "t_currency t"
  let ?b = "js_add (balance_of u ?c) ?x"
  let ?s = "updateByUserId (t_userId t) (\<lambda>v. v\<lparr>u_balances := set_balance ?c ?b (u_balances u)\<rparr>) s"
  have "0 \<le> ?x" using assms(2) by (rule parse_float_nonneg)
  moreover have b: "0 \<le> balance_of u ?c" using users_okD [OF assms(1) Some] balances_ok_read by blast
  ultimately have pos: "0 \<le> ?b" by (rule js_add_nonneg [rotated])
  then have run: "credit_back t s = (Inr (), ?s)"
    by (simp add: credit_back_def adjust_balance_def op_defs Some Let_def)
  have "users_ok ?s"
    using users_okD [OF assms(1) Some] pos by (intro users_ok_update [OF assms(1)]) (simp add: balances_ok_set js_add_def)
  moreover have "ledger ?s = ledger s" by (simp add: updateByUserId_def)
  ultimately have "credits [t] s ?s"
    using Some by (auto simp: credits_def credits_to_def findById_updateByUserId user_balance_def balance_of_def set_balance_def)
  with run show ?thesis by (auto simp: updateByUserId_def)
qed

text \<open>The writes that leave balances and ledger alone.\<close>

lemma credits_after:
  assumes "credits ts s s'" and "users t = users s" and "ledger t = ledger s"
  shows "credits ts t s'"
  using assms by (simp add: credits_def user_balance_def findById_def)

lemma maybe_credit:
  assumes "users_ok s" and "0 \<le> t_amount t"
  shows "\<exists>s'. (if b then credit_back t else ret ()) s = (Inr (), s') \<and> credits (if b then [t] else []) s s' \<and> calls s' = calls s"
proof (cases b)
  case True
  then show ?thesis using credit_back_credits [OF assms] by simp
next
  case False
  then show ?thesis using assms(1) by (simp add: ret_def credits_Nil)
qed

lemma save_row_run: "\<exists>s'. save_row now r s = (Inr (), s') \<and> users s' = users s \<and> ledger s' = ledger s \<and> calls s' = calls s"
  by (cases r) (auto simp: save_row_def modify_def touch_def)

lemma handle_credits:
  assumes "users_ok s" and "0 \<le> t_amount t"
  shows "\<exists>s'. bindE (save_row now r) (\<lambda>_. bindE (if b then credit_back t else ret ()) (\<lambda>_. tell t x y)) s = (Inr (), s') \<and>
     credits (if b then [t] else []) s s' \<and> calls s' = calls s"
proof -
  obtain s1 where s1: "save_row now r s = (Inr (), s1)" "users s1 = users s" "ledger s1 = ledger s" "calls s1 = calls s"
    using save_row_run by blast
  have "users_ok s1" using assms(1) users_ok_cong [OF s1(2)] by simp
  then obtain s2 where s2: "(if b then credit_back t else ret ()) s1 = (Inr (), s2)" "credits (if b then [t] else []) s1 s2"
      "calls s2 = calls s1"
    using maybe_credit [OF _ assms(2), of s1 b] by auto
  let ?s3 = "snd (tell t x y s2)"
  have s3: "tell t x y s2 = (Inr (), ?s3)" "users ?s3 = users s2" "ledger ?s3 = ledger s2" "calls ?s3 = calls s2"
    by (simp_all add: tell_def modify_def notify_def)
  have "credits (if b then [t] else []) s ?s3"
    using credits_after [OF credits_frame [OF s2(2) s3(2,3)]] s1(2,3) by simp
  moreover have "bindE (save_row now r) (\<lambda>_. bindE (if b then credit_back t else ret ()) (\<lambda>_. tell t x y)) s = (Inr (), ?s3)"
    using s1(1) s2(1) s3(1) by (simp add: bindE_def)
  ultimately show ?thesis using s1(4) s2(3) s3(4) by metis
qed

lemma verify_hash_run: "verify_hash E (the (t_txHash t)) s = (Inr (verdict E (calls s) t), s\<lparr>calls := Suc (calls s)\<rparr>)"
  by (simp add: verify_hash_def verdict_def)

lemma reconcile_credits:
  assumes "users_ok s" and "0 \<le> t_amount t"
  shows "\<exists>s'. reconcileTransaction E now (i, t, l) s = (Inr (), s') \<and> credits (credited_by E (calls s) [(i, t, l)]) s s' \<and>
     calls s' = (if truthy (t_txHash t) then Suc (calls s) else calls s)"
proof (cases "truthy (t_txHash t)")
  case False
  then show ?thesis using assms(1) by (simp add: reconcileTransaction_def ret_def credits_Nil)
next
  case True
  let ?s = "s\<lparr>calls := Suc (calls s)\<rparr>" and ?v = "verdict E (calls s) t"
  have ok: "users_ok ?s" using assms(1) users_ok_cong [of ?s s] by simp
  have run: "reconcileTransaction E now (i, t, l) s =
      (if ?v = SUCCESS then handleSuccessfulTransaction now (i, t, l)
       else if ?v = FAILED then handleFailedTransaction now (i, t, l) else ret ()) ?s"
    using True by (simp add: reconcileTransaction_def bindE_def verify_hash_run)
  have "\<exists>s'. (if ?v = SUCCESS then handleSuccessfulTransaction now (i, t, l)
       else if ?v = FAILED then handleFailedTransaction now (i, t, l) else ret ()) ?s = (Inr (), s') \<and>
     credits (if pays_back t ?v then [t] else []) ?s s' \<and> calls s' = calls ?s"
  proof (cases "?v = SUCCESS \<or> ?v = FAILED")
    case True
    have pays: "pays_back t SUCCESS = (t_type t = DEPOSIT)" "pays_back t FAILED = (t_type t = WITHDRAW)"
      by (auto simp: pays_back_def)
    have "\<exists>s'. handleSuccessfulTransaction now (i, t, l) ?s = (Inr (), s') \<and>
        credits (if t_type t = DEPOSIT then [t] else []) ?s s' \<and> calls s' = calls ?s"
      unfolding handleSuccessfulTransaction_def prod.case by (rule handle_credits [OF ok assms(2)])
    moreover have "\<exists>s'. handleFailedTransaction now (i, t, l) ?s = (Inr (), s') \<and>
        credits (if t_type t = WITHDRAW then [t] else []) ?s s' \<and> calls s' = calls ?s"
      unfolding handleFailedTransaction_def prod.case by (rule handle_credits [OF ok assms(2)])
    ultimately show ?thesis using True by (elim disjE) (simp_all only: simp_thms if_True if_False tx_status.distinct pays)
  next
    case False
    then show ?thesis using ok by (simp add: ret_def pays_back_def credits_Nil)
  qed
  then obtain s' where s': "reconcileTransaction E now (i, t, l) s = (Inr (), s')"
      "credits (if pays_back t ?v then [t] else []) ?s s'" "calls s' = calls ?s"
    using run by auto
  have "credits (credited_by E (calls s) [(i, t, l)]) s s'" using credits_after [OF s'(2), of s] True by simp
  with s' True show ?thesis by simp
qed

lemma reconcile_one_credits:
  assumes "users_ok s" and "0 \<le> t_amount t"
  shows "\<exists>s'. reconcile_one E now (i, t, l) s = (Inr (), s') \<and> credits (credited_by E (calls s) [(i, t, l)]) s s' \<and>
     calls s' = (if truthy (t_txHash t) then Suc (calls s) else calls s)"
proof -
  obtain s1 where s1: "reconcileTransaction E now (i, t, l) s = (Inr (), s1)" "credits (credited_by E (calls s) [(i, t, l)]) s s1"
      "calls s1 = (if truthy (t_txHash t) then Suc (calls s) else calls s)"
    using reconcile_credits [OF assms] by blast
  let ?s = "touch now i (s1\<lparr>tx_locks := tbl_remove i (tx_locks s1)\<rparr>)"
  have "reconcile_one E now (i, t, l) s = (Inr (), ?s)"
    using s1(1) by (simp add: reconcile_one_def tryE_def bindE_def clearTransactionLock_def modify_def)
  moreover have "credits (credited_by E (calls s) [(i, t, l)]) s ?s" by (rule credits_frame [OF s1(2)]) (simp_all add: touch_def)
  ultimately show ?thesis using s1(3) by (auto simp: touch_def)
qed

lemma credited_by_Cons:
  "credited_by E n (r # rows) = credited_by E n [r] @ credited_by E (if truthy (t_txHash (fst (snd r))) then Suc n else n) rows"
  by (cases r) simp

lemma reconcile_all_credits:
  assumes "users_ok s" and "\<And>r. r \<in> set rows \<Longrightarrow> 0 \<le> t_amount (fst (snd r))"
  shows "\<exists>s'. forE rows (reconcile_one E now) s = (Inr (), s') \<and> credits (credited_by E (calls s) rows) s s'"
  using assms
proof (induction rows arbitrary: s)
  case Nil
  then show ?case by (simp add: ret_def credits_Nil)
next
  case (Cons r rows)
  obtain i t l where r: "r = (i, t, l)" by (cases r)
  obtain s1 where s1: "reconcile_one E now r s = (Inr (), s1)" "credits (credited_by E (calls s) [r]) s s1"
      "calls s1 = (if truthy (t_txHash (fst (snd r))) then Suc (calls s) else calls s)"
    using reconcile_one_credits [OF Cons.prems(1), of t E now i l] Cons.prems(2) [of r] by (auto simp: r)
  then have "users_ok s1" by (simp add: credits_def)
  with Cons obtain s' where s': "forE rows (reconcile_one E now) s1 = (Inr (), s')" "credits (credited_by E (calls s1) rows) s1 s'"
    by fastforce
  have "credits (credited_by E (calls s) (r # rows)) s s'"
    using credits_append [OF s1(2) s'(2)] s1(3) by (subst credited_by_Cons) simp
  moreover have "forE (r # rows) (reconcile_one E now) s = (Inr (), s')" using s1(1) s'(1) by (simp add: bindE_def)
  ultimately show ?case by blast
qed

section \<open>Claims\<close>

lemma lock_frame: "users (fold (lock now b) is s) = users s \<and> ledger (fold (lock now b) is s) = ledger s \<and>
    transactions (fold (lock now b) is s) = transactions s \<and> calls (fold (lock now b) is s) = calls s"
  by (induction "is" arbitrary: s) (simp_all add: lock_def touch_def)

lemma lock_find: "tbl_find j (tx_locks (fold (lock now b) is s)) = (if j \<in> set is then Some (now, b) else tbl_find j (tx_locks s))"
  by (induction "is" arbitrary: s) (auto simp: lock_def touch_def tbl.find_save)

lemma claim_run:
  "claimPendingTransactions now b s = (Inr rows, s1) \<longleftrightarrow> s1 = fold (lock now b) (claimable now s) s \<and>
     rows = (if claimable now s = [] then [] else claimed_rows b s1)"
  by (auto simp: claimPendingTransactions_def op_iff)

lemma claimed_pending: "r \<in> set (claimed_rows b s) \<Longrightarrow>
    (fst r, fst (snd r)) \<in> set (transactions s) \<and> t_status (fst (snd r)) = PENDING"
  by (auto simp: claimed_rows_def)

section \<open>Rows the jobs leave alone\<close>

definition row_is :: "string \<Rightarrow> transaction \<Rightarrow> 'a books_scheme \<Rightarrow> bool" where
  "row_is i t s \<longleftrightarrow> tbl_find i (transactions s) = Some t"

lemma preserves_forE_set: "(\<And>x. x \<in> set xs \<Longrightarrow> preserves P (f x)) \<Longrightarrow> preserves P (forE xs f)"
  by (induction xs) (auto intro: pres)

lemma row_is_basic [pres]:
  "preserves (row_is i t) (adjust_balance u c x)" "preserves (row_is i t) (tell y a b)" "preserves (row_is i t) (verify_hash E h)"
  "preserves (row_is i t) (clearTransactionLock now j)" "preserves (row_is i t) (claimTransactionForRetry now b j)"
  "fst r \<noteq> i \<Longrightarrow> preserves (row_is i t) (save_row now r)"
  by (auto simp: adjust_balance_def tell_def verify_hash_def clearTransactionLock_def claimTransactionForRetry_def save_row_def
      Let_def row_is_def updateByUserId_def notify_def touch_def lock_def tbl.find_save preserves_def op_defs split: option.splits prod.splits)

lemma row_is_credit_back [pres]: "preserves (row_is i t) (credit_back x)"
  unfolding credit_back_def by (intro pres)

lemma row_is_reconcile: "fst r \<noteq> i \<Longrightarrow> preserves (row_is i t) (reconcile_one E now r)"
  unfolding reconcile_one_def reconcileTransaction_def handleSuccessfulTransaction_def handleFailedTransaction_def
  by (cases r) (auto intro!: pres)

lemma row_is_retry: "fst r \<noteq> i \<Longrightarrow> preserves (row_is i t) (retry_one E now b r)"
  unfolding retry_one_def retryTransaction_def handleSuccessfulTransaction_def
  by (cases r) (auto intro!: pres)

section \<open>Properties\<close>

text \<open>C12. One run of the reconciliation job, whatever the network answers: it never throws, and every balance grows by
  the amounts of exactly the claimed deposits that were confirmed and the claimed withdrawals that failed, added in the
  order of their creation; no balance becomes negative, and the ledger gets no entry.\<close>

theorem reconcile_job_credits:
  assumes "users_ok s" and "\<And>i t. (i, t) \<in> set (transactions s) \<Longrightarrow> 0 \<le> t_amount t" and "findById u s \<noteq> None"
  shows "\<exists>rows s1 s'. claimPendingTransactions now b s = (Inr rows, s1) \<and>
     reconcilePendingTransactions E now b s = (Inr (), s') \<and> users_ok s' \<and> ledger s' = ledger s \<and>
     user_balance u c s' = foldl js_add (user_balance u c s) (credits_to u c (credited_by E (calls s) rows))"
proof -
  let ?s1 = "fold (lock now b) (claimable now s) s"
  let ?rows = "if claimable now s = [] then [] else claimed_rows b ?s1"
  have claim: "claimPendingTransactions now b s = (Inr ?rows, ?s1)" by (simp only: claim_run)
  have f: "users ?s1 = users s" "ledger ?s1 = ledger s" "transactions ?s1 = transactions s" "calls ?s1 = calls s"
    using lock_frame by blast+
  have "users_ok ?s1" using assms(1) users_ok_cong [OF f(1)] by simp
  moreover have "0 \<le> t_amount (fst (snd r))" if "r \<in> set ?rows" for r
    using that claimed_pending [of r b ?s1] assms(2) [of "fst r" "fst (snd r)"] f(3) by (cases "claimable now s = []") simp_all
  ultimately obtain s' where s': "forE ?rows (reconcile_one E now) ?s1 = (Inr (), s')" "credits (credited_by E (calls ?s1) ?rows) ?s1 s'"
    using reconcile_all_credits by blast
  have "reconcilePendingTransactions E now b s = (Inr (), s')"
    using s'(1) claim by (simp add: reconcilePendingTransactions_def bindE_def)
  moreover have "credits (credited_by E (calls s) ?rows) s s'" using credits_after [OF s'(2), of s] f by simp
  ultimately show ?thesis using claim assms(3) unfolding credits_def by blast
qed

text \<open>C13. Two overlapping runs of the job pay a deposit twice: while a run works off its list, a second run of the same
  instance that finds anything to claim is handed the rows the first one still holds, and both credit the deposit.\<close>

theorem overlapping_jobs_credit_twice:
  assumes "users_ok s" and "distinct (map fst (transactions s))"
    and "tbl_find i (transactions s) = Some t" and "t_status t = PENDING" and "t_type t = DEPOSIT" and "0 \<le> t_amount t"
    and "truthy (t_txHash t)" and "\<And>n. te_lookup E n (the (t_txHash t)) = Some True"
    and "tbl_find i (tx_locks s) = Some (at', b)" and "claimable now s \<noteq> []" and "findById (t_userId t) s \<noteq> None"
  shows "\<exists>rows s1 l s2. claimPendingTransactions now b s = (Inr rows, s1) \<and> (i, t, l) \<in> set rows \<and>
     bindE (reconcile_one E now (i, t, Some (at', b))) (\<lambda>_. reconcile_one E now (i, t, l)) s1 = (Inr (), s2) \<and>
     user_balance (t_userId t) (t_currency t) s2 =
       js_add (js_add (user_balance (t_userId t) (t_currency t) s) (parse_float (t_amount t))) (parse_float (t_amount t))"
proof -
  let ?s1 = "fold (lock now b) (claimable now s) s"
  have claim: "claimPendingTransactions now b s = (Inr (claimed_rows b ?s1), ?s1)" using assms(10) by (simp add: claim_run)
  have f: "users ?s1 = users s" "ledger ?s1 = ledger s" "transactions ?s1 = transactions s" "calls ?s1 = calls s"
    using lock_frame by blast+
  let ?l = "tbl_find i (tx_locks ?s1)"
  have "map_option snd ?l = Some b" using assms(9) by (simp add: lock_find)
  moreover have "(i, t) \<in> set (transactions ?s1)" using tbl_find_in [OF assms(3)] f(3) by simp
  ultimately have "(i, t, ?l) \<in> set (claimed_rows b ?s1)" using assms(4) by (force simp: claimed_rows_def)
  moreover have v: "verdict E n t = SUCCESS" for n by (simp add: verdict_def assms(8))
  then have cr: "credited_by E n [(i, t, l)] = [t]" for n l using assms(5,7) by (simp add: pays_back_def)
  have "users_ok ?s1" using assms(1) users_ok_cong [OF f(1)] by simp
  then obtain s1 where s1: "reconcile_one E now (i, t, Some (at', b)) ?s1 = (Inr (), s1)" "credits [t] ?s1 s1"
    using reconcile_one_credits [OF _ assms(6)] cr by metis
  then have "users_ok s1" by (simp add: credits_def)
  then obtain s2 where s2: "reconcile_one E now (i, t, ?l) s1 = (Inr (), s2)" "credits [t] s1 s2"
    using reconcile_one_credits [OF _ assms(6)] cr by metis
  have "credits [t, t] s s2" using credits_after [OF credits_append [OF s1(2) s2(2)], of s] f by simp
  then have "user_balance (t_userId t) (t_currency t) s2 =
       js_add (js_add (user_balance (t_userId t) (t_currency t) s) (parse_float (t_amount t))) (parse_float (t_amount t))"
    using assms(11) by (simp add: credits_def credits_to_def)
  moreover have "bindE (reconcile_one E now (i, t, Some (at', b))) (\<lambda>_. reconcile_one E now (i, t, ?l)) ?s1 = (Inr (), s2)"
    using s1(1) s2(1) by (simp add: bindE_def)
  ultimately show ?thesis using claim by blast
qed

text \<open>The jobs leave settled and cancelled rows alone: a run of either changes no row that is neither pending nor
  failed, so a confirmed deposit is not credited by a later run.\<close>

theorem jobs_leave_settled_rows:
  assumes "distinct (map fst (transactions s))" and "tbl_find i (transactions s) = Some t"
    and "t_status t \<noteq> PENDING" and "t_status t \<noteq> FAILED"
    and "reconcilePendingTransactions E now b s = (r, s1)" and "retryFailedTransactions E now b s = (r', s2)"
  shows "tbl_find i (transactions s1) = Some t \<and> tbl_find i (transactions s2) = Some t"
proof -
  have other: "(i, t') \<in> set (transactions s) \<Longrightarrow> t' = t" for t'
    using assms(1,2) tbl_distinct_in [of "transactions s" i t'] by auto
  obtain rows u where claim: "claimPendingTransactions now b s = (Inr rows, u)"
    and u: "u = fold (lock now b) (claimable now s) s" "rows = (if claimable now s = [] then [] else claimed_rows b u)"
    using claim_run by blast
  have tx: "transactions u = transactions s" using u(1) lock_frame by blast
  have "fst x \<noteq> i" if "x \<in> set rows" for x
    using that claimed_pending [of x b u] u(2) other [of "fst (snd x)"] assms(3) tx by (cases "claimable now s = []") auto
  then have p: "preserves (row_is i t) (forE rows (reconcile_one E now))" by (intro preserves_forE_set row_is_reconcile) auto
  have run: "forE rows (reconcile_one E now) u = (r, s1)" using assms(5) claim by (simp add: reconcilePendingTransactions_def bindE_def)
  have "row_is i t u" by (simp add: row_is_def tx assms(2))
  from preservesD [OF p this run] have "row_is i t s1" .
  have "fst x \<noteq> i" if "x \<in> set (recently_failed now s)" for x
    using that other assms(4) by (auto simp: recently_failed_def)
  then have p2: "preserves (row_is i t) (forE (recently_failed now s) (retry_one E now b))"
    by (intro preserves_forE_set row_is_retry) auto
  have run2: "forE (recently_failed now s) (retry_one E now b) s = (r', s2)"
    using assms(6) by (simp add: retryFailedTransactions_def bindE_def gets_def)
  have "row_is i t s" by (simp add: row_is_def assms(2))
  from preservesD [OF p2 this run2] have "row_is i t s2" .
  with \<open>row_is i t s1\<close> show ?thesis by (simp add: row_is_def)
qed

text \<open>A failed transaction with a hash never leaves the retries: the claim renews \<open>updatedAt\<close>, so a row that is looked up
  once a day is recent forever.\<close>

lemma retry_renews:
  assumes "retry_one E now b (i, t, l) s = (r, s')" and "tbl_find i (transactions s) = Some t" and "t_status t = FAILED"
    and "unlocked now i s"
  shows "tbl_find i (tx_updated s') = Some now"
  using assms
  by (cases r) (auto simp: retry_one_def claimTransactionForRetry_def clearTransactionLock_def touch_def op_iff tbl.find_save)

section \<open>Witnesses\<close>

definition demo_recon :: "transaction table \<Rightarrow> tx_lock table \<Rightarrow> recon_state" where
  "demo_recon ts ls = \<lparr>users = [(''u'', demo_user 5)], wallets = [], notifications = [], calls = 0, payments = [], ledger = [],
     transactions = ts, tx_limits = [], referrals = [], fee_rules = [], fee_records = [], currency_rows = [], pair_rows = [],
     beneficiary_rows = [], system_categories = [], tx_locks = ls, tx_updated = []\<rparr>"

definition demo_recon_env :: tx_env where
  "demo_recon_env = \<lparr>te_horizon = \<lparr>submit = \<lambda>n p. None, new_keypair = \<lambda>n. ([], []), encrypt = id, decrypt = Some\<rparr>,
     te_rate = \<lambda>a b. Inr 1, te_uuid = \<lambda>n. [], te_now = 7, te_hot_secret = None,
     te_referral = \<lparr>REFERRAL_REWARD_AMOUNT = None, REFERRAL_REWARD_CURRENCY = None\<rparr>,
     te_load_account = \<lambda>a. \<lparr>al_status = None, al_balances = Some []\<rparr>, te_too_slow = \<lambda>a. False, te_build = \<lambda>a m. True,
     te_sign = \<lambda>k. True, te_submit = \<lambda>n op m. Inr None, te_lookup = \<lambda>n h. Some True,
     te_paths = \<lambda>m a b x. None, te_slippage = None, te_sdk_in_scope = True\<rparr>"

definition demo_deposit_row :: transaction where
  "demo_deposit_row = (demo_tx DEPOSIT)\<lparr>t_txHash := Some ''h''\<rparr>"

lemma demo_recon_ok: "users_ok (demo_recon ts ls)"
  using is_double_int [of 5]
  by (auto simp: users_ok_def findById_def demo_recon_def tbl_find_def intro!: demo_user_ok split: if_splits)

theorem reconcile_job_credits_witness:
  "\<exists>s'. reconcilePendingTransactions demo_recon_env 9 ''host'' (demo_recon [(''d'', demo_deposit_row)] []) = (Inr (), s') \<and>
     users_ok s' \<and> ledger s' = []"
proof -
  have "findById ''u'' (demo_recon [(''d'', demo_deposit_row)] []) \<noteq> None" by (simp add: findById_def demo_recon_def tbl_find_def)
  moreover have "0 \<le> t_amount t" if "(i, t) \<in> set (transactions (demo_recon [(''d'', demo_deposit_row)] []))" for i t
    using that by (simp add: demo_recon_def demo_deposit_row_def demo_tx_def)
  ultimately obtain s' where "reconcilePendingTransactions demo_recon_env 9 ''host'' (demo_recon [(''d'', demo_deposit_row)] []) = (Inr (), s')"
      "users_ok s'" "ledger s' = ledger (demo_recon [(''d'', demo_deposit_row)] [])"
    using reconcile_job_credits [OF demo_recon_ok] by blast
  then show ?thesis by (simp add: demo_recon_def)
qed

theorem overlapping_jobs_credit_twice_witness:
  "\<exists>rows s1 l s2. claimPendingTransactions 400000 ''host''
       (demo_recon [(''d'', demo_deposit_row), (''e'', demo_deposit_row)] [(''d'', (300000, ''host''))]) = (Inr rows, s1) \<and>
     bindE (reconcile_one demo_recon_env 400000 (''d'', demo_deposit_row, Some (300000, ''host'')))
       (\<lambda>_. reconcile_one demo_recon_env 400000 (''d'', demo_deposit_row, l)) s1 = (Inr (), s2) \<and>
     user_balance ''u'' ''XLM'' s2 = 25"
proof -
  let ?s = "demo_recon [(''d'', demo_deposit_row), (''e'', demo_deposit_row)] [(''d'', (300000, ''host''))]" and ?t = demo_deposit_row
  have t: "t_status ?t = PENDING" "t_type ?t = DEPOSIT" "0 \<le> t_amount ?t" "truthy (t_txHash ?t)"
      "\<And>n. te_lookup demo_recon_env n (the (t_txHash ?t)) = Some True"
    by (simp_all add: demo_deposit_row_def demo_tx_def truthy_def demo_recon_env_def)
  have s: "distinct (map fst (transactions ?s))" "tbl_find ''d'' (transactions ?s) = Some ?t"
      "tbl_find ''d'' (tx_locks ?s) = Some (300000, ''host'')" "findById (t_userId ?t) ?s \<noteq> None"
    by (simp_all add: demo_recon_def tbl_find_def findById_def demo_deposit_row_def demo_tx_def)
  have "claimable 400000 ?s \<noteq> []"
    by (simp add: claimable_def unlocked_def demo_recon_def tbl_find_def demo_deposit_row_def demo_tx_def LOCK_EXPIRY_MS_def)
  note overlapping_jobs_credit_twice [OF demo_recon_ok s(1,2) t s(3) this s(4)]
  moreover have "js_add (js_add (user_balance (t_userId ?t) (t_currency ?t) ?s) (parse_float (t_amount ?t))) (parse_float (t_amount ?t)) = 25"
    using js_numeral_exact(1) [of 5 10] js_numeral_exact(1) [of 15 10] is_double_numeral(3) [of "num.Bit0 (num.Bit1 (num.Bit0 num.One))"]
    by (simp add: demo_recon_def user_balance_def findById_def tbl_find_def demo_deposit_row_def demo_tx_def demo_user_def
        balance_of_def parse_float_def is_double_def)
  ultimately show ?thesis by (auto simp: demo_deposit_row_def demo_tx_def)
qed

theorem jobs_leave_settled_rows_witness:
  "\<exists>r s1. reconcilePendingTransactions demo_recon_env 9 ''host''
       (demo_recon [(''d'', demo_deposit_row\<lparr>t_status := SUCCESS\<rparr>)] []) = (r, s1) \<and>
     tbl_find ''d'' (transactions s1) = Some (demo_deposit_row\<lparr>t_status := SUCCESS\<rparr>)"
proof -
  let ?s = "demo_recon [(''d'', demo_deposit_row\<lparr>t_status := SUCCESS\<rparr>)] []"
  obtain r s1 where 1: "reconcilePendingTransactions demo_recon_env 9 ''host'' ?s = (r, s1)" by fastforce
  obtain r' s2 where 2: "retryFailedTransactions demo_recon_env 9 ''host'' ?s = (r', s2)" by fastforce
  have "distinct (map fst (transactions ?s))" "tbl_find ''d'' (transactions ?s) = Some (demo_deposit_row\<lparr>t_status := SUCCESS\<rparr>)"
      "t_status (demo_deposit_row\<lparr>t_status := SUCCESS\<rparr>) \<noteq> PENDING" "t_status (demo_deposit_row\<lparr>t_status := SUCCESS\<rparr>) \<noteq> FAILED"
    by (simp_all add: demo_recon_def tbl_find_def)
  from jobs_leave_settled_rows [OF this 1 2] 1 show ?thesis by blast
qed

end
