(* ===== verification/Dao.thy ===== *)
theory Dao
  imports Users
begin

text \<open>
  Governance (\<open>dao/services/proposal.service.ts\<close>, \<open>dao/dao.service.ts\<close>, the voting handlers of
  \<open>dao/controllers/proposal.controller.ts\<close> and the token check of \<open>auth/strategies/jwt.strategy.ts\<close> that
  feeds them). A user that an operation receives may be undefined (\<open>None\<close>): reading a property of it throws.
  The network SDK is a parameter: \<open>dao_env\<close> holds the settings, what the SDK makes of them, and the
  Soroban server as functions of the number of calls made before. Dates of requests are already read as
  instants. Audit logs and the short-lived cache of results are not part of the state.
\<close>

section \<open>Data\<close>

datatype proposal_status = ACTIVE | PASSED | FAILED | CANCELLED

datatype proposal_type = STANDARD | CONTRACT_UPGRADE

datatype vote_weight_source = STAKING_BALANCE | XLM_BALANCE

datatype vote_choice = YES | NO | ABSTAIN

record upgrade_config =
  uc_contractId :: string
  uc_newWasmHash :: string
  uc_contractName :: string
  uc_changeDescription :: string
  uc_auditReportUrl :: string

record proposal =
  p_title :: string
  p_description :: string
  p_proposerId :: string
  p_status :: proposal_status
  p_votingStartAt :: int
  p_votingEndAt :: int
  p_quorumPercent :: rat
  p_passThresholdPercent :: rat
  p_finalYesWeight :: "rat option"
  p_finalNoWeight :: "rat option"
  p_finalAbstainWeight :: "rat option"
  p_totalVotingWeight :: "rat option"
  p_stellarContractId :: "string option"
  p_onChainTxHash :: "string option"
  p_proposalType :: proposal_type
  p_upgradeConfig :: "upgrade_config option"
  p_requiredStakeTier :: "string option"
  p_voteWeightSource :: "vote_weight_source option"

record vote =
  vo_proposalId :: string
  vo_voterId :: string
  vo_choice :: vote_choice
  vo_weight :: rat
  vo_castAt :: int

datatype distribution_status = RD_PENDING | RD_SUCCESS | RD_FAILED

datatype contract_arg = ArgString string | ArgNumber rat

record reward_distribution =
  rd_userId :: string
  rd_contractId :: string
  rd_functionName :: string
  rd_args :: "contract_arg list option"
  rd_amount :: rat
  rd_currency :: string
  rd_txHash :: "string option"
  rd_status :: distribution_status
  rd_errorMessage :: "string option"

record create_proposal_dto =
  pd_title :: string
  pd_description :: string
  pd_votingStartAt :: int
  pd_votingEndAt :: int
  pd_quorumPercent :: rat
  pd_passThresholdPercent :: rat
  pd_stellarContractId :: "string option"
  pd_proposalType :: "proposal_type option"
  pd_upgradeConfig :: "upgrade_config option"

record distribute_dto =
  dd_userId :: string
  dd_contractId :: "string option"
  dd_functionName :: string
  dd_args :: "contract_arg list option"
  dd_amount :: rat
  dd_currency :: string

record vote_results =
  vr_yesWeight :: rat
  vr_noWeight :: rat
  vr_abstainWeight :: rat
  vr_totalWeight :: rat
  vr_yesPercent :: rat
  vr_noPercent :: rat
  vr_abstainPercent :: rat
  vr_quorumReached :: bool
  vr_passing :: bool
  vr_totalVotes :: nat

record contract_call =
  cc_contract :: string
  cc_function :: string
  cc_args :: "contract_arg list"

record dao_state = base +
  proposals :: "proposal table"
  votes :: "vote table"
  distributions :: "reward_distribution table"
  rpc_calls :: nat
  contract_calls :: "contract_call list"

record dao_env =
  de_uuid :: "nat \<Rightarrow> string"
  de_sorobanRpcUrl :: "string option"
  de_contractId :: "string option"
  de_horizonUrl :: "string option"
  de_network :: "string option"
  de_hotWalletSecret :: "string option"
  de_passphrase :: "string \<Rightarrow> string option"
  de_clients_fail :: "string option"
  de_getNetwork :: "nat \<Rightarrow> bool"
  de_sendTransaction :: "nat \<Rightarrow> contract_call \<Rightarrow> string option"

definition find_proposal :: "string \<Rightarrow> 'a dao_state_scheme \<Rightarrow> proposal option" where
  "find_proposal i s = tbl_find i (proposals s)"

definition save_proposal :: "string \<Rightarrow> proposal \<Rightarrow> 'a dao_state_scheme \<Rightarrow> 'a dao_state_scheme" where
  "save_proposal i p s = s\<lparr>proposals := tbl_save i p (proposals s)\<rparr>"

definition votes_of :: "string \<Rightarrow> 'a dao_state_scheme \<Rightarrow> vote list" where
  "votes_of i s = filter (\<lambda>v. vo_proposalId v = i) (map snd (votes s))"

section \<open>The contract service\<close>

text \<open>The constructor: the error that later calls report, if any.\<close>

definition daoConfigError :: "dao_env \<Rightarrow> string option" where
  "daoConfigError E =
     (if \<not> truthy (de_sorobanRpcUrl E) then Some ''STELLAR_SOROBAN_RPC_URL must be set''
      else if \<not> truthy (de_contractId E) then Some ''DAO_CONTRACT_ID must be set''
      else if \<not> truthy (de_horizonUrl E) \<or> \<not> truthy (de_network E) \<or> \<not> truthy (de_hotWalletSecret E)
        then Some ''Stellar environment variables not configured for DAO service''
      else if \<not> truthy (de_passphrase E (the (de_network E))) then Some ''Unsupported Stellar network: ${network}''
      else de_clients_fail E)"

definition defaultContractId :: "dao_env \<Rightarrow> string" where
  "defaultContractId E = (case de_contractId E of None \<Rightarrow> [] | Some c \<Rightarrow> c)"

definition or_default :: "string option \<Rightarrow> string \<Rightarrow> string" where
  "or_default x d = (if truthy x then the x else d)"

definition invokeContract ::
    "dao_env \<Rightarrow> string \<Rightarrow> string \<Rightarrow> contract_arg list \<Rightarrow> ('a dao_state_scheme, string) op" where
  "invokeContract E contractId functionName args =
     (let target = or_default (Some contractId) (defaultContractId E);
          call = \<lparr>cc_contract = target, cc_function = functionName, cc_args = args\<rparr>
      in
      bindE (require (daoConfigError E = None)
        (HttpException 503 ''DAO service not configured: ${this.daoConfigError}'')) (\<lambda>_.
      bindE (require (target \<noteq> []) (HttpException 400 ''Contract ID is required'')) (\<lambda>_.
      bindE (gets rpc_calls) (\<lambda>n.
      bindE (modify (\<lambda>s. s\<lparr>rpc_calls := n + 1\<rparr>)) (\<lambda>_.
      bindE (require (de_getNetwork E n) (HttpException 503 ''Soroban RPC server unavailable'')) (\<lambda>_.
      bindE (from_option (HttpException 400 ''Contract invocation failed: ${err.message}'')
        (de_sendTransaction E n call)) (\<lambda>txHash.
      bindE (modify (\<lambda>s. s\<lparr>contract_calls := contract_calls s @ [call]\<rparr>)) (\<lambda>_.
      ret txHash))))))))"

definition unavailable :: "exn \<Rightarrow> bool" where
  "unavailable e = (case e of HttpException status m \<Rightarrow> status = 503 | _ \<Rightarrow> False)"

definition save_distribution :: "string \<Rightarrow> reward_distribution \<Rightarrow> ('a dao_state_scheme, unit) op" where
  "save_distribution i d = modify (\<lambda>s. s\<lparr>distributions := tbl_save i d (distributions s)\<rparr>)"

definition distributeReward :: "dao_env \<Rightarrow> distribute_dto \<Rightarrow> ('a dao_state_scheme, string \<times> reward_distribution) op" where
  "distributeReward E payload =
     (let contractId = or_default (dd_contractId payload) (defaultContractId E);
          distribution = \<lparr>rd_userId = dd_userId payload, rd_contractId = contractId,
            rd_functionName = dd_functionName payload, rd_args = dd_args payload,
            rd_amount = pg_numeric 8 (num_to_string (dd_amount payload)), rd_currency = dd_currency payload,
            rd_txHash = None, rd_status = RD_PENDING, rd_errorMessage = None\<rparr>
      in
      bindE (gets (\<lambda>s. de_uuid E (length (distributions s)))) (\<lambda>i.
      bindE (save_distribution i distribution) (\<lambda>_.
      tryE
        (bindE (invokeContract E contractId (dd_functionName payload)
            (case dd_args payload of None \<Rightarrow> [] | Some a \<Rightarrow> a)) (\<lambda>txHash.
         let d = distribution\<lparr>rd_txHash := Some txHash, rd_status := RD_SUCCESS\<rparr>
         in bindE (save_distribution i d) (\<lambda>_. ret (i, d))))
        (\<lambda>err. if unavailable err then throw err
         else let d = distribution\<lparr>rd_status := RD_FAILED, rd_errorMessage := Some (exn_message err)\<rparr>
              in bindE (save_distribution i d) (\<lambda>_. ret (i, d))))))"

section \<open>Proposals and votes\<close>

definition undefined_read :: exn where
  "undefined_read = PlainError ''TypeError: Cannot read properties of undefined''"

definition proposal_row :: "string \<Rightarrow> create_proposal_dto \<Rightarrow> proposal" where
  "proposal_row userId dto =
     (let isContractUpgrade = (pd_proposalType dto = Some CONTRACT_UPGRADE) in
      \<lparr>p_title = pd_title dto, p_description = pd_description dto, p_proposerId = userId, p_status = ACTIVE,
            p_votingStartAt = pd_votingStartAt dto, p_votingEndAt = pd_votingEndAt dto,
            p_quorumPercent = pg_numeric 2 (num_to_string (pd_quorumPercent dto)),
            p_passThresholdPercent =
              (if isContractUpgrade then 75 else pg_numeric 2 (num_to_string (pd_passThresholdPercent dto))),
            p_finalYesWeight = None, p_finalNoWeight = None, p_finalAbstainWeight = None, p_totalVotingWeight = None,
            p_stellarContractId = pd_stellarContractId dto, p_onChainTxHash = None,
            p_proposalType = (case pd_proposalType dto of None \<Rightarrow> STANDARD | Some t \<Rightarrow> t),
            p_upgradeConfig = (if isContractUpgrade then pd_upgradeConfig dto else None),
            p_requiredStakeTier = (if isContractUpgrade then Some ''PLATINUM'' else None),
            p_voteWeightSource = (if isContractUpgrade then Some STAKING_BALANCE else None)\<rparr>)"

definition createProposal ::
    "dao_env \<Rightarrow> int \<Rightarrow> string \<Rightarrow> user option \<Rightarrow> create_proposal_dto \<Rightarrow> ('a dao_state_scheme, string \<times> proposal) op" where
  "createProposal E now userId user dto =
     (let isContractUpgrade = (pd_proposalType dto = Some CONTRACT_UPGRADE) in
      bindE (from_option undefined_read user) (\<lambda>u.
      bindE (if isContractUpgrade then
          bindE (require (u_role u = SUPER_ADMIN)
            (ForbiddenException ''Only SUPER_ADMIN can create CONTRACT_UPGRADE proposals'')) (\<lambda>_.
          require (truthy (map_option uc_auditReportUrl (pd_upgradeConfig dto)))
            (BadRequestException ''auditReportUrl is required for CONTRACT_UPGRADE proposals''))
        else require (u_role u = ADMIN \<or> u_role u = SUPER_ADMIN)
            (ForbiddenException ''Only ADMIN can create proposals'')) (\<lambda>_.
      bindE (require (now \<le> pd_votingStartAt dto)
        (BadRequestException ''votingStartAt must be now or in the future'')) (\<lambda>_.
      bindE (require (pd_votingStartAt dto < pd_votingEndAt dto)
        (BadRequestException ''votingEndAt must be after votingStartAt'')) (\<lambda>_.
      bindE (gets (\<lambda>s. de_uuid E (length (proposals s)))) (\<lambda>i.
      let p = proposal_row userId dto
      in bindE (modify (save_proposal i p)) (\<lambda>_. ret (i, p))))))))"

text \<open>\<open>(voter as any).stakeTier\<close>: no column and no code gives a user this property.\<close>

definition stakeTier :: "user \<Rightarrow> string option" where
  "stakeTier voter = None"

definition castVote ::
    "dao_env \<Rightarrow> int \<Rightarrow> string \<Rightarrow> string \<Rightarrow> user option \<Rightarrow> vote_choice \<Rightarrow> ('a dao_state_scheme, string \<times> vote) op" where
  "castVote E now proposalId voterId voter choice =
     bindE (gets (find_proposal proposalId)) (\<lambda>found.
     bindE (from_option (NotFoundException ''Proposal not found'') found) (\<lambda>p.
     bindE (require (p_status p \<noteq> CANCELLED)
       (UnprocessableEntityException ''Cannot vote on a cancelled proposal'')) (\<lambda>_.
     bindE (require (p_status p = ACTIVE) (BadRequestException ''Proposal is not active'')) (\<lambda>_.
     bindE (require (now \<le> p_votingEndAt p) (BadRequestException ''Voting period has ended'')) (\<lambda>_.
     bindE (gets (\<lambda>s. List.find (\<lambda>v. vo_voterId v = voterId) (votes_of proposalId s))) (\<lambda>existingVote.
     bindE (require (existingVote = None)
       (ConflictException ''Voter has already voted on this proposal'')) (\<lambda>_.
     bindE (from_option undefined_read voter) (\<lambda>u.
     bindE (require (p_proposalType p = CONTRACT_UPGRADE \<longrightarrow> stakeTier u = Some ''PLATINUM'')
       (ForbiddenException ''Only PLATINUM stakers can vote on contract upgrade proposals'')) (\<lambda>_.
     let xlmBalance = balance_of u ''XLM'' in
     bindE (require (xlmBalance \<noteq> 0) (BadRequestException ''Voter has no XLM balance to vote'')) (\<lambda>_.
     bindE (gets (\<lambda>s. de_uuid E (length (votes s)))) (\<lambda>i.
     let v = \<lparr>vo_proposalId = proposalId, vo_voterId = voterId, vo_choice = choice,
           vo_weight = pg_numeric 8 (num_to_string xlmBalance), vo_castAt = now\<rparr>
     in bindE (modify (\<lambda>s. s\<lparr>votes := tbl_save i v (votes s)\<rparr>)) (\<lambda>_. ret (i, v)))))))))))))"

section \<open>Counting\<close>

definition countEligibleVoters :: "'a dao_state_scheme \<Rightarrow> user list" where
  "countEligibleVoters s =
     filter (\<lambda>u. case u_balances u ''XLM'' of None \<Rightarrow> False | Some b \<Rightarrow> 0 < b) (map snd (users s))"

definition choice_weight :: "vote_choice \<Rightarrow> vote list \<Rightarrow> rat" where
  "choice_weight c vs = foldl (\<lambda>sum v. js_add sum (parse_float (vo_weight v))) 0 (filter (\<lambda>v. vo_choice v = c) vs)"

definition share_percent :: "rat \<Rightarrow> rat \<Rightarrow> rat" where
  "share_percent w t = (if 0 < t then parse_float (to_fixed 2 (js_mul (js_div w t) 100)) else 0)"

definition quorum_reached :: "proposal \<Rightarrow> vote list \<Rightarrow> nat \<Rightarrow> rat \<Rightarrow> bool" where
  "quorum_reached p vs totalEligible totalWeight =
     (let uniqueVoters = length (remdups (map vo_voterId vs)) in
      if 0 < totalEligible
      then parse_float (p_quorumPercent p) \<le> js_mul (js_div (of_nat uniqueVoters) (of_nat totalEligible)) 100
      else 0 < totalWeight)"

definition calculateResults :: "proposal \<Rightarrow> vote list \<Rightarrow> nat \<Rightarrow> vote_results" where
  "calculateResults p vs totalEligible =
     (let yesWeight = choice_weight YES vs;
          noWeight = choice_weight NO vs;
          abstainWeight = choice_weight ABSTAIN vs;
          totalWeight = js_add (js_add yesWeight noWeight) abstainWeight;
          yesPercent = share_percent yesWeight totalWeight;
          quorumReached = quorum_reached p vs totalEligible totalWeight
      in \<lparr>vr_yesWeight = parse_float (to_fixed 8 yesWeight),
          vr_noWeight = parse_float (to_fixed 8 noWeight),
          vr_abstainWeight = parse_float (to_fixed 8 abstainWeight),
          vr_totalWeight = parse_float (to_fixed 8 totalWeight),
          vr_yesPercent = yesPercent, vr_noPercent = share_percent noWeight totalWeight,
          vr_abstainPercent = share_percent abstainWeight totalWeight,
          vr_quorumReached = quorumReached,
          vr_passing = (quorumReached \<and> yesPercent > parse_float (p_passThresholdPercent p)),
          vr_totalVotes = length vs\<rparr>)"

definition getProposalDetail :: "string \<Rightarrow> ('a dao_state_scheme, proposal \<times> vote_results) op" where
  "getProposalDetail proposalId =
     bindE (gets (find_proposal proposalId)) (\<lambda>found.
     bindE (from_option (NotFoundException ''Proposal not found'') found) (\<lambda>p.
     bindE (gets (\<lambda>s. calculateResults p (votes_of proposalId s) (length (countEligibleVoters s)))) (\<lambda>r.
     ret (p, r))))"

text \<open>The results of a decided proposal come from its stored totals.\<close>

definition stored_results :: "proposal \<Rightarrow> vote list \<Rightarrow> vote_results" where
  "stored_results p vs =
     (let num = (\<lambda>x. parse_float (case x of None \<Rightarrow> 0 | Some d \<Rightarrow> d));
          totalWeight = num (p_totalVotingWeight p);
          yesWeight = num (p_finalYesWeight p);
          noWeight = num (p_finalNoWeight p);
          abstainWeight = num (p_finalAbstainWeight p)
      in \<lparr>vr_yesWeight = parse_float (to_fixed 8 yesWeight),
          vr_noWeight = parse_float (to_fixed 8 noWeight),
          vr_abstainWeight = parse_float (to_fixed 8 abstainWeight),
          vr_totalWeight = parse_float (to_fixed 8 totalWeight),
          vr_yesPercent = share_percent yesWeight totalWeight,
          vr_noPercent = share_percent noWeight totalWeight,
          vr_abstainPercent = share_percent abstainWeight totalWeight,
          vr_quorumReached = (p_status p = PASSED), vr_passing = (p_status p = PASSED),
          vr_totalVotes = length vs\<rparr>)"

definition getProposalResults :: "string \<Rightarrow> ('a dao_state_scheme, proposal_status \<times> vote_results) op" where
  "getProposalResults proposalId =
     bindE (gets (find_proposal proposalId)) (\<lambda>found.
     bindE (from_option (NotFoundException ''Proposal not found'') found) (\<lambda>p.
     bindE (gets (votes_of proposalId)) (\<lambda>vs.
     if p_status p = PASSED \<or> p_status p = FAILED then ret (p_status p, stored_results p vs)
     else bindE (gets (\<lambda>s. length (countEligibleVoters s))) (\<lambda>n. ret (p_status p, calculateResults p vs n)))))"

section \<open>Deciding\<close>

definition cancelProposal :: "string \<Rightarrow> ('a dao_state_scheme, proposal) op" where
  "cancelProposal proposalId =
     bindE (gets (find_proposal proposalId)) (\<lambda>found.
     bindE (from_option (NotFoundException ''Proposal not found'') found) (\<lambda>p.
     bindE (require (p_status p = ACTIVE) (BadRequestException ''Only ACTIVE proposals can be cancelled'')) (\<lambda>_.
     let q = p\<lparr>p_status := CANCELLED\<rparr>
     in bindE (modify (save_proposal proposalId q)) (\<lambda>_. ret q))))"

definition decided_row :: "proposal \<Rightarrow> vote_results \<Rightarrow> proposal" where
  "decided_row p results =
     (let num = (\<lambda>x. Some (pg_numeric 8 (num_to_string x))) in
      p\<lparr>p_status := (if vr_passing results then PASSED else FAILED),
        p_finalYesWeight := num (vr_yesWeight results), p_finalNoWeight := num (vr_noWeight results),
        p_finalAbstainWeight := num (vr_abstainWeight results),
        p_totalVotingWeight := num (vr_totalWeight results)\<rparr>)"

definition finalizeProposal :: "dao_env \<Rightarrow> string \<Rightarrow> proposal \<Rightarrow> vote list \<Rightarrow> ('a dao_state_scheme, unit) op" where
  "finalizeProposal E i p vs =
     bindE (gets (\<lambda>s. calculateResults p vs (length (countEligibleVoters s)))) (\<lambda>results.
     bindE (if vr_passing results \<and> truthy (p_stellarContractId p) then
            tryE (bindE (invokeContract E (the (p_stellarContractId p)) ''finalize_proposal''
                [ArgString i, ArgNumber (vr_yesWeight results), ArgNumber (vr_noWeight results),
                 ArgNumber (vr_abstainWeight results)]) (\<lambda>txHash. ret (Some txHash)))
            (\<lambda>_. ret (p_onChainTxHash p))
          else ret (p_onChainTxHash p)) (\<lambda>txHash.
     modify (save_proposal i ((decided_row p results)\<lparr>p_onChainTxHash := txHash\<rparr>))))"

definition expiredProposals :: "int \<Rightarrow> 'a dao_state_scheme \<Rightarrow> (string \<times> proposal \<times> vote list) list" where
  "expiredProposals now s = map (\<lambda>(i, p). (i, p, votes_of i s))
     (filter (\<lambda>(i, p). p_status p = ACTIVE \<and> p_votingEndAt p < now) (proposals s))"

definition finalizeExpiredProposals :: "dao_env \<Rightarrow> int \<Rightarrow> ('a dao_state_scheme, unit) op" where
  "finalizeExpiredProposals E now =
     bindE (gets (expiredProposals now)) (\<lambda>expired.
     forE expired (\<lambda>(i, p, vs). tryE (finalizeProposal E i p vs) (\<lambda>_. ret ())))"

section \<open>Requests over HTTP\<close>

record jwt_payload =
  jp_sub :: string
  jp_isImpersonation :: "bool option"

record authenticated_user =
  au_userId :: string
  au_email :: string
  au_role :: user_role

definition jwt_validate :: "jwt_payload \<Rightarrow> ('a base_scheme, authenticated_user) op" where
  "jwt_validate payload =
     bindE (gets (findById (jp_sub payload))) (\<lambda>found.
     bindE (from_option (UnauthorizedException ''User not found'') found) (\<lambda>u.
     bindE (require (\<not> u_isSuspended u) (ForbiddenException ''Account is suspended'')) (\<lambda>_.
     bindE (require (\<not> u_isDeleted u) (UnauthorizedException ''Account has been deleted'')) (\<lambda>_.
     bindE (require (u_isActive u) (UnauthorizedException ''User account is deactivated'')) (\<lambda>_.
     ret \<lparr>au_userId = jp_sub payload, au_email = u_email u,
          au_role = (if jp_isImpersonation payload = Some True then USER else u_role u)\<rparr>)))))"

text \<open>\<open>req.user.user\<close>: the user that the token check attaches to a request has no property \<open>user\<close>.\<close>

definition req_user_user :: "authenticated_user \<Rightarrow> user option" where
  "req_user_user a = None"

definition roles_guard :: "user_role list \<Rightarrow> authenticated_user \<Rightarrow> bool" where
  "roles_guard required a =
     (if au_role a = SUPER_ADMIN then \<exists>r\<in>set required. r = SUPER_ADMIN \<or> r = ADMIN
      else au_role a \<in> set required)"

definition http_createProposal ::
    "dao_env \<Rightarrow> int \<Rightarrow> jwt_payload \<Rightarrow> create_proposal_dto \<Rightarrow> ('a dao_state_scheme, string \<times> proposal) op" where
  "http_createProposal E now payload dto =
     bindE (jwt_validate payload) (\<lambda>a.
     bindE (require (roles_guard [ADMIN] a) (ForbiddenException ''Forbidden resource'')) (\<lambda>_.
     createProposal E now (au_userId a) (req_user_user a) dto))"

definition http_castVote ::
    "dao_env \<Rightarrow> int \<Rightarrow> jwt_payload \<Rightarrow> string \<Rightarrow> vote_choice \<Rightarrow> ('a dao_state_scheme, string \<times> vote) op" where
  "http_castVote E now payload proposalId choice =
     bindE (jwt_validate payload) (\<lambda>a.
     castVote E now proposalId (au_userId a) (req_user_user a) choice)"

section \<open>Runs\<close>

datatype dao_event =
    Propose int string "user option" create_proposal_dto
  | Vote int string string "user option" vote_choice
  | CancelProposal string
  | FinalizeJob int
  | Distribute distribute_dto
  | HttpPropose int jwt_payload create_proposal_dto
  | HttpVote int jwt_payload string vote_choice
  | UsersChange "user table"

fun dao_step :: "dao_env \<Rightarrow> dao_event \<Rightarrow> dao_state \<Rightarrow> dao_state" where
  "dao_step E (Propose now i u dto) s = snd (createProposal E now i u dto s)"
| "dao_step E (Vote now i w u c) s = snd (castVote E now i w u c s)"
| "dao_step E (CancelProposal i) s = snd (cancelProposal i s)"
| "dao_step E (FinalizeJob now) s = snd (finalizeExpiredProposals E now s)"
| "dao_step E (Distribute dto) s = snd (distributeReward E dto s)"
| "dao_step E (HttpPropose now a dto) s = snd (http_createProposal E now a dto s)"
| "dao_step E (HttpVote now a i c) s = snd (http_castVote E now a i c s)"
| "dao_step E (UsersChange us) s = s\<lparr>users := us\<rparr>"

text \<open>Rows are numbered by the id generator in the order of their creation.\<close>

definition dao_ids :: "dao_env \<Rightarrow> 'a dao_state_scheme \<Rightarrow> bool" where
  "dao_ids E s \<longleftrightarrow> inj (de_uuid E) \<and>
     map fst (proposals s) = map (de_uuid E) [0..<length (proposals s)] \<and>
     map fst (votes s) = map (de_uuid E) [0..<length (votes s)]"

lemma fresh_id: "inj g \<Longrightarrow> map fst t = map g [0..<length t] \<Longrightarrow> tbl_find (g (length t)) t = None"
  by (auto simp: tbl_find_None_keys inj_eq)

definition same_rows :: "'a dao_state_scheme \<Rightarrow> 'a dao_state_scheme \<Rightarrow> bool" where
  "same_rows s t \<longleftrightarrow> proposals t = proposals s \<and> votes t = votes s \<and> users t = users s"

lemma invokeContract_frame: "invokeContract E c f a s = (r, t) \<Longrightarrow> same_rows s t"
  by (cases r) (auto simp: invokeContract_def Let_def op_iff same_rows_def)

lemma finalizeProposal_effect:
  assumes "finalizeProposal E i p vs s = (r, t)"
  shows "r = Inr () \<and> votes t = votes s \<and> users t = users s \<and>
    (\<exists>h. proposals t = tbl_save i ((decided_row p (calculateResults p vs (length (countEligibleVoters s))))
        \<lparr>p_onChainTxHash := h\<rparr>) (proposals s))"
  using assms
  by (cases r)
    (auto simp: finalizeProposal_def op_iff save_proposal_def same_rows_def split: if_splits dest!: invokeContract_frame)

text \<open>What the job makes of a row: an expired open proposal is decided, any other row stays.\<close>

definition expired :: "int \<Rightarrow> proposal \<Rightarrow> bool" where
  "expired now p \<longleftrightarrow> p_status p = ACTIVE \<and> p_votingEndAt p < now"

definition job_row :: "int \<Rightarrow> dao_state \<Rightarrow> string \<Rightarrow> proposal \<Rightarrow> proposal option \<Rightarrow> bool" where
  "job_row now s i p y \<longleftrightarrow>
     (if expired now p
      then \<exists>h. y = Some ((decided_row p (calculateResults p (votes_of i s) (length (countEligibleVoters s))))
        \<lparr>p_onChainTxHash := h\<rparr>)
      else y = Some p)"

definition job_inv :: "int \<Rightarrow> dao_state \<Rightarrow> (string \<times> proposal \<times> vote list) list \<Rightarrow> dao_state \<Rightarrow> bool" where
  "job_inv now s xs u \<longleftrightarrow> votes u = votes s \<and> users u = users s \<and> map fst (proposals u) = map fst (proposals s) \<and>
     distinct (map fst xs) \<and>
     (\<forall>(i, p, vs)\<in>set xs. expired now p \<and> vs = votes_of i s \<and> find_proposal i s = Some p) \<and>
     (\<forall>i p. find_proposal i s = Some p \<longrightarrow>
        (if i \<in> fst ` set xs then find_proposal i u = Some p else job_row now s i p (find_proposal i u)))"

lemma job_inv_step:
  assumes "job_inv now s ((i, p, vs) # xs) u"
  shows "\<exists>t. tryE (finalizeProposal E i p vs) (\<lambda>_. ret ()) u = (Inr (), t) \<and> job_inv now s xs t"
proof -
  obtain r t where f: "finalizeProposal E i p vs u = (r, t)" by fastforce
  from finalizeProposal_effect [OF f] obtain h where t: "r = Inr ()" "votes t = votes u" "users t = users u"
    "proposals t = tbl_save i ((decided_row p (calculateResults p vs (length (countEligibleVoters u))))
        \<lparr>p_onChainTxHash := h\<rparr>) (proposals u)" by blast
  from assms have u: "votes u = votes s" "users u = users s" "map fst (proposals u) = map fst (proposals s)"
    and i: "i \<notin> fst ` set xs" "expired now p" "vs = votes_of i s" "find_proposal i s = Some p" "find_proposal i u = Some p"
    by (auto simp: job_inv_def)
  have "find_proposal j t = (if j = i then
      Some ((decided_row p (calculateResults p (votes_of i s) (length (countEligibleVoters s))))\<lparr>p_onChainTxHash := h\<rparr>)
      else find_proposal j u)" for j
    using u i by (simp add: t(4) find_proposal_def tbl_simps countEligibleVoters_def)
  moreover have keys: "map fst (proposals t) = map fst (proposals s)"
    using i(5) u(3) by (simp add: t(4) find_proposal_def tbl_save_keys)
  moreover have "if j \<in> fst ` set xs then find_proposal j u = Some q else j = i \<or> job_row now s j q (find_proposal j u)"
    if "find_proposal j s = Some q" for j q
    using that assms by (auto simp: job_inv_def)
  moreover have "job_row now s i p (Some ((decided_row p (calculateResults p (votes_of i s) (length (countEligibleVoters s))))
      \<lparr>p_onChainTxHash := h\<rparr>))"
    using i(2) by (auto simp: job_row_def)
  ultimately have "if j \<in> fst ` set xs then find_proposal j t = Some q else job_row now s j q (find_proposal j t)"
    if "find_proposal j s = Some q" for j q
    using that i(1,4) by (metis option.inject)
  with assms u t(2,3) keys have "job_inv now s xs t" unfolding job_inv_def by simp
  with f t(1) show ?thesis by (auto simp: tryE_def)
qed

lemma finalize_job:
  assumes "distinct (map fst (proposals s))"
  shows "\<exists>t. finalizeExpiredProposals E now s = (Inr (), t) \<and> votes t = votes s \<and> users t = users s \<and>
    map fst (proposals t) = map fst (proposals s) \<and>
    (\<forall>i p. find_proposal i s = Some p \<longrightarrow> job_row now s i p (find_proposal i t))"
proof -
  have e: "expiredProposals now s = map (\<lambda>(i, p). (i, p, votes_of i s)) (filter (\<lambda>(i, p). expired now p) (proposals s))"
    by (simp add: expiredProposals_def expired_def)
  have "map fst (expiredProposals now s) = map fst (filter (\<lambda>(i, p). expired now p) (proposals s))"
    by (simp add: e case_prod_unfold comp_def)
  with distinct_fst_filter [OF assms] have d: "distinct (map fst (expiredProposals now s))" by simp
  have "job_inv now s (expiredProposals now s) s"
    using d assms unfolding job_inv_def
    by (auto simp: e find_proposal_def tbl_distinct_in job_row_def image_iff dest!: tbl_find_in)
  from forE_total [of "job_inv now s", OF this, of "\<lambda>(i, p, vs). tryE (finalizeProposal E i p vs) (\<lambda>_. ret ())"]
    job_inv_step [of now s] obtain t where
    "forE (expiredProposals now s) (\<lambda>(i, p, vs). tryE (finalizeProposal E i p vs) (\<lambda>_. ret ())) s = (Inr (), t)"
    "job_inv now s [] t" by fastforce
  then show ?thesis
    by (auto simp: finalizeExpiredProposals_def job_inv_def bindE_def gets_def)
qed

subsection \<open>What an operation changes\<close>

lemma createProposal_effect:
  assumes "createProposal E now u w dto s = (r, t)"
  shows "votes t = votes s \<and> (proposals t = proposals s \<or>
    proposals t = tbl_save (de_uuid E (length (proposals s))) (proposal_row u dto) (proposals s))"
  using assms by (cases r) (auto simp: createProposal_def Let_def op_iff save_proposal_def split: if_splits)

definition new_vote :: "vote \<Rightarrow> dao_state \<Rightarrow> bool" where
  "new_vote v s \<longleftrightarrow> (\<exists>p. find_proposal (vo_proposalId v) s = Some p \<and> p_status p = ACTIVE \<and> vo_castAt v \<le> p_votingEndAt p) \<and>
     vo_voterId v \<notin> vo_voterId ` set (votes_of (vo_proposalId v) s)"

lemma castVote_effect:
  assumes "castVote E now i w u c s = (r, t)"
  shows "proposals t = proposals s \<and>
    (votes t = votes s \<or> (\<exists>v. new_vote v s \<and> votes t = tbl_save (de_uuid E (length (votes s))) v (votes s)))"
  using assms by (cases r)
    (auto simp: castVote_def Let_def op_iff new_vote_def find_None_iff image_iff split: if_splits intro!: exI)

lemma cancelProposal_effect:
  assumes "cancelProposal i s = (r, t)"
  shows "votes t = votes s \<and> (proposals t = proposals s \<or>
    (\<exists>p. find_proposal i s = Some p \<and> p_status p = ACTIVE \<and> proposals t = tbl_save i (p\<lparr>p_status := CANCELLED\<rparr>) (proposals s)))"
  using assms by (cases r) (auto simp: cancelProposal_def Let_def op_iff save_proposal_def)

lemma distributeReward_effect:
  assumes "distributeReward E dto s = (r, t)"
  shows "same_rows s t"
  using assms by (cases r)
    (fastforce simp: distributeReward_def Let_def op_iff save_distribution_def same_rows_def split: if_splits dest: invokeContract_frame)+

lemma http_effect:
  "http_createProposal E now a dto s = (r, t) \<Longrightarrow> (\<exists>e. r = Inl e) \<and> t = s"
  "http_castVote E now a i c s = (r', t') \<Longrightarrow> (\<exists>e. r' = Inl e) \<and> t' = s"
  by (cases r; auto simp: http_createProposal_def jwt_validate_def createProposal_def req_user_user_def op_iff Let_def)
    (cases r'; auto simp: http_castVote_def jwt_validate_def castVote_def req_user_user_def op_iff Let_def)

text \<open>The effects of all operations in one place.\<close>

definition dao_change :: "dao_env \<Rightarrow> dao_state \<Rightarrow> dao_state \<Rightarrow> bool" where
  "dao_change E s t \<longleftrightarrow>
     (proposals t = proposals s \<and> votes t = votes s)
   \<or> (votes t = votes s \<and> (\<exists>u dto. proposals t = tbl_save (de_uuid E (length (proposals s))) (proposal_row u dto) (proposals s)))
   \<or> (proposals t = proposals s \<and> (\<exists>v. new_vote v s \<and> votes t = tbl_save (de_uuid E (length (votes s))) v (votes s)))
   \<or> (votes t = votes s \<and> map fst (proposals t) = map fst (proposals s) \<and>
       (\<forall>i p. find_proposal i s = Some p \<longrightarrow> (\<exists>q. find_proposal i t = Some q \<and> p_votingEndAt q = p_votingEndAt p \<and>
          (p_status p \<noteq> ACTIVE \<longrightarrow> q = p))))"

lemma decided_row_end [simp]: "p_votingEndAt (decided_row p r) = p_votingEndAt p"
  by (simp add: decided_row_def Let_def)

lemma dao_step_change:
  assumes ids: "dao_ids E s"
  shows "dao_change E s (dao_step E e s)"
proof (cases e)
  case (Propose now i u dto)
  obtain r t where "createProposal E now i u dto s = (r, t)" by fastforce
  from createProposal_effect [OF this] this Propose show ?thesis by (auto simp: dao_change_def)
next
  case (Vote now i w u c)
  obtain r t where "castVote E now i w u c s = (r, t)" by fastforce
  from castVote_effect [OF this] this Vote show ?thesis by (auto simp: dao_change_def)
next
  case (CancelProposal i)
  obtain r t where c: "cancelProposal i s = (r, t)" by fastforce
  from cancelProposal_effect [OF c] consider "proposals t = proposals s" "votes t = votes s"
    | p where "find_proposal i s = Some p" "p_status p = ACTIVE" "votes t = votes s"
        "proposals t = tbl_save i (p\<lparr>p_status := CANCELLED\<rparr>) (proposals s)" by blast
  then have "dao_change E s t"
  proof cases
    case 2
    then have "\<exists>q'. find_proposal j t = Some q' \<and> p_votingEndAt q' = p_votingEndAt q \<and> (p_status q \<noteq> ACTIVE \<longrightarrow> q' = q)"
      if "find_proposal j s = Some q" for j q
      using that by (auto simp: find_proposal_def tbl_simps)
    with 2 show ?thesis by (simp add: dao_change_def find_proposal_def tbl_save_keys)
  qed (simp add: dao_change_def)
  with c CancelProposal show ?thesis by simp
next
  case (FinalizeJob now)
  have "distinct (map fst (proposals s))" using ids by (auto simp: dao_ids_def distinct_map inj_on_def inj_def)
  from finalize_job [OF this, of E now] obtain t where
    "finalizeExpiredProposals E now s = (Inr (), t)" "votes t = votes s" "map fst (proposals t) = map fst (proposals s)"
    and j: "\<forall>i p. find_proposal i s = Some p \<longrightarrow> job_row now s i p (find_proposal i t)" by blast
  moreover have "\<exists>q. find_proposal i t = Some q \<and> p_votingEndAt q = p_votingEndAt p \<and> (p_status p \<noteq> ACTIVE \<longrightarrow> q = p)"
    if "find_proposal i s = Some p" for i p
    using j [rule_format, OF that] by (auto simp: job_row_def expired_def split: if_splits)
  ultimately show ?thesis using FinalizeJob by (simp add: dao_change_def)
next
  case (Distribute dto)
  obtain r t where "distributeReward E dto s = (r, t)" by fastforce
  from distributeReward_effect [OF this] this Distribute show ?thesis by (simp add: dao_change_def same_rows_def)
next
  case (HttpPropose now a dto)
  obtain r t where "http_createProposal E now a dto s = (r, t)" by fastforce
  from http_effect(1) [OF this] this HttpPropose show ?thesis by (simp add: dao_change_def)
next
  case (HttpVote now a i c)
  obtain r t where "http_castVote E now a i c s = (r, t)" by fastforce
  from http_effect(2) [OF this] this HttpVote show ?thesis by (simp add: dao_change_def)
qed (simp add: dao_change_def)

lemma append_ids:
  assumes "inj g" and "map fst t = map g [0..<length t]"
  shows "map fst (tbl_save (g (length t)) v t) = map g [0..<length (tbl_save (g (length t)) v t)]"
  using assms by (simp add: tbl_save_new fresh_id)

lemma dao_change_ids: "dao_change E s t \<Longrightarrow> dao_ids E s \<Longrightarrow> dao_ids E t"
  unfolding dao_change_def dao_ids_def by (metis append_ids length_map)

lemma dao_change_find:
  assumes c: "dao_change E s t" and ids: "dao_ids E s" and p: "find_proposal i s = Some p"
  shows "\<exists>q. find_proposal i t = Some q \<and> p_votingEndAt q = p_votingEndAt p \<and> (p_status p \<noteq> ACTIVE \<longrightarrow> q = p)"
proof -
  have "find_proposal i u = Some p" if "proposals u = tbl_save (de_uuid E (length (proposals s))) x (proposals s)" for u :: dao_state and x
    using that p fresh_id [of "de_uuid E" "proposals s"] ids
    by (auto simp: find_proposal_def tbl_simps dao_ids_def)
  with c p show ?thesis unfolding dao_change_def by (auto simp: find_proposal_def)
qed

lemma votes_of_append: "tbl_find k (votes s) = None \<Longrightarrow> votes t = tbl_save k v (votes s) \<Longrightarrow>
    votes_of i t = (if vo_proposalId v = i then votes_of i s @ [v] else votes_of i s)"
  by (simp add: votes_of_def tbl_save_new)

lemma dao_change_votes:
  assumes "dao_change E s t" and "dao_ids E s"
  shows "votes_of i t = votes_of i s \<or> (\<exists>v. new_vote v s \<and> vo_proposalId v = i \<and> votes_of i t = votes_of i s @ [v])"
proof -
  have n: "tbl_find (de_uuid E (length (votes s))) (votes s) = None"
    using assms(2) by (simp add: dao_ids_def fresh_id)
  have "votes t = votes s \<or> (\<exists>v. new_vote v s \<and> votes t = tbl_save (de_uuid E (length (votes s))) v (votes s))"
    using assms(1) by (auto simp: dao_change_def)
  then show ?thesis
  proof
    assume "\<exists>v. new_vote v s \<and> votes t = tbl_save (de_uuid E (length (votes s))) v (votes s)"
    then obtain v where v: "new_vote v s" "votes t = tbl_save (de_uuid E (length (votes s))) v (votes s)" by blast
    from votes_of_append [OF n v(2), of i] v(1) show ?thesis by auto
  qed (simp add: votes_of_def)
qed

section \<open>Decided proposals stay as they are\<close>

definition settled_as :: "dao_env \<Rightarrow> string \<Rightarrow> proposal \<Rightarrow> vote list \<Rightarrow> dao_state \<Rightarrow> bool" where
  "settled_as E i p vs s \<longleftrightarrow> dao_ids E s \<and> find_proposal i s = Some p \<and> p_status p \<noteq> ACTIVE \<and> votes_of i s = vs"

interpretation dao_settled: invariant_system "dao_step E" "\<lambda>_. True" "settled_as E i p vs" for E i p vs
proof unfold_locales
  fix s e
  assume s: "settled_as E i p vs s"
  then have ids: "dao_ids E s" and p: "find_proposal i s = Some p" "p_status p \<noteq> ACTIVE" and vs: "votes_of i s = vs"
    by (auto simp: settled_as_def)
  note c = dao_step_change [OF ids, of e]
  from dao_change_find [OF c ids p(1)] p(2) have "find_proposal i (dao_step E e s) = Some p" by auto
  moreover have "\<not> new_vote v s" if "vo_proposalId v = i" for v
    using that p by (auto simp: new_vote_def)
  with dao_change_votes [OF c ids, of i] have "votes_of i (dao_step E e s) = vs" using vs by auto
  ultimately show "settled_as E i p vs (dao_step E e s)"
    using dao_change_ids [OF c ids] p(2) by (simp add: settled_as_def)
qed

definition vote_ok :: "dao_state \<Rightarrow> vote \<Rightarrow> bool" where
  "vote_ok s v \<longleftrightarrow> (\<exists>p. find_proposal (vo_proposalId v) s = Some p \<and> vo_castAt v \<le> p_votingEndAt p)"

definition ballots_ok :: "dao_state \<Rightarrow> bool" where
  "ballots_ok s \<longleftrightarrow> (\<forall>i. distinct (map vo_voterId (votes_of i s)) \<and> (\<forall>v\<in>set (votes_of i s). vote_ok s v))"

interpretation dao_ballots: invariant_system "dao_step E" "\<lambda>_. True" "\<lambda>s. dao_ids E s \<and> ballots_ok s" for E
proof unfold_locales
  fix s e
  assume s: "dao_ids E s \<and> ballots_ok s"
  then have ids: "dao_ids E s" by simp
  note c = dao_step_change [OF ids, of e]
  let ?t = "dao_step E e s"
  have keep: "vote_ok ?t v" if "vote_ok s v" for v
    using that dao_change_find [OF c ids] unfolding vote_ok_def by metis
  have "distinct (map vo_voterId (votes_of i ?t)) \<and> (\<forall>v\<in>set (votes_of i ?t). vote_ok ?t v)" for i
    using dao_change_votes [OF c ids, of i]
  proof
    assume "\<exists>v. new_vote v s \<and> vo_proposalId v = i \<and> votes_of i ?t = votes_of i s @ [v]"
    then obtain v where v: "new_vote v s" "vo_proposalId v = i" "votes_of i ?t = votes_of i s @ [v]" by blast
    from v(1) have "vote_ok s v" by (auto simp: new_vote_def vote_ok_def)
    with v s keep show ?thesis by (auto simp: ballots_ok_def new_vote_def)
  qed (use s keep in \<open>auto simp: ballots_ok_def\<close>)
  with dao_change_ids [OF c ids] show "dao_ids E ?t \<and> ballots_ok ?t" by (simp add: ballots_ok_def)
qed

section \<open>Counting, against exact arithmetic\<close>

definition exact_weight :: "vote_choice \<Rightarrow> vote list \<Rightarrow> rat" where
  "exact_weight c vs = sum_list (map vo_weight (filter (\<lambda>v. vo_choice v = c) vs))"

definition exact_total :: "vote list \<Rightarrow> rat" where
  "exact_total vs = sum_list (map vo_weight vs)"

lemma exact_total_split: "exact_total vs = exact_weight YES vs + exact_weight NO vs + exact_weight ABSTAIN vs"
  unfolding exact_total_def exact_weight_def
proof (induction vs)
  case (Cons v vs)
  then show ?case by (cases "vo_choice v") simp_all
qed simp

lemma exact_weight_nonneg: "\<forall>v\<in>set vs. 0 \<le> vo_weight v \<Longrightarrow> 0 \<le> exact_weight c vs"
  unfolding exact_weight_def by (induction vs) auto

lemma exact_weight_le: "\<forall>v\<in>set vs. 0 \<le> vo_weight v \<Longrightarrow> exact_weight c vs \<le> exact_total vs"
  by (cases c) (auto simp: exact_total_split exact_weight_nonneg)

lemma foldl_js_add_close:
  "close k a b \<Longrightarrow> 0 \<le> b \<Longrightarrow> 0 < k \<Longrightarrow> \<forall>w\<in>set ws. 0 \<le> w \<Longrightarrow>
    close (k + length ws) (foldl (\<lambda>sum w. js_add sum (parse_float w)) a ws) (b + sum_list ws)"
proof (induction ws arbitrary: k a b)
  case (Cons w ws)
  have w: "0 \<le> w" using Cons.prems(4) by simp
  have "close (Suc 0) (rnd w) w" by (rule close_rnd) (use Cons.prems(4) in auto)
  then have r: "close k (rnd w) w" by (rule close_mono) (use Cons.prems(3,4) in auto)
  from close_rnd [OF close_add [OF Cons.prems(1) r]] Cons.prems(2) w
  have c: "close (Suc k) (js_add a (parse_float w)) (b + w)" by (simp add: js_add_def parse_float_def)
  have "close (Suc k + length ws) (foldl (\<lambda>sum w. js_add sum (parse_float w)) (js_add a (parse_float w)) ws) (b + w + sum_list ws)"
    by (rule Cons.IH [OF c]) (use Cons.prems(2,4) w in auto)
  then show ?case by (simp add: add.assoc)
qed simp

lemma foldl_map_arg: "foldl (\<lambda>a x. f a (g x)) a xs = foldl f a (map g xs)"
  by (induction xs arbitrary: a) auto

lemma choice_weight_foldl:
  "choice_weight c vs = foldl (\<lambda>sum w. js_add sum (parse_float w)) 0 (map vo_weight (filter (\<lambda>v. vo_choice v = c) vs))"
  unfolding choice_weight_def foldl_map by simp

lemma choice_weight_close:
  assumes "\<forall>v\<in>set vs. 0 \<le> vo_weight v"
  shows "close (1 + length vs) (choice_weight c vs) (exact_weight c vs)"
proof -
  let ?ws = "map vo_weight (filter (\<lambda>v. vo_choice v = c) vs)"
  have "close (1 + length ?ws) (choice_weight c vs) (exact_weight c vs)"
    using foldl_js_add_close [of 1 0 0 ?ws] assms by (simp add: choice_weight_foldl exact_weight_def)
  then show ?thesis by (rule close_mono) (simp_all add: exact_weight_nonneg [OF assms])
qed

definition total_weight :: "vote list \<Rightarrow> rat" where
  "total_weight vs = js_add (js_add (choice_weight YES vs) (choice_weight NO vs)) (choice_weight ABSTAIN vs)"

lemma total_weight_close:
  assumes "\<forall>v\<in>set vs. 0 \<le> vo_weight v"
  shows "close (3 + length vs) (total_weight vs) (exact_total vs)"
proof -
  note w = choice_weight_close [OF assms] and n = exact_weight_nonneg [OF assms]
  have "close (Suc (1 + length vs)) (js_add (choice_weight YES vs) (choice_weight NO vs)) (exact_weight YES vs + exact_weight NO vs)"
    unfolding js_add_def by (intro close_rnd close_add w) (simp_all add: n)
  moreover have "close (Suc (1 + length vs)) (choice_weight ABSTAIN vs) (exact_weight ABSTAIN vs)"
    by (rule close_mono [OF w]) (simp_all add: n)
  ultimately have "close (Suc (Suc (1 + length vs))) (total_weight vs) (exact_total vs)"
    unfolding total_weight_def exact_total_split js_add_def [of _ "choice_weight ABSTAIN vs"]
    by (intro close_rnd close_add) (simp_all add: n)
  then show ?thesis by (simp add: numeral_eq_Suc)
qed

text \<open>The share of a choice, before it is rounded to two decimals.\<close>

definition raw_share :: "vote list \<Rightarrow> rat" where
  "raw_share vs = js_mul (js_div (choice_weight YES vs) (total_weight vs)) 100"

lemma raw_share_close:
  assumes w: "\<forall>v\<in>set vs. 0 \<le> vo_weight v" and pos: "0 < exact_total vs" and n: "length vs \<le> 2 ^ 30"
  defines "x \<equiv> 100 * exact_weight YES vs / exact_total vs"
  shows "x * (1 - 1 / 2 ^ 21) \<le> raw_share vs" and "raw_share vs * (1 - 1 / 2 ^ 21) \<le> x" and "0 \<le> x" and "x \<le> 100"
proof -
  let ?k = "1 + length vs + (3 + length vs)"
  note y = exact_weight_nonneg [OF w, of YES]
  have "close ?k (choice_weight YES vs / total_weight vs) (exact_weight YES vs / exact_total vs)"
    by (rule close_div [OF choice_weight_close [OF w] total_weight_close [OF w] y pos])
  then have "close (Suc (Suc ?k)) (raw_share vs) (exact_weight YES vs / exact_total vs * 100)"
    unfolding raw_share_def js_mul_def js_div_def using y pos by (intro close_rnd close_scale) auto
  then have c: "close (Suc (Suc ?k)) (raw_share vs) x" by (simp add: x_def mult_ac)
  have "real (Suc (Suc ?k)) \<le> 2 ^ 32" using n by simp
  then have "(of_nat (Suc (Suc ?k)) :: rat) \<le> 2 ^ 32" using n by (simp flip: of_nat_le_iff)
  then have e: "of_nat (Suc (Suc ?k)) * unit_roundoff \<le> 1 / 2 ^ 21" by (simp add: unit_roundoff_eq)
  show x0: "0 \<le> x" using y pos by (simp add: x_def)
  from close_bounds [OF c x0 e] show "x * (1 - 1 / 2 ^ 21) \<le> raw_share vs" "raw_share vs * (1 - 1 / 2 ^ 21) \<le> x" .
  show "x \<le> 100" using exact_weight_le [OF w, of YES] pos by (simp add: x_def divide_le_eq)
qed

lemma is_dec_gap: "is_dec 2 a \<Longrightarrow> is_dec 2 b \<Longrightarrow> a < b \<Longrightarrow> a + 1 / 100 \<le> b"
proof -
  assume "is_dec 2 a" "is_dec 2 b" "a < b"
  then obtain m n where "a = of_int m / 100" "b = of_int n / 100" by (auto simp: is_dec_iff)
  with \<open>a < b\<close> have "of_int m < (of_int n :: rat)" by simp
  then have "of_int (m + 1) \<le> (of_int n :: rat)" unfolding of_int_less_iff of_int_le_iff by simp
  with \<open>a = _\<close> \<open>b = _\<close> show ?thesis by simp
qed

lemma parse_float_less_dec:
  assumes "is_dec 2 a" "is_dec 2 b" and "0 \<le> a" "a \<le> 100"
  shows "parse_float a < parse_float b \<longleftrightarrow> a < b"
proof
  assume "a < b"
  have b: "a + 1 / 100 \<le> b" by (rule is_dec_gap) fact+
  have "close 1 (rnd a) a" "close 1 (rnd b) b"
    using close_rnd [of 0 a a] close_rnd [of 0 b b] assms(3) b by (simp_all add: close_def)
  then have "rnd a * (1 - unit_roundoff) \<le> a" and "b * (1 - unit_roundoff) \<le> rnd b"
    by (auto simp: close_def)
  then show "parse_float a < parse_float b" using assms(3,4) b by (simp add: parse_float_def unit_roundoff_eq)
qed (meson not_le parse_float_mono)

lemma share_passes:
  assumes w: "\<forall>v\<in>set vs. 0 \<le> vo_weight v" and pos: "0 < exact_total vs" and n: "length vs \<le> 2 ^ 30"
    and t: "is_dec 2 t" "0 \<le> t" "t \<le> 100"
  defines "x \<equiv> 100 * exact_weight YES vs / exact_total vs"
    and "y \<equiv> share_percent (choice_weight YES vs) (total_weight vs)"
  shows "parse_float t < y \<Longrightarrow> t < x" and "t + 1 / 100 \<le> x \<Longrightarrow> parse_float t < y"
proof -
  let ?d = "to_fixed 2 (raw_share vs)"
  note r = raw_share_close [OF w pos n, folded x_def]
  have "0 < total_weight vs" by (rule close_pos [OF total_weight_close [OF w] pos])
  then have y: "y = parse_float ?d" by (simp add: y_def share_percent_def raw_share_def)
  have d: "\<bar>?d - raw_share vs\<bar> \<le> 1 / 200" using dec_round_error [of 2 "raw_share vs"] by (simp add: to_fixed_def)
  have less: "parse_float t < y \<longleftrightarrow> t < ?d" unfolding y by (rule parse_float_less_dec) (use t in simp_all)
  show "parse_float t < y \<Longrightarrow> t < x"
  proof -
    assume "parse_float t < y"
    with less have "t + 1 / 100 \<le> ?d" by (intro is_dec_gap) (use t in auto)
    with d have "t + 1 / 200 \<le> raw_share vs" by linarith
    then have "(t + 1 / 200) * (1 - 1 / 2 ^ 21) \<le> raw_share vs * (1 - 1 / 2 ^ 21)" by (intro mult_right_mono) auto
    with r(2) t show "t < x" by simp
  qed
  show "t + 1 / 100 \<le> x \<Longrightarrow> parse_float t < y"
  proof -
    assume "t + 1 / 100 \<le> x"
    then have "(t + 1 / 100) * (1 - 1 / 2 ^ 21) \<le> x * (1 - 1 / 2 ^ 21)" by (intro mult_right_mono) auto
    with r(1) have "(t + 1 / 100) * (1 - 1 / 2 ^ 21) \<le> raw_share vs" by linarith
    with t(2,3) have "t + 1 / 200 < raw_share vs" by simp
    with d have "t < ?d" by linarith
    with less show "parse_float t < y" by simp
  qed
qed

lemma quorum_close:
  fixes u n :: nat
  assumes q: "is_dec 2 q" "0 \<le> q" "q \<le> 100" and n: "0 < n" "n \<le> 2 ^ 30"
  defines "y \<equiv> js_mul (js_div (of_nat u) (of_nat n)) 100"
  shows "parse_float q \<le> y \<Longrightarrow> q * of_nat n \<le> 100 * of_nat u"
    and "q * of_nat n < 100 * of_nat u \<Longrightarrow> parse_float q \<le> y"
proof -
  let ?x = "100 * of_nat u / of_nat n :: rat"
  have "close 2 y (of_nat u / of_nat n * 100)"
    unfolding y_def js_mul_def js_div_def numeral_2_eq_2 by (intro close_rnd close_scale) simp_all
  then have c: "close 2 y ?x" by (simp add: mult_ac)
  have e: "of_nat 2 * unit_roundoff \<le> 1 / 2 ^ 50" by (simp add: unit_roundoff_eq)
  have x: "0 \<le> ?x" by simp
  note y = close_bounds [OF c x e]
  have cq: "close 1 (rnd q) q" using close_rnd [of 0 q q] q(2) by simp
  have "of_nat 1 * unit_roundoff \<le> 1 / 2 ^ 50" by (simp add: unit_roundoff_eq)
  note q' = close_bounds [OF cq q(2) this]
  have N: "(of_nat n :: rat) \<le> 2 ^ 30" using n(2) by (metis of_nat_le_iff of_nat_numeral of_nat_power)
  obtain m where m: "q = of_int m / 100" using q(1) by (auto simp: is_dec_iff)
  have gap: "1 / (100 * 2 ^ 30) \<le> 1 / (100 * (of_nat n :: rat))" using N n(1) by (intro divide_left_mono) auto
  show "parse_float q \<le> y \<Longrightarrow> q * of_nat n \<le> 100 * of_nat u"
  proof (rule ccontr)
    assume le: "parse_float q \<le> y" and no: "\<not> q * of_nat n \<le> 100 * of_nat u"
    then have "of_int (10000 * int u) < (of_int (m * int n) :: rat)" by (simp add: m)
    then have "of_int (10000 * int u + 1) \<le> (of_int (m * int n) :: rat)" unfolding of_int_less_iff of_int_le_iff by simp
    then have "?x + 1 / (100 * of_nat n) \<le> q" using n(1) by (simp add: m field_simps)
    with gap have "?x + 1 / (100 * 2 ^ 30) \<le> q" by linarith
    with le y(2) q'(1) q(2,3) show False by (simp add: parse_float_def)
  qed
  show "q * of_nat n < 100 * of_nat u \<Longrightarrow> parse_float q \<le> y"
  proof -
    assume "q * of_nat n < 100 * of_nat u"
    then have "of_int (m * int n) < (of_int (10000 * int u) :: rat)" by (simp add: m)
    then have "of_int (m * int n + 1) \<le> (of_int (10000 * int u) :: rat)" unfolding of_int_less_iff of_int_le_iff by simp
    then have "of_int (m * int n + 1) / (100 * of_nat n) \<le> (of_int (10000 * int u) / (100 * of_nat n) :: rat)"
      by (intro divide_right_mono) auto
    then have "q + 1 / (100 * of_nat n) \<le> ?x" using n(1) by (simp add: m add_divide_distrib)
    with gap have "q + 1 / (100 * 2 ^ 30) \<le> ?x" by linarith
    then have "(q + 1 / (100 * 2 ^ 30)) * (1 - 1 / 2 ^ 50) \<le> ?x * (1 - 1 / 2 ^ 50)" by (intro mult_right_mono) auto
    with y(1) q'(2) q(2,3) show "parse_float q \<le> y" by (simp add: parse_float_def)
  qed
qed

section \<open>Whole weights: the published results\<close>

definition whole_votes :: "vote list \<Rightarrow> bool" where
  "whole_votes vs \<longleftrightarrow> (\<forall>v\<in>set vs. 0 \<le> vo_weight v \<and> vo_weight v \<in> \<int>) \<and> exact_total vs < 2 ^ 53"

lemma whole_number:
  assumes "x \<in> \<int>" "0 \<le> x" "x < 2 ^ 53"
  shows "is_double x" "is_dec f x" "num_to_string x = x" "parse_float x = x"
proof -
  obtain n where n: "x = of_int n" using assms(1) by (auto simp: Ints_def)
  with assms have "(of_int n :: rat) < of_int (2 ^ 53)" "0 \<le> n" by auto
  then have b: "\<bar>n\<bar> < 2 ^ 53" unfolding of_int_less_iff by simp
  show d: "is_double x" unfolding n using b by (intro is_double_int) simp
  show "is_dec f x" by (simp add: n)
  show "num_to_string x = x" unfolding n by (rule num_to_string_int [OF b])
  show "parse_float x = x" using d by simp
qed

lemma foldl_js_add_exact:
  "a \<in> \<int> \<Longrightarrow> 0 \<le> a \<Longrightarrow> \<forall>w\<in>set ws. 0 \<le> w \<and> w \<in> \<int> \<Longrightarrow> a + sum_list ws < 2 ^ 53 \<Longrightarrow>
    foldl (\<lambda>sum w. js_add sum (parse_float w)) a ws = a + sum_list ws"
proof (induction ws arbitrary: a)
  case (Cons w ws)
  have s: "0 \<le> sum_list ws" using Cons.prems(3) by (intro sum_list_nonneg) auto
  have "parse_float w = w" by (rule whole_number) (use Cons.prems s in auto)
  moreover have "js_add a w = a + w" by (intro js_add_exact whole_number) (use Cons.prems s in auto)
  moreover have "foldl (\<lambda>sum w. js_add sum (parse_float w)) (a + w) ws = a + w + sum_list ws"
    by (rule Cons.IH) (use Cons.prems in auto)
  ultimately show ?case by (simp add: add.assoc)
qed simp

lemma sum_list_Ints: "\<forall>w\<in>set ws. w \<in> \<int> \<Longrightarrow> sum_list ws \<in> (\<int> :: rat set)"
  by (induction ws) auto

lemma whole_weight:
  assumes "whole_votes vs"
  shows "choice_weight c vs = exact_weight c vs" "exact_weight c vs \<in> \<int>" "0 \<le> exact_weight c vs" "exact_weight c vs < 2 ^ 53"
proof -
  have w: "\<forall>v\<in>set vs. 0 \<le> vo_weight v" using assms by (simp add: whole_votes_def)
  show "exact_weight c vs \<in> \<int>" unfolding exact_weight_def
    by (rule sum_list_Ints) (use assms in \<open>auto simp: whole_votes_def\<close>)
  show "0 \<le> exact_weight c vs" by (rule exact_weight_nonneg [OF w])
  show l: "exact_weight c vs < 2 ^ 53" using exact_weight_le [OF w, of c] assms by (simp add: whole_votes_def)
  show "choice_weight c vs = exact_weight c vs" unfolding choice_weight_foldl exact_weight_def
    by (subst foldl_js_add_exact) (use assms l in \<open>auto simp: whole_votes_def exact_weight_def\<close>)
qed

lemma whole_total:
  assumes v: "whole_votes vs"
  shows "total_weight vs = exact_total vs" "exact_total vs \<in> \<int>" "0 \<le> exact_total vs" "exact_total vs < 2 ^ 53"
proof -
  note w = whole_weight [OF v]
  show t: "exact_total vs \<in> \<int>" "0 \<le> exact_total vs" by (simp_all add: exact_total_split w)
  show l: "exact_total vs < 2 ^ 53" using v by (simp add: whole_votes_def)
  have "js_add (exact_weight YES vs) (exact_weight NO vs) = exact_weight YES vs + exact_weight NO vs"
    by (intro js_add_exact whole_number) (use l w [of YES] w [of NO] w(3) [of ABSTAIN] in \<open>auto simp: exact_total_split\<close>)
  moreover have "js_add (exact_weight YES vs + exact_weight NO vs) (exact_weight ABSTAIN vs) = exact_total vs"
    unfolding exact_total_split
    by (intro js_add_exact whole_number) (use l t in \<open>auto simp: exact_total_split w\<close>)
  ultimately show "total_weight vs = exact_total vs" by (simp add: total_weight_def w)
qed

lemma calculateResults_total: "calculateResults p vs n =
    \<lparr>vr_yesWeight = parse_float (to_fixed 8 (choice_weight YES vs)),
     vr_noWeight = parse_float (to_fixed 8 (choice_weight NO vs)),
     vr_abstainWeight = parse_float (to_fixed 8 (choice_weight ABSTAIN vs)),
     vr_totalWeight = parse_float (to_fixed 8 (total_weight vs)),
     vr_yesPercent = share_percent (choice_weight YES vs) (total_weight vs),
     vr_noPercent = share_percent (choice_weight NO vs) (total_weight vs),
     vr_abstainPercent = share_percent (choice_weight ABSTAIN vs) (total_weight vs),
     vr_quorumReached = quorum_reached p vs n (total_weight vs),
     vr_passing = (quorum_reached p vs n (total_weight vs) \<and>
       parse_float (p_passThresholdPercent p) < share_percent (choice_weight YES vs) (total_weight vs)),
     vr_totalVotes = length vs\<rparr>"
  by (simp add: calculateResults_def total_weight_def Let_def)

lemma stored_results_decided:
  assumes v: "whole_votes vs"
  shows "stored_results ((decided_row p (calculateResults p vs n))\<lparr>p_onChainTxHash := h\<rparr>) vs =
    (calculateResults p vs n)\<lparr>vr_quorumReached := vr_passing (calculateResults p vs n)\<rparr>"
proof -
  note w = whole_weight [OF v] and t = whole_total [OF v]
  have c: "parse_float (to_fixed 8 (exact_weight c vs)) = exact_weight c vs"
    "parse_float (pg_numeric 8 (num_to_string (exact_weight c vs))) = exact_weight c vs" for c
    using whole_number [OF w(2,3,4)] by simp_all
  have d: "parse_float (to_fixed 8 (exact_total vs)) = exact_total vs"
    "parse_float (pg_numeric 8 (num_to_string (exact_total vs))) = exact_total vs"
    using whole_number [OF t(2,3,4)] by simp_all
  show ?thesis
    by (simp add: stored_results_def decided_row_def calculateResults_total Let_def w(1) t(1) c d)
qed

lemma getProposalResults_decided:
  "find_proposal i t = Some q \<Longrightarrow> p_status q \<in> {PASSED, FAILED} \<Longrightarrow>
    getProposalResults i t = (Inr (p_status q, stored_results q (votes_of i t)), t)"
  by (auto simp: getProposalResults_def bindE_def gets_def from_option_def ret_def)

section \<open>Properties\<close>

abbreviation live_results :: "string \<Rightarrow> proposal \<Rightarrow> 'a dao_state_scheme \<Rightarrow> vote_results" where
  "live_results i p s \<equiv> calculateResults p (votes_of i s) (length (countEligibleVoters s))"

text \<open>C37. The job that closes votes reaches every expired open proposal, whatever the contract service answers: it
  returns, the proposal is passed exactly when the count at that moment passes it, and afterwards no
  open proposal is past its end.\<close>

theorem dao_expired_decided:
  fixes s :: dao_state
  assumes "dao_ids E s" and "find_proposal i s = Some p" and "p_status p = ACTIVE" and "p_votingEndAt p < now"
  shows "\<exists>t q. finalizeExpiredProposals E' now s = (Inr (), t) \<and> find_proposal i t = Some q \<and>
    p_status q = (if vr_passing (live_results i p s) then PASSED else FAILED) \<and>
    expiredProposals now t = []"
proof -
  have d: "distinct (map fst (proposals s))" using assms(1) by (auto simp: dao_ids_def distinct_map inj_on_def inj_def)
  from finalize_job [OF d, of E' now] obtain t where
    t: "finalizeExpiredProposals E' now s = (Inr (), t)" "map fst (proposals t) = map fst (proposals s)"
    and j: "\<And>i p. find_proposal i s = Some p \<Longrightarrow> job_row now s i p (find_proposal i t)" by blast
  from j [OF assms(2)] assms(3,4) obtain q where q: "find_proposal i t = Some q"
      "p_status q = (if vr_passing (live_results i p s) then PASSED else FAILED)"
    by (auto simp: job_row_def expired_def decided_row_def Let_def)
  have "\<not> (p_status q' = ACTIVE \<and> p_votingEndAt q' < now)" if "(k, q') \<in> set (proposals t)" for k q'
  proof -
    from that d t(2) have k: "find_proposal k t = Some q'" by (simp add: find_proposal_def tbl_distinct_in)
    then have "tbl_find k (proposals s) \<noteq> None" using t(2) tbl_find_None_keys [of k "proposals s"]
        tbl_find_None_keys [of k "proposals t"] by (simp add: find_proposal_def)
    then obtain p' where "find_proposal k s = Some p'" by (auto simp: find_proposal_def)
    from j [OF this] k show ?thesis by (auto simp: job_row_def expired_def decided_row_def Let_def split: if_splits)
  qed
  then have "expiredProposals now t = []" by (auto simp: expiredProposals_def filter_empty_conv)
  with t(1) q show ?thesis by blast
qed

text \<open>A decided proposal is never touched again: after any further requests, votes, jobs and changes of balances
  its row, its votes and, when it passed or failed, its published results are the same.\<close>

theorem dao_decision_final:
  assumes "dao_ids E s" and "find_proposal i s = Some p" and "p_status p \<noteq> ACTIVE"
  shows "find_proposal i (fold (dao_step E) es s) = Some p \<and> votes_of i (fold (dao_step E) es s) = votes_of i s \<and>
    (p_status p \<noteq> CANCELLED \<longrightarrow>
      fst (getProposalResults i (fold (dao_step E) es s)) = fst (getProposalResults i s))"
proof -
  from assms have "settled_as E i p (votes_of i s) s" by (simp add: settled_as_def)
  then have t: "find_proposal i (fold (dao_step E) es s) = Some p" "votes_of i (fold (dao_step E) es s) = votes_of i s"
    using dao_settled.inv_run [of E i p "votes_of i s" s es] by (simp_all add: settled_as_def)
  have "p_status p \<noteq> CANCELLED \<Longrightarrow> p_status p = PASSED \<or> p_status p = FAILED"
    using assms(3) by (cases "p_status p") auto
  with t assms(2) show ?thesis by (auto simp: getProposalResults_def bindE_def gets_def from_option_def ret_def)
qed

text \<open>One ballot for each voter, in time: in every state the operations reach, the ballots of a proposal
  come from different voters and none is later than its end, so the turnout that the quorum
  counts is the number of ballots.\<close>

theorem dao_one_ballot:
  assumes "dao_ids E s" and "ballots_ok s"
  shows "\<forall>i. length (remdups (map vo_voterId (votes_of i (fold (dao_step E) es s)))) = length (votes_of i (fold (dao_step E) es s)) \<and>
    (\<forall>v\<in>set (votes_of i (fold (dao_step E) es s)).
       \<exists>p. find_proposal i (fold (dao_step E) es s) = Some p \<and> vo_castAt v \<le> p_votingEndAt p)"
proof
  fix i
  let ?t = "fold (dao_step E) es s"
  have b: "ballots_ok ?t" using dao_ballots.inv_run [of E s es] assms by simp
  then have "distinct (map vo_voterId (votes_of i ?t))" "\<forall>v\<in>set (votes_of i ?t). vote_ok ?t v" by (auto simp: ballots_ok_def)
  moreover have "vo_proposalId v = i" if "v \<in> set (votes_of i ?t)" for v using that by (auto simp: votes_of_def)
  ultimately show "length (remdups (map vo_voterId (votes_of i ?t))) = length (votes_of i ?t) \<and>
    (\<forall>v\<in>set (votes_of i ?t). \<exists>p. find_proposal i ?t = Some p \<and> vo_castAt v \<le> p_votingEndAt p)"
    by (auto simp: vote_ok_def distinct_remdups_id)
qed

text \<open>C20. The count against exact arithmetic: a proposal that passes has its quorum, and its exact share of
  yes votes is above the threshold; conversely a turnout above the quorum and a share of at least the threshold and
  a hundredth of a percent pass it. Up to \<open>2 ^ 30\<close> votes no rounding of the sums changes this.\<close>

theorem dao_passing_exact:
  assumes "\<forall>v\<in>set vs. 0 \<le> vo_weight v" and "0 < exact_total vs" and "length vs \<le> 2 ^ 30"
    and "is_dec 2 (p_passThresholdPercent p)" "0 \<le> p_passThresholdPercent p" "p_passThresholdPercent p \<le> 100"
    and "is_dec 2 (p_quorumPercent p)" "0 \<le> p_quorumPercent p" "p_quorumPercent p \<le> 100"
    and "0 < n" "n \<le> 2 ^ 30"
  defines "voters \<equiv> card (vo_voterId ` set vs)" and "share \<equiv> 100 * exact_weight YES vs / exact_total vs"
  shows "(vr_passing (calculateResults p vs n) \<longrightarrow>
      p_quorumPercent p * of_nat n \<le> 100 * of_nat voters \<and> p_passThresholdPercent p < share) \<and>
    (p_quorumPercent p * of_nat n < 100 * of_nat voters \<and> p_passThresholdPercent p + 1 / 100 \<le> share \<longrightarrow>
      vr_passing (calculateResults p vs n))"
proof -
  have v: "length (remdups (map vo_voterId vs)) = voters" by (simp add: voters_def length_remdups_card_conv)
  note s = share_passes [OF assms(1-3) assms(4-6), folded share_def]
    and q = quorum_close [OF assms(7-11), of voters]
  show ?thesis using assms(10) s q by (auto simp: calculateResults_total quorum_reached_def v)
qed

text \<open>C38. The two ways to compute results agree: for whole weights the results published from the stored totals
  of a decided proposal are the ones counted live before the decision, except that the quorum is
  reported as reached only if the proposal passed.\<close>

theorem dao_results_agree:
  fixes s :: dao_state
  assumes "dao_ids E s" and "find_proposal i s = Some p" and "p_status p = ACTIVE" and "p_votingEndAt p < now"
    and "whole_votes (votes_of i s)"
  shows "\<exists>t st. finalizeExpiredProposals E' now s = (Inr (), t) \<and>
    getProposalResults i s = (Inr (ACTIVE, live_results i p s), s) \<and>
    getProposalResults i t = (Inr (st, (live_results i p s)\<lparr>vr_quorumReached := vr_passing (live_results i p s)\<rparr>), t)"
proof -
  have d: "distinct (map fst (proposals s))" using assms(1) by (auto simp: dao_ids_def distinct_map inj_on_def inj_def)
  from finalize_job [OF d, of E' now] obtain t where
    t: "finalizeExpiredProposals E' now s = (Inr (), t)" "votes t = votes s"
    and j: "job_row now s i p (find_proposal i t)" using assms(2) by blast
  from j assms(3,4) obtain h where q: "find_proposal i t = Some ((decided_row p (live_results i p s))\<lparr>p_onChainTxHash := h\<rparr>)"
    by (auto simp: job_row_def expired_def)
  have v: "votes_of i t = votes_of i s" using t(2) by (simp add: votes_of_def)
  have "p_status ((decided_row p (live_results i p s))\<lparr>p_onChainTxHash := h\<rparr>) \<in> {PASSED, FAILED}"
    by (simp add: decided_row_def Let_def)
  from getProposalResults_decided [OF q this]
  have "getProposalResults i t = (Inr (p_status ((decided_row p (live_results i p s))\<lparr>p_onChainTxHash := h\<rparr>),
      (live_results i p s)\<lparr>vr_quorumReached := vr_passing (live_results i p s)\<rparr>), t)"
    by (simp only: v stored_results_decided [OF assms(5)])
  moreover have "getProposalResults i s = (Inr (ACTIVE, live_results i p s), s)"
    using assms(2,3) by (simp add: getProposalResults_def bindE_def gets_def from_option_def ret_def)
  ultimately show ?thesis using t(1) by blast
qed

text \<open>Governance cannot be used over HTTP: the token check gives requests a user without the property the
  handlers read, so every request to propose or to vote fails and changes nothing; and even a direct call records no
  vote on a contract upgrade.\<close>

theorem dao_requests_fail:
  shows "(\<exists>e. http_createProposal E now a dto s = (Inl e, s)) \<and> (\<exists>e. http_castVote E now a i c s = (Inl e, s)) \<and>
    (find_proposal i s = Some p \<and> p_proposalType p = CONTRACT_UPGRADE \<longrightarrow> (\<exists>e. castVote E now i w u c s = (Inl e, s)))"
proof -
  obtain r t where 1: "http_createProposal E now a dto s = (r, t)" by fastforce
  obtain r' t' where 2: "http_castVote E now a i c s = (r', t')" by fastforce
  obtain r3 t3 where 3: "castVote E now i w u c s = (r3, t3)" by fastforce
  have "find_proposal i s = Some p \<and> p_proposalType p = CONTRACT_UPGRADE \<Longrightarrow> (\<exists>e. r3 = Inl e) \<and> t3 = s"
    using 3 by (cases r3) (auto simp: castVote_def op_iff Let_def stakeTier_def split: if_splits)
  with http_effect(1) [OF 1] http_effect(2) [OF 2] 1 2 3 show ?thesis by auto
qed

text \<open>The quorum at its boundary: 29 of 100 users do not reach a quorum of 29 percent.\<close>

lemma quorum_boundary_missed: "\<not> parse_float 29 \<le> js_mul (js_div 29 100) 100"
  by code_simp

section \<open>Concrete runs\<close>

definition demo_dao_env :: dao_env where
  "demo_dao_env = \<lparr>de_uuid = \<lambda>n. replicate n CHR ''x'', de_sorobanRpcUrl = None, de_contractId = None, de_horizonUrl = None,
     de_network = None, de_hotWalletSecret = None, de_passphrase = (\<lambda>_. None), de_clients_fail = None,
     de_getNetwork = (\<lambda>_. False), de_sendTransaction = (\<lambda>_ _. None)\<rparr>"

definition demo_proposal :: proposal where
  "demo_proposal = (proposal_row ''root'' \<lparr>pd_title = ''T'', pd_description = ''D'', pd_votingStartAt = 0, pd_votingEndAt = 10,
     pd_quorumPercent = 50, pd_passThresholdPercent = 66, pd_stellarContractId = Some ''C'',
     pd_proposalType = None, pd_upgradeConfig = None\<rparr>)"

definition demo_ballot :: "string \<Rightarrow> vote_choice \<Rightarrow> rat \<Rightarrow> vote" where
  "demo_ballot w c x = \<lparr>vo_proposalId = [], vo_voterId = w, vo_choice = c, vo_weight = x, vo_castAt = 5\<rparr>"

definition demo_dao :: "proposal \<Rightarrow> dao_state" where
  "demo_dao p = \<lparr>users = [(''bob'', demo_user 500), (''eve'', demo_user 100)], wallets = [], notifications = [],
     proposals = [([], p)], votes = [([], demo_ballot ''bob'' YES 500), (''x'', demo_ballot ''eve'' NO 100)],
     distributions = [], rpc_calls = 0, contract_calls = []\<rparr>"

lemma demo_dao_ids: "dao_ids demo_dao_env (demo_dao p)"
proof -
  have "inj (\<lambda>n. replicate n CHR ''x'')" unfolding inj_def by (metis length_replicate)
  then show ?thesis by (simp add: dao_ids_def demo_dao_def demo_dao_env_def)
qed

lemma demo_dao_find: "find_proposal [] (demo_dao p) = Some p"
  "votes_of [] (demo_dao p) = [demo_ballot ''bob'' YES 500, demo_ballot ''eve'' NO 100]"
  "votes_of i (demo_dao p) = (if i = [] then [demo_ballot ''bob'' YES 500, demo_ballot ''eve'' NO 100] else [])"
  "length (countEligibleVoters (demo_dao p)) = 2"
  by (simp_all add: find_proposal_def tbl_find_def demo_dao_def votes_of_def demo_ballot_def countEligibleVoters_def demo_user_def)

lemma demo_proposal_fields: "p_status demo_proposal = ACTIVE" "p_votingEndAt demo_proposal = 10"
  "p_passThresholdPercent demo_proposal = 66" "p_quorumPercent demo_proposal = 50"
  by (simp_all add: demo_proposal_def proposal_row_def)

lemma demo_whole: "whole_votes [demo_ballot ''bob'' YES 500, demo_ballot ''eve'' NO 100]"
  by (simp add: whole_votes_def demo_ballot_def exact_total_def)

theorem dao_expired_decided_witness:
  "\<exists>t q. finalizeExpiredProposals demo_dao_env 11 (demo_dao demo_proposal) = (Inr (), t) \<and> find_proposal [] t = Some q \<and>
     p_status q \<noteq> ACTIVE"
  using dao_expired_decided [OF demo_dao_ids demo_dao_find(1), of demo_proposal 11 demo_dao_env]
  by (auto simp: demo_proposal_fields split: if_splits)

theorem dao_decision_final_witness:
  "find_proposal [] (fold (dao_step demo_dao_env) [CancelProposal [], FinalizeJob 100, Vote 7 [] ''zoe'' (Some (demo_user 9)) YES]
     (demo_dao (demo_proposal\<lparr>p_status := FAILED\<rparr>))) = Some (demo_proposal\<lparr>p_status := FAILED\<rparr>)"
  using dao_decision_final [OF demo_dao_ids demo_dao_find(1), of "demo_proposal\<lparr>p_status := FAILED\<rparr>"
      "[CancelProposal [], FinalizeJob 100, Vote 7 [] ''zoe'' (Some (demo_user 9)) YES]"]
  by simp

theorem dao_one_ballot_witness:
  "length (votes_of [] (fold (dao_step demo_dao_env) [Vote 7 [] ''bob'' (Some (demo_user 9)) YES] (demo_dao demo_proposal))) =
     length (remdups (map vo_voterId (votes_of [] (fold (dao_step demo_dao_env) [Vote 7 [] ''bob'' (Some (demo_user 9)) YES] (demo_dao demo_proposal)))))"
proof -
  have "ballots_ok (demo_dao demo_proposal)"
    by (auto simp: ballots_ok_def demo_dao_find vote_ok_def demo_ballot_def demo_proposal_fields)
  from dao_one_ballot [OF demo_dao_ids this] show ?thesis by metis
qed

theorem dao_passing_exact_witness:
  "vr_passing (calculateResults demo_proposal [demo_ballot ''bob'' YES 500, demo_ballot ''eve'' NO 100] 3)"
  using dao_passing_exact [of "[demo_ballot ''bob'' YES 500, demo_ballot ''eve'' NO 100]" demo_proposal 3]
  by (simp add: demo_proposal_fields demo_ballot_def exact_total_def exact_weight_def)

theorem dao_results_agree_witness:
  "\<exists>t st. finalizeExpiredProposals demo_dao_env 11 (demo_dao demo_proposal) = (Inr (), t) \<and>
    (\<exists>r. getProposalResults [] (demo_dao demo_proposal) = (Inr (ACTIVE, r), demo_dao demo_proposal) \<and>
      getProposalResults [] t = (Inr (st, r\<lparr>vr_quorumReached := vr_passing r\<rparr>), t))"
proof -
  have "whole_votes (votes_of [] (demo_dao demo_proposal))" by (simp add: demo_dao_find demo_whole)
  from dao_results_agree [OF demo_dao_ids demo_dao_find(1) _ _ this, of 11 demo_dao_env] show ?thesis
    by (auto simp: demo_proposal_fields)
qed

theorem dao_requests_fail_witness:
  "\<exists>e. castVote demo_dao_env 5 [] ''zoe'' (Some (demo_user 9)) YES
      (demo_dao (demo_proposal\<lparr>p_proposalType := CONTRACT_UPGRADE\<rparr>)) =
    (Inl e, demo_dao (demo_proposal\<lparr>p_proposalType := CONTRACT_UPGRADE\<rparr>))"
  using dao_requests_fail [where E = demo_dao_env and now = 5 and i = "[]" and w = "''zoe''" and u = "Some (demo_user 9)" and c = YES
      and s = "demo_dao (demo_proposal\<lparr>p_proposalType := CONTRACT_UPGRADE\<rparr>)" and p = "demo_proposal\<lparr>p_proposalType := CONTRACT_UPGRADE\<rparr>"]
    demo_dao_find(1) [of "demo_proposal\<lparr>p_proposalType := CONTRACT_UPGRADE\<rparr>"] by simp

end
