(* ===== verification/Disputes.thy ===== *)
theory Disputes
  imports Ledger JsDate
begin

text \<open>
  Disputes about transactions (\<open>disputes/disputes.service.ts\<close> and its entities). The rows of the table of
  transactions with the type CHARGEBACK, which the enumeration of the source does not list, are kept in a table of
  their own with the metadata the service writes; \<open>tx_type_enum\<close> are the values the column accepts
  (\<open>transactions/entities/transaction.entity.ts\<close>, extended by the migrations), a parameter of the operations, so
  that both a database as the source declares it and one extended by hand can be considered. Lists and statistics
  only read and are left out, and a notification that cannot be stored is ignored as in the source.
\<close>

section \<open>Data\<close>

datatype dispute_reason = UNAUTHORIZED | DUPLICATE | GOODS_NOT_RECEIVED | INCORRECT_AMOUNT | OTHER

datatype dispute_status = D_OPEN | UNDER_REVIEW | RESOLVED_VALID | RESOLVED_CHARGEBACK | D_CLOSED

datatype evidence_side = CLAIMANT | RESPONDENT | SIDE_ADMIN

datatype dispute_outcome = VALID | CHARGEBACK

record dispute =
  dp_transactionId :: string
  dp_raisedById :: string
  dp_reason :: dispute_reason
  dp_description :: string
  dp_status :: dispute_status
  dp_assignedAdminId :: "string option"
  dp_resolution :: "string option"
  dp_disputeWindowExpiry :: int
  dp_createdAt :: int
  dp_resolvedAt :: "int option"
  dp_slaDeadline :: "int option"
  dp_isSlaBreached :: bool
  dp_slaBreachedAt :: "int option"
  dp_escalationLevel :: nat

record dispute_evidence =
  ev_disputeId :: string
  ev_submittedById :: string
  ev_side :: evidence_side
  ev_description :: string
  ev_attachmentKeys :: "string list"
  ev_released :: bool

record chargeback =
  cb_userId :: string
  cb_amount :: rat
  cb_currency :: string
  cb_status :: tx_status
  cb_originalTransactionId :: string
  cb_disputeId :: string
  cb_resolvedByAdminId :: string
  cb_pendingFunds :: bool

record dispute_state = books +
  disputes :: "dispute table"
  evidence :: "dispute_evidence table"
  chargebacks :: "chargeback table"

record dispute_env =
  dv_uuid :: "nat \<Rightarrow> string"
  dv_tx_type_enum :: "string list"

definition source_tx_types :: "string list" where
  "source_tx_types = [''DEPOSIT'', ''WITHDRAW'', ''SWAP'', ''LOAN_DISBURSEMENT'', ''LOAN_REPAYMENT'']"

definition DISPUTE_WINDOW_DAYS :: int where
  "DISPUTE_WINDOW_DAYS = 30"

definition SLA_DISPUTE_BUSINESS_DAYS :: int where
  "SLA_DISPUTE_BUSINESS_DAYS = 5"

definition ms_per_hour :: int where
  "ms_per_hour = 3600000"

definition find_dispute :: "string \<Rightarrow> 'a dispute_state_scheme \<Rightarrow> dispute option" where
  "find_dispute i s = tbl_find i (disputes s)"

definition save_dispute :: "string \<Rightarrow> dispute \<Rightarrow> 'a dispute_state_scheme \<Rightarrow> 'a dispute_state_scheme" where
  "save_dispute i d s = s\<lparr>disputes := tbl_save i d (disputes s)\<rparr>"

definition dispute_of_tx :: "string \<Rightarrow> 'a dispute_state_scheme \<Rightarrow> (string \<times> dispute) option" where
  "dispute_of_tx transactionId s = List.find (\<lambda>(i, d). dp_transactionId d = transactionId) (disputes s)"

definition resolved :: "dispute_status \<Rightarrow> bool" where
  "resolved st \<longleftrightarrow> st = RESOLVED_VALID \<or> st = RESOLVED_CHARGEBACK \<or> st = D_CLOSED"

section \<open>Requests of users\<close>

definition createDispute ::
    "dispute_env \<Rightarrow> int \<Rightarrow> string \<Rightarrow> string \<Rightarrow> dispute_reason \<Rightarrow> string \<Rightarrow> ('a dispute_state_scheme, string \<times> dispute) op" where
  "createDispute E now userId transactionId reason description =
     bindE (gets (\<lambda>s. tbl_find transactionId (transactions s))) (\<lambda>found.
     bindE (from_option (NotFoundException ''Transaction not found'') found) (\<lambda>t.
     bindE (require (t_userId t = userId) (ForbiddenException ''You can only dispute your own transactions'')) (\<lambda>_.
     bindE (require (t_status t \<noteq> PENDING)
       (UnprocessableEntityException ''Cannot dispute a PENDING transaction. Wait for it to complete first.'')) (\<lambda>_.
     bindE (require (t_status t = SUCCESS)
       (UnprocessableEntityException ''Only COMPLETED transactions can be disputed. Current status: ${transaction.status}'')) (\<lambda>_.
     let daysElapsed = (now - t_createdAt t) div ms_per_day in
     bindE (require (daysElapsed \<le> DISPUTE_WINDOW_DAYS)
       (UnprocessableEntityException ''Dispute window expired. The transaction is ${daysElapsed} day(s) old (limit: 30 days).'')) (\<lambda>_.
     bindE (gets (dispute_of_tx transactionId)) (\<lambda>existing.
     bindE (require (existing = None) (ConflictException ''A dispute already exists for this transaction'')) (\<lambda>_.
     bindE (gets (\<lambda>s. dv_uuid E (length (disputes s)))) (\<lambda>i.
     let d = \<lparr>dp_transactionId = transactionId, dp_raisedById = userId, dp_reason = reason,
           dp_description = description, dp_status = D_OPEN, dp_assignedAdminId = None, dp_resolution = None,
           dp_disputeWindowExpiry = t_createdAt t + DISPUTE_WINDOW_DAYS * ms_per_day, dp_createdAt = now,
           dp_resolvedAt = None, dp_slaDeadline = Some (now + SLA_DISPUTE_BUSINESS_DAYS * ms_per_day),
           dp_isSlaBreached = False, dp_slaBreachedAt = None, dp_escalationLevel = 0\<rparr>
     in bindE (modify (save_dispute i d)) (\<lambda>_. ret (i, d)))))))))))"

definition evidence_of :: "string \<Rightarrow> 'a dispute_state_scheme \<Rightarrow> dispute_evidence list" where
  "evidence_of i s = filter (\<lambda>e. ev_disputeId e = i) (map snd (evidence s))"

definition getDisputeForUser :: "string \<Rightarrow> string \<Rightarrow> ('a dispute_state_scheme, dispute \<times> dispute_evidence list) op" where
  "getDisputeForUser disputeId userId =
     bindE (gets (find_dispute disputeId)) (\<lambda>found.
     bindE (from_option (NotFoundException ''Dispute not found'') found) (\<lambda>d.
     bindE (require (dp_raisedById d = userId) (ForbiddenException ''You do not have access to this dispute'')) (\<lambda>_.
     bindE (gets (evidence_of disputeId)) (\<lambda>es.
     ret (d, filter (\<lambda>e. ev_side e \<noteq> RESPONDENT \<or> ev_released e) es)))))"

definition save_evidence :: "dispute_env \<Rightarrow> dispute_evidence \<Rightarrow> ('a dispute_state_scheme, string \<times> dispute_evidence) op" where
  "save_evidence E e =
     bindE (gets (\<lambda>s. dv_uuid E (length (evidence s)))) (\<lambda>i.
     bindE (modify (\<lambda>s. s\<lparr>evidence := tbl_save i e (evidence s)\<rparr>)) (\<lambda>_. ret (i, e)))"

definition addEvidence ::
    "dispute_env \<Rightarrow> string \<Rightarrow> string \<Rightarrow> evidence_side \<Rightarrow> string \<Rightarrow> string list \<Rightarrow>
      ('a dispute_state_scheme, string \<times> dispute_evidence) op" where
  "addEvidence E disputeId userId side description attachmentKeys =
     bindE (gets (find_dispute disputeId)) (\<lambda>found.
     bindE (from_option (NotFoundException ''Dispute not found'') found) (\<lambda>d.
     bindE (require (dp_status d = D_OPEN \<or> dp_status d = UNDER_REVIEW)
       (BadRequestException ''Evidence can only be submitted while the dispute is OPEN or UNDER_REVIEW.'')) (\<lambda>_.
     bindE (gets (\<lambda>s. tbl_find (dp_transactionId d) (transactions s))) (\<lambda>t.
     let owner = map_option t_userId t;
         respondentId = (if owner = Some (dp_raisedById d) then None else owner);
         isClaimant = (userId = dp_raisedById d);
         isRespondent = (truthy respondentId \<and> Some userId = respondentId)
     in
     bindE (require (\<not> (side = CLAIMANT \<and> \<not> isClaimant))
       (ForbiddenException ''Only the claimant can submit CLAIMANT-side evidence'')) (\<lambda>_.
     bindE (require (\<not> (side = RESPONDENT \<and> \<not> isRespondent \<and> \<not> isClaimant))
       (ForbiddenException ''You are not a party to this dispute'')) (\<lambda>_.
     bindE (require (side \<noteq> SIDE_ADMIN)
       (ForbiddenException ''ADMIN-side evidence must be submitted by an admin'')) (\<lambda>_.
     save_evidence E \<lparr>ev_disputeId = disputeId, ev_submittedById = userId, ev_side = side,
       ev_description = description, ev_attachmentKeys = attachmentKeys, ev_released = False\<rparr>)))))))"

section \<open>Requests of administrators\<close>

definition assignDispute :: "string \<Rightarrow> string \<Rightarrow> ('a dispute_state_scheme, dispute) op" where
  "assignDispute disputeId adminId =
     bindE (gets (find_dispute disputeId)) (\<lambda>found.
     bindE (from_option (NotFoundException ''Dispute not found'') found) (\<lambda>d.
     bindE (gets (findById adminId)) (\<lambda>admin.
     bindE (require (admin \<noteq> None) (NotFoundException ''Admin user not found'')) (\<lambda>_.
     let saved = d\<lparr>dp_assignedAdminId := Some adminId,
           dp_status := (if dp_status d = D_OPEN then UNDER_REVIEW else dp_status d)\<rparr>
     in bindE (modify (save_dispute disputeId saved)) (\<lambda>_. ret saved)))))"

definition addAdminEvidence ::
    "dispute_env \<Rightarrow> string \<Rightarrow> string \<Rightarrow> string \<Rightarrow> string list \<Rightarrow> ('a dispute_state_scheme, string \<times> dispute_evidence) op" where
  "addAdminEvidence E disputeId adminId description attachmentKeys =
     bindE (gets (find_dispute disputeId)) (\<lambda>found.
     bindE (require (found \<noteq> None) (NotFoundException ''Dispute not found'')) (\<lambda>_.
     save_evidence E \<lparr>ev_disputeId = disputeId, ev_submittedById = adminId, ev_side = SIDE_ADMIN,
       ev_description = description, ev_attachmentKeys = attachmentKeys, ev_released = True\<rparr>))"

definition releaseRespondentEvidence :: "string \<Rightarrow> ('a dispute_state_scheme, unit) op" where
  "releaseRespondentEvidence disputeId = modify (\<lambda>s. s\<lparr>evidence :=
     map (\<lambda>(i, e). (i, if ev_disputeId e = disputeId \<and> ev_side e = RESPONDENT then e\<lparr>ev_released := True\<rparr> else e)) (evidence s)\<rparr>)"

subsection \<open>Chargebacks\<close>

definition save_user :: "string \<Rightarrow> user \<Rightarrow> 'a base_scheme \<Rightarrow> 'a base_scheme" where
  "save_user i u s = s\<lparr>users := tbl_save i u (users s)\<rparr>"

text \<open>The two entries of the ledger and the two balances. Both users are read before either is saved, each into an object
  of its own.\<close>

definition chargeback_transfer ::
    "string \<Rightarrow> string \<Rightarrow> string \<Rightarrow> user \<Rightarrow> rat \<Rightarrow> string \<Rightarrow> ('a dispute_state_scheme, unit) op" where
  "chargeback_transfer cbId claimantId respondentId respondent amount currency =
     bindE (modify (\<lambda>s. s\<lparr>ledger := ledger s @ [entry cbId ACC_USER DEBIT (to_fixed 8 amount) currency]\<rparr>)) (\<lambda>_.
     bindE (modify (\<lambda>s. s\<lparr>ledger := ledger s @ [entry cbId ACC_USER CREDIT (to_fixed 8 amount) currency]\<rparr>)) (\<lambda>_.
     bindE (gets (findById claimantId)) (\<lambda>found.
     bindE (from_option (NotFoundException ''Claimant user not found'') found) (\<lambda>claimant.
     let respondent' = respondent\<lparr>u_balances :=
           set_balance currency (js_sub (balance_of respondent currency) amount) (u_balances respondent)\<rparr>;
         claimant' = claimant\<lparr>u_balances :=
           set_balance currency (js_add (balance_of claimant currency) amount) (u_balances claimant)\<rparr>
     in
     bindE (modify (save_user respondentId respondent')) (\<lambda>_.
     modify (save_user claimantId claimant'))))))"

definition chargeback_body :: "dispute_env \<Rightarrow> string \<Rightarrow> dispute \<Rightarrow> transaction \<Rightarrow> string \<Rightarrow> ('a dispute_state_scheme, unit) op" where
  "chargeback_body E disputeId d t adminId =
     (let claimantId = dp_raisedById d;
          respondentId = t_userId t;
          amount = parse_float (t_amount t);
          currency = t_currency t
      in
      bindE (gets (findById respondentId)) (\<lambda>found.
      bindE (from_option (NotFoundException ''Respondent user not found'') found) (\<lambda>respondent.
      let hasSufficientFunds = (amount \<le> balance_of respondent currency) in
      bindE (require (''CHARGEBACK'' \<in> set (dv_tx_type_enum E))
        (PlainError ''invalid input value for enum transactions_type_enum: CHARGEBACK'')) (\<lambda>_.
      bindE (gets (\<lambda>s. dv_uuid E (length (transactions s) + length (chargebacks s)))) (\<lambda>cbId.
      bindE (modify (\<lambda>s. s\<lparr>chargebacks := tbl_save cbId
        \<lparr>cb_userId = respondentId, cb_amount = to_fixed 8 amount, cb_currency = currency,
         cb_status = (if hasSufficientFunds then SUCCESS else PENDING),
         cb_originalTransactionId = dp_transactionId d, cb_disputeId = disputeId,
         cb_resolvedByAdminId = adminId, cb_pendingFunds = (\<not> hasSufficientFunds)\<rparr> (chargebacks s)\<rparr>)) (\<lambda>_.
      if hasSufficientFunds then chargeback_transfer cbId claimantId respondentId respondent amount currency
      else ret ()))))))"

definition chargeback_rollback :: "'a dispute_state_scheme \<Rightarrow> 'a dispute_state_scheme \<Rightarrow> 'a dispute_state_scheme" where
  "chargeback_rollback s t = t\<lparr>users := users s, ledger := ledger s, chargebacks := chargebacks s\<rparr>"

definition processChargeback :: "dispute_env \<Rightarrow> string \<Rightarrow> dispute \<Rightarrow> transaction \<Rightarrow> string \<Rightarrow> ('a dispute_state_scheme, unit) op" where
  "processChargeback E disputeId d t adminId =
     tryE (transactionE chargeback_rollback (chargeback_body E disputeId d t adminId))
       (\<lambda>err. throw (BadRequestException ''Chargeback failed: ${msg}''))"

definition notifyResolution :: "dispute \<Rightarrow> transaction \<Rightarrow> ('a dispute_state_scheme, unit) op" where
  "notifyResolution d t =
     bindE (modify (notify (dp_raisedById d) ''Dispute Resolved'' ''Your dispute has been ${outcomeLabel}.'')) (\<lambda>_.
     if t_userId t \<noteq> [] \<and> t_userId t \<noteq> dp_raisedById d
     then modify (notify (t_userId t) ''Dispute Resolved'' ''A dispute you are party to has been ${outcomeLabel}.'')
     else ret ())"

definition resolveDispute ::
    "dispute_env \<Rightarrow> int \<Rightarrow> string \<Rightarrow> string \<Rightarrow> dispute_outcome \<Rightarrow> string \<Rightarrow> ('a dispute_state_scheme, dispute) op" where
  "resolveDispute E now disputeId adminId outcome resolution =
     bindE (gets (find_dispute disputeId)) (\<lambda>found.
     bindE (from_option (NotFoundException ''Dispute not found'') found) (\<lambda>d.
     bindE (require (\<not> resolved (dp_status d))
       (BadRequestException ''Dispute is already resolved (status: ${dispute.status})'')) (\<lambda>_.
     bindE (gets (\<lambda>s. tbl_find (dp_transactionId d) (transactions s))) (\<lambda>tx.
     bindE (from_option (NotFoundException ''Original transaction not found'') tx) (\<lambda>t.
     bindE (if outcome = VALID then ret () else processChargeback E disputeId d t adminId) (\<lambda>_.
     let saved = d\<lparr>dp_status := (if outcome = VALID then RESOLVED_VALID else RESOLVED_CHARGEBACK),
           dp_resolution := Some resolution, dp_resolvedAt := Some now, dp_assignedAdminId := Some adminId\<rparr>
     in bindE (modify (save_dispute disputeId saved)) (\<lambda>_.
        bindE (notifyResolution saved t) (\<lambda>_. ret saved))))))))"

section \<open>The deadline job\<close>

definition active_with_role :: "user_role \<Rightarrow> 'a base_scheme \<Rightarrow> (string \<times> user) list" where
  "active_with_role r s = filter (\<lambda>(i, u). u_role u = r \<and> u_isActive u) (users s)"

definition breached :: "int \<Rightarrow> dispute \<Rightarrow> bool" where
  "breached now d \<longleftrightarrow> (dp_status d = D_OPEN \<or> dp_status d = UNDER_REVIEW) \<and> \<not> dp_isSlaBreached d \<and>
     (case dp_slaDeadline d of None \<Rightarrow> False | Some t \<Rightarrow> t < now)"

definition escalated :: "int \<Rightarrow> dispute \<Rightarrow> nat \<Rightarrow> dispute" where
  "escalated now d level = d\<lparr>dp_isSlaBreached := True, dp_slaBreachedAt := Some now, dp_escalationLevel := level\<rparr>"

definition escalate :: "int \<Rightarrow> string \<Rightarrow> dispute \<Rightarrow> ('a dispute_state_scheme, unit) op" where
  "escalate now i d =
     (let hoursOverdue = (now - the (dp_slaDeadline d)) div ms_per_hour in
      bindE (if 48 \<le> hoursOverdue then ret (escalated now d 3)
        else if 24 \<le> hoursOverdue then
          bindE (gets (active_with_role SUPER_ADMIN)) (\<lambda>admins.
          bindE (modify (fold (\<lambda>(a, u). notify a ''Dispute SLA Escalation (Level 2)''
            ''Dispute has been open for ${hoursOverdue}h beyond SLA. Escalated to SUPER_ADMIN.'') admins)) (\<lambda>_.
          ret (escalated now d 2)))
        else
          bindE (gets (active_with_role ADMIN)) (\<lambda>admins.
          ret (case admins of [] \<Rightarrow> escalated now d 1
             | (a, u) # _ \<Rightarrow> (escalated now d 1)\<lparr>dp_assignedAdminId := Some a, dp_status := UNDER_REVIEW\<rparr>))) (\<lambda>saved.
      bindE (modify (save_dispute i saved)) (\<lambda>_.
      modify (notify (dp_raisedById d) ''Dispute Escalated''
        ''Your dispute has been escalated for priority review (SLA breach).''))))"

definition checkSlaBreaches :: "int \<Rightarrow> ('a dispute_state_scheme, unit) op" where
  "checkSlaBreaches now =
     bindE (gets (\<lambda>s. filter (\<lambda>(i, d). breached now d) (disputes s))) (\<lambda>rows.
     forE rows (\<lambda>(i, d). tryE (escalate now i d) (\<lambda>_. ret ())))"

section \<open>What an operation changes\<close>

text \<open>The tables that disputes depend on and no operation here changes.\<close>

definition same_case :: "'a dispute_state_scheme \<Rightarrow> 'a dispute_state_scheme \<Rightarrow> bool" where
  "same_case s t \<longleftrightarrow> disputes t = disputes s \<and> transactions t = transactions s"

lemma chargeback_body_frame:
  assumes "chargeback_body E i d t a s = (r, u)"
  shows "u = s\<lparr>users := users u, ledger := ledger u, chargebacks := chargebacks u\<rparr>"
  using assms by (cases r)
    (auto simp: chargeback_body_def chargeback_transfer_def Let_def op_iff save_user_def split: if_splits)

lemma processChargeback_Inl:
  assumes "processChargeback E i d t a s = (Inl e, u)"
  shows "u = s"
proof -
  from assms obtain e' v where b: "chargeback_body E i d t a s = (Inl e', v)" and u: "u = chargeback_rollback s v"
    by (auto simp: processChargeback_def op_iff)
  from chargeback_body_frame [OF b] obtain us l c where v: "v = s\<lparr>users := us, ledger := l, chargebacks := c\<rparr>" by blast
  show ?thesis unfolding u chargeback_rollback_def v by simp
qed

lemma processChargeback_frame:
  assumes "processChargeback E i d t a s = (r, u)"
  shows "same_case s u"
proof (cases r)
  case (Inr x)
  with assms have "chargeback_body E i d t a s = (Inr x, u)" by (auto simp: processChargeback_def op_iff)
  from chargeback_body_frame [OF this] have "u = s\<lparr>users := users u, ledger := ledger u, chargebacks := chargebacks u\<rparr>" .
  then have "disputes u = disputes (s\<lparr>users := users u, ledger := ledger u, chargebacks := chargebacks u\<rparr>)"
    and "transactions u = transactions (s\<lparr>users := users u, ledger := ledger u, chargebacks := chargebacks u\<rparr>)" by argo+
  then show ?thesis by (simp add: same_case_def)
next
  case (Inl e)
  with assms processChargeback_Inl have "u = s" by metis
  then show ?thesis by (simp add: same_case_def)
qed

text \<open>Every dispute was raised by the owner of its transaction, and no transaction has two.\<close>

definition raised_by_owner :: "'a dispute_state_scheme \<Rightarrow> dispute \<Rightarrow> bool" where
  "raised_by_owner s d \<longleftrightarrow> (\<exists>t. tbl_find (dp_transactionId d) (transactions s) = Some t \<and> t_userId t = dp_raisedById d)"

definition disputes_ok :: "dispute_env \<Rightarrow> 'a dispute_state_scheme \<Rightarrow> bool" where
  "disputes_ok E s \<longleftrightarrow> inj (dv_uuid E) \<and> map fst (disputes s) = map (dv_uuid E) [0..<length (disputes s)] \<and>
     distinct (map (dp_transactionId \<circ> snd) (disputes s)) \<and> (\<forall>(i, d)\<in>set (disputes s). raised_by_owner s d)"

text \<open>How a row may change: what identifies the case stays, a resolution stays, an escalation stays.\<close>

definition row_change :: "dispute \<Rightarrow> dispute \<Rightarrow> bool" where
  "row_change d d' \<longleftrightarrow> dp_transactionId d' = dp_transactionId d \<and> dp_raisedById d' = dp_raisedById d \<and>
     (resolved (dp_status d) \<longrightarrow> dp_status d' = dp_status d \<and> dp_resolution d' = dp_resolution d \<and> dp_resolvedAt d' = dp_resolvedAt d) \<and>
     (dp_isSlaBreached d \<longrightarrow> dp_isSlaBreached d' \<and> dp_escalationLevel d' = dp_escalationLevel d)"

lemma row_change_refl [simp]: "row_change d d"
  by (simp add: row_change_def)

lemma row_change_trans: "row_change a b \<Longrightarrow> row_change b c \<Longrightarrow> row_change a c"
  by (auto simp: row_change_def)

definition rows_change :: "'a dispute_state_scheme \<Rightarrow> 'a dispute_state_scheme \<Rightarrow> bool" where
  "rows_change s t \<longleftrightarrow> (\<forall>i d. find_dispute i s = Some d \<longrightarrow> (\<exists>d'. find_dispute i t = Some d' \<and> row_change d d'))"

lemma rows_change_refl: "disputes t = disputes s \<Longrightarrow> rows_change s t"
  by (auto simp: rows_change_def find_dispute_def)

lemma rows_change_trans: "rows_change s t \<Longrightarrow> rows_change t u \<Longrightarrow> rows_change s u"
  unfolding rows_change_def by (meson row_change_trans)

lemma disputes_ok_cong:
  assumes "same_case s t"
  shows "disputes_ok E t = disputes_ok E s"
  using assms by (simp add: same_case_def disputes_ok_def raised_by_owner_def)

lemma disputes_ok_distinct: "disputes_ok E s \<Longrightarrow> distinct (map fst (disputes s))"
  by (auto simp: disputes_ok_def distinct_map inj_on_def inj_def)

text \<open>Saving a changed row.\<close>

lemma save_dispute_ok:
  assumes ok: "disputes_ok E s" and d: "find_dispute i s = Some d" and c: "row_change d d'"
  shows "disputes_ok E (save_dispute i d' s)" and "rows_change s (save_dispute i d' s)"
proof -
  have in_s: "(i, d) \<in> set (disputes s)" using d by (simp add: find_dispute_def tbl_find_in)
  from keys_update [OF disputes_ok_distinct [OF ok] in_s, of dp_transactionId d'] c
  have k: "map (dp_transactionId \<circ> snd) (tbl_save i d' (disputes s)) = map (dp_transactionId \<circ> snd) (disputes s)"
    "map fst (tbl_save i d' (disputes s)) = map fst (disputes s)" by (auto simp: row_change_def)
  then have len: "length (tbl_save i d' (disputes s)) = length (disputes s)" by (metis length_map)
  have "raised_by_owner s d'" using ok in_s c by (fastforce simp: disputes_ok_def raised_by_owner_def row_change_def)
  moreover have "set (tbl_save i d' (disputes s)) \<subseteq> insert (i, d') (set (disputes s))"
    by (rule set_tbl_save)
  ultimately show "disputes_ok E (save_dispute i d' s)"
    using ok k len by (auto simp: disputes_ok_def save_dispute_def raised_by_owner_def)
  show "rows_change s (save_dispute i d' s)"
    using d c by (auto simp: rows_change_def find_dispute_def save_dispute_def tbl_simps)
qed

text \<open>An operation keeps the cases well-formed and changes rows only as allowed.\<close>

definition sound :: "dispute_env \<Rightarrow> 'a dispute_state_scheme \<Rightarrow> 'a dispute_state_scheme \<Rightarrow> bool" where
  "sound E s t \<longleftrightarrow> disputes_ok E s \<longrightarrow> disputes_ok E t \<and> rows_change s t"

lemma sound_same: "same_case s t \<Longrightarrow> sound E s t"
  using disputes_ok_cong [of s t E] rows_change_refl [of t s] by (simp add: sound_def same_case_def)

lemma sound_refl [simp]: "sound E s s"
  by (rule sound_same) (simp add: same_case_def)

lemma sound_trans: "sound E s t \<Longrightarrow> sound E t u \<Longrightarrow> sound E s u"
  unfolding sound_def using rows_change_trans by blast

lemma sound_save: "find_dispute i s = Some d \<Longrightarrow> row_change d d' \<Longrightarrow> sound E s (save_dispute i d' s)"
  by (simp add: sound_def save_dispute_ok)

lemma same_case_notify [simp]: "same_case s (notify u a b s)"
  by (simp add: same_case_def notify_def)

lemma same_case_trans: "same_case s t \<Longrightarrow> same_case t u \<Longrightarrow> same_case s u"
  by (simp add: same_case_def)

lemma same_case_notify_all: "same_case s (fold (\<lambda>(a, u). notify a x y) us s)"
proof (induction us arbitrary: s)
  case (Cons p us)
  obtain a u where p: "p = (a, u)" by fastforce
  from same_case_trans [OF same_case_notify Cons.IH] show ?case by (simp add: p)
qed (simp add: same_case_def)

lemma createDispute_sound:
  assumes "createDispute E now u tx re de s = (r, t)"
  shows "sound E s t"
proof (cases r)
  case (Inr x)
  with assms obtain y d where y: "tbl_find tx (transactions s) = Some y" "t_userId y = u" and n: "dispute_of_tx tx s = None"
    and d: "dp_transactionId d = tx" "dp_raisedById d = u"
    and t: "t = save_dispute (dv_uuid E (length (disputes s))) d s"
    by (force simp: createDispute_def Let_def op_iff)
  show ?thesis unfolding sound_def
  proof (intro impI conjI)
    assume ok: "disputes_ok E s"
    then have f: "tbl_find (dv_uuid E (length (disputes s))) (disputes s) = None"
      by (auto simp: disputes_ok_def tbl_find_None_keys inj_eq)
    from n have new: "tx \<notin> dp_transactionId ` snd ` set (disputes s)"
      by (fastforce simp: dispute_of_tx_def find_None_iff)
    have "raised_by_owner s d" using y d by (simp add: raised_by_owner_def)
    then show "disputes_ok E t" using ok new d(1)
      by (auto simp: t disputes_ok_def save_dispute_def tbl_save_new [OF f] raised_by_owner_def image_iff)
    show "rows_change s t" using f by (auto simp: t rows_change_def find_dispute_def save_dispute_def tbl_simps)
  qed
next
  case (Inl e)
  with assms have "t = s" by (auto simp: createDispute_def Let_def op_iff)
  then show ?thesis by simp
qed

lemma evidence_sound:
  "addEvidence E i u sd de ks s = (r, t) \<Longrightarrow> sound E' s t"
  "addAdminEvidence E i u de ks s = (r', t') \<Longrightarrow> sound E' s t'"
  by (cases r; rule sound_same; auto simp: addEvidence_def save_evidence_def Let_def op_iff same_case_def)
    (cases r'; rule sound_same; auto simp: addAdminEvidence_def save_evidence_def Let_def op_iff same_case_def)

lemma assignDispute_sound:
  assumes "assignDispute i a s = (r, t)"
  shows "sound E s t"
proof (cases r)
  case (Inr x)
  with assms obtain d where "find_dispute i s = Some d"
      "t = save_dispute i (d\<lparr>dp_assignedAdminId := Some a, dp_status := (if dp_status d = D_OPEN then UNDER_REVIEW else dp_status d)\<rparr>) s"
    by (auto simp: assignDispute_def Let_def op_iff)
  then show ?thesis by (auto intro!: sound_save simp: row_change_def resolved_def)
next
  case (Inl e)
  with assms have "t = s" by (auto simp: assignDispute_def Let_def op_iff)
  then show ?thesis by simp
qed

lemma notifyResolution_same: "notifyResolution d t s = (r, u) \<Longrightarrow> r = Inr () \<and> same_case s u \<and> users u = users s"
  by (cases r) (auto simp: notifyResolution_def op_iff same_case_def notify_def split: if_splits)

lemma resolveDispute_Inr:
  assumes "resolveDispute E now i a oc re s = (Inr d', t)"
  shows "\<exists>d y s1. find_dispute i s = Some d \<and> \<not> resolved (dp_status d) \<and> tbl_find (dp_transactionId d) (transactions s) = Some y \<and>
    (if oc = VALID then s1 = s else processChargeback E i d y a s = (Inr (), s1)) \<and>
    d' = d\<lparr>dp_status := (if oc = VALID then RESOLVED_VALID else RESOLVED_CHARGEBACK),
           dp_resolution := Some re, dp_resolvedAt := Some now, dp_assignedAdminId := Some a\<rparr> \<and>
    same_case (save_dispute i d' s1) t \<and> users t = users s1"
proof -
  from assms obtain d y s1 u where "find_dispute i s = Some d" "\<not> resolved (dp_status d)"
      "tbl_find (dp_transactionId d) (transactions s) = Some y"
      and o: "if oc = VALID then s1 = s else processChargeback E i d y a s = (Inr (), s1)"
      and d': "d' = d\<lparr>dp_status := (if oc = VALID then RESOLVED_VALID else RESOLVED_CHARGEBACK),
           dp_resolution := Some re, dp_resolvedAt := Some now, dp_assignedAdminId := Some a\<rparr>"
      and n: "notifyResolution d' y (save_dispute i d' s1) = (Inr (), t)"
    unfolding resolveDispute_def Let_def by (cases "oc = VALID") (auto simp: op_iff)
  moreover have "same_case (save_dispute i d' s1) t" "users t = users s1"
    using notifyResolution_same [OF n] by (auto simp: save_dispute_def)
  ultimately show ?thesis by blast
qed

lemma resolveDispute_Inl: "resolveDispute E now i a oc re s = (Inl e, t) \<Longrightarrow> t = s"
  unfolding resolveDispute_def Let_def
  by (cases "oc = VALID") (auto simp: op_iff dest: processChargeback_Inl notifyResolution_same)

lemma resolveDispute_sound:
  assumes "resolveDispute E now i a oc re s = (r, t)"
  shows "sound E' s t"
proof (cases r)
  case (Inl e)
  with assms resolveDispute_Inl have "t = s" by metis
  then show ?thesis by simp
next
  case (Inr d')
  with assms obtain d y s1 where d: "find_dispute i s = Some d" "\<not> resolved (dp_status d)"
    and o: "if oc = VALID then s1 = s else processChargeback E i d y a s = (Inr (), s1)"
    and d': "d' = d\<lparr>dp_status := (if oc = VALID then RESOLVED_VALID else RESOLVED_CHARGEBACK),
           dp_resolution := Some re, dp_resolvedAt := Some now, dp_assignedAdminId := Some a\<rparr>"
    and t: "same_case (save_dispute i d' s1) t"
    using resolveDispute_Inr by blast
  from o have s1: "same_case s s1" by (auto simp: same_case_def dest: processChargeback_frame split: if_splits)
  with d(1) have "find_dispute i s1 = Some d" by (simp add: same_case_def find_dispute_def)
  then have "sound E' s1 (save_dispute i d' s1)"
    by (rule sound_save) (use d(2) in \<open>simp add: d' row_change_def\<close>)
  with s1 t show ?thesis by (meson sound_same sound_trans)
qed

lemma escalate_effect:
  assumes "escalate now i d s = (r, t)" and "breached now d"
  shows "\<exists>d'. row_change d d' \<and> same_case (save_dispute i d' s) t"
proof -
  have b: "\<not> resolved (dp_status d)" "\<not> dp_isSlaBreached d" using assms(2) by (auto simp: breached_def resolved_def)
  have esc: "row_change d (escalated now d n)" "row_change d ((escalated now d n)\<lparr>dp_assignedAdminId := x, dp_status := y\<rparr>)" for n x y
    using b by (simp_all add: row_change_def escalated_def)
  let ?h = "(now - the (dp_slaDeadline d)) div ms_per_hour"
  have step: "\<exists>d' u. row_change d d' \<and> same_case s u \<and>
      bindE (modify (save_dispute i d')) (\<lambda>_. modify (notify (dp_raisedById d) ''Dispute Escalated''
        ''Your dispute has been escalated for priority review (SLA breach).'')) u = (r, t)"
  proof -
    consider "48 \<le> ?h" | "24 \<le> ?h" "\<not> 48 \<le> ?h" | "\<not> 24 \<le> ?h" by linarith
    then show ?thesis
    proof cases
      case 1
      with assms(1) have "bindE (modify (save_dispute i (escalated now d 3))) (\<lambda>_. modify (notify (dp_raisedById d) ''Dispute Escalated''
        ''Your dispute has been escalated for priority review (SLA breach).'')) s = (r, t)"
        by (simp add: escalate_def bindE_def ret_def)
      with esc(1) show ?thesis using same_case_def by blast
    next
      case 2
      define v where "v = fold (\<lambda>(a, u). notify a ''Dispute SLA Escalation (Level 2)''
        ''Dispute has been open for ${hoursOverdue}h beyond SLA. Escalated to SUPER_ADMIN.'') (active_with_role SUPER_ADMIN s) s"
      have v: "same_case s v" unfolding v_def by (rule same_case_notify_all)
      from 2 assms(1) have "bindE (modify (save_dispute i (escalated now d 2))) (\<lambda>_. modify (notify (dp_raisedById d) ''Dispute Escalated''
        ''Your dispute has been escalated for priority review (SLA breach).'')) v = (r, t)"
        by (auto simp: escalate_def bindE_def ret_def gets_def modify_def v_def)
      with esc(1) v show ?thesis by blast
    next
      case 3
      then show ?thesis using assms(1) esc
        by (auto simp: escalate_def bindE_def ret_def gets_def modify_def same_case_def split: list.splits) blast+
    qed
  qed
  then obtain d' u where d': "row_change d d'" and u: "same_case s u"
    and t: "t = notify (dp_raisedById d) ''Dispute Escalated'' ''Your dispute has been escalated for priority review (SLA breach).''
        (save_dispute i d' u)"
    by (auto simp: bindE_def modify_def)
  from u have "same_case (save_dispute i d' s) t" by (simp add: t same_case_def save_dispute_def notify_def)
  with d' show ?thesis by blast
qed

definition sla_inv :: "dispute_env \<Rightarrow> int \<Rightarrow> dispute_state \<Rightarrow> (string \<times> dispute) list \<Rightarrow> dispute_state \<Rightarrow> bool" where
  "sla_inv E now s xs u \<longleftrightarrow> sound E s u \<and> distinct (map fst xs) \<and>
     (\<forall>(i, d)\<in>set xs. find_dispute i u = Some d \<and> breached now d)"

lemma sla_inv_step:
  assumes inv: "sla_inv E now s ((i, d) # xs) u" and e: "tryE (escalate now i d) (\<lambda>_. ret ()) u = (r, t)"
  shows "sla_inv E now s xs t"
proof -
  from inv have d: "find_dispute i u = Some d" "breached now d" "i \<notin> fst ` set xs" by (auto simp: sla_inv_def)
  obtain r' where "escalate now i d u = (r', t)" using e by (auto simp: tryE_def ret_def split: prod.splits sum.splits)
  from escalate_effect [OF this d(2)] obtain d' where d': "row_change d d'" "same_case (save_dispute i d' u) t" by blast
  have "sound E u t" by (meson d(1) d' sound_save sound_same sound_trans)
  moreover have "find_dispute j t = find_dispute j u" if "j \<in> fst ` set xs" for j
    using that d(3) d'(2) by (auto simp: same_case_def find_dispute_def save_dispute_def tbl_simps)
  ultimately show ?thesis using inv unfolding sla_inv_def
    by (auto simp: image_iff Ball_def split: prod.splits intro: sound_trans) (metis fst_conv)+
qed

lemma checkSlaBreaches_sound:
  fixes s :: dispute_state
  shows "sound E s (snd (checkSlaBreaches now s))"
proof -
  have "disputes_ok E s \<Longrightarrow> sound E s t" if "checkSlaBreaches now s = (r, t)" for r t
  proof -
    assume ok: "disputes_ok E s"
    let ?rows = "filter (\<lambda>(i, d). breached now d) (disputes s)"
    have "sla_inv E now s ?rows s"
      using disputes_ok_distinct [OF ok] distinct_fst_filter [OF disputes_ok_distinct [OF ok]]
      by (auto simp: sla_inv_def find_dispute_def tbl_distinct_in)
    moreover have "forE ?rows (\<lambda>(i, d). tryE (escalate now i d) (\<lambda>_. ret ())) s = (r, t)"
      using that by (simp add: checkSlaBreaches_def bindE_def gets_def)
    ultimately have "\<exists>ys. sla_inv E now s ys t"
      using sla_inv_step by (intro forE_invariant [where I = "sla_inv E now s"]) auto
    then show "sound E s t" by (auto simp: sla_inv_def)
  qed
  then show ?thesis by (metis prod.collapse sound_def)
qed

section \<open>Runs\<close>

datatype dispute_event =
    Raise int string string dispute_reason string
  | Evidence string string evidence_side string "string list"
  | Assign string string
  | AdminEvidence string string string "string list"
  | Release string
  | Resolve int string string dispute_outcome string
  | SlaJob int

fun dispute_step :: "dispute_env \<Rightarrow> dispute_event \<Rightarrow> dispute_state \<Rightarrow> dispute_state" where
  "dispute_step E (Raise now u t r de) s = snd (createDispute E now u t r de s)"
| "dispute_step E (Evidence i u sd de ks) s = snd (addEvidence E i u sd de ks s)"
| "dispute_step E (Assign i a) s = snd (assignDispute i a s)"
| "dispute_step E (AdminEvidence i a de ks) s = snd (addAdminEvidence E i a de ks s)"
| "dispute_step E (Release i) s = snd (releaseRespondentEvidence i s)"
| "dispute_step E (Resolve now i a oc re) s = snd (resolveDispute E now i a oc re s)"
| "dispute_step E (SlaJob now) s = snd (checkSlaBreaches now s)"

lemma dispute_step_sound: "sound E s (dispute_step E e s)"
  by (cases e)
    (auto intro: checkSlaBreaches_sound createDispute_sound evidence_sound assignDispute_sound resolveDispute_sound
      sound_same simp: prod_eq_iff releaseRespondentEvidence_def modify_def same_case_def)

interpretation dispute_run: invariant_system "dispute_step E" "\<lambda>_. True" "\<lambda>t. disputes_ok E t \<and> rows_change s t" for E s
  by unfold_locales (use dispute_step_sound in \<open>auto simp: sound_def intro: rows_change_trans\<close>)

section \<open>Chargebacks between one and the same user\<close>

lemma self_chargeback:
  assumes self: "dp_raisedById d = t_userId t" and u: "findById (t_userId t) s = Some u"
    and enum: "''CHARGEBACK'' \<in> set (dv_tx_type_enum E)" and funds: "parse_float (t_amount t) \<le> balance_of u (t_currency t)"
  shows "\<exists>s'. processChargeback E i d t a s = (Inr (), s') \<and>
    user_balance w c s' = (if w = t_userId t \<and> c = t_currency t
      then js_add (user_balance w c s) (parse_float (t_amount t)) else user_balance w c s)"
proof -
  obtain s' where b: "chargeback_body E i d t a s = (Inr (), s')"
    and us: "users s' = tbl_save (t_userId t) (u\<lparr>u_balances :=
           set_balance (t_currency t) (js_add (balance_of u (t_currency t)) (parse_float (t_amount t))) (u_balances u)\<rparr>)
         (tbl_save (t_userId t) (u\<lparr>u_balances :=
           set_balance (t_currency t) (js_sub (balance_of u (t_currency t)) (parse_float (t_amount t))) (u_balances u)\<rparr>) (users s))"
  proof
    show "chargeback_body E i d t a s = (Inr (), snd (chargeback_body E i d t a s))"
      using self u enum funds
      by (simp add: chargeback_body_def chargeback_transfer_def Let_def bindE_def gets_def modify_def require_def ret_def
          from_option_def findById_def)
  qed (use self u enum funds in \<open>simp add: chargeback_body_def chargeback_transfer_def Let_def bindE_def gets_def modify_def
      require_def ret_def from_option_def findById_def save_user_def\<close>)
  from b have "processChargeback E i d t a s = (Inr (), s')" by (simp add: processChargeback_def tryE_def transactionE_def)
  moreover have "user_balance w c s' = (if w = t_userId t \<and> c = t_currency t
      then js_add (user_balance w c s) (parse_float (t_amount t)) else user_balance w c s)"
    using u by (auto simp: user_balance_def findById_def us tbl_simps balance_of_def set_balance_def)
  ultimately show ?thesis by blast
qed

lemma chargeback_refused:
  assumes "''CHARGEBACK'' \<notin> set (dv_tx_type_enum E)"
  shows "\<exists>e s'. processChargeback E i d t a s = (Inl e, s')"
proof -
  obtain r u where r: "processChargeback E i d t a s = (r, u)" by fastforce
  have "\<exists>e. r = Inl e"
  proof (cases r)
    case (Inr x)
    with r assms have False by (auto simp: processChargeback_def chargeback_body_def Let_def op_iff)
    then show ?thesis ..
  qed simp
  with r show ?thesis by blast
qed

lemma resolve_by_chargeback:
  assumes "find_dispute i s = Some d" "\<not> resolved (dp_status d)" "tbl_find (dp_transactionId d) (transactions s) = Some t"
    and "processChargeback E i d t a s = (r, s1)"
  shows "case r of Inl e \<Rightarrow> resolveDispute E now i a CHARGEBACK re s = (Inl e, s1)
    | Inr _ \<Rightarrow> \<exists>d' s'. resolveDispute E now i a CHARGEBACK re s = (Inr d', s') \<and> users s' = users s1"
proof (cases r)
  case (Inr x)
  with assms have p: "processChargeback E i d t a s = (Inr (), s1)" by simp
  let ?d = "d\<lparr>dp_status := RESOLVED_CHARGEBACK, dp_resolution := Some re, dp_resolvedAt := Some now, dp_assignedAdminId := Some a\<rparr>"
  obtain r' n where n: "notifyResolution ?d t (save_dispute i ?d s1) = (r', n)" by fastforce
  from notifyResolution_same [OF n] have "r' = Inr ()" "users n = users s1" by (simp_all add: save_dispute_def)
  then have "resolveDispute E now i a CHARGEBACK re s = (Inr ?d, n)" using assms(1-3) p n
    by (simp add: resolveDispute_def bindE_def gets_def from_option_def require_def ret_def modify_def Let_def)
  with Inr \<open>users n = users s1\<close> show ?thesis by simp
next
  case (Inl e)
  with assms show ?thesis
    by (simp add: resolveDispute_def bindE_def gets_def from_option_def require_def ret_def)
qed

section \<open>Properties\<close>


text \<open>C23. What a chargeback does, in every state the operations reach. While the column of transaction types has the
  values the source declares, every chargeback fails and changes nothing. If the column is extended, a chargeback of a
  transaction whose owner can pay it debits nobody and credits the owner with its amount: claimant and
  respondent are the same user, and the second write of the balance covers the first.\<close>

theorem dispute_chargeback:
  assumes "disputes_ok E s0" and "s = fold (dispute_step E) es s0"
    and "find_dispute i s = Some d" and "\<not> resolved (dp_status d)"
    and "tbl_find (dp_transactionId d) (transactions s) = Some t" and "findById (t_userId t) s = Some u"
  shows "(dv_tx_type_enum E' = source_tx_types \<longrightarrow> (\<exists>e. resolveDispute E' now i a CHARGEBACK re s = (Inl e, s))) \<and>
    (''CHARGEBACK'' \<in> set (dv_tx_type_enum E') \<and> parse_float (t_amount t) \<le> balance_of u (t_currency t) \<longrightarrow>
      (\<exists>d' s'. resolveDispute E' now i a CHARGEBACK re s = (Inr d', s') \<and>
        user_balance w c s' = (if w = t_userId t \<and> c = t_currency t
          then js_add (user_balance w c s) (parse_float (t_amount t)) else user_balance w c s)))"
proof -
  have "disputes_ok E s" using dispute_run.inv_run [of E s0 s0 es] assms(1,2) rows_change_refl by auto
  moreover have "(i, d) \<in> set (disputes s)" using assms(3) by (simp add: find_dispute_def tbl_find_in)
  ultimately have "raised_by_owner s d" by (auto simp: disputes_ok_def)
  with assms(5) have self: "dp_raisedById d = t_userId t" by (simp add: raised_by_owner_def)
  note R = resolve_by_chargeback [OF assms(3-5)]
  have 1: "\<exists>e. resolveDispute E' now i a CHARGEBACK re s = (Inl e, s)" if "dv_tx_type_enum E' = source_tx_types"
  proof -
    from that have "''CHARGEBACK'' \<notin> set (dv_tx_type_enum E')" by (simp add: source_tx_types_def)
    from chargeback_refused [OF this] obtain e s1 where p: "processChargeback E' i d t a s = (Inl e, s1)" by blast
    from R [OF p, of now re] processChargeback_Inl [OF p] show ?thesis by auto
  qed
  have 2: "\<exists>d' s'. resolveDispute E' now i a CHARGEBACK re s = (Inr d', s') \<and>
        user_balance w c s' = (if w = t_userId t \<and> c = t_currency t
          then js_add (user_balance w c s) (parse_float (t_amount t)) else user_balance w c s)"
    if "''CHARGEBACK'' \<in> set (dv_tx_type_enum E')" "parse_float (t_amount t) \<le> balance_of u (t_currency t)"
  proof -
    from self_chargeback [OF self assms(6) that] obtain s1 where p: "processChargeback E' i d t a s = (Inr (), s1)"
      and b: "user_balance w c s1 = (if w = t_userId t \<and> c = t_currency t
          then js_add (user_balance w c s) (parse_float (t_amount t)) else user_balance w c s)" by blast
    from R [OF p, of now re] obtain d' s' where r: "resolveDispute E' now i a CHARGEBACK re s = (Inr d', s')" "users s' = users s1" by auto
    from r(2) have "user_balance w c s' = user_balance w c s1" by (simp add: user_balance_def findById_def)
    with r(1) b show ?thesis by auto
  qed
  from 1 2 show ?thesis by blast
qed

definition demo_dispute_env :: "string list \<Rightarrow> dispute_env" where
  "demo_dispute_env ts = \<lparr>dv_uuid = \<lambda>n. replicate n CHR ''x'', dv_tx_type_enum = ts\<rparr>"

definition demo_disputes :: dispute_state where
  "demo_disputes = \<lparr>users = [(''bob'', demo_user 500)], wallets = [], notifications = [], calls = 0, payments = [], ledger = [],
     transactions = [(''t'', (demo_tx WITHDRAW)\<lparr>t_userId := ''bob'', t_status := SUCCESS\<rparr>)],
     disputes = [([], \<lparr>dp_transactionId = ''t'', dp_raisedById = ''bob'', dp_reason = DUPLICATE, dp_description = ''twice'',
       dp_status = D_OPEN, dp_assignedAdminId = None, dp_resolution = None, dp_disputeWindowExpiry = 0, dp_createdAt = 0,
       dp_resolvedAt = None, dp_slaDeadline = Some 0, dp_isSlaBreached = False, dp_slaBreachedAt = None,
       dp_escalationLevel = 0\<rparr>)], evidence = [], chargebacks = []\<rparr>"

lemma demo_disputes_ok: "disputes_ok (demo_dispute_env ts) demo_disputes"
proof -
  have "inj (\<lambda>n. replicate n CHR ''x'')" unfolding inj_def by (metis length_replicate)
  then show ?thesis by (simp add: disputes_ok_def demo_dispute_env_def demo_disputes_def raised_by_owner_def tbl_find_def)
qed


theorem dispute_chargeback_witness:
  "\<exists>d' s'. resolveDispute (demo_dispute_env [''CHARGEBACK'']) 9 [] ''root'' CHARGEBACK ''refund'' demo_disputes = (Inr d', s') \<and>
     user_balance ''bob'' ''XLM'' s' = js_add 500 10"
proof -
  have s: "demo_disputes = fold (dispute_step (demo_dispute_env source_tx_types)) [] demo_disputes" by simp
  have f: "find_dispute [] demo_disputes = Some (snd (hd (disputes demo_disputes)))"
    "\<not> resolved (dp_status (snd (hd (disputes demo_disputes))))"
    "tbl_find (dp_transactionId (snd (hd (disputes demo_disputes)))) (transactions demo_disputes) =
      Some ((demo_tx WITHDRAW)\<lparr>t_userId := ''bob'', t_status := SUCCESS\<rparr>)"
    "findById (t_userId ((demo_tx WITHDRAW)\<lparr>t_userId := ''bob'', t_status := SUCCESS\<rparr>)) demo_disputes = Some (demo_user 500)"
    "user_balance ''bob'' ''XLM'' demo_disputes = 500"
    by (simp_all add: find_dispute_def tbl_find_def demo_disputes_def resolved_def findById_def user_balance_def balance_of_def demo_user_def)
  show ?thesis
    using dispute_chargeback [OF demo_disputes_ok s f(1-4), of "demo_dispute_env [''CHARGEBACK'']" 9 "''root''" "''refund''" "''bob''" "''XLM''"] f(5)
    by (simp add: demo_dispute_env_def source_tx_types_def demo_tx_def demo_user_def balance_of_def)
qed

end
