(* ===== verification/Accounts.thy ===== *)
theory Accounts
  imports Referrals
begin

text \<open>
  The rest of the user directory (\<open>users/users.service.ts\<close>): accounts, profiles, devices, the cached view of
  a wallet and the job that copies wallet balances from the network into the rows of the users. \<open>account_env\<close>
  holds what comes from outside: ids, the password hash of bcrypt (salted, so it may differ from call to call),
  the answers of Horizon to the n-th call, the exchange rates, the pattern match of the database and the counters of
  the throttler. Columns of the table of users that may not be null are checked when a row is inserted.
\<close>

section \<open>Data\<close>

datatype balance_line =
    NativeLine rat
  | AssetLine string rat "string option"
  | PoolLine rat

datatype account_answer =
    AccountFound "balance_line list"
  | AccountError "int option"

record wallet_balance =
  wb_asset :: string
  wb_balance :: rat
  wb_assetIssuer :: "string option"

record valued_balance = wallet_balance +
  wb_valueUSD :: rat
  wb_valueNGN :: rat

record balances_payload =
  bp_walletPublicKey :: string
  bp_isFunded :: bool
  bp_balances :: "valued_balance list"
  bp_totalValueUSD :: rat
  bp_totalValueNGN :: rat
  bp_fetchedAt :: int

record holding =
  ho_asset :: string
  ho_balance :: rat
  ho_assetIssuer :: "string option"
  ho_valueUSD :: rat
  ho_valueNGN :: rat
  ho_percentageOfPortfolio :: rat

record account_state = referral_state +
  walletBalancesCache :: "(int \<times> balances_payload) table"
  preferenceDefaults :: "string list"
  rateLimitConfigs :: "(user_plan \<times> int option) list"

record account_env =
  ac_uuid :: "nat \<Rightarrow> string"
  ac_bcrypt :: "nat \<Rightarrow> string \<Rightarrow> string"
  ac_loadAccount :: "nat \<Rightarrow> string \<Rightarrow> account_answer"
  ac_rate :: "string \<Rightarrow> string \<Rightarrow> exn + rat"
  ac_ilike :: "string \<Rightarrow> string \<Rightarrow> bool"
  ac_throttler :: "string \<Rightarrow> (int \<times> int option) option"

record create_user_params =
  cu_email :: string
  cu_password :: "string option"
  cu_firstName :: "string option"
  cu_lastName :: "string option"
  cu_phone :: "string option"
  cu_walletPublicKey :: string
  cu_walletSecretKeyEncrypted :: string
  cu_referralCode :: string
  cu_referredBy :: "string option"
  cu_role :: "user_role option"
  cu_consentGdpr :: "bool option"
  cu_consentGdprAt :: "int option"
  cu_consentGdprVersion :: "string option"

record rate_limit_status =
  rl_plan :: user_plan
  rl_limitPerMinute :: "int option"
  rl_usedInCurrentWindow :: int
  rl_remaining :: "int option"
  rl_resetAt :: "int option"
  rl_isUnlimited :: bool

section \<open>Finding and creating users\<close>

definition ascii_upper :: "char \<Rightarrow> char" where
  "ascii_upper c = (if of_char c \<ge> (97::nat) \<and> of_char c \<le> (122::nat) then char_of (of_char c - (32::nat)) else c)"

definition normal_email :: "string \<Rightarrow> string" where
  "normal_email e = trim (map ascii_lower e)"

definition normal_code :: "string \<Rightarrow> string" where
  "normal_code c = trim (map ascii_upper c)"

definition findByPhone :: "string \<Rightarrow> 'a base_scheme \<Rightarrow> (string \<times> user) option" where
  "findByPhone phone s = List.find (\<lambda>(i, u). u_phone u = Some phone) (users s)"

definition findByReferralCode :: "string \<Rightarrow> 'a base_scheme \<Rightarrow> (string \<times> user) option" where
  "findByReferralCode code s = List.find (\<lambda>(i, u). u_referralCode u = normal_code code) (users s)"

definition deleteById :: "string \<Rightarrow> 'a base_scheme \<Rightarrow> 'a base_scheme" where
  "deleteById i s = s\<lparr>users := tbl_remove i (users s)\<rparr>"

text \<open>\<open>x || null\<close> for texts: the empty text becomes null.\<close>

definition or_null :: "string option \<Rightarrow> string option" where
  "or_null x = (if truthy x then x else None)"

definition next_id :: "(nat \<Rightarrow> string) \<Rightarrow> ('a chain_scheme, string) op" where
  "next_id uuid s = (Inr (uuid (calls s)), s\<lparr>calls := Suc (calls s)\<rparr>)"

definition bcrypt_hash :: "account_env \<Rightarrow> string \<Rightarrow> ('a chain_scheme, string) op" where
  "bcrypt_hash E p s = (Inr (ac_bcrypt E (calls s) p), s\<lparr>calls := Suc (calls s)\<rparr>)"

definition user_row :: "create_user_params \<Rightarrow> int \<Rightarrow> string option \<Rightarrow> user" where
  "user_row p now hashedPassword =
     \<lparr>u_email = normal_email (cu_email p), u_balances = Map.empty, u_kycTier = KYC_NONE,
      u_role = (case cu_role p of None \<Rightarrow> USER | Some r \<Rightarrow> r), u_failedLoginAttempts = 0, u_lockedUntil = None,
      u_walletPublicKey = cu_walletPublicKey p, u_walletSecretKeyEncrypted = Some (cu_walletSecretKeyEncrypted p),
      u_createdAt = now, u_referredBy = cu_referredBy p, u_referralCode = normal_code (cu_referralCode p),
      u_firstName = or_null (cu_firstName p), u_lastName = or_null (cu_lastName p), u_phone = or_null (cu_phone p),
      u_isVerified = False, u_isEmailVerified = False, u_isSuspended = False, u_isTwoFactorEnabled = False,
      u_twoFactorSecret = None, u_isActive = True, u_isDeleted = False, u_password = hashedPassword,
      u_passwordHash = hashedPassword, u_plan = FREE, u_preferredLanguage = ''en'', u_fcmToken = None,
      u_fcmTokens = Some [], u_notificationPreferences = Some \<lparr>np_email = True, np_push = True,
        np_types = \<lparr>nt_TRANSACTION = True, nt_KYC = True, nt_RATE_ALERT = True\<rparr>\<rparr>,
      u_balanceLastSyncedAt = None, u_consentGdpr = False, u_consentGdprAt = None, u_consentGdprVersion = None\<rparr>"

text \<open>Inserting a row: the columns that may not be null, and the unique ones.\<close>

definition insert_user :: "string \<Rightarrow> user \<Rightarrow> ('a base_scheme, unit) op" where
  "insert_user i u =
     bindE (require (u_passwordHash u \<noteq> None)
       (PlainError ''null value in column passwordHash violates not-null constraint'')) (\<lambda>_.
     bindE (gets (\<lambda>s. map snd (users s))) (\<lambda>rows.
     bindE (require (u_email u \<notin> u_email ` set rows \<and> u_referralCode u \<notin> u_referralCode ` set rows \<and>
         (u_phone u = None \<or> u_phone u \<notin> u_phone ` set rows))
       (PlainError ''duplicate key value violates unique constraint'')) (\<lambda>_.
     modify (\<lambda>s. s\<lparr>users := tbl_save i u (users s)\<rparr>))))"

definition createUser :: "account_env \<Rightarrow> int \<Rightarrow> create_user_params \<Rightarrow> ('a account_state_scheme, string \<times> user) op" where
  "createUser E now p =
     bindE (gets (findByEmail (normal_email (cu_email p)))) (\<lambda>existingUser.
     bindE (require (existingUser = None) (ConflictException ''User with this email already exists'')) (\<lambda>_.
     bindE (gets (\<lambda>s. if truthy (cu_phone p) then findByPhone (the (cu_phone p)) s else None)) (\<lambda>existingPhone.
     bindE (require (existingPhone = None) (ConflictException ''User with this phone already exists'')) (\<lambda>_.
     bindE (if truthy (cu_password p)
         then bindE (bcrypt_hash E (the (cu_password p))) (\<lambda>h. ret (Some h)) else ret None) (\<lambda>hashedPassword.
     bindE (next_id (ac_uuid E)) (\<lambda>i.
     let u = user_row p now hashedPassword in
     bindE (insert_user i u) (\<lambda>_.
     bindE (modify (\<lambda>s. s\<lparr>preferenceDefaults := preferenceDefaults s @ [i]\<rparr>)) (\<lambda>_.
     ret (i, u)))))))))"

text \<open>The operations that change one user first look the user up.\<close>

definition existing_user :: "string \<Rightarrow> ('a base_scheme, user) op" where
  "existing_user userId =
     bindE (gets (findById userId)) (\<lambda>u. from_option (NotFoundException ''User not found'') u)"

definition change_user :: "string \<Rightarrow> (user \<Rightarrow> user) \<Rightarrow> ('a base_scheme, unit) op" where
  "change_user userId f = bindE (existing_user userId) (\<lambda>_. modify (updateByUserId userId f))"

definition updatePassword :: "account_env \<Rightarrow> string \<Rightarrow> string \<Rightarrow> ('a chain_scheme, unit) op" where
  "updatePassword E userId newPassword =
     bindE (existing_user userId) (\<lambda>_.
     bindE (bcrypt_hash E newPassword) (\<lambda>h.
     modify (updateByUserId userId (\<lambda>u. u\<lparr>u_password := Some h, u_passwordHash := Some h\<rparr>))))"

definition verifyUser :: "string \<Rightarrow> ('a base_scheme, unit) op" where
  "verifyUser userId = change_user userId
     (\<lambda>u. u\<lparr>u_isVerified := True, u_isEmailVerified := True, u_kycTier := KYC_BASIC\<rparr>)"

definition updateRole :: "string \<Rightarrow> user_role \<Rightarrow> ('a base_scheme, unit) op" where
  "updateRole userId role = change_user userId (\<lambda>u. u\<lparr>u_role := role\<rparr>)"

text \<open>\<open>update\<close> writes a part of a row; \<open>emailVerified\<close> is the value it carries for that column, and the patch
  \<open>data\<close> the others.\<close>

definition update_user :: "string \<Rightarrow> bool option \<Rightarrow> (user \<Rightarrow> user) \<Rightarrow> ('a base_scheme, unit) op" where
  "update_user userId emailVerified data =
     bindE (existing_user userId) (\<lambda>user.
     let tier = (\<lambda>u. if emailVerified = Some True \<and> u_kycTier user = KYC_NONE then u\<lparr>u_kycTier := KYC_BASIC\<rparr> else u);
         mark = (\<lambda>u. case emailVerified of None \<Rightarrow> u | Some b \<Rightarrow> u\<lparr>u_isEmailVerified := b\<rparr>)
     in modify (updateByUserId userId (\<lambda>u. tier (mark (data u)))))"

section \<open>Profiles and devices\<close>

text \<open>A profile is a row without its secrets.\<close>

definition excludeSecrets :: "user \<Rightarrow> user" where
  "excludeSecrets u = u\<lparr>u_password := None, u_walletSecretKeyEncrypted := None, u_twoFactorSecret := None\<rparr>"

definition getProfile :: "string \<Rightarrow> ('a base_scheme, user) op" where
  "getProfile userId = bindE (existing_user userId) (\<lambda>u. ret (excludeSecrets u))"

definition updateProfile ::
    "string \<Rightarrow> string option \<Rightarrow> string option \<Rightarrow> string option \<Rightarrow> ('a base_scheme, user) op" where
  "updateProfile userId firstName lastName preferredLanguage =
     bindE (existing_user userId) (\<lambda>_.
     bindE (modify (updateByUserId userId (\<lambda>u. u\<lparr>
         u_firstName := (case firstName of None \<Rightarrow> u_firstName u | Some x \<Rightarrow> Some (trim x)),
         u_lastName := (case lastName of None \<Rightarrow> u_lastName u | Some x \<Rightarrow> Some (trim x)),
         u_preferredLanguage := (case preferredLanguage of None \<Rightarrow> u_preferredLanguage u | Some x \<Rightarrow> trim x)\<rparr>))) (\<lambda>_.
     getProfile userId))"

definition deleteProfile :: "string \<Rightarrow> ('a base_scheme, unit) op" where
  "deleteProfile userId = change_user userId (\<lambda>u. u\<lparr>u_isDeleted := True\<rparr>)"

definition softDelete :: "string \<Rightarrow> ('a base_scheme, unit) op" where
  "softDelete userId = change_user userId (\<lambda>u. u\<lparr>u_isActive := False\<rparr>)"

definition updateUserStatus :: "string \<Rightarrow> bool \<Rightarrow> ('a base_scheme, user) op" where
  "updateUserStatus userId isActive =
     bindE (change_user userId (\<lambda>u. u\<lparr>u_isActive := isActive\<rparr>)) (\<lambda>_. existing_user userId)"

definition updateUserRole :: "string \<Rightarrow> user_role \<Rightarrow> ('a base_scheme, user) op" where
  "updateUserRole userId role =
     bindE (change_user userId (\<lambda>u. u\<lparr>u_role := role\<rparr>)) (\<lambda>_. existing_user userId)"

definition tokens_of :: "user \<Rightarrow> string list" where
  "tokens_of u = (case u_fcmTokens u of None \<Rightarrow> [] | Some ts \<Rightarrow> ts)"

definition registerDeviceToken :: "string \<Rightarrow> string \<Rightarrow> ('a base_scheme, unit) op" where
  "registerDeviceToken userId token =
     bindE (existing_user userId) (\<lambda>u.
     if token \<notin> set (tokens_of u)
     then modify (updateByUserId userId (\<lambda>w. w\<lparr>u_fcmTokens := Some (tokens_of u @ [token])\<rparr>)) else ret ())"

definition removeDeviceToken :: "string \<Rightarrow> string \<Rightarrow> ('a base_scheme, unit) op" where
  "removeDeviceToken userId token =
     bindE (existing_user userId) (\<lambda>u.
     if token \<in> set (tokens_of u)
     then modify (updateByUserId userId (\<lambda>w. w\<lparr>u_fcmTokens := Some (filter (\<lambda>t. t \<noteq> token) (tokens_of u))\<rparr>)) else ret ())"

definition updateFcmToken :: "string \<Rightarrow> string \<Rightarrow> ('a base_scheme, unit) op" where
  "updateFcmToken userId token =
     bindE (existing_user userId) (\<lambda>u.
     modify (updateByUserId userId (\<lambda>w. w\<lparr>u_fcmToken := Some token,
       u_fcmTokens := (if token \<notin> set (tokens_of u) then Some (tokens_of u @ [token]) else u_fcmTokens u)\<rparr>)))"

definition default_preferences :: notification_preferences where
  "default_preferences = \<lparr>np_email = True, np_push = True,
     np_types = \<lparr>nt_TRANSACTION = True, nt_KYC = True, nt_RATE_ALERT = True\<rparr>\<rparr>"

definition or_else :: "bool option \<Rightarrow> bool \<Rightarrow> bool" where
  "or_else x d = (case x of None \<Rightarrow> d | Some b \<Rightarrow> b)"

definition updateNotificationPreferences ::
    "string \<Rightarrow> bool option \<Rightarrow> bool option \<Rightarrow> bool option \<Rightarrow> bool option \<Rightarrow> bool option \<Rightarrow> ('a base_scheme, user) op" where
  "updateNotificationPreferences userId email push tTransaction tKyc tRateAlert =
     bindE (existing_user userId) (\<lambda>u.
     let c = (case u_notificationPreferences u of None \<Rightarrow> default_preferences | Some p \<Rightarrow> p);
         p = \<lparr>np_email = or_else email (np_email c), np_push = or_else push (np_push c),
              np_types = \<lparr>nt_TRANSACTION = or_else tTransaction (nt_TRANSACTION (np_types c)),
                nt_KYC = or_else tKyc (nt_KYC (np_types c)), nt_RATE_ALERT = or_else tRateAlert (nt_RATE_ALERT (np_types c))\<rparr>\<rparr>
     in bindE (modify (updateByUserId userId (\<lambda>w. w\<lparr>u_notificationPreferences := Some p\<rparr>))) (\<lambda>_. existing_user userId))"

section \<open>Wallet balances\<close>

definition wallet_line :: "balance_line \<Rightarrow> wallet_balance" where
  "wallet_line l = (case l of
       NativeLine b \<Rightarrow> \<lparr>wb_asset = ''XLM'', wb_balance = b, wb_assetIssuer = None\<rparr>
     | AssetLine code b issuer \<Rightarrow> \<lparr>wb_asset = (if code = [] then ''UNKNOWN'' else code), wb_balance = b, wb_assetIssuer = issuer\<rparr>
     | PoolLine b \<Rightarrow> \<lparr>wb_asset = ''LIQUIDITY_POOL'', wb_balance = b, wb_assetIssuer = None\<rparr>)"

definition live_balances :: "account_env \<Rightarrow> string \<Rightarrow> ('a chain_scheme, wallet_balance list) op" where
  "live_balances E publicKey =
     bindE (gets calls) (\<lambda>n.
     bindE (modify (\<lambda>s. s\<lparr>calls := Suc n\<rparr>)) (\<lambda>_.
     case ac_loadAccount E n publicKey of
       AccountFound ls \<Rightarrow> ret (map wallet_line ls)
     | AccountError status \<Rightarrow> if status = Some 404 then ret []
         else throw (PlainError ''Failed to fetch Stellar wallet balances'')))"

definition roundToTwo :: "rat \<Rightarrow> rat" where
  "roundToTwo v = parse_float (to_fixed 2 v)"

definition getSafeRate :: "account_env \<Rightarrow> string \<Rightarrow> string \<Rightarrow> rat" where
  "getSafeRate E from to = (case ac_rate E from to of Inl _ \<Rightarrow> 0 | Inr r \<Rightarrow> r)"

definition mapWalletBalance :: "account_env \<Rightarrow> wallet_balance \<Rightarrow> valued_balance" where
  "mapWalletBalance E b =
     (let amount = parse_float (wb_balance b);
          value = (\<lambda>cur. if amount \<le> 0 then 0 else roundToTwo (js_mul amount (getSafeRate E (wb_asset b) cur)))
      in wallet_balance.extend b \<lparr>wb_valueUSD = value ''USD'', wb_valueNGN = value ''NGN''\<rparr>)"

definition walletBalancesTtlMs :: int where
  "walletBalancesTtlMs = 30000"

definition service_getWalletBalances ::
    "account_env \<Rightarrow> int \<Rightarrow> bool \<Rightarrow> string \<Rightarrow> ('a account_state_scheme, balances_payload \<times> bool) op" where
  "service_getWalletBalances E now forceRefresh userId =
     bindE (existing_user userId) (\<lambda>user.
     bindE (gets (\<lambda>s. tbl_find userId (walletBalancesCache s))) (\<lambda>cached.
     case (if forceRefresh then None else
         (case cached of None \<Rightarrow> None | Some (expiresAt, p) \<Rightarrow> if now < expiresAt then Some p else None)) of
       Some p \<Rightarrow> ret (p, True)
     | None \<Rightarrow>
        bindE (live_balances E (u_walletPublicKey user)) (\<lambda>raw.
        let balances = map (mapWalletBalance E) raw;
            p = \<lparr>bp_walletPublicKey = u_walletPublicKey user, bp_isFunded = (0 < length raw), bp_balances = balances,
              bp_totalValueUSD = roundToTwo (foldl (\<lambda>sum b. js_add sum (wb_valueUSD b)) 0 balances),
              bp_totalValueNGN = roundToTwo (foldl (\<lambda>sum b. js_add sum (wb_valueNGN b)) 0 balances),
              bp_fetchedAt = now\<rparr>
        in bindE (modify (\<lambda>s. s\<lparr>walletBalancesCache :=
             tbl_save userId (now + walletBalancesTtlMs, p) (walletBalancesCache s)\<rparr>)) (\<lambda>_. ret (p, False)))))"

definition getWalletPortfolio ::
    "account_env \<Rightarrow> int \<Rightarrow> string \<Rightarrow> ('a account_state_scheme, balances_payload \<times> bool \<times> holding list) op" where
  "getWalletPortfolio E now userId =
     bindE (service_getWalletBalances E now False userId) (\<lambda>(p, cached).
     let tot = bp_totalValueUSD p in
     ret (p, cached, map (\<lambda>b. \<lparr>ho_asset = wb_asset b, ho_balance = wb_balance b, ho_assetIssuer = wb_assetIssuer b,
       ho_valueUSD = wb_valueUSD b, ho_valueNGN = wb_valueNGN b,
       ho_percentageOfPortfolio = (if 0 < tot then roundToTwo (js_mul (js_div (wb_valueUSD b) tot) 100) else 0)\<rparr>)
       (bp_balances p)))"

subsection \<open>The job that copies balances from the network\<close>

definition snapshot_key :: "wallet_balance \<Rightarrow> string" where
  "snapshot_key b = (if truthy (wb_assetIssuer b) then wb_asset b @ '':'' @ the (wb_assetIssuer b) else wb_asset b)"

definition toSnapshotBalances :: "wallet_balance list \<Rightarrow> (string \<Rightarrow> rat option)" where
  "toSnapshotBalances bs = foldl (\<lambda>m b. m(snapshot_key b \<mapsto> parse_float (wb_balance b))) Map.empty bs"

definition sync_user :: "account_env \<Rightarrow> int \<Rightarrow> string \<Rightarrow> user \<Rightarrow> ('a chain_scheme, bool) op" where
  "sync_user E now i user =
     tryE (bindE (live_balances E (u_walletPublicKey user)) (\<lambda>live.
           bindE (modify (updateByUserId i (\<lambda>u. u\<lparr>u_balances := toSnapshotBalances live, u_balanceLastSyncedAt := Some now\<rparr>))) (\<lambda>_.
           ret True)))
       (\<lambda>_. ret False)"

fun sync_users :: "account_env \<Rightarrow> int \<Rightarrow> (string \<times> user) list \<Rightarrow> nat \<times> nat \<Rightarrow> ('a chain_scheme, nat \<times> nat) op" where
  "sync_users E now [] counts = ret counts"
| "sync_users E now ((i, u) # us) (updated, failed) =
     bindE (sync_user E now i u) (\<lambda>ok.
     sync_users E now us (if ok then (updated + 1, failed) else (updated, failed + 1)))"

definition syncWalletBalanceSnapshots :: "account_env \<Rightarrow> int \<Rightarrow> ('a chain_scheme, nat \<times> nat \<times> nat) op" where
  "syncWalletBalanceSnapshots E now =
     bindE (gets users) (\<lambda>us.
     bindE (sync_users E now us (0, 0)) (\<lambda>(updated, failed).
     ret (length us, updated, failed)))"

section \<open>Administration\<close>

definition page_of :: "int option \<Rightarrow> int" where
  "page_of p = (case p of None \<Rightarrow> 1 | Some n \<Rightarrow> if 1 \<le> n then n else 1)"

definition limit_of :: "int option \<Rightarrow> int" where
  "limit_of l = (let n = (case l of None \<Rightarrow> 10 | Some n \<Rightarrow> if 1 \<le> n then n else 10) in if 100 < n then 100 else n)"

definition admin_matches :: "account_env \<Rightarrow> string option \<Rightarrow> user_role option \<Rightarrow> bool option \<Rightarrow> user \<Rightarrow> bool" where
  "admin_matches E search role isActive u \<longleftrightarrow>
     (truthy search \<longrightarrow> (let pat = ''%'' @ the search @ ''%'' in
        ac_ilike E (u_email u) pat \<or> (case u_firstName u of None \<Rightarrow> False | Some n \<Rightarrow> ac_ilike E n pat) \<or>
        (case u_lastName u of None \<Rightarrow> False | Some n \<Rightarrow> ac_ilike E n pat))) \<and>
     (case role of None \<Rightarrow> True | Some r \<Rightarrow> u_role u = r) \<and>
     (case isActive of None \<Rightarrow> True | Some a \<Rightarrow> u_isActive u = a)"

definition findAdminUsers ::
    "account_env \<Rightarrow> int option \<Rightarrow> int option \<Rightarrow> string option \<Rightarrow> user_role option \<Rightarrow> bool option \<Rightarrow>
      ('a base_scheme, user list \<times> nat \<times> int \<times> int \<times> int) op" where
  "findAdminUsers E page limit search role isActive =
     gets (\<lambda>s.
       let p = page_of page; l = limit_of limit;
           found = sort_key (\<lambda>u. - u_createdAt u) (filter (admin_matches E search role isActive) (map snd (users s)));
           count = length found
       in (map excludeSecrets (take (nat l) (drop (nat ((p - 1) * l)) found)), count, p, l, \<lceil>of_nat count / (of_int l :: rat)\<rceil>))"

definition getRateLimitStatus :: "account_env \<Rightarrow> string \<Rightarrow> ('a account_state_scheme, rate_limit_status) op" where
  "getRateLimitStatus E userId =
     bindE (existing_user userId) (\<lambda>user.
     bindE (gets (\<lambda>s. map_of (rateLimitConfigs s) (u_plan user))) (\<lambda>config.
     let isUnlimited = (config = None \<or> config = Some None);
         limitPerMinute = (case config of Some (Some n) \<Rightarrow> n | _ \<Rightarrow> 60);
         entry = ac_throttler E (''user:'' @ userId);
         used = (case entry of None \<Rightarrow> 0 | Some (n, e) \<Rightarrow> n)
     in ret \<lparr>rl_plan = u_plan user, rl_limitPerMinute = (if isUnlimited then None else Some limitPerMinute),
          rl_usedInCurrentWindow = used, rl_remaining = (if isUnlimited then None else Some (max 0 (limitPerMinute - used))),
          rl_resetAt = (case entry of None \<Rightarrow> None | Some (n, e) \<Rightarrow> e), rl_isUnlimited = isUnlimited\<rparr>))"

section \<open>Normal forms of addresses and codes\<close>

lemma ascii_lower_idem [simp]: "ascii_lower (ascii_lower c) = ascii_lower c"
  by (auto simp: ascii_lower_def)

lemma is_space_lower [simp]: "is_space (ascii_lower c) = is_space c"
  by (auto simp: ascii_lower_def is_space_def)

lemma dropWhile_space_lower: "dropWhile is_space (map ascii_lower s) = map ascii_lower (dropWhile is_space s)"
  by (induction s) auto

lemma trim_lower: "trim (map ascii_lower s) = map ascii_lower (trim s)"
  by (simp add: trim_def dropWhile_space_lower rev_map)

lemma dropWhile_fix: "(xs = [] \<or> \<not> P (hd xs)) \<Longrightarrow> dropWhile P xs = xs"
  by (cases xs) auto

lemma trim_idem [simp]: "trim (trim s) = trim s"
proof -
  let ?a = "dropWhile is_space s" and ?b = "rev (dropWhile is_space (rev (dropWhile is_space s)))"
  have "?b = [] \<or> \<not> is_space (hd ?b)"
  proof (cases "?b = []")
    case False
    have "\<exists>ws. rev ?a = ws @ dropWhile is_space (rev ?a)" by (metis takeWhile_dropWhile_id)
    then obtain ws where "?a = ?b @ rev ws" by (metis rev_append rev_rev_ident)
    with False have "hd ?b = hd ?a" "?a \<noteq> []" by (metis hd_append2, metis append_is_Nil_conv)
    with hd_dropWhile [of is_space s] show ?thesis by simp
  qed simp
  then have "dropWhile is_space ?b = ?b" by (rule dropWhile_fix)
  then show ?thesis by (simp add: trim_def dropWhile_idem)
qed

lemma normal_email_idem [simp]: "normal_email (normal_email e) = normal_email e"
  by (simp add: normal_email_def trim_lower comp_def)

lemma findByEmail_normal: "findByEmail e s = List.find (\<lambda>(i, u). u_email u = normal_email e) (users s)"
  by (simp add: findByEmail_def normal_email_def)

section \<open>Well-formed accounts\<close>

text \<open>What the table of users promises: ids the generator made, distinct e-mail addresses in normal form, distinct
  referral codes, distinct telephone numbers, and a hash in the column that may not be null.\<close>

definition rows_wf :: "(nat \<Rightarrow> string) \<Rightarrow> nat \<Rightarrow> user table \<Rightarrow> bool" where
  "rows_wf uuid n us \<longleftrightarrow> distinct (map fst us) \<and> fst ` set us \<subseteq> uuid ` {..<n} \<and>
     distinct (map (u_email \<circ> snd) us) \<and> distinct (map (u_referralCode \<circ> snd) us) \<and>
     distinct (filter (\<lambda>p. p \<noteq> None) (map (u_phone \<circ> snd) us)) \<and>
     (\<forall>(i, u)\<in>set us. normal_email (u_email u) = u_email u \<and> u_passwordHash u \<noteq> None)"

definition accounts_wf :: "(nat \<Rightarrow> string) \<Rightarrow> 'a chain_scheme \<Rightarrow> bool" where
  "accounts_wf uuid s \<longleftrightarrow> inj uuid \<and> rows_wf uuid (calls s) (users s)"

text \<open>The columns the constraints are about.\<close>

definition same_keys :: "(user \<Rightarrow> user) \<Rightarrow> bool" where
  "same_keys f \<longleftrightarrow> (\<forall>u. u_email (f u) = u_email u \<and> u_referralCode (f u) = u_referralCode u \<and> u_phone (f u) = u_phone u \<and>
     (u_passwordHash u \<noteq> None \<longrightarrow> u_passwordHash (f u) \<noteq> None))"

lemma tbl_update_map: "(\<And>u. k (f u) = k u) \<Longrightarrow> map (k \<circ> snd) (tbl_update i f us) = map (k \<circ> snd) us"
  by (induction us) (auto simp: tbl_update_def)

lemma rows_wf_update:
  assumes "same_keys f" and "rows_wf uuid n us"
  shows "rows_wf uuid n (tbl_update i f us)"
proof -
  from assms(1) have k: "map (u_email \<circ> snd) (tbl_update i f us) = map (u_email \<circ> snd) us"
    "map (u_referralCode \<circ> snd) (tbl_update i f us) = map (u_referralCode \<circ> snd) us"
    "map (u_phone \<circ> snd) (tbl_update i f us) = map (u_phone \<circ> snd) us"
    unfolding same_keys_def by (simp_all add: tbl_update_map)
  have "fst ` set (tbl_update i f us) = fst ` set us" by (metis list.set_map tbl_update_keys)
  moreover have "\<forall>(j, u)\<in>set (tbl_update i f us). normal_email (u_email u) = u_email u \<and> u_passwordHash u \<noteq> None"
    using assms by (auto simp: rows_wf_def same_keys_def tbl_update_def split: if_splits)
  ultimately show ?thesis using assms(2) by (simp add: rows_wf_def k)
qed

lemma rows_wf_mono: "rows_wf uuid m us \<Longrightarrow> m \<le> n \<Longrightarrow> rows_wf uuid n us"
  unfolding rows_wf_def by (meson image_mono lessThan_subset_iff order_trans)

lemma distinct_sub: "distinct (map k xs) \<Longrightarrow> distinct (map k (filter P xs))"
  by (induction xs) auto

lemma rows_wf_filter: "rows_wf uuid n us \<Longrightarrow> rows_wf uuid n (filter P us)"
  using distinct_sub [of "u_phone \<circ> snd" "filter (\<lambda>x. u_phone (snd x) \<noteq> None) us" P]
  unfolding rows_wf_def by (auto simp: distinct_sub filter_map comp_def conj_commute)

lemma rows_wf_insert:
  assumes wf: "rows_wf uuid n us" and inj: "inj uuid" and u: "normal_email (u_email u) = u_email u" "u_passwordHash u \<noteq> None"
    and new: "u_email u \<notin> u_email ` set (map snd us)" "u_referralCode u \<notin> u_referralCode ` set (map snd us)"
      "u_phone u = None \<or> u_phone u \<notin> u_phone ` set (map snd us)"
  shows "rows_wf uuid (Suc n) (tbl_save (uuid n) u us)"
proof -
  have "uuid n \<notin> fst ` set us" using wf inj by (auto simp: rows_wf_def inj_eq)
  then have t: "tbl_save (uuid n) u us = us @ [(uuid n, u)]" by (intro tbl_save_new) (simp add: tbl_find_None_keys)
  from rows_wf_mono [OF wf, of "Suc n"] \<open>uuid n \<notin> fst ` set us\<close> u new show ?thesis
    unfolding rows_wf_def t by (auto simp: image_iff)
qed

subsection \<open>Every operation keeps them\<close>

lemma wf_update [intro]: "same_keys f \<Longrightarrow> accounts_wf uuid s \<Longrightarrow> accounts_wf uuid (updateByUserId i f s)"
  by (simp add: accounts_wf_def updateByUserId_def rows_wf_update)

lemma preserves_existing_user [pres]: "preserves P (existing_user i)"
  unfolding existing_user_def by (intro pres)

lemma preserves_modify_update [pres]: "same_keys f \<Longrightarrow> preserves (accounts_wf uuid) (modify (updateByUserId i f))"
  by (intro pres) auto

lemma preserves_change_user: "same_keys f \<Longrightarrow> preserves (accounts_wf uuid) (change_user i f)"
  unfolding change_user_def by (intro pres)

lemma accounts_wf_calls: "accounts_wf uuid s \<Longrightarrow> accounts_wf uuid (s\<lparr>calls := Suc (calls s)\<rparr>)"
  by (auto simp: accounts_wf_def intro: rows_wf_mono)

lemma preserves_bcrypt [pres]: "preserves (accounts_wf uuid) (bcrypt_hash E p)"
  by (simp add: preserves_def bcrypt_hash_def accounts_wf_calls)

lemma preserves_updatePassword [pres]: "preserves (accounts_wf uuid) (updatePassword E i p)"
  unfolding updatePassword_def by (intro pres) (simp add: same_keys_def)

lemma preserves_user_changes [pres]:
  "preserves (accounts_wf uuid) (verifyUser i)" "preserves (accounts_wf uuid) (updateRole i r)"
  "preserves (accounts_wf uuid) (deleteProfile i)" "preserves (accounts_wf uuid) (softDelete i)"
  by (auto simp: verifyUser_def updateRole_def deleteProfile_def softDelete_def same_keys_def intro!: preserves_change_user)

lemma preserves_profile_ops [pres]:
  "preserves (accounts_wf uuid) (update_user i ev f)" if "same_keys f" for f
  unfolding update_user_def using that
  by (intro pres preserves_modify_update) (auto simp: Let_def same_keys_def preserves_modify_update split: option.splits)

lemma preserves_tokens [pres]:
  "preserves (accounts_wf uuid) (registerDeviceToken i t)" "preserves (accounts_wf uuid) (removeDeviceToken i t)"
  "preserves (accounts_wf uuid) (updateFcmToken i t)" "preserves (accounts_wf uuid) (getProfile i)"
  "preserves (accounts_wf uuid) (updateUserStatus i b)" "preserves (accounts_wf uuid) (updateUserRole i r)"
  unfolding registerDeviceToken_def removeDeviceToken_def updateFcmToken_def getProfile_def updateUserStatus_def updateUserRole_def
  by (intro pres preserves_change_user; simp add: same_keys_def)+

lemma preserves_updateProfile [pres]: "preserves (accounts_wf uuid) (updateProfile i a b c)"
  unfolding updateProfile_def by (intro pres) (simp add: same_keys_def)

lemma preserves_preferences [pres]: "preserves (accounts_wf uuid) (updateNotificationPreferences i a b c d e)"
  unfolding updateNotificationPreferences_def Let_def by (intro pres) (simp add: same_keys_def)

lemma wf_delete: "accounts_wf uuid s \<Longrightarrow> accounts_wf uuid (deleteById i s)"
  by (simp add: accounts_wf_def deleteById_def tbl_remove_def rows_wf_filter)

lemma preserves_live_balances [pres]: "preserves (accounts_wf uuid) (live_balances E k)"
  by (auto simp: preserves_def live_balances_def bindE_def gets_def modify_def ret_def throw_def accounts_wf_calls
      split: account_answer.splits)

lemma preserves_sync_users [pres]: "preserves (accounts_wf uuid) (sync_users E now us c)"
proof (induction us arbitrary: c)
  case (Cons p us)
  obtain i u where p: "p = (i, u)" by fastforce
  show ?case
    by (cases c) (auto simp: p sync_user_def same_keys_def intro!: pres Cons.IH)
qed (auto intro: pres)

lemma preserves_sync [pres]: "preserves (accounts_wf uuid) (syncWalletBalanceSnapshots E now)"
  unfolding syncWalletBalanceSnapshots_def by (intro pres) (auto intro!: pres split: prod.splits)

lemma createUser_Inr:
  assumes "createUser E now p s = (Inr (i, u), t)"
  shows "\<exists>h n. calls s \<le> n \<and> i = ac_uuid E n \<and> u = user_row p now h \<and> h \<noteq> None \<and>
    findByEmail (normal_email (cu_email p)) s = None \<and>
    u_email u \<notin> u_email ` set (map snd (users s)) \<and> u_referralCode u \<notin> u_referralCode ` set (map snd (users s)) \<and>
    (u_phone u = None \<or> u_phone u \<notin> u_phone ` set (map snd (users s))) \<and>
    users t = tbl_save i u (users s) \<and> calls t = Suc n"
  using assms
  by (auto simp: createUser_def insert_user_def op_iff next_id_def bcrypt_hash_def user_row_def Let_def split: if_splits intro!: exI)

lemma createUser_Inl:
  assumes "createUser E now p s = (Inl e, t)"
  shows "users t = users s \<and> calls s \<le> calls t"
  using assms
  by (auto simp: createUser_def insert_user_def op_iff next_id_def bcrypt_hash_def Let_def split: if_splits)

lemma preserves_createUser [pres]: "preserves (accounts_wf (ac_uuid E)) (createUser E now p)"
  unfolding preserves_def
proof (intro allI impI)
  fix s :: "'a account_state_scheme"
  assume wf: "accounts_wf (ac_uuid E) s"
  obtain r t where c: "createUser E now p s = (r, t)" by fastforce
  show "accounts_wf (ac_uuid E) (snd (createUser E now p s))"
  proof (cases r)
    case (Inl e)
    with c have "users t = users s" "calls s \<le> calls t" using createUser_Inl by metis+
    with wf c show ?thesis by (auto simp: accounts_wf_def intro: rows_wf_mono)
  next
    case (Inr x)
    obtain i u where "x = (i, u)" by fastforce
    with c Inr have c': "createUser E now p s = (Inr (i, u), t)" by simp
    from createUser_Inr [OF c'] obtain h n where "calls s \<le> n" "i = ac_uuid E n" and u: "u = user_row p now h" "h \<noteq> None"
      and new: "u_email u \<notin> u_email ` set (map snd (users s))" "u_referralCode u \<notin> u_referralCode ` set (map snd (users s))"
        "u_phone u = None \<or> u_phone u \<notin> u_phone ` set (map snd (users s))"
      and t: "users t = tbl_save i u (users s)" "calls t = Suc n" by blast
    have "rows_wf (ac_uuid E) n (users s)" using wf \<open>calls s \<le> n\<close> by (auto simp: accounts_wf_def intro: rows_wf_mono)
    from rows_wf_insert [OF this _ _ _ new] wf u have "rows_wf (ac_uuid E) (Suc n) (tbl_save (ac_uuid E n) u (users s))"
      by (simp add: accounts_wf_def user_row_def)
    with wf c' t \<open>i = ac_uuid E n\<close> show ?thesis by (simp add: accounts_wf_def)
  qed
qed

datatype account_event =
    Create int create_user_params
  | Delete string
  | SetPassword string string
  | VerifyAccount string
  | SetRole string user_role
  | SetStatus string bool
  | EditProfile string "string option" "string option" "string option"
  | CloseProfile string
  | Deactivate string
  | AddDevice string string
  | DropDevice string string
  | FcmToken string string
  | Preferences string "bool option" "bool option" "bool option" "bool option" "bool option"
  | SyncBalances int

fun account_step :: "account_env \<Rightarrow> account_event \<Rightarrow> account_state \<Rightarrow> account_state" where
  "account_step E (Create now p) s = snd (createUser E now p s)"
| "account_step E (Delete i) s = deleteById i s"
| "account_step E (SetPassword i p) s = snd (updatePassword E i p s)"
| "account_step E (VerifyAccount i) s = snd (verifyUser i s)"
| "account_step E (SetRole i r) s = snd (updateUserRole i r s)"
| "account_step E (SetStatus i b) s = snd (updateUserStatus i b s)"
| "account_step E (EditProfile i a b c) s = snd (updateProfile i a b c s)"
| "account_step E (CloseProfile i) s = snd (deleteProfile i s)"
| "account_step E (Deactivate i) s = snd (softDelete i s)"
| "account_step E (AddDevice i t) s = snd (registerDeviceToken i t s)"
| "account_step E (DropDevice i t) s = snd (removeDeviceToken i t s)"
| "account_step E (FcmToken i t) s = snd (updateFcmToken i t s)"
| "account_step E (Preferences i a b c d e) s = snd (updateNotificationPreferences i a b c d e s)"
| "account_step E (SyncBalances now) s = snd (syncWalletBalanceSnapshots E now s)"

lemma preserves_snd: "preserves P m \<Longrightarrow> P s \<Longrightarrow> P (snd (m s))"
  by (simp add: preserves_def)

interpretation account_run: invariant_system "account_step E" "\<lambda>_. True" "accounts_wf (ac_uuid E)" for E
proof unfold_locales
  fix s :: account_state and e
  assume wf: "accounts_wf (ac_uuid E) s"
  show "accounts_wf (ac_uuid E) (account_step E e s)"
  proof (cases e)
    case (Delete i)
    with wf show ?thesis by (simp add: wf_delete)
  qed (use wf in \<open>simp_all add: preserves_snd pres\<close>)
qed

section \<open>What the balance job does to the money\<close>

lemma sync_user_rows:
  assumes "sync_user E now i u s = (r, t)"
  shows "users t = users s \<and> r = Inr False \<or>
    r = Inr True \<and> (\<exists>ls. users t = tbl_update i (\<lambda>w. w\<lparr>u_balances := toSnapshotBalances ls, u_balanceLastSyncedAt := Some now\<rparr>) (users s) \<and>
      (ls = [] \<and> ac_loadAccount E (calls s) (u_walletPublicKey u) = AccountError (Some 404) \<or>
       (\<exists>bs. ac_loadAccount E (calls s) (u_walletPublicKey u) = AccountFound bs \<and> ls = map wallet_line bs)))"
  using assms
  by (cases "ac_loadAccount E (calls s) (u_walletPublicKey u)")
    (auto simp: sync_user_def live_balances_def tryE_def bindE_def gets_def modify_def ret_def throw_def updateByUserId_def
      split: if_splits)

lemma sync_users_other:
  "sync_users E now us c s = (r, t) \<Longrightarrow> i \<notin> fst ` set us \<Longrightarrow> findById i t = findById i s"
proof (induction us arbitrary: c s)
  case (Cons p us)
  obtain j u where p: "p = (j, u)" by fastforce
  obtain a b where c: "c = (a, b)" by fastforce
  obtain r1 s1 where y: "sync_user E now j u s = (r1, s1)" by fastforce
  from sync_user_rows [OF y] Cons.prems(2) have f: "findById i s1 = findById i s"
    by (auto simp: p findById_def tbl_simps)
  from sync_user_rows [OF y] obtain ok where "r1 = Inr ok" by auto
  with Cons.prems(1) y have "sync_users E now us (if ok then (a + 1, b) else (a, b + 1)) s1 = (r, t)"
    by (simp add: p c bindE_def)
  from Cons.IH [OF this] Cons.prems(2) f show ?case by simp
qed (auto simp: ret_def)

lemma sync_users_mine:
  "sync_users E now us c s = (r, t) \<Longrightarrow> distinct (map fst us) \<Longrightarrow> (i, u) \<in> set us \<Longrightarrow> findById i s = Some w \<Longrightarrow>
    (\<And>n. ac_loadAccount E n (u_walletPublicKey u) = AccountFound bs) \<Longrightarrow>
    findById i t = Some (w\<lparr>u_balances := toSnapshotBalances (map wallet_line bs), u_balanceLastSyncedAt := Some now\<rparr>)"
proof (induction us arbitrary: c s)
  case (Cons p us)
  obtain j v where p: "p = (j, v)" by fastforce
  obtain a b where c: "c = (a, b)" by fastforce
  obtain r1 s1 where y: "sync_user E now j v s = (r1, s1)" by fastforce
  from sync_user_rows [OF y] obtain ok where "r1 = Inr ok" by auto
  with Cons.prems(1) y have rest: "sync_users E now us (if ok then (a + 1, b) else (a, b + 1)) s1 = (r, t)"
    by (simp add: p c bindE_def)
  show ?case
  proof (cases "j = i")
    case True
    with Cons.prems(2,3) p have v: "v = u" and i: "i \<notin> fst ` set us" by (auto simp: rev_image_eqI)
    from y Cons.prems(5) v have "users s1 = tbl_update i (\<lambda>w. w\<lparr>u_balances := toSnapshotBalances (map wallet_line bs),
        u_balanceLastSyncedAt := Some now\<rparr>) (users s)"
      by (auto simp: True sync_user_def live_balances_def tryE_def bindE_def gets_def modify_def ret_def updateByUserId_def)
    with Cons.prems(4) sync_users_other [OF rest i] show ?thesis by (simp add: findById_def tbl_simps)
  next
    case False
    from sync_user_rows [OF y] False Cons.prems(4) have "findById i s1 = Some w"
      by (auto simp: findById_def tbl_simps)
    with Cons.IH [OF rest] Cons.prems False p show ?thesis by auto
  qed
qed simp

lemma sync_totals:
  "sync_users E now us (a, b) s = (r, t) \<Longrightarrow> \<exists>m n. r = Inr (m, n) \<and> m + n = a + b + length us"
proof (induction us arbitrary: a b s)
  case (Cons p us)
  obtain j v where p: "p = (j, v)" by fastforce
  obtain r1 s1 where y: "sync_user E now j v s = (r1, s1)" by fastforce
  from sync_user_rows [OF y] obtain ok where "r1 = Inr ok" by auto
  with Cons.prems y have "sync_users E now us (if ok then (a + 1, b) else (a, b + 1)) s1 = (r, t)"
    by (simp add: p bindE_def)
  with Cons.IH [of "if ok then a + 1 else a" "if ok then b else b + 1" s1] show ?case by (cases ok) auto
qed (auto simp: ret_def)

text \<open>A concrete directory for the witnesses: one user, and a network on which every account holds three lumens.\<close>

definition demo_account_env :: account_env where
  "demo_account_env = \<lparr>ac_uuid = demo_uuid, ac_bcrypt = (\<lambda>n p. p), ac_loadAccount = (\<lambda>n k. AccountFound [NativeLine 3]),
     ac_rate = (\<lambda>a b. Inr 1), ac_ilike = (\<lambda>a b. a = b), ac_throttler = (\<lambda>k. None)\<rparr>"

definition demo_account_state :: account_state where
  "demo_account_state = referral_state.extend
     (demo_referral_state\<lparr>users := [(''x'', (demo_user 5)\<lparr>u_balances := [''XLM'' \<mapsto> 5, ''USD'' \<mapsto> 7]\<rparr>)], calls := 2\<rparr>)
     \<lparr>walletBalancesCache = [], preferenceDefaults = [], rateLimitConfigs = []\<rparr>"

lemma demo_account_users:
  "users demo_account_state = [(''x'', (demo_user 5)\<lparr>u_balances := [''XLM'' \<mapsto> 5, ''USD'' \<mapsto> 7]\<rparr>)]"
  "calls demo_account_state = 2"
  by (simp_all add: demo_account_state_def referral_state.defs)

lemma demo_account_wf: "accounts_wf (ac_uuid demo_account_env) demo_account_state"
proof -
  have "normal_email ''bob@x.io'' = ''bob@x.io''" by code_simp
  moreover have "''x'' \<in> demo_uuid ` {..<2}" by (rule image_eqI [of _ _ 1]) (simp_all add: demo_uuid_def)
  ultimately show ?thesis
    by (simp add: accounts_wf_def rows_wf_def demo_account_users demo_account_env_def demo_uuid_inj demo_user_def)
qed

section \<open>Properties\<close>



text \<open>The balance job replaces the balances of a user by those of the wallet on the network: for a user whose
  account is found, a currency without a line there reads zero afterwards and one with a line reads that
  line, whatever deposits, vaults, loans and escrows had booked before; and every user is counted once, as
  updated or failed.\<close>

theorem accounts_sync_replaces:
  assumes "distinct (map fst (users s))" and "findById i s = Some u"
    and "\<And>n. ac_loadAccount E n (u_walletPublicKey u) = AccountFound bs"
  shows "\<exists>t m n. syncWalletBalanceSnapshots E now s = (Inr (length (users s), m, n), t) \<and> m + n = length (users s) \<and>
    user_balance i c t = (case toSnapshotBalances (map wallet_line bs) c of None \<Rightarrow> 0 | Some x \<Rightarrow> x)"
proof -
  obtain r t where y: "sync_users E now (users s) (0, 0) s = (r, t)" by fastforce
  from sync_totals [OF y] obtain m n where r: "r = Inr (m, n)" "m + n = length (users s)" by auto
  have "(i, u) \<in> set (users s)" using assms(2) by (simp add: findById_def tbl_find_in)
  from sync_users_mine [OF y assms(1) this assms(2,3)]
  have "user_balance i c t = (case toSnapshotBalances (map wallet_line bs) c of None \<Rightarrow> 0 | Some x \<Rightarrow> x)"
    by (simp add: user_balance_def balance_of_def)
  with y r show ?thesis by (auto simp: syncWalletBalanceSnapshots_def bindE_def gets_def ret_def)
qed

theorem accounts_sync_replaces_witness:
  "\<exists>r t. syncWalletBalanceSnapshots demo_account_env 9 demo_account_state = (r, t) \<and>
     user_balance ''x'' ''XLM'' demo_account_state = 5 \<and> user_balance ''x'' ''XLM'' t = 3 \<and>
     user_balance ''x'' ''USD'' demo_account_state = 7 \<and> user_balance ''x'' ''USD'' t = 0"
proof -
  let ?u = "(demo_user 5)\<lparr>u_balances := [''XLM'' \<mapsto> 5, ''USD'' \<mapsto> (7::rat)]\<rparr>"
  have d: "distinct (map fst (users demo_account_state))" and f: "findById ''x'' demo_account_state = Some ?u"
    by (simp_all add: demo_account_users findById_def tbl_find_def)
  have a: "\<And>n. ac_loadAccount demo_account_env n (u_walletPublicKey ?u) = AccountFound [NativeLine 3]"
    by (simp add: demo_account_env_def)
  have "parse_float 3 = (3::rat)" by code_simp
  then have b: "toSnapshotBalances (map wallet_line [NativeLine 3]) = [''XLM'' \<mapsto> 3]"
    by (simp add: toSnapshotBalances_def snapshot_key_def wallet_line_def truthy_def)
  from accounts_sync_replaces [OF d f a, of 9 "''XLM''"] accounts_sync_replaces [OF d f a, of 9 "''USD''"] f b
  show ?thesis by (auto simp: user_balance_def balance_of_def)
qed

end
