(* ===== verification/Encryption.thy ===== *)
theory Encryption
  imports Stellar
begin

text \<open>
  Secrets at rest (\<open>common/services/encryption.service.ts\<close>, \<open>common/utils/encryption.util.ts\<close>). A text is the
  list of the bytes of its UTF-8 form. The cipher AES-256-GCM and the random bytes are parameters
  (\<open>cipher_env\<close>); the buffers of the platform (hexadecimal and base64 text, \<open>subarray\<close>) are
  definitions. Base64 is bit by bit: the bits of the bytes, cut into groups of six, padded with \<open>=\<close>; reading
  skips every character that is not a digit.
\<close>

section \<open>Buffers\<close>

fun char_bits :: "char \<Rightarrow> bool list" where
  "char_bits (Char b0 b1 b2 b3 b4 b5 b6 b7) = [b7, b6, b5, b4, b3, b2, b1, b0]"

fun sextets :: "bool list \<Rightarrow> bool list list" where
  "sextets [] = []"
| "sextets (a # b # c # d # e # f # xs) = [a, b, c, d, e, f] # sextets xs"
| "sextets xs = [take 6 (xs @ replicate 6 False)]"

fun octets :: "bool list \<Rightarrow> string" where
  "octets (a # b # c # d # e # f # g # h # xs) = Char h g f e d c b a # octets xs"
| "octets xs = []"

definition base64_alphabet :: string where
  "base64_alphabet = ''ABCDEFGHIJKLMNOPQRSTUVWXYZabcdefghijklmnopqrstuvwxyz0123456789+/''"

definition bits_nat :: "bool list \<Rightarrow> nat" where
  "bits_nat bs = foldl (\<lambda>n b. 2 * n + of_bool b) 0 bs"

definition digit_bits :: "nat \<Rightarrow> bool list" where
  "digit_bits n = map (\<lambda>k. odd (n div 2 ^ k)) [5, 4, 3, 2, 1, 0]"

definition base64_value :: "char \<Rightarrow> nat option" where
  "base64_value c = (if c = CHR ''-'' then Some 62 else if c = CHR ''_'' then Some 63
     else map_of (zip base64_alphabet [0..<64]) c)"

definition to_base64 :: "string \<Rightarrow> string" where
  "to_base64 s = (let cs = map (\<lambda>bs. base64_alphabet ! bits_nat bs) (sextets (concat (map char_bits s)))
     in cs @ replicate ((4 - length cs mod 4) mod 4) CHR ''='')"

definition from_base64 :: "string \<Rightarrow> string" where
  "from_base64 t = octets (concat (map digit_bits (List.map_filter base64_value t)))"

definition hex_value :: "char \<Rightarrow> nat option" where
  "hex_value c = map_of (zip ''0123456789abcdefABCDEF'' ([0..<16] @ [10..<16])) c"

text \<open>\<open>Buffer.from(s, 'hex')\<close> stops at the first pair that is not hexadecimal.\<close>

fun hex_bytes :: "string \<Rightarrow> string" where
  "hex_bytes (a # b # xs) = (case (hex_value a, hex_value b) of
     (Some x, Some y) \<Rightarrow> char_of (16 * x + y) # hex_bytes xs
   | _ \<Rightarrow> [])"
| "hex_bytes _ = []"

section \<open>The service\<close>

record cipher_env =
  gcm_seal :: "string \<Rightarrow> string \<Rightarrow> string \<Rightarrow> string \<times> string"
  gcm_open :: "string \<Rightarrow> string \<Rightarrow> string \<Rightarrow> string \<Rightarrow> string option"
  randomBytes :: "nat \<Rightarrow> string"
  WALLET_ENCRYPTION_KEY :: "string option"

definition IV_LENGTH :: nat where
  "IV_LENGTH = 16"

definition AUTH_TAG_LENGTH :: nat where
  "AUTH_TAG_LENGTH = 16"

definition getWalletEncryptionKey :: "string \<Rightarrow> exn + string" where
  "getWalletEncryptionKey keyHex =
     (if keyHex = [] then Inl (PlainError ''WALLET_ENCRYPTION_KEY environment variable is not set'')
      else if length keyHex \<noteq> 64 then Inl (PlainError ''WALLET_ENCRYPTION_KEY must be a 64-character hex string (256 bits)'')
      else Inr (hex_bytes keyHex))"

text \<open>The cipher refuses a key that is not of 32 bytes.\<close>

definition encryptWithAes256Gcm :: "cipher_env \<Rightarrow> string \<Rightarrow> string \<Rightarrow> ('a chain_scheme, string) op" where
  "encryptWithAes256Gcm C plaintext keyHex =
     bindE (from_sum (getWalletEncryptionKey keyHex)) (\<lambda>key.
     bindE (gets calls) (\<lambda>n.
     bindE (modify (\<lambda>s. s\<lparr>calls := Suc n\<rparr>)) (\<lambda>_.
     let iv = randomBytes C n in
     bindE (require (length key = 32) (PlainError ''Invalid key length'')) (\<lambda>_.
     let (encrypted, authTag) = gcm_seal C key iv plaintext
     in ret (to_base64 (iv @ authTag @ encrypted))))))"

definition decryptWithAes256Gcm :: "cipher_env \<Rightarrow> string \<Rightarrow> string \<Rightarrow> ('s, string) op" where
  "decryptWithAes256Gcm C encryptedData keyHex =
     bindE (from_sum (getWalletEncryptionKey keyHex)) (\<lambda>key.
     let combined = from_base64 encryptedData;
         iv = take IV_LENGTH combined;
         authTag = take AUTH_TAG_LENGTH (drop IV_LENGTH combined);
         ciphertext = drop (IV_LENGTH + AUTH_TAG_LENGTH) combined
     in bindE (require (length key = 32) (PlainError ''Invalid key length'')) (\<lambda>_.
        bindE (require (length authTag = AUTH_TAG_LENGTH) (PlainError ''Invalid authentication tag length'')) (\<lambda>_.
        from_option (PlainError ''Unsupported state or unable to authenticate data'') (gcm_open C key iv authTag ciphertext))))"

definition getEncryptionKeyHex :: "cipher_env \<Rightarrow> exn + string" where
  "getEncryptionKeyHex C =
     (if truthy (WALLET_ENCRYPTION_KEY C) then Inr (the (WALLET_ENCRYPTION_KEY C))
      else Inl (PlainError ''WALLET_ENCRYPTION_KEY environment variable is not set''))"

definition encrypt :: "cipher_env \<Rightarrow> string \<Rightarrow> ('a chain_scheme, string) op" where
  "encrypt C plaintext = bindE (from_sum (getEncryptionKeyHex C)) (\<lambda>k. encryptWithAes256Gcm C plaintext k)"

definition decrypt :: "cipher_env \<Rightarrow> string \<Rightarrow> ('s, string) op" where
  "decrypt C encryptedData = bindE (from_sum (getEncryptionKeyHex C)) (\<lambda>k. decryptWithAes256Gcm C encryptedData k)"

section \<open>Base64 is read back\<close>

lemma char_bits_length [simp]: "length (char_bits c) = 8"
  by (cases c) simp

lemma sextets_concat: "\<exists>pad. concat (sextets xs) = xs @ pad \<and> length pad < 6"
  by (induction xs rule: sextets.induct) auto

lemma sextets_six: "bs \<in> set (sextets xs) \<Longrightarrow> length bs = 6"
  by (induction xs rule: sextets.induct) auto

lemma octets_short: "length pad < 8 \<Longrightarrow> octets pad = []"
  by (induction pad rule: octets.induct) auto

lemma octets_bits: "length pad < 8 \<Longrightarrow> octets (concat (map char_bits s) @ pad) = s"
proof (induction s)
  case (Cons c s)
  then show ?case by (cases c) simp
qed (simp add: octets_short)

lemma digit_bits_nat: "length bs = 6 \<Longrightarrow> digit_bits (bits_nat bs) = bs"
proof -
  assume "length bs = 6"
  then obtain a b c d e f where "bs = [a, b, c, d, e, f]" by (auto simp: numeral_eq_Suc length_Suc_conv)
  then show ?thesis
    by (cases a; cases b; cases c; cases d; cases e; cases f; simp add: digit_bits_def bits_nat_def)
qed

lemma bits_nat_less: "length bs = 6 \<Longrightarrow> bits_nat bs < 64"
proof -
  assume "length bs = 6"
  then obtain a b c d e f where "bs = [a, b, c, d, e, f]" by (auto simp: numeral_eq_Suc length_Suc_conv)
  then show ?thesis
    by (cases a; cases b; cases c; cases d; cases e; cases f; simp add: bits_nat_def)
qed

lemma base64_digits: "list_all (\<lambda>n. base64_value (base64_alphabet ! n) = Some n) [0..<64]"
  by code_simp

lemma base64_pad: "base64_value CHR ''='' = None"
  by code_simp

lemma from_to_base64: "from_base64 (to_base64 s) = s"
proof -
  let ?bs = "concat (map char_bits s)"
  have d: "List.map_filter base64_value (map (\<lambda>bs. base64_alphabet ! bits_nat bs) xs) = map bits_nat xs"
    if "\<forall>bs\<in>set xs. length bs = 6" for xs
    using that base64_digits by (induction xs) (auto simp: map_filter_def list_all_iff bits_nat_less)
  have p: "List.map_filter base64_value (replicate n CHR ''='') = []" for n
    by (induction n) (simp_all add: map_filter_def base64_pad)
  have "map digit_bits (map bits_nat (sextets ?bs)) = sextets ?bs"
    by (simp add: map_idI digit_bits_nat sextets_six)
  moreover have "List.map_filter base64_value (to_base64 s) = map bits_nat (sextets ?bs)"
    using d [of "sextets ?bs"] p sextets_six by (auto simp: to_base64_def Let_def map_filter_def)
  ultimately have "from_base64 (to_base64 s) = octets (concat (sextets ?bs))" by (simp add: from_base64_def)
  with sextets_concat [of ?bs] octets_bits [of _ s] show ?thesis by fastforce
qed

section \<open>Properties\<close>

text \<open>C36. A secret that was encrypted is decrypted to itself: with a key of 64 hexadecimal digits and a cipher that opens
  what it sealed, with tags and vectors of the lengths the code asks for, the text \<open>C34. encrypt\<close> returns makes \<open>decrypt\<close>
  return the secret, also after any change of state; with a missing or misshapen key both fail.\<close>

theorem encryption_roundtrip:
  assumes "\<And>k iv p. gcm_open C k iv (snd (gcm_seal C k iv p)) (fst (gcm_seal C k iv p)) = Some p"
    and "\<And>k iv p. length (snd (gcm_seal C k iv p)) = AUTH_TAG_LENGTH" and "\<And>n. length (randomBytes C n) = IV_LENGTH"
  shows "(case WALLET_ENCRYPTION_KEY C of
      Some k \<Rightarrow> if length (hex_bytes k) = 32 \<and> length k = 64
        then \<exists>c t. encrypt C secret s = (Inr c, t) \<and> decrypt C c u = (Inr secret, u)
        else (\<exists>e t. encrypt C secret s = (Inl e, t)) \<and> (\<exists>e. decrypt C c u = (Inl e, u))
    | None \<Rightarrow> (\<exists>e t. encrypt C secret s = (Inl e, t)) \<and> (\<exists>e. decrypt C c u = (Inl e, u)))"
proof (cases "WALLET_ENCRYPTION_KEY C")
  case None
  then show ?thesis
    by (simp add: encrypt_def decrypt_def getEncryptionKeyHex_def truthy_def bindE_def from_sum_def)
next
  case (Some k)
  show ?thesis
  proof (cases "length k = 64 \<and> length (hex_bytes k) = 32")
    case True
    let ?iv = "randomBytes C (calls s)" and ?key = "hex_bytes k"
    obtain ct tag where g: "gcm_seal C ?key ?iv secret = (ct, tag)" by fastforce
    have "length tag = 16" "gcm_open C ?key ?iv tag ct = Some secret" "length ?iv = 16"
      using assms(1,2) [of ?key ?iv secret] assms(3) g by (simp_all add: AUTH_TAG_LENGTH_def IV_LENGTH_def)
    moreover have "k \<noteq> []" using True by auto
    ultimately show ?thesis using True Some g
      by (auto simp: encrypt_def decrypt_def getEncryptionKeyHex_def truthy_def bindE_def from_sum_def gets_def modify_def ret_def
          encryptWithAes256Gcm_def decryptWithAes256Gcm_def getWalletEncryptionKey_def require_def from_option_def
          AUTH_TAG_LENGTH_def IV_LENGTH_def from_to_base64)
  next
    case False
    with Some show ?thesis
      by (auto simp: encrypt_def decrypt_def getEncryptionKeyHex_def truthy_def bindE_def from_sum_def gets_def modify_def ret_def
          encryptWithAes256Gcm_def decryptWithAes256Gcm_def getWalletEncryptionKey_def require_def throw_def Let_def)
  qed
qed

text \<open>A cipher for the witnesses: the key is laid over the text, the tag is constant.\<close>

definition demo_cipher :: cipher_env where
  "demo_cipher = \<lparr>gcm_seal = (\<lambda>k iv p. (rev p, replicate 16 CHR ''t'')), gcm_open = (\<lambda>k iv t c. Some (rev c)),
     randomBytes = (\<lambda>n. replicate 16 CHR ''i''), WALLET_ENCRYPTION_KEY = Some (replicate 64 CHR ''a'')\<rparr>"

lemma demo_key: "length (hex_bytes (replicate 64 CHR ''a'')) = 32"
  by code_simp

theorem encryption_roundtrip_witness:
  "\<exists>c t. encrypt demo_cipher ''SEED'' \<lparr>users = [], wallets = [], notifications = [], calls = 0, payments = []\<rparr> = (Inr c, t) \<and>
     decrypt demo_cipher c (0::nat) = (Inr ''SEED'', 0)"
  using encryption_roundtrip [of demo_cipher "''SEED''" "\<lparr>users = [], wallets = [], notifications = [], calls = 0, payments = []\<rparr>"
      _ "0::nat"] demo_key
  by (simp add: demo_cipher_def AUTH_TAG_LENGTH_def IV_LENGTH_def)

end
