(* ===== verification/Otps.thy ===== *)
theory Otps
  imports Accounts Encryption
begin

text \<open>
  One-time codes and refresh tokens (\<open>otps/otps.service.ts\<close>, \<open>tokens/refresh-tokens.service.ts\<close> and their
  entities). \<open>crypto_env\<close> holds the secrets and the numbers of the configuration, read as \<open>Number\<close> reads them
  (\<open>None\<close> for a value that is unset or not a finite number), and the functions of the platform: the keyed hash,
  the sources of randomness, counted by the calls of the state, bcrypt, the cipher (\<open>Encryption\<close>) and the check of authenticator
  codes. Hashes are compared as the lower-case hexadecimal texts they are.
\<close>

section \<open>Data\<close>

datatype otp_type = LOGIN | PASSWORD_RESET | SIGNUP

record otp =
  otp_userId :: string
  otp_codeHash :: string
  otp_type :: otp_type
  otp_expiresAt :: int
  otp_usedAt :: "int option"
  otp_createdAt :: int

record refresh_token =
  rt_userId :: string
  rt_tokenHash :: string
  rt_expiresAt :: int
  rt_revokedAt :: "int option"

record credential_state = account_state +
  otps :: "otp table"
  refresh_tokens :: "refresh_token table"

record crypto_env = account_env +
  cr_hmac :: "string \<Rightarrow> string \<Rightarrow> string"
  cr_OTP_SECRET :: "string option"
  cr_REFRESH_TOKEN_SECRET :: "string option"
  cr_OTP_EXPIRES_MINUTES :: "rat option"
  cr_AUTH_LOCKOUT_DURATION_MINUTES :: "rat option"
  cr_REFRESH_TOKEN_EXPIRES_DAYS :: "rat option"
  cr_randomInt :: "nat \<Rightarrow> int"
  cr_randomToken :: "nat \<Rightarrow> string"
  cr_random :: "nat \<Rightarrow> rat"
  cr_compare :: "string \<Rightarrow> string \<Rightarrow> bool"
  cr_cipher :: cipher_env
  cr_totp :: "int \<Rightarrow> string \<Rightarrow> string \<Rightarrow> bool"
  cr_generateSecret :: "nat \<Rightarrow> string \<Rightarrow> string option \<times> string option"

section \<open>Numbers as text\<close>

definition digit_char :: "nat \<Rightarrow> char" where
  "digit_char d = char_of (48 + d)"

fun dec_string :: "nat \<Rightarrow> string" where
  "dec_string n = (if n < 10 then [digit_char n] else dec_string (n div 10) @ [digit_char (n mod 10)])"

declare dec_string.simps [simp del]

definition padStart :: "nat \<Rightarrow> char \<Rightarrow> string \<Rightarrow> string" where
  "padStart n c s = replicate (n - length s) c @ s"

section \<open>One-time codes\<close>

definition OTP_LENGTH :: nat where
  "OTP_LENGTH = 6"

definition MAX_FAILED_ATTEMPTS :: nat where
  "MAX_FAILED_ATTEMPTS = 5"

definition ms_per_minute :: int where
  "ms_per_minute = 60000"

text \<open>\<open>setMinutes(getMinutes() + m)\<close>, which cuts off the fraction of a minute.\<close>

definition add_minutes :: "int \<Rightarrow> rat \<Rightarrow> int" where
  "add_minutes t m = t + \<lfloor>m\<rfloor> * ms_per_minute"

definition getOtpExpiryMinutes :: "crypto_env \<Rightarrow> rat" where
  "getOtpExpiryMinutes E = (case cr_OTP_EXPIRES_MINUTES E of None \<Rightarrow> 10
     | Some m \<Rightarrow> if m \<le> 0 \<or> 60 < m then 10 else m)"

definition getLockoutDurationMinutes :: "crypto_env \<Rightarrow> rat" where
  "getLockoutDurationMinutes E = (case cr_AUTH_LOCKOUT_DURATION_MINUTES E of None \<Rightarrow> 15
     | Some m \<Rightarrow> if m \<le> 0 then 15 else m)"

definition otp_type_name :: "otp_type \<Rightarrow> string" where
  "otp_type_name t = (case t of LOGIN \<Rightarrow> ''LOGIN'' | PASSWORD_RESET \<Rightarrow> ''PASSWORD_RESET'' | SIGNUP \<Rightarrow> ''SIGNUP'')"

definition hashOtp :: "crypto_env \<Rightarrow> string \<Rightarrow> otp_type \<Rightarrow> string \<Rightarrow> ('s, string) op" where
  "hashOtp E userId ty code =
     bindE (require (truthy (cr_OTP_SECRET E)) (PlainError ''OTP_SECRET is not configured'')) (\<lambda>_.
     ret (cr_hmac E (the (cr_OTP_SECRET E)) (userId @ '':'' @ otp_type_name ty @ '':'' @ code)))"

definition generateSecureOtp :: "crypto_env \<Rightarrow> ('a chain_scheme, string) op" where
  "generateSecureOtp E =
     bindE (gets calls) (\<lambda>n.
     bindE (modify (\<lambda>s. s\<lparr>calls := Suc n\<rparr>)) (\<lambda>_.
     ret (padStart OTP_LENGTH CHR ''0'' (dec_string (nat (cr_randomInt E n))))))"

definition use_otps :: "int \<Rightarrow> (otp \<Rightarrow> bool) \<Rightarrow> otp table \<Rightarrow> otp table" where
  "use_otps now P = map (\<lambda>(i, x). (i, if P x \<and> otp_usedAt x = None then x\<lparr>otp_usedAt := Some now\<rparr> else x))"

definition invalidateAllUserOtps :: "int \<Rightarrow> string \<Rightarrow> otp_type option \<Rightarrow> ('a credential_state_scheme, unit) op" where
  "invalidateAllUserOtps now userId ty = modify (\<lambda>s. s\<lparr>otps :=
     use_otps now (\<lambda>x. otp_userId x = userId \<and> (case ty of None \<Rightarrow> True | Some t \<Rightarrow> otp_type x = t)) (otps s)\<rparr>)"

text \<open>The user an operation receives is an object read before: its id and its row.\<close>

definition generateOtp ::
    "crypto_env \<Rightarrow> int \<Rightarrow> string \<times> user \<Rightarrow> otp_type \<Rightarrow> ('a credential_state_scheme, string) op" where
  "generateOtp E now user ty =
     bindE (require (fst user \<noteq> []) (BadRequestException ''Invalid user'')) (\<lambda>_.
     bindE (invalidateAllUserOtps now (fst user) (Some ty)) (\<lambda>_.
     bindE (generateSecureOtp E) (\<lambda>otpCode.
     bindE (hashOtp E (fst user) ty otpCode) (\<lambda>codeHash.
     bindE (next_id (ac_uuid E)) (\<lambda>i.
     bindE (modify (\<lambda>s. s\<lparr>otps := tbl_save i \<lparr>otp_userId = fst user, otp_codeHash = codeHash, otp_type = ty,
         otp_expiresAt = add_minutes now (getOtpExpiryMinutes E), otp_usedAt = None, otp_createdAt = now\<rparr> (otps s)\<rparr>)) (\<lambda>_.
     ret otpCode))))))"

definition live_otp :: "int \<Rightarrow> string \<Rightarrow> otp_type \<Rightarrow> otp \<Rightarrow> bool" where
  "live_otp now userId ty x \<longleftrightarrow> otp_userId x = userId \<and> otp_type x = ty \<and> otp_usedAt x = None \<and> now < otp_expiresAt x"

definition newest_otp :: "int \<Rightarrow> string \<Rightarrow> otp_type \<Rightarrow> otp table \<Rightarrow> (string \<times> otp) option" where
  "newest_otp now userId ty t =
     (case sort_key (\<lambda>(i, x). - otp_createdAt x) (filter (\<lambda>(i, x). live_otp now userId ty x) t) of
        [] \<Rightarrow> None | p # _ \<Rightarrow> Some p)"

definition handleFailedOtpAttempt :: "crypto_env \<Rightarrow> int \<Rightarrow> string \<times> user \<Rightarrow> ('a credential_state_scheme, unit) op" where
  "handleFailedOtpAttempt E now user =
     (let newAttempts = u_failedLoginAttempts (snd user) + 1 in
      if MAX_FAILED_ATTEMPTS \<le> newAttempts
      then modify (updateByUserId (fst user) (\<lambda>u. u\<lparr>u_failedLoginAttempts := newAttempts,
        u_lockedUntil := Some (add_minutes now (getLockoutDurationMinutes E))\<rparr>))
      else modify (updateByUserId (fst user) (\<lambda>u. u\<lparr>u_failedLoginAttempts := newAttempts\<rparr>)))"

definition validateOtp ::
    "crypto_env \<Rightarrow> int \<Rightarrow> string \<times> user \<Rightarrow> string \<Rightarrow> otp_type \<Rightarrow> ('a credential_state_scheme, bool) op" where
  "validateOtp E now user code ty =
     bindE (require (fst user \<noteq> []) (BadRequestException ''Invalid user'')) (\<lambda>_.
     bindE (require (\<not> (case u_lockedUntil (snd user) of None \<Rightarrow> False | Some t \<Rightarrow> now < t))
       (ThrottlerException ''Too many failed attempts. Please try again in ${remainingMinutes} minute(s)'')) (\<lambda>_.
     bindE (require (length code = OTP_LENGTH) (UnauthorizedException ''Invalid OTP format'')) (\<lambda>_.
     bindE (gets (\<lambda>s. newest_otp now (fst user) ty (otps s))) (\<lambda>found.
     bindE (from_option (UnauthorizedException ''Invalid or expired OTP'') found) (\<lambda>(i, x).
     bindE (hashOtp E (fst user) ty code) (\<lambda>expectedHash.
     if otp_codeHash x \<noteq> expectedHash
     then bindE (handleFailedOtpAttempt E now user) (\<lambda>_. throw (UnauthorizedException ''Invalid OTP code''))
     else bindE (modify (\<lambda>s. s\<lparr>otps := tbl_update i (\<lambda>y. y\<lparr>otp_usedAt := Some now\<rparr>) (otps s)\<rparr>)) (\<lambda>_.
       ret True)))))))"

definition cleanupExpiredOtps :: "int \<Rightarrow> ('a credential_state_scheme, nat) op" where
  "cleanupExpiredOtps now s =
     (let dead = (\<lambda>(i, x). otp_expiresAt x < now \<and> otp_usedAt x \<noteq> None)
      in (Inr (length (filter dead (otps s))), s\<lparr>otps := filter (\<lambda>p. \<not> dead p) (otps s)\<rparr>))"

section \<open>Refresh tokens\<close>

definition getRefreshTokenExpiryDays :: "crypto_env \<Rightarrow> rat" where
  "getRefreshTokenExpiryDays E = (case cr_REFRESH_TOKEN_EXPIRES_DAYS E of None \<Rightarrow> 30
     | Some d \<Rightarrow> if d \<le> 0 \<or> 90 < d then 30 else d)"

definition hashRefreshToken :: "crypto_env \<Rightarrow> string \<Rightarrow> ('s, string) op" where
  "hashRefreshToken E token =
     bindE (require (truthy (cr_REFRESH_TOKEN_SECRET E)) (PlainError ''REFRESH_TOKEN_SECRET is not configured'')) (\<lambda>_.
     ret (cr_hmac E (the (cr_REFRESH_TOKEN_SECRET E)) token))"

definition createRefreshToken :: "crypto_env \<Rightarrow> int \<Rightarrow> string \<Rightarrow> ('a credential_state_scheme, string) op" where
  "createRefreshToken E now userId =
     bindE (gets calls) (\<lambda>n.
     bindE (modify (\<lambda>s. s\<lparr>calls := Suc n\<rparr>)) (\<lambda>_.
     let token = cr_randomToken E n in
     bindE (hashRefreshToken E token) (\<lambda>h.
     bindE (next_id (ac_uuid E)) (\<lambda>i.
     bindE (gets (\<lambda>s. h \<in> rt_tokenHash ` set (map snd (refresh_tokens s)))) (\<lambda>taken.
     bindE (require (\<not> taken) (PlainError ''duplicate key value violates unique constraint'')) (\<lambda>_.
     bindE (modify (\<lambda>s. s\<lparr>refresh_tokens := tbl_save i \<lparr>rt_userId = userId, rt_tokenHash = h,
         rt_expiresAt = now + \<lfloor>getRefreshTokenExpiryDays E\<rfloor> * 86400000, rt_revokedAt = None\<rparr> (refresh_tokens s)\<rparr>)) (\<lambda>_.
     ret token)))))))"

definition revoke_where :: "int \<Rightarrow> (refresh_token \<Rightarrow> bool) \<Rightarrow> ('a credential_state_scheme, unit) op" where
  "revoke_where now P = modify (\<lambda>s. s\<lparr>refresh_tokens :=
     map (\<lambda>(i, r). (i, if P r then r\<lparr>rt_revokedAt := Some now\<rparr> else r)) (refresh_tokens s)\<rparr>)"

definition revokeAllUserTokens :: "int \<Rightarrow> string \<Rightarrow> ('a credential_state_scheme, unit) op" where
  "revokeAllUserTokens now userId = revoke_where now (\<lambda>r. rt_userId r = userId \<and> rt_revokedAt r = None)"

definition revokeToken :: "int \<Rightarrow> string \<Rightarrow> ('a credential_state_scheme, unit) op" where
  "revokeToken now tokenHash = revoke_where now (\<lambda>r. rt_tokenHash r = tokenHash)"

definition revokeRefreshToken :: "crypto_env \<Rightarrow> int \<Rightarrow> string \<Rightarrow> ('a credential_state_scheme, unit) op" where
  "revokeRefreshToken E now token = bindE (hashRefreshToken E token) (\<lambda>h. revokeToken now h)"

definition validateRefreshToken :: "crypto_env \<Rightarrow> int \<Rightarrow> string \<Rightarrow> ('a credential_state_scheme, refresh_token) op" where
  "validateRefreshToken E now token =
     bindE (hashRefreshToken E token) (\<lambda>h.
     bindE (gets (\<lambda>s. List.find (\<lambda>r. rt_tokenHash r = h \<and> rt_revokedAt r = None \<and> now < rt_expiresAt r)
       (map snd (refresh_tokens s)))) (\<lambda>stored.
     from_option (UnauthorizedException ''Invalid or expired refresh token'') stored))"

definition cleanupExpiredTokens :: "int \<Rightarrow> ('a credential_state_scheme, nat) op" where
  "cleanupExpiredTokens now s =
     (let dead = (\<lambda>(i, r). rt_expiresAt r < now \<and> rt_revokedAt r \<noteq> None)
      in (Inr (length (filter dead (refresh_tokens s))),
          s\<lparr>refresh_tokens := filter (\<lambda>p. \<not> dead p) (refresh_tokens s)\<rparr>))"

section \<open>One-time codes work once, and guesses are few\<close>

lemma dec_string_length: "n < 10 ^ Suc k \<Longrightarrow> length (dec_string n) \<le> Suc k \<and> (10 ^ k \<le> n \<longrightarrow> length (dec_string n) = Suc k)"
proof (induction k arbitrary: n)
  case (Suc k)
  show ?case
  proof (cases "n < 10")
    case False
    then have "n div 10 < 10 ^ Suc k" "10 ^ Suc k \<le> n \<longrightarrow> 10 ^ k \<le> n div 10" using Suc.prems by auto
    with Suc.IH [of "n div 10"] False show ?thesis by (auto simp: dec_string.simps [of n])
  next
    case True
    moreover have "(10::nat) ^ 1 \<le> 10 ^ Suc k" by (rule power_increasing) simp_all
    ultimately have "n < 10 ^ Suc k" by (metis order_less_le_trans power_one_right)
    then have "\<not> 10 ^ Suc k \<le> n" by (simp only: not_le)
    with True show ?thesis by (simp add: dec_string.simps [of n])
  qed
qed (auto simp: dec_string.simps)

lemma code_length: "0 \<le> n \<Longrightarrow> n < 1000000 \<Longrightarrow> length (padStart OTP_LENGTH CHR ''0'' (dec_string (nat n))) = OTP_LENGTH"
  using dec_string_length [of "nat n" 5] by (auto simp: padStart_def OTP_LENGTH_def)

text \<open>What the outcome of a validation says of the row of the user.\<close>

definition wrong_code :: exn where
  "wrong_code = UnauthorizedException ''Invalid OTP code''"

definition is_locked :: "int \<Rightarrow> user \<Rightarrow> bool" where
  "is_locked now u = (case u_lockedUntil u of None \<Rightarrow> False | Some t \<Rightarrow> now < t)"

definition count_failure :: "crypto_env \<Rightarrow> int \<Rightarrow> user \<Rightarrow> user \<Rightarrow> user" where
  "count_failure E now u w = (if MAX_FAILED_ATTEMPTS \<le> u_failedLoginAttempts u + 1
     then w\<lparr>u_failedLoginAttempts := u_failedLoginAttempts u + 1, u_lockedUntil := Some (add_minutes now (getLockoutDurationMinutes E))\<rparr>
     else w\<lparr>u_failedLoginAttempts := u_failedLoginAttempts u + 1\<rparr>)"

lemma handleFailed_modify: "handleFailedOtpAttempt E now (i, u) = modify (updateByUserId i (count_failure E now u))"
  by (simp add: handleFailedOtpAttempt_def Let_def count_failure_def [abs_def])

lemma validateOtp_user:
  assumes "validateOtp E now (i, u) code ty s = (r, t)"
  shows "r \<noteq> Inl wrong_code \<and> users t = users s \<or>
    r = Inl wrong_code \<and> \<not> is_locked now u \<and> users t = tbl_update i (count_failure E now u) (users s)"
  using assms
  by (cases r) (auto simp: validateOtp_def op_iff hashOtp_def wrong_code_def handleFailed_modify updateByUserId_def is_locked_def
      split: if_splits option.splits)

text \<open>A request reads the row of the user and validates a code; \<open>guesses\<close> counts the codes that were compared and
  found wrong.\<close>

definition otp_attempt :: "crypto_env \<Rightarrow> int \<Rightarrow> string \<Rightarrow> string \<Rightarrow> otp_type \<Rightarrow> ('a credential_state_scheme, bool) op" where
  "otp_attempt E now i code ty = bindE (existing_user i) (\<lambda>u. validateOtp E now (i, u) code ty)"

fun guesses :: "crypto_env \<Rightarrow> string \<Rightarrow> otp_type \<Rightarrow> (int \<times> string) list \<Rightarrow> 'a credential_state_scheme \<Rightarrow> nat" where
  "guesses E i ty [] s = 0"
| "guesses E i ty ((now, code) # cs) s =
     (let (r, t) = otp_attempt E now i code ty s in (if r = Inl wrong_code then 1 else 0) + guesses E i ty cs t)"

lemma otp_attempt_user:
  assumes "otp_attempt E now i code ty s = (r, t)"
  shows "r \<noteq> Inl wrong_code \<and> findById i t = findById i s \<or>
    r = Inl wrong_code \<and> (\<exists>u. findById i s = Some u \<and> \<not> is_locked now u \<and> findById i t = Some (count_failure E now u u))"
proof (cases "findById i s")
  case None
  then have "r \<noteq> Inl wrong_code \<and> t = s" using assms
    by (auto simp: otp_attempt_def existing_user_def bindE_def gets_def from_option_def throw_def wrong_code_def)
  then show ?thesis by simp
next
  case (Some u)
  then have "validateOtp E now (i, u) code ty s = (r, t)" using assms
    by (simp add: otp_attempt_def existing_user_def bindE_def gets_def from_option_def ret_def)
  from validateOtp_user [OF this] Some show ?thesis by (auto simp: findById_def tbl_simps)
qed

abbreviation lock_span :: "crypto_env \<Rightarrow> int" where
  "lock_span E \<equiv> add_minutes 0 (getLockoutDurationMinutes E)"

lemma guesses_locked:
  assumes "\<forall>(now, code)\<in>set cs. now < b" and "findById i s = Some u" and "u_lockedUntil u = Some x" and "b \<le> x"
  shows "guesses E i ty cs s = 0"
  using assms(1,2)
proof (induction cs arbitrary: s)
  case (Cons c cs)
  obtain now code where c: "c = (now, code)" by fastforce
  obtain r t where y: "otp_attempt E now i code ty s = (r, t)" by fastforce
  have "is_locked now u" using Cons.prems(1) c assms(3,4) by (simp add: is_locked_def)
  with otp_attempt_user [OF y] Cons.prems(2) have "r \<noteq> Inl wrong_code" "findById i t = Some u" by auto
  with Cons y c show ?case by simp
qed simp

lemma guesses_bound:
  assumes "\<forall>(now, code)\<in>set cs. t0 \<le> now \<and> now < t0 + lock_span E" and "findById i s = Some u"
  shows "guesses E i ty cs s \<le> max 1 (5 - u_failedLoginAttempts u)"
  using assms
proof (induction cs arbitrary: s u)
  case (Cons c cs)
  obtain now code where c: "c = (now, code)" by fastforce
  obtain r t where y: "otp_attempt E now i code ty s = (r, t)" by fastforce
  show ?case
  proof (cases "r = Inl wrong_code")
    case False
    with otp_attempt_user [OF y] Cons.prems(2) have "findById i t = Some u" by auto
    with Cons.IH [of t u] Cons.prems(1) False y c show ?thesis by simp
  next
    case True
    let ?w = "count_failure E now u u"
    from True otp_attempt_user [OF y] Cons.prems(2) have t: "findById i t = Some ?w" by auto
    show ?thesis
    proof (cases "5 \<le> u_failedLoginAttempts u + 1")
      case True
      then have "u_lockedUntil ?w = Some (add_minutes now (getLockoutDurationMinutes E))"
        by (simp add: count_failure_def MAX_FAILED_ATTEMPTS_def)
      moreover have "t0 + lock_span E \<le> add_minutes now (getLockoutDurationMinutes E)"
        using Cons.prems(1) c by (simp add: add_minutes_def)
      ultimately have "guesses E i ty cs t = 0"
        using Cons.prems(1) by (intro guesses_locked [OF _ t]) auto
      with y c show ?thesis by simp
    next
      case False
      then have "u_failedLoginAttempts ?w = u_failedLoginAttempts u + 1" by (simp add: count_failure_def MAX_FAILED_ATTEMPTS_def)
      with Cons.IH [OF _ t] Cons.prems(1) have "guesses E i ty cs t \<le> max 1 (5 - (u_failedLoginAttempts u + 1))" by simp
      with False y c show ?thesis by (auto simp: Let_def)
    qed
  qed
qed simp

section \<open>Sending a code and reading it back\<close>

lemma newest_single: "filter (\<lambda>(i, x). live_otp now u ty x) t = [p] \<Longrightarrow> newest_otp now u ty t = Some p"
  by (simp add: newest_otp_def)

lemma newest_none: "filter (\<lambda>(i, x). live_otp now u ty x) t = [] \<Longrightarrow> newest_otp now u ty t = None"
  by (simp add: newest_otp_def)

lemma used_not_live: "filter (\<lambda>(i, x). live_otp t u ty x) (use_otps now (\<lambda>x. otp_userId x = u \<and> otp_type x = ty) os) = []"
  by (induction os) (auto simp: use_otps_def live_otp_def split: if_splits)

lemma use_otps_keys [simp]: "map fst (use_otps now P os) = map fst os"
  by (induction os) (auto simp: use_otps_def)

lemma tbl_update_absent: "k \<notin> fst ` set t \<Longrightarrow> tbl_update k f t = t"
  by (induction t) (auto simp: tbl_update_def)

definition otp_ids_ok :: "(nat \<Rightarrow> string) \<Rightarrow> 'a credential_state_scheme \<Rightarrow> bool" where
  "otp_ids_ok uuid s \<longleftrightarrow> inj uuid \<and> fst ` set (otps s) \<subseteq> uuid ` {..<calls s} \<and> distinct (map fst (otps s))"

lemma generateOtp_ok:
  assumes ids: "otp_ids_ok (ac_uuid E) s" and sec: "truthy (cr_OTP_SECRET E)" and i: "i \<noteq> []"
    and code: "code = padStart OTP_LENGTH CHR ''0'' (dec_string (nat (cr_randomInt E (calls s))))"
  shows "\<exists>k x t. generateOtp E now (i, u) ty s = (Inr code, t) \<and>
    k \<notin> fst ` set (otps s) \<and>
    otps t = use_otps now (\<lambda>x. otp_userId x = i \<and> otp_type x = ty) (otps s) @ [(k, x)] \<and>
    x = \<lparr>otp_userId = i, otp_codeHash = cr_hmac E (the (cr_OTP_SECRET E)) (i @ '':'' @ otp_type_name ty @ '':'' @ code),
      otp_type = ty, otp_expiresAt = add_minutes now (getOtpExpiryMinutes E), otp_usedAt = None, otp_createdAt = now\<rparr> \<and>
    users t = users s"
proof -
  let ?k = "ac_uuid E (Suc (calls s))"
  let ?os = "use_otps now (\<lambda>x. otp_userId x = i \<and> otp_type x = ty) (otps s)"
  have "?k \<notin> fst ` set (otps s)" using ids by (fastforce simp: otp_ids_ok_def inj_eq)
  then have "tbl_find ?k ?os = None" and "?k \<notin> fst ` set (otps s)" by (simp_all add: tbl_find_None_keys)
  with sec i show ?thesis
    by (auto simp: generateOtp_def generateSecureOtp_def invalidateAllUserOtps_def hashOtp_def next_id_def bindE_def gets_def
        modify_def require_def ret_def code tbl_save_new)
qed

lemma validateOtp_hit:
  assumes "\<not> is_locked now u" "length code = OTP_LENGTH" "i \<noteq> []" "truthy (cr_OTP_SECRET E)"
    and "newest_otp now i ty (otps s) = Some (k, x)"
    and "otp_codeHash x = cr_hmac E (the (cr_OTP_SECRET E)) (i @ '':'' @ otp_type_name ty @ '':'' @ code)"
  shows "validateOtp E now (i, u) code ty s = (Inr True, s\<lparr>otps := tbl_update k (\<lambda>y. y\<lparr>otp_usedAt := Some now\<rparr>) (otps s)\<rparr>)"
  using assms
  by (auto simp: validateOtp_def hashOtp_def bindE_def gets_def modify_def require_def ret_def from_option_def is_locked_def)

lemma validateOtp_none:
  assumes "newest_otp now i ty (otps s) = None"
  shows "\<exists>e. validateOtp E now (i, u) code ty s = (Inl e, s)"
  using assms
  by (auto simp: validateOtp_def bindE_def gets_def require_def ret_def throw_def from_option_def)

text \<open>A concrete configuration and state for the witnesses.\<close>

definition demo_crypto :: crypto_env where
  "demo_crypto = account_env.extend demo_account_env
     \<lparr>cr_hmac = (\<lambda>k m. m), cr_OTP_SECRET = Some ''k'', cr_REFRESH_TOKEN_SECRET = Some ''r'', cr_OTP_EXPIRES_MINUTES = None,
      cr_AUTH_LOCKOUT_DURATION_MINUTES = None, cr_REFRESH_TOKEN_EXPIRES_DAYS = None, cr_randomInt = (\<lambda>n. 123456),
      cr_randomToken = (\<lambda>n. replicate n CHR ''r''), cr_random = (\<lambda>n. of_nat (n mod 32) / 32), cr_compare = (=), cr_cipher = demo_cipher,
      cr_totp = (\<lambda>t k c. k = c), cr_generateSecret = (\<lambda>n e. (Some ''SECRET'', Some ''otpauth''))\<rparr>"

definition demo_credentials :: credential_state where
  "demo_credentials = account_state.extend demo_account_state \<lparr>otps = [], refresh_tokens = []\<rparr>"

lemma demo_crypto_simps [simp]:
  "account_env.truncate demo_crypto = demo_account_env" "ac_uuid demo_crypto = demo_uuid" "cr_OTP_SECRET demo_crypto = Some ''k''"
  "cr_REFRESH_TOKEN_SECRET demo_crypto = Some ''r''"
  "cr_randomInt demo_crypto n = 123456" "getOtpExpiryMinutes demo_crypto = 10" "getLockoutDurationMinutes demo_crypto = 15"
  "cr_cipher demo_crypto = demo_cipher" "cr_totp demo_crypto = (\<lambda>t k c. k = c)" "cr_compare demo_crypto = (=)"
  "cr_generateSecret demo_crypto n e = (Some ''SECRET'', Some ''otpauth'')"
  by (simp_all add: demo_crypto_def account_env.defs crypto_env.defs demo_account_env_def getOtpExpiryMinutes_def
      getLockoutDurationMinutes_def)

lemma demo_credentials_simps [simp]:
  "otps demo_credentials = []" "refresh_tokens demo_credentials = []" "calls demo_credentials = 2"
  "users demo_credentials = [(''x'', (demo_user 5)\<lparr>u_balances := [''XLM'' \<mapsto> 5, ''USD'' \<mapsto> 7]\<rparr>)]"
  using demo_account_users by (simp_all add: demo_credentials_def account_state.defs)

section \<open>Properties\<close>

text \<open>C11. A one-time code that was sent is accepted once: until it expires the code that was just generated for a user
  who is not locked out validates, and afterwards no code validates, at any time, until another is generated; the
  codes that were open before are spent by the new one.\<close>

theorem otp_roundtrip:
  assumes "otp_ids_ok (ac_uuid E) s" and "truthy (cr_OTP_SECRET E)" and "i \<noteq> []"
    and "\<And>n. 100000 \<le> cr_randomInt E n \<and> cr_randomInt E n < 1000000"
    and "later < add_minutes now (getOtpExpiryMinutes E)" and "\<not> is_locked later u"
  shows "\<exists>code t t'. generateOtp E now (i, u) ty s = (Inr code, t) \<and> length code = OTP_LENGTH \<and>
    validateOtp E later (i, u) code ty t = (Inr True, t') \<and>
    (\<forall>again code' w. \<exists>e. validateOtp E again (i, w) code' ty t' = (Inl e, t'))"
proof -
  define code where "code = padStart OTP_LENGTH CHR ''0'' (dec_string (nat (cr_randomInt E (calls s))))"
  from generateOtp_ok [OF assms(1-3) code_def, of now u ty] obtain k x t where g: "generateOtp E now (i, u) ty s = (Inr code, t)"
    and k: "k \<notin> fst ` set (otps s)" and t: "otps t = use_otps now (\<lambda>x. otp_userId x = i \<and> otp_type x = ty) (otps s) @ [(k, x)]"
    and x: "x = \<lparr>otp_userId = i, otp_codeHash = cr_hmac E (the (cr_OTP_SECRET E)) (i @ '':'' @ otp_type_name ty @ '':'' @ code),
      otp_type = ty, otp_expiresAt = add_minutes now (getOtpExpiryMinutes E), otp_usedAt = None, otp_createdAt = now\<rparr>" by blast
  have len: "length code = OTP_LENGTH" using assms(4) [of "calls s"] by (simp add: code_def code_length)
  have "newest_otp later i ty (otps t) = Some (k, x)"
    by (rule newest_single) (use assms(5) in \<open>simp add: t used_not_live, simp add: x live_otp_def\<close>)
  from validateOtp_hit [OF assms(6) len assms(3,2) this] have v: "validateOtp E later (i, u) code ty t =
      (Inr True, t\<lparr>otps := tbl_update k (\<lambda>y. y\<lparr>otp_usedAt := Some later\<rparr>) (otps t)\<rparr>)" by (simp add: x)
  have old: "tbl_update k f (use_otps now P (otps s)) = use_otps now P (otps s)" for f P
    using k by (intro tbl_update_absent) (metis list.set_map use_otps_keys)
  have "tbl_update k (\<lambda>y. y\<lparr>otp_usedAt := Some later\<rparr>) (otps t) =
      use_otps now (\<lambda>x. otp_userId x = i \<and> otp_type x = ty) (otps s) @ [(k, x\<lparr>otp_usedAt := Some later\<rparr>)]"
    by (simp add: t tbl_update_def old [unfolded tbl_update_def])
  then have none: "newest_otp again i ty (tbl_update k (\<lambda>y. y\<lparr>otp_usedAt := Some later\<rparr>) (otps t)) = None" for again
    by (intro newest_none) (simp add: used_not_live, simp add: live_otp_def)
  show ?thesis using g len v by (auto intro!: validateOtp_none simp: none)
qed

theorem otp_roundtrip_witness:
  "\<exists>code t t'. generateOtp demo_crypto 0 (''x'', demo_user 5) LOGIN demo_credentials = (Inr code, t) \<and>
     validateOtp demo_crypto 599999 (''x'', demo_user 5) code LOGIN t = (Inr True, t')"
proof -
  have "otp_ids_ok (ac_uuid demo_crypto) demo_credentials"
    by (simp add: otp_ids_ok_def demo_uuid_inj)
  from otp_roundtrip [OF this, of "''x''" 599999 0 "demo_user 5" LOGIN] show ?thesis
    by (fastforce simp: truthy_def add_minutes_def ms_per_minute_def is_locked_def demo_user_def)
qed

text \<open>C32. Guessing is bounded: whatever codes are tried within one lockout period, at most as many are compared and
  found wrong as the user had failures left out of five, and at most one when none was left.\<close>

theorem otp_guesses_bounded:
  assumes "\<forall>(now, code)\<in>set cs. t0 \<le> now \<and> now < t0 + lock_span E" and "findById i s = Some u"
  shows "guesses E i ty cs s \<le> max 1 (MAX_FAILED_ATTEMPTS - u_failedLoginAttempts u)"
  using guesses_bound [OF assms] by (simp add: MAX_FAILED_ATTEMPTS_def)

theorem otp_guesses_bounded_witness:
  "guesses demo_crypto ''x'' LOGIN (map (\<lambda>n. (int n, ''000000'')) [0..<1000]) demo_credentials \<le> 5"
proof -
  have "findById ''x'' demo_credentials = Some ((demo_user 5)\<lparr>u_balances := [''XLM'' \<mapsto> 5, ''USD'' \<mapsto> 7]\<rparr>)"
    by (simp add: findById_def tbl_find_def)
  from otp_guesses_bounded [OF _ this, of "map (\<lambda>n. (int n, ''000000'')) [0..<1000]" 0 demo_crypto LOGIN] show ?thesis
    by (simp add: add_minutes_def ms_per_minute_def demo_user_def MAX_FAILED_ATTEMPTS_def)
qed

end
