(* ===== verification/TwoFactor.thy ===== *)
theory TwoFactor
  imports Otps
begin

text \<open>
  Two-factor authentication (\<open>two-factor/two-factor.service.ts\<close>): setting up an authenticator, and the backup
  codes that replace it. The loop that draws backup codes ends only when enough different codes were drawn, so it is a
  partial function, and an operation that needs it has no result (\<open>None\<close>) when the loop does not end. The n-th
  random number is the n-th call of the state.
\<close>

section \<open>Data\<close>

record backup_code =
  bc_userId :: string
  bc_codeHash :: string
  bc_consumedAt :: "int option"
  bc_createdAt :: int

record two_factor_state = credential_state +
  backup_codes :: "backup_code table"

section \<open>Drawing backup codes\<close>

definition code_alphabet :: string where
  "code_alphabet = ''ABCDEFGHJKLMNPQRSTUVWXYZ23456789''"

text \<open>\<open>alphabet[Math.floor(Math.random() * alphabet.length)]\<close>.\<close>

definition random_char :: "crypto_env \<Rightarrow> nat \<Rightarrow> char" where
  "random_char E n = code_alphabet ! nat \<lfloor>cr_random E n * of_nat (length code_alphabet)\<rfloor>"

definition random_code :: "crypto_env \<Rightarrow> nat \<Rightarrow> nat \<Rightarrow> string" where
  "random_code E len n = map (\<lambda>i. random_char E (n + i)) [0..<len]"

definition BACKUP_CODE_LENGTH :: nat where
  "BACKUP_CODE_LENGTH = 10"

partial_function (option) generateBackupCodes :: "crypto_env \<Rightarrow> nat \<Rightarrow> nat \<Rightarrow> string list \<Rightarrow> (string list \<times> nat) option" where
  "generateBackupCodes E count n codes =
     (if length codes < count
      then generateBackupCodes E count (n + BACKUP_CODE_LENGTH)
        (if random_code E BACKUP_CODE_LENGTH n \<in> set codes then codes else codes @ [random_code E BACKUP_CODE_LENGTH n])
      else Some (codes, n))"

section \<open>Operations\<close>

definition verifyTotp :: "crypto_env \<Rightarrow> int \<Rightarrow> string \<Rightarrow> string \<Rightarrow> ('s, bool) op" where
  "verifyTotp E now encryptedSecret totpCode =
     bindE (decrypt (cr_cipher E) encryptedSecret) (\<lambda>secret. ret (cr_totp E now secret totpCode))"

definition generateSecret :: "crypto_env \<Rightarrow> string \<Rightarrow> ('a two_factor_state_scheme, string \<times> string) op" where
  "generateSecret E userId =
     bindE (existing_user userId) (\<lambda>user.
     bindE (gets calls) (\<lambda>n.
     bindE (modify (\<lambda>s. s\<lparr>calls := Suc n\<rparr>)) (\<lambda>_.
     let secret = cr_generateSecret E n (u_email user) in
     bindE (require (truthy (fst secret) \<and> truthy (snd secret)) (BadRequestException ''Failed to generate two-factor secret'')) (\<lambda>_.
     bindE (encrypt (cr_cipher E) (the (fst secret))) (\<lambda>encryptedSecret.
     bindE (modify (updateByUserId userId (\<lambda>u. u\<lparr>u_twoFactorSecret := Some encryptedSecret, u_isTwoFactorEnabled := False\<rparr>))) (\<lambda>_.
     ret (the (snd secret), the (fst secret))))))))"

fun hash_codes :: "crypto_env \<Rightarrow> string list \<Rightarrow> ('a chain_scheme, string list) op" where
  "hash_codes E [] = ret []"
| "hash_codes E (c # cs) = bindE (bcrypt_hash (account_env.truncate E) c) (\<lambda>h. bindE (hash_codes E cs) (\<lambda>hs. ret (h # hs)))"

fun insert_codes :: "crypto_env \<Rightarrow> int \<Rightarrow> string \<Rightarrow> string list \<Rightarrow> ('a two_factor_state_scheme, unit) op" where
  "insert_codes E now userId [] = ret ()"
| "insert_codes E now userId (h # hs) =
     bindE (next_id (ac_uuid E)) (\<lambda>i.
     bindE (modify (\<lambda>s. s\<lparr>backup_codes := tbl_save i
       \<lparr>bc_userId = userId, bc_codeHash = h, bc_consumedAt = None, bc_createdAt = now\<rparr> (backup_codes s)\<rparr>)) (\<lambda>_.
     insert_codes E now userId hs))"

definition delete_codes :: "string \<Rightarrow> ('a two_factor_state_scheme, unit) op" where
  "delete_codes userId = modify (\<lambda>s. s\<lparr>backup_codes := filter (\<lambda>(i, b). bc_userId b \<noteq> userId) (backup_codes s)\<rparr>)"

text \<open>The part \<open>confirmTwoFactor\<close> and \<open>regenerateBackupCodes\<close> share: the old codes go, eight new ones are drawn,
  hashed and stored.\<close>

definition issue_codes :: "crypto_env \<Rightarrow> int \<Rightarrow> string \<Rightarrow> 'a two_factor_state_scheme \<Rightarrow>
    ((exn + string list) \<times> 'a two_factor_state_scheme) option" where
  "issue_codes E now userId s =
     (let t = snd (delete_codes userId s) in
      case generateBackupCodes E 8 (calls t) [] of
        None \<Rightarrow> None
      | Some (codes, n) \<Rightarrow> Some (bindE (hash_codes E codes) (\<lambda>hs. bindE (insert_codes E now userId hs) (\<lambda>_. ret codes))
          (t\<lparr>calls := n\<rparr>)))"

definition check_code :: "crypto_env \<Rightarrow> int \<Rightarrow> string option \<Rightarrow> string \<Rightarrow> ('s, unit) op" where
  "check_code E now secret totpCode =
     bindE (verifyTotp E now (the secret) totpCode) (\<lambda>isValid.
     require isValid (UnauthorizedException ''Invalid two-factor code''))"

definition confirmTwoFactor :: "crypto_env \<Rightarrow> int \<Rightarrow> string \<Rightarrow> string \<Rightarrow> 'a two_factor_state_scheme \<Rightarrow>
    ((exn + string list) \<times> 'a two_factor_state_scheme) option" where
  "confirmTwoFactor E now userId totpCode s =
     (case bindE (existing_user userId) (\<lambda>user.
           bindE (require (truthy (u_twoFactorSecret user))
             (BadRequestException ''Two-factor setup is required before enabling'')) (\<lambda>_.
           bindE (check_code E now (u_twoFactorSecret user) totpCode) (\<lambda>_.
           modify (updateByUserId userId (\<lambda>u. u\<lparr>u_isTwoFactorEnabled := True\<rparr>))))) s of
        (Inl e, t) \<Rightarrow> Some (Inl e, t)
      | (Inr _, t) \<Rightarrow> issue_codes E now userId t)"

definition disableTwoFactor :: "crypto_env \<Rightarrow> int \<Rightarrow> string \<Rightarrow> string \<Rightarrow> ('a two_factor_state_scheme, unit) op" where
  "disableTwoFactor E now userId totpCode =
     bindE (existing_user userId) (\<lambda>user.
     bindE (require (u_isTwoFactorEnabled user \<and> truthy (u_twoFactorSecret user))
       (BadRequestException ''Two-factor authentication is not enabled'')) (\<lambda>_.
     bindE (check_code E now (u_twoFactorSecret user) totpCode) (\<lambda>_.
     bindE (modify (updateByUserId userId (\<lambda>u. u\<lparr>u_isTwoFactorEnabled := False, u_twoFactorSecret := None\<rparr>))) (\<lambda>_.
     delete_codes userId))))"

definition verifyTotpCode :: "crypto_env \<Rightarrow> int \<Rightarrow> string \<Rightarrow> string \<Rightarrow> ('a base_scheme, bool) op" where
  "verifyTotpCode E now userId totpCode =
     bindE (existing_user userId) (\<lambda>user.
     bindE (require (truthy (u_twoFactorSecret user) \<and> u_isTwoFactorEnabled user)
       (BadRequestException ''Two-factor authentication is not enabled'')) (\<lambda>_.
     verifyTotp E now (the (u_twoFactorSecret user)) totpCode))"

definition consumeBackupCode :: "crypto_env \<Rightarrow> int \<Rightarrow> string \<Rightarrow> string \<Rightarrow> ('a two_factor_state_scheme, unit) op" where
  "consumeBackupCode E now userId backupCode =
     bindE (existing_user userId) (\<lambda>user.
     bindE (require (u_isTwoFactorEnabled user) (BadRequestException ''Two-factor authentication is not enabled'')) (\<lambda>_.
     bindE (gets (\<lambda>s. List.find (\<lambda>(i, b). cr_compare E backupCode (bc_codeHash b))
       (filter (\<lambda>(i, b). bc_userId b = userId \<and> bc_consumedAt b = None) (backup_codes s)))) (\<lambda>found.
     bindE (from_option (UnauthorizedException ''Invalid backup code'') found) (\<lambda>(i, b).
     modify (\<lambda>s. s\<lparr>backup_codes := tbl_update i (\<lambda>c. c\<lparr>bc_consumedAt := Some now\<rparr>) (backup_codes s)\<rparr>)))))"

definition regenerateBackupCodes :: "crypto_env \<Rightarrow> int \<Rightarrow> string \<Rightarrow> string \<Rightarrow> 'a two_factor_state_scheme \<Rightarrow>
    ((exn + string list) \<times> 'a two_factor_state_scheme) option" where
  "regenerateBackupCodes E now userId totpCode s =
     (case bindE (existing_user userId) (\<lambda>user.
           bindE (require (truthy (u_twoFactorSecret user) \<and> u_isTwoFactorEnabled user)
             (BadRequestException ''Two-factor authentication is not enabled'')) (\<lambda>_.
           check_code E now (u_twoFactorSecret user) totpCode)) s of
        (Inl e, t) \<Rightarrow> Some (Inl e, t)
      | (Inr _, t) \<Rightarrow> issue_codes E now userId t)"

definition getStatus :: "string \<Rightarrow> ('a base_scheme, bool) op" where
  "getStatus userId = bindE (existing_user userId) (\<lambda>user. ret (u_isTwoFactorEnabled user))"

section \<open>When the loop ends\<close>

definition drawn :: "crypto_env \<Rightarrow> nat \<Rightarrow> nat \<Rightarrow> string list" where
  "drawn E n m = map (\<lambda>k. random_code E BACKUP_CODE_LENGTH (n + k * BACKUP_CODE_LENGTH)) [0..<m]"

text \<open>The codes after some draws: what a set keeps, in the order of insertion.\<close>

definition collect_codes :: "string list \<Rightarrow> string list \<Rightarrow> string list" where
  "collect_codes = foldl (\<lambda>codes c. if c \<in> set codes then codes else codes @ [c])"

lemma drawn_Suc: "drawn E n (Suc m) = random_code E BACKUP_CODE_LENGTH n # drawn E (n + BACKUP_CODE_LENGTH) m"
  by (simp add: drawn_def upt_conv_Cons map_Suc_upt [symmetric] comp_def ac_simps del: upt_Suc)

lemma collect_set: "set (collect_codes codes cs) = set codes \<union> set cs"
  by (induction cs arbitrary: codes) (auto simp: collect_codes_def)

lemma collect_distinct: "distinct codes \<Longrightarrow> distinct (collect_codes codes cs)"
  by (induction cs arbitrary: codes) (auto simp: collect_codes_def)

lemma alphabet_length: "length code_alphabet = 32"
  by (simp add: code_alphabet_def)

lemma collect_Cons: "collect_codes codes (c # cs) = collect_codes (if c \<in> set codes then codes else codes @ [c]) cs"
  by (simp add: collect_codes_def)

lemma backup_codes_result:
  assumes "generateBackupCodes E count n codes = Some r"
  shows "length codes \<le> count \<longrightarrow>
    (\<exists>m. r = (collect_codes codes (drawn E n m), n + m * BACKUP_CODE_LENGTH) \<and> length (fst r) = count)"
proof (rule generateBackupCodes.raw_induct [where P = "\<lambda>E count n codes r. length codes \<le> count \<longrightarrow>
    (\<exists>m. r = (collect_codes codes (drawn E n m), n + m * BACKUP_CODE_LENGTH) \<and> length (fst r) = count)", OF _ assms])
  fix gen E count n codes r
  assume IH: "\<And>E count n codes r. gen E count n codes = Some r \<Longrightarrow> length codes \<le> count \<longrightarrow>
      (\<exists>m. r = (collect_codes codes (drawn E n m), n + m * BACKUP_CODE_LENGTH) \<and> length (fst r) = count)"
    and step: "(if length codes < count then gen E count (n + BACKUP_CODE_LENGTH)
        (if random_code E BACKUP_CODE_LENGTH n \<in> set codes then codes else codes @ [random_code E BACKUP_CODE_LENGTH n])
      else Some (codes, n)) = Some r"
  let ?c = "if random_code E BACKUP_CODE_LENGTH n \<in> set codes then codes else codes @ [random_code E BACKUP_CODE_LENGTH n]"
  show "length codes \<le> count \<longrightarrow>
    (\<exists>m. r = (collect_codes codes (drawn E n m), n + m * BACKUP_CODE_LENGTH) \<and> length (fst r) = count)"
  proof (cases "length codes < count")
    case True
    with step have "gen E count (n + BACKUP_CODE_LENGTH) ?c = Some r" by simp
    from IH [OF this] True obtain m where
      "r = (collect_codes ?c (drawn E (n + BACKUP_CODE_LENGTH) m), n + BACKUP_CODE_LENGTH + m * BACKUP_CODE_LENGTH) \<and> length (fst r) = count"
      by (auto split: if_splits)
    then show ?thesis by (intro impI exI [of _ "Suc m"]) (auto simp: drawn_Suc collect_Cons)
  next
    case False
    with step show ?thesis by (intro impI exI [of _ 0]) (auto simp: drawn_def collect_codes_def)
  qed
qed

lemma backup_codes_return:
  "count \<le> length (collect_codes codes (drawn E n m)) \<Longrightarrow> \<exists>r. generateBackupCodes E count n codes = Some r"
proof (induction m arbitrary: n codes)
  case 0
  then show ?case by (simp add: drawn_def collect_codes_def generateBackupCodes.simps)
next
  case (Suc m)
  show ?case
  proof (cases "length codes < count")
    case True
    with Suc show ?thesis by (subst generateBackupCodes.simps) (simp add: drawn_Suc collect_Cons del: length_append)
  qed (simp add: generateBackupCodes.simps)
qed

section \<open>Issued codes and what they open\<close>

definition open_rows :: "string \<Rightarrow> 'a two_factor_state_scheme \<Rightarrow> backup_code table" where
  "open_rows i s = filter (\<lambda>(k, b). bc_userId b = i \<and> bc_consumedAt b = None) (backup_codes s)"

definition code_ids_ok :: "(nat \<Rightarrow> string) \<Rightarrow> 'a two_factor_state_scheme \<Rightarrow> bool" where
  "code_ids_ok uuid s \<longleftrightarrow> inj uuid \<and> fst ` set (backup_codes s) \<subseteq> uuid ` {..<calls s} \<and> distinct (map fst (backup_codes s))"

definition two_factor_on :: "string \<Rightarrow> 'a base_scheme \<Rightarrow> bool" where
  "two_factor_on i s \<longleftrightarrow> (\<exists>u. findById i s = Some u \<and> u_isTwoFactorEnabled u)"

text \<open>The rows of a user that are still open are those of the codes \<open>cs\<close>.\<close>

definition holds_codes :: "crypto_env \<Rightarrow> string \<Rightarrow> string list \<Rightarrow> 'a two_factor_state_scheme \<Rightarrow> bool" where
  "holds_codes E i cs s \<longleftrightarrow> distinct (map fst (backup_codes s)) \<and> distinct cs \<and> two_factor_on i s \<and>
     list_all2 (\<lambda>(k, b) c. \<exists>n. bc_codeHash b = ac_bcrypt E n c) (open_rows i s) cs"

text \<open>bcrypt tells apart texts of at most 72 bytes.\<close>

definition bcrypt_law :: "crypto_env \<Rightarrow> bool" where
  "bcrypt_law E \<longleftrightarrow> (\<forall>n p q. length p \<le> 72 \<and> length q \<le> 72 \<longrightarrow> (cr_compare E p (ac_bcrypt E n q) \<longleftrightarrow> p = q))"

lemma filter_out_updated:
  assumes "distinct (map fst t)" and "\<And>b. \<not> P (k, f b)"
  shows "filter P (tbl_update k f t) = filter (\<lambda>p. fst p \<noteq> k) (filter P t)"
  using assms by (induction t) (auto simp: tbl_update_def)

lemma filter_absent: "k \<notin> fst ` set t \<Longrightarrow> filter (\<lambda>p. fst p \<noteq> k) t = t"
  by (induction t) auto

lemma consume_code:
  assumes law: "bcrypt_law E" and h: "holds_codes E i cs s" and len: "\<forall>c\<in>set cs. length c \<le> 72" "length c \<le> 72"
  shows "if c \<in> set cs then \<exists>t. consumeBackupCode E now i c s = (Inr (), t) \<and> holds_codes E i (remove1 c cs) t
    else \<exists>e. consumeBackupCode E now i c s = (Inl e, s)"
proof -
  let ?hit = "\<lambda>(k :: string, b). cr_compare E c (bc_codeHash b)"
  from h obtain u where u: "findById i s = Some u" "u_isTwoFactorEnabled u" by (auto simp: holds_codes_def two_factor_on_def)
  have consume: "consumeBackupCode E now i c s = (case List.find ?hit (open_rows i s) of
      None \<Rightarrow> (Inl (UnauthorizedException ''Invalid backup code''), s)
    | Some (k, b) \<Rightarrow> (Inr (), s\<lparr>backup_codes := tbl_update k (\<lambda>c. c\<lparr>bc_consumedAt := Some now\<rparr>) (backup_codes s)\<rparr>))"
    using u by (auto simp: consumeBackupCode_def existing_user_def bindE_def gets_def from_option_def ret_def throw_def require_def
        modify_def open_rows_def split: option.splits)
  have rel: "?hit p \<longleftrightarrow> c = c'" if "\<exists>n. bc_codeHash (snd p) = ac_bcrypt E n c'" "length c' \<le> 72" for p c'
    using law that len(2) by (auto simp: bcrypt_law_def split: prod.splits)
  have all: "list_all2 (\<lambda>(k, b) c. \<exists>n. bc_codeHash b = ac_bcrypt E n c) (open_rows i s) cs" using h by (simp add: holds_codes_def)
  have miss: "List.find ?hit rs = None" if "list_all2 (\<lambda>(k, b) c. \<exists>n. bc_codeHash b = ac_bcrypt E n c) rs xs"
      "\<forall>c'\<in>set xs. length c' \<le> 72" "c \<notin> set xs" for rs xs
    using that(1,2,3)
  proof (induction rule: list_all2_induct)
    case (Cons p ps x xs)
    then show ?case using rel [of p x] by (auto split: prod.splits)
  qed simp
  show ?thesis
  proof (cases "c \<in> set cs")
    case False
    with miss [OF all len(1)] show ?thesis by (simp add: consume)
  next
    case True
    then obtain xs ys where cs: "cs = xs @ c # ys" "c \<notin> set xs" by (meson split_list_first)
    from all cs obtain r1 k b r2 where rows: "open_rows i s = r1 @ (k, b) # r2"
      and r1: "list_all2 (\<lambda>(k, b) c. \<exists>n. bc_codeHash b = ac_bcrypt E n c) r1 xs"
      and kb: "\<exists>n. bc_codeHash b = ac_bcrypt E n c"
      and r2: "list_all2 (\<lambda>(k, b) c. \<exists>n. bc_codeHash b = ac_bcrypt E n c) r2 ys"
      by (clarsimp simp: list_all2_append2 list_all2_Cons2) blast
    have "List.find ?hit r1 = None" using miss [OF r1] len(1) cs by simp
    moreover have "?hit (k, b)" using rel [of "(k, b)" c] kb len(2) by simp
    ultimately have f: "List.find ?hit (open_rows i s) = Some (k, b)" unfolding rows
      by (induction r1) (auto split: if_splits)
    let ?t = "s\<lparr>backup_codes := tbl_update k (\<lambda>c. c\<lparr>bc_consumedAt := Some now\<rparr>) (backup_codes s)\<rparr>"
    have d: "distinct (map fst (backup_codes s))" using h by (simp add: holds_codes_def)
    then have "distinct (map fst (open_rows i s))" by (simp add: open_rows_def distinct_sub)
    then have "filter (\<lambda>p. fst p \<noteq> k) (open_rows i s) = r1 @ r2" by (auto simp: rows filter_absent)
    moreover have "open_rows i ?t = filter (\<lambda>p. fst p \<noteq> k) (open_rows i s)"
      by (simp add: open_rows_def filter_out_updated [OF d])
    ultimately have "holds_codes E i (remove1 c cs) ?t" using h r1 r2 cs
      by (auto simp: holds_codes_def two_factor_on_def findById_def remove1_append intro: list_all2_appendI)
    with f True show ?thesis by (simp add: consume)
  qed
qed

fun accepted :: "string set \<Rightarrow> string list \<Rightarrow> bool list" where
  "accepted S [] = []"
| "accepted S (c # cs) = (c \<in> S) # accepted (S - {c}) cs"

fun try_codes :: "crypto_env \<Rightarrow> string \<Rightarrow> (int \<times> string) list \<Rightarrow> 'a two_factor_state_scheme \<Rightarrow> bool list" where
  "try_codes E i [] s = []"
| "try_codes E i ((now, c) # cs) s =
     (let (r, t) = consumeBackupCode E now i c s in (r = Inr ()) # try_codes E i cs t)"

lemma try_codes_accepted:
  assumes "bcrypt_law E" and "holds_codes E i codes s" and "\<forall>c\<in>set codes. length c \<le> 72" and "\<forall>(now, c)\<in>set cs. length c \<le> 72"
  shows "try_codes E i cs s = accepted (set codes) (map snd cs)"
  using assms(2-4)
proof (induction cs arbitrary: s codes)
  case (Cons p cs)
  obtain now c where p: "p = (now, c)" by fastforce
  have d: "distinct codes" using Cons.prems by (simp add: holds_codes_def)
  have step: "if c \<in> set codes then \<exists>t. consumeBackupCode E now i c s = (Inr (), t) \<and> holds_codes E i (remove1 c codes) t
    else \<exists>e. consumeBackupCode E now i c s = (Inl e, s)"
    using consume_code [OF assms(1) Cons.prems(1,2)] Cons.prems(3) p by simp
  show ?case
  proof (cases "c \<in> set codes")
    case True
    with step obtain t where "consumeBackupCode E now i c s = (Inr (), t)" "holds_codes E i (remove1 c codes) t" by auto
    with Cons.IH [of "remove1 c codes" t] Cons.prems(2,3) True d p show ?thesis by (simp add: set_remove1_eq)
  next
    case False
    with step obtain e where "consumeBackupCode E now i c s = (Inl e, s)" by auto
    with Cons.IH [OF Cons.prems(1,2)] Cons.prems(3) False p show ?thesis by simp
  qed
qed simp

subsection \<open>Issuing\<close>

lemma hash_codes_result:
  "\<exists>hs t. hash_codes E cs s = (Inr hs, t) \<and> list_all2 (\<lambda>h c. \<exists>n. h = ac_bcrypt E n c) hs cs \<and>
     calls s \<le> calls t \<and> t = s\<lparr>calls := calls t\<rparr>"
proof (induction cs arbitrary: s)
  case (Cons c cs)
  let ?s = "s\<lparr>calls := Suc (calls s)\<rparr>"
  from Cons.IH [of ?s] obtain hs t where "hash_codes E cs ?s = (Inr hs, t)" "list_all2 (\<lambda>h c. \<exists>n. h = ac_bcrypt E n c) hs cs"
    "calls ?s \<le> calls t" "t = ?s\<lparr>calls := calls t\<rparr>" by blast
  then show ?case
    by (intro exI [of _ "ac_bcrypt E (calls s) c # hs"] exI [of _ t])
      (auto simp: bindE_def bcrypt_hash_def ret_def account_env.defs)
qed (auto simp: ret_def)

lemma insert_codes_result:
  assumes "code_ids_ok (ac_uuid E) s"
  shows "\<exists>t new. insert_codes E now i hs s = (Inr (), t) \<and> distinct (map fst (backup_codes t)) \<and> users t = users s \<and>
    open_rows i t = open_rows i s @ new \<and> list_all2 (\<lambda>(k, b) h. bc_codeHash b = h) new hs"
  using assms
proof (induction hs arbitrary: s)
  case Nil
  then show ?case by (auto simp: ret_def code_ids_ok_def)
next
  case (Cons h hs)
  let ?k = "ac_uuid E (calls s)" and ?b = "\<lparr>bc_userId = i, bc_codeHash = h, bc_consumedAt = None, bc_createdAt = now\<rparr>"
  let ?s = "s\<lparr>calls := Suc (calls s), backup_codes := backup_codes s @ [(?k, ?b)]\<rparr>"
  have "?k \<notin> fst ` set (backup_codes s)" using Cons.prems by (fastforce simp: code_ids_ok_def inj_eq)
  then have "tbl_save ?k ?b (backup_codes s) = backup_codes s @ [(?k, ?b)]" and ok: "code_ids_ok (ac_uuid E) ?s"
    using Cons.prems by (auto simp: tbl_find_None_keys tbl_save_new code_ids_ok_def)
  then have step: "insert_codes E now i (h # hs) s = insert_codes E now i hs ?s"
    by (simp add: bindE_def next_id_def modify_def)
  from Cons.IH [OF ok] obtain t new where "insert_codes E now i hs ?s = (Inr (), t)" "distinct (map fst (backup_codes t))"
    "users t = users ?s" "open_rows i t = open_rows i ?s @ new" "list_all2 (\<lambda>(k, b) h. bc_codeHash b = h) new hs" by blast
  then show ?case
    by (intro exI [of _ t] exI [of _ "(?k, ?b) # new"]) (simp add: step open_rows_def del: insert_codes.simps)
qed

lemma issue_codes_result:
  assumes ids: "code_ids_ok (ac_uuid E) s" and on: "two_factor_on i s" and r: "issue_codes E now i s = Some (Inr codes, t)"
  shows "length codes = 8 \<and> holds_codes E i codes t \<and> (\<forall>c\<in>set codes. length c \<le> 72)"
proof -
  let ?d = "snd (delete_codes i s)"
  have d: "calls ?d = calls s" "users ?d = users s" "backup_codes ?d = filter (\<lambda>(k, b). bc_userId b \<noteq> i) (backup_codes s)"
    by (simp_all add: delete_codes_def modify_def)
  from r obtain cs n where g: "generateBackupCodes E 8 (calls s) [] = Some (cs, n)"
    and y: "bindE (hash_codes E cs) (\<lambda>hs. bindE (insert_codes E now i hs) (\<lambda>_. ret cs)) (?d\<lparr>calls := n\<rparr>) = (Inr codes, t)"
    by (auto simp: issue_codes_def Let_def d split: option.splits)
  from backup_codes_result [OF g] obtain m where m: "cs = collect_codes [] (drawn E (calls s) m)"
    "n = calls s + m * BACKUP_CODE_LENGTH" "length cs = 8" by auto
  have len: "\<forall>c\<in>set cs. length c \<le> 72"
    by (auto simp: m(1) collect_set drawn_def random_code_def BACKUP_CODE_LENGTH_def)
  obtain hs u where h: "hash_codes E cs (?d\<lparr>calls := n\<rparr>) = (Inr hs, u)" "list_all2 (\<lambda>h c. \<exists>n. h = ac_bcrypt E n c) hs cs"
    "n \<le> calls u" "u = ?d\<lparr>calls := calls u\<rparr>" using hash_codes_result [of E cs "?d\<lparr>calls := n\<rparr>"] by auto
  have su: "backup_codes u = filter (\<lambda>(k, b). bc_userId b \<noteq> i) (backup_codes s)" "users u = users s"
    by (subst h(4), simp add: d)+
  have "calls s \<le> calls u" using h(3) m(2) by simp
  moreover have "fst ` set (backup_codes u) \<subseteq> fst ` set (backup_codes s)" by (auto simp: su)
  moreover have "distinct (map fst (backup_codes u))" using ids by (simp add: su code_ids_ok_def distinct_sub)
  ultimately have "code_ids_ok (ac_uuid E) u" using ids unfolding code_ids_ok_def
    by (meson image_mono lessThan_subset_iff order_trans)
  from insert_codes_result [OF this, of now i hs] obtain v new where v: "insert_codes E now i hs u = (Inr (), v)"
    "distinct (map fst (backup_codes v))" "users v = users u" "open_rows i v = open_rows i u @ new"
    "list_all2 (\<lambda>(k, b) h. bc_codeHash b = h) new hs" by blast
  from y h(1) v(1) have t: "t = v" "codes = cs" by (auto simp: bindE_def ret_def)
  have "open_rows i u = []" by (auto simp: open_rows_def su filter_empty_conv)
  moreover have "list_all2 (\<lambda>(k, b) c. \<exists>n. bc_codeHash b = ac_bcrypt E n c) new cs"
    by (rule list_all2_trans [OF _ v(5) h(2)]) auto
  ultimately have "holds_codes E i codes t" using v on t m(1) su
    by (auto simp: holds_codes_def two_factor_on_def findById_def collect_distinct)
  with len m(3) t show ?thesis by simp
qed

lemma issue_codes_returns:
  assumes ids: "code_ids_ok (ac_uuid E) s" and c: "8 \<le> card (set (drawn E (calls s) m))"
  shows "\<exists>codes t. issue_codes E now i s = Some (Inr codes, t)"
proof -
  let ?d = "snd (delete_codes i s)"
  have d: "calls ?d = calls s" "backup_codes ?d = filter (\<lambda>(k, b). bc_userId b \<noteq> i) (backup_codes s)"
    by (simp_all add: delete_codes_def modify_def)
  have "8 \<le> length (collect_codes [] (drawn E (calls s) m))"
    using c collect_set [of "[]" "drawn E (calls s) m"] collect_distinct [of "[]" "drawn E (calls s) m"]
    by (metis distinct.simps(1) distinct_card empty_set sup_bot_left)
  from backup_codes_return [OF this] obtain cs n where g: "generateBackupCodes E 8 (calls s) [] = Some (cs, n)" by auto
  from backup_codes_result [OF g] have n: "calls s \<le> n" by auto
  obtain hs u where h: "hash_codes E cs (?d\<lparr>calls := n\<rparr>) = (Inr hs, u)" "n \<le> calls u" "u = ?d\<lparr>calls := calls u\<rparr>"
    using hash_codes_result [of E cs "?d\<lparr>calls := n\<rparr>"] by auto
  have su: "backup_codes u = filter (\<lambda>(k, b). bc_userId b \<noteq> i) (backup_codes s)" by (subst h(3), simp add: d)
  have "calls s \<le> calls u" using h(2) n by simp
  moreover have "fst ` set (backup_codes u) \<subseteq> fst ` set (backup_codes s)" by (auto simp: su)
  moreover have "distinct (map fst (backup_codes u))" using ids by (simp add: su code_ids_ok_def distinct_sub)
  ultimately have "code_ids_ok (ac_uuid E) u" using ids unfolding code_ids_ok_def
    by (meson image_mono lessThan_subset_iff order_trans)
  from insert_codes_result [OF this, of now i hs] h(1) g show ?thesis
    by (auto simp: issue_codes_def Let_def d bindE_def ret_def)
qed

lemma backup_generation_lengths:
  assumes "issue_codes E now i s = Some (Inr codes, t)"
  shows "codes \<noteq> [] \<and> length (hd codes) \<le> 72"
proof -
  from assms obtain n cs where g: "generateBackupCodes E 8 (calls (snd (delete_codes i s))) [] = Some (cs, n)"
    and y: "bindE (hash_codes E cs) (\<lambda>hs. bindE (insert_codes E now i hs) (\<lambda>_. ret cs)) (snd (delete_codes i s)\<lparr>calls := n\<rparr>) = (Inr codes, t)"
    by (auto simp: issue_codes_def Let_def split: option.splits)
  from y have "codes = cs" by (auto simp: op_iff)
  moreover from backup_codes_result [OF g] obtain m where m: "cs = collect_codes [] (drawn E (calls (snd (delete_codes i s))) m)"
    "length cs = 8" by auto
  ultimately have "codes \<noteq> []" "codes = cs" by auto
  then have "codes \<noteq> []" "hd codes \<in> set cs" by (auto intro: hd_in_set)
  then show ?thesis by (auto simp: m(1) collect_set drawn_def random_code_def BACKUP_CODE_LENGTH_def)
qed

text \<open>A concrete user with an authenticator, for the witnesses.\<close>

definition demo_two_factor :: two_factor_state where
  "demo_two_factor = credential_state.extend (demo_credentials\<lparr>users := [(''x'', (demo_user 5)\<lparr>u_twoFactorSecret :=
     Some (to_base64 (replicate 16 CHR ''i'' @ replicate 16 CHR ''t'' @ ''S''))\<rparr>)]\<rparr>) \<lparr>backup_codes = []\<rparr>"

lemma demo_two_factor_simps [simp]:
  "backup_codes demo_two_factor = []" "calls demo_two_factor = 2"
  "users demo_two_factor = [(''x'', (demo_user 5)\<lparr>u_twoFactorSecret :=
     Some (to_base64 (replicate 16 CHR ''i'' @ replicate 16 CHR ''t'' @ ''S''))\<rparr>)]"
  by (simp_all add: demo_two_factor_def credential_state.defs)

lemma demo_drawn: "card (set (drawn demo_crypto 2 8)) = 8"
proof -
  have ch: "random_char demo_crypto n = code_alphabet ! (n mod 32)" for n
    by (simp add: random_char_def alphabet_length demo_crypto_def account_env.defs)
  have "hd (random_code demo_crypto BACKUP_CODE_LENGTH n) = code_alphabet ! (n mod 32)" for n
    by (simp add: random_code_def hd_map BACKUP_CODE_LENGTH_def ch upt_conv_Cons)
  then have "map hd (drawn demo_crypto 2 8) = map (\<lambda>k. code_alphabet ! ((2 + k * 10) mod 32)) [0..<8]"
    by (simp add: drawn_def BACKUP_CODE_LENGTH_def del: upt_rec_numeral)
  moreover have "distinct (map (\<lambda>k. code_alphabet ! ((2 + k * 10) mod 32)) [0..<8])" by code_simp
  ultimately have "distinct (drawn demo_crypto 2 8)" by (metis distinct_map)
  then show ?thesis by (simp add: distinct_card) (simp add: drawn_def)
qed

section \<open>Properties\<close>

text \<open>C33. Drawing backup codes ends exactly when the random numbers ever produce enough different codes; then it
  returns exactly as many codes as were asked for, all different, each of ten letters of the alphabet when the random
  numbers are in their range.\<close>

theorem backup_generation_terminates:
  "((\<exists>r. generateBackupCodes E count n [] = Some r) \<longleftrightarrow> (\<exists>m. count \<le> card (set (drawn E n m)))) \<and>
   (\<forall>codes n'. generateBackupCodes E count n [] = Some (codes, n') \<longrightarrow> length codes = count \<and> distinct codes \<and>
     (\<forall>c\<in>set codes. length c = BACKUP_CODE_LENGTH \<and> ((\<forall>k. 0 \<le> cr_random E k \<and> cr_random E k < 1) \<longrightarrow> set c \<subseteq> set code_alphabet)))"
proof -
  have card: "length (collect_codes [] (drawn E n m)) = card (set (drawn E n m))" for m
    using collect_set [of "[]" "drawn E n m"] collect_distinct [of "[]" "drawn E n m"] by (metis distinct.simps(1) distinct_card empty_set sup_bot_left)
  have res: "\<exists>m. codes = collect_codes [] (drawn E n m) \<and> length codes = count"
    if "generateBackupCodes E count n [] = Some (codes, n')" for codes n'
    using backup_codes_result [OF that] by auto
  have ch: "random_char E k \<in> set code_alphabet" if "\<forall>k. 0 \<le> cr_random E k \<and> cr_random E k < 1" for k
  proof -
    have "\<lfloor>cr_random E k * 32\<rfloor> < 32" "0 \<le> \<lfloor>cr_random E k * 32\<rfloor>" using that [rule_format, of k] by (simp_all add: floor_less_iff)
    then have "nat \<lfloor>cr_random E k * of_nat (length code_alphabet)\<rfloor> < length code_alphabet"
      by (simp add: alphabet_length nat_less_iff)
    then show ?thesis unfolding random_char_def by (rule nth_mem)
  qed
  have wf: "length codes = count \<and> distinct codes \<and> (\<forall>c\<in>set codes. length c = BACKUP_CODE_LENGTH \<and>
      ((\<forall>k. 0 \<le> cr_random E k \<and> cr_random E k < 1) \<longrightarrow> set c \<subseteq> set code_alphabet))"
    if "generateBackupCodes E count n [] = Some (codes, n')" for codes n'
    using res [OF that] ch by (auto simp: collect_distinct collect_set drawn_def random_code_def)
  have "(\<exists>r. generateBackupCodes E count n [] = Some r) \<longleftrightarrow> (\<exists>m. count \<le> card (set (drawn E n m)))"
  proof
    assume "\<exists>r. generateBackupCodes E count n [] = Some r"
    then obtain codes n' where "generateBackupCodes E count n [] = Some (codes, n')" by auto
    with res card show "\<exists>m. count \<le> card (set (drawn E n m))" by (metis order_refl)
  qed (metis backup_codes_return card)
  with wf show ?thesis by blast
qed

theorem backup_generation_terminates_witness:
  "\<exists>codes n. generateBackupCodes demo_crypto 8 2 [] = Some (codes, n) \<and> length codes = 8"
  using backup_generation_terminates [of demo_crypto 8 2] demo_drawn by (metis order_refl surj_pair)

text \<open>C10. Backup codes open an account once each: setting up two-factor authentication or renewing the codes issues eight
  different codes, and from then on, whatever codes are tried and in whatever order, a code is accepted when
  it is one of those eight and was not accepted before, and only then; codes of an earlier issue are dead.\<close>

theorem backup_codes_once:
  assumes "bcrypt_law E" and "code_ids_ok (ac_uuid E) s"
    and "confirmTwoFactor E now i totp s = Some (Inr codes, t) \<or> regenerateBackupCodes E now i totp s = Some (Inr codes, t)"
    and "\<forall>(now, c)\<in>set cs. length c \<le> 72"
  shows "length codes = 8 \<and> distinct codes \<and> try_codes E i cs t = accepted (set codes) (map snd cs)"
proof -
  have ver: "u = s" if "check_code E now x totp s = (r, u)" for u r x
    using that by (cases r) (auto simp: check_code_def verifyTotp_def decrypt_def decryptWithAes256Gcm_def Let_def op_iff split: if_splits)
  from assms(3) obtain u where u: "issue_codes E now i u = Some (Inr codes, t)" and bc: "backup_codes u = backup_codes s" "calls u = calls s"
    and on: "two_factor_on i u"
  proof
    assume "confirmTwoFactor E now i totp s = Some (Inr codes, t)"
    then show thesis
      by (auto simp: confirmTwoFactor_def existing_user_def op_iff split: prod.splits sum.splits dest!: ver intro!: that)
        (auto simp: updateByUserId_def two_factor_on_def findById_def tbl_simps)
  next
    assume "regenerateBackupCodes E now i totp s = Some (Inr codes, t)"
    then show thesis
      by (auto simp: regenerateBackupCodes_def existing_user_def op_iff two_factor_on_def split: prod.splits sum.splits dest!: ver
          intro!: that)
  qed
  have "code_ids_ok (ac_uuid E) u" using assms(2) bc by (simp add: code_ids_ok_def)
  from issue_codes_result [OF this on u] have h: "length codes = 8" "holds_codes E i codes t" "\<forall>c\<in>set codes. length c \<le> 72" by auto
  with try_codes_accepted [OF assms(1) h(2,3) assms(4)] show ?thesis by (simp add: holds_codes_def)
qed

theorem backup_codes_once_witness:
  "\<exists>codes t. confirmTwoFactor demo_crypto 0 ''x'' ''S'' demo_two_factor = Some (Inr codes, t) \<and>
     try_codes demo_crypto ''x'' [(1, hd codes), (2, hd codes)] t = [True, False]"
proof -
  let ?s = demo_two_factor
  let ?t = "updateByUserId ''x'' (\<lambda>u. u\<lparr>u_isTwoFactorEnabled := True\<rparr>) ?s"
  have law: "bcrypt_law demo_crypto"
    by (auto simp: bcrypt_law_def demo_crypto_def account_env.defs demo_account_env_def)
  have ids: "code_ids_ok (ac_uuid demo_crypto) ?s" "code_ids_ok (ac_uuid demo_crypto) ?t"
    by (simp_all add: code_ids_ok_def demo_uuid_inj updateByUserId_def)
  have "check_code demo_crypto 0 (Some (to_base64 (replicate 16 CHR ''i'' @ replicate 16 CHR ''t'' @ ''S''))) ''S'' ?s = (Inr (), ?s)"
    using demo_key
    by (simp add: check_code_def verifyTotp_def decrypt_def getEncryptionKeyHex_def demo_cipher_def decryptWithAes256Gcm_def
        getWalletEncryptionKey_def bindE_def from_sum_def truthy_def require_def ret_def from_option_def IV_LENGTH_def
        AUTH_TAG_LENGTH_def from_to_base64)
  moreover have "to_base64 (replicate 16 CHR ''i'' @ replicate 16 CHR ''t'' @ ''S'') \<noteq> []" by code_simp
  ultimately have c: "confirmTwoFactor demo_crypto 0 ''x'' ''S'' ?s = issue_codes demo_crypto 0 ''x'' ?t"
    by (simp add: confirmTwoFactor_def existing_user_def bindE_def gets_def from_option_def ret_def require_def modify_def
        findById_def tbl_find_def truthy_def)
  from issue_codes_returns [OF ids(2), of 8 0 "''x''"] obtain codes t where y: "issue_codes demo_crypto 0 ''x'' ?t = Some (Inr codes, t)"
    by (auto simp: updateByUserId_def demo_drawn)
  then have conf: "confirmTwoFactor demo_crypto 0 ''x'' ''S'' ?s = Some (Inr codes, t)" by (simp add: c)
  from backup_generation_lengths [OF y] have len: "codes \<noteq> []" "length (hd codes) \<le> 72" by auto
  with backup_codes_once [OF law ids(1) disjI1 [OF conf], of "[(1, hd codes), (2, hd codes)]"] conf show ?thesis by auto
qed

end
