(* ===== verification/Auth.thy ===== *)
theory Auth
  imports TwoFactor
begin

text \<open>
  Signing up and signing in (\<open>auth/auth.service.ts\<close>, \<open>auth/email/otp-delivery.service.ts\<close>, the payload of
  the tokens in \<open>auth/strategies/jwt.strategy.ts\<close>, and \<open>seedPrimaryWalletFromUserCredentials\<close> of
  \<open>wallets/wallets.service.ts\<close>). \<open>auth_env\<close> adds the configuration of the mails and the functions of the
  platform: signing and checking a JSON web token, making a key pair, and the translation of messages. The codes that
  were handed to the mail queue are the \<open>outbox\<close>. Audit logs and the delay against timing are not modelled.
\<close>

section \<open>Data\<close>

record jwt_payload =
  jp_sub :: string
  jp_email :: string
  jp_role :: user_role
  jp_authStage :: "string option"
  jp_isImpersonation :: "bool option"
  jp_impersonatedBy :: "string option"
  jp_jti :: "string option"

datatype oauth_provider = GOOGLE | GITHUB

record oauth_account =
  oa_userId :: string
  oa_provider :: oauth_provider
  oa_providerAccountId :: string
  oa_accessToken :: "string option"
  oa_refreshToken :: "string option"
  oa_profile :: string

record reset_attempt =
  ra_email :: string
  ra_createdAt :: int

record auth_state = two_factor_state +
  resetAttempts :: "reset_attempt list"
  oauthAccounts :: "oauth_account table"
  outbox :: "(string \<times> otp_type \<times> string) list"

record auth_env = crypto_env +
  au_sign :: "int \<Rightarrow> string option \<Rightarrow> jwt_payload \<Rightarrow> string"
  au_verify :: "int \<Rightarrow> string \<Rightarrow> jwt_payload option"
  au_JWT_EXPIRES_IN :: "string option"
  au_SKIP_EMAIL_SENDING :: "string option"
  au_MAILGUN_API_KEY :: "string option"
  au_MAILGUN_DOMAIN :: "string option"
  au_MAILGUN_FROM_EMAIL :: "string option"
  au_enqueueEmail :: "string \<Rightarrow> bool"
  au_keypair :: "nat \<Rightarrow> string \<times> string"
  au_translate :: "string \<Rightarrow> string \<Rightarrow> string"
  au_PRIVACY_POLICY_VERSION :: "string option"

record auth_user =
  as_id :: string
  as_email :: string
  as_firstName :: "string option"
  as_lastName :: "string option"
  as_name :: string
  as_role :: user_role
  as_walletPublicKey :: "string option"

record auth_tokens =
  at_accessToken :: string
  at_refreshToken :: string
  at_expiresIn :: rat
  at_user :: auth_user

datatype login_result =
    Tokens auth_tokens
  | RequiresTwoFactor string

record signup_dto =
  su_email :: string
  su_password :: string
  su_firstName :: "string option"
  su_lastName :: "string option"
  su_phone :: "string option"
  su_referralCode :: "string option"
  su_consentGdpr :: bool

abbreviation crypto_of :: "auth_env \<Rightarrow> crypto_env" where
  "crypto_of \<equiv> crypto_env.truncate"

abbreviation account_of :: "auth_env \<Rightarrow> account_env" where
  "account_of \<equiv> account_env.truncate"

section \<open>Sending codes\<close>

definition sendOtp :: "auth_env \<Rightarrow> string \<Rightarrow> otp_type \<Rightarrow> string \<Rightarrow> ('a auth_state_scheme, unit) op" where
  "sendOtp E email ty code =
     (if au_SKIP_EMAIL_SENDING E = Some ''true'' then ret ()
      else tryE
        (bindE (require (truthy (au_MAILGUN_API_KEY E) \<and> truthy (au_MAILGUN_DOMAIN E) \<and> truthy (au_MAILGUN_FROM_EMAIL E))
           (PlainError ''Missing Mailgun configuration: MAILGUN_API_KEY, MAILGUN_DOMAIN, and MAILGUN_FROM_EMAIL are required'')) (\<lambda>_.
         bindE (require (au_enqueueEmail E email) (PlainError ''queue'')) (\<lambda>_.
         modify (\<lambda>s. s\<lparr>outbox := outbox s @ [(email, ty, code)]\<rparr>))))
        (\<lambda>_. ret ()))"

definition send_code :: "auth_env \<Rightarrow> int \<Rightarrow> string \<times> user \<Rightarrow> otp_type \<Rightarrow> ('a auth_state_scheme, unit) op" where
  "send_code E now user ty =
     bindE (generateOtp (crypto_of E) now user ty) (\<lambda>code. sendOtp E (u_email (snd user)) ty code)"

section \<open>Tokens\<close>

text \<open>\<open>/^(\d+)([smhd])$/\<close>, with the number read by \<open>parseInt\<close>.\<close>

definition is_digit :: "char \<Rightarrow> bool" where
  "is_digit c = (48 \<le> (of_char c :: nat) \<and> (of_char c :: nat) \<le> 57)"

definition digits_value :: "string \<Rightarrow> nat" where
  "digits_value ds = foldl (\<lambda>n c. 10 * n + (of_char c - 48)) 0 ds"

definition getAccessTokenExpirySeconds :: "auth_env \<Rightarrow> rat" where
  "getAccessTokenExpirySeconds E =
     (let expiresIn = (if truthy (au_JWT_EXPIRES_IN E) then the (au_JWT_EXPIRES_IN E) else ''15m'');
          ds = butlast expiresIn; unit = last expiresIn
      in if ds \<noteq> [] \<and> list_all is_digit ds \<and> unit \<in> set ''smhd''
         then (let v = rnd (of_nat (digits_value ds))
               in if unit = CHR ''s'' then v else if unit = CHR ''m'' then js_mul v 60
                  else if unit = CHR ''h'' then js_mul v 3600 else js_mul v 86400)
         else 900)"

definition plain_payload :: "string \<Rightarrow> user \<Rightarrow> jwt_payload" where
  "plain_payload i u = \<lparr>jp_sub = i, jp_email = u_email u, jp_role = u_role u, jp_authStage = None, jp_isImpersonation = None,
     jp_impersonatedBy = None, jp_jti = None\<rparr>"

definition display_name :: "user \<Rightarrow> string" where
  "display_name u = trim ((case u_firstName u of None \<Rightarrow> [] | Some f \<Rightarrow> f) @ '' '' @ (case u_lastName u of None \<Rightarrow> [] | Some l \<Rightarrow> l))"

definition issueAuthTokens :: "auth_env \<Rightarrow> int \<Rightarrow> string \<times> user \<Rightarrow> ('a credential_state_scheme, auth_tokens) op" where
  "issueAuthTokens E now user =
     bindE (gets (findById (fst user))) (\<lambda>found.
     let u = snd user;
         authUser = \<lparr>as_id = fst user, as_email = u_email u, as_firstName = Option.bind found u_firstName,
           as_lastName = Option.bind found u_lastName,
           as_name = (case found of None \<Rightarrow> [] | Some f \<Rightarrow> display_name f), as_role = u_role u,
           as_walletPublicKey = map_option u_walletPublicKey found\<rparr>
     in bindE (createRefreshToken (crypto_of E) now (fst user)) (\<lambda>refresh.
        ret \<lparr>at_accessToken = au_sign E now None (plain_payload (fst user) u), at_refreshToken = refresh,
          at_expiresIn = getAccessTokenExpirySeconds E, at_user = authUser\<rparr>))"

text \<open>A request finds the user of an address and goes on with that object.\<close>

definition user_by_email :: "string \<Rightarrow> (user \<Rightarrow> bool) \<Rightarrow> exn \<Rightarrow> ('a base_scheme, string \<times> user) op" where
  "user_by_email email P e =
     bindE (gets (findByEmail email)) (\<lambda>found.
     from_option e (case found of None \<Rightarrow> None | Some p \<Rightarrow> if P (snd p) then Some p else None))"

definition clear_failures :: "string \<Rightarrow> ('a base_scheme, unit) op" where
  "clear_failures i = modify (updateByUserId i (\<lambda>u. u\<lparr>u_failedLoginAttempts := 0, u_lockedUntil := None\<rparr>))"

section \<open>Signing in\<close>

definition login :: "auth_env \<Rightarrow> int \<Rightarrow> string \<Rightarrow> string \<Rightarrow> ('a auth_state_scheme, string) op" where
  "login E now email password =
     bindE (gets (findByEmail email)) (\<lambda>found.
     let genericMessage = ''If an account exists with this email, an OTP has been sent.'' in
     case found of
       None \<Rightarrow> ret genericMessage
     | Some (i, u) \<Rightarrow>
         if \<not> u_isVerified u \<or> \<not> u_isActive u then ret genericMessage
         else if \<not> truthy (u_password u) then ret genericMessage
         else if \<not> cr_compare E password (the (u_password u)) then ret genericMessage
         else bindE (send_code E now (i, u) LOGIN) (\<lambda>_. ret genericMessage))"

definition loginV2 :: "auth_env \<Rightarrow> int \<Rightarrow> string \<Rightarrow> string \<Rightarrow> string \<Rightarrow> ('a auth_state_scheme, string) op" where
  "loginV2 E now email password lang =
     bindE (user_by_email email u_isVerified (UnauthorizedException (au_translate E ''auth.INVALID_CREDENTIALS'' lang))) (\<lambda>(i, u).
     bindE (require (truthy (u_password u) \<and> cr_compare E password (the (u_password u)))
       (UnauthorizedException (au_translate E ''auth.INVALID_CREDENTIALS'' lang))) (\<lambda>_.
     bindE (send_code E now (i, u) LOGIN) (\<lambda>_.
     ret (au_translate E ''auth.LOGIN_OTP_SENT'' lang))))"

definition verifyLoginOtp :: "auth_env \<Rightarrow> int \<Rightarrow> string \<Rightarrow> string \<Rightarrow> ('a credential_state_scheme, login_result) op" where
  "verifyLoginOtp E now email code =
     bindE (user_by_email email (\<lambda>u. u_isVerified u \<and> u_isActive u) (UnauthorizedException ''Invalid credentials'')) (\<lambda>(i, u).
     bindE (validateOtp (crypto_of E) now (i, u) code LOGIN) (\<lambda>_.
     bindE (clear_failures i) (\<lambda>_.
     if u_isTwoFactorEnabled u
     then ret (RequiresTwoFactor (au_sign E now (Some ''5m'') ((plain_payload i u)\<lparr>jp_authStage := Some ''partial_auth''\<rparr>)))
     else bindE (issueAuthTokens E now (i, u)) (\<lambda>t. ret (Tokens t)))))"

definition getUserIdFromPartialAuth :: "auth_env \<Rightarrow> int \<Rightarrow> string \<Rightarrow> ('s, string) op" where
  "getUserIdFromPartialAuth E now token =
     bindE (from_option (UnauthorizedException ''Invalid or expired two-factor token'') (au_verify E now token)) (\<lambda>decoded.
     bindE (require (jp_authStage decoded = Some ''partial_auth'') (UnauthorizedException ''Invalid two-factor token'')) (\<lambda>_.
     ret (jp_sub decoded)))"

definition verifyTwoFactor :: "auth_env \<Rightarrow> int \<Rightarrow> string \<Rightarrow> string \<Rightarrow> ('a credential_state_scheme, auth_tokens) op" where
  "verifyTwoFactor E now token totpCode =
     bindE (getUserIdFromPartialAuth E now token) (\<lambda>i.
     bindE (gets (findById i)) (\<lambda>found.
     bindE (from_option (UnauthorizedException ''Invalid two-factor verification state'')
       (case found of None \<Rightarrow> None | Some u \<Rightarrow> if u_isVerified u \<and> u_isTwoFactorEnabled u then Some u else None)) (\<lambda>u.
     bindE (verifyTotpCode (crypto_of E) now i totpCode) (\<lambda>isValid.
     bindE (require isValid (UnauthorizedException ''Invalid two-factor code'')) (\<lambda>_.
     bindE (clear_failures i) (\<lambda>_.
     issueAuthTokens E now (i, u)))))))"

definition issueFullAccessToken :: "auth_env \<Rightarrow> int \<Rightarrow> string \<Rightarrow> ('a credential_state_scheme, auth_tokens) op" where
  "issueFullAccessToken E now userId =
     bindE (gets (findById userId)) (\<lambda>found.
     bindE (from_option (UnauthorizedException ''Invalid credentials'')
       (case found of None \<Rightarrow> None | Some u \<Rightarrow> if u_isVerified u then Some u else None)) (\<lambda>u.
     issueAuthTokens E now (userId, u)))"

definition refreshAccessToken :: "auth_env \<Rightarrow> int \<Rightarrow> string \<Rightarrow> ('a credential_state_scheme, string \<times> rat) op" where
  "refreshAccessToken E now token =
     bindE (validateRefreshToken (crypto_of E) now token) (\<lambda>r.
     bindE (gets (findById (rt_userId r))) (\<lambda>found.
     bindE (from_option (UnauthorizedException ''Invalid refresh token'')
       (case found of None \<Rightarrow> None | Some u \<Rightarrow> if u_isVerified u \<and> u_isActive u then Some u else None)) (\<lambda>u.
     ret (au_sign E now None (plain_payload (rt_userId r) u), getAccessTokenExpirySeconds E))))"

definition logout :: "auth_env \<Rightarrow> int \<Rightarrow> string option \<Rightarrow> ('a credential_state_scheme, unit) op" where
  "logout E now tokenId =
     (if truthy tokenId then revokeRefreshToken (crypto_of E) now (the tokenId) else ret ())"

definition logoutAllDevices :: "int \<Rightarrow> string \<Rightarrow> ('a credential_state_scheme, unit) op" where
  "logoutAllDevices now userId = revokeAllUserTokens now userId"

section \<open>Forgotten passwords\<close>

definition MS_PER_HOUR :: int where
  "MS_PER_HOUR = 3600000"

definition recent_attempts :: "int \<Rightarrow> string \<Rightarrow> reset_attempt list \<Rightarrow> reset_attempt list" where
  "recent_attempts now email = filter (\<lambda>a. ra_email a = normal_email email \<and> now - MS_PER_HOUR < ra_createdAt a)"

definition checkPasswordResetRateLimit :: "int \<Rightarrow> string \<Rightarrow> ('a auth_state_scheme, unit) op" where
  "checkPasswordResetRateLimit now email =
     bindE (gets (\<lambda>s. length (recent_attempts now email (resetAttempts s)))) (\<lambda>recentAttempts.
     bindE (require (recentAttempts < 3)
       (ThrottlerException ''Too many password reset attempts. Please try again in 1 hour.'')) (\<lambda>_.
     modify (\<lambda>s. s\<lparr>resetAttempts := resetAttempts s @ [\<lparr>ra_email = normal_email email, ra_createdAt = now\<rparr>]\<rparr>)))"

definition forgotPassword :: "auth_env \<Rightarrow> int \<Rightarrow> string \<Rightarrow> ('a auth_state_scheme, string) op" where
  "forgotPassword E now email =
     bindE (gets (findByEmail email)) (\<lambda>found.
     let genericMessage = ''If an account exists with this email, password reset instructions have been sent.'' in
     case found of
       None \<Rightarrow> ret genericMessage
     | Some (i, u) \<Rightarrow>
         if \<not> u_isVerified u then ret genericMessage
         else bindE (checkPasswordResetRateLimit now email) (\<lambda>_.
              bindE (send_code E now (i, u) PASSWORD_RESET) (\<lambda>_. ret genericMessage)))"

definition resetPassword :: "auth_env \<Rightarrow> int \<Rightarrow> string \<Rightarrow> string \<Rightarrow> string \<Rightarrow> ('a credential_state_scheme, unit) op" where
  "resetPassword E now email code newPassword =
     bindE (user_by_email email u_isVerified (UnauthorizedException ''Invalid credentials'')) (\<lambda>(i, u).
     bindE (validateOtp (crypto_of E) now (i, u) code PASSWORD_RESET) (\<lambda>_.
     bindE (clear_failures i) (\<lambda>_.
     bindE (updatePassword (account_of E) i newPassword) (\<lambda>_.
     bindE (revokeAllUserTokens now i) (\<lambda>_.
     invalidateAllUserOtps now i None)))))"

section \<open>Signing up\<close>

text \<open>Deleting a row takes the rows that refer to it along.\<close>

definition delete_account :: "string \<Rightarrow> ('a auth_state_scheme, unit) op" where
  "delete_account i = modify (\<lambda>s. deleteById i (s\<lparr>wallets := filter (\<lambda>(k, w). w_userId w \<noteq> i) (wallets s),
     otps := filter (\<lambda>(k, x). otp_userId x \<noteq> i) (otps s),
     refresh_tokens := filter (\<lambda>(k, r). rt_userId r \<noteq> i) (refresh_tokens s),
     referrals := filter (\<lambda>(k, r). rf_referrerId r \<noteq> i \<and> rf_refereeId r \<noteq> i) (referrals s),
     oauthAccounts := filter (\<lambda>(k, a). oa_userId a \<noteq> i) (oauthAccounts s)\<rparr>))"

definition REFERRAL_CODE_LENGTH :: nat where
  "REFERRAL_CODE_LENGTH = 8"

fun generateUniqueReferralCode :: "crypto_env \<Rightarrow> nat \<Rightarrow> ('a chain_scheme, string) op" where
  "generateUniqueReferralCode E 0 = throw (BadRequestException ''Unable to generate referral code. Please try again.'')"
| "generateUniqueReferralCode E (Suc attempts) =
     bindE (gets (\<lambda>s. random_code E REFERRAL_CODE_LENGTH (calls s))) (\<lambda>code.
     bindE (modify (\<lambda>s. s\<lparr>calls := calls s + REFERRAL_CODE_LENGTH\<rparr>)) (\<lambda>_.
     bindE (gets (findByReferralCode code)) (\<lambda>existing.
     if existing = None then ret code else generateUniqueReferralCode E attempts)))"

definition maxAttempts :: nat where
  "maxAttempts = 20"

definition generateWallet :: "auth_env \<Rightarrow> ('a chain_scheme, string \<times> string) op" where
  "generateWallet E = (\<lambda>s. (Inr (au_keypair E (calls s)), s\<lparr>calls := Suc (calls s)\<rparr>))"

text \<open>\<open>/^G[A-Z2-7]{55}$/\<close>.\<close>

definition stellar_address :: "string \<Rightarrow> bool" where
  "stellar_address a \<longleftrightarrow> length a = 56 \<and> hd a = CHR ''G'' \<and>
     list_all (\<lambda>c. 65 \<le> (of_char c :: nat) \<and> (of_char c :: nat) \<le> 90 \<or> 50 \<le> (of_char c :: nat) \<and> (of_char c :: nat) \<le> 55) (tl a)"

definition seedPrimaryWalletFromUserCredentials ::
    "auth_env \<Rightarrow> string \<Rightarrow> string \<Rightarrow> string \<Rightarrow> ('a chain_scheme, unit) op" where
  "seedPrimaryWalletFromUserCredentials E userId publicKey encryptedSecretKey =
     bindE (require (stellar_address publicKey) (BadRequestException ''<address> is not a valid Stellar public key.'')) (\<lambda>_.
     bindE (gets (\<lambda>s. length (filter (\<lambda>(k, w). w_userId w = userId) (wallets s)))) (\<lambda>count.
     if 0 < count then ret ()
     else bindE (next_id (ac_uuid E)) (\<lambda>k.
       modify (\<lambda>s. s\<lparr>wallets := tbl_save k \<lparr>w_userId = userId, w_publicKey = publicKey,
         w_encryptedSecretKey = Some encryptedSecretKey, w_isDefault = True\<rparr> (wallets s)\<rparr>))))"

text \<open>The service calls \<open>this.gdprService\<close>, which its constructor never sets.\<close>

definition record_consent :: "('s, unit) op" where
  "record_consent = throw (PlainError ''Cannot read properties of undefined (reading recordConsent)'')"

definition new_user_params :: "auth_env \<Rightarrow> signup_dto \<Rightarrow> string \<Rightarrow> string \<Rightarrow> string \<Rightarrow> string option \<Rightarrow> int \<Rightarrow> create_user_params" where
  "new_user_params E d publicKey secret code referredBy now =
     \<lparr>cu_email = normal_email (su_email d), cu_password = Some (su_password d), cu_firstName = su_firstName d,
      cu_lastName = su_lastName d, cu_phone = su_phone d, cu_walletPublicKey = publicKey,
      cu_walletSecretKeyEncrypted = secret, cu_referralCode = code, cu_referredBy = referredBy, cu_role = None,
      cu_consentGdpr = Some (su_consentGdpr d), cu_consentGdprAt = Some now, cu_consentGdprVersion =
        Some (if truthy (au_PRIVACY_POLICY_VERSION E) then the (au_PRIVACY_POLICY_VERSION E) else ''1.0'')\<rparr>"

definition find_referrer :: "string option \<Rightarrow> ('a base_scheme, string option) op" where
  "find_referrer code =
     (if truthy (map_option normal_code code)
      then bindE (gets (findByReferralCode (normal_code (the code)))) (\<lambda>referrer.
           bindE (from_option (BadRequestException ''Invalid referral code'') referrer) (\<lambda>(i, u). ret (Some i)))
      else ret None)"

definition new_wallet :: "auth_env \<Rightarrow> ('a chain_scheme, string \<times> string) op" where
  "new_wallet E = bindE (generateWallet E) (\<lambda>(publicKey, secretKey).
     bindE (encrypt (cr_cipher E) secretKey) (\<lambda>c. ret (publicKey, c)))"

text \<open>What comes after the checks of the address.\<close>

definition create_account :: "auth_env \<Rightarrow> int \<Rightarrow> signup_dto \<Rightarrow> ('a auth_state_scheme, string) op" where
  "create_account E now d =
     bindE (gets (\<lambda>s. if truthy (su_phone d) then findByPhone (the (su_phone d)) s else None)) (\<lambda>existingPhone.
     bindE (require (existingPhone = None) (ConflictException ''Phone number is already registered'')) (\<lambda>_.
     bindE (find_referrer (su_referralCode d)) (\<lambda>referredBy.
     bindE (generateUniqueReferralCode (crypto_of E) maxAttempts) (\<lambda>code.
     bindE (new_wallet E) (\<lambda>(publicKey, secret).
     bindE (createUser (account_of E) now (new_user_params E d publicKey secret code referredBy now)) (\<lambda>(i, u).
     bindE (if su_consentGdpr d then record_consent else ret ()) (\<lambda>_.
     bindE (seedPrimaryWalletFromUserCredentials E i publicKey secret) (\<lambda>_.
     bindE (case referredBy of None \<Rightarrow> ret () | Some r \<Rightarrow>
         bindE (createPendingReferral (ac_uuid E) now r i) (\<lambda>_. ret ())) (\<lambda>_.
     bindE (gets (findById i)) (\<lambda>fullUser.
     bindE (case fullUser of None \<Rightarrow> ret () | Some f \<Rightarrow> send_code E now (i, f) SIGNUP) (\<lambda>_.
     ret ''User has been created and a verification code has been sent'')))))))))))"

definition signup :: "auth_env \<Rightarrow> int \<Rightarrow> signup_dto \<Rightarrow> ('a auth_state_scheme, string) op" where
  "signup E now d =
     bindE (gets (findByEmail (normal_email (su_email d)))) (\<lambda>existingUser.
     case existingUser of
       None \<Rightarrow> create_account E now d
     | Some (i, u) \<Rightarrow>
         if u_isVerified u then ret ''this email is available, a verification code has been sent.''
         else bindE (delete_account i) (\<lambda>_. create_account E now d))"

definition verifySignupOtp :: "auth_env \<Rightarrow> int \<Rightarrow> string \<Rightarrow> string \<Rightarrow> ('a credential_state_scheme, string \<times> string \<times> rat) op" where
  "verifySignupOtp E now email code =
     bindE (user_by_email email (\<lambda>_. True) (UnauthorizedException ''Invalid credentials'')) (\<lambda>(i, u).
     bindE (require (\<not> u_isVerified u) (BadRequestException ''Account is already verified'')) (\<lambda>_.
     bindE (validateOtp (crypto_of E) now (i, u) code SIGNUP) (\<lambda>_.
     bindE (clear_failures i) (\<lambda>_.
     bindE (verifyUser i) (\<lambda>_.
     bindE (createRefreshToken (crypto_of E) now i) (\<lambda>refresh.
     ret (au_sign E now None (plain_payload i u), refresh, getAccessTokenExpirySeconds E)))))))"

definition resendSignupOtp :: "auth_env \<Rightarrow> int \<Rightarrow> string \<Rightarrow> ('a auth_state_scheme, string) op" where
  "resendSignupOtp E now email =
     bindE (gets (findByEmail email)) (\<lambda>found.
     let genericMessage = ''If a pending signup exists, a new verification code has been sent.'' in
     case found of
       None \<Rightarrow> ret genericMessage
     | Some (i, u) \<Rightarrow> if u_isVerified u then ret genericMessage
         else bindE (send_code E now (i, u) SIGNUP) (\<lambda>_. ret genericMessage))"

section \<open>Accounts of other providers\<close>

definition save_oauth :: "auth_env \<Rightarrow> oauth_account \<Rightarrow> ('a auth_state_scheme, unit) op" where
  "save_oauth E a = bindE (next_id (ac_uuid E)) (\<lambda>k. modify (\<lambda>s. s\<lparr>oauthAccounts := tbl_save k a (oauthAccounts s)\<rparr>))"

definition handleOAuthLogin :: "auth_env \<Rightarrow> int \<Rightarrow> oauth_provider \<Rightarrow> string \<Rightarrow> string \<Rightarrow> string option \<Rightarrow> string option \<Rightarrow>
    string \<Rightarrow> string option \<Rightarrow> string \<Rightarrow> ('a auth_state_scheme, user option \<times> bool) op" where
  "handleOAuthLogin E now provider accountId email firstName lastName accessToken refreshToken profile =
     bindE (encrypt (cr_cipher E) accessToken) (\<lambda>encryptedAccess.
     bindE (if truthy refreshToken
         then bindE (encrypt (cr_cipher E) (the refreshToken)) (\<lambda>c. ret (Some c)) else ret None) (\<lambda>encryptedRefresh.
     let link = (\<lambda>i. \<lparr>oa_userId = i, oa_provider = provider, oa_providerAccountId = accountId,
           oa_accessToken = Some encryptedAccess, oa_refreshToken = encryptedRefresh, oa_profile = profile\<rparr>) in
     bindE (gets (\<lambda>s. List.find (\<lambda>(k, a). oa_provider a = provider \<and> oa_providerAccountId a = accountId) (oauthAccounts s))) (\<lambda>existing.
     case existing of
       Some (k, a) \<Rightarrow>
         bindE (modify (\<lambda>s. s\<lparr>oauthAccounts := tbl_update k (\<lambda>x. x\<lparr>oa_accessToken := Some encryptedAccess,
           oa_refreshToken := encryptedRefresh, oa_profile := profile\<rparr>) (oauthAccounts s)\<rparr>)) (\<lambda>_.
         bindE (gets (findById (oa_userId a))) (\<lambda>u. ret (u, False)))
     | None \<Rightarrow>
         bindE (gets (findByEmail (normal_email email))) (\<lambda>found.
         case found of
           Some (i, u) \<Rightarrow> bindE (save_oauth E (link i)) (\<lambda>_. ret (Some u, False))
         | None \<Rightarrow>
             bindE (generateWallet E) (\<lambda>(publicKey, secretKey).
             bindE (encrypt (cr_cipher E) secretKey) (\<lambda>secret.
             bindE (generateUniqueReferralCode (crypto_of E) maxAttempts) (\<lambda>code.
             bindE (createUser (account_of E) now \<lparr>cu_email = normal_email email, cu_password = None, cu_firstName = firstName,
               cu_lastName = lastName, cu_phone = None, cu_walletPublicKey = publicKey, cu_walletSecretKeyEncrypted = secret,
               cu_referralCode = code, cu_referredBy = None, cu_role = None, cu_consentGdpr = None, cu_consentGdprAt = None,
               cu_consentGdprVersion = None\<rparr>) (\<lambda>(i, u).
             bindE (verifyUser i) (\<lambda>_.
             bindE (seedPrimaryWalletFromUserCredentials E i publicKey secret) (\<lambda>_.
             bindE (save_oauth E (link i)) (\<lambda>_.
             bindE (gets (findById i)) (\<lambda>fullUser. ret (fullUser, True)))))))))))))"

definition unlinkOAuth :: "string \<Rightarrow> oauth_provider \<Rightarrow> ('a auth_state_scheme, unit) op" where
  "unlinkOAuth userId provider =
     bindE (gets (findById userId)) (\<lambda>found.
     bindE (from_option (UnauthorizedException ''User not found'') found) (\<lambda>u.
     bindE (require (truthy (u_password u))
       (UnprocessableEntityException ''Cannot unlink the only authentication method. Set a password first.'')) (\<lambda>_.
     bindE (gets (\<lambda>s. List.find (\<lambda>(k, a). oa_userId a = userId \<and> oa_provider a = provider) (oauthAccounts s))) (\<lambda>account.
     bindE (from_option (BadRequestException ''No linked account found'') account) (\<lambda>(k, a).
     modify (\<lambda>s. s\<lparr>oauthAccounts := tbl_remove k (oauthAccounts s)\<rparr>))))))"

definition setPassword :: "auth_env \<Rightarrow> string \<Rightarrow> string \<Rightarrow> ('a chain_scheme, unit) op" where
  "setPassword E userId newPassword =
     bindE (gets (findById userId)) (\<lambda>found.
     bindE (from_option (UnauthorizedException ''User not found'') found) (\<lambda>u.
     bindE (require (\<not> truthy (u_password u)) (BadRequestException ''User already has a password set'')) (\<lambda>_.
     updatePassword (account_of E) userId newPassword)))"

section \<open>What the operations need and change\<close>

lemma found_with: "(case x of None \<Rightarrow> None | Some u \<Rightarrow> if P u then Some u else None) = Some v \<longleftrightarrow> x = Some v \<and> P v"
  by (auto split: option.splits)

lemma user_by_email_Inr [op_iff]:
  "user_by_email email P e s = (Inr (i, u), t) \<longleftrightarrow> findByEmail email s = Some (i, u) \<and> P u \<and> t = s"
  by (auto simp: user_by_email_def op_iff split: option.splits if_splits)

lemma clear_failures_iff [op_iff]:
  "clear_failures i s = (r, t) \<longleftrightarrow> r = Inr () \<and> t = updateByUserId i (\<lambda>u. u\<lparr>u_failedLoginAttempts := 0, u_lockedUntil := None\<rparr>) s"
  by (simp add: clear_failures_def op_iff)

lemma newest_otp_live: "newest_otp now i ty t = Some (k, x) \<Longrightarrow> (k, x) \<in> set t \<and> live_otp now i ty x"
proof -
  assume "newest_otp now i ty t = Some (k, x)"
  then obtain xs where xs: "sort_key (\<lambda>(i, x). - otp_createdAt x) (filter (\<lambda>(k, x). live_otp now i ty x) t) = (k, x) # xs"
    by (auto simp: newest_otp_def split: list.splits)
  have "(k, x) \<in> set (sort_key (\<lambda>(i, x). - otp_createdAt x) (filter (\<lambda>(k, x). live_otp now i ty x) t))"
    unfolding xs by simp
  then show ?thesis by simp
qed

text \<open>A code that is accepted was live, and is spent.\<close>

lemma validateOtp_Inr:
  assumes "validateOtp E now (i, u) code ty s = (Inr b, t)"
  shows "\<not> is_locked now u \<and> truthy (cr_OTP_SECRET E) \<and> (\<exists>k x. (k, x) \<in> set (otps s) \<and> live_otp now i ty x \<and>
      otp_codeHash x = cr_hmac E (the (cr_OTP_SECRET E)) (i @ '':'' @ otp_type_name ty @ '':'' @ code) \<and>
      t = s\<lparr>otps := tbl_update k (\<lambda>y. y\<lparr>otp_usedAt := Some now\<rparr>) (otps s)\<rparr>)"
  using assms
  by (auto simp: validateOtp_def op_iff hashOtp_def is_locked_def split: if_splits option.splits dest!: newest_otp_live)

lemma createRefreshToken_Inr:
  assumes "createRefreshToken E now i s = (Inr tok, t)"
  shows "otps t = otps s \<and> users t = users s"
  using assms by (auto simp: createRefreshToken_def op_iff hashRefreshToken_def next_id_def Let_def)

lemma issueAuthTokens_Inr:
  assumes "issueAuthTokens E now p s = (Inr tok, t)"
  shows "otps t = otps s \<and> users t = users s"
  using assms by (auto simp: issueAuthTokens_def op_iff Let_def dest: createRefreshToken_Inr)

lemma updatePassword_Inr:
  assumes "updatePassword E i p s = (Inr x, t)"
  shows "\<exists>n. t = (updateByUserId i (\<lambda>u. u\<lparr>u_password := Some (ac_bcrypt E n p), u_passwordHash := Some (ac_bcrypt E n p)\<rparr>) s)
      \<lparr>calls := Suc n\<rparr> \<and> n = calls s \<and> findById i s \<noteq> None"
  using assms by (auto simp: updatePassword_def existing_user_def op_iff bcrypt_hash_def updateByUserId_def)

lemma validate_revoked:
  assumes "validateRefreshToken E now tok s = (r, t)" and "\<forall>(k, x)\<in>set (refresh_tokens s). rt_userId x = i \<longrightarrow> rt_revokedAt x \<noteq> None"
  shows "\<forall>x. r = Inr x \<longrightarrow> rt_userId x \<noteq> i"
  using assms
  by (auto simp: validateRefreshToken_def op_iff hashRefreshToken_def dest!: find_SomeD) fastforce

lemma revokeAll_all:
  assumes "revokeAllUserTokens now i s = (r, t)"
  shows "r = Inr () \<and> (\<forall>(k, x)\<in>set (refresh_tokens t). rt_userId x = i \<longrightarrow> rt_revokedAt x \<noteq> None) \<and>
    filter (\<lambda>(k, x). rt_userId x \<noteq> i) (refresh_tokens t) = filter (\<lambda>(k, x). rt_userId x \<noteq> i) (refresh_tokens s) \<and>
    t = s\<lparr>refresh_tokens := refresh_tokens t\<rparr>"
proof -
  have "filter (\<lambda>(k, x). rt_userId x \<noteq> i) (map (\<lambda>(k, x). (k, if rt_userId x = i \<and> rt_revokedAt x = None
      then x\<lparr>rt_revokedAt := Some now\<rparr> else x)) ts) = filter (\<lambda>(k, x). rt_userId x \<noteq> i) ts" for ts :: "refresh_token table"
    by (induction ts) (auto split: if_splits)
  with assms show ?thesis by (auto simp: revokeAllUserTokens_def revoke_where_def op_iff split: if_splits)
qed

lemma refresh_tokens_users: "t = s\<lparr>refresh_tokens := rs\<rparr> \<Longrightarrow> users t = users s"
  by simp

lemma use_all_otps: "\<forall>(k, x)\<in>set (use_otps now (\<lambda>x. otp_userId x = i) os). otp_userId x = i \<longrightarrow> otp_usedAt x \<noteq> None"
  by (induction os) (auto simp: use_otps_def)

section \<open>Password reset requests\<close>

text \<open>Within any hour an address has at most three rows.\<close>

definition attempts_within :: "string \<Rightarrow> int \<Rightarrow> reset_attempt list \<Rightarrow> nat" where
  "attempts_within e x as = length (filter (\<lambda>a. ra_email a = e \<and> x - MS_PER_HOUR < ra_createdAt a \<and> ra_createdAt a \<le> x) as)"

definition few_attempts :: "int \<Rightarrow> 'a auth_state_scheme \<Rightarrow> bool" where
  "few_attempts now s \<longleftrightarrow> (\<forall>a\<in>set (resetAttempts s). ra_createdAt a \<le> now) \<and> (\<forall>e x. attempts_within e x (resetAttempts s) \<le> 3)"

lemma attempts_grow:
  assumes "few_attempts t0 s" and "t0 \<le> now" and "length (recent_attempts now email (resetAttempts s)) < 3"
  shows "attempts_within e x (resetAttempts s @ [\<lparr>ra_email = normal_email email, ra_createdAt = now\<rparr>]) \<le> 3"
proof (cases "e = normal_email email \<and> now \<le> x \<and> x - MS_PER_HOUR < now")
  case True
  have "length (filter (\<lambda>a. ra_email a = e \<and> x - MS_PER_HOUR < ra_createdAt a \<and> ra_createdAt a \<le> x) as) \<le>
      length (filter (\<lambda>a. ra_email a = e \<and> now - MS_PER_HOUR < ra_createdAt a) as)" for as
    using True by (induction as) auto
  from this [of "resetAttempts s"] assms(3) True show ?thesis by (simp add: attempts_within_def recent_attempts_def)
next
  case False
  then have "attempts_within e x (resetAttempts s @ [\<lparr>ra_email = normal_email email, ra_createdAt = now\<rparr>]) =
      attempts_within e x (resetAttempts s)" by (auto simp: attempts_within_def)
  with assms(1) show ?thesis by (simp add: few_attempts_def)
qed

lemma sendOtp_attempts:
  "sendOtp E email ty code s = (r, t) \<Longrightarrow> resetAttempts t = resetAttempts s \<and> length (outbox t) \<le> Suc (length (outbox s)) \<and>
    length (outbox s) \<le> length (outbox t)"
  by (cases r) (auto simp: sendOtp_def op_iff split: if_splits)

lemma generateOtp_attempts:
  fixes s :: "'a auth_state_scheme"
  shows "generateOtp E now p ty s = (r, t) \<Longrightarrow> resetAttempts t = resetAttempts s \<and> outbox t = outbox s"
  by (cases r) (auto simp: generateOtp_def op_iff hashOtp_def next_id_def invalidateAllUserOtps_def generateSecureOtp_def)

lemma send_code_attempts:
  assumes "send_code E now p ty s = (r, t)"
  shows "resetAttempts t = resetAttempts s \<and> length (outbox t) \<le> Suc (length (outbox s)) \<and> length (outbox s) \<le> length (outbox t)"
  using assms
  by (cases r) (auto simp: send_code_def op_iff dest!: sendOtp_attempts generateOtp_attempts)

lemma forgotPassword_attempts:
  assumes "forgotPassword E now email s = (r, t)" and "few_attempts t0 s" and "t0 \<le> now"
  shows "few_attempts now t \<and> length (outbox t) + length (resetAttempts s) \<le> length (outbox s) + length (resetAttempts t)"
proof -
  let ?a = "\<lparr>ra_email = normal_email email, ra_createdAt = now\<rparr>"
  from assms(1) have "t = s \<or> length (recent_attempts now email (resetAttempts s)) < 3 \<and> resetAttempts t = resetAttempts s @ [?a] \<and>
      length (outbox t) \<le> Suc (length (outbox s))"
    by (cases r) (auto simp: forgotPassword_def checkPasswordResetRateLimit_def op_iff Let_def split: option.splits if_splits
        dest!: send_code_attempts)
  with assms(2,3) attempts_grow [OF assms(2,3), of email] show ?thesis
    by (fastforce simp: few_attempts_def)
qed

section \<open>Signing up fails\<close>

lemma find_referrer_state: "find_referrer code s = (r, t) \<Longrightarrow> t = s"
  by (cases r) (auto simp: find_referrer_def op_iff split: if_splits)

lemma referral_code_state: "generateUniqueReferralCode E n s = (r, t) \<Longrightarrow> t = s\<lparr>calls := calls t\<rparr>"
proof (induction n arbitrary: s)
  case (Suc n)
  let ?s = "s\<lparr>calls := calls s + REFERRAL_CODE_LENGTH\<rparr>"
  from Suc.prems have "t = ?s \<or> generateUniqueReferralCode E n ?s = (r, t)"
    by (auto simp: bindE_def gets_def modify_def ret_def split: if_splits)
  with Suc.IH [of ?s] show ?case by auto
qed (auto simp: throw_def)

lemma encrypt_state: "encrypt C p s = (r, t) \<Longrightarrow> t = s\<lparr>calls := calls t\<rparr>"
  by (cases r) (auto simp: encrypt_def encryptWithAes256Gcm_def op_iff Let_def case_prod_beta)

lemma new_wallet_state: "new_wallet E s = (r, t) \<Longrightarrow> t = s\<lparr>calls := calls t\<rparr>"
  by (cases r) (auto simp: new_wallet_def generateWallet_def op_iff split: prod.splits dest!: encrypt_state intro: ext)

lemma createUser_others:
  "createUser E now p s = (r, t) \<Longrightarrow> t = s\<lparr>users := users t, calls := calls t, preferenceDefaults := preferenceDefaults t\<rparr>"
  by (cases r) (auto simp: createUser_def insert_user_def op_iff next_id_def bcrypt_hash_def Let_def split: if_splits)

text \<open>Everything a new account would need beside its row.\<close>

definition untouched :: "'a auth_state_scheme \<Rightarrow> 'a auth_state_scheme \<Rightarrow> bool" where
  "untouched s t \<longleftrightarrow> wallets t = wallets s \<and> otps t = otps s \<and> outbox t = outbox s \<and> referrals t = referrals s \<and>
     refresh_tokens t = refresh_tokens s \<and> oauthAccounts t = oauthAccounts s \<and> resetAttempts t = resetAttempts s"

lemma untouched_refl [simp]: "untouched s s"
  by (simp add: untouched_def)

lemma untouched_trans: "untouched s t \<Longrightarrow> untouched t u \<Longrightarrow> untouched s u"
  by (simp add: untouched_def)

lemma untouched_frame:
  "t = s\<lparr>users := us, calls := n, preferenceDefaults := ps\<rparr> \<Longrightarrow> untouched s t" "t = s\<lparr>calls := n\<rparr> \<Longrightarrow> untouched s t"
  by (simp_all add: untouched_def)

lemma create_account_fails:
  fixes s :: "'a auth_state_scheme"
  assumes "create_account E now d s = (r, t)" and "su_consentGdpr d"
  shows "(\<exists>e. r = Inl e) \<and> untouched s t"
proof -
  have code: "untouched u v" if "generateUniqueReferralCode E n u = (x, v)" for E n x and u v :: "'a auth_state_scheme"
    using referral_code_state [OF that] by (rule untouched_frame)
  have wallet: "untouched u v" if "new_wallet E u = (x, v)" for E x and u v :: "'a auth_state_scheme"
    using new_wallet_state [OF that] by (rule untouched_frame)
  have new: "untouched u v" if "createUser E now p u = (x, v)" for E p x and u v :: "'a auth_state_scheme"
    using createUser_others [OF that] by (rule untouched_frame)
  show ?thesis
    using assms
    by (cases r) (auto simp: create_account_def record_consent_def op_iff dest!: find_referrer_state code wallet new
        split: if_splits prod.splits intro: untouched_trans)
qed

text \<open>A concrete configuration and state for the witnesses: one verified user with two open codes.\<close>

definition demo_auth :: auth_env where
  "demo_auth = crypto_env.extend demo_crypto
     \<lparr>au_sign = (\<lambda>t e p. jp_sub p), au_verify = (\<lambda>t x. None), au_JWT_EXPIRES_IN = None, au_SKIP_EMAIL_SENDING = None,
      au_MAILGUN_API_KEY = Some ''k'', au_MAILGUN_DOMAIN = Some ''d'', au_MAILGUN_FROM_EMAIL = Some ''f'',
      au_enqueueEmail = (\<lambda>e. True), au_keypair = (\<lambda>n. (''G'', ''S'')), au_translate = (\<lambda>k l. k),
      au_PRIVACY_POLICY_VERSION = None\<rparr>"

definition demo_otp :: "otp_type \<Rightarrow> otp" where
  "demo_otp ty = \<lparr>otp_userId = ''x'', otp_codeHash = ''x'' @ '':'' @ otp_type_name ty @ '':'' @ ''123456'', otp_type = ty,
     otp_expiresAt = 600000, otp_usedAt = None, otp_createdAt = 0\<rparr>"

definition demo_auth_state :: auth_state where
  "demo_auth_state = two_factor_state.extend (demo_two_factor\<lparr>otps := [(''o'', demo_otp LOGIN), (''p'', demo_otp PASSWORD_RESET)]\<rparr>)
     \<lparr>resetAttempts = [], oauthAccounts = [], outbox = []\<rparr>"

lemma demo_auth_simps [simp]:
  "crypto_of demo_auth = demo_crypto" "account_of demo_auth = demo_account_env"
  "cr_OTP_SECRET demo_auth = Some ''k''" "cr_hmac demo_crypto = (\<lambda>k m. m)"
  by (simp_all add: demo_auth_def crypto_env.defs account_env.defs demo_crypto_def demo_account_env_def)

lemma demo_auth_state_simps [simp]:
  "otps demo_auth_state = [(''o'', demo_otp LOGIN), (''p'', demo_otp PASSWORD_RESET)]" "resetAttempts demo_auth_state = []"
  "refresh_tokens demo_auth_state = []" "calls demo_auth_state = 2" "users demo_auth_state = users demo_two_factor" "outbox demo_auth_state = []"
  by (simp_all add: demo_auth_state_def two_factor_state.defs demo_two_factor_def credential_state.defs demo_credentials_def
      account_state.defs demo_account_users)

abbreviation demo_row :: user where
  "demo_row \<equiv> (demo_user 5)\<lparr>u_twoFactorSecret := Some (to_base64 (replicate 16 CHR ''i'' @ replicate 16 CHR ''t'' @ ''S''))\<rparr>"

lemma demo_find: "findByEmail ''bob@x.io'' demo_auth_state = Some (''x'', demo_row)"
proof -
  have "trim (map ascii_lower ''bob@x.io'') = ''bob@x.io''" by code_simp
  then show ?thesis by (simp add: findByEmail_def demo_user_def)
qed

lemma demo_validate:
  assumes "ty = LOGIN \<or> ty = PASSWORD_RESET"
  shows "validateOtp demo_crypto 10 (''x'', demo_row) ''123456'' ty demo_auth_state = (Inr True, demo_auth_state\<lparr>otps :=
    tbl_update (if ty = LOGIN then ''o'' else ''p'') (\<lambda>y. y\<lparr>otp_usedAt := Some 10\<rparr>) (otps demo_auth_state)\<rparr>)"
  using assms
  by (intro validateOtp_hit [where x = "demo_otp ty"] newest_single)
    (auto simp: is_locked_def demo_user_def OTP_LENGTH_def truthy_def live_otp_def demo_otp_def)

section \<open>Properties\<close>



text \<open>C9. Resetting a password locks the old sessions out: it needs an unused, unexpired reset code of the user, stores the
  hash of the new password, opens a locked account, spends every open code of the user and revokes every refresh
  token of the user, so that none of them is good for an access token later; the tokens of others stay.\<close>

theorem reset_revokes_sessions:
  assumes "resetPassword E now email code newPassword s = (Inr (), t)"
  shows "\<exists>i u n. findByEmail email s = Some (i, u) \<and> (\<exists>(k, x)\<in>set (otps s). live_otp now i PASSWORD_RESET x \<and>
      otp_codeHash x = cr_hmac E (the (cr_OTP_SECRET E)) (i @ '':PASSWORD_RESET:'' @ code)) \<and>
    (\<exists>f. findById i t = Some f \<and> u_password f = Some (ac_bcrypt E n newPassword) \<and> u_lockedUntil f = None \<and> u_failedLoginAttempts f = 0) \<and>
    (\<forall>(k, x)\<in>set (otps t). otp_userId x = i \<longrightarrow> otp_usedAt x \<noteq> None) \<and>
    (\<forall>later tok x w. validateRefreshToken (crypto_of E) later tok t = (Inr x, w) \<longrightarrow> rt_userId x \<noteq> i) \<and>
    filter (\<lambda>(k, x). rt_userId x \<noteq> i) (refresh_tokens t) = filter (\<lambda>(k, x). rt_userId x \<noteq> i) (refresh_tokens s)"
proof -
  from assms obtain i u b v where u: "findByEmail email s = Some (i, u)"
    and v: "validateOtp (crypto_of E) now (i, u) code PASSWORD_RESET s = (Inr b, v)"
    and rest: "bindE (clear_failures i) (\<lambda>_. bindE (updatePassword (account_of E) i newPassword) (\<lambda>_.
      bindE (revokeAllUserTokens now i) (\<lambda>_. invalidateAllUserOtps now i None))) v = (Inr (), t)"
    unfolding resetPassword_def by (auto simp: bindE_Inr user_by_email_Inr)
  from validateOtp_Inr [OF v] obtain k x where k: "(k, x) \<in> set (otps s)" "live_otp now i PASSWORD_RESET x"
    "otp_codeHash x = cr_hmac E (the (cr_OTP_SECRET E)) (i @ '':PASSWORD_RESET:'' @ code)"
    "v = s\<lparr>otps := tbl_update k (\<lambda>y. y\<lparr>otp_usedAt := Some now\<rparr>) (otps s)\<rparr>"
    by (auto simp: otp_type_name_def crypto_env.defs)
  let ?v = "updateByUserId i (\<lambda>u. u\<lparr>u_failedLoginAttempts := 0, u_lockedUntil := None\<rparr>) v"
  from rest obtain p where p: "updatePassword (account_of E) i newPassword ?v = (Inr (), p)"
    and rest2: "bindE (revokeAllUserTokens now i) (\<lambda>_. invalidateAllUserOtps now i None) p = (Inr (), t)"
    by (auto simp: op_iff)
  from updatePassword_Inr [OF p] obtain n where n: "p = (updateByUserId i (\<lambda>u. u\<lparr>u_password := Some (ac_bcrypt E n newPassword),
      u_passwordHash := Some (ac_bcrypt E n newPassword)\<rparr>) ?v)\<lparr>calls := Suc n\<rparr>" "findById i ?v \<noteq> None"
    by (auto simp: account_env.defs)
  from rest2 obtain q where q: "revokeAllUserTokens now i p = (Inr (), q)"
    and t: "t = q\<lparr>otps := use_otps now (\<lambda>x. otp_userId x = i) (otps q)\<rparr>"
    by (auto simp: op_iff invalidateAllUserOtps_def)
  note r = revokeAll_all [OF q]
  have "\<exists>f. findById i t = Some f \<and> u_password f = Some (ac_bcrypt E n newPassword) \<and> u_lockedUntil f = None \<and> u_failedLoginAttempts f = 0"
  proof -
    have "users q = users p" using r by (metis refresh_tokens_users)
    with n show ?thesis by (auto simp: t findById_def updateByUserId_def tbl_simps)
  qed
  moreover have "\<forall>(k, x)\<in>set (otps t). otp_userId x = i \<longrightarrow> otp_usedAt x \<noteq> None" using use_all_otps by (simp add: t)
  moreover have "\<forall>later tok x w. validateRefreshToken (crypto_of E) later tok t = (Inr x, w) \<longrightarrow> rt_userId x \<noteq> i"
    using r validate_revoked by (fastforce simp: t)
  moreover have "refresh_tokens p = refresh_tokens s" using n(1) k(4) by (simp add: updateByUserId_def)
  with r have "filter (\<lambda>(k, x). rt_userId x \<noteq> i) (refresh_tokens t) = filter (\<lambda>(k, x). rt_userId x \<noteq> i) (refresh_tokens s)"
    by (simp add: t)
  ultimately show ?thesis using u k(1-3) by blast
qed

theorem reset_revokes_sessions_witness:
  "\<exists>t f. resetPassword demo_auth 10 ''bob@x.io'' ''123456'' ''new password'' demo_auth_state = (Inr (), t) \<and>
     findById ''x'' t = Some f \<and> u_password f = Some ''new password''"
proof -
  have "\<exists>t. resetPassword demo_auth 10 ''bob@x.io'' ''123456'' ''new password'' demo_auth_state = (Inr (), t)"
    using demo_find demo_validate [of PASSWORD_RESET]
    by (simp add: resetPassword_def user_by_email_def bindE_def gets_def from_option_def ret_def clear_failures_def modify_def
        demo_user_def updatePassword_def existing_user_def bcrypt_hash_def revokeAllUserTokens_def revoke_where_def
        invalidateAllUserOtps_def updateByUserId_def findById_def tbl_find_def tbl_update_def)
  then obtain t where y: "resetPassword demo_auth 10 ''bob@x.io'' ''123456'' ''new password'' demo_auth_state = (Inr (), t)" by blast
  have "ac_bcrypt demo_auth n p = p" for n p
    by (simp add: demo_auth_def crypto_env.defs demo_crypto_def account_env.defs demo_account_env_def)
  with reset_revokes_sessions [OF y] demo_find y show ?thesis by auto
qed

text \<open>Signing up never completes: with the consent the form demands, a request either finds a verified user of the
  address and answers as if it had worked, or it throws, having sent no code, made no wallet and recorded no
  referral; the account of an unverified user of the address is deleted on the way.\<close>

theorem signup_never_completes:
  assumes "su_consentGdpr d"
  shows "(\<exists>i u. findByEmail (normal_email (su_email d)) s = Some (i, u) \<and> u_isVerified u \<and>
      signup E now d s = (Inr ''this email is available, a verification code has been sent.'', s)) \<or>
    (\<exists>e t. signup E now d s = (Inl e, t) \<and> outbox t = outbox s \<and> set (otps t) \<subseteq> set (otps s) \<and>
      set (wallets t) \<subseteq> set (wallets s) \<and> set (referrals t) \<subseteq> set (referrals s) \<and>
      (case findByEmail (normal_email (su_email d)) s of None \<Rightarrow> untouched s t
       | Some (i, u) \<Rightarrow> \<forall>(k, w)\<in>set (wallets t). w_userId w \<noteq> i))"
proof (cases "findByEmail (normal_email (su_email d)) s")
  case None
  obtain r t where c: "create_account E now d s = (r, t)" by fastforce
  from create_account_fails [OF c assms] None c show ?thesis
    by (auto simp: signup_def bindE_def gets_def untouched_def)
next
  case (Some p)
  obtain i u where p: "p = (i, u)" by fastforce
  show ?thesis
  proof (cases "u_isVerified u")
    case True
    with Some p show ?thesis by (auto simp: signup_def bindE_def gets_def ret_def)
  next
    case False
    let ?d = "snd (delete_account i s)"
    obtain r t where c: "create_account E now d ?d = (r, t)" by fastforce
    have "signup E now d s = (r, t)" using Some p False c
      by (simp add: signup_def bindE_def gets_def delete_account_def modify_def)
    with create_account_fails [OF c assms] Some p show ?thesis
      by (auto simp: untouched_def delete_account_def modify_def deleteById_def)
  qed
qed

theorem signup_never_completes_witness:
  "\<exists>e t. signup demo_auth 0 \<lparr>su_email = ''new@x.io'', su_password = ''secret password'', su_firstName = None, su_lastName = None,
     su_phone = None, su_referralCode = None, su_consentGdpr = True\<rparr> demo_auth_state = (Inl e, t) \<and> outbox t = []"
proof -
  let ?d = "\<lparr>su_email = ''new@x.io'', su_password = ''secret password'', su_firstName = None, su_lastName = None,
     su_phone = None, su_referralCode = None, su_consentGdpr = True\<rparr>"
  have "normal_email (normal_email ''new@x.io'') = ''new@x.io''" by code_simp
  then have "findByEmail (normal_email (su_email ?d)) demo_auth_state = None"
    by (simp add: findByEmail_normal demo_user_def)
  with signup_never_completes [of ?d demo_auth_state demo_auth 0] show ?thesis by auto
qed

text \<open>Password reset requests are limited: whatever requests come in, in the order of time, no address has more than
  three in any hour, and no more reset codes go out than requests were counted.\<close>

theorem reset_requests_limited:
  assumes "few_attempts t0 s" and "sorted (t0 # map fst reqs)"
  shows "(\<forall>e x. attempts_within e x (resetAttempts (fold (\<lambda>(now, email) u. snd (forgotPassword E now email u)) reqs s)) \<le> 3) \<and>
    length (outbox (fold (\<lambda>(now, email) u. snd (forgotPassword E now email u)) reqs s)) + length (resetAttempts s) \<le>
      length (outbox s) + length (resetAttempts (fold (\<lambda>(now, email) u. snd (forgotPassword E now email u)) reqs s))"
  using assms
proof (induction reqs arbitrary: s t0)
  case (Cons q reqs)
  obtain now email where q: "q = (now, email)" by fastforce
  obtain r t where y: "forgotPassword E now email s = (r, t)" by fastforce
  from Cons.prems q have "few_attempts t0 s" "t0 \<le> now" by auto
  from forgotPassword_attempts [OF y this] Cons.IH [of now t] Cons.prems(2) q y show ?case by auto
qed (simp add: few_attempts_def)

theorem reset_requests_limited_witness:
  "attempts_within ''bob@x.io'' 5 (resetAttempts (fold (\<lambda>(now, email) u. snd (forgotPassword demo_auth now email u))
     (map (\<lambda>n. (int n, ''bob@x.io'')) [0..<6]) demo_auth_state)) \<le> 3"
proof -
  have "few_attempts 0 demo_auth_state" by (simp add: few_attempts_def attempts_within_def)
  from reset_requests_limited [OF this, of "map (\<lambda>n. (int n, ''bob@x.io'')) [0..<6]" demo_auth] show ?thesis
    by (simp add: upt_rec)
qed

text \<open>Leaving one device does not end its session: for every token the service signs, the id that the logout is given
  is missing, so no refresh token is revoked; leaving all devices revokes every refresh token of the user and
  only those.\<close>

theorem logout_keeps_session:
  assumes "issueAuthTokens E now (i, u) s = (Inr tok, t)"
  shows "\<exists>p. at_accessToken tok = au_sign E now None p \<and> jp_sub p = i \<and>
    logout E later (jp_jti p) t = (Inr (), t) \<and>
    (\<exists>v. logoutAllDevices later i t = (Inr (), v) \<and>
      (\<forall>again x w. validateRefreshToken (crypto_of E) again (at_refreshToken tok) v \<noteq> (Inr x, w) \<or> rt_userId x \<noteq> i) \<and>
      filter (\<lambda>(k, x). rt_userId x \<noteq> i) (refresh_tokens v) = filter (\<lambda>(k, x). rt_userId x \<noteq> i) (refresh_tokens t))"
proof -
  obtain r v where v: "revokeAllUserTokens later i t = (r, v)" by fastforce
  note rev = revokeAll_all [OF v]
  have "\<forall>again x w. validateRefreshToken (crypto_of E) again (at_refreshToken tok) v \<noteq> (Inr x, w) \<or> rt_userId x \<noteq> i"
    using rev validate_revoked by fastforce
  moreover have "at_accessToken tok = au_sign E now None (plain_payload i u)"
    using assms by (auto simp: issueAuthTokens_def op_iff Let_def)
  ultimately show ?thesis using v rev
    by (intro exI [of _ "plain_payload i u"]) (auto simp: plain_payload_def logout_def truthy_def ret_def logoutAllDevices_def)
qed

theorem logout_keeps_session_witness:
  "\<exists>tok t (p :: jwt_payload). issueAuthTokens demo_auth 0 (''x'', demo_row) demo_auth_state = (Inr tok, t) \<and>
     logout demo_auth 1 (jp_jti p) t = (Inr (), t) \<and> jp_sub p = ''x''"
proof -
  have "\<exists>tok t. issueAuthTokens demo_auth 0 (''x'', demo_row) demo_auth_state = (Inr tok, t)"
    by (simp add: issueAuthTokens_def createRefreshToken_def hashRefreshToken_def require_def truthy_def next_id_def Let_def
        bindE_def gets_def ret_def modify_def)
  then obtain tok t where y: "issueAuthTokens demo_auth 0 (''x'', demo_row) demo_auth_state = (Inr tok, t)" by blast
  from logout_keeps_session [OF y, of 1] obtain p :: jwt_payload where "logout demo_auth 1 (jp_jti p) t = (Inr (), t)" "jp_sub p = ''x''" by blast
  with y show ?thesis by (intro exI conjI)
qed

end
