(* ===== verification/Guards.thy ===== *)
theory Guards
  imports Auth "HOL-Library.Sublist"
begin

text \<open>
  What stands in front of the handlers: the check of a token (\<open>auth/strategies/jwt.strategy.ts\<close>), the guards
  (\<open>common/guards\<close>, \<open>auth/guards\<close>) in the order in which \<open>app.module.ts\<close> registers them, and the
  sessions in which an administrator acts as a user (\<open>admin/impersonation\<close>). A handler is described by its
  metadata. \<open>redis\<close> is the store of the sessions, each with the time at which it expires; the routes of the
  impersonation controller are tried in the order of its methods, as the router does.
\<close>

section \<open>Data\<close>

record request_user =
  ru_userId :: string
  ru_email :: string
  ru_role :: user_role
  ru_authStage :: "string option"
  ru_isImpersonation :: bool
  ru_impersonatedBy :: "string option"
  ru_jti :: "string option"

record request =
  rq_method :: string
  rq_url :: string
  rq_token :: "string option"
  rq_user :: "request_user option"

record handler =
  h_public :: bool
  h_roles :: "user_role list option"
  h_blocked :: bool
  h_kycBypass :: bool

record impersonation_session =
  is_adminId :: string
  is_targetUserId :: string
  is_targetUserEmail :: string
  is_jti :: string
  is_startedAt :: int
  is_expiresAt :: int

record guard_state = auth_state +
  redis :: "(impersonation_session \<times> int) table"

record guard_env = auth_env +
  ge_IMPERSONATION_TOKEN_EXPIRY_MINUTES :: "int option"

section \<open>The check of a token\<close>

definition JwtStrategy_validate :: "jwt_payload \<Rightarrow> ('a base_scheme, request_user) op" where
  "JwtStrategy_validate p =
     bindE (gets (findById (jp_sub p))) (\<lambda>found.
     bindE (from_option (UnauthorizedException ''User not found'') found) (\<lambda>u.
     bindE (require (\<not> u_isSuspended u) (ForbiddenException ''Account is suspended'')) (\<lambda>_.
     bindE (require (\<not> u_isDeleted u) (UnauthorizedException ''Account has been deleted'')) (\<lambda>_.
     bindE (require (u_isActive u) (UnauthorizedException ''User account is deactivated'')) (\<lambda>_.
     ret \<lparr>ru_userId = jp_sub p, ru_email = u_email u,
       ru_role = (if jp_isImpersonation p = Some True then USER else u_role u), ru_authStage = jp_authStage p,
       ru_isImpersonation = (case jp_isImpersonation p of None \<Rightarrow> False | Some b \<Rightarrow> b),
       ru_impersonatedBy = jp_impersonatedBy p, ru_jti = jp_jti p\<rparr>)))))"

section \<open>Guards\<close>

definition path_of :: "request \<Rightarrow> string" where
  "path_of rq = takeWhile (\<lambda>c. c \<noteq> CHR ''?'') (rq_url rq)"

definition JwtAuthGuard_canActivate :: "auth_env \<Rightarrow> int \<Rightarrow> handler \<Rightarrow> request \<Rightarrow> ('a base_scheme, request) op" where
  "JwtAuthGuard_canActivate E now h rq =
     (if h_public h then ret rq
      else bindE (from_option (UnauthorizedException ''Unauthorized'') (Option.bind (rq_token rq) (au_verify E now))) (\<lambda>p.
           bindE (JwtStrategy_validate p) (\<lambda>user.
           bindE (require (ru_authStage user = Some ''partial_auth'' \<longrightarrow>
               map ascii_upper (rq_method rq) = ''POST'' \<and> path_of rq = ''/two-factor/verify'')
             (ForbiddenException ''Two-factor verification required to access this resource'')) (\<lambda>_.
           ret (rq\<lparr>rq_user := Some user\<rparr>)))))"

definition has_role :: "user_role list \<Rightarrow> user_role \<Rightarrow> bool" where
  "has_role required role = (if role = SUPER_ADMIN then list_ex (\<lambda>r. r = SUPER_ADMIN \<or> r = ADMIN) required
     else list_ex (\<lambda>r. role = r) required)"

text \<open>The guard of \<open>common\<close>, which is registered for every route.\<close>

definition RolesGuard_canActivate :: "handler \<Rightarrow> request \<Rightarrow> ('s, unit) op" where
  "RolesGuard_canActivate h rq =
     (case h_roles h of
        None \<Rightarrow> ret ()
      | Some required \<Rightarrow>
          if required = [] then ret ()
          else (case rq_user rq of
              None \<Rightarrow> throw (ForbiddenException ''User is not authenticated or role is missing'')
            | Some u \<Rightarrow> require (has_role required (ru_role u))
                (ForbiddenException ''You do not have the required role to access this resource'')))"

text \<open>The guard of \<open>auth\<close>, which controllers name; a guard that answers false makes the framework refuse.\<close>

definition auth_RolesGuard_canActivate :: "handler \<Rightarrow> request \<Rightarrow> ('s, unit) op" where
  "auth_RolesGuard_canActivate h rq =
     (case h_roles h of
        None \<Rightarrow> ret ()
      | Some required \<Rightarrow> require (case rq_user rq of None \<Rightarrow> False | Some u \<Rightarrow> has_role required (ru_role u))
          (ForbiddenException ''Forbidden resource''))"

definition KycGuard_canActivate :: "handler \<Rightarrow> request \<Rightarrow> ('a base_scheme, unit) op" where
  "KycGuard_canActivate h rq =
     (if h_kycBypass h then ret ()
      else bindE (from_option (ForbiddenException ''Authentication required'')
          (case rq_user rq of None \<Rightarrow> None | Some u \<Rightarrow> if ru_userId u \<noteq> [] then Some u else None)) (\<lambda>user.
        bindE (gets (findById (ru_userId user))) (\<lambda>found.
        bindE (from_option (ForbiddenException ''User not found'') found) (\<lambda>dbUser.
        require (u_kycTier dbUser \<noteq> KYC_NONE)
          (ForbiddenException ''Email verification required. Please verify your email to access transaction features.'')))))"

definition contains :: "string \<Rightarrow> string \<Rightarrow> bool" where
  "contains p s = list_ex (prefix p) (suffixes s)"

definition ImpersonationRestrictionGuard_canActivate :: "handler \<Rightarrow> request \<Rightarrow> ('s, unit) op" where
  "ImpersonationRestrictionGuard_canActivate h rq =
     (case rq_user rq of
        None \<Rightarrow> ret ()
      | Some u \<Rightarrow>
          if \<not> ru_isImpersonation u then ret ()
          else let path = path_of rq;
                   isEndImpersonation = (rq_method rq = ''POST'' \<and> contains ''/admin/impersonate/end'' path);
                   lower = map ascii_lower path;
                   refusal = ForbiddenException ''Action not permitted during impersonation''
               in bindE (require (\<not> h_blocked h) refusal) (\<lambda>_.
                  bindE (require (\<not> contains ''/admin/'' path \<or> isEndImpersonation) refusal) (\<lambda>_.
                  require (\<not> (contains ''password'' lower \<or> contains ''2fa'' lower \<or> contains ''two-factor'' lower) \<or>
                    contains ''status'' path) refusal)))"

definition MAX_SAFE_INTEGER :: int where
  "MAX_SAFE_INTEGER = 2 ^ 53 - 1"

text \<open>The limit the throttler works with, from the one that is configured for the route.\<close>

definition throttle_limit :: "request \<Rightarrow> int \<Rightarrow> 'a account_state_scheme \<Rightarrow> int" where
  "throttle_limit rq configured s =
     (case rq_user rq of
        None \<Rightarrow> configured
      | Some user \<Rightarrow>
          if ru_role user = ADMIN \<or> ru_role user = SUPER_ADMIN then MAX_SAFE_INTEGER
          else (case findById (ru_userId user) s of
              None \<Rightarrow> 60
            | Some u \<Rightarrow> (case map_of (rateLimitConfigs s) (u_plan u) of
                  None \<Rightarrow> 60
                | Some None \<Rightarrow> MAX_SAFE_INTEGER
                | Some (Some n) \<Rightarrow> n)))"

definition throttle_tracker :: "request \<Rightarrow> string \<Rightarrow> string" where
  "throttle_tracker rq ip = (case rq_user rq of None \<Rightarrow> ip | Some u \<Rightarrow> if ru_userId u \<noteq> [] then ''user:'' @ ru_userId u else ip)"

text \<open>What every request passes before its handler: the registered guards, in their order; the throttler keeps its
  counters outside.\<close>

definition admit :: "auth_env \<Rightarrow> int \<Rightarrow> handler \<Rightarrow> request \<Rightarrow> ('a base_scheme, request) op" where
  "admit E now h rq =
     bindE (JwtAuthGuard_canActivate E now h rq) (\<lambda>rq'.
     bindE (RolesGuard_canActivate h rq') (\<lambda>_. ret rq'))"

text \<open>Routes carry the version of the interface in front (\<open>main.ts\<close>).\<close>

definition versioned :: "string \<Rightarrow> string \<Rightarrow> string" where
  "versioned version path = ''/v'' @ version @ path"

section \<open>Acting as a user\<close>

definition sessionKey :: "string \<Rightarrow> string \<Rightarrow> string" where
  "sessionKey targetUserId jti = ''nexafx:impersonation:'' @ targetUserId @ '':'' @ jti"

definition adminSessionIndexKey :: "string \<Rightarrow> string \<Rightarrow> string" where
  "adminSessionIndexKey adminId jti = ''nexafx:impersonation:admin:'' @ adminId @ '':'' @ jti"

definition redis_set :: "string \<Rightarrow> impersonation_session \<Rightarrow> int \<Rightarrow> ('a guard_state_scheme, unit) op" where
  "redis_set key v until = modify (\<lambda>s. s\<lparr>redis := tbl_save key (v, until) (redis s)\<rparr>)"

definition redis_get :: "int \<Rightarrow> string \<Rightarrow> 'a guard_state_scheme \<Rightarrow> impersonation_session option" where
  "redis_get now key s = (case tbl_find key (redis s) of None \<Rightarrow> None | Some (v, until) \<Rightarrow> if now < until then Some v else None)"

definition redis_del :: "string \<Rightarrow> ('a guard_state_scheme, unit) op" where
  "redis_del key = modify (\<lambda>s. s\<lparr>redis := tbl_remove key (redis s)\<rparr>)"

definition DEFAULT_EXPIRY_MINUTES :: int where
  "DEFAULT_EXPIRY_MINUTES = 30"

definition impersonation_payload :: "string \<Rightarrow> string \<Rightarrow> string \<Rightarrow> jwt_payload" where
  "impersonation_payload adminId targetUserId jti = \<lparr>jp_sub = targetUserId, jp_email = [], jp_role = USER, jp_authStage = None,
     jp_isImpersonation = Some True, jp_impersonatedBy = Some adminId, jp_jti = Some jti\<rparr>"

definition startImpersonation ::
    "guard_env \<Rightarrow> int \<Rightarrow> string \<Rightarrow> string \<Rightarrow> ('a guard_state_scheme, string \<times> int) op" where
  "startImpersonation E now adminId targetUserId =
     bindE (gets (findById adminId)) (\<lambda>adminUser.
     bindE (require (adminUser \<noteq> None) (NotFoundException ''Admin user not found'')) (\<lambda>_.
     bindE (gets (findById targetUserId)) (\<lambda>found.
     bindE (from_option (NotFoundException ''Target user not found'') found) (\<lambda>targetUser.
     bindE (require (u_role targetUser \<noteq> ADMIN \<and> u_role targetUser \<noteq> SUPER_ADMIN)
       (UnprocessableEntityException ''Cannot impersonate an admin or super-admin account'')) (\<lambda>_.
     let expiryMinutes = (case ge_IMPERSONATION_TOKEN_EXPIRY_MINUTES E of None \<Rightarrow> DEFAULT_EXPIRY_MINUTES | Some m \<Rightarrow> m);
         ttlSeconds = expiryMinutes * 60; expiresAt = now + ttlSeconds * 1000
     in bindE (next_id (ac_uuid E)) (\<lambda>jti.
        let session = \<lparr>is_adminId = adminId, is_targetUserId = targetUserId, is_targetUserEmail = u_email targetUser,
              is_jti = jti, is_startedAt = now, is_expiresAt = expiresAt\<rparr>
        in bindE (redis_set (sessionKey targetUserId jti) session expiresAt) (\<lambda>_.
           bindE (redis_set (adminSessionIndexKey adminId jti) session expiresAt) (\<lambda>_.
           ret (au_sign E now (Some (dec_string (nat ttlSeconds) @ ''s'')) (impersonation_payload adminId targetUserId jti), expiresAt)))))))))"

definition endImpersonation :: "string \<Rightarrow> string \<Rightarrow> string \<Rightarrow> ('a guard_state_scheme, string) op" where
  "endImpersonation targetUserId jti adminId =
     bindE (redis_del (sessionKey targetUserId jti)) (\<lambda>_.
     bindE (redis_del (adminSessionIndexKey adminId jti)) (\<lambda>_.
     ret ''Impersonation session ended''))"

definition getActiveSessions :: "int \<Rightarrow> string \<Rightarrow> ('a guard_state_scheme, impersonation_session list) op" where
  "getActiveSessions now adminId =
     gets (\<lambda>s. List.map_filter (\<lambda>key. redis_get now key s)
       (filter (prefix (''nexafx:impersonation:admin:'' @ adminId @ '':'')) (map fst (redis s))))"

definition validateSession :: "int \<Rightarrow> string \<Rightarrow> string \<Rightarrow> ('a guard_state_scheme, impersonation_session option) op" where
  "validateSession now targetUserId jti = gets (redis_get now (sessionKey targetUserId jti))"

subsection \<open>Its controller\<close>

datatype segment = Literal string | Param

datatype impersonation_route = ImpersonateRoute string | EndRoute | ActiveRoute

fun match_path :: "segment list \<Rightarrow> string list \<Rightarrow> string list option" where
  "match_path [] [] = Some []"
| "match_path (Literal l # ps) (x # xs) = (if l = x then match_path ps xs else None)"
| "match_path (Param # ps) (x # xs) = map_option (\<lambda>ys. x # ys) (match_path ps xs)"
| "match_path _ _ = None"

definition impersonation_routes :: "(string \<times> segment list \<times> (string list \<Rightarrow> impersonation_route) \<times> handler) list" where
  "impersonation_routes =
     (let admin = \<lparr>h_public = False, h_roles = Some [ADMIN, SUPER_ADMIN], h_blocked = False, h_kycBypass = False\<rparr>
      in [(''POST'', [Literal ''admin'', Literal ''impersonate'', Param], \<lambda>ps. ImpersonateRoute (hd ps), admin),
          (''POST'', [Literal ''admin'', Literal ''impersonate'', Literal ''end''], \<lambda>ps. EndRoute, admin\<lparr>h_roles := None\<rparr>),
          (''GET'', [Literal ''admin'', Literal ''impersonation'', Literal ''active''], \<lambda>ps. ActiveRoute, admin)])"

definition dispatch :: "string \<Rightarrow> string list \<Rightarrow> (impersonation_route \<times> handler) option" where
  "dispatch verb segs =
     (case List.find (\<lambda>(v, pat, mk, h). v = verb \<and> match_path pat segs \<noteq> None) impersonation_routes of
        None \<Rightarrow> None
      | Some (v, pat, mk, h) \<Rightarrow> Some (mk (the (match_path pat segs)), h))"

section \<open>What the guards let through\<close>

lemma JwtStrategy_Inr [op_iff]:
  "JwtStrategy_validate p s = (Inr ru, t) \<longleftrightarrow> (\<exists>u. findById (jp_sub p) s = Some u \<and> \<not> u_isSuspended u \<and> \<not> u_isDeleted u \<and> u_isActive u \<and>
     ru = \<lparr>ru_userId = jp_sub p, ru_email = u_email u, ru_role = (if jp_isImpersonation p = Some True then USER else u_role u),
       ru_authStage = jp_authStage p, ru_isImpersonation = (case jp_isImpersonation p of None \<Rightarrow> False | Some b \<Rightarrow> b),
       ru_impersonatedBy = jp_impersonatedBy p, ru_jti = jp_jti p\<rparr> \<and> t = s)"
  by (auto simp: JwtStrategy_validate_def op_iff)

lemma bind_Some: "Option.bind x f = Some y \<longleftrightarrow> (\<exists>a. x = Some a \<and> f a = Some y)"
  by (cases x) auto

lemma has_role_admin: "has_role required r \<Longrightarrow> set required \<subseteq> {ADMIN, SUPER_ADMIN} \<Longrightarrow> r = ADMIN \<or> r = SUPER_ADMIN"
  by (auto simp: has_role_def list_ex_iff split: if_splits)

lemma redis_set_Inr [op_iff]: "redis_set k v e s = (r, t) \<longleftrightarrow> r = Inr () \<and> t = s\<lparr>redis := tbl_save k (v, e) (redis s)\<rparr>"
  by (simp add: redis_set_def op_iff)

lemma startImpersonation_Inr:
  assumes "startImpersonation E now adminId target s = (Inr (tok, expiresAt), t)"
  shows "\<exists>u jti ttl. findById target s = Some u \<and> u_role u = USER \<and> expiresAt = now + ttl * 1000 \<and> users t = users s \<and>
    tok = au_sign E now (Some (dec_string (nat ttl) @ ''s'')) (impersonation_payload adminId target jti) \<and>
    tbl_find (adminSessionIndexKey adminId jti) (redis t) =
      Some (\<lparr>is_adminId = adminId, is_targetUserId = target, is_targetUserEmail = u_email u, is_jti = jti, is_startedAt = now,
        is_expiresAt = expiresAt\<rparr>, expiresAt) \<and>
    tbl_find (sessionKey target jti) (redis t) =
      Some (\<lparr>is_adminId = adminId, is_targetUserId = target, is_targetUserEmail = u_email u, is_jti = jti, is_startedAt = now,
        is_expiresAt = expiresAt\<rparr>, expiresAt)"
proof -
  have "u_role u = USER" if "u_role u \<noteq> ADMIN \<and> u_role u \<noteq> SUPER_ADMIN" for u :: user
    using that by (cases "u_role u") auto
  with assms obtain u where u: "findById target s = Some u" "u_role u = USER"
    by (auto simp: startImpersonation_def op_iff Let_def next_id_def)
  let ?ttl = "(case ge_IMPERSONATION_TOKEN_EXPIRY_MINUTES E of None \<Rightarrow> DEFAULT_EXPIRY_MINUTES | Some m \<Rightarrow> m) * 60"
  from assms u show ?thesis
    by (intro exI [of _ u] exI [of _ "ac_uuid E (calls s)"] exI [of _ ?ttl])
      (auto simp: startImpersonation_def op_iff Let_def next_id_def tbl_simps)
qed

text \<open>A plan without a configured limit is reported as unlimited and throttled at sixty requests a minute.\<close>

lemma rate_limit_status_disagrees:
  assumes "findById i s = Some u" and "map_of (rateLimitConfigs s) (u_plan u) = None"
    and "rq_user rq = Some ru" and "ru_userId ru = i" and "ru_role ru = USER"
  shows "(\<exists>st. getRateLimitStatus A i s = (Inr st, s) \<and> rl_isUnlimited st) \<and> throttle_limit rq n s = 60"
  using assms by (simp add: getRateLimitStatus_def existing_user_def bindE_def gets_def from_option_def ret_def throttle_limit_def Let_def)

text \<open>A concrete gate for the witnesses: the token \<open>p\<close> is of the first stage, every other is full.\<close>

definition demo_gate :: auth_env where
  "demo_gate = demo_auth\<lparr>au_verify := (\<lambda>t x. Some ((plain_payload ''x'' (demo_user 5))\<lparr>jp_authStage :=
     (if x = ''p'' then Some ''partial_auth'' else None)\<rparr>))\<rparr>"

definition demo_request :: "string \<Rightarrow> request" where
  "demo_request token = \<lparr>rq_method = ''POST'', rq_url = ''/v1/two-factor/verify?x'', rq_token = Some token, rq_user = None\<rparr>"

definition demo_handler :: handler where
  "demo_handler = \<lparr>h_public = False, h_roles = None, h_blocked = False, h_kycBypass = False\<rparr>"

definition demo_guard_state :: guard_state where
  "demo_guard_state = auth_state.extend demo_auth_state \<lparr>redis = []\<rparr>"

lemma demo_gate_verify:
  "Option.bind (rq_token (demo_request x)) (au_verify demo_gate now) = Some ((plain_payload ''x'' (demo_user 5))\<lparr>jp_authStage :=
     (if x = ''p'' then Some ''partial_auth'' else None)\<rparr>)"
  by (simp add: demo_gate_def demo_request_def)

lemma demo_find_x: "findById ''x'' demo_auth_state = Some demo_row" "findById ''x'' demo_guard_state = Some demo_row"
proof -
  have "users demo_guard_state = users demo_auth_state" by (simp add: demo_guard_state_def auth_state.defs demo_auth_state_def
      two_factor_state.defs demo_two_factor_def credential_state.defs demo_credentials_def account_state.defs demo_account_users)
  then show "findById ''x'' demo_auth_state = Some demo_row" "findById ''x'' demo_guard_state = Some demo_row"
    by (simp_all add: findById_def tbl_find_def)
qed

section \<open>Properties\<close>

text \<open>C8. Only entitled requests reach a handler: behind a route that is not public the token verifies and names a user who
  exists and is active, neither suspended nor deleted; a token from the first stage of a login is good for one
  path only; and a route for administrators is reached by an administrator who acts in the own name. Passing the guards
  changes nothing.\<close>

theorem guards_admit:
  assumes "admit E now h rq s = (Inr rq', t)" and "\<not> h_public h"
  shows "t = s \<and> (\<exists>p u. Option.bind (rq_token rq) (au_verify E now) = Some p \<and> findById (jp_sub p) s = Some u \<and>
    u_isActive u \<and> \<not> u_isSuspended u \<and> \<not> u_isDeleted u \<and>
    (\<exists>ru. rq' = rq\<lparr>rq_user := Some ru\<rparr> \<and> ru_userId ru = jp_sub p) \<and>
    (jp_authStage p = Some ''partial_auth'' \<longrightarrow> path_of rq = ''/two-factor/verify'') \<and>
    (\<forall>required. h_roles h = Some required \<and> required \<noteq> [] \<and> set required \<subseteq> {ADMIN, SUPER_ADMIN} \<longrightarrow>
      (u_role u = ADMIN \<or> u_role u = SUPER_ADMIN) \<and> jp_isImpersonation p \<noteq> Some True))"
proof -
  from assms obtain p u where p: "Option.bind (rq_token rq) (au_verify E now) = Some p" "findById (jp_sub p) s = Some u"
    "u_isActive u" "\<not> u_isSuspended u" "\<not> u_isDeleted u"
    and part: "jp_authStage p = Some ''partial_auth'' \<longrightarrow> path_of rq = ''/two-factor/verify''"
    and rest: "rq' = rq\<lparr>rq_user := Some \<lparr>ru_userId = jp_sub p, ru_email = u_email u,
        ru_role = (if jp_isImpersonation p = Some True then USER else u_role u),
        ru_authStage = jp_authStage p, ru_isImpersonation = (case jp_isImpersonation p of None \<Rightarrow> False | Some b \<Rightarrow> b),
        ru_impersonatedBy = jp_impersonatedBy p, ru_jti = jp_jti p\<rparr>\<rparr>"
    and roles: "RolesGuard_canActivate h rq' s = (Inr (), t)"
    by (auto simp: admit_def JwtAuthGuard_canActivate_def op_iff)
  from roles have t: "t = s" by (auto simp: RolesGuard_canActivate_def op_iff split: option.splits if_splits)
  have "(u_role u = ADMIN \<or> u_role u = SUPER_ADMIN) \<and> jp_isImpersonation p \<noteq> Some True"
    if "h_roles h = Some required" "required \<noteq> []" "set required \<subseteq> {ADMIN, SUPER_ADMIN}" for required
  proof -
    from roles rest that(1,2) have "has_role required (if jp_isImpersonation p = Some True then USER else u_role u)"
      by (simp add: RolesGuard_canActivate_def op_iff)
    from has_role_admin [OF this that(3)] show ?thesis by (auto split: if_splits)
  qed
  with p part rest t show ?thesis by (intro conjI exI [of _ p] exI [of _ u]) auto
qed

theorem guards_admit_witness:
  "\<exists>rq' t. admit demo_gate 0 demo_handler (demo_request ''f'') demo_auth_state = (Inr rq', t) \<and> t = demo_auth_state"
proof -
  have "\<exists>rq' t. admit demo_gate 0 demo_handler (demo_request ''f'') demo_auth_state = (Inr rq', t)"
    using demo_gate_verify [of "''f''"] demo_find_x
    by (simp add: admit_def JwtAuthGuard_canActivate_def demo_handler_def op_iff demo_user_def plain_payload_def RolesGuard_canActivate_def)
  then obtain rq' t where y: "admit demo_gate 0 demo_handler (demo_request ''f'') demo_auth_state = (Inr rq', t)" by blast
  from guards_admit [OF y] y show ?thesis by (simp add: demo_handler_def)
qed

text \<open>The challenge of a login leads nowhere: a token of the first stage is refused on every route that carries the
  version of the interface in its path, as all routes do, the one that exchanges such a token for full ones included.\<close>

theorem partial_token_refused:
  assumes "Option.bind (rq_token rq) (au_verify E now) = Some p" and "jp_authStage p = Some ''partial_auth''"
    and "path_of rq = versioned version path" and "\<not> h_public h"
  shows "\<exists>e. admit E now h rq s = (Inl e, s)"
proof (cases "fst (JwtStrategy_validate p s)")
  case (Inl e)
  moreover have "snd (JwtStrategy_validate p s) = s"
    by (cases "findById (jp_sub p) s") (auto simp: JwtStrategy_validate_def bindE_def gets_def from_option_def require_def ret_def throw_def)
  ultimately have "JwtStrategy_validate p s = (Inl e, s)" by (metis prod.collapse)
  with assms show ?thesis
    by (simp add: admit_def JwtAuthGuard_canActivate_def bindE_def from_option_def ret_def)
next
  case (Inr ru)
  then obtain t where y: "JwtStrategy_validate p s = (Inr ru, t)" by (metis prod.collapse)
  then have "t = s" "ru_authStage ru = Some ''partial_auth''" using assms(2) by (auto simp: op_iff)
  with y assms show ?thesis
    by (simp add: admit_def JwtAuthGuard_canActivate_def bindE_def from_option_def ret_def require_def throw_def versioned_def)
qed

theorem partial_token_refused_witness:
  "\<exists>e. admit demo_gate 0 demo_handler (demo_request ''p'') demo_auth_state = (Inl e, demo_auth_state)"
  by (rule partial_token_refused [OF demo_gate_verify, where version = "''1''" and path = "''/two-factor/verify''"])
    (simp_all add: demo_request_def path_of_def versioned_def demo_handler_def)

text \<open>Acting as a user cannot be ended: the request to end a session is answered by the route that starts one, which the
  role of the session token does not open, and a token whose session was ended, so that it is no longer listed nor
  valid in the store, still passes the check of tokens as the user.\<close>

theorem impersonation_outlives_end:
  assumes "startImpersonation E now adminId target s = (Inr (tok, expiresAt), t)"
    and "findById target s = Some u" and "u_isActive u" and "\<not> u_isSuspended u" and "\<not> u_isDeleted u"
  shows "\<exists>jti ttl ru v. tok = au_sign E now (Some ttl) (impersonation_payload adminId target jti) \<and> u_role u = USER \<and>
    (\<forall>later < expiresAt. \<exists>x. validateSession later target jti t = (Inr (Some x), t)) \<and>
    endImpersonation target jti adminId t = (Inr ''Impersonation session ended'', v) \<and>
    (\<forall>later. validateSession later target jti v = (Inr None, v) \<and>
      JwtStrategy_validate (impersonation_payload adminId target jti) v = (Inr ru, v)) \<and> ru_userId ru = target \<and>
    (\<exists>h. dispatch ''POST'' [''admin'', ''impersonate'', ''end''] = Some (ImpersonateRoute ''end'', h) \<and>
      (\<forall>rq. rq_user rq = Some ru \<longrightarrow> (\<exists>e. RolesGuard_canActivate h rq v = (Inl e, v))))"
proof -
  from startImpersonation_Inr [OF assms(1)] obtain jti ttl x where role: "u_role u = USER" and ut: "users t = users s"
    and tok: "tok = au_sign E now (Some ttl) (impersonation_payload adminId target jti)"
    and live: "tbl_find (sessionKey target jti) (redis t) = Some (x, expiresAt)"
    using assms(2) by auto
  let ?v = "t\<lparr>redis := tbl_remove (adminSessionIndexKey adminId jti) (tbl_remove (sessionKey target jti) (redis t))\<rparr>"
  let ?ru = "\<lparr>ru_userId = target, ru_email = u_email u, ru_role = USER, ru_authStage = None, ru_isImpersonation = True,
    ru_impersonatedBy = Some adminId, ru_jti = Some jti\<rparr>"
  have d: "dispatch ''POST'' [''admin'', ''impersonate'', ''end''] =
      Some (ImpersonateRoute ''end'', \<lparr>h_public = False, h_roles = Some [ADMIN, SUPER_ADMIN], h_blocked = False, h_kycBypass = False\<rparr>)"
    by (simp add: dispatch_def impersonation_routes_def Let_def)
  have "endImpersonation target jti adminId t = (Inr ''Impersonation session ended'', ?v)"
    by (simp add: endImpersonation_def redis_del_def bindE_def modify_def ret_def)
  moreover have "\<forall>later < expiresAt. \<exists>x. validateSession later target jti t = (Inr (Some x), t)"
    using live by (simp add: validateSession_def gets_def redis_get_def)
  moreover have "\<forall>later. validateSession later target jti ?v = (Inr None, ?v)"
    by (simp add: validateSession_def gets_def redis_get_def tbl_simps)
  moreover have "JwtStrategy_validate (impersonation_payload adminId target jti) ?v = (Inr ?ru, ?v)"
    using assms(2-5) ut by (auto simp: op_iff findById_def impersonation_payload_def)
  ultimately show ?thesis using tok role d
    by (intro exI [of _ jti] exI [of _ ttl] exI [of _ ?ru] exI [of _ ?v])
      (auto simp: RolesGuard_canActivate_def has_role_def require_def throw_def)
qed

theorem impersonation_outlives_end_witness:
  "\<exists>tok expiresAt t ru jti v. startImpersonation (auth_env.extend demo_auth \<lparr>ge_IMPERSONATION_TOKEN_EXPIRY_MINUTES = None\<rparr>)
       0 ''x'' ''x'' demo_guard_state = (Inr (tok, expiresAt), t) \<and>
     endImpersonation ''x'' jti ''x'' t = (Inr ''Impersonation session ended'', v) \<and>
     JwtStrategy_validate (impersonation_payload ''x'' ''x'' jti) v = (Inr ru, v)"
proof -
  let ?E = "auth_env.extend demo_auth \<lparr>ge_IMPERSONATION_TOKEN_EXPIRY_MINUTES = None\<rparr>"
  have "\<exists>tok expiresAt t. startImpersonation ?E 0 ''x'' ''x'' demo_guard_state = (Inr (tok, expiresAt), t)"
    using demo_find_x by (simp add: startImpersonation_def op_iff Let_def next_id_def demo_user_def)
  then obtain tok expiresAt t where y: "startImpersonation ?E 0 ''x'' ''x'' demo_guard_state = (Inr (tok, expiresAt), t)" by blast
  have u: "u_isActive demo_row" "\<not> u_isSuspended demo_row" "\<not> u_isDeleted demo_row" by (simp_all add: demo_user_def)
  from impersonation_outlives_end [OF y demo_find_x(2) u] y show ?thesis by blast
qed

end
