(* ===== verification/Idempotency.thy ===== *)
theory Idempotency
  imports Guards
begin

text \<open>
  Repeating a request safely (\<open>common/interceptors/idempotency.interceptor.ts\<close>,
  \<open>common/interceptors/idempotency-patterns.ts\<close>, \<open>common/services/idempotency.service.ts\<close>). The handler
  is a parameter: an operation that answers with a status and a body, or throws. The object that the check of the
  token attaches to a request is looked up by the names of its properties, as the interceptor does. The cache is
  either the map in memory, whose entries are dropped when they are read too late, or Redis, whose entries expire.
\<close>

section \<open>The cache\<close>

record cache_entry =
  ce_endpoint :: string
  ce_statusCode :: int
  ce_body :: string
  ce_expiresAt :: int

record cached_state = guard_state +
  idempotency_store :: "cache_entry table"

definition cache_key :: "string \<Rightarrow> string \<Rightarrow> string" where
  "cache_key userId idempotencyKey = ''nexafx:idempotency:'' @ userId @ '':'' @ idempotencyKey"

definition getTtlSeconds :: int where
  "getTtlSeconds = 24 * 60 * 60"

definition cache_get :: "bool \<Rightarrow> int \<Rightarrow> string \<Rightarrow> string \<Rightarrow> ('a cached_state_scheme, cache_entry option) op" where
  "cache_get redisClient now userId idempotencyKey =
     (let key = cache_key userId idempotencyKey in
      bindE (gets (\<lambda>s. tbl_find key (idempotency_store s))) (\<lambda>found.
      case found of
        None \<Rightarrow> ret None
      | Some e \<Rightarrow>
          if redisClient then ret (if now < ce_expiresAt e then Some e else None)
          else if ce_expiresAt e < now
          then bindE (modify (\<lambda>s. s\<lparr>idempotency_store := tbl_remove key (idempotency_store s)\<rparr>)) (\<lambda>_. ret None)
          else ret (Some e)))"

definition cache_set :: "int \<Rightarrow> string \<Rightarrow> string \<Rightarrow> string \<Rightarrow> int \<Rightarrow> string \<Rightarrow> ('a cached_state_scheme, unit) op" where
  "cache_set now userId idempotencyKey endpoint statusCode body = modify (\<lambda>s. s\<lparr>idempotency_store :=
     tbl_save (cache_key userId idempotencyKey) \<lparr>ce_endpoint = endpoint, ce_statusCode = statusCode, ce_body = body,
       ce_expiresAt = now + getTtlSeconds * 1000\<rparr> (idempotency_store s)\<rparr>)"

section \<open>The service\<close>

definition key_char :: "char \<Rightarrow> bool" where
  "key_char c = (let n = (of_char c :: nat) in 97 \<le> n \<and> n \<le> 122 \<or> 65 \<le> n \<and> n \<le> 90 \<or> 48 \<le> n \<and> n \<le> 57 \<or> n = 95 \<or> n = 45)"

definition validateIdempotencyKey :: "string \<Rightarrow> string option" where
  "validateIdempotencyKey key =
     (if key = [] then Some ''Idempotency-Key header is required''
      else if 128 < length key then Some ''Idempotency-Key must be at most 128 characters''
      else if \<not> list_all key_char key
      then Some ''Idempotency-Key must contain only alphanumeric characters, hyphens, and underscores''
      else None)"

definition checkEndpointMatch ::
    "bool \<Rightarrow> int \<Rightarrow> string \<Rightarrow> string \<Rightarrow> string \<Rightarrow> ('a cached_state_scheme, bool \<times> cache_entry option) op" where
  "checkEndpointMatch redisClient now userId idempotencyKey endpoint =
     bindE (cache_get redisClient now (if userId = [] then ''anonymous'' else userId) idempotencyKey) (\<lambda>cached.
     ret (case cached of None \<Rightarrow> (True, None) | Some e \<Rightarrow> (ce_endpoint e = endpoint, Some e)))"

definition conflict :: exn where
  "conflict = ConflictException ''Idempotency key already used for a different endpoint''"

definition checkIdempotency ::
    "bool \<Rightarrow> int \<Rightarrow> string \<Rightarrow> string \<Rightarrow> string \<Rightarrow> ('a cached_state_scheme, (int \<times> string) option) op" where
  "checkIdempotency redisClient now key userId endpoint =
     bindE (checkEndpointMatch redisClient now userId key endpoint) (\<lambda>(match, cached).
     bindE (require match conflict) (\<lambda>_.
     ret (map_option (\<lambda>e. (ce_statusCode e, ce_body e)) cached)))"

section \<open>The interceptor\<close>

definition mandatory :: "string \<Rightarrow> bool" where
  "mandatory url \<longleftrightarrow> url = ''/v2/transactions'' \<or> url = ''/v2/fiat/deposit'' \<or>
     prefix ''/v2/batches/'' url \<and> suffix ''/execute'' url \<and> 20 \<le> length url \<and> CHR 0x0A \<notin> set url"

record web_request = request +
  wr_idempotencyKey :: "string option"
  wr_routePath :: string

datatype web_response = Response int string bool

definition to_object :: "request_user \<Rightarrow> (string \<times> string) list" where
  "to_object u = [(''userId'', ru_userId u), (''email'', ru_email u),
     (''role'', case ru_role u of USER \<Rightarrow> ''USER'' | ADMIN \<Rightarrow> ''ADMIN'' | SUPER_ADMIN \<Rightarrow> ''SUPER_ADMIN''),
     (''isImpersonation'', if ru_isImpersonation u then ''true'' else ''false'')] @
     (case ru_authStage u of None \<Rightarrow> [] | Some x \<Rightarrow> [(''authStage'', x)]) @
     (case ru_impersonatedBy u of None \<Rightarrow> [] | Some x \<Rightarrow> [(''impersonatedBy'', x)]) @
     (case ru_jti u of None \<Rightarrow> [] | Some x \<Rightarrow> [(''jti'', x)])"

text \<open>\<open>request.user?.id\<close>.\<close>

definition request_user_id :: "'b request_scheme \<Rightarrow> string option" where
  "request_user_id rq = (case rq_user rq of None \<Rightarrow> None | Some u \<Rightarrow> map_of (to_object u) ''id'')"

definition endpoint_of :: "web_request \<Rightarrow> string" where
  "endpoint_of rq = rq_method rq @ '' '' @ (if wr_routePath rq = [] then rq_url rq else wr_routePath rq)"

text \<open>The interceptor around a handler, for the id of the user it found on the request. A response says whether it was
  replayed.\<close>

definition intercept_for :: "string option \<Rightarrow> bool \<Rightarrow> int \<Rightarrow> web_request \<Rightarrow> ('a cached_state_scheme, int \<times> string) op \<Rightarrow>
    ('a cached_state_scheme, web_response) op" where
  "intercept_for userId redisClient now rq handler =
     (let key = wr_idempotencyKey rq; endpoint = endpoint_of rq;
          isMutatingMethod = (rq_method rq \<in> {''POST'', ''PATCH'', ''DELETE''});
          isMandatory = mandatory (if wr_routePath rq = [] then rq_url rq else wr_routePath rq);
          fresh = bindE handler (\<lambda>(status, body). ret (Response status body False))
      in bindE (require (\<not> (isMandatory \<and> \<not> truthy key))
           (HttpException 422 ''Idempotency-Key header is required for this endpoint'')) (\<lambda>_.
         bindE (case (if truthy key then validateIdempotencyKey (the key) else None) of
             None \<Rightarrow> ret () | Some e \<Rightarrow> throw (HttpException 400 e)) (\<lambda>_.
         if \<not> truthy key \<or> \<not> truthy userId \<or> \<not> isMutatingMethod then fresh
         else bindE (checkIdempotency redisClient now (the key) (the userId) endpoint) (\<lambda>cached.
           case cached of
             Some (status, body) \<Rightarrow> ret (Response status body True)
           | None \<Rightarrow>
               bindE handler (\<lambda>(status, body).
               bindE (cache_set now (the userId) (the key) endpoint status body) (\<lambda>_.
               ret (Response status body False)))))))"

definition intercept :: "bool \<Rightarrow> int \<Rightarrow> web_request \<Rightarrow> ('a cached_state_scheme, int \<times> string) op \<Rightarrow>
    ('a cached_state_scheme, web_response) op" where
  "intercept redisClient now rq handler = intercept_for (request_user_id rq) redisClient now rq handler"

section \<open>Lookup after storing\<close>

lemma no_id: "request_user_id rq = None"
  by (auto simp: request_user_id_def to_object_def split: option.splits)

lemma cache_hit:
  assumes "tbl_find (cache_key i k) (idempotency_store s) = Some e" and "now < ce_expiresAt e"
  shows "cache_get r now i k s = (Inr (Some e), s)"
  using assms by (simp add: cache_get_def Let_def bindE_def gets_def ret_def)

section \<open>Properties\<close>

text \<open>What the cache promises for a request that carries the id of a user and a valid key: after it was answered, and
  as long as nobody touched its entry, a repetition within a day is answered with the same status and body
  without running the handler, whatever the handler would do now, and the key is refused for any other endpoint.\<close>

theorem idempotent_replay:
  assumes "truthy userId" and "truthy (wr_idempotencyKey rq)" and "rq_method rq \<in> {''POST'', ''PATCH'', ''DELETE''}"
    and "intercept_for userId r now rq handler s = (Inr (Response status body False), t)"
    and "tbl_find (cache_key (the userId) (the (wr_idempotencyKey rq))) (idempotency_store u) =
      tbl_find (cache_key (the userId) (the (wr_idempotencyKey rq))) (idempotency_store t)"
    and "later < now + 24 * 60 * 60 * 1000"
  shows "intercept_for userId r later rq handler' u = (Inr (Response status body True), u) \<and>
    (\<forall>rq'. wr_idempotencyKey rq' = wr_idempotencyKey rq \<and> rq_method rq' \<in> {''POST'', ''PATCH'', ''DELETE''} \<and>
      endpoint_of rq' \<noteq> endpoint_of rq \<longrightarrow> intercept_for userId r later rq' handler' u = (Inl conflict, u))"
proof -
  let ?k = "the (wr_idempotencyKey rq)" and ?i = "the userId"
  have valid: "validateIdempotencyKey ?k = None"
    and mand: "\<not> (mandatory (if wr_routePath rq = [] then rq_url rq else wr_routePath rq) \<and> \<not> truthy (wr_idempotencyKey rq))"
    using assms(1-4) by (auto simp: intercept_for_def Let_def op_iff split: option.splits)
  from assms(1-4) have t: "tbl_find (cache_key ?i ?k) (idempotency_store t) = Some \<lparr>ce_endpoint = endpoint_of rq,
      ce_statusCode = status, ce_body = body, ce_expiresAt = now + getTtlSeconds * 1000\<rparr>"
    by (auto simp: intercept_for_def Let_def op_iff cache_set_def tbl_simps split: option.splits)
  have i: "?i \<noteq> []" using assms(1) by (auto simp: truthy_def split: option.splits)
  have get: "checkEndpointMatch r later ?i ?k e u = (Inr (endpoint_of rq = e, Some \<lparr>ce_endpoint = endpoint_of rq,
      ce_statusCode = status, ce_body = body, ce_expiresAt = now + getTtlSeconds * 1000\<rparr>), u)" for e
    using cache_hit [of ?i ?k u] t assms(5,6) i
    by (simp add: checkEndpointMatch_def bindE_def ret_def getTtlSeconds_def)
  have "intercept_for userId r later rq' handler' u = (if endpoint_of rq' = endpoint_of rq
      then (Inr (Response status body True), u) else (Inl conflict, u))"
    if "wr_idempotencyKey rq' = wr_idempotencyKey rq" "rq_method rq' \<in> {''POST'', ''PATCH'', ''DELETE''}" for rq'
    using assms(1,2) that valid get [of "endpoint_of rq'"]
    by (auto simp: intercept_for_def Let_def bindE_def require_def ret_def throw_def checkIdempotency_def)
  with assms(3) show ?thesis by simp
qed

definition demo_cached :: cached_state where
  "demo_cached = guard_state.extend demo_guard_state \<lparr>idempotency_store = []\<rparr>"

definition demo_post :: web_request where
  "demo_post = request.extend (demo_request ''f'') \<lparr>wr_idempotencyKey = Some ''k'', wr_routePath = ''/v2/transactions''\<rparr>"

theorem idempotent_replay_witness:
  "\<exists>t. intercept_for (Some ''x'') False 0 demo_post (ret (201, ''created'')) demo_cached = (Inr (Response 201 ''created'' False), t) \<and>
     intercept_for (Some ''x'') False 1000 demo_post (throw conflict) t = (Inr (Response 201 ''created'' True), t)"
proof -
  have d: "rq_method demo_post = ''POST''" "wr_idempotencyKey demo_post = Some ''k''" "idempotency_store demo_cached = []"
    by (simp_all add: demo_post_def demo_request_def request.defs demo_cached_def guard_state.defs)
  have "validateIdempotencyKey ''k'' = None" by code_simp
  with d have "\<exists>t. intercept_for (Some ''x'') False 0 demo_post (ret (201, ''created'')) demo_cached =
      (Inr (Response 201 ''created'' False), t)"
    by (simp add: intercept_for_def Let_def op_iff truthy_def checkIdempotency_def checkEndpointMatch_def cache_get_def
        cache_set_def tbl_find_def ex_bool_eq)
  then obtain t where y: "intercept_for (Some ''x'') False 0 demo_post (ret (201, ''created'')) demo_cached =
      (Inr (Response 201 ''created'' False), t)" by blast
  from idempotent_replay [OF _ _ _ y refl, of 1000 "throw conflict"] y d show ?thesis
    by (simp add: truthy_def)
qed

text \<open>The interceptor never replays: the object attached to a request has no property of the name it looks for, so every
  request whose key is valid or missing where it may be runs the handler, as often as it is sent, and nothing is
  stored; the key is only checked for its presence and its form.\<close>

theorem idempotency_inactive:
  "intercept r now rq handler s =
     (if mandatory (if wr_routePath rq = [] then rq_url rq else wr_routePath rq) \<and> \<not> truthy (wr_idempotencyKey rq)
      then (Inl (HttpException 422 ''Idempotency-Key header is required for this endpoint''), s)
      else case (if truthy (wr_idempotencyKey rq) then validateIdempotencyKey (the (wr_idempotencyKey rq)) else None) of
        Some e \<Rightarrow> (Inl (HttpException 400 e), s)
      | None \<Rightarrow> (case handler s of (Inl e, t) \<Rightarrow> (Inl e, t) | (Inr (status, body), t) \<Rightarrow> (Inr (Response status body False), t)))"
  by (auto simp: intercept_def intercept_for_def no_id truthy_def Let_def bindE_def require_def ret_def throw_def
      split: option.splits sum.splits prod.splits)

end
