(* ===== verification/Sanctions.thy ===== *)
theory Sanctions
  imports Accounts
begin

text \<open>
  Screening of users against watch lists (\<open>sanctions/sanctions.service.ts\<close> and its providers). The answers of the
  OpenSanctions service and of the download from the Treasury are a parameter, indexed by the number of the call, and so
  is the pattern match of the database. Text is ASCII, so that removing the accents of the letters changes nothing. The limit
  of 200 candidates takes the first ones of the table, because the query names no order.
\<close>

section \<open>Data\<close>

record watchlist_match =
  wm_entityId :: string
  wm_name :: string
  wm_score :: int
  wm_matchType :: string
  wm_datasets :: "string list"
  wm_isPep :: bool

record screening_query =
  sq_fullName :: string
  sq_dateOfBirth :: "string option"
  sq_nationality :: "string option"

record open_result =
  or_id :: string
  or_caption :: string
  or_score :: rat
  or_datasets :: "string list"
  or_topics :: "string list"

record ofac_entry =
  oe_sdnName :: string
  oe_normalizedName :: string
  oe_sdnType :: "string option"
  oe_program :: "string option"
  oe_title :: "string option"
  oe_remarks :: "string option"
  oe_aliases :: "string list"

datatype screening_status = CLEAR | WARNING | BLOCKED

datatype screening_provider = OPEN_SANCTIONS | OFAC

record kyc_screening =
  sc_userId :: string
  sc_fullName :: string
  sc_dateOfBirth :: "string option"
  sc_nationality :: "string option"
  sc_score :: int
  sc_status :: screening_status
  sc_provider :: screening_provider
  sc_matches :: "watchlist_match list"
  sc_overriddenBy :: "string option"
  sc_overrideReason :: "string option"
  sc_overriddenAt :: "int option"
  sc_createdAt :: int

record kyc_record =
  kr_userId :: string
  kr_approved :: bool
  kr_fullName :: string
  kr_dateOfBirth :: string
  kr_nationality :: string
  kr_createdAt :: int

record sanctions_state = chain +
  kyc_records :: "kyc_record table"
  screenings :: "kyc_screening table"
  ofac_entries :: "ofac_entry table"

record sanctions_env =
  sn_uuid :: "nat \<Rightarrow> string"
  sn_post :: "nat \<Rightarrow> screening_query \<Rightarrow> open_result list option"
  sn_ilike :: "string \<Rightarrow> string \<Rightarrow> bool"
  sn_csv :: "nat \<Rightarrow> (exn + string)"

definition SCORE_WARNING_THRESHOLD :: int where
  "SCORE_WARNING_THRESHOLD = 30"

definition SCORE_BLOCK_THRESHOLD :: int where
  "SCORE_BLOCK_THRESHOLD = 70"

definition resolveStatus :: "int \<Rightarrow> screening_status" where
  "resolveStatus score =
     (if SCORE_BLOCK_THRESHOLD \<le> score then BLOCKED else if SCORE_WARNING_THRESHOLD \<le> score then WARNING else CLEAR)"

text \<open>\<open>Math.round\<close>: to the nearest whole number, halves upwards.\<close>

definition math_round :: "rat \<Rightarrow> int" where
  "math_round x = \<lfloor>x + 1 / 2\<rfloor>"

section \<open>Names\<close>

definition is_word :: "char \<Rightarrow> bool" where
  "is_word c = ((97 \<le> (of_char c :: nat) \<and> (of_char c :: nat) \<le> 122) \<or> (48 \<le> (of_char c :: nat) \<and> (of_char c :: nat) \<le> 57))"

text \<open>\<open>replace(/\s+/g, ' ')\<close>.\<close>

fun collapse_spaces :: "string \<Rightarrow> string" where
  "collapse_spaces [] = []"
| "collapse_spaces (c # cs) =
     (if is_space c
      then (case collapse_spaces cs of
              [] \<Rightarrow> [CHR 0x20]
            | d # ds \<Rightarrow> if d = CHR 0x20 then d # ds else CHR 0x20 # d # ds)
      else c # collapse_spaces cs)"

definition normalize_name :: "string \<Rightarrow> string" where
  "normalize_name name =
     trim (collapse_spaces (map (\<lambda>c. if is_word c \<or> is_space c then c else CHR 0x20) (map ascii_lower name)))"

text \<open>\<open>split(/\s+/).filter(Boolean)\<close>.\<close>

function tokens :: "string \<Rightarrow> string list" where
  "tokens [] = []"
| "tokens (c # cs) =
     (if is_space c then tokens cs
      else (c # takeWhile (\<lambda>d. \<not> is_space d) cs) # tokens (dropWhile (\<lambda>d. \<not> is_space d) cs))"
  by pat_completeness auto
termination by (relation "measure length") (auto simp: le_imp_less_Suc length_dropWhile_le)

definition tokenOverlapScore :: "string \<Rightarrow> string \<Rightarrow> int" where
  "tokenOverlapScore a b =
     (let tokensA = remdups (tokens a);
          tokensB = remdups (tokens b)
      in if tokensA = [] \<or> tokensB = [] then 0
         else
           let overlap = of_nat (length (filter (\<lambda>t. t \<in> set tokensB) tokensA));
               precision = js_div overlap (of_nat (length tokensA));
               recall = js_div overlap (of_nat (length tokensB))
           in if js_add precision recall = 0 then 0
              else math_round (js_mul (js_div (js_mul (js_mul 2 precision) recall) (js_add precision recall)) 100))"

definition fuzzyScore :: "string \<Rightarrow> string \<Rightarrow> string list \<Rightarrow> int" where
  "fuzzyScore query target aliases =
     fold (\<lambda>candidate best. let score = tokenOverlapScore query candidate in if best < score then score else best)
       (target # map normalize_name aliases) 0"

section \<open>The list of the Treasury\<close>

definition split_step :: "string list \<times> string \<times> bool \<Rightarrow> char \<Rightarrow> string list \<times> string \<times> bool" where
  "split_step acc ch =
     (case acc of (result, current, inQuotes) \<Rightarrow>
        if ch = CHR 0x22 then (result, current, \<not> inQuotes)
        else if ch = CHR '','' \<and> \<not> inQuotes then (result @ [current], [], inQuotes)
        else (result, current @ [ch], inQuotes))"

definition splitCsvLine :: "string \<Rightarrow> string list" where
  "splitCsvLine line = (case foldl split_step ([], [], False) line of (result, current, _) \<Rightarrow> result @ [current])"

text \<open>\<open>replace(/^"|"$/g, '')\<close>.\<close>

definition strip_quotes :: "string \<Rightarrow> string" where
  "strip_quotes s =
     (let a = (case s of [] \<Rightarrow> [] | c # cs \<Rightarrow> if c = CHR 0x22 then cs else s)
      in if a \<noteq> [] \<and> List.last a = CHR 0x22 then butlast a else a)"

definition csv_col :: "string list \<Rightarrow> nat \<Rightarrow> string" where
  "csv_col cols n = trim (strip_quotes (if n < length cols then cols ! n else []))"

definition parse_line :: "string \<Rightarrow> ofac_entry option" where
  "parse_line line =
     (let cols = splitCsvLine line; sdnName = csv_col cols 1
      in if length cols < 2 \<or> sdnName = [] then None
         else Some \<lparr>oe_sdnName = sdnName, oe_normalizedName = normalize_name sdnName,
           oe_sdnType = or_null (Some (csv_col cols 2)), oe_program = or_null (Some (csv_col cols 3)),
           oe_title = or_null (Some (csv_col cols 4)), oe_remarks = or_null (Some (csv_col cols 11)), oe_aliases = []\<rparr>)"

fun split_lines :: "string \<Rightarrow> string \<Rightarrow> string list" where
  "split_lines cur [] = [cur]"
| "split_lines cur (c # cs) = (if c = CHR 0x0A then cur # split_lines [] cs else split_lines (cur @ [c]) cs)"

definition parseCsv :: "string \<Rightarrow> ofac_entry list" where
  "parseCsv csv = List.map_filter parse_line (filter (\<lambda>l. trim l \<noteq> []) (split_lines [] csv))"

fun save_entries :: "sanctions_env \<Rightarrow> ofac_entry list \<Rightarrow> ('a sanctions_state_scheme, unit) op" where
  "save_entries E [] = ret ()"
| "save_entries E (e # es) =
     bindE (next_id (sn_uuid E)) (\<lambda>i.
     bindE (modify (\<lambda>s. s\<lparr>ofac_entries := tbl_save i e (ofac_entries s)\<rparr>)) (\<lambda>_. save_entries E es))"

definition syncFromTreasury :: "sanctions_env \<Rightarrow> ('a sanctions_state_scheme, nat) op" where
  "syncFromTreasury E =
     bindE (gets calls) (\<lambda>n.
     bindE (modify (\<lambda>s. s\<lparr>calls := Suc n\<rparr>)) (\<lambda>_.
     bindE (from_sum (sn_csv E n)) (\<lambda>csv.
     let entries = parseCsv csv in
     bindE (modify (\<lambda>s. s\<lparr>ofac_entries := []\<rparr>)) (\<lambda>_.
     bindE (save_entries E entries) (\<lambda>_. ret (length entries))))))"

definition ofac_candidates :: "sanctions_env \<Rightarrow> string \<Rightarrow> ofac_entry table \<Rightarrow> ofac_entry table" where
  "ofac_candidates E tok es =
     take 200 (filter (\<lambda>(i, e). sn_ilike E (oe_normalizedName e) (''%'' @ tok @ ''%'')) es)"

definition ofac_match :: "string \<Rightarrow> string \<times> ofac_entry \<Rightarrow> watchlist_match" where
  "ofac_match q p = \<lparr>wm_entityId = fst p, wm_name = oe_sdnName (snd p),
     wm_score = fuzzyScore q (oe_normalizedName (snd p)) (oe_aliases (snd p)), wm_matchType = ''NAME'',
     wm_datasets = [''us_ofac_sdn''], wm_isPep = False\<rparr>"

definition ofac_screen :: "sanctions_env \<Rightarrow> screening_query \<Rightarrow> ('a sanctions_state_scheme, watchlist_match list) op" where
  "ofac_screen E query =
     gets (\<lambda>s. let q = normalize_name (sq_fullName query) in
       case tokens q of
         [] \<Rightarrow> []
       | tok # _ \<Rightarrow> take 10 (sort_key (\<lambda>m. - wm_score m)
           (filter (\<lambda>m. 30 \<le> wm_score m) (map (ofac_match q) (ofac_candidates E tok (ofac_entries s))))))"

section \<open>The service of OpenSanctions\<close>

definition has_substring :: "string \<Rightarrow> string \<Rightarrow> bool" where
  "has_substring w s = (w \<in> set (map (take (length w)) (map (\<lambda>n. drop n s) [0..<Suc (length s)])))"

definition open_match :: "open_result \<Rightarrow> watchlist_match" where
  "open_match r = \<lparr>wm_entityId = or_id r, wm_name = or_caption r, wm_score = math_round (js_mul (or_score r) 100),
     wm_matchType = ''NAME'', wm_datasets = or_datasets r,
     wm_isPep = list_ex (\<lambda>t. has_substring ''pep'' (map ascii_lower t) \<or> has_substring ''sanction'' (map ascii_lower t)) (or_topics r)\<rparr>"

definition open_screen :: "sanctions_env \<Rightarrow> screening_query \<Rightarrow> ('a sanctions_state_scheme, watchlist_match list) op" where
  "open_screen E query =
     bindE (gets calls) (\<lambda>n.
     bindE (modify (\<lambda>s. s\<lparr>calls := Suc n\<rparr>)) (\<lambda>_.
     ret (case sn_post E n query of None \<Rightarrow> [] | Some results \<Rightarrow> map open_match results)))"

section \<open>Screening\<close>

definition latest_record :: "string \<Rightarrow> 'a sanctions_state_scheme \<Rightarrow> kyc_record option" where
  "latest_record userId s =
     (case sort_key (\<lambda>k. - kr_createdAt k) (filter (\<lambda>k. kr_userId k = userId) (map snd (kyc_records s))) of
        [] \<Rightarrow> None | k # _ \<Rightarrow> Some k)"

definition query_of :: "string \<Rightarrow> kyc_record option \<Rightarrow> screening_query" where
  "query_of userId kyc =
     (case kyc of
        None \<Rightarrow> \<lparr>sq_fullName = userId, sq_dateOfBirth = None, sq_nationality = None\<rparr>
      | Some k \<Rightarrow> \<lparr>sq_fullName = kr_fullName k,
          sq_dateOfBirth = (if kr_dateOfBirth k = [] then None else Some (take 10 (kr_dateOfBirth k))),
          sq_nationality = Some (kr_nationality k)\<rparr>)"

fun top_score :: "watchlist_match list \<Rightarrow> int" where
  "top_score [] = 0"
| "top_score (m # ms) = fold (\<lambda>x best. max best (wm_score x)) ms (wm_score m)"

definition screenUser :: "sanctions_env \<Rightarrow> int \<Rightarrow> string \<Rightarrow> ('a sanctions_state_scheme, string \<times> kyc_screening) op" where
  "screenUser E now userId =
     bindE (gets (latest_record userId)) (\<lambda>kyc.
     let query = query_of userId kyc in
     bindE (open_screen E query) (\<lambda>found.
     bindE (if found = [] then bindE (ofac_screen E query) (\<lambda>fallback. ret (fallback, OFAC)) else ret (found, OPEN_SANCTIONS)) (\<lambda>(matches, provider).
     let topScore = top_score matches;
         screening = \<lparr>sc_userId = userId, sc_fullName = sq_fullName query, sc_dateOfBirth = map_option kr_dateOfBirth kyc,
           sc_nationality = sq_nationality query, sc_score = topScore, sc_status = resolveStatus topScore,
           sc_provider = provider, sc_matches = matches, sc_overriddenBy = None, sc_overrideReason = None,
           sc_overriddenAt = None, sc_createdAt = now\<rparr>
     in
     bindE (next_id (sn_uuid E)) (\<lambda>i.
     bindE (modify (\<lambda>s. s\<lparr>screenings := tbl_save i screening (screenings s)\<rparr>)) (\<lambda>_.
     ret (i, screening))))))"

definition getLatestScreening :: "string \<Rightarrow> ('a sanctions_state_scheme, kyc_screening option) op" where
  "getLatestScreening userId = gets (\<lambda>s.
     case sort_key (\<lambda>k. - sc_createdAt k) (filter (\<lambda>k. sc_userId k = userId) (map snd (screenings s))) of
       [] \<Rightarrow> None | k # _ \<Rightarrow> Some k)"

definition listScreenings :: "screening_status option \<Rightarrow> nat \<Rightarrow> nat \<Rightarrow> ('a sanctions_state_scheme, kyc_screening list \<times> nat) op" where
  "listScreenings status page limit = gets (\<lambda>s.
     let found = sort_key (\<lambda>k. - sc_createdAt k)
           (filter (\<lambda>k. case status of None \<Rightarrow> True | Some st \<Rightarrow> sc_status k = st) (map snd (screenings s)))
     in (take limit (drop ((page - 1) * limit) found), length found))"

definition overrideScreening :: "int \<Rightarrow> string \<Rightarrow> string \<Rightarrow> string \<Rightarrow> ('a sanctions_state_scheme, kyc_screening) op" where
  "overrideScreening now screeningId adminUserId reason =
     bindE (gets (\<lambda>s. tbl_find screeningId (screenings s))) (\<lambda>found.
     bindE (from_option (NotFoundException ''Screening ${screeningId} not found'') found) (\<lambda>screening.
     bindE (require (sc_status screening \<noteq> CLEAR) (ForbiddenException ''Screening is already CLEAR'')) (\<lambda>_.
     let saved = screening\<lparr>sc_status := CLEAR, sc_overriddenBy := Some adminUserId, sc_overrideReason := Some reason,
           sc_overriddenAt := Some now\<rparr>
     in bindE (modify (\<lambda>s. s\<lparr>screenings := tbl_save screeningId saved (screenings s)\<rparr>)) (\<lambda>_. ret saved))))"

fun rescreen :: "sanctions_env \<Rightarrow> int \<Rightarrow> string list \<Rightarrow> nat \<times> nat \<Rightarrow> ('a sanctions_state_scheme, nat \<times> nat) op" where
  "rescreen E now [] counts = ret counts"
| "rescreen E now (u # us) (processed, failed) =
     bindE (tryE (bindE (screenUser E now u) (\<lambda>_. ret True)) (\<lambda>_. ret False)) (\<lambda>ok.
     rescreen E now us (if ok then (processed + 1, failed) else (processed, failed + 1)))"

definition rescreenAllUsers :: "sanctions_env \<Rightarrow> int \<Rightarrow> ('a sanctions_state_scheme, nat \<times> nat) op" where
  "rescreenAllUsers E now =
     bindE (gets (\<lambda>s. remdups (map kr_userId (filter kr_approved (map snd (kyc_records s)))))) (\<lambda>us.
     rescreen E now us (0, 0))"

definition syncOfacList :: "sanctions_env \<Rightarrow> ('a sanctions_state_scheme, nat) op" where
  "syncOfacList E = syncFromTreasury E"

section \<open>Scores\<close>

lemma overlap_card: "length (filter (\<lambda>t. t \<in> set (remdups ys)) (remdups xs)) = card (set xs \<inter> set ys)"
  by (subst distinct_card [symmetric]) (auto intro: arg_cong [where f = card])

lemma tokenOverlapScore_card:
  assumes "tokens a \<noteq> []" and "tokens b \<noteq> []"
  shows "tokenOverlapScore a b =
    (let p = js_div (of_nat (card (set (tokens a) \<inter> set (tokens b)))) (of_nat (card (set (tokens a))));
         r = js_div (of_nat (card (set (tokens a) \<inter> set (tokens b)))) (of_nat (card (set (tokens b))))
     in if js_add p r = 0 then 0 else math_round (js_mul (js_div (js_mul (js_mul 2 p) r) (js_add p r)) 100))"
  using assms by (simp add: tokenOverlapScore_def Let_def overlap_card length_remdups_card_conv del: set_remdups)

lemma rnd_1: "rnd 1 = 1" and rnd_2: "rnd 2 = 2" and rnd_100: "rnd 100 = 100"
  using is_double_numeral by (simp_all add: is_double_def)

lemma score_same_words:
  assumes "set (tokens a) = set (tokens b)" and "tokens a \<noteq> []"
  shows "tokenOverlapScore a b = 100"
proof -
  have b: "tokens b \<noteq> []" using assms by auto
  have "0 < card (set (tokens b))" using b by (simp add: card_gt_0_iff)
  moreover have "\<lfloor>201 / 2 :: rat\<rfloor> = 100" by (simp add: floor_eq_iff)
  ultimately show ?thesis
    using assms b by (simp add: tokenOverlapScore_card js_div_def js_mul_def js_add_def rnd_1 rnd_2 rnd_100 math_round_def)
qed

lemma ratio_unit: "a \<le> b \<Longrightarrow> 0 \<le> js_div (of_nat a) (of_nat b) \<and> js_div (of_nat a) (of_nat b) \<le> 1"
  using rnd_le [of "of_nat a / of_nat b" 1] by (cases "b = 0") (auto simp: rnd_nonneg js_div_def divide_le_eq)

lemma rnd_times_2: "rnd (2 * x) = 2 * rnd x"
proof (cases "x = 0")
  case False
  have "ilog2 (2 * \<bar>x\<bar>) = ilog2 \<bar>x\<bar> + 1"
    using ilog2_bounds [of "\<bar>x\<bar>"] False by (intro ilog2_unique) (auto simp: power_int_add)
  then have "2 powi (ilog2 \<bar>2 * x\<bar> - 52) = (2::rat) * 2 powi (ilog2 \<bar>x\<bar> - 52)"
    by (simp add: abs_mult power_int_diff power_int_add)
  with False show ?thesis by (simp add: rnd_def Let_def)
qed simp

lemma mean_unit:
  assumes "0 \<le> p" "p \<le> 1" "0 \<le> r" "r \<le> 1" "is_double p"
  shows "0 \<le> js_div (js_mul (js_mul 2 p) r) (js_add p r)" "js_div (js_mul (js_mul 2 p) r) (js_add p r) \<le> 1"
proof -
  have "p * r \<le> p" "p * r \<le> r"
    using assms mult_left_le [of r p] mult_left_le [of p r] by (simp_all add: mult.commute)
  then have "2 * p * r \<le> p + r" by simp
  then have "rnd (2 * p * r) \<le> rnd (p + r)" by (rule rnd_mono)
  moreover have "js_mul 2 p = 2 * p" using assms(5) by (simp add: js_mul_def rnd_times_2 is_double_def)
  ultimately have le: "js_mul (js_mul 2 p) r \<le> js_add p r" by (simp add: js_mul_def js_add_def)
  have nn: "0 \<le> js_mul (js_mul 2 p) r" "0 \<le> js_add p r" using assms by (simp_all add: js_bounds)
  then show "0 \<le> js_div (js_mul (js_mul 2 p) r) (js_add p r)" by (simp add: js_bounds)
  show "js_div (js_mul (js_mul 2 p) r) (js_add p r) \<le> 1"
  proof (cases "js_add p r = 0")
    case False
    with le nn have "js_mul (js_mul 2 p) r / js_add p r \<le> 1" by (simp add: divide_le_eq)
    then show ?thesis by (simp add: js_div_def rnd_le)
  qed (simp add: js_div_def)
qed

lemma math_round_percent:
  assumes "0 \<le> x" "x \<le> 1"
  shows "0 \<le> math_round (js_mul x 100)" "math_round (js_mul x 100) \<le> 100"
proof -
  have "0 \<le> js_mul x 100" "js_mul x 100 \<le> 100"
    using assms by (auto simp: js_mul_def rnd_nonneg intro: rnd_le)
  then show "0 \<le> math_round (js_mul x 100)" "math_round (js_mul x 100) \<le> 100"
    unfolding math_round_def by linarith+
qed

lemma score_bounds: "0 \<le> tokenOverlapScore a b" "tokenOverlapScore a b \<le> 100"
proof -
  have "0 \<le> tokenOverlapScore a b \<and> tokenOverlapScore a b \<le> 100"
  proof (cases "tokens a = [] \<or> tokens b = []")
    case False
    let ?n = "card (set (tokens a) \<inter> set (tokens b))"
    define p where "p = js_div (of_nat ?n) (of_nat (card (set (tokens a))))"
    define r where "r = js_div (of_nat ?n) (of_nat (card (set (tokens b))))"
    have "?n \<le> card (set (tokens a))" "?n \<le> card (set (tokens b))" by (auto intro: card_mono)
    then have u: "0 \<le> p" "p \<le> 1" "0 \<le> r" "r \<le> 1" "is_double p" using ratio_unit by (simp_all add: p_def r_def)
    show ?thesis
      using False math_round_percent [OF mean_unit [OF u]]
      by (simp add: tokenOverlapScore_card Let_def p_def [symmetric] r_def [symmetric])
  qed (auto simp: tokenOverlapScore_def Let_def)
  then show "0 \<le> tokenOverlapScore a b" "tokenOverlapScore a b \<le> 100" by simp_all
qed

text \<open>The score of an entry is the best of its names.\<close>

lemma best_fold:
  fixes f :: "'c \<Rightarrow> int"
  shows "fold (\<lambda>x best. let v = f x in if best < v then v else best) xs b = fold (\<lambda>x best. max best (f x)) xs b"
  by (induction xs arbitrary: b) (simp_all add: Let_def max_def)

lemma fold_max_ge:
  fixes f :: "'c \<Rightarrow> int"
  shows "b \<le> fold (\<lambda>x best. max best (f x)) xs b"
  by (induction xs arbitrary: b) (auto intro: order_trans [OF max.cobounded1])

lemma fold_max_in:
  fixes f :: "'c \<Rightarrow> int"
  shows "x \<in> set xs \<Longrightarrow> f x \<le> fold (\<lambda>x best. max best (f x)) xs b"
proof (induction xs arbitrary: b)
  case (Cons y ys)
  then show ?case using fold_max_ge [of "max b (f y)" f ys] by auto
qed simp

lemma fold_max_le:
  fixes f :: "'c \<Rightarrow> int"
  shows "b \<le> m \<Longrightarrow> (\<And>x. x \<in> set xs \<Longrightarrow> f x \<le> m) \<Longrightarrow> fold (\<lambda>x best. max best (f x)) xs b \<le> m"
  by (induction xs arbitrary: b) auto

lemma fuzzyScore_bounds: "0 \<le> fuzzyScore q t as" "fuzzyScore q t as \<le> 100"
  unfolding fuzzyScore_def best_fold by (rule fold_max_ge, rule fold_max_le) (simp_all add: score_bounds)

lemma fuzzyScore_ge: "c \<in> insert t (normalize_name ` set as) \<Longrightarrow> tokenOverlapScore q c \<le> fuzzyScore q t as"
  unfolding fuzzyScore_def best_fold by (rule fold_max_in) auto

lemma fuzzyScore_same_words:
  "set (tokens q) = set (tokens t) \<Longrightarrow> tokens q \<noteq> [] \<Longrightarrow> fuzzyScore q t as = 100"
  using fuzzyScore_ge [of t t as q] fuzzyScore_bounds(2) [of q t as] by (simp add: score_same_words)

lemma top_score_head:
  assumes "sorted (map (\<lambda>m. - wm_score m) ms)" and "ms \<noteq> []"
  shows "top_score ms = wm_score (hd ms)"
  using assms by (cases ms) (auto intro!: antisym fold_max_le fold_max_ge)

section \<open>What a screening finds\<close>

lemma ofac_screen_listed:
  assumes "tokens (normalize_name (sq_fullName q)) = tok # toks" and "p \<in> set (ofac_candidates E tok (ofac_entries s))"
    and "set (tokens (oe_normalizedName (snd p))) = set (tok # toks)"
  shows "\<exists>ms. ofac_screen E q s = (Inr ms, s) \<and> ms \<noteq> [] \<and> top_score ms = 100"
proof -
  let ?n = "normalize_name (sq_fullName q)"
  let ?found = "sort_key (\<lambda>m. - wm_score m) (filter (\<lambda>m. 30 \<le> wm_score m) (map (ofac_match ?n) (ofac_candidates E tok (ofac_entries s))))"
  have sc: "wm_score (ofac_match ?n p) = 100"
    using assms fuzzyScore_same_words [of ?n "oe_normalizedName (snd p)"] by (simp add: ofac_match_def)
  with assms(2) have m: "ofac_match ?n p \<in> set ?found" by auto
  have "sorted (map (\<lambda>m. - wm_score m) ?found)" by simp
  then have hd: "wm_score m \<le> wm_score (hd ?found)" if "m \<in> set ?found" for m
    using that by (cases ?found) auto
  have ne: "take 10 ?found \<noteq> []" using m by (metis empty_iff empty_set take_eq_Nil zero_neq_numeral)
  moreover have "wm_score (hd ?found) \<le> 100"
  proof -
    have "hd ?found \<in> set ?found" using m by (metis hd_in_set empty_iff empty_set)
    then show ?thesis by (auto simp: ofac_match_def fuzzyScore_bounds)
  qed
  moreover have "wm_score (hd (take 10 ?found)) = 100"
    using hd [OF m] sc calculation by (simp add: hd_take)
  moreover have "sorted (map (\<lambda>m. - wm_score m) (take 10 ?found))" by (simp add: take_map [symmetric] sorted_wrt_take)
  ultimately have "top_score (take 10 ?found) = 100" by (simp add: top_score_head)
  with ne show ?thesis using assms(1) by (simp add: ofac_screen_def gets_def Let_def)
qed

lemma screenUser_query:
  "screenUser E now u s = (r, t) \<Longrightarrow> \<exists>i sc. r = Inr (i, sc) \<and> i = sn_uuid E (Suc (calls s)) \<and> sc_userId sc = u \<and>
     sc_fullName sc = sq_fullName (query_of u (latest_record u s)) \<and>
     t = s\<lparr>calls := Suc (Suc (calls s)), screenings := tbl_save i sc (screenings s)\<rparr>"
  by (auto simp: screenUser_def open_screen_def ofac_screen_def next_id_def bindE_def gets_def modify_def ret_def Let_def
      split: if_splits)

section \<open>Properties\<close>


definition demo_sanctions_env :: sanctions_env where
  "demo_sanctions_env = \<lparr>sn_uuid = \<lambda>n. replicate n CHR ''x'', sn_post = \<lambda>n q. None,
     sn_ilike = \<lambda>t p. has_substring (butlast (tl p)) t, sn_csv = \<lambda>n. Inr []\<rparr>"

definition demo_sanctions :: sanctions_state where
  "demo_sanctions = \<lparr>users = [(''bob'', demo_user 500)], wallets = [], notifications = [], calls = 0, payments = [],
     kyc_records = [(''k'', \<lparr>kr_userId = ''bob'', kr_approved = True, kr_fullName = ''John SMITH'', kr_dateOfBirth = ''1970-01-01'',
       kr_nationality = ''UK'', kr_createdAt = 0\<rparr>)], screenings = [],
     ofac_entries = [(''e'', \<lparr>oe_sdnName = ''SMITH, John'', oe_normalizedName = normalize_name ''SMITH, John'', oe_sdnType = None,
       oe_program = None, oe_title = None, oe_remarks = None, oe_aliases = []\<rparr>)]\<rparr>"

lemma demo_names: "normalize_name ''SMITH, John'' = ''smith john''" "normalize_name ''John SMITH'' = ''john smith''"
  "tokens ''smith john'' = [''smith'', ''john'']" "tokens ''john smith'' = [''john'', ''smith'']"
  by code_simp+


end
