(* ===== verification/Kyc.thy ===== *)
theory Kyc
  imports Sanctions
begin

text \<open>
  Know-your-customer applications (\<open>kyc/kyc.service.ts\<close>): a user applies for the next tier with documents, an administrator
  approves, rejects or asks for another submission, and the tier of the user follows. The storage and the virus scanner
  are parameters, indexed by the number of the call; a scan that is not configured or does not answer passes, as in
  \<open>common/helpers/virus-scanner.helper.ts\<close>. Pushes and webhooks are recorded in the order of the calls; the screening that an
  approval starts runs after it.
\<close>

section \<open>Data\<close>

instantiation kyc_tier :: linorder
begin

definition less_eq_kyc_tier :: "kyc_tier \<Rightarrow> kyc_tier \<Rightarrow> bool" where
  "less_eq_kyc_tier a b \<longleftrightarrow> tier_rank a \<le> tier_rank b"

definition less_kyc_tier :: "kyc_tier \<Rightarrow> kyc_tier \<Rightarrow> bool" where
  "less_kyc_tier a b \<longleftrightarrow> tier_rank a < tier_rank b"

instance
proof
  show "a \<le> b \<Longrightarrow> b \<le> a \<Longrightarrow> a = b" for a b :: kyc_tier
    by (cases a; cases b) (simp_all add: less_eq_kyc_tier_def tier_rank_def)
qed (auto simp: less_eq_kyc_tier_def less_kyc_tier_def)

end

text \<open>\<open>UserKycTier.STANDARD | UserKycTier.ENHANCED\<close>.\<close>

datatype kyc_target = TARGET_STANDARD | TARGET_ENHANCED

fun tier_of :: "kyc_target \<Rightarrow> kyc_tier" where
  "tier_of TARGET_STANDARD = KYC_STANDARD"
| "tier_of TARGET_ENHANCED = KYC_ENHANCED"

datatype kyc_status = KYC_PENDING | KYC_APPROVED | KYC_REJECTED | RESUBMISSION_REQUIRED

record upload_file =
  uf_buffer :: string
  uf_mimetype :: string

record document_files =
  df_governmentIdFront :: "upload_file option"
  df_governmentIdBack :: "upload_file option"
  df_selfie :: "upload_file option"
  df_proofOfAddress :: "upload_file option"
  df_videoSelfie :: "upload_file option"

record stored_document =
  sd_s3Key :: string
  sd_mimeType :: string

record kyc_application =
  ka_userId :: string
  ka_targetTier :: kyc_target
  ka_status :: kyc_status
  ka_documents :: "(string \<times> stored_document) list"
  ka_rejectionReason :: "string option"
  ka_reviewedBy :: "string option"
  ka_reviewedAt :: "int option"
  ka_submittedAt :: "int option"
  ka_createdAt :: int

datatype kyc_message =
    Push "string list" string string
  | Webhook string string string

record kyc_state = sanctions_state +
  kyc_applications :: "kyc_application table"
  kyc_messages :: "kyc_message list"

datatype scan_answer = ScanResponse string | ScanTimeout | ScanError

record kyc_env =
  kv_uuid :: "nat \<Rightarrow> string"
  kv_clamav :: "(nat \<Rightarrow> string \<Rightarrow> scan_answer) option"
  kv_upload :: "nat \<Rightarrow> upload_file \<Rightarrow> string \<Rightarrow> exn + string"
  kv_sanctions :: "sanctions_env option"

section \<open>Documents\<close>

definition scanBuffer :: "kyc_env \<Rightarrow> string \<Rightarrow> ('a chain_scheme, unit) op" where
  "scanBuffer E buffer =
     (case kv_clamav E of
        None \<Rightarrow> ret ()
      | Some scan \<Rightarrow>
          bindE (gets calls) (\<lambda>n.
          bindE (modify (\<lambda>s. s\<lparr>calls := Suc n\<rparr>)) (\<lambda>_.
          case scan n buffer of
            ScanResponse response \<Rightarrow>
              require (\<not> has_substring ''FOUND'' response) (UnprocessableEntityException ''File failed virus scan'')
          | _ \<Rightarrow> ret ())))"

definition validateSelfieVideo :: "string \<Rightarrow> ('s, unit) op" where
  "validateSelfieVideo buffer =
     require (length buffer \<le> 50 * 1024 * 1024) (PlainError ''Video file is too large. Must be under 50MB (approx 30 seconds).'')"

definition upload :: "kyc_env \<Rightarrow> string \<Rightarrow> upload_file \<Rightarrow> ('a chain_scheme, stored_document) op" where
  "upload E path file =
     bindE (gets calls) (\<lambda>n.
     bindE (modify (\<lambda>s. s\<lparr>calls := Suc n\<rparr>)) (\<lambda>_.
     bindE (from_sum (kv_upload E n file path)) (\<lambda>key. ret \<lparr>sd_s3Key = key, sd_mimeType = uf_mimetype file\<rparr>)))"

definition standard_documents :: "kyc_env \<Rightarrow> string \<Rightarrow> document_files \<Rightarrow> ('a chain_scheme, (string \<times> stored_document) list) op" where
  "standard_documents E path files =
     bindE (from_option (BadRequestException ''Government ID front is required for STANDARD tier.'') (df_governmentIdFront files)) (\<lambda>front.
     bindE (from_option (BadRequestException ''Selfie is required for STANDARD tier.'') (df_selfie files)) (\<lambda>selfie.
     bindE (scanBuffer E (uf_buffer front)) (\<lambda>_.
     bindE (scanBuffer E (uf_buffer selfie)) (\<lambda>_.
     bindE (upload E path front) (\<lambda>d1.
     bindE (case df_governmentIdBack files of
              None \<Rightarrow> ret []
            | Some back \<Rightarrow> bindE (upload E path back) (\<lambda>d. ret [(''governmentIdBack'', d)])) (\<lambda>d2.
     bindE (upload E path selfie) (\<lambda>d3.
     ret ((''governmentIdFront'', d1) # d2 @ [(''selfie'', d3)]))))))))"

definition enhanced_documents :: "kyc_env \<Rightarrow> string \<Rightarrow> document_files \<Rightarrow> ('a chain_scheme, (string \<times> stored_document) list) op" where
  "enhanced_documents E path files =
     bindE (from_option (BadRequestException ''Proof of Address is required for ENHANCED tier.'') (df_proofOfAddress files)) (\<lambda>proof_of.
     bindE (from_option (BadRequestException ''Video Selfie is required for ENHANCED tier.'') (df_videoSelfie files)) (\<lambda>video.
     bindE (scanBuffer E (uf_buffer proof_of)) (\<lambda>_.
     bindE (scanBuffer E (uf_buffer video)) (\<lambda>_.
     bindE (validateSelfieVideo (uf_buffer video)) (\<lambda>_.
     bindE (upload E path proof_of) (\<lambda>d1.
     bindE (upload E path video) (\<lambda>d2.
     ret [(''proofOfAddress'', d1), (''videoSelfie'', d2)])))))))"

definition take_documents :: "kyc_env \<Rightarrow> string \<Rightarrow> kyc_target \<Rightarrow> document_files \<Rightarrow> ('a chain_scheme, (string \<times> stored_document) list) op" where
  "take_documents E userId target files =
     (let storagePath = ''kyc/'' @ userId in
      case target of
        TARGET_STANDARD \<Rightarrow> standard_documents E storagePath files
      | TARGET_ENHANCED \<Rightarrow> enhanced_documents E storagePath files)"

section \<open>Requests of users\<close>

definition applyForKyc ::
    "kyc_env \<Rightarrow> int \<Rightarrow> string \<Rightarrow> kyc_target \<Rightarrow> document_files \<Rightarrow> ('a kyc_state_scheme, kyc_status \<times> kyc_target) op" where
  "applyForKyc E now userId target files =
     bindE (existing_user userId) (\<lambda>user.
     bindE (require (u_kycTier user \<noteq> KYC_NONE)
       (BadRequestException ''User must verify email to reach BASIC tier first.'')) (\<lambda>_.
     bindE (require (\<not> (target = TARGET_STANDARD \<and> u_kycTier user \<noteq> KYC_BASIC))
       (BadRequestException ''STANDARD tier requires BASIC tier first. Please verify your email.'')) (\<lambda>_.
     bindE (require (\<not> (target = TARGET_ENHANCED \<and> u_kycTier user \<noteq> KYC_STANDARD))
       (BadRequestException ''ENHANCED tier requires STANDARD tier first. Please apply for STANDARD first.'')) (\<lambda>_.
     bindE (gets (\<lambda>s. list_ex (\<lambda>(i, k). ka_userId k = userId \<and> ka_status k = KYC_PENDING) (kyc_applications s))) (\<lambda>existing.
     bindE (require (\<not> existing) (BadRequestException ''You already have a KYC submission under review.'')) (\<lambda>_.
     bindE (take_documents E userId target files) (\<lambda>documents.
     bindE (next_id (kv_uuid E)) (\<lambda>i.
     let newKyc = \<lparr>ka_userId = userId, ka_targetTier = target, ka_status = KYC_PENDING, ka_documents = documents,
           ka_rejectionReason = None, ka_reviewedBy = None, ka_reviewedAt = None, ka_submittedAt = Some now, ka_createdAt = now\<rparr>
     in bindE (modify (\<lambda>s. s\<lparr>kyc_applications := tbl_save i newKyc (kyc_applications s)\<rparr>)) (\<lambda>_.
     ret (ka_status newKyc, ka_targetTier newKyc))))))))))"

text \<open>Writes of a transaction that are undone when it throws.\<close>

definition kyc_rollback :: "'a kyc_state_scheme \<Rightarrow> 'a kyc_state_scheme \<Rightarrow> 'a kyc_state_scheme" where
  "kyc_rollback s t = t\<lparr>users := users s, notifications := notifications s, kyc_applications := kyc_applications s\<rparr>"

definition save_application :: "string \<Rightarrow> kyc_application \<Rightarrow> ('a kyc_state_scheme, unit) op" where
  "save_application i k = modify (\<lambda>s. s\<lparr>kyc_applications := tbl_save i k (kyc_applications s)\<rparr>)"

definition resubmitKyc ::
    "kyc_env \<Rightarrow> int \<Rightarrow> string \<Rightarrow> string \<Rightarrow> kyc_target \<Rightarrow> document_files \<Rightarrow> ('a kyc_state_scheme, kyc_status \<times> kyc_target) op" where
  "resubmitKyc E now applicationId userId target files =
     transactionE kyc_rollback (
       bindE (gets (\<lambda>s. case tbl_find applicationId (kyc_applications s) of
           None \<Rightarrow> None
         | Some k \<Rightarrow> if ka_userId k = userId \<and> ka_status k = RESUBMISSION_REQUIRED then Some k else None)) (\<lambda>found.
       bindE (from_option (BadRequestException
         ''Resubmission is only allowed when your KYC status is RESUBMISSION_REQUIRED.'') found) (\<lambda>existingKyc.
       bindE (take_documents E userId target files) (\<lambda>documents.
       let saved = existingKyc\<lparr>ka_status := KYC_PENDING, ka_documents := documents, ka_rejectionReason := None,
             ka_reviewedBy := None, ka_reviewedAt := None, ka_submittedAt := Some now\<rparr>
       in bindE (save_application applicationId saved) (\<lambda>_. ret (ka_status saved, ka_targetTier saved))))))"

definition getNextTier :: "kyc_tier \<Rightarrow> kyc_tier option" where
  "getNextTier currentTier =
     (if currentTier = KYC_NONE then Some KYC_BASIC
      else if currentTier = KYC_BASIC then Some KYC_STANDARD
      else if currentTier = KYC_STANDARD then Some KYC_ENHANCED
      else None)"

definition getRequiredDocuments :: "kyc_tier option \<Rightarrow> string list" where
  "getRequiredDocuments tier =
     (if tier = Some KYC_BASIC then [''emailVerification'']
      else if tier = Some KYC_STANDARD then [''governmentIdFront'', ''governmentIdBack'', ''selfie'']
      else if tier = Some KYC_ENHANCED then [''proofOfAddress'', ''videoSelfie'']
      else [])"

record kyc_status_view =
  kw_currentTier :: kyc_tier
  kw_application :: "(string \<times> kyc_application) option"
  kw_nextTier :: "kyc_tier option"
  kw_requiredDocuments :: "string list"

definition getKycStatus :: "string \<Rightarrow> ('a kyc_state_scheme, kyc_status_view) op" where
  "getKycStatus userId =
     bindE (existing_user userId) (\<lambda>user.
     bindE (gets (\<lambda>s. case sort_key (\<lambda>(i, k). - ka_createdAt k) (filter (\<lambda>(i, k). ka_userId k = userId) (kyc_applications s)) of
         [] \<Rightarrow> None | k # _ \<Rightarrow> Some k)) (\<lambda>latest.
     let next_tier = getNextTier (u_kycTier user) in
     ret \<lparr>kw_currentTier = u_kycTier user, kw_application = latest, kw_nextTier = next_tier,
          kw_requiredDocuments = getRequiredDocuments next_tier\<rparr>))"

section \<open>Requests of administrators\<close>

definition getKycQueue ::
    "kyc_target option \<Rightarrow> kyc_status option \<Rightarrow> nat \<Rightarrow> nat \<Rightarrow> ('a kyc_state_scheme, (string \<times> kyc_application) list \<times> nat \<times> int) op" where
  "getKycQueue tier status page limit =
     gets (\<lambda>s.
       let found = sort_key (\<lambda>(i, k). ka_createdAt k)
             (filter (\<lambda>(i, k). (tier = None \<or> tier = Some (ka_targetTier k)) \<and> (status = None \<or> status = Some (ka_status k)))
               (kyc_applications s))
       in (take limit (drop ((page - 1) * limit) found), length found, \<lceil>of_nat (length found) / (of_nat limit :: rat)\<rceil>))"

definition push :: "user \<Rightarrow> string \<Rightarrow> string \<Rightarrow> ('a kyc_state_scheme, unit) op" where
  "push user title body =
     (case u_fcmTokens user of
        Some (t # ts) \<Rightarrow> modify (\<lambda>s. s\<lparr>kyc_messages := kyc_messages s @ [Push (t # ts) title body]\<rparr>)
      | _ \<Rightarrow> ret ())"

definition dispatch :: "string \<Rightarrow> string \<Rightarrow> string \<Rightarrow> ('a kyc_state_scheme, unit) op" where
  "dispatch event i userId = modify (\<lambda>s. s\<lparr>kyc_messages := kyc_messages s @ [Webhook event i userId]\<rparr>)"

definition approve_body :: "int \<Rightarrow> string \<Rightarrow> string \<Rightarrow> ('a kyc_state_scheme, string) op" where
  "approve_body now kycId reviewerId =
     bindE (gets (\<lambda>s. tbl_find kycId (kyc_applications s))) (\<lambda>found.
     bindE (from_option (NotFoundException ''KYC application not found'') found) (\<lambda>kyc.
     bindE (require (ka_status kyc = KYC_PENDING) (BadRequestException ''Only pending submissions can be approved'')) (\<lambda>_.
     bindE (existing_user (ka_userId kyc)) (\<lambda>user.
     bindE (save_application kycId (kyc\<lparr>ka_status := KYC_APPROVED, ka_reviewedBy := Some reviewerId, ka_reviewedAt := Some now\<rparr>)) (\<lambda>_.
     bindE (modify (updateByUserId (ka_userId kyc) (\<lambda>u. u\<lparr>u_kycTier := tier_of (ka_targetTier kyc)\<rparr>))) (\<lambda>_.
     bindE (modify (notify (ka_userId kyc) ''KYC Approved''
       ''Your identity verification for ${kyc.targetTier} tier has been approved.'')) (\<lambda>_.
     bindE (push user ''KYC Approved'' ''Your identity verification for ${kyc.targetTier} tier has been approved.'') (\<lambda>_.
     bindE (dispatch ''kyc.approved'' kycId (ka_userId kyc)) (\<lambda>_.
     ret (ka_userId kyc))))))))))"

definition approveKyc :: "kyc_env \<Rightarrow> int \<Rightarrow> string \<Rightarrow> string \<Rightarrow> ('a kyc_state_scheme, string) op" where
  "approveKyc E now kycId reviewerId =
     bindE (transactionE kyc_rollback (approve_body now kycId reviewerId)) (\<lambda>userId.
     bindE (case kv_sanctions E of
              None \<Rightarrow> ret ()
            | Some S \<Rightarrow> tryE (bindE (screenUser S now userId) (\<lambda>_. ret ())) (\<lambda>_. ret ())) (\<lambda>_.
     ret ''KYC approved successfully''))"

definition rejectKyc :: "int \<Rightarrow> string \<Rightarrow> string \<Rightarrow> string \<Rightarrow> bool \<Rightarrow> ('a kyc_state_scheme, string) op" where
  "rejectKyc now kycId reviewerId reason requireResubmission =
     transactionE kyc_rollback (
       bindE (gets (\<lambda>s. tbl_find kycId (kyc_applications s))) (\<lambda>found.
       bindE (from_option (BadRequestException ''KYC application not found'') found) (\<lambda>kyc.
       bindE (require (ka_status kyc = KYC_PENDING) (BadRequestException ''KYC already reviewed'')) (\<lambda>_.
       bindE (gets (findById (ka_userId kyc))) (\<lambda>u.
       bindE (from_option (BadRequestException ''User not found'') u) (\<lambda>user.
       let newStatus = (if requireResubmission then RESUBMISSION_REQUIRED else KYC_REJECTED);
           title = (if requireResubmission then ''KYC Resubmission Required'' else ''KYC Rejected'');
           body = (if requireResubmission then ''Your KYC submission requires changes. Reason: ${reason}''
             else ''Your KYC submission was rejected. Reason: ${reason}'')
       in
       bindE (save_application kycId (kyc\<lparr>ka_status := newStatus,
         ka_rejectionReason := Some (if reason = [] then ''KYC rejected'' else reason),
         ka_reviewedBy := Some reviewerId, ka_reviewedAt := Some now\<rparr>)) (\<lambda>_.
       bindE (modify (notify (ka_userId kyc) title body)) (\<lambda>_.
       bindE (push user title body) (\<lambda>_.
       bindE (dispatch (if requireResubmission then ''kyc.resubmission_required'' else ''kyc.rejected'') kycId (ka_userId kyc)) (\<lambda>_.
       ret (if requireResubmission then ''KYC resubmission requested successfully'' else ''KYC rejected successfully'')))))))))))"

section \<open>What an operation changes\<close>

lemma scanBuffer_effect: "scanBuffer E b s = (r, t) \<Longrightarrow> \<exists>n. t = s\<lparr>calls := n\<rparr> \<and> calls s \<le> n"
  by (auto simp: scanBuffer_def bindE_def gets_def modify_def require_def ret_def throw_def
      split: option.splits scan_answer.splits if_splits intro: exI [of _ "calls s"])

lemma upload_effect: "upload E p f s = (r, t) \<Longrightarrow> t = s\<lparr>calls := Suc (calls s)\<rparr>"
  by (auto simp: upload_def bindE_def gets_def modify_def from_sum_def ret_def split: sum.splits)

text \<open>Operations that only make calls.\<close>

definition calls_only :: "('a chain_scheme, 'b) op \<Rightarrow> bool" where
  "calls_only m \<longleftrightarrow> (\<forall>s r t. m s = (r, t) \<longrightarrow> (\<exists>n. t = s\<lparr>calls := n\<rparr> \<and> calls s \<le> n))"

lemma calls_onlyD: "calls_only m \<Longrightarrow> m s = (r, t) \<Longrightarrow> \<exists>n. t = s\<lparr>calls := n\<rparr> \<and> calls s \<le> n"
  by (simp add: calls_only_def)

named_theorems only_calls

lemma calls_same: "\<exists>n. s = s\<lparr>calls := n\<rparr> \<and> calls s \<le> n"
  by (rule exI [of _ "calls s"]) simp

lemma calls_only_ret [only_calls]: "calls_only (ret a)"
  by (auto simp: calls_only_def ret_def intro: calls_same)

lemma calls_only_require [only_calls]: "calls_only (require c e)"
  by (auto simp: calls_only_def require_def ret_def throw_def intro: calls_same)

lemma calls_only_from_option [only_calls]: "calls_only (from_option e x)"
  by (auto simp: calls_only_def from_option_def ret_def throw_def split: option.splits intro: calls_same)

lemma calls_only_bindE [only_calls]:
  assumes "calls_only m" and "\<And>a. calls_only (f a)"
  shows "calls_only (bindE m f)"
  unfolding calls_only_def
proof (intro allI impI)
  fix s :: "'a chain_scheme" and r t
  assume b: "bindE m f s = (r, t)"
  obtain r1 u where m: "m s = (r1, u)" by fastforce
  from calls_onlyD [OF assms(1) m] obtain n where n: "u = s\<lparr>calls := n\<rparr>" "calls s \<le> n" by blast
  show "\<exists>n. t = s\<lparr>calls := n\<rparr> \<and> calls s \<le> n"
  proof (cases r1)
    case (Inr a)
    with b m have "f a u = (r, t)" by (simp add: bindE_def)
    from calls_onlyD [OF assms(2) this] n show ?thesis by auto
  qed (use b m n in \<open>auto simp: bindE_def\<close>)
qed

lemma calls_only_calls [only_calls]: "calls_only (scanBuffer E b)" "calls_only (upload E p f)"
  using scanBuffer_effect upload_effect unfolding calls_only_def by (blast, fastforce)

lemma calls_only_option [only_calls]:
  "calls_only m \<Longrightarrow> (\<And>a. calls_only (f a)) \<Longrightarrow> calls_only (case x of None \<Rightarrow> m | Some a \<Rightarrow> f a)"
  by (cases x) simp_all

lemma calls_only_documents: "calls_only (take_documents E u target files)"
  unfolding take_documents_def Let_def standard_documents_def enhanced_documents_def validateSelfieVideo_def
  by (cases target) (auto intro!: only_calls)

text \<open>Applications keep their user and their target, and a decision is final; a tier that moves is the target
  of an approved application.\<close>

definition application :: "string \<Rightarrow> 'a kyc_state_scheme \<Rightarrow> kyc_application option" where
  "application i s = tbl_find i (kyc_applications s)"

definition kyc_ids :: "kyc_env \<Rightarrow> 'a kyc_state_scheme \<Rightarrow> bool" where
  "kyc_ids E s \<longleftrightarrow> (\<forall>i k. application i s = Some k \<longrightarrow> (\<exists>n<calls s. i = kv_uuid E n))"

definition tier_at :: "string \<Rightarrow> 'a base_scheme \<Rightarrow> kyc_tier option" where
  "tier_at u s = map_option u_kycTier (findById u s)"

definition app_change :: "kyc_application \<Rightarrow> kyc_application \<Rightarrow> bool" where
  "app_change k k' \<longleftrightarrow> ka_userId k' = ka_userId k \<and> ka_targetTier k' = ka_targetTier k \<and>
     (ka_status k = KYC_APPROVED \<or> ka_status k = KYC_REJECTED \<longrightarrow> k' = k)"

definition earned :: "string \<Rightarrow> 'a kyc_state_scheme \<Rightarrow> bool" where
  "earned u s \<longleftrightarrow> (\<exists>i k. application i s = Some k \<and> ka_userId k = u \<and> ka_status k = KYC_APPROVED \<and>
     tier_at u s = Some (tier_of (ka_targetTier k)))"

definition kyc_rel :: "kyc_env \<Rightarrow> 'a kyc_state_scheme \<Rightarrow> 'a kyc_state_scheme \<Rightarrow> bool" where
  "kyc_rel E s t \<longleftrightarrow> (kyc_ids E s \<longrightarrow> kyc_ids E t \<and>
     (\<forall>i k. application i s = Some k \<longrightarrow> (\<exists>k'. application i t = Some k' \<and> app_change k k')) \<and>
     (\<forall>u. tier_at u t = tier_at u s \<or> earned u t))"

lemma app_change_refl [simp]: "app_change k k"
  by (simp add: app_change_def)

lemma app_change_trans: "app_change a b \<Longrightarrow> app_change b c \<Longrightarrow> app_change a c"
  by (auto simp: app_change_def)

lemma kyc_rel_trans:
  assumes "kyc_rel E s t" and "kyc_rel E t u"
  shows "kyc_rel E s u"
  unfolding kyc_rel_def
proof (intro impI conjI allI)
  assume s: "kyc_ids E s"
  with assms(1) have t: "kyc_ids E t" by (simp add: kyc_rel_def)
  with assms(2) show "kyc_ids E u" by (simp add: kyc_rel_def)
  show "application i s = Some k \<Longrightarrow> \<exists>k'. application i u = Some k' \<and> app_change k k'" for i k
    using s t assms unfolding kyc_rel_def by (meson app_change_trans)
  show "tier_at v u = tier_at v s \<or> earned v u" for v
  proof (cases "tier_at v u = tier_at v t")
    case True
    then have "earned v u" if "earned v t"
      using that t assms(2) unfolding kyc_rel_def earned_def by (metis app_change_def)
    then show ?thesis using True s assms(1) unfolding kyc_rel_def by auto
  qed (use t assms(2) in \<open>auto simp: kyc_rel_def\<close>)
qed

lemma kyc_rel_same:
  "kyc_applications t = kyc_applications s \<Longrightarrow> users t = users s \<Longrightarrow> calls s \<le> calls t \<Longrightarrow> kyc_rel E s t"
  unfolding kyc_rel_def kyc_ids_def tier_at_def findById_def application_def by (auto dest: order_less_le_trans)

lemma kyc_rel_refl [simp]: "kyc_rel E s s"
  by (rule kyc_rel_same) simp_all

lemma kyc_rel_save:
  assumes "application i s = Some k" and "app_change k k'" and "users t = users s" and "calls t = calls s"
    and "kyc_applications t = tbl_save i k' (kyc_applications s)"
  shows "kyc_rel E s t"
  using assms unfolding kyc_rel_def kyc_ids_def tier_at_def findById_def application_def by (auto simp: tbl_simps)

lemma kyc_rel_calls_only: "calls_only m \<Longrightarrow> m s = (r, t) \<Longrightarrow> kyc_rel E s t"
  using calls_onlyD [of m s r t] by (auto intro: kyc_rel_same)

lemma applyForKyc_rel:
  assumes "inj (kv_uuid E)" and "applyForKyc E now u target files s = (r, t)"
  shows "kyc_rel E s t"
proof (cases r)
  case (Inl e)
  with assms(2) show ?thesis
    by (auto simp: applyForKyc_def existing_user_def op_iff Let_def next_id_def
        dest: calls_onlyD [OF calls_only_documents] intro!: kyc_rel_same)
next
  case (Inr x)
  with assms(2) obtain docs v k where d: "take_documents E u target files s = (Inr docs, v)"
    and t: "t = v\<lparr>calls := Suc (calls v), kyc_applications := tbl_save (kv_uuid E (calls v)) k (kyc_applications v)\<rparr>"
    by (auto simp: applyForKyc_def existing_user_def op_iff Let_def next_id_def)
  from d have "kyc_rel E s v" by (rule kyc_rel_calls_only [OF calls_only_documents])
  moreover have "kyc_rel E v t"
    unfolding kyc_rel_def
  proof (intro impI conjI allI)
    assume ids: "kyc_ids E v"
    then show "kyc_ids E t" by (auto simp: kyc_ids_def application_def t tbl_simps less_Suc_eq split: if_splits)
    have "application (kv_uuid E (calls v)) v = None"
      using ids assms(1) by (fastforce simp: kyc_ids_def inj_def)
    then show "application i v = Some k \<Longrightarrow> \<exists>k'. application i t = Some k' \<and> app_change k k'" for i k
      by (auto simp: application_def t tbl_simps)
    show "tier_at w t = tier_at w v \<or> earned w t" for w by (simp add: tier_at_def findById_def t)
  qed
  ultimately show ?thesis by (rule kyc_rel_trans)
qed

lemma resubmitKyc_rel:
  assumes "resubmitKyc E now i u target files s = (r, t)"
  shows "kyc_rel E s t"
proof (cases r)
  case (Inl e)
  with assms show ?thesis
    by (auto simp: resubmitKyc_def op_iff Let_def save_application_def kyc_rollback_def
        dest: calls_onlyD [OF calls_only_documents] intro!: kyc_rel_same)
next
  case (Inr x)
  with assms obtain k docs v where k: "application i s = Some k" "ka_status k = RESUBMISSION_REQUIRED"
    and d: "take_documents E u target files s = (Inr docs, v)"
    and t: "t = v\<lparr>kyc_applications := tbl_save i (k\<lparr>ka_status := KYC_PENDING, ka_documents := docs, ka_rejectionReason := None,
             ka_reviewedBy := None, ka_reviewedAt := None, ka_submittedAt := Some now\<rparr>) (kyc_applications v)\<rparr>"
    by (auto simp: resubmitKyc_def op_iff Let_def save_application_def application_def split: option.splits if_splits)
  from d have "kyc_rel E s v" by (rule kyc_rel_calls_only [OF calls_only_documents])
  moreover from d k(1) have "application i v = Some k"
    by (auto simp: application_def dest!: calls_onlyD [OF calls_only_documents])
  with k have "kyc_rel E v t" by (intro kyc_rel_save) (auto simp: t app_change_def)
  ultimately show ?thesis by (rule kyc_rel_trans)
qed

lemma push_frame: "push u a b s = (r, t) \<Longrightarrow> r = Inr () \<and> kyc_applications t = kyc_applications s \<and> users t = users s \<and> calls t = calls s \<and>
    kyc_records t = kyc_records s \<and> screenings t = screenings s"
  by (auto simp: push_def modify_def ret_def split: option.splits list.splits)

lemma approve_body_Inr:
  assumes "approve_body now i rv s = (Inr u, t)"
  shows "\<exists>k. application i s = Some k \<and> ka_status k = KYC_PENDING \<and> ka_userId k = u \<and> findById u s \<noteq> None \<and> calls t = calls s \<and>
    kyc_records t = kyc_records s \<and> screenings t = screenings s \<and>
    kyc_applications t = tbl_save i (k\<lparr>ka_status := KYC_APPROVED, ka_reviewedBy := Some rv, ka_reviewedAt := Some now\<rparr>) (kyc_applications s) \<and>
    users t = tbl_update u (\<lambda>u. u\<lparr>u_kycTier := tier_of (ka_targetTier k)\<rparr>) (users s)"
  using assms by (auto simp: approve_body_def op_iff existing_user_def save_application_def dispatch_def application_def
      updateByUserId_def notify_def dest!: push_frame)

lemma approve_body_rel:
  assumes "approve_body now i rv s = (Inr u, t)"
  shows "kyc_rel E s t"
proof -
  from approve_body_Inr [OF assms] obtain k where k: "application i s = Some k" "ka_status k = KYC_PENDING" "ka_userId k = u"
    and v: "findById u s \<noteq> None" and t: "calls t = calls s"
    "kyc_applications t = tbl_save i (k\<lparr>ka_status := KYC_APPROVED, ka_reviewedBy := Some rv, ka_reviewedAt := Some now\<rparr>) (kyc_applications s)"
    "users t = tbl_update u (\<lambda>u. u\<lparr>u_kycTier := tier_of (ka_targetTier k)\<rparr>) (users s)" by blast
  have "earned u t" unfolding earned_def
    by (intro exI [of _ i] exI [of _ "k\<lparr>ka_status := KYC_APPROVED, ka_reviewedBy := Some rv, ka_reviewedAt := Some now\<rparr>"])
      (use k v in \<open>auto simp: application_def tier_at_def findById_def t tbl_simps\<close>)
  moreover have "tier_at w t = tier_at w s" if "w \<noteq> u" for w using that by (simp add: tier_at_def findById_def t tbl_simps)
  ultimately have "tier_at w t = tier_at w s \<or> earned w t" for w by (cases "w = u") auto
  then show ?thesis using k
    by (auto simp: kyc_rel_def kyc_ids_def application_def t tbl_simps app_change_def)
qed

lemma approve_body_Inl: "approve_body now i rv s = (Inl e, t) \<Longrightarrow> t = s"
  by (auto simp: approve_body_def op_iff existing_user_def save_application_def dispatch_def dest!: push_frame)

lemma kyc_rollback_same [simp]: "kyc_rollback s s = s"
  by (simp add: kyc_rollback_def)

lemma approveKyc_rel:
  fixes s :: "'a kyc_state_scheme"
  assumes "approveKyc E now i rv s = (r, t)"
  shows "kyc_rel E s t"
proof -
  obtain r1 v where b: "approve_body now i rv s = (r1, v)" by fastforce
  show ?thesis
  proof (cases r1)
    case (Inl e)
    with b assms approve_body_Inl [of now i rv s e v] show ?thesis
      by (simp add: approveKyc_def bindE_def transactionE_def)
  next
    case (Inr u)
    with b have "kyc_rel E s v" by (simp add: approve_body_rel)
    moreover have "kyc_rel E v t"
    proof (cases "kv_sanctions E")
      case None
      with b Inr assms show ?thesis by (simp add: approveKyc_def bindE_def transactionE_def ret_def)
    next
      case (Some S)
      obtain r2 w where sc: "screenUser S now u v = (r2, w)" by fastforce
      from screenUser_query [OF sc] Some b Inr assms sc have "t = w"
        by (auto simp: approveKyc_def bindE_def transactionE_def ret_def tryE_def)
      with screenUser_query [OF sc] show ?thesis by (auto intro: kyc_rel_same)
    qed
    ultimately show ?thesis by (rule kyc_rel_trans)
  qed
qed

lemma rejectKyc_rel:
  assumes "rejectKyc now i rv reason b s = (r, t)"
  shows "kyc_rel E s t"
proof (cases r)
  case (Inl e)
  with assms show ?thesis
    by (auto simp: rejectKyc_def op_iff Let_def save_application_def dispatch_def kyc_rollback_def
        dest!: push_frame intro!: kyc_rel_same)
next
  case (Inr x)
  with assms obtain k where k: "application i s = Some k" "ka_status k = KYC_PENDING" "users t = users s" "calls t = calls s"
    "kyc_applications t = tbl_save i (k\<lparr>ka_status := if b then RESUBMISSION_REQUIRED else KYC_REJECTED,
       ka_rejectionReason := Some (if reason = [] then ''KYC rejected'' else reason),
       ka_reviewedBy := Some rv, ka_reviewedAt := Some now\<rparr>) (kyc_applications s)"
    by (auto simp: rejectKyc_def op_iff Let_def save_application_def dispatch_def application_def notify_def
        dest!: push_frame)
  show ?thesis by (rule kyc_rel_save [OF k(1) _ k(3-5)]) (simp add: app_change_def k(2))
qed

section \<open>Runs\<close>

datatype kyc_event =
    KycApply int string kyc_target document_files
  | KycResubmit int string string kyc_target document_files
  | KycApprove int string string
  | KycReject int string string string bool
  | ScreeningOverride int string string string
  | ScreeningMonthly int
  | ScreeningSync

definition with_sanctions :: "kyc_env \<Rightarrow> (sanctions_env \<Rightarrow> kyc_state \<Rightarrow> kyc_state) \<Rightarrow> kyc_state \<Rightarrow> kyc_state" where
  "with_sanctions E f s = (case kv_sanctions E of None \<Rightarrow> s | Some S \<Rightarrow> f S s)"

fun kyc_step :: "kyc_env \<Rightarrow> kyc_event \<Rightarrow> kyc_state \<Rightarrow> kyc_state" where
  "kyc_step E (KycApply now u target files) s = snd (applyForKyc E now u target files s)"
| "kyc_step E (KycResubmit now i u target files) s = snd (resubmitKyc E now i u target files s)"
| "kyc_step E (KycApprove now i rv) s = snd (approveKyc E now i rv s)"
| "kyc_step E (KycReject now i rv reason b) s = snd (rejectKyc now i rv reason b s)"
| "kyc_step E (ScreeningOverride now i admin reason) s =
     with_sanctions E (\<lambda>S s. snd (overrideScreening now i admin reason s)) s"
| "kyc_step E (ScreeningMonthly now) s = with_sanctions E (\<lambda>S s. snd (rescreenAllUsers S now s)) s"
| "kyc_step E ScreeningSync s = with_sanctions E (\<lambda>S s. snd (syncOfacList S s)) s"

text \<open>What screenings leave alone.\<close>

definition kyc_same :: "'a kyc_state_scheme \<Rightarrow> 'a kyc_state_scheme \<Rightarrow> bool" where
  "kyc_same s t \<longleftrightarrow> kyc_applications t = kyc_applications s \<and> users t = users s \<and> calls s \<le> calls t \<and> kyc_records t = kyc_records s"

lemma kyc_same_refl [simp]: "kyc_same s s"
  by (simp add: kyc_same_def)

lemma kyc_same_trans: "kyc_same s t \<Longrightarrow> kyc_same t u \<Longrightarrow> kyc_same s u"
  by (auto simp: kyc_same_def)

lemma screenUser_same:
  fixes s :: "'a kyc_state_scheme"
  shows "screenUser S now u s = (r, t) \<Longrightarrow> kyc_same s t"
  by (auto dest!: screenUser_query simp: kyc_same_def)

text \<open>A screening that was made without a record of the user searched for the id of the user.\<close>

definition id_screenings :: "'a sanctions_state_scheme \<Rightarrow> bool" where
  "id_screenings s \<longleftrightarrow> kyc_records s = [] \<and>
     (\<forall>i sc. tbl_find i (screenings s) = Some sc \<longrightarrow> sc_fullName sc = sc_userId sc)"

lemma id_screenings_cong: "kyc_records t = kyc_records s \<Longrightarrow> screenings t = screenings s \<Longrightarrow> id_screenings t = id_screenings s"
  by (simp add: id_screenings_def)

lemma no_records: "kyc_records s = [] \<Longrightarrow> sq_fullName (query_of u (latest_record u s)) = u"
  by (simp add: latest_record_def query_of_def)

lemma screenUser_ids: "id_screenings s \<Longrightarrow> screenUser S now u s = (r, t) \<Longrightarrow> id_screenings t"
  by (auto dest!: screenUser_query simp: id_screenings_def tbl_simps no_records split: if_splits)

lemma rescreen_effect:
  fixes s :: "'a kyc_state_scheme"
  shows "rescreen S now us c s = (r, t) \<Longrightarrow> kyc_same s t \<and> (id_screenings s \<longrightarrow> id_screenings t)"
proof (induction us arbitrary: c s)
  case Nil
  then show ?case by (auto simp: ret_def)
next
  case (Cons u us)
  obtain p f where c: "c = (p, f)" by fastforce
  obtain r1 v where sc: "screenUser S now u s = (r1, v)" by fastforce
  with screenUser_query [OF sc] Cons.prems obtain c' where "rescreen S now us c' v = (r, t)"
    by (auto simp: c bindE_def tryE_def ret_def)
  from Cons.IH [OF this] screenUser_same [OF sc] screenUser_ids [OF _ sc] show ?case by (auto intro: kyc_same_trans)
qed

lemma save_entries_frame: "save_entries S es s = (r, t) \<Longrightarrow> \<exists>n os. calls s \<le> n \<and> t = s\<lparr>calls := n, ofac_entries := os\<rparr>"
proof (induction es arbitrary: s)
  case (Cons e es)
  from Cons.prems obtain i where "save_entries S es (s\<lparr>calls := Suc (calls s), ofac_entries := i\<rparr>) = (r, t)"
    by (auto simp: bindE_def next_id_def modify_def)
  from Cons.IH [OF this] obtain n os where "Suc (calls s) \<le> n" "t = s\<lparr>calls := n, ofac_entries := os\<rparr>" by auto
  then show ?case by (intro exI [of _ n] exI [of _ os]) simp
next
  case Nil
  then show ?case by (intro exI [of _ "calls s"] exI [of _ "ofac_entries s"]) (simp add: ret_def)
qed

lemma sanctions_steps:
  fixes s :: kyc_state
  shows "overrideScreening now i admin reason s = (r, t) \<Longrightarrow> kyc_same s t \<and> (id_screenings s \<longrightarrow> id_screenings t)"
    and "rescreenAllUsers S now s = (r1, t) \<Longrightarrow> kyc_same s t \<and> (id_screenings s \<longrightarrow> id_screenings t)"
    and "syncOfacList S s = (r2, t) \<Longrightarrow> kyc_same s t \<and> (id_screenings s \<longrightarrow> id_screenings t)"
proof -
  show "overrideScreening now i admin reason s = (r, t) \<Longrightarrow> kyc_same s t \<and> (id_screenings s \<longrightarrow> id_screenings t)"
    by (cases r) (auto simp: overrideScreening_def op_iff Let_def kyc_same_def id_screenings_def tbl_simps split: if_splits)
  show "rescreenAllUsers S now s = (r1, t) \<Longrightarrow> kyc_same s t \<and> (id_screenings s \<longrightarrow> id_screenings t)"
    by (auto simp: rescreenAllUsers_def bindE_def gets_def dest: rescreen_effect)
  assume sync: "syncOfacList S s = (r2, t)"
  have "\<exists>n os. calls s \<le> n \<and> t = s\<lparr>calls := n, ofac_entries := os\<rparr>"
  proof (cases "sn_csv S (calls s)")
    case (Inl e)
    with sync show ?thesis
      by (intro exI [of _ "Suc (calls s)"] exI [of _ "ofac_entries s"])
        (auto simp: syncOfacList_def syncFromTreasury_def bindE_def gets_def modify_def from_sum_def)
  next
    case (Inr csv)
    obtain r3 v where v: "save_entries S (parseCsv csv) (s\<lparr>calls := Suc (calls s), ofac_entries := []\<rparr>) = (r3, v)" by fastforce
    with Inr sync have "t = v"
      by (cases r3) (auto simp: syncOfacList_def syncFromTreasury_def bindE_def gets_def modify_def from_sum_def Let_def ret_def)
    with save_entries_frame [OF v] obtain n os where "Suc (calls s) \<le> n" "t = s\<lparr>calls := n, ofac_entries := os\<rparr>" by auto
    then show ?thesis by (intro exI [of _ n] exI [of _ os]) simp
  qed
  then show "kyc_same s t \<and> (id_screenings s \<longrightarrow> id_screenings t)"
    by (auto simp: kyc_same_def id_screenings_def)
qed

lemma kyc_rel_kyc_same: "kyc_same s t \<Longrightarrow> kyc_rel E s t"
  by (auto simp: kyc_same_def intro: kyc_rel_same)

lemmas sanctions_snd = sanctions_steps [OF surjective_pairing]

lemma kyc_step_rel:
  assumes "inj (kv_uuid E)"
  shows "kyc_rel E s (kyc_step E e s)"
  by (cases e) (simp_all add: applyForKyc_rel [OF assms surjective_pairing] resubmitKyc_rel [OF surjective_pairing]
      approveKyc_rel [OF surjective_pairing] rejectKyc_rel [OF surjective_pairing] with_sanctions_def
      kyc_rel_kyc_same sanctions_snd split: option.split)

lemma kyc_ids_rel: "kyc_rel E s t \<Longrightarrow> kyc_ids E s \<Longrightarrow> kyc_ids E t"
  by (simp add: kyc_rel_def)

interpretation kyc_run: invariant_system "kyc_step E" "\<lambda>_. inj (kv_uuid E)" "\<lambda>t. kyc_ids E t \<and> kyc_rel E s t" for E s
proof unfold_locales
  fix t e
  assume "kyc_ids E t \<and> kyc_rel E s t" "inj (kv_uuid E)"
  with kyc_step_rel [of E t e] show "kyc_ids E (kyc_step E e t) \<and> kyc_rel E s (kyc_step E e t)"
    using kyc_ids_rel kyc_rel_trans by meson
qed

lemma take_documents_ids: "take_documents E u target files s = (r, t) \<Longrightarrow> id_screenings t = id_screenings (s :: kyc_state)"
  by (auto dest!: calls_onlyD [OF calls_only_documents] simp: id_screenings_def)

lemma approve_ids:
  fixes s :: kyc_state
  assumes "approveKyc E now i rv s = (r, t)" and "id_screenings s"
  shows "id_screenings t"
proof -
  obtain r1 v where b: "approve_body now i rv s = (r1, v)" by fastforce
  show ?thesis
  proof (cases r1)
    case (Inl e)
    with b assms approve_body_Inl [of now i rv s e v] show ?thesis
      by (auto simp: approveKyc_def bindE_def transactionE_def)
  next
    case (Inr u)
    with b approve_body_Inr [of now i rv s u v] assms(2) have v: "id_screenings v" by (auto simp: id_screenings_def)
    show ?thesis
    proof (cases "kv_sanctions E")
      case None
      with b Inr assms(1) v show ?thesis by (simp add: approveKyc_def bindE_def transactionE_def ret_def)
    next
      case (Some S)
      obtain r2 w where sc: "screenUser S now u v = (r2, w)" by fastforce
      with screenUser_query [OF sc] Some b Inr assms(1) have "t = w"
        by (auto simp: approveKyc_def bindE_def transactionE_def ret_def tryE_def)
      with screenUser_ids [OF v sc] show ?thesis by simp
    qed
  qed
qed

lemma request_ids:
  fixes s :: kyc_state
  assumes "id_screenings s"
  shows "applyForKyc E now u target files s = (r, t) \<Longrightarrow> id_screenings t"
    and "resubmitKyc E now i u target files s = (r, t) \<Longrightarrow> id_screenings t"
    and "rejectKyc now i rv reason b s = (r', t) \<Longrightarrow> id_screenings t"
proof -
  show "applyForKyc E now u target files s = (r, t) \<Longrightarrow> id_screenings t"
    using assms by (cases r) (auto simp: applyForKyc_def existing_user_def op_iff Let_def next_id_def id_screenings_def
        dest!: take_documents_ids)
  show "resubmitKyc E now i u target files s = (r, t) \<Longrightarrow> id_screenings t"
    using assms by (cases r) (auto simp: resubmitKyc_def op_iff Let_def save_application_def kyc_rollback_def id_screenings_def
        dest!: take_documents_ids)
  show "rejectKyc now i rv reason b s = (r', t) \<Longrightarrow> id_screenings t"
    using assms by (cases r') (auto simp: rejectKyc_def op_iff Let_def save_application_def dispatch_def kyc_rollback_def
        id_screenings_def notify_def dest!: push_frame)
qed

lemma kyc_step_ids:
  assumes "id_screenings s"
  shows "id_screenings (kyc_step E e s)"
  using assms by (cases e) (simp_all add: request_ids [OF _ surjective_pairing] approve_ids [OF surjective_pairing]
      with_sanctions_def sanctions_snd split: option.split)

interpretation kyc_screen_run: invariant_system "kyc_step E" "\<lambda>_. True" id_screenings for E
  by unfold_locales (rule kyc_step_ids)

section \<open>An approval\<close>

text \<open>The next tier is the least one above the tier of the user.\<close>

lemma getNextTier_least: "getNextTier a = Some b \<longleftrightarrow> a < b \<and> (\<forall>c. a < c \<longrightarrow> b \<le> c)"
  by (cases a; cases b)
    (auto simp: getNextTier_def less_kyc_tier_def less_eq_kyc_tier_def tier_rank_def split: kyc_tier.splits intro: exI [of _ KYC_BASIC]
      exI [of _ KYC_STANDARD] exI [of _ KYC_ENHANCED])

lemma push_total: "\<exists>t. push u a b s = (Inr (), t)"
  by (auto simp: push_def modify_def ret_def split: option.splits list.splits)

lemma approve_body_total:
  assumes "application i s = Some k" and "ka_status k = KYC_PENDING" and "findById (ka_userId k) s \<noteq> None"
  shows "\<exists>t. approve_body now i rv s = (Inr (ka_userId k), t)"
proof -
  obtain u where u: "findById (ka_userId k) s = Some u" using assms(3) by blast
  let ?s = "notify (ka_userId k) ''KYC Approved'' ''Your identity verification for ${kyc.targetTier} tier has been approved.''
    (updateByUserId (ka_userId k) (\<lambda>u. u\<lparr>u_kycTier := tier_of (ka_targetTier k)\<rparr>) (s\<lparr>kyc_applications := tbl_save i
      (k\<lparr>ka_status := KYC_APPROVED, ka_reviewedBy := Some rv, ka_reviewedAt := Some now\<rparr>) (kyc_applications s)\<rparr>))"
  obtain t where "push u ''KYC Approved'' ''Your identity verification for ${kyc.targetTier} tier has been approved.'' ?s = (Inr (), t)"
    using push_total by blast
  then show ?thesis using assms(1,2) u
    by (simp add: approve_body_def bindE_def gets_def from_option_def ret_def require_def existing_user_def save_application_def
        modify_def dispatch_def application_def)
qed

lemma approveKyc_total:
  fixes s :: "'a kyc_state_scheme"
  assumes "application i s = Some k" and "ka_status k = KYC_PENDING" and "findById (ka_userId k) s \<noteq> None"
  shows "\<exists>t. approveKyc E now i rv s = (Inr ''KYC approved successfully'', t) \<and>
    application i t = Some (k\<lparr>ka_status := KYC_APPROVED, ka_reviewedBy := Some rv, ka_reviewedAt := Some now\<rparr>) \<and>
    tier_at (ka_userId k) t = Some (tier_of (ka_targetTier k))"
proof -
  obtain v where b: "approve_body now i rv s = (Inr (ka_userId k), v)" using approve_body_total [OF assms] by blast
  from approve_body_Inr [OF b] assms(1,3)
  have v: "application i v = Some (k\<lparr>ka_status := KYC_APPROVED, ka_reviewedBy := Some rv, ka_reviewedAt := Some now\<rparr>)"
    "tier_at (ka_userId k) v = Some (tier_of (ka_targetTier k))"
    by (auto simp: application_def tier_at_def findById_def tbl_simps)
  have "\<exists>w. approveKyc E now i rv s = (Inr ''KYC approved successfully'', w) \<and> kyc_same v w"
  proof (cases "kv_sanctions E")
    case None
    with b show ?thesis by (simp add: approveKyc_def bindE_def transactionE_def ret_def)
  next
    case (Some S)
    obtain r2 w where sc: "screenUser S now (ka_userId k) v = (r2, w)" by fastforce
    with screenUser_query [OF sc] Some b have "approveKyc E now i rv s = (Inr ''KYC approved successfully'', w)"
      by (auto simp: approveKyc_def bindE_def transactionE_def ret_def tryE_def)
    with screenUser_same [OF sc] show ?thesis by blast
  qed
  with v show ?thesis by (auto simp: kyc_same_def application_def tier_at_def findById_def)
qed

lemma documents_of_target:
  "take_documents E u target files s = (Inr docs, t) \<Longrightarrow>
     map fst docs = (case target of
       TARGET_STANDARD \<Rightarrow> (if df_governmentIdBack files = None then [''governmentIdFront'', ''selfie'']
         else [''governmentIdFront'', ''governmentIdBack'', ''selfie''])
     | TARGET_ENHANCED \<Rightarrow> [''proofOfAddress'', ''videoSelfie''])"
  by (cases target; cases "df_governmentIdBack files")
    (auto simp: take_documents_def standard_documents_def enhanced_documents_def op_iff Let_def)

section \<open>Properties\<close>

text \<open>C14. A tier is earned: after any requests, decisions and screenings, a user either has the tier of the start, or an
  application of this user for exactly the tier the user has was approved; and a decision, to approve or to reject, is final.\<close>

theorem kyc_tier_earned:
  assumes "inj (kv_uuid E)" and "kyc_ids E s" and "t = fold (kyc_step E) es s"
  shows "(\<forall>u. tier_at u t = tier_at u s \<or> (\<exists>i k. application i t = Some k \<and> ka_userId k = u \<and> ka_status k = KYC_APPROVED \<and>
      tier_at u t = Some (tier_of (ka_targetTier k)))) \<and>
    (\<forall>i k. application i s = Some k \<and> (ka_status k = KYC_APPROVED \<or> ka_status k = KYC_REJECTED) \<longrightarrow> application i t = Some k)"
proof -
  have "kyc_rel E s t" using kyc_run.inv_run [of E s s es] assms by simp
  with assms(2) have r: "\<forall>u. tier_at u t = tier_at u s \<or> earned u t"
    "\<forall>i k. application i s = Some k \<longrightarrow> (\<exists>k'. application i t = Some k' \<and> app_change k k')" by (simp_all add: kyc_rel_def)
  from r(1) have "\<forall>u. tier_at u t = tier_at u s \<or> (\<exists>i k. application i t = Some k \<and> ka_userId k = u \<and>
      ka_status k = KYC_APPROVED \<and> tier_at u t = Some (tier_of (ka_targetTier k)))" by (simp add: earned_def)
  moreover from r(2) have "\<forall>i k. application i s = Some k \<and> (ka_status k = KYC_APPROVED \<or> ka_status k = KYC_REJECTED) \<longrightarrow>
    application i t = Some k" unfolding app_change_def by metis
  ultimately show ?thesis by blast
qed

definition demo_kyc_env :: "sanctions_env option \<Rightarrow> kyc_env" where
  "demo_kyc_env S = \<lparr>kv_uuid = \<lambda>n. replicate n CHR ''x'', kv_clamav = Some (\<lambda>n b. ScanTimeout),
     kv_upload = \<lambda>n f p. Inr (p @ replicate n CHR ''y''), kv_sanctions = S\<rparr>"

definition demo_files :: document_files where
  "demo_files = \<lparr>df_governmentIdFront = Some \<lparr>uf_buffer = ''front'', uf_mimetype = ''image/png''\<rparr>, df_governmentIdBack = None,
     df_selfie = Some \<lparr>uf_buffer = ''me'', uf_mimetype = ''image/png''\<rparr>, df_proofOfAddress = None, df_videoSelfie = None\<rparr>"

definition demo_kyc :: "kyc_application table \<Rightarrow> kyc_state" where
  "demo_kyc as = \<lparr>users = [(''bob'', demo_user 500)], wallets = [], notifications = [], calls = 0, payments = [], kyc_records = [],
     screenings = [], ofac_entries = [], kyc_applications = as, kyc_messages = []\<rparr>"

definition sent_back :: kyc_application where
  "sent_back = \<lparr>ka_userId = ''bob'', ka_targetTier = TARGET_ENHANCED, ka_status = RESUBMISSION_REQUIRED, ka_documents = [],
     ka_rejectionReason = Some ''blurred'', ka_reviewedBy = Some ''admin'', ka_reviewedAt = Some 1, ka_submittedAt = Some 0, ka_createdAt = 0\<rparr>"

lemma demo_kyc_inj: "inj (kv_uuid (demo_kyc_env S))"
  unfolding inj_def demo_kyc_env_def kyc_env.simps by (metis length_replicate)

lemma demo_documents: "\<exists>docs t. take_documents (demo_kyc_env S) ''bob'' TARGET_STANDARD demo_files (s :: kyc_state) = (Inr docs, t) \<and>
    calls t = calls s + 4"
  by (simp add: take_documents_def standard_documents_def scanBuffer_def upload_def demo_kyc_env_def demo_files_def Let_def
      bindE_def gets_def modify_def ret_def from_option_def from_sum_def)

definition demo_kyc_events :: "kyc_event list" where
  "demo_kyc_events = [KycApply 1 ''bob'' TARGET_STANDARD demo_files, KycApprove 2 ''xxxx'' ''admin'']"

theorem kyc_tier_earned_witness:
  "let t = fold (kyc_step (demo_kyc_env None)) demo_kyc_events (demo_kyc []) in
    tier_at ''bob'' t = Some KYC_STANDARD \<and> (\<exists>i k. application i t = Some k \<and> ka_status k = KYC_APPROVED \<and> ka_targetTier k = TARGET_STANDARD)"
proof -
  let ?t = "fold (kyc_step (demo_kyc_env None)) demo_kyc_events (demo_kyc [])"
  let ?E = "demo_kyc_env None"
  obtain docs s1 where d: "take_documents ?E ''bob'' TARGET_STANDARD demo_files (demo_kyc []) = (Inr docs, s1)" "calls s1 = 4"
    using demo_documents [of None "demo_kyc []"] by (auto simp: demo_kyc_def)
  obtain n where "s1 = demo_kyc []\<lparr>calls := n\<rparr>" using calls_onlyD [OF calls_only_documents d(1)] by blast
  with d(2) have s1: "s1 = demo_kyc []\<lparr>calls := 4\<rparr>" by simp
  define k where "k = \<lparr>ka_userId = ''bob'', ka_targetTier = TARGET_STANDARD, ka_status = KYC_PENDING, ka_documents = docs,
    ka_rejectionReason = None, ka_reviewedBy = None, ka_reviewedAt = None, ka_submittedAt = Some 1, ka_createdAt = 1\<rparr>"
  define s2 where "s2 = demo_kyc [(''xxxx'', k)]\<lparr>calls := 5\<rparr>"
  have b: "findById ''bob'' (demo_kyc as) = Some (demo_user 500)" for as
    by (simp add: findById_def demo_kyc_def tbl_find_def)
  have "snd (applyForKyc ?E 1 ''bob'' TARGET_STANDARD demo_files (demo_kyc [])) = s2"
    using d(1) s1 b [of "[]"] by (simp add: applyForKyc_def existing_user_def bindE_def gets_def from_option_def ret_def require_def Let_def
        next_id_def modify_def s2_def k_def demo_user_def demo_kyc_def demo_kyc_env_def tbl_save_def numeral_eq_Suc)
  moreover obtain t where t: "approveKyc ?E 2 ''xxxx'' ''admin'' s2 = (Inr ''KYC approved successfully'', t)"
    "application ''xxxx'' t = Some (k\<lparr>ka_status := KYC_APPROVED, ka_reviewedBy := Some ''admin'', ka_reviewedAt := Some 2\<rparr>)"
    "tier_at ''bob'' t = Some KYC_STANDARD"
    using approveKyc_total [of "''xxxx''" s2 k ?E 2 "''admin''"] b [of "[(''xxxx'', k)]"]
    by (auto simp: s2_def application_def findById_def demo_kyc_def tbl_find_def k_def)
  ultimately have e: "t = fold (kyc_step ?E) demo_kyc_events (demo_kyc [])" by (simp add: demo_kyc_events_def)
  have "kyc_ids ?E (demo_kyc [])" by (simp add: kyc_ids_def application_def demo_kyc_def tbl_find_def)
  from conjunct1 [OF kyc_tier_earned [OF demo_kyc_inj this e], THEN spec, of "''bob''"]
  have "tier_at ''bob'' t = tier_at ''bob'' (demo_kyc []) \<or> (\<exists>i k. application i t = Some k \<and> ka_userId k = ''bob'' \<and>
    ka_status k = KYC_APPROVED \<and> tier_at ''bob'' t = Some (tier_of (ka_targetTier k)))" .
  moreover have "tier_at ''bob'' t \<noteq> tier_at ''bob'' (demo_kyc [])" using t(3) b [of "[]"] by (auto simp: tier_at_def demo_user_def)
  ultimately obtain i k' where "application i t = Some k'" "ka_status k' = KYC_APPROVED" "tier_of (ka_targetTier k') = KYC_STANDARD"
    using t(3) by auto
  moreover from this(3) have "ka_targetTier k' = TARGET_STANDARD" by (cases "ka_targetTier k'") simp_all
  ultimately show ?thesis using t(3) unfolding Let_def e [symmetric] by blast
qed

text \<open>A resubmission decides nothing about the tier: an application that was sent back takes the documents of either tier
  and keeps the tier it was made for, and approving it gives the user that tier, whatever the user's tier is by then. So two
  documents of the STANDARD tier, and no video, are enough for ENHANCED, and a late approval can lower a tier.\<close>

theorem kyc_resubmission_documents:
  assumes "application i s = Some k" and "ka_status k = RESUBMISSION_REQUIRED" and "ka_userId k = u" and "findById u s \<noteq> None"
    and "take_documents E u target files s = (Inr docs, s1)"
  shows "\<exists>s2 s3 k'. resubmitKyc E now i u target files s = (Inr (KYC_PENDING, ka_targetTier k), s2) \<and>
    approveKyc E now' i rv s2 = (Inr ''KYC approved successfully'', s3) \<and>
    application i s3 = Some k' \<and> ka_documents k' = docs \<and> ka_status k' = KYC_APPROVED \<and>
    tier_at u s3 = Some (tier_of (ka_targetTier k)) \<and> (target = TARGET_STANDARD \<longrightarrow> ''videoSelfie'' \<notin> set (map fst docs))"
proof -
  let ?k = "k\<lparr>ka_status := KYC_PENDING, ka_documents := docs, ka_rejectionReason := None, ka_reviewedBy := None,
    ka_reviewedAt := None, ka_submittedAt := Some now\<rparr>"
  let ?s = "s1\<lparr>kyc_applications := tbl_save i ?k (kyc_applications s1)\<rparr>"
  have r: "resubmitKyc E now i u target files s = (Inr (KYC_PENDING, ka_targetTier k), ?s)"
    using assms by (simp add: resubmitKyc_def transactionE_def bindE_def gets_def application_def from_option_def ret_def
        save_application_def modify_def Let_def)
  obtain n where "s1 = s\<lparr>calls := n\<rparr>" using calls_onlyD [OF calls_only_documents assms(5)] by blast
  then have "findById (ka_userId ?k) ?s \<noteq> None" using assms(3,4) by (simp add: findById_def)
  from approveKyc_total [of i ?s ?k E now' rv, OF _ _ this] obtain s3 where
    "approveKyc E now' i rv ?s = (Inr ''KYC approved successfully'', s3)"
    "application i s3 = Some (?k\<lparr>ka_status := KYC_APPROVED, ka_reviewedBy := Some rv, ka_reviewedAt := Some now'\<rparr>)"
    "tier_at u s3 = Some (tier_of (ka_targetTier k))" using assms(3) by (auto simp: application_def tbl_simps)
  moreover have "target = TARGET_STANDARD \<longrightarrow> ''videoSelfie'' \<notin> set (map fst docs)"
    using documents_of_target [OF assms(5)] by (auto split: if_splits)
  ultimately show ?thesis using r by (intro exI [of _ ?s] exI [of _ s3] exI) auto
qed

theorem kyc_resubmission_documents_witness:
  "\<exists>docs s2 s3 k'. resubmitKyc (demo_kyc_env None) 5 ''a'' ''bob'' TARGET_STANDARD demo_files (demo_kyc [(''a'', sent_back)]) =
      (Inr (KYC_PENDING, TARGET_ENHANCED), s2) \<and>
    approveKyc (demo_kyc_env None) 6 ''a'' ''admin'' s2 = (Inr ''KYC approved successfully'', s3) \<and>
    application ''a'' s3 = Some k' \<and> ka_documents k' = docs \<and> tier_at ''bob'' s3 = Some KYC_ENHANCED \<and>
    ''videoSelfie'' \<notin> set (map fst docs)"
proof -
  let ?s = "demo_kyc [(''a'', sent_back)]"
  have a: "application ''a'' ?s = Some sent_back" by (simp add: application_def demo_kyc_def tbl_find_def)
  have u: "findById ''bob'' ?s \<noteq> None" by (simp add: findById_def demo_kyc_def tbl_find_def)
  obtain docs s1 where "take_documents (demo_kyc_env None) ''bob'' TARGET_STANDARD demo_files ?s = (Inr docs, s1)"
    using demo_documents by blast
  from kyc_resubmission_documents [OF a _ _ u this, of 5 6 "''admin''"] show ?thesis
    by (auto simp: sent_back_def)
qed

text \<open>Screenings search for ids: no code writes the table of records that the screening reads the name from, and
  from a state without such records, after any requests, approvals and monthly jobs, every stored screening was made
  for the id of the user instead of a name.\<close>

theorem screenings_search_ids:
  assumes "kyc_records s = []" and "screenings s = []" and "t = fold (kyc_step E) es s"
    and "tbl_find i (screenings t) = Some sc"
  shows "kyc_records t = [] \<and> sc_fullName sc = sc_userId sc"
proof -
  have "id_screenings s" using assms(1,2) by (simp add: id_screenings_def tbl_find_def)
  with kyc_screen_run.inv_run [of s es E] assms(3) have "id_screenings t" by simp
  with assms(4) show ?thesis by (auto simp: id_screenings_def)
qed

theorem screenings_search_ids_witness:
  "\<exists>sc. tbl_find ''x'' (screenings (fold (kyc_step (demo_kyc_env (Some demo_sanctions_env))) [KycApprove 2 ''a'' ''admin'']
      (demo_kyc [(''a'', sent_back\<lparr>ka_status := KYC_PENDING\<rparr>)]))) = Some sc \<and> sc_fullName sc = sc_userId sc \<and> sc_userId sc = ''bob''"
proof -
  let ?E = "demo_kyc_env (Some demo_sanctions_env)" and ?s = "demo_kyc [(''a'', sent_back\<lparr>ka_status := KYC_PENDING\<rparr>)]"
  let ?t = "fold (kyc_step ?E) [KycApprove 2 ''a'' ''admin''] ?s"
  obtain v where b: "approve_body 2 ''a'' ''admin'' ?s = (Inr ''bob'', v)"
    using approve_body_total [of "''a''" ?s "sent_back\<lparr>ka_status := KYC_PENDING\<rparr>" 2 "''admin''"]
    by (auto simp: application_def demo_kyc_def tbl_find_def sent_back_def findById_def)
  from approve_body_Inr [OF b] have v: "screenings v = []" "calls v = 0" by (auto simp: demo_kyc_def)
  obtain r w where sc: "screenUser demo_sanctions_env 2 ''bob'' v = (r, w)" by fastforce
  from b sc screenUser_query [OF sc] have "?t = w"
    by (auto simp: approveKyc_def bindE_def transactionE_def ret_def tryE_def demo_kyc_env_def)
  with screenUser_query [OF sc] v obtain sc1 where w: "tbl_find ''x'' (screenings ?t) = Some sc1" "sc_userId sc1 = ''bob''"
    by (auto simp: tbl_simps demo_sanctions_env_def)
  from screenings_search_ids [OF _ _ refl w(1)] w show ?thesis by (auto simp: demo_kyc_def)
qed

end
