(* ===== verification/Decimals.thy ===== *)
theory Decimals
  imports JsNumber
begin

text \<open>
  The arithmetic of the package \<open>decimal.js\<close> as the services use it: the result of every operation is rounded to twenty
  significant digits, halves away from zero. Sums and differences of amounts that a decimal column holds are exact.
\<close>

section \<open>Decimal numbers\<close>

definition decimal_round :: "rat \<Rightarrow> rat" where
  "decimal_round x =
     (if x = 0 then 0
      else let q = 10 powi (19 - ilog10 \<bar>x\<bar>) in sgn x * (of_int \<lfloor>\<bar>x\<bar> * q + 1 / 2\<rfloor> / q))"

definition decimal_plus :: "rat \<Rightarrow> rat \<Rightarrow> rat" where
  "decimal_plus a b = decimal_round (a + b)"

definition decimal_minus :: "rat \<Rightarrow> rat \<Rightarrow> rat" where
  "decimal_minus a b = decimal_round (a - b)"

definition decimal_times :: "rat \<Rightarrow> rat \<Rightarrow> rat" where
  "decimal_times a b = decimal_round (a * b)"

definition decimal_div :: "rat \<Rightarrow> rat \<Rightarrow> rat" where
  "decimal_div a b = decimal_round (a / b)"

text \<open>What a column \<open>numeric(20, 8)\<close> can hold; the database refuses other values.\<close>

definition fits_column :: "rat \<Rightarrow> bool" where
  "fits_column x \<longleftrightarrow> \<bar>x\<bar> < 10 ^ 12"

section \<open>Exact sums\<close>

lemma ilog10_small:
  assumes "0 < x" and "x < 10 ^ Suc n"
  shows "ilog10 x \<le> int n"
proof (cases "1 \<le> x")
  case True
  let ?m = "nat \<lfloor>x\<rfloor>"
  have m: "0 < ?m" "?m < 10 ^ Suc n" using True assms(2) by (simp_all add: nat_less_iff floor_less_iff)
  from log10n_bounds [OF m(1)] m(2) have "10 ^ log10n ?m < (10 :: nat) ^ Suc n" by linarith
  then have "log10n ?m < Suc n" by (rule power_less_imp_less_exp [rotated]) simp
  with True show ?thesis by (simp add: ilog10_def)
qed (simp add: ilog10_def)

lemma scale_int:
  assumes "int k \<le> 19 - ilog10 y"
  shows "\<exists>m. (10 :: rat) powi (19 - ilog10 y) = of_int (10 ^ k * m)"
proof
  have "19 - ilog10 y = int (nat (19 - ilog10 y))" "k \<le> nat (19 - ilog10 y)" using assms by auto
  then have "(10 :: rat) powi (19 - ilog10 y) = 10 ^ nat (19 - ilog10 y)" by (metis power_int_of_nat)
  also have "\<dots> = 10 ^ (k + (nat (19 - ilog10 y) - k))" using \<open>k \<le> nat (19 - ilog10 y)\<close> by simp
  finally show "(10 :: rat) powi (19 - ilog10 y) = of_int (10 ^ k * 10 ^ (nat (19 - ilog10 y) - k))" by (simp add: power_add)
qed

lemma floor_half_int: "\<lfloor>(of_int n :: rat) + 1 / 2\<rfloor> = n"
  by linarith

lemma decimal_round_exact:
  assumes "is_dec 8 x" and "0 \<le> x" and "x < 10 ^ 12"
  shows "decimal_round x = x"
proof (cases "x = 0")
  case False
  then have "ilog10 x \<le> 11" using assms ilog10_small [of x 11] by simp
  then obtain m where m: "(10 :: rat) powi (19 - ilog10 x) = of_int (10 ^ 8 * m)" using scale_int [of 8 x] by auto
  obtain n where "x = of_int n / 10 ^ 8" using assms(1) by (auto simp: is_dec_iff)
  define q :: rat where "q = 10 powi (19 - ilog10 x)"
  then have "q = 10 ^ 8 * of_int m" by (simp add: m)
  with \<open>x = of_int n / 10 ^ 8\<close> have "x * q = of_int n / 10 ^ 8 * (10 ^ 8 * of_int m)" by (simp only:)
  then have q: "q \<noteq> 0" "x * q = of_int (n * m)" by (simp_all add: q_def)
  have "decimal_round x = of_int \<lfloor>x * q + 1 / 2\<rfloor> / q"
    using False assms(2) by (simp add: decimal_round_def Let_def q_def)
  also have "\<dots> = x * q / q" by (simp only: q(2) floor_half_int)
  finally show ?thesis using q(1) by simp
qed (simp add: decimal_round_def)

lemma decimal_round_large:
  assumes "10 ^ 12 \<le> x" and "x < 10 ^ 13"
  shows "10 ^ 12 \<le> decimal_round x"
proof -
  have x: "0 < x" using assms(1) by (simp add: order_less_le_trans [of _ "10 ^ 12"])
  have "ilog10 x \<le> 12" using ilog10_small [of x 12] x assms(2) by simp
  then obtain m where m: "(10 :: rat) powi (19 - ilog10 x) = of_int (10 ^ 7 * m)" using scale_int [of 7 x] by auto
  have q: "(0 :: rat) < 10 powi (19 - ilog10 x)" by simp
  have "10 ^ 12 * 10 powi (19 - ilog10 x) \<le> x * 10 powi (19 - ilog10 x)" using assms(1) q by (simp add: mult_right_mono)
  then have "of_int (10 ^ 12 * (10 ^ 7 * m)) \<le> x * 10 powi (19 - ilog10 x)" by (simp add: m)
  then have "10 ^ 12 * (10 ^ 7 * m) \<le> \<lfloor>x * 10 powi (19 - ilog10 x) + 1 / 2\<rfloor>" by linarith
  then have "(of_int (10 ^ 12 * (10 ^ 7 * m)) :: rat) \<le> of_int \<lfloor>x * 10 powi (19 - ilog10 x) + 1 / 2\<rfloor>" by (simp only: of_int_le_iff)
  then have "10 ^ 12 * 10 powi (19 - ilog10 x) \<le> (of_int \<lfloor>x * 10 powi (19 - ilog10 x) + 1 / 2\<rfloor> :: rat)" by (simp add: m)
  with q x show ?thesis by (simp add: decimal_round_def Let_def pos_le_divide_eq)
qed

text \<open>A sum that the column holds is exact.\<close>

lemma decimal_plus_exact:
  assumes "is_dec 8 a" "is_dec 8 b" "0 \<le> a" "0 \<le> b" "fits_column a" "fits_column b"
    and "fits_column (to_fixed 8 (decimal_plus a b))"
  shows "to_fixed 8 (decimal_plus a b) = a + b"
proof -
  have d: "is_dec 8 (a + b)" using assms(1,2) by (rule is_dec_add)
  show ?thesis
  proof (cases "a + b < 10 ^ 12")
    case True
    with d assms(3,4) show ?thesis by (simp add: decimal_plus_def decimal_round_exact)
  next
    case False
    then have "10 ^ 12 \<le> decimal_plus a b"
      using assms(3-6) decimal_round_large [of "a + b"] by (simp add: decimal_plus_def fits_column_def)
    moreover have "is_dec 8 (10 ^ 12)" using is_dec_int [of 8 "10 ^ 12"] by simp
    ultimately have "10 ^ 12 \<le> to_fixed 8 (decimal_plus a b)"
      using to_fixed_mono [of "10 ^ 12" "decimal_plus a b" 8] by simp
    with assms(7) show ?thesis by (simp add: fits_column_def)
  qed
qed

lemma decimal_minus_exact:
  assumes "is_dec 8 a" "is_dec 8 b" "0 \<le> b" "b \<le> a" "fits_column a"
  shows "decimal_minus a b = a - b"
  using assms by (simp add: decimal_minus_def decimal_round_exact is_dec_diff fits_column_def)

end
