(* ===== verification/Fiat.thy ===== *)
theory Fiat
  imports Sanctions Decimals
begin

text \<open>
  Payments from and to bank accounts (\<open>modules/fiat\<close>). The payment provider Flutterwave is reached over the network:
  the answer to the n-th call, the keyed hash and the text of a payload are parameters. The rows of the table of wallets are
  seen through the columns this module uses. A transfer that the provider accepted is recorded, because it happens
  whether or not the rows are written afterwards.
\<close>

section \<open>Data\<close>

datatype deposit_status = DEPOSIT_PENDING | DEPOSIT_COMPLETED | DEPOSIT_FAILED | DEPOSIT_EXPIRED

datatype withdrawal_status = WITHDRAWAL_PENDING | WITHDRAWAL_PROCESSING | WITHDRAWAL_COMPLETED | WITHDRAWAL_FAILED

record fiat_deposit =
  fd_userId :: string
  fd_reference :: string
  fd_amount :: rat
  fd_currency :: string
  fd_status :: deposit_status
  fd_providerReference :: "string option"
  fd_paymentLink :: "string option"
  fd_expiresAt :: "int option"
  fd_walletCreditedAt :: "int option"
  fd_failureReason :: "string option"
  fd_createdAt :: int

record fiat_withdrawal =
  fx_userId :: string
  fx_reference :: string
  fx_amount :: rat
  fx_currency :: string
  fx_bankCode :: string
  fx_accountNumber :: string
  fx_accountName :: string
  fx_status :: withdrawal_status
  fx_providerReference :: "string option"
  fx_failureReason :: "string option"
  fx_processedAt :: "int option"
  fx_createdAt :: int

record fiat_wallet =
  fw_userId :: string
  fw_currency :: string
  fw_balance :: rat

record webhook_data =
  wd_tx_ref :: "string option"
  wd_reference :: "string option"
  wd_status :: "string option"
  wd_flw_ref :: "string option"
  wd_id :: "string option"
  wd_processor_response :: "string option"

record webhook_payload =
  wp_event :: "string option"
  wp_data :: "webhook_data option"

record flutterwave_answer =
  fa_status :: string
  fa_link :: string
  fa_account_name :: string

record fiat_transfer =
  ft_reference :: string
  ft_amount :: rat
  ft_currency :: string
  ft_bankCode :: string
  ft_accountNumber :: string

record fiat_state = sanctions_state +
  fiat_wallets :: "fiat_wallet table"
  deposits :: "fiat_deposit table"
  withdrawals :: "fiat_withdrawal table"
  transfers :: "fiat_transfer list"

record fiat_env =
  fi_uuid :: "nat \<Rightarrow> string"
  fi_axios :: "nat \<Rightarrow> exn + flutterwave_answer"
  fi_secret :: "string option"
  fi_hmac :: "string \<Rightarrow> string \<Rightarrow> string"
  fi_json :: "webhook_payload \<Rightarrow> string"

section \<open>The provider\<close>

definition axios :: "fiat_env \<Rightarrow> ('a chain_scheme, flutterwave_answer) op" where
  "axios E = bindE (gets calls) (\<lambda>n. bindE (modify (\<lambda>s. s\<lparr>calls := Suc n\<rparr>)) (\<lambda>_. from_sum (fi_axios E n)))"

definition provider_initiateDeposit :: "fiat_env \<Rightarrow> int \<Rightarrow> string \<Rightarrow> rat \<Rightarrow> string \<Rightarrow> ('a chain_scheme, string \<times> string \<times> int) op" where
  "provider_initiateDeposit E now userId amount currency =
     bindE (next_id (fi_uuid E)) (\<lambda>i.
     let reference = ''FIAT_DEP_'' @ i; expiresAt = now + 24 * 3600000 in
     bindE (axios E) (\<lambda>response.
     bindE (require (fa_status response = ''success'') (PlainError ''Flutterwave deposit initiation failed: ${response.data.message}'')) (\<lambda>_.
     ret (reference, fa_link response, expiresAt))))"

definition provider_initiateWithdrawal ::
    "fiat_env \<Rightarrow> int \<Rightarrow> rat \<Rightarrow> string \<Rightarrow> string \<Rightarrow> string \<Rightarrow> ('a fiat_state_scheme, string \<times> int) op" where
  "provider_initiateWithdrawal E now amount currency bankCode accountNumber =
     bindE (next_id (fi_uuid E)) (\<lambda>i.
     let reference = ''FIAT_WD_'' @ i; estimatedArrival = now + 24 * 3600000 in
     bindE (axios E) (\<lambda>response.
     bindE (require (fa_status response = ''success'') (PlainError ''Flutterwave withdrawal initiation failed: ${response.data.message}'')) (\<lambda>_.
     bindE (modify (\<lambda>s. s\<lparr>transfers := transfers s @ [\<lparr>ft_reference = reference, ft_amount = amount, ft_currency = currency,
       ft_bankCode = bankCode, ft_accountNumber = accountNumber\<rparr>]\<rparr>)) (\<lambda>_.
     ret (reference, estimatedArrival)))))"

definition provider_verifyBankAccount :: "fiat_env \<Rightarrow> string \<Rightarrow> string \<Rightarrow> ('a chain_scheme, string) op" where
  "provider_verifyBankAccount E bankCode accountNumber =
     bindE (axios E) (\<lambda>response.
     bindE (require (fa_status response = ''success'') (PlainError ''Bank account verification failed: ${response.data.message}'')) (\<lambda>_.
     ret (fa_account_name response)))"

definition verifyWebhookSignature :: "fiat_env \<Rightarrow> webhook_payload \<Rightarrow> string option \<Rightarrow> string option \<Rightarrow> bool" where
  "verifyWebhookSignature E payload signature secret =
     (if \<not> truthy signature \<or> \<not> truthy secret then False
      else fi_hmac E (the secret) (fi_json E payload) = the signature)"

section \<open>Deposits\<close>

definition fiat_rollback :: "'a fiat_state_scheme \<Rightarrow> 'a fiat_state_scheme \<Rightarrow> 'a fiat_state_scheme" where
  "fiat_rollback s t = t\<lparr>fiat_wallets := fiat_wallets s, deposits := deposits s, withdrawals := withdrawals s\<rparr>"

definition initiateDeposit :: "fiat_env \<Rightarrow> int \<Rightarrow> string \<Rightarrow> rat \<Rightarrow> string \<Rightarrow> ('a fiat_state_scheme, fiat_deposit) op" where
  "initiateDeposit E now userId amount currency =
     transactionE fiat_rollback (
       bindE (existing_user userId) (\<lambda>user.
       bindE (provider_initiateDeposit E now userId amount currency) (\<lambda>(reference, paymentLink, expiresAt).
       bindE (next_id (fi_uuid E)) (\<lambda>i.
       let deposit = \<lparr>fd_userId = userId, fd_reference = reference, fd_amount = to_fixed 8 amount, fd_currency = currency,
             fd_status = DEPOSIT_PENDING, fd_providerReference = None, fd_paymentLink = Some paymentLink,
             fd_expiresAt = Some expiresAt, fd_walletCreditedAt = None, fd_failureReason = None, fd_createdAt = now\<rparr>
       in
       bindE (require (fits_column (fd_amount deposit)) (PlainError ''numeric field overflow'')) (\<lambda>_.
       bindE (modify (\<lambda>s. s\<lparr>deposits := tbl_save i deposit (deposits s)\<rparr>)) (\<lambda>_. ret deposit))))))"

definition getDeposits :: "string \<Rightarrow> ('a fiat_state_scheme, (string \<times> fiat_deposit) list) op" where
  "getDeposits userId =
     gets (\<lambda>s. sort_key (\<lambda>(i, d). - fd_createdAt d) (filter (\<lambda>(i, d). fd_userId d = userId) (deposits s)))"

definition wallet_of :: "string \<Rightarrow> string \<Rightarrow> 'a fiat_state_scheme \<Rightarrow> (string \<times> fiat_wallet) option" where
  "wallet_of userId currency s = List.find (\<lambda>(i, w). fw_userId w = userId \<and> fw_currency w = currency) (fiat_wallets s)"

definition save_wallet :: "string \<Rightarrow> fiat_wallet \<Rightarrow> rat \<Rightarrow> ('a fiat_state_scheme, unit) op" where
  "save_wallet i w balance =
     bindE (require (fits_column (to_fixed 8 balance)) (PlainError ''numeric field overflow'')) (\<lambda>_.
     modify (\<lambda>s. s\<lparr>fiat_wallets := tbl_save i (w\<lparr>fw_balance := to_fixed 8 balance\<rparr>) (fiat_wallets s)\<rparr>))"

text \<open>Adding to the wallet of a user in a currency, when there is one.\<close>

definition credit_wallet :: "string \<Rightarrow> string \<Rightarrow> rat \<Rightarrow> ('a fiat_state_scheme, unit) op" where
  "credit_wallet userId currency amount =
     bindE (gets (wallet_of userId currency)) (\<lambda>wallet.
     case wallet of
       None \<Rightarrow> ret ()
     | Some (i, w) \<Rightarrow> save_wallet i w (decimal_plus (fw_balance w) amount))"

definition deposit_by :: "string \<Rightarrow> 'a fiat_state_scheme \<Rightarrow> (string \<times> fiat_deposit) option" where
  "deposit_by reference s = List.find (\<lambda>(i, d). fd_reference d = reference) (deposits s)"

definition save_deposit :: "string \<Rightarrow> fiat_deposit \<Rightarrow> ('a fiat_state_scheme, unit) op" where
  "save_deposit i d = modify (\<lambda>s. s\<lparr>deposits := tbl_save i d (deposits s)\<rparr>)"

definition str_or :: "string option \<Rightarrow> string option \<Rightarrow> string option" where
  "str_or a b = (if truthy a then a else b)"

definition settle_deposit :: "int \<Rightarrow> string option \<Rightarrow> webhook_data \<Rightarrow> string \<Rightarrow> ('a fiat_state_scheme, bool \<times> string) op" where
  "settle_deposit now eventType data reference =
     transactionE fiat_rollback (
       bindE (gets (deposit_by reference)) (\<lambda>found.
       bindE (from_option (NotFoundException ''Deposit not found'') found) (\<lambda>(i, deposit).
       bindE (if eventType = Some ''payment.completed'' \<or> wd_status data = Some ''successful'' then
           bindE (credit_wallet (fd_userId deposit) (fd_currency deposit) (fd_amount deposit)) (\<lambda>_.
           bindE (save_deposit i (deposit\<lparr>fd_status := DEPOSIT_COMPLETED, fd_walletCreditedAt := Some now,
             fd_providerReference := str_or (wd_flw_ref data) (wd_id data)\<rparr>)) (\<lambda>_.
           modify (notify (fd_userId deposit) ''Deposit Completed''
             ''Your deposit of ${deposit.amount} ${deposit.currency} has been credited to your wallet.'')))
         else if wd_status data = Some ''failed'' \<or> eventType = Some ''payment.failed'' then
           bindE (save_deposit i (deposit\<lparr>fd_status := DEPOSIT_FAILED,
             fd_failureReason := str_or (wd_processor_response data) (Some ''Payment failed'')\<rparr>)) (\<lambda>_.
           modify (notify (fd_userId deposit) ''Deposit Failed''
             ''Your deposit of ${deposit.amount} ${deposit.currency} failed. ${deposit.failureReason}''))
         else ret ()) (\<lambda>_.
       ret (True, ''Webhook processed'')))))"

definition processDepositWebhook ::
    "fiat_env \<Rightarrow> int \<Rightarrow> webhook_payload \<Rightarrow> string option \<Rightarrow> ('a fiat_state_scheme, bool \<times> string) op" where
  "processDepositWebhook E now payload signature =
     bindE (require (verifyWebhookSignature E payload signature (fi_secret E)) (ForbiddenException ''Invalid webhook signature'')) (\<lambda>_.
     bindE (from_option (PlainError ''TypeError: Cannot read properties of undefined'') (wp_data payload)) (\<lambda>data.
     let reference = str_or (wd_tx_ref data) (wd_reference data) in
     if \<not> truthy reference then ret (False, ''Missing reference'')
     else
       bindE (gets (deposit_by (the reference))) (\<lambda>existing.
       case existing of
         None \<Rightarrow> ret (False, ''Deposit not found'')
       | Some (i, d) \<Rightarrow>
           if fd_status d = DEPOSIT_COMPLETED then ret (True, ''Already processed'')
           else settle_deposit now (wp_event payload) data (the reference))))"

section \<open>Withdrawals\<close>

definition initiateWithdrawal ::
    "fiat_env \<Rightarrow> int \<Rightarrow> string \<Rightarrow> rat \<Rightarrow> string \<Rightarrow> string \<Rightarrow> string \<Rightarrow> ('a fiat_state_scheme, fiat_withdrawal \<times> int) op" where
  "initiateWithdrawal E now userId amount currency bankCode accountNumber =
     transactionE fiat_rollback (
       bindE (existing_user userId) (\<lambda>user.
       bindE (gets (latest_record userId)) (\<lambda>latestKyc.
       bindE (require (case latestKyc of None \<Rightarrow> False | Some k \<Rightarrow> kr_approved k)
         (ForbiddenException ''KYC approval required for withdrawals'')) (\<lambda>_.
       bindE (gets (wallet_of userId currency)) (\<lambda>found.
       bindE (from_option (NotFoundException ''Wallet not found for this currency'') found) (\<lambda>(wi, wallet).
       let withdrawalAmount = num_to_string amount in
       bindE (require (\<not> fw_balance wallet < withdrawalAmount) (BadRequestException ''Insufficient wallet balance'')) (\<lambda>_.
       bindE (provider_verifyBankAccount E bankCode accountNumber) (\<lambda>accountName.
       bindE (provider_initiateWithdrawal E now amount currency bankCode accountNumber) (\<lambda>(reference, estimatedArrival).
       bindE (next_id (fi_uuid E)) (\<lambda>i.
       let withdrawal = \<lparr>fx_userId = userId, fx_reference = reference, fx_amount = to_fixed 8 amount, fx_currency = currency,
             fx_bankCode = bankCode, fx_accountNumber = accountNumber, fx_accountName = accountName,
             fx_status = WITHDRAWAL_PROCESSING, fx_providerReference = Some reference, fx_failureReason = None,
             fx_processedAt = None, fx_createdAt = now\<rparr>
       in
       bindE (require (fits_column (fx_amount withdrawal)) (PlainError ''numeric field overflow'')) (\<lambda>_.
       bindE (modify (\<lambda>s. s\<lparr>withdrawals := tbl_save i withdrawal (withdrawals s)\<rparr>)) (\<lambda>_.
       bindE (save_wallet wi wallet (decimal_minus (fw_balance wallet) withdrawalAmount)) (\<lambda>_.
       ret (withdrawal, estimatedArrival))))))))))))))"

definition getWithdrawals :: "string \<Rightarrow> ('a fiat_state_scheme, (string \<times> fiat_withdrawal) list) op" where
  "getWithdrawals userId =
     gets (\<lambda>s. sort_key (\<lambda>(i, d). - fx_createdAt d) (filter (\<lambda>(i, d). fx_userId d = userId) (withdrawals s)))"

definition verifyBankAccount :: "fiat_env \<Rightarrow> string \<Rightarrow> string \<Rightarrow> ('a chain_scheme, string) op" where
  "verifyBankAccount E bankCode accountNumber = provider_verifyBankAccount E bankCode accountNumber"

definition withdrawal_by :: "string \<Rightarrow> 'a fiat_state_scheme \<Rightarrow> (string \<times> fiat_withdrawal) option" where
  "withdrawal_by reference s = List.find (\<lambda>(i, d). fx_reference d = reference) (withdrawals s)"

definition save_withdrawal :: "string \<Rightarrow> fiat_withdrawal \<Rightarrow> ('a fiat_state_scheme, unit) op" where
  "save_withdrawal i d = modify (\<lambda>s. s\<lparr>withdrawals := tbl_save i d (withdrawals s)\<rparr>)"

definition settle_withdrawal :: "int \<Rightarrow> string option \<Rightarrow> webhook_data \<Rightarrow> string \<Rightarrow> ('a fiat_state_scheme, bool \<times> string) op" where
  "settle_withdrawal now eventType data reference =
     transactionE fiat_rollback (
       bindE (gets (withdrawal_by reference)) (\<lambda>found.
       bindE (from_option (NotFoundException ''Withdrawal not found'') found) (\<lambda>(i, withdrawal).
       bindE (if eventType = Some ''transfer.completed'' \<or> wd_status data = Some ''successful'' then
           bindE (save_withdrawal i (withdrawal\<lparr>fx_status := WITHDRAWAL_COMPLETED, fx_processedAt := Some now\<rparr>)) (\<lambda>_.
           modify (notify (fx_userId withdrawal) ''Withdrawal Completed''
             ''Your withdrawal of ${withdrawal.amount} ${withdrawal.currency} has been successfully sent to your bank account.''))
         else if wd_status data = Some ''failed'' \<or> eventType = Some ''transfer.failed'' then
           bindE (save_withdrawal i (withdrawal\<lparr>fx_status := WITHDRAWAL_FAILED,
             fx_failureReason := str_or (wd_processor_response data) (Some ''Transfer failed''), fx_processedAt := Some now\<rparr>)) (\<lambda>_.
           bindE (credit_wallet (fx_userId withdrawal) (fx_currency withdrawal) (fx_amount withdrawal)) (\<lambda>_.
           modify (notify (fx_userId withdrawal) ''Withdrawal Failed''
             ''Your withdrawal failed. The amount has been refunded to your wallet. ${withdrawal.failureReason}'')))
         else ret ()) (\<lambda>_.
       ret (True, ''Webhook processed'')))))"

definition processWithdrawalWebhook ::
    "fiat_env \<Rightarrow> int \<Rightarrow> webhook_payload \<Rightarrow> string option \<Rightarrow> ('a fiat_state_scheme, bool \<times> string) op" where
  "processWithdrawalWebhook E now payload signature =
     bindE (require (verifyWebhookSignature E payload signature (fi_secret E)) (ForbiddenException ''Invalid webhook signature'')) (\<lambda>_.
     bindE (from_option (PlainError ''TypeError: Cannot read properties of undefined'') (wp_data payload)) (\<lambda>data.
     if \<not> truthy (wd_reference data) then ret (False, ''Missing reference'')
     else
       bindE (gets (withdrawal_by (the (wd_reference data)))) (\<lambda>existing.
       case existing of
         None \<Rightarrow> ret (False, ''Withdrawal not found'')
       | Some (i, d) \<Rightarrow>
           if fx_status d = WITHDRAWAL_COMPLETED then ret (True, ''Already processed'')
           else settle_withdrawal now (wp_event payload) data (the (wd_reference data)))))"

section \<open>The endpoint of the provider\<close>

definition starts_with :: "string \<Rightarrow> string option \<Rightarrow> bool" where
  "starts_with p x = (case x of None \<Rightarrow> False | Some t \<Rightarrow> take (length p) t = p)"

definition handleWebhook ::
    "fiat_env \<Rightarrow> int \<Rightarrow> webhook_payload \<Rightarrow> string option \<Rightarrow> ('a fiat_state_scheme, bool \<times> string) op" where
  "handleWebhook E now payload signature =
     (let event = wp_event payload; data = wp_data payload in
      if (case event of None \<Rightarrow> False | Some e \<Rightarrow> has_substring ''payment'' e) \<or>
         starts_with ''FIAT_DEP_'' (Option.bind data wd_tx_ref)
      then processDepositWebhook E now payload signature
      else if (case event of None \<Rightarrow> False | Some e \<Rightarrow> has_substring ''transfer'' e) \<or>
         starts_with ''FIAT_WD_'' (Option.bind data wd_reference)
      then processWithdrawalWebhook E now payload signature
      else ret (False, ''Unknown event type''))"

section \<open>What the operations keep\<close>

definition wallet_key :: "fiat_wallet \<Rightarrow> string \<times> string" where
  "wallet_key w = (fw_userId w, fw_currency w)"

definition wallet_good :: "fiat_wallet \<Rightarrow> bool" where
  "wallet_good w \<longleftrightarrow> is_dec 8 (fw_balance w) \<and> 0 \<le> fw_balance w \<and> fits_column (fw_balance w)"

definition deposit_good :: "fiat_env \<Rightarrow> nat \<Rightarrow> string \<times> fiat_deposit \<Rightarrow> bool" where
  "deposit_good E n p \<longleftrightarrow> is_dec 8 (fd_amount (snd p)) \<and> 0 \<le> fd_amount (snd p) \<and> fits_column (fd_amount (snd p)) \<and>
     (\<exists>m<n. fst p = fi_uuid E m) \<and> (\<exists>m<n. fd_reference (snd p) = ''FIAT_DEP_'' @ fi_uuid E m)"

definition fiat_ok :: "fiat_env \<Rightarrow> 'a fiat_state_scheme \<Rightarrow> bool" where
  "fiat_ok E s \<longleftrightarrow> inj (fi_uuid E) \<and> withdrawals s = [] \<and>
     distinct (map fst (fiat_wallets s)) \<and> distinct (map (wallet_key \<circ> snd) (fiat_wallets s)) \<and>
     (\<forall>p\<in>set (fiat_wallets s). wallet_good (snd p)) \<and>
     distinct (map fst (deposits s)) \<and> distinct (map (fd_reference \<circ> snd) (deposits s)) \<and>
     (\<forall>p\<in>set (deposits s). deposit_good E (calls s) p)"

lemma deposit_good_mono: "deposit_good E n p \<Longrightarrow> n \<le> m \<Longrightarrow> deposit_good E m p"
  unfolding deposit_good_def by (meson order_less_le_trans)

lemma wallet_of_key: "wallet_of u c s = List.find (\<lambda>(i, w). wallet_key w = (u, c)) (fiat_wallets s)"
  by (simp add: wallet_of_def wallet_key_def)

definition fiat_balance :: "string \<Rightarrow> string \<Rightarrow> 'a fiat_state_scheme \<Rightarrow> rat" where
  "fiat_balance u c s = (case wallet_of u c s of None \<Rightarrow> 0 | Some (i, w) \<Rightarrow> fw_balance w)"

text \<open>The sum of the completed deposits of a user in a currency.\<close>

definition completed_amount :: "string \<Rightarrow> string \<Rightarrow> fiat_deposit \<Rightarrow> rat" where
  "completed_amount u c d = (if fd_userId d = u \<and> fd_currency d = c \<and> fd_status d = DEPOSIT_COMPLETED then fd_amount d else 0)"

definition completed :: "string \<Rightarrow> string \<Rightarrow> 'a fiat_state_scheme \<Rightarrow> rat" where
  "completed u c s = sum_list (map (completed_amount u c \<circ> snd) (deposits s))"

lemma sum_tbl_save:
  fixes f :: "'v \<Rightarrow> 'n :: ab_group_add"
  assumes "distinct (map fst t)" and "(i, v) \<in> set t"
  shows "sum_list (map (f \<circ> snd) (tbl_save i v' t)) = sum_list (map (f \<circ> snd) t) + f v' - f v"
  using assms by (induction t) (auto simp: tbl_save_def image_iff)

text \<open>Two states with the same wallets, and how much the wallets have grown beside the completed deposits.\<close>

definition accounted_for :: "'a fiat_state_scheme \<Rightarrow> 'a fiat_state_scheme \<Rightarrow> bool" where
  "accounted_for s t \<longleftrightarrow> (\<forall>u c. (wallet_of u c t = None \<longleftrightarrow> wallet_of u c s = None) \<and>
     (wallet_of u c s \<noteq> None \<longrightarrow> fiat_balance u c t - completed u c t = fiat_balance u c s - completed u c s))"

lemma accounted_refl: "fiat_wallets t = fiat_wallets s \<Longrightarrow> deposits t = deposits s \<Longrightarrow> accounted_for s t"
  by (simp add: accounted_for_def fiat_balance_def completed_def wallet_of_def)

lemma accounted_trans: "accounted_for s t \<Longrightarrow> accounted_for t u \<Longrightarrow> accounted_for s u"
  by (simp add: accounted_for_def)

lemma fiat_ok_calls:
  assumes "fiat_ok E s" and "fiat_wallets t = fiat_wallets s" and "deposits t = deposits s" and "withdrawals t = withdrawals s"
    and "calls s \<le> calls t"
  shows "fiat_ok E t"
  using assms unfolding fiat_ok_def deposit_good_def by (auto dest!: bspec intro: order_less_le_trans)

lemma credit_wallet_Inr:
  assumes ok: "fiat_ok E s" and c: "credit_wallet u c a s = (Inr x, t)" and a: "is_dec 8 a" "0 \<le> a" "fits_column a"
  shows "\<exists>ws. t = s\<lparr>fiat_wallets := ws\<rparr> \<and> fiat_ok E t \<and>
    (\<forall>v d. (wallet_of v d t = None \<longleftrightarrow> wallet_of v d s = None) \<and>
      fiat_balance v d t = fiat_balance v d s + (if (v, d) = (u, c) \<and> wallet_of u c s \<noteq> None then a else 0))"
proof (cases "wallet_of u c s")
  case None
  with c have "t = s" by (simp add: credit_wallet_def bindE_def gets_def ret_def)
  with ok None show ?thesis by (intro exI [of _ "fiat_wallets s"]) auto
next
  case (Some p)
  then obtain i w where w: "wallet_of u c s = Some (i, w)" by (cases p) simp
  then have in_set: "(i, w) \<in> set (fiat_wallets s)" "wallet_key w = (u, c)" by (auto simp: wallet_of_key dest: find_SomeD)
  let ?b = "to_fixed 8 (decimal_plus (fw_balance w) a)"
  let ?ws = "tbl_save i (w\<lparr>fw_balance := ?b\<rparr>) (fiat_wallets s)"
  from c w have t: "t = s\<lparr>fiat_wallets := ?ws\<rparr>" and fit: "fits_column ?b"
    by (auto simp: credit_wallet_def save_wallet_def op_iff split: option.splits)
  have good: "wallet_good w" using ok in_set(1) by (auto simp: fiat_ok_def)
  with fit a have b: "?b = fw_balance w + a" by (intro decimal_plus_exact) (auto simp: wallet_good_def)
  have k: "wallet_key (w\<lparr>fw_balance := ?b\<rparr>) = wallet_key w" by (simp add: wallet_key_def)
  have d: "distinct (map fst (fiat_wallets s))" "distinct (map (wallet_key \<circ> snd) (fiat_wallets s))" using ok by (simp_all add: fiat_ok_def)
  note keys = keys_update [of "fiat_wallets s" i w wallet_key, OF d(1) in_set(1) k]
  have "is_dec 8 (fw_balance w + a)" using is_dec_to_fixed(1) [of 8 "decimal_plus (fw_balance w) a"] by (simp only: b)
  then have "wallet_good (w\<lparr>fw_balance := ?b\<rparr>)" using good fit a unfolding wallet_good_def by (simp add: b)
  then have "fiat_ok E t" using ok keys set_tbl_save [of i "w\<lparr>fw_balance := ?b\<rparr>" "fiat_wallets s"]
    by (auto simp: fiat_ok_def t)
  moreover have "wallet_of v e t = (if (v, e) = (u, c) then Some (i, w\<lparr>fw_balance := ?b\<rparr>) else wallet_of v e s)" for v e
    using find_update [OF d in_set(1) k, of "(v, e)"] in_set(2) by (simp add: wallet_of_key t k)
  ultimately show ?thesis using w b by (auto simp: t fiat_balance_def)
qed

lemma credit_wallet_Inl: "credit_wallet u c a s = (Inl e, t) \<Longrightarrow> t = s"
  by (auto simp: credit_wallet_def save_wallet_def op_iff split: option.splits)

lemma rollback_same:
  "fiat_wallets (fiat_rollback s t) = fiat_wallets s" "deposits (fiat_rollback s t) = deposits s"
  "withdrawals (fiat_rollback s t) = withdrawals s" "calls (fiat_rollback s t) = calls t"
  by (simp_all add: fiat_rollback_def)

lemma save_deposit_ok:
  assumes ok: "fiat_ok E s" and d: "(i, d) \<in> set (deposits s)"
    and same: "fd_reference d' = fd_reference d" "fd_amount d' = fd_amount d" "fd_userId d' = fd_userId d" "fd_currency d' = fd_currency d"
  shows "fiat_ok E (s\<lparr>deposits := tbl_save i d' (deposits s)\<rparr>)"
    and "completed u c (s\<lparr>deposits := tbl_save i d' (deposits s)\<rparr>) =
      completed u c s + completed_amount u c d' - completed_amount u c d"
proof -
  have dist: "distinct (map fst (deposits s))" using ok by (simp add: fiat_ok_def)
  note keys = keys_update [of "deposits s" i d fd_reference, OF dist d same(1)]
  have "deposit_good E (calls s) (i, d)" using ok d by (auto simp: fiat_ok_def)
  then have "deposit_good E (calls s) (i, d')" using same by (simp add: deposit_good_def)
  then show "fiat_ok E (s\<lparr>deposits := tbl_save i d' (deposits s)\<rparr>)"
    using ok keys set_tbl_save [of i d' "deposits s"] by (auto simp: fiat_ok_def)
  show "completed u c (s\<lparr>deposits := tbl_save i d' (deposits s)\<rparr>) =
      completed u c s + completed_amount u c d' - completed_amount u c d"
    using sum_tbl_save [OF dist d, of "completed_amount u c" d'] by (simp add: completed_def)
qed

lemma settle_deposit_accounted:
  assumes ok: "fiat_ok E s" and e: "settle_deposit now ev data r s = (x, t)"
    and pending: "\<And>i d. deposit_by r s = Some (i, d) \<Longrightarrow> fd_status d \<noteq> DEPOSIT_COMPLETED"
  shows "fiat_ok E t \<and> accounted_for s t"
proof -
  let ?paid = "ev = Some ''payment.completed'' \<or> wd_status data = Some ''successful''"
  let ?failed = "wd_status data = Some ''failed'' \<or> ev = Some ''payment.failed''"
  show ?thesis
  proof (cases x)
    case (Inl err)
    with e obtain v where t: "t = fiat_rollback s v" and v: "calls s \<le> calls v"
      by (auto simp: settle_deposit_def op_iff save_deposit_def dest!: credit_wallet_Inl split: if_splits)
    then show ?thesis using fiat_ok_calls [OF ok, of t] by (simp add: rollback_same accounted_refl)
  next
    case (Inr res)
    with e obtain i d where found: "deposit_by r s = Some (i, d)" by (auto simp: settle_deposit_def op_iff)
    then have d: "(i, d) \<in> set (deposits s)" by (auto simp: deposit_by_def dest: find_SomeD)
    have good: "is_dec 8 (fd_amount d)" "0 \<le> fd_amount d" "fits_column (fd_amount d)"
      using ok d by (auto simp: fiat_ok_def deposit_good_def)
    consider (paid) ?paid | (failed) "\<not> ?paid" ?failed | (other) "\<not> ?paid" "\<not> ?failed" by blast
    then show ?thesis
    proof cases
      case paid
      let ?d = "d\<lparr>fd_status := DEPOSIT_COMPLETED, fd_walletCreditedAt := Some now,
        fd_providerReference := str_or (wd_flw_ref data) (wd_id data)\<rparr>"
      from paid Inr e found obtain v where c: "credit_wallet (fd_userId d) (fd_currency d) (fd_amount d) s = (Inr (), v)"
        and t: "t = notify (fd_userId d) ''Deposit Completed''
          ''Your deposit of ${deposit.amount} ${deposit.currency} has been credited to your wallet.''
          (v\<lparr>deposits := tbl_save i ?d (deposits v)\<rparr>)"
        by (auto simp: settle_deposit_def op_iff save_deposit_def)
      from credit_wallet_Inr [OF ok c good] obtain ws where v: "v = s\<lparr>fiat_wallets := ws\<rparr>" and vok: "fiat_ok E v"
        and b: "\<And>u c. (wallet_of u c v = None \<longleftrightarrow> wallet_of u c s = None) \<and> fiat_balance u c v = fiat_balance u c s +
          (if (u, c) = (fd_userId d, fd_currency d) \<and> wallet_of (fd_userId d) (fd_currency d) s \<noteq> None then fd_amount d else 0)" by blast
      have dv: "(i, d) \<in> set (deposits v)" using d by (simp add: v)
      note so = save_deposit_ok [OF vok dv, of ?d, simplified]
      have n: "completed_amount u c d = 0" for u c using pending [OF found] by (simp add: completed_amount_def)
      have w: "wallet_of u c t = wallet_of u c v" "fiat_balance u c t = fiat_balance u c v"
        "completed u c t = completed u c s + completed_amount u c ?d" for u c
        using so(2) [of u c] n by (simp_all add: t notify_def wallet_of_def fiat_balance_def completed_def v)
      have "fiat_ok E t" by (rule fiat_ok_calls [OF so(1)]) (simp_all add: t notify_def)
      moreover have "accounted_for s t" using b by (auto simp: accounted_for_def w completed_amount_def)
      ultimately show ?thesis ..
    next
      case failed
      let ?d = "d\<lparr>fd_status := DEPOSIT_FAILED, fd_failureReason := str_or (wd_processor_response data) (Some ''Payment failed'')\<rparr>"
      from failed Inr e found have t: "t = notify (fd_userId d) ''Deposit Failed''
          ''Your deposit of ${deposit.amount} ${deposit.currency} failed. ${deposit.failureReason}''
          (s\<lparr>deposits := tbl_save i ?d (deposits s)\<rparr>)"
        by (auto simp: settle_deposit_def op_iff save_deposit_def)
      note so = save_deposit_ok [OF ok d, of ?d, simplified]
      have n: "completed_amount u c d = 0" for u c using pending [OF found] by (simp add: completed_amount_def)
      have "fiat_ok E t" by (rule fiat_ok_calls [OF so(1)]) (simp_all add: t notify_def)
      moreover have "accounted_for s t" using so(2) n
        by (auto simp: accounted_for_def t notify_def wallet_of_def fiat_balance_def completed_def completed_amount_def)
      ultimately show ?thesis ..
    next
      case other
      with Inr e found have "t = s" by (auto simp: settle_deposit_def op_iff)
      with ok show ?thesis by (simp add: accounted_refl)
    qed
  qed
qed

lemma processDepositWebhook_cases:
  assumes "processDepositWebhook E now p sig s = (x, t)"
  obtains "t = s"
  | data r i d where "deposit_by r s = Some (i, d)" "fd_status d \<noteq> DEPOSIT_COMPLETED" "settle_deposit now (wp_event p) data r s = (x, t)"
  using assms by (auto simp: processDepositWebhook_def bindE_def require_def ret_def throw_def from_option_def gets_def Let_def
      split: if_splits option.splits prod.splits)

lemma processDepositWebhook_accounted:
  assumes ok: "fiat_ok E s" and e: "processDepositWebhook E now p sig s = (x, t)"
  shows "fiat_ok E t \<and> accounted_for s t"
  using e
proof (cases rule: processDepositWebhook_cases)
  case 1
  with ok show ?thesis by (simp add: accounted_refl)
next
  case (2 data r i d)
  show ?thesis by (rule settle_deposit_accounted [OF ok 2(3)]) (use 2(1,2) in auto)
qed

lemma processWithdrawalWebhook_none:
  assumes "withdrawals s = []" and "processWithdrawalWebhook E now p sig s = (x, t)"
  shows "t = s"
  using assms by (cases x) (auto simp: processWithdrawalWebhook_def op_iff Let_def withdrawal_by_def split: if_splits option.splits)

lemma handleWebhook_accounted:
  assumes ok: "fiat_ok E s" and e: "handleWebhook E now p sig s = (x, t)"
  shows "fiat_ok E t \<and> accounted_for s t"
proof -
  have "withdrawals s = []" using ok by (simp add: fiat_ok_def)
  then show ?thesis
    using e processDepositWebhook_accounted [OF ok, of now p sig x t] processWithdrawalWebhook_none [of s E now p sig x t] ok
    by (auto simp: handleWebhook_def Let_def ret_def accounted_refl split: if_splits option.splits)
qed

lemma initiateDeposit_Inl: "initiateDeposit E now u a c s = (Inl e, t) \<Longrightarrow>
  fiat_wallets t = fiat_wallets s \<and> deposits t = deposits s \<and> withdrawals t = withdrawals s \<and> calls s \<le> calls t"
  by (auto simp: initiateDeposit_def op_iff existing_user_def provider_initiateDeposit_def axios_def next_id_def Let_def fiat_rollback_def)

lemma initiateDeposit_Inr:
  assumes "initiateDeposit E now u a c s = (Inr d, t)"
  shows "calls t = Suc (Suc (Suc (calls s))) \<and> fd_reference d = ''FIAT_DEP_'' @ fi_uuid E (calls s) \<and> fd_amount d = to_fixed 8 a \<and>
    fits_column (fd_amount d) \<and> fd_status d = DEPOSIT_PENDING \<and> fiat_wallets t = fiat_wallets s \<and> withdrawals t = withdrawals s \<and>
    deposits t = tbl_save (fi_uuid E (Suc (Suc (calls s)))) d (deposits s)"
  using assms by (auto simp: initiateDeposit_def op_iff existing_user_def provider_initiateDeposit_def axios_def next_id_def Let_def)

lemma initiateDeposit_accounted:
  assumes ok: "fiat_ok E s" and a: "0 \<le> a" and e: "initiateDeposit E now u a c s = (x, t)"
  shows "fiat_ok E t \<and> accounted_for s t"
proof (cases x)
  case (Inl err)
  with initiateDeposit_Inl [of E now u a c s err t] e have "fiat_wallets t = fiat_wallets s" "deposits t = deposits s"
    "withdrawals t = withdrawals s" "calls s \<le> calls t" by simp_all
  then show ?thesis using fiat_ok_calls [OF ok, of t] by (simp add: accounted_refl)
next
  case (Inr d)
  let ?i = "fi_uuid E (Suc (Suc (calls s)))"
  from initiateDeposit_Inr [of E now u a c s d t] e Inr have t: "calls t = Suc (Suc (Suc (calls s)))"
    "fiat_wallets t = fiat_wallets s" "withdrawals t = withdrawals s" "deposits t = tbl_save ?i d (deposits s)"
    and d: "fd_reference d = ''FIAT_DEP_'' @ fi_uuid E (calls s)" "fd_amount d = to_fixed 8 a" "fits_column (fd_amount d)"
    "fd_status d = DEPOSIT_PENDING" by auto
  have inj: "inj (fi_uuid E)" using ok by (simp add: fiat_ok_def)
  have old: "\<exists>m<calls s. fst p = fi_uuid E m" "\<exists>m<calls s. fd_reference (snd p) = ''FIAT_DEP_'' @ fi_uuid E m"
    if "p \<in> set (deposits s)" for p using ok that by (auto simp: fiat_ok_def deposit_good_def)
  have new_id: "?i \<notin> set (map fst (deposits s))" using old(1) inj by (fastforce simp: inj_def)
  then have app: "deposits t = deposits s @ [(?i, d)]" by (simp add: t tbl_save_new tbl_find_None_keys)
  have new_ref: "fd_reference d \<notin> set (map (fd_reference \<circ> snd) (deposits s))" using old(2) inj by (fastforce simp: d inj_def)
  have good: "deposit_good E (calls t) p" if "p \<in> set (deposits s)" for p
    using ok that by (auto simp: fiat_ok_def t intro: deposit_good_mono)
  have "\<exists>m<calls t. fd_reference d = ''FIAT_DEP_'' @ fi_uuid E m" using d(1) t(1) by (intro exI [of _ "calls s"]) simp
  moreover have "\<exists>m<calls t. ?i = fi_uuid E m" using t(1) by (intro exI [of _ "Suc (Suc (calls s))"]) simp
  ultimately have "deposit_good E (calls t) (?i, d)" using d(2,3) a to_fixed_nonneg(1) [of a 8] by (simp add: deposit_good_def)
  then have "fiat_ok E t" using ok new_id new_ref good by (auto simp: fiat_ok_def t(2,3) app)
  moreover have "accounted_for s t"
    by (simp add: accounted_for_def fiat_balance_def wallet_of_def t(2) completed_def app completed_amount_def d(4))
  ultimately show ?thesis ..
qed

section \<open>Runs\<close>

datatype fiat_event =
    FiatDeposit int string rat string
  | FiatWithdraw int string rat string string string
  | FiatWebhook int webhook_payload "string option"

fun fiat_step :: "fiat_env \<Rightarrow> fiat_event \<Rightarrow> fiat_state \<Rightarrow> fiat_state" where
  "fiat_step E (FiatDeposit now u a c) s = snd (initiateDeposit E now u a c s)"
| "fiat_step E (FiatWithdraw now u a c bank account) s = snd (initiateWithdrawal E now u a c bank account s)"
| "fiat_step E (FiatWebhook now p sig) s = snd (handleWebhook E now p sig s)"

text \<open>Requests for deposits as the data transfer object admits them, and any webhooks.\<close>

fun deposit_event :: "fiat_event \<Rightarrow> bool" where
  "deposit_event (FiatDeposit now u a c) \<longleftrightarrow> 1 \<le> a"
| "deposit_event (FiatWithdraw now u a c bank account) \<longleftrightarrow> False"
| "deposit_event (FiatWebhook now p sig) \<longleftrightarrow> True"

interpretation fiat_run: invariant_system "fiat_step E" deposit_event "\<lambda>t. fiat_ok E t \<and> accounted_for s t" for E s
proof unfold_locales
  fix t e
  assume t: "fiat_ok E t \<and> accounted_for s t" and v: "deposit_event e"
  have "fiat_ok E (fiat_step E e t) \<and> accounted_for t (fiat_step E e t)"
  proof (cases e)
    case (FiatDeposit now u a c)
    with v have "0 \<le> a" by simp
    with t have "fiat_ok E (snd (initiateDeposit E now u a c t)) \<and> accounted_for t (snd (initiateDeposit E now u a c t))"
      by (intro initiateDeposit_accounted [OF _ _ surjective_pairing]) simp_all
    with FiatDeposit show ?thesis by simp
  next
    case (FiatWebhook now p sig)
    from t have "fiat_ok E (snd (handleWebhook E now p sig t)) \<and> accounted_for t (snd (handleWebhook E now p sig t))"
      by (intro handleWebhook_accounted [OF _ surjective_pairing]) simp
    with FiatWebhook show ?thesis by simp
  qed (use v in simp)
  with t show "fiat_ok E (fiat_step E e t) \<and> accounted_for s (fiat_step E e t)" by (blast intro: accounted_trans)
qed

section \<open>Refunds\<close>

text \<open>The notice that a transfer failed.\<close>

definition failure_notice :: "string \<Rightarrow> webhook_payload" where
  "failure_notice r = \<lparr>wp_event = Some ''transfer.failed'', wp_data = Some \<lparr>wd_tx_ref = None, wd_reference = Some r,
     wd_status = Some ''failed'', wd_flw_ref = None, wd_id = None, wd_processor_response = None\<rparr>\<rparr>"

lemma transfer_event: "has_substring ''payment'' ''transfer.failed'' = False" "has_substring ''transfer'' ''transfer.failed'' = True"
  by code_simp+

lemma refund_once:
  assumes w: "withdrawal_by r s = Some (i, w)" "fx_status w \<noteq> WITHDRAWAL_COMPLETED"
    and v: "wallet_of (fx_userId w) (fx_currency w) s = Some (j, v)"
    and dist: "distinct (map fst (withdrawals s))" "distinct (map fst (fiat_wallets s))"
      "distinct (map (fx_reference \<circ> snd) (withdrawals s))" "distinct (map (wallet_key \<circ> snd) (fiat_wallets s))"
    and fit: "fits_column (to_fixed 8 (decimal_plus (fw_balance v) (fx_amount w)))"
    and sig: "verifyWebhookSignature E (failure_notice r) sg (fi_secret E)" and r: "r \<noteq> []"
  shows "\<exists>t w'. handleWebhook E now (failure_notice r) sg s = (Inr (True, ''Webhook processed''), t) \<and>
    withdrawal_by r t = Some (i, w') \<and> fx_status w' = WITHDRAWAL_FAILED \<and> fx_amount w' = fx_amount w \<and>
    fx_userId w' = fx_userId w \<and> fx_currency w' = fx_currency w \<and>
    wallet_of (fx_userId w) (fx_currency w) t =
      Some (j, v\<lparr>fw_balance := to_fixed 8 (decimal_plus (fw_balance v) (fx_amount w))\<rparr>) \<and>
    map fst (withdrawals t) = map fst (withdrawals s) \<and> map fst (fiat_wallets t) = map fst (fiat_wallets s) \<and>
    map (fx_reference \<circ> snd) (withdrawals t) = map (fx_reference \<circ> snd) (withdrawals s) \<and>
    map (wallet_key \<circ> snd) (fiat_wallets t) = map (wallet_key \<circ> snd) (fiat_wallets s)"
proof -
  let ?w = "w\<lparr>fx_status := WITHDRAWAL_FAILED, fx_failureReason := Some ''Transfer failed'', fx_processedAt := Some now\<rparr>"
  let ?v = "v\<lparr>fw_balance := to_fixed 8 (decimal_plus (fw_balance v) (fx_amount w))\<rparr>"
  let ?t = "notify (fx_userId w) ''Withdrawal Failed'' ''Your withdrawal failed. The amount has been refunded to your wallet. ${withdrawal.failureReason}''
    (s\<lparr>withdrawals := tbl_save i ?w (withdrawals s), fiat_wallets := tbl_save j ?v (fiat_wallets s)\<rparr>)"
  have in_set: "(i, w) \<in> set (withdrawals s)" "fx_reference w = r" "(j, v) \<in> set (fiat_wallets s)"
    "wallet_key v = (fx_userId w, fx_currency w)"
    using w(1) v by (auto simp: withdrawal_by_def wallet_of_key dest: find_SomeD)
  have k: "fx_reference ?w = fx_reference w" "wallet_key ?v = wallet_key v" by (simp_all add: wallet_key_def)
  have "handleWebhook E now (failure_notice r) sg s = (Inr (True, ''Webhook processed''), ?t)"
    using w v sig r fit
    by (simp add: handleWebhook_def failure_notice_def transfer_event starts_with_def processWithdrawalWebhook_def bindE_def require_def
        ret_def from_option_def gets_def truthy_def settle_withdrawal_def transactionE_def save_withdrawal_def modify_def
        credit_wallet_def save_wallet_def wallet_of_def str_or_def)
  moreover have "withdrawal_by r ?t = Some (i, ?w)"
    using find_update [OF dist(1,3) in_set(1) k(1), of r] in_set(2) by (simp add: withdrawal_by_def notify_def)
  moreover have "wallet_of (fx_userId w) (fx_currency w) ?t = Some (j, ?v)"
    using find_update [OF dist(2,4) in_set(3) k(2), of "(fx_userId w, fx_currency w)"] in_set(4) k(2)
    by (simp add: wallet_of_key notify_def)
  ultimately show ?thesis
    using keys_update [OF dist(1) in_set(1) k(1)] keys_update [OF dist(2) in_set(3) k(2)]
    by (intro exI [of _ ?t] exI [of _ ?w]) (simp add: notify_def)
qed

text \<open>The unique columns of the tables.\<close>

definition unique_rows :: "'a fiat_state_scheme \<Rightarrow> bool" where
  "unique_rows s \<longleftrightarrow> distinct (map fst (withdrawals s)) \<and> distinct (map fst (fiat_wallets s)) \<and>
     distinct (map (fx_reference \<circ> snd) (withdrawals s)) \<and> distinct (map (wallet_key \<circ> snd) (fiat_wallets s))"

lemma decimal_sum:
  assumes "is_dec 8 a" "is_dec 8 b" "0 \<le> a" "0 \<le> b" "a + b < 10 ^ 12"
  shows "to_fixed 8 (decimal_plus a b) = a + b \<and> is_dec 8 (a + b)"
proof -
  have "is_dec 8 (a + b)" using assms(1,2) by (rule is_dec_add)
  with assms(3-5) show ?thesis by (simp add: decimal_plus_def decimal_round_exact)
qed

lemma refund_many:
  assumes w: "withdrawal_by r s = Some (i, w)" "fx_status w \<noteq> WITHDRAWAL_COMPLETED"
    and v: "wallet_of (fx_userId w) (fx_currency w) s = Some (j, v)" and u: "unique_rows s"
    and a: "is_dec 8 (fx_amount w)" "0 \<le> fx_amount w" and b: "is_dec 8 (fw_balance v)" "0 \<le> fw_balance v"
    and fit: "fw_balance v + of_nat n * fx_amount w < 10 ^ 12"
    and sig: "verifyWebhookSignature E (failure_notice r) sg (fi_secret E)" and r: "r \<noteq> []"
  shows "\<exists>w' v'. let t = ((\<lambda>s. snd (handleWebhook E now (failure_notice r) sg s)) ^^ n) s in
    withdrawal_by r t = Some (i, w') \<and> fx_status w' \<noteq> WITHDRAWAL_COMPLETED \<and> fx_amount w' = fx_amount w \<and>
    fx_userId w' = fx_userId w \<and> fx_currency w' = fx_currency w \<and> unique_rows t \<and>
    wallet_of (fx_userId w) (fx_currency w) t = Some (j, v') \<and> is_dec 8 (fw_balance v') \<and>
    fw_balance v' = fw_balance v + of_nat n * fx_amount w"
  using fit
proof (induction n)
  case 0
  then show ?case using w v u b by (simp add: Let_def)
next
  case (Suc n)
  let ?f = "\<lambda>s. snd (handleWebhook E now (failure_notice r) sg s)"
  define t where "t = (?f ^^ n) s"
  have "fw_balance v + of_nat n * fx_amount w \<le> fw_balance v + of_nat (Suc n) * fx_amount w"
    using a(2) by (simp add: distrib_right)
  with Suc.prems have "fw_balance v + of_nat n * fx_amount w < 10 ^ 12" by linarith
  from Suc.IH [OF this] obtain w' v' where I: "withdrawal_by r t = Some (i, w')" "fx_status w' \<noteq> WITHDRAWAL_COMPLETED"
    "fx_amount w' = fx_amount w" "fx_userId w' = fx_userId w" "fx_currency w' = fx_currency w" "unique_rows t"
    "wallet_of (fx_userId w) (fx_currency w) t = Some (j, v')" "is_dec 8 (fw_balance v')"
    "fw_balance v' = fw_balance v + of_nat n * fx_amount w" by (auto simp: Let_def t_def)
  have nn: "0 \<le> fw_balance v'" using a b by (simp add: I(9))
  have sum: "fw_balance v' + fx_amount w = fw_balance v + of_nat (Suc n) * fx_amount w" by (simp add: I(9) distrib_right)
  have d: "to_fixed 8 (decimal_plus (fw_balance v') (fx_amount w')) = fw_balance v' + fx_amount w" "is_dec 8 (fw_balance v' + fx_amount w)"
    using decimal_sum [OF I(8) a(1) nn a(2)] Suc.prems sum I(3) by simp_all
  have "fits_column (to_fixed 8 (decimal_plus (fw_balance v') (fx_amount w')))"
    using Suc.prems sum nn a(2) by (simp only: d(1) fits_column_def)
  from refund_once [where j = j and v = v' and now = now, OF I(1,2) _ _ _ _ _ this sig r] I(4-7)
  obtain t' w'' where T: "handleWebhook E now (failure_notice r) sg t = (Inr (True, ''Webhook processed''), t')"
    "withdrawal_by r t' = Some (i, w'')" "fx_status w'' = WITHDRAWAL_FAILED" "fx_amount w'' = fx_amount w'"
    "fx_userId w'' = fx_userId w'" "fx_currency w'' = fx_currency w'" "unique_rows t'"
    "wallet_of (fx_userId w) (fx_currency w) t' = Some (j, v'\<lparr>fw_balance := fw_balance v' + fx_amount w\<rparr>)"
    unfolding unique_rows_def d(1) by auto
  have t': "(?f ^^ Suc n) s = t'" using T(1) by (simp add: t_def)
  show ?case unfolding Let_def t'
    by (intro exI [of _ w''] exI [of _ "v'\<lparr>fw_balance := fw_balance v' + fx_amount w\<rparr>"])
      (use T(2-8) I(3-5) d(2) sum in simp)
qed

section \<open>Properties\<close>


text \<open>A failed transfer is refunded again and again: while a withdrawal is not completed, every further notice of
  its failure that carries a valid signature adds its amount to the wallet once more, as often as the notice is sent.\<close>

theorem fiat_refunds_repeat:
  assumes "withdrawal_by r s = Some (i, w)" and "fx_status w \<noteq> WITHDRAWAL_COMPLETED"
    and "wallet_of (fx_userId w) (fx_currency w) s = Some (j, v)" and "unique_rows s"
    and "is_dec 8 (fx_amount w)" "0 \<le> fx_amount w" "is_dec 8 (fw_balance v)" "0 \<le> fw_balance v"
    and "fw_balance v + of_nat n * fx_amount w < 10 ^ 12"
    and "verifyWebhookSignature E (failure_notice r) sg (fi_secret E)" and "r \<noteq> []"
  shows "fiat_balance (fx_userId w) (fx_currency w) (((\<lambda>s. snd (handleWebhook E now (failure_notice r) sg s)) ^^ n) s) =
    fiat_balance (fx_userId w) (fx_currency w) s + of_nat n * fx_amount w"
  using refund_many [OF assms, of now] assms(3) by (auto simp: fiat_balance_def Let_def)

section \<open>Witnesses\<close>

definition demo_fiat_env :: fiat_env where
  "demo_fiat_env = \<lparr>fi_uuid = \<lambda>n. replicate n CHR ''x'', fi_axios = \<lambda>n. Inr \<lparr>fa_status = ''success'', fa_link = ''l'', fa_account_name = ''Bob''\<rparr>,
     fi_secret = Some ''key'', fi_hmac = \<lambda>k t. ''ab'', fi_json = \<lambda>p. []\<rparr>"

definition demo_fiat :: "fiat_deposit table \<Rightarrow> fiat_withdrawal table \<Rightarrow> fiat_state" where
  "demo_fiat ds ws = \<lparr>users = [(''bob'', demo_user 500)], wallets = [], notifications = [], calls = 3, payments = [], kyc_records = [],
     screenings = [], ofac_entries = [], fiat_wallets = [(''w'', \<lparr>fw_userId = ''bob'', fw_currency = ''NGN'', fw_balance = 100\<rparr>)],
     deposits = ds, withdrawals = ws, transfers = []\<rparr>"

definition demo_deposit :: fiat_deposit where
  "demo_deposit = \<lparr>fd_userId = ''bob'', fd_reference = ''FIAT_DEP_x'', fd_amount = 40, fd_currency = ''NGN'', fd_status = DEPOSIT_PENDING,
     fd_providerReference = None, fd_paymentLink = None, fd_expiresAt = None, fd_walletCreditedAt = None, fd_failureReason = None,
     fd_createdAt = 0\<rparr>"

definition payment_notice :: webhook_payload where
  "payment_notice = \<lparr>wp_event = Some ''payment.completed'', wp_data = Some \<lparr>wd_tx_ref = Some ''FIAT_DEP_x'', wd_reference = None,
     wd_status = Some ''successful'', wd_flw_ref = Some ''f'', wd_id = None, wd_processor_response = None\<rparr>\<rparr>"

lemma demo_fiat_ok: "fiat_ok demo_fiat_env (demo_fiat [(''xx'', demo_deposit)] [])"
proof -
  have "inj (\<lambda>n. replicate n CHR ''x'')" unfolding inj_def by (metis length_replicate)
  moreover have "\<exists>m<3. ''xx'' = replicate m CHR ''x''" by (intro exI [of _ 2]) (simp add: numeral_eq_Suc)
  moreover have "\<exists>m<3. ''x'' = replicate m CHR ''x''" by (intro exI [of _ 1]) simp
  ultimately show ?thesis
    by (simp add: fiat_ok_def demo_fiat_def demo_fiat_env_def demo_deposit_def deposit_good_def wallet_good_def fits_column_def)
qed

lemma payment_event: "has_substring ''payment'' ''payment.completed''"
  by code_simp


definition demo_fiat_withdrawal :: fiat_withdrawal where
  "demo_fiat_withdrawal = \<lparr>fx_userId = ''bob'', fx_reference = ''FIAT_WD_x'', fx_amount = 40, fx_currency = ''NGN'', fx_bankCode = ''044'',
     fx_accountNumber = ''1'', fx_accountName = ''Bob'', fx_status = WITHDRAWAL_PROCESSING, fx_providerReference = None,
     fx_failureReason = None, fx_processedAt = None, fx_createdAt = 0\<rparr>"

theorem fiat_refunds_repeat_witness:
  "fiat_balance ''bob'' ''NGN'' (((\<lambda>s. snd (handleWebhook demo_fiat_env 9 (failure_notice ''FIAT_WD_x'') (Some ''ab'') s)) ^^ 3)
    (demo_fiat [] [(''y'', demo_fiat_withdrawal)])) = 220"
proof -
  let ?s = "demo_fiat [] [(''y'', demo_fiat_withdrawal)]" and ?v = "\<lparr>fw_userId = ''bob'', fw_currency = ''NGN'', fw_balance = 100\<rparr>"
  have a: "withdrawal_by ''FIAT_WD_x'' ?s = Some (''y'', demo_fiat_withdrawal)"
    by (simp add: withdrawal_by_def demo_fiat_def demo_fiat_withdrawal_def)
  have b: "wallet_of (fx_userId demo_fiat_withdrawal) (fx_currency demo_fiat_withdrawal) ?s = Some (''w'', ?v)"
    by (simp add: wallet_of_def demo_fiat_def demo_fiat_withdrawal_def)
  have "fiat_balance (fx_userId demo_fiat_withdrawal) (fx_currency demo_fiat_withdrawal)
      (((\<lambda>s. snd (handleWebhook demo_fiat_env 9 (failure_notice ''FIAT_WD_x'') (Some ''ab'') s)) ^^ 3) ?s) =
    fiat_balance (fx_userId demo_fiat_withdrawal) (fx_currency demo_fiat_withdrawal) ?s + of_nat 3 * fx_amount demo_fiat_withdrawal"
    by (rule fiat_refunds_repeat [OF a _ b])
      (simp_all add: demo_fiat_withdrawal_def unique_rows_def demo_fiat_def verifyWebhookSignature_def demo_fiat_env_def truthy_def)
  then show ?thesis by (simp add: demo_fiat_withdrawal_def fiat_balance_def wallet_of_def demo_fiat_def)
qed

end
