(* ===== verification/MicroSavings.thy ===== *)
theory MicroSavings
  imports Vaults
begin

text \<open>
  Savings on top of what a user does (\<open>modules/micro-savings/micro-savings.service.ts\<close> and its entities): rules
  that move an amount from the main balance into a vault after a transaction, above a balance, or when a spending goal
  is reached, and the contributions they made. The vaults and the users are the state of \<open>Vaults\<close>; a deposit is the
  operation of that theory. All reads of the clock in one request give the same time. Contributions are a list in the
  order in which they were saved, their ids are left out. Amount columns hold 8 decimal places. Deleting a rule
  deletes its contributions, as the foreign key of the entity says.
\<close>

section \<open>Data\<close>

datatype trigger_type = PER_TRANSACTION | BALANCE_THRESHOLD | SPENDING_GOAL_HIT

record per_transaction_config =
  minTransactionAmount :: "rat option"
  savePercent :: "rat option"

record balance_threshold_config =
  thresholdAmount :: "rat option"
  saveExcess :: "bool option"

record micro_rule =
  mr_userId :: string
  mr_targetVaultId :: string
  mr_isActive :: bool
  mr_triggerType :: trigger_type
  mr_saveAmount :: rat
  mr_perTransactionConfig :: "per_transaction_config option"
  mr_balanceThresholdConfig :: "balance_threshold_config option"
  mr_maxDailyContribution :: rat
  mr_createdAt :: int

record contribution =
  mc_ruleId :: string
  mc_userId :: string
  mc_vaultId :: string
  mc_amount :: rat
  mc_triggerType :: trigger_type
  mc_sourceTransactionId :: "string option"
  mc_sourceSpendingGoalId :: "string option"
  mc_createdAt :: int

record micro_state =
  micro_vaults :: vault_state
  micro_rules :: "micro_rule table"
  contributions :: "contribution list"

record create_rule_dto =
  cr_targetVaultId :: string
  cr_triggerType :: trigger_type
  cr_saveAmount :: rat
  cr_perTransactionConfig :: "per_transaction_config option"
  cr_balanceThresholdConfig :: "balance_threshold_config option"
  cr_maxDailyContribution :: rat

record update_rule_dto =
  ur_targetVaultId :: "string option"
  ur_saveAmount :: "rat option"
  ur_perTransactionConfig :: "per_transaction_config option"
  ur_balanceThresholdConfig :: "balance_threshold_config option"
  ur_maxDailyContribution :: "rat option"
  ur_isActive :: "bool option"

definition rule_row :: "micro_rule \<Rightarrow> micro_rule" where
  "rule_row r = r\<lparr>mr_saveAmount := pg_numeric 8 (mr_saveAmount r),
     mr_maxDailyContribution := pg_numeric 8 (mr_maxDailyContribution r)\<rparr>"

definition save_rule :: "string \<Rightarrow> micro_rule \<Rightarrow> (micro_state, unit) op" where
  "save_rule i r = modify (\<lambda>s. s\<lparr>micro_rules := tbl_save i (rule_row r) (micro_rules s)\<rparr>)"

definition on_vaults :: "(vault_state, 'a) op \<Rightarrow> (micro_state, 'a) op" where
  "on_vaults = zoomE micro_vaults (\<lambda>v s. s\<lparr>micro_vaults := v\<rparr>)"

section \<open>Rules\<close>

definition createRule :: "int \<Rightarrow> string \<Rightarrow> string \<Rightarrow> create_rule_dto \<Rightarrow> (micro_state, micro_rule) op" where
  "createRule now newId userId dto =
     (let rule = \<lparr>mr_userId = userId, mr_targetVaultId = cr_targetVaultId dto, mr_isActive = True,
            mr_triggerType = cr_triggerType dto, mr_saveAmount = num_to_string (cr_saveAmount dto),
            mr_perTransactionConfig = cr_perTransactionConfig dto,
            mr_balanceThresholdConfig = cr_balanceThresholdConfig dto,
            mr_maxDailyContribution = num_to_string (cr_maxDailyContribution dto), mr_createdAt = now\<rparr>
      in bindE (save_rule newId rule) (\<lambda>_. ret rule))"

definition midnight :: "int \<Rightarrow> int" where
  "midnight now = utc_days now * ms_per_day"

text \<open>\<open>SUM(c.amount)\<close> over the contributions of a rule since midnight: the sum of the database is exact, reading it
  as a number rounds it.\<close>

definition todays :: "int \<Rightarrow> string \<Rightarrow> contribution list \<Rightarrow> contribution list" where
  "todays now ruleId cs = filter (\<lambda>c. mc_ruleId c = ruleId \<and> midnight now \<le> mc_createdAt c) cs"

definition getTodayContributionTotal :: "int \<Rightarrow> string \<Rightarrow> micro_state \<Rightarrow> rat" where
  "getTodayContributionTotal now ruleId s = parse_float (sum_list (map mc_amount (todays now ruleId (contributions s))))"

definition newest_first :: "(string \<times> micro_rule) list \<Rightarrow> (string \<times> micro_rule) list" where
  "newest_first rs = rev (sort_key (\<lambda>(i, r). mr_createdAt r) rs)"

definition listActiveRules :: "int \<Rightarrow> string \<Rightarrow> micro_state \<Rightarrow> ((string \<times> micro_rule) \<times> rat) list" where
  "listActiveRules now userId s = map (\<lambda>(i, r). ((i, r), getTodayContributionTotal now i s))
     (newest_first (filter (\<lambda>(i, r). mr_userId r = userId \<and> mr_isActive r) (micro_rules s)))"

definition find_rule :: "string \<Rightarrow> string \<Rightarrow> (micro_state, micro_rule) op" where
  "find_rule userId ruleId =
     bindE (gets (\<lambda>s. List.find (\<lambda>(i, r). i = ruleId \<and> mr_userId r = userId) (micro_rules s))) (\<lambda>found.
     from_option (NotFoundException ''Micro-savings rule not found'') (map_option snd found))"

definition or_else :: "'a option \<Rightarrow> 'a \<Rightarrow> 'a" where
  "or_else x d = (case x of None \<Rightarrow> d | Some a \<Rightarrow> a)"

definition changed_rule :: "update_rule_dto \<Rightarrow> micro_rule \<Rightarrow> micro_rule" where
  "changed_rule dto rule = rule\<lparr>
     mr_targetVaultId := (if truthy (ur_targetVaultId dto) then the (ur_targetVaultId dto) else mr_targetVaultId rule),
     mr_saveAmount := or_else (map_option num_to_string (ur_saveAmount dto)) (mr_saveAmount rule),
     mr_perTransactionConfig := (case ur_perTransactionConfig dto of None \<Rightarrow> mr_perTransactionConfig rule | Some c \<Rightarrow> Some c),
     mr_balanceThresholdConfig := (case ur_balanceThresholdConfig dto of None \<Rightarrow> mr_balanceThresholdConfig rule | Some c \<Rightarrow> Some c),
     mr_maxDailyContribution := or_else (map_option num_to_string (ur_maxDailyContribution dto)) (mr_maxDailyContribution rule),
     mr_isActive := or_else (ur_isActive dto) (mr_isActive rule)\<rparr>"

definition updateRule :: "string \<Rightarrow> string \<Rightarrow> update_rule_dto \<Rightarrow> (micro_state, micro_rule) op" where
  "updateRule userId ruleId dto =
     bindE (find_rule userId ruleId) (\<lambda>rule.
     bindE (save_rule ruleId (changed_rule dto rule)) (\<lambda>_.
     ret (changed_rule dto rule)))"

definition deleteRule :: "string \<Rightarrow> string \<Rightarrow> (micro_state, unit) op" where
  "deleteRule userId ruleId =
     bindE (find_rule userId ruleId) (\<lambda>rule.
     modify (\<lambda>s. s\<lparr>micro_rules := tbl_remove ruleId (micro_rules s),
       contributions := filter (\<lambda>c. mc_ruleId c \<noteq> ruleId) (contributions s)\<rparr>))"

definition getHistory :: "string \<Rightarrow> nat \<Rightarrow> nat \<Rightarrow> micro_state \<Rightarrow> contribution list \<times> nat" where
  "getHistory userId page limit s =
     (let mine = filter (\<lambda>c. mc_userId c = userId) (contributions s)
      in (take limit (drop ((page - 1) * limit) (rev (sort_key mc_createdAt mine))), length mine))"

section \<open>Evaluation\<close>

definition save_contribution :: "contribution \<Rightarrow> (micro_state, unit) op" where
  "save_contribution c = modify (\<lambda>s. s\<lparr>contributions := contributions s @ [c\<lparr>mc_amount := pg_numeric 8 (mc_amount c)\<rparr>]\<rparr>)"

definition depositToVault ::
    "int \<Rightarrow> string \<Rightarrow> micro_rule \<Rightarrow> rat \<Rightarrow> trigger_type \<Rightarrow> string option \<Rightarrow> string option \<Rightarrow> (micro_state, unit) op" where
  "depositToVault now ruleId rule amount triggerType sourceTransactionId sourceSpendingGoalId =
     bindE (on_vaults (deposit (mr_userId rule) (mr_targetVaultId rule) amount)) (\<lambda>_.
     save_contribution \<lparr>mc_ruleId = ruleId, mc_userId = mr_userId rule, mc_vaultId = mr_targetVaultId rule,
       mc_amount = num_to_string amount, mc_triggerType = triggerType, mc_sourceTransactionId = sourceTransactionId,
       mc_sourceSpendingGoalId = sourceSpendingGoalId, mc_createdAt = now\<rparr>)"

definition rules_for :: "string \<Rightarrow> trigger_type \<Rightarrow> micro_state \<Rightarrow> (string \<times> micro_rule) list" where
  "rules_for userId trigger s =
     filter (\<lambda>(i, r). mr_userId r = userId \<and> mr_isActive r \<and> mr_triggerType r = trigger) (micro_rules s)"

definition remaining_today :: "int \<Rightarrow> string \<Rightarrow> micro_rule \<Rightarrow> micro_state \<Rightarrow> rat" where
  "remaining_today now ruleId rule s =
     js_sub (parse_float (mr_maxDailyContribution rule)) (getTodayContributionTotal now ruleId s)"

text \<open>An amount saved after a transaction: a percentage of it, or the fixed amount of the rule.\<close>

definition transaction_amount :: "micro_rule \<Rightarrow> rat \<Rightarrow> rat" where
  "transaction_amount rule transactionAmount =
     (case mr_perTransactionConfig rule of None \<Rightarrow> parse_float (mr_saveAmount rule)
      | Some cfg \<Rightarrow> (case savePercent cfg of None \<Rightarrow> parse_float (mr_saveAmount rule)
         | Some p \<Rightarrow> if 0 < p then js_mul transactionAmount (js_div p 100) else parse_float (mr_saveAmount rule)))"

definition below_minimum :: "micro_rule \<Rightarrow> rat \<Rightarrow> bool" where
  "below_minimum rule transactionAmount =
     (case mr_perTransactionConfig rule of None \<Rightarrow> False
      | Some cfg \<Rightarrow> (case minTransactionAmount cfg of None \<Rightarrow> False
         | Some m \<Rightarrow> m \<noteq> 0 \<and> transactionAmount < m))"

definition per_transaction_rule :: "int \<Rightarrow> string \<Rightarrow> rat \<Rightarrow> string \<times> micro_rule \<Rightarrow> (micro_state, unit) op" where
  "per_transaction_rule now transactionId transactionAmount = (\<lambda>(i, rule).
     if below_minimum rule transactionAmount then ret ()
     else
       bindE (gets (remaining_today now i rule)) (\<lambda>remaining.
       let saveAmount = min (transaction_amount rule transactionAmount) remaining
       in if remaining \<le> 0 then ret ()
          else if saveAmount \<le> 0 then ret ()
          else depositToVault now i rule saveAmount PER_TRANSACTION (Some transactionId) None))"

definition evaluatePerTransaction :: "int \<Rightarrow> string \<Rightarrow> string \<Rightarrow> rat \<Rightarrow> string \<Rightarrow> (micro_state, unit) op" where
  "evaluatePerTransaction now userId transactionId transactionAmount currency =
     bindE (gets (rules_for userId PER_TRANSACTION)) (\<lambda>rs.
     forE rs (\<lambda>x. attempt (per_transaction_rule now transactionId transactionAmount x)))"

definition threshold_of :: "micro_rule \<Rightarrow> rat" where
  "threshold_of rule = (case mr_balanceThresholdConfig rule of None \<Rightarrow> 0 | Some cfg \<Rightarrow> or_else (thresholdAmount cfg) 0)"

definition saves_excess :: "micro_rule \<Rightarrow> bool" where
  "saves_excess rule = (case mr_balanceThresholdConfig rule of None \<Rightarrow> False | Some cfg \<Rightarrow> saveExcess cfg = Some True)"

definition threshold_rule :: "int \<Rightarrow> rat \<Rightarrow> string \<times> micro_rule \<Rightarrow> (micro_state, unit) op" where
  "threshold_rule now balance = (\<lambda>(i, rule).
     if balance \<le> threshold_of rule then ret ()
     else
       bindE (gets (remaining_today now i rule)) (\<lambda>remaining.
       let saveAmount = min (if saves_excess rule then js_sub balance (threshold_of rule)
             else parse_float (mr_saveAmount rule)) remaining
       in if saveAmount \<le> 0 then ret ()
          else depositToVault now i rule saveAmount BALANCE_THRESHOLD None None))"

definition evaluateBalanceThreshold :: "int \<Rightarrow> string \<Rightarrow> string \<Rightarrow> (micro_state, unit) op" where
  "evaluateBalanceThreshold now userId currency =
     bindE (gets (rules_for userId BALANCE_THRESHOLD)) (\<lambda>rs.
     bindE (gets (\<lambda>s. findById userId (micro_vaults s))) (\<lambda>found.
     case found of None \<Rightarrow> ret () | Some user \<Rightarrow>
     let balance = balance_of user currency
     in forE rs (\<lambda>x. attempt (threshold_rule now balance x))))"

definition spending_goal_rule :: "int \<Rightarrow> string \<Rightarrow> string \<times> micro_rule \<Rightarrow> (micro_state, unit) op" where
  "spending_goal_rule now spendingGoalId = (\<lambda>(i, rule).
     bindE (gets (remaining_today now i rule)) (\<lambda>remaining.
     let amount = min (parse_float (mr_saveAmount rule)) remaining
     in if amount \<le> 0 then ret ()
        else depositToVault now i rule amount SPENDING_GOAL_HIT None (Some spendingGoalId)))"

definition evaluateSpendingGoalHit :: "int \<Rightarrow> string \<Rightarrow> string \<Rightarrow> (micro_state, unit) op" where
  "evaluateSpendingGoalHit now userId spendingGoalId =
     bindE (gets (rules_for userId SPENDING_GOAL_HIT)) (\<lambda>rs.
     forE rs (\<lambda>x. attempt (spending_goal_rule now spendingGoalId x)))"

section \<open>The daily cap\<close>

text \<open>What a rule contributed on a day, and the rules whose caps were respected on every day. A cap below a million
  is far enough from the precision of a double for the eight places of the column.\<close>

definition day_total :: "int \<Rightarrow> string \<Rightarrow> contribution list \<Rightarrow> rat" where
  "day_total day ruleId cs =
     sum_list (map mc_amount (filter (\<lambda>c. mc_ruleId c = ruleId \<and> utc_days (mc_createdAt c) = day) cs))"

definition cap_ok :: "rat \<Rightarrow> bool" where
  "cap_ok c \<longleftrightarrow> is_dec 8 c \<and> 0 \<le> c \<and> c < 10 ^ 6"

definition contributions_ok :: "contribution list \<Rightarrow> bool" where
  "contributions_ok cs \<longleftrightarrow> (\<forall>c \<in> set cs. is_dec 8 (mc_amount c) \<and> 0 \<le> mc_amount c)"

definition caps_respected :: "micro_state \<Rightarrow> bool" where
  "caps_respected s \<longleftrightarrow> distinct (map fst (micro_rules s)) \<and> contributions_ok (contributions s) \<and>
     (\<forall>i r. tbl_find i (micro_rules s) = Some r \<longrightarrow> cap_ok (mr_maxDailyContribution r) \<and>
       (\<forall>day. day_total day i (contributions s) \<le> mr_maxDailyContribution r))"

text \<open>The rest of a cap, computed with doubles and stored with eight places, stays within the cap.\<close>

lemma rest_of_the_cap:
  assumes c: "cap_ok c" and S: "is_dec 8 S" "0 \<le> S"
    and x: "is_double x" "0 < x" "x \<le> js_sub (parse_float c) (parse_float S)"
  shows "S + pg_numeric 8 (num_to_string x) \<le> c"
proof -
  let ?y = "num_to_string x" and ?u = "2 powi - 53 :: rat" and ?d = "rnd c - rnd S"
  have c': "is_dec 8 c" "0 \<le> c" "c < 10 ^ 6" using c by (simp_all add: cap_ok_def)
  have u: "?u = 1 / 9007199254740992" by (simp add: power_int_minus)
  have y: "0 \<le> ?y" using x by (simp add: num_to_string_nonneg)
  have "0 < rnd ?d" using x by (simp add: js_sub_def parse_float_def)
  then have d: "0 < ?d" using rnd_mono [of ?d 0] by (force simp: not_le [symmetric])
  have e1: "rnd c \<le> c + c * ?u" using rnd_error [of c] unfolding abs_of_nonneg [OF c'(2)] by linarith
  have e2: "S - S * ?u \<le> rnd S" using rnd_error [of S] unfolding abs_of_nonneg [OF S(2)] by linarith
  have e3: "rnd ?d \<le> ?d + ?d * ?u" using rnd_error [of ?d] unfolding abs_of_pos [OF d] by linarith
  have e4: "?y - x \<le> ?y * ?u" using printed_error [OF x(1)] unfolding abs_of_nonneg [OF y] by linarith
  have "x \<le> rnd ?d" using x(3) by (simp add: js_sub_def parse_float_def)
  moreover have "S < 10 ^ 6 + 1" using e1 e2 d c'(3) unfolding u by (simp add: field_simps)
  ultimately have "?y - (c - S) < 1 / 2 / 10 ^ 8"
    using e1 e2 e3 e4 d c'(2,3) S(2) y rnd_nonneg [OF c'(2)] rnd_nonneg [OF S(2)] unfolding u by (simp add: field_simps)
  from pg_numeric_at_most [OF is_dec_diff [OF c'(1) S(1)] y this] show ?thesis by simp
qed

lemma midnight_le: "midnight now \<le> t \<longleftrightarrow> utc_days now \<le> utc_days t"
  by (simp add: midnight_def utc_days_def ms_per_day_def) linarith

lemma day_total_le_todays:
  assumes "contributions_ok cs"
  shows "day_total (utc_days now) i cs \<le> sum_list (map mc_amount (todays now i cs))"
  using assms by (induction cs) (auto simp: day_total_def todays_def contributions_ok_def midnight_le)

lemma todays_ok: "contributions_ok cs \<Longrightarrow> is_dec 8 (sum_list (map mc_amount (todays now i cs))) \<and>
    0 \<le> sum_list (map mc_amount (todays now i cs))"
  by (auto simp: todays_def contributions_ok_def intro!: is_dec_sum_list sum_list_nonneg)

definition within_cap :: "int \<Rightarrow> string \<Rightarrow> micro_rule \<Rightarrow> rat \<Rightarrow> micro_state \<Rightarrow> bool" where
  "within_cap now i rule amount s \<longleftrightarrow> is_double amount \<and> 0 < amount \<and> amount \<le> remaining_today now i rule s"

lemma depositToVault_capped:
  assumes "caps_respected s" and "tbl_find i (micro_rules s) = Some rule" and "within_cap now i rule amount s"
    and "depositToVault now i rule amount trigger tx goal s = (r, t)"
  shows "caps_respected t \<and> micro_rules t = micro_rules s"
proof (cases r)
  case (Inl e)
  with assms(1,4) show ?thesis
    by (auto simp: depositToVault_def on_vaults_def save_contribution_def op_iff caps_respected_def)
next
  case (Inr u)
  let ?a = "pg_numeric 8 (num_to_string amount)" and ?cs = "contributions s"
  from assms(4) Inr obtain c where t: "contributions t = ?cs @ [c]" "micro_rules t = micro_rules s"
    and c: "mc_ruleId c = i" "mc_amount c = ?a" "mc_createdAt c = now"
    by (auto simp: depositToVault_def on_vaults_def save_contribution_def op_iff)
  have ok: "contributions_ok ?cs" "cap_ok (mr_maxDailyContribution rule)"
    using assms(1,2) by (auto simp: caps_respected_def)
  have a: "is_dec 8 ?a" "0 \<le> ?a" using assms(3) num_to_string_nonneg [of amount] by (auto simp: within_cap_def intro: to_fixed_nonneg)
  have "sum_list (map mc_amount (todays now i ?cs)) + ?a \<le> mr_maxDailyContribution rule"
    using assms(3) todays_ok [OF ok(1)]
    by (intro rest_of_the_cap [OF ok(2)]) (auto simp: within_cap_def remaining_today_def getTodayContributionTotal_def)
  with day_total_le_todays [OF ok(1), of now i]
  have cap: "day_total (utc_days now) i ?cs + ?a \<le> mr_maxDailyContribution rule" by linarith
  have total: "day_total day j (contributions t) =
      day_total day j ?cs + (if j = i \<and> day = utc_days now then ?a else 0)" for day j
    by (auto simp: day_total_def t c)
  have "contributions_ok (contributions t)" using ok(1) a by (auto simp: contributions_ok_def t c)
  then show ?thesis using assms(1,2) cap by (auto simp: caps_respected_def t(2) total)
qed

text \<open>Rules that are evaluated one after the other, each as it was read before the loop.\<close>

definition evaluates :: "(string \<times> micro_rule \<Rightarrow> (micro_state, unit) op) \<Rightarrow> bool" where
  "evaluates f \<longleftrightarrow> (\<forall>i rule s r t. caps_respected s \<longrightarrow> tbl_find i (micro_rules s) = Some rule \<longrightarrow>
     f (i, rule) s = (r, t) \<longrightarrow> caps_respected t \<and> micro_rules t = micro_rules s)"

lemma forE_capped:
  assumes "evaluates f" and "forE (rules_for u trigger s) (\<lambda>x. attempt (f x)) s = (r, t)" and "caps_respected s"
  shows "caps_respected t \<and> micro_rules t = micro_rules s"
proof -
  let ?I = "\<lambda>xs v. caps_respected v \<and> micro_rules v = micro_rules s \<and> set xs \<subseteq> set (micro_rules s)"
  have "\<exists>ys. ?I ys t"
  proof (rule forE_invariant [where I = ?I, OF assms(2)])
    show "?I (rules_for u trigger s) s" using assms(3) by (auto simp: rules_for_def)
    fix x xs v r' w assume I: "?I (x # xs) v" and "attempt (f x) v = (r', w)"
    then obtain q where q: "f x v = (q, w)" by (cases r') (auto simp: attempt_def op_iff)
    obtain i rule where x: "x = (i, rule)" by fastforce
    have v: "caps_respected v" "micro_rules v = micro_rules s" "(i, rule) \<in> set (micro_rules v)"
      "set xs \<subseteq> set (micro_rules s)" using I by (simp_all add: x)
    have "tbl_find i (micro_rules v) = Some rule" using v(1,3) by (simp add: caps_respected_def tbl_distinct_in)
    with assms(1) v(1) q have "caps_respected w \<and> micro_rules w = micro_rules v" unfolding evaluates_def x by blast
    with v(2,4) show "?I xs w" by simp
  qed
  then show ?thesis by blast
qed

lemmas rule_simps = evaluates_def bindE_def gets_def op_iff Let_def within_cap_def not_le remaining_today_def min_def

lemma evaluates_per_transaction: "evaluates (per_transaction_rule now txId amount)"
  by (auto simp: per_transaction_rule_def transaction_amount_def rule_simps
      split: if_splits option.splits dest!: depositToVault_capped [rotated 3])

lemma evaluates_threshold: "evaluates (threshold_rule now balance)"
  by (auto simp: threshold_rule_def rule_simps split: if_splits dest!: depositToVault_capped [rotated 3])

lemma evaluates_spending_goal: "evaluates (spending_goal_rule now goal)"
  by (auto simp: spending_goal_rule_def rule_simps split: if_splits dest!: depositToVault_capped [rotated 3])

lemma evaluations_capped:
  assumes "caps_respected s"
  shows "caps_respected (snd (evaluatePerTransaction now u txId amount c s)) \<and>
      micro_rules (snd (evaluatePerTransaction now u txId amount c s)) = micro_rules s"
    and "caps_respected (snd (evaluateBalanceThreshold now u c s)) \<and>
      micro_rules (snd (evaluateBalanceThreshold now u c s)) = micro_rules s"
    and "caps_respected (snd (evaluateSpendingGoalHit now u goal s)) \<and>
      micro_rules (snd (evaluateSpendingGoalHit now u goal s)) = micro_rules s"
  using forE_capped [OF evaluates_per_transaction surjective_pairing assms]
    forE_capped [OF evaluates_threshold surjective_pairing assms]
    forE_capped [OF evaluates_spending_goal surjective_pairing assms] assms
  by (auto simp: evaluatePerTransaction_def evaluateBalanceThreshold_def evaluateSpendingGoalHit_def bindE_def gets_def
      ret_def Let_def split: option.split)

section \<open>Changes of rules\<close>

lemma updateRule_capped:
  assumes "caps_respected s" and "ur_maxDailyContribution dto = None"
  shows "caps_respected (snd (updateRule u i dto s))"
proof (cases "updateRule u i dto s")
  case (Pair r t)
  show ?thesis
  proof (cases r)
    case (Inr x)
    with Pair assms(1) obtain rule where f: "tbl_find i (micro_rules s) = Some rule"
      and t: "t = s\<lparr>micro_rules := tbl_save i (rule_row (changed_rule dto rule)) (micro_rules s)\<rparr>"
      by (auto simp: updateRule_def find_rule_def save_rule_def op_iff caps_respected_def tbl_distinct_in dest!: find_SomeD)
    have "is_dec 8 (mr_maxDailyContribution rule)" using f assms(1) by (auto simp: caps_respected_def cap_ok_def)
    then have "mr_maxDailyContribution (rule_row (changed_rule dto rule)) = mr_maxDailyContribution rule"
      using assms(2) by (simp add: rule_row_def changed_rule_def or_else_def)
    with f assms(1) show ?thesis by (auto simp: Pair t caps_respected_def tbl_simps split: if_splits)
  next
    case (Inl e)
    with Pair have "t = s" by (auto simp: updateRule_def find_rule_def save_rule_def op_iff)
    with Pair assms(1) show ?thesis by simp
  qed
qed

lemma day_total_filter: "day_total day j (filter (\<lambda>c. mc_ruleId c \<noteq> i) cs) = (if j = i then 0 else day_total day j cs)"
  by (induction cs) (auto simp: day_total_def)

lemma deleteRule_capped:
  assumes "caps_respected s"
  shows "caps_respected (snd (deleteRule u i s))"
  using assms by (auto simp: deleteRule_def find_rule_def bindE_def gets_def modify_def from_option_def ret_def throw_def
      caps_respected_def contributions_ok_def day_total_filter tbl_simps split: option.splits if_splits)

lemma createRule_capped:
  assumes "caps_respected s" and "i \<notin> mc_ruleId ` set (contributions s)"
    and "cap_ok (pg_numeric 8 (num_to_string (cr_maxDailyContribution dto)))"
  shows "caps_respected (snd (createRule now i u dto s))"
proof -
  have none: "filter (\<lambda>c. mc_ruleId c = i \<and> utc_days (mc_createdAt c) = day) (contributions s) = []" for day
    using assms(2) by (force simp: filter_empty_conv)
  have "day_total day i (contributions s) = 0" for day by (simp add: day_total_def none)
  with assms show ?thesis
    by (auto simp: createRule_def save_rule_def bindE_def modify_def ret_def Let_def caps_respected_def rule_row_def
        tbl_simps cap_ok_def split: if_splits)
qed

section \<open>Runs\<close>

datatype micro_event =
    MicroTransaction int string string rat string
  | MicroThreshold int string string
  | MicroGoal int string string
  | MicroCreate int string string create_rule_dto
  | MicroUpdate string string update_rule_dto
  | MicroDelete string string

text \<open>A rule is created with an id that no rule and no contribution has.\<close>

fun micro_step :: "micro_event \<Rightarrow> micro_state \<Rightarrow> micro_state" where
  "micro_step (MicroTransaction now u txId amount c) s = snd (evaluatePerTransaction now u txId amount c s)"
| "micro_step (MicroThreshold now u c) s = snd (evaluateBalanceThreshold now u c s)"
| "micro_step (MicroGoal now u goal) s = snd (evaluateSpendingGoalHit now u goal s)"
| "micro_step (MicroCreate now i u dto) s =
     (if i \<in> fst ` set (micro_rules s) \<or> i \<in> mc_ruleId ` set (contributions s) then s
      else snd (createRule now i u dto s))"
| "micro_step (MicroUpdate u i dto) s = snd (updateRule u i dto s)"
| "micro_step (MicroDelete u i) s = snd (deleteRule u i s)"

text \<open>Caps below a million, which stay as they were set.\<close>

fun cap_event :: "micro_event \<Rightarrow> bool" where
  "cap_event (MicroCreate now i u dto) \<longleftrightarrow> cap_ok (pg_numeric 8 (num_to_string (cr_maxDailyContribution dto)))"
| "cap_event (MicroUpdate u i dto) \<longleftrightarrow> ur_maxDailyContribution dto = None"
| "cap_event _ \<longleftrightarrow> True"

interpretation micro_run: invariant_system micro_step cap_event caps_respected
proof unfold_locales
  fix s e assume "caps_respected s" and "cap_event e"
  then show "caps_respected (micro_step e s)"
    by (cases e) (auto simp: evaluations_capped intro: createRule_capped updateRule_capped deleteRule_capped)
qed

text \<open>A concrete rule of the demo user: a tenth of every transaction, at most \<open>cap\<close> a day.\<close>

definition demo_rule :: "rat \<Rightarrow> trigger_type \<Rightarrow> micro_rule" where
  "demo_rule cap trigger = \<lparr>mr_userId = ''bob'', mr_targetVaultId = ''v'', mr_isActive = True, mr_triggerType = trigger,
     mr_saveAmount = 0, mr_perTransactionConfig = Some \<lparr>minTransactionAmount = Some 10, savePercent = Some 10\<rparr>,
     mr_balanceThresholdConfig = Some \<lparr>thresholdAmount = Some 100, saveExcess = Some True\<rparr>,
     mr_maxDailyContribution = cap, mr_createdAt = 0\<rparr>"

definition demo_micro :: "rat \<Rightarrow> rat \<Rightarrow> trigger_type \<Rightarrow> string list \<Rightarrow> micro_state" where
  "demo_micro b cap trigger is = \<lparr>micro_vaults = demo_vaults b 0 ACTIVE,
     micro_rules = map (\<lambda>i. (i, demo_rule cap trigger)) is, contributions = []\<rparr>"

text \<open>C26. The contributions of a rule on any day sum up to at most its daily cap, exactly, along every run of
  evaluations, creations, deletions, and updates that leave caps unchanged, although the rest of a cap is computed with rounded numbers.\<close>

theorem micro_daily_cap:
  assumes "caps_respected s" and "\<And>e. e \<in> set es \<Longrightarrow> cap_event e"
    and "tbl_find i (micro_rules (fold micro_step es s)) = Some r"
  shows "day_total day i (contributions (fold micro_step es s)) \<le> mr_maxDailyContribution r"
  using micro_run.inv_run [OF assms(1,2)] assms(3) by (simp add: caps_respected_def)

theorem micro_daily_cap_witness:
  "day_total 0 ''r'' (contributions (fold micro_step
     [MicroTransaction 5 ''bob'' ''t1'' 60 ''XLM'', MicroTransaction 6 ''bob'' ''t2'' 50 ''XLM'',
      MicroTransaction 7 ''bob'' ''t3'' 5 ''XLM'', MicroTransaction 8 ''bob'' ''t4'' 70 ''XLM'']
     (demo_micro 500 (25 / 2) PER_TRANSACTION [''r'']))) \<le> 25 / 2"
proof (rule order_trans [OF micro_daily_cap [where r = "demo_rule (25 / 2) PER_TRANSACTION"]])
  have "cap_ok (25 / 2)" using is_dec_iff [of 8 "25 / 2"] by (auto simp: cap_ok_def intro: exI [of _ 1250000000])
  then show ok: "caps_respected (demo_micro 500 (25 / 2) PER_TRANSACTION [''r''])"
    by (auto simp: caps_respected_def demo_micro_def demo_rule_def contributions_ok_def day_total_def cap_ok_def tbl_find_def
        split: if_splits)
  then show "tbl_find ''r'' (micro_rules (fold micro_step
     [MicroTransaction 5 ''bob'' ''t1'' 60 ''XLM'', MicroTransaction 6 ''bob'' ''t2'' 50 ''XLM'',
      MicroTransaction 7 ''bob'' ''t3'' 5 ''XLM'', MicroTransaction 8 ''bob'' ''t4'' 70 ''XLM'']
     (demo_micro 500 (25 / 2) PER_TRANSACTION [''r'']))) = Some (demo_rule (25 / 2) PER_TRANSACTION)"
    by (simp add: evaluations_capped) (simp add: demo_micro_def tbl_find_def)
qed (auto simp: demo_rule_def)

section \<open>What a contribution moves\<close>

lemma contribution_moves:
  assumes v: "tbl_find (mr_targetVaultId rule) (vaults (micro_vaults s)) = Some v" "v_userId v = mr_userId rule" "v_status v = ACTIVE"
    and u: "findById (mr_userId rule) (micro_vaults s) = Some u" "amount \<le> balance_of u (v_currency v)"
  shows "\<exists>t. depositToVault now i rule amount trigger tx goal s = (Inr (), t) \<and>
    user_balance (mr_userId rule) (v_currency v) (micro_vaults t) =
      js_sub (user_balance (mr_userId rule) (v_currency v) (micro_vaults s)) amount \<and>
    (\<exists>w. findById (mr_userId rule) (micro_vaults t) = Some w) \<and> micro_rules t = micro_rules s \<and>
    tbl_find (mr_targetVaultId rule) (vaults (micro_vaults t)) = Some (vault_row (v\<lparr>v_currentBalance :=
      num_to_string (js_add (parse_float (v_currentBalance v)) amount)\<rparr>)) \<and>
    contributions t = contributions s @ [\<lparr>mc_ruleId = i, mc_userId = mr_userId rule, mc_vaultId = mr_targetVaultId rule,
      mc_amount = pg_numeric 8 (num_to_string amount), mc_triggerType = trigger, mc_sourceTransactionId = tx,
      mc_sourceSpendingGoalId = goal, mc_createdAt = now\<rparr>]"
proof -
  let ?b = "balance_of u (v_currency v)" and ?u = "mr_userId rule" and ?i = "mr_targetVaultId rule"
  obtain d q where w: "deposit_write ?u ?i amount (u, ?b) (micro_vaults s) = (Inr d, q)"
    using v(1) by (auto simp: deposit_write_def vault_op_defs op_defs Let_def)
  have "deposit ?u ?i amount (micro_vaults s) = (Inr d, q)"
    using v u w by (auto simp: deposit_def op_iff deposit_read_Inr)
  moreover from w v(1) have "tbl_find ?i (vaults q) = Some (vault_row (v\<lparr>v_currentBalance :=
      num_to_string (js_add (parse_float (v_currentBalance v)) amount)\<rparr>)) \<and>
    user_balance ?u (v_currency v) q = js_sub ?b amount \<and> (\<exists>w. findById ?u q = Some w)"
    using u(1) by (auto elim!: deposit_write_Inr
        simp: tbl_simps user_balance_def findById_def updateByUserId_def balance_of_def set_balance_def)
  moreover have "user_balance ?u (v_currency v) (micro_vaults s) = ?b" using u(1) by (simp add: user_balance_def)
  ultimately show ?thesis
    by (auto simp: depositToVault_def on_vaults_def zoomE_def bindE_def save_contribution_def modify_def)
qed

text \<open>Two rules that save the excess over a threshold read the balance once, before the first of them takes its
  share: a balance of 150 over a threshold of 100 ends at 50.\<close>

theorem excess_saved_twice:
  "user_balance ''bob'' ''XLM'' (micro_vaults (snd (evaluateBalanceThreshold 5 ''bob'' ''XLM''
     (demo_micro 150 1000 BALANCE_THRESHOLD [''r'', ''q''])))) = 50"
proof -
  let ?s = "demo_micro 150 1000 BALANCE_THRESHOLD [''r'', ''q'']" and ?R = "demo_rule 1000 BALANCE_THRESHOLD"
  have rules: "mr_userId ?R = ''bob''" "mr_targetVaultId ?R = ''v''" "threshold_of ?R = 100" "saves_excess ?R"
    "mr_maxDailyContribution ?R = 1000" by (simp_all add: demo_rule_def threshold_of_def saves_excess_def or_else_def)
  have sub: "js_sub 150 100 = 50" "js_sub 150 50 = 100" "js_sub 100 50 = 50" "js_sub 1000 0 = 1000"
    using js_numeral_exact(2) [of 150 100] js_numeral_exact(2) [of 150 50] js_numeral_exact(2) [of 100 50] by simp_all
  have step: "\<exists>t. attempt (threshold_rule 5 150 (i, ?R)) s = (Inr (), t) \<and>
      user_balance ''bob'' ''XLM'' (micro_vaults t) = js_sub (user_balance ''bob'' ''XLM'' (micro_vaults s)) 50 \<and>
      (\<exists>u. findById ''bob'' (micro_vaults t) = Some u) \<and>
      (\<exists>v. tbl_find ''v'' (vaults (micro_vaults t)) = Some v \<and> v_userId v = ''bob'' \<and> v_status v = ACTIVE \<and> v_currency v = ''XLM'') \<and>
      (\<forall>j. j \<noteq> i \<longrightarrow> todays 5 j (contributions t) = todays 5 j (contributions s))"
    if "todays 5 i (contributions s) = []" and "tbl_find ''v'' (vaults (micro_vaults s)) = Some v" "v_userId v = ''bob''"
      "v_status v = ACTIVE" "v_currency v = ''XLM''" "findById ''bob'' (micro_vaults s) = Some u" "50 \<le> balance_of u ''XLM''" for i s v u
    using contribution_moves [of ?R s v u 50 5 i BALANCE_THRESHOLD None None] that rules
    by (auto simp: threshold_rule_def remaining_today_def getTodayContributionTotal_def bindE_def gets_def attempt_def tryE_def
        sub Let_def todays_def)
  have rs: "rules_for ''bob'' BALANCE_THRESHOLD ?s = [(''r'', ?R), (''q'', ?R)]"
    by (simp add: rules_for_def demo_micro_def demo_rule_def)
  have s: "micro_vaults ?s = demo_vaults 150 0 ACTIVE" "contributions ?s = []" by (simp_all add: demo_micro_def)
  obtain t v u where t: "attempt (threshold_rule 5 150 (''r'', ?R)) ?s = (Inr (), t)"
    and b: "user_balance ''bob'' ''XLM'' (micro_vaults t) = 100"
    and u: "findById ''bob'' (micro_vaults t) = Some u" and c: "todays 5 ''q'' (contributions t) = []"
    and v: "tbl_find ''v'' (vaults (micro_vaults t)) = Some v" "v_userId v = ''bob''" "v_status v = ACTIVE" "v_currency v = ''XLM''"
    using step [of "''r''" ?s "demo_vault 0 ACTIVE" "demo_user 150"] by (auto simp: s todays_def sub)
  have "50 \<le> balance_of u ''XLM''" using b u by (simp add: user_balance_def)
  from step [OF c v u this] obtain w where "attempt (threshold_rule 5 150 (''q'', ?R)) t = (Inr (), w)"
    "user_balance ''bob'' ''XLM'' (micro_vaults w) = 50" by (auto simp: b sub)
  then show ?thesis by (simp add: evaluateBalanceThreshold_def bindE_def gets_def ret_def rs s t)
qed

end
