(* ===== verification/Cards.thy ===== *)
theory Cards
  imports Sanctions Guards
begin

text \<open>
  Virtual payment cards (\<open>cards/cards.service.ts\<close>, \<open>cards/entities/virtual-card.entity.ts\<close>, \<open>cards/cards.controller.ts\<close>),
  which the service Stripe issues. The answer of Stripe to the n-th call, the check of a signature, the parts of a date
  that the database driver hands over, and how the database compares a condition on the JSON column \<open>metadata\<close> are
  parameters. The calls that Stripe accepted are recorded. The id of the user may be undefined: a repository leaves a
  condition with an undefined value out. The id of a cardholder, a column of the row of the user, has a table of its own, and
  the transactions of cards, which carry metadata, are kept apart from the others. A spending limit is a number.
\<close>

section \<open>Data\<close>

datatype card_status = CARD_ACTIVE | CARD_FROZEN | CARD_CANCELLED

record virtual_card =
  vc_userId :: string
  vc_stripeCardId :: string
  vc_last4 :: string
  vc_expMonth :: string
  vc_expYear :: string
  vc_brand :: "string option"
  vc_status :: card_status
  vc_spendLimit :: "rat option"
  vc_blockedMccs :: "string list option"

type_synonym metadata = "(string \<times> string) list"

record card_tx = transaction +
  t_metadata :: metadata

datatype stripe_call =
    CreateCardholder string string "string option" string string "int \<times> int \<times> int"
  | CreateIssuedCard string
  | CreateEphemeralKey string
  | UpdateIssuedCard string string
  | UpdateControls string "int option" "string list option"
  | ApproveAuthorization string
  | DeclineAuthorization string

record stripe_object =
  so_id :: string
  so_last4 :: string
  so_expMonth :: string
  so_expYear :: string
  so_brand :: "string option"
  so_secret :: string

record stripe_authorization =
  sa_id :: string
  sa_card :: string
  sa_amount :: int

record stripe_transaction =
  st_id :: string
  st_card :: string
  st_amount :: int
  st_currency :: string

datatype stripe_event =
    AuthorizationRequest stripe_authorization
  | TransactionCreated stripe_transaction
  | OtherEvent string

record card_state = sanctions_state +
  cardholders :: "string table"
  cards :: "virtual_card table"
  card_txs :: "card_tx table"
  stripe_calls :: "stripe_call list"

record card_env =
  ce_uuid :: "nat \<Rightarrow> string"
  ce_stripe :: "nat \<Rightarrow> stripe_call \<Rightarrow> exn + stripe_object"
  ce_date :: "string \<Rightarrow> (int \<times> int \<times> int) option"
  ce_metadata :: "metadata \<Rightarrow> metadata \<Rightarrow> bool"
  ce_secret :: "string option"
  ce_construct :: "string \<Rightarrow> string \<Rightarrow> string \<Rightarrow> stripe_event option"

record controls_dto =
  uc_spendLimit :: "rat option"
  uc_blockedMccs :: "string list option"

definition where_is :: "'a option \<Rightarrow> 'a \<Rightarrow> bool" where
  "where_is x a = (case x of None \<Rightarrow> True | Some b \<Rightarrow> a = b)"

definition stripe :: "card_env \<Rightarrow> stripe_call \<Rightarrow> ('a card_state_scheme, stripe_object) op" where
  "stripe E c =
     bindE (gets calls) (\<lambda>n.
     bindE (modify (\<lambda>s. s\<lparr>calls := Suc n\<rparr>)) (\<lambda>_.
     bindE (from_sum (ce_stripe E n c)) (\<lambda>answer.
     bindE (modify (\<lambda>s. s\<lparr>stripe_calls := stripe_calls s @ [c]\<rparr>)) (\<lambda>_. ret answer))))"

definition save_card :: "string \<Rightarrow> virtual_card \<Rightarrow> ('a card_state_scheme, virtual_card) op" where
  "save_card i c =
     (let row = c\<lparr>vc_spendLimit := map_option (pg_numeric 8) (vc_spendLimit c)\<rparr>
      in bindE (modify (\<lambda>s. s\<lparr>cards := tbl_save i row (cards s)\<rparr>)) (\<lambda>_. ret c))"

section \<open>Creating a card\<close>

definition approved_record :: "string option \<Rightarrow> 'a sanctions_state_scheme \<Rightarrow> kyc_record option" where
  "approved_record userId s =
     map_option snd (List.find (\<lambda>(i, r). where_is userId (kr_userId r) \<and> kr_approved r) (kyc_records s))"

definition no_kyc :: exn where
  "no_kyc = ForbiddenException ''KYC must be approved to create a card''"

definition checkUserKycApproved :: "string option \<Rightarrow> ('a sanctions_state_scheme, unit) op" where
  "checkUserKycApproved userId =
     bindE (gets (approved_record userId)) (\<lambda>kycRecord. require (kycRecord \<noteq> None) no_kyc)"

definition text_or_empty :: "string option \<Rightarrow> string" where
  "text_or_empty x = (case x of None \<Rightarrow> [] | Some t \<Rightarrow> t)"

definition getOrCreateStripeCardholder :: "card_env \<Rightarrow> string \<Rightarrow> user \<Rightarrow> ('a card_state_scheme, string) op" where
  "getOrCreateStripeCardholder E i user =
     bindE (gets (\<lambda>s. tbl_find i (cardholders s))) (\<lambda>known.
     if truthy known then ret (the known)
     else
       bindE (gets (approved_record (Some i))) (\<lambda>found.
       bindE (from_option no_kyc found) (\<lambda>kycRecord.
       bindE (from_option (PlainError ''kycRecord.dateOfBirth.getDate is not a function'') (ce_date E (kr_dateOfBirth kycRecord))) (\<lambda>dob.
       bindE (stripe E (CreateCardholder (kr_fullName kycRecord) (u_email user) (or_null (u_phone user))
         (text_or_empty (u_firstName user)) (text_or_empty (u_lastName user)) dob)) (\<lambda>cardholder.
       bindE (modify (\<lambda>s. s\<lparr>cardholders := tbl_save i (so_id cardholder) (cardholders s)\<rparr>)) (\<lambda>_.
       ret (so_id cardholder)))))))"

definition createCard :: "card_env \<Rightarrow> string option \<Rightarrow> ('a card_state_scheme, string \<times> virtual_card) op" where
  "createCard E userId =
     bindE (checkUserKycApproved userId) (\<lambda>_.
     bindE (gets (\<lambda>s. List.find (\<lambda>(i, c). where_is userId (vc_userId c) \<and> vc_status c = CARD_ACTIVE) (cards s))) (\<lambda>existingCard.
     bindE (require (existingCard = None) (BadRequestException ''User already has an active card'')) (\<lambda>_.
     bindE (gets (\<lambda>s. List.find (\<lambda>(i, u). where_is userId i) (users s))) (\<lambda>found.
     bindE (from_option (NotFoundException ''User not found'') found) (\<lambda>(i, user).
     bindE (getOrCreateStripeCardholder E i user) (\<lambda>cardholderId.
     bindE (stripe E (CreateIssuedCard cardholderId)) (\<lambda>stripeCard.
     bindE (from_option (PlainError ''null value in column userId violates not-null constraint'') userId) (\<lambda>owner.
     bindE (next_id (ce_uuid E)) (\<lambda>newId.
     bindE (save_card newId \<lparr>vc_userId = owner, vc_stripeCardId = so_id stripeCard, vc_last4 = so_last4 stripeCard,
       vc_expMonth = so_expMonth stripeCard, vc_expYear = so_expYear stripeCard, vc_brand = so_brand stripeCard,
       vc_status = CARD_ACTIVE, vc_spendLimit = None, vc_blockedMccs = Some []\<rparr>) (\<lambda>card.
     ret (newId, card)))))))))))"

section \<open>Using a card\<close>

definition getCards :: "string option \<Rightarrow> 'a card_state_scheme \<Rightarrow> (string \<times> virtual_card) list" where
  "getCards userId s = filter (\<lambda>(i, c). where_is userId (vc_userId c)) (cards s)"

definition getCardById :: "string \<Rightarrow> string option \<Rightarrow> ('a card_state_scheme, virtual_card) op" where
  "getCardById cardId userId =
     bindE (gets (\<lambda>s. List.find (\<lambda>(i, c). i = cardId \<and> where_is userId (vc_userId c)) (cards s))) (\<lambda>found.
     bindE (from_option (NotFoundException ''Card not found'') found) (\<lambda>(i, card).
     ret card))"

definition revealCard :: "card_env \<Rightarrow> string \<Rightarrow> string option \<Rightarrow> ('a card_state_scheme, string) op" where
  "revealCard E cardId userId =
     bindE (getCardById cardId userId) (\<lambda>card.
     bindE (stripe E (CreateEphemeralKey (vc_stripeCardId card))) (\<lambda>ephemeralKey.
     ret (so_secret ephemeralKey)))"

text \<open>\<open>freezeCard\<close>, \<open>unfreezeCard\<close> and \<open>cancelCard\<close> differ in the two statuses.\<close>

definition change_status :: "card_env \<Rightarrow> string \<Rightarrow> card_status \<Rightarrow> string \<Rightarrow> string option \<Rightarrow> ('a card_state_scheme, virtual_card) op" where
  "change_status E stripeStatus status cardId userId =
     bindE (getCardById cardId userId) (\<lambda>card.
     bindE (stripe E (UpdateIssuedCard (vc_stripeCardId card) stripeStatus)) (\<lambda>_.
     save_card cardId (card\<lparr>vc_status := status\<rparr>)))"

definition freezeCard :: "card_env \<Rightarrow> string \<Rightarrow> string option \<Rightarrow> ('a card_state_scheme, virtual_card) op" where
  "freezeCard E = change_status E ''inactive'' CARD_FROZEN"

definition unfreezeCard :: "card_env \<Rightarrow> string \<Rightarrow> string option \<Rightarrow> ('a card_state_scheme, virtual_card) op" where
  "unfreezeCard E = change_status E ''active'' CARD_ACTIVE"

definition cancelCard :: "card_env \<Rightarrow> string \<Rightarrow> string option \<Rightarrow> ('a card_state_scheme, unit) op" where
  "cancelCard E cardId userId = bindE (change_status E ''canceled'' CARD_CANCELLED cardId userId) (\<lambda>_. ret ())"

definition updateCardControls ::
    "card_env \<Rightarrow> string \<Rightarrow> string option \<Rightarrow> controls_dto \<Rightarrow> ('a card_state_scheme, virtual_card) op" where
  "updateCardControls E cardId userId dto =
     bindE (getCardById cardId userId) (\<lambda>card.
     let limit = map_option (\<lambda>x. math_round (js_mul (parse_float x) 100)) (uc_spendLimit dto)
     in
     bindE (if uc_spendLimit dto = None \<and> uc_blockedMccs dto = None then ret ()
       else bindE (stripe E (UpdateControls (vc_stripeCardId card) limit (uc_blockedMccs dto))) (\<lambda>_. ret ())) (\<lambda>_.
     save_card cardId (card\<lparr>
       vc_spendLimit := (case uc_spendLimit dto of None \<Rightarrow> vc_spendLimit card | Some x \<Rightarrow> Some x),
       vc_blockedMccs := (case uc_blockedMccs dto of None \<Rightarrow> vc_blockedMccs card | Some x \<Rightarrow> Some x)\<rparr>)))"

definition getCardTransactions ::
    "card_env \<Rightarrow> string \<Rightarrow> string option \<Rightarrow> ('a card_state_scheme, (string \<times> card_tx) list) op" where
  "getCardTransactions E cardId userId =
     bindE (getCardById cardId userId) (\<lambda>card.
     gets (\<lambda>s. rev (sort_key (\<lambda>(i, t). t_createdAt t)
       (filter (\<lambda>(i, t). where_is userId (t_userId t) \<and> ce_metadata E [(''cardId'', cardId)] (t_metadata t)) (card_txs s)))))"

section \<open>Events of Stripe\<close>

definition card_by_stripe :: "string \<Rightarrow> 'a card_state_scheme \<Rightarrow> (string \<times> virtual_card) option" where
  "card_by_stripe stripeCardId s = List.find (\<lambda>(i, c). vc_stripeCardId c = stripeCardId) (cards s)"

definition answer_authorization :: "card_env \<Rightarrow> stripe_call \<Rightarrow> ('a card_state_scheme, unit) op" where
  "answer_authorization E c = bindE (stripe E c) (\<lambda>_. ret ())"

definition handleAuthorizationRequest :: "card_env \<Rightarrow> stripe_authorization \<Rightarrow> ('a card_state_scheme, unit) op" where
  "handleAuthorizationRequest E authorization =
     bindE (gets (card_by_stripe (sa_card authorization))) (\<lambda>found.
     case found of None \<Rightarrow> answer_authorization E (DeclineAuthorization (sa_id authorization))
     | Some (i, vcard) \<Rightarrow>
       bindE (gets (findById (vc_userId vcard))) (\<lambda>u.
       case u of None \<Rightarrow> answer_authorization E (DeclineAuthorization (sa_id authorization))
       | Some user \<Rightarrow>
         let usdBalance = balance_of user ''USD''; authorizationAmount = js_div (of_int (sa_amount authorization)) 100
         in if usdBalance < authorizationAmount
            then answer_authorization E (DeclineAuthorization (sa_id authorization))
            else answer_authorization E (ApproveAuthorization (sa_id authorization))))"

definition booked :: "card_env \<Rightarrow> string \<Rightarrow> string \<Rightarrow> 'a card_state_scheme \<Rightarrow> bool" where
  "booked E userId stripeId s \<longleftrightarrow> (\<exists>(i, t) \<in> set (card_txs s).
     t_userId t = userId \<and> ce_metadata E [(''stripeTransactionId'', stripeId)] (t_metadata t))"

definition card_tx_row :: "int \<Rightarrow> string \<Rightarrow> virtual_card \<Rightarrow> stripe_transaction \<Rightarrow> rat \<Rightarrow> card_tx" where
  "card_tx_row now cardId c tx amount = \<lparr>t_userId = vc_userId c, t_type = WITHDRAW,
     t_amount = pg_numeric 8 (num_to_string amount), t_currency = toUpperCase (st_currency tx), t_rate = None,
     t_status = SUCCESS, t_txHash = None, t_failureReason = None, t_feeAmount = None, t_feeCurrency = None,
     t_toCurrency = None, t_toAmount = None, t_createdAt = now, t_reference = None, t_counterpartyMemo = None,
     t_userNote = None, t_tags = None, t_categoryId = None,
     t_metadata = [(''stripeTransactionId'', st_id tx), (''cardId'', cardId)]\<rparr>"

definition handleTransactionCreated :: "card_env \<Rightarrow> int \<Rightarrow> stripe_transaction \<Rightarrow> ('a card_state_scheme, unit) op" where
  "handleTransactionCreated E now stripeTransaction =
     bindE (gets (card_by_stripe (st_card stripeTransaction))) (\<lambda>found.
     case found of None \<Rightarrow> ret ()
     | Some (cardId, vcard) \<Rightarrow>
       bindE (gets (booked E (vc_userId vcard) (st_id stripeTransaction))) (\<lambda>existing.
       if existing then ret ()
       else
         let amount = js_div (of_int (st_amount stripeTransaction)) 100; currency = toUpperCase (st_currency stripeTransaction)
         in
         bindE (gets (findById (vc_userId vcard))) (\<lambda>u.
         bindE (from_option (NotFoundException ''User not found'') u) (\<lambda>user.
         let newBalance = js_sub (balance_of user currency) amount
         in
         bindE (require (\<not> newBalance < 0) (BadRequestException ''Insufficient balance'')) (\<lambda>_.
         bindE (modify (updateByUserId (vc_userId vcard) (\<lambda>w. w\<lparr>u_balances := set_balance currency newBalance (u_balances user)\<rparr>))) (\<lambda>_.
         bindE (next_id (ce_uuid E)) (\<lambda>newId.
         modify (\<lambda>s. s\<lparr>card_txs := tbl_save newId (card_tx_row now cardId vcard stripeTransaction amount) (card_txs s)\<rparr>))))))))"

definition handleStripeWebhook :: "card_env \<Rightarrow> int \<Rightarrow> string \<Rightarrow> string \<Rightarrow> ('a card_state_scheme, unit) op" where
  "handleStripeWebhook E now body signature =
     bindE (from_option (BadRequestException ''Webhook secret not configured'')
       (if truthy (ce_secret E) then ce_secret E else None)) (\<lambda>webhookSecret.
     bindE (from_option (BadRequestException ''Invalid webhook signature'') (ce_construct E body signature webhookSecret)) (\<lambda>event.
     case event of
       AuthorizationRequest authorization \<Rightarrow> handleAuthorizationRequest E authorization
     | TransactionCreated transaction \<Rightarrow> handleTransactionCreated E now transaction
     | OtherEvent type \<Rightarrow> ret ()))"

section \<open>The controller\<close>

text \<open>\<open>req.user.id\<close>: the object that the strategy of the tokens attaches to a request has no property of this name.\<close>

definition req_user_id :: "request_user \<Rightarrow> string option" where
  "req_user_id user = None"

definition controller_getCards :: "request_user \<Rightarrow> 'a card_state_scheme \<Rightarrow> (string \<times> virtual_card) list" where
  "controller_getCards user = getCards (req_user_id user)"

definition controller_createCard :: "card_env \<Rightarrow> request_user \<Rightarrow> ('a card_state_scheme, string \<times> virtual_card) op" where
  "controller_createCard E user = createCard E (req_user_id user)"

definition controller_revealCard :: "card_env \<Rightarrow> request_user \<Rightarrow> string \<Rightarrow> ('a card_state_scheme, string) op" where
  "controller_revealCard E user cardId = revealCard E cardId (req_user_id user)"

definition controller_freezeCard :: "card_env \<Rightarrow> request_user \<Rightarrow> string \<Rightarrow> ('a card_state_scheme, virtual_card) op" where
  "controller_freezeCard E user cardId = freezeCard E cardId (req_user_id user)"

section \<open>Whose cards\<close>

lemma find_by_id: "List.find (\<lambda>(j, c). j = i \<and> where_is None (f c)) t = map_option (Pair i) (tbl_find i t)"
  by (induction t) (auto simp: tbl_find_def where_is_def)

lemma getCardById_anyone: "getCardById i None s = from_option (NotFoundException ''Card not found'') (tbl_find i (cards s)) s"
  by (cases "tbl_find i (cards s)")
    (auto simp: getCardById_def bindE_def gets_def from_option_def ret_def throw_def find_by_id)

text \<open>A concrete card of the demo user.\<close>

definition demo_card :: "card_status \<Rightarrow> virtual_card" where
  "demo_card st = \<lparr>vc_userId = ''bob'', vc_stripeCardId = ''ic_1'', vc_last4 = ''4242'', vc_expMonth = ''1'', vc_expYear = ''2030'',
     vc_brand = None, vc_status = st, vc_spendLimit = None, vc_blockedMccs = None\<rparr>"

definition demo_cards :: "rat \<Rightarrow> card_state" where
  "demo_cards b = \<lparr>users = [(''bob'', (demo_user 0)\<lparr>u_balances := [''USD'' \<mapsto> b]\<rparr>), (''eve'', demo_user 0)], wallets = [],
     notifications = [], calls = 0, payments = [], kyc_records = [], screenings = [], ofac_entries = [], cardholders = [],
     cards = [(''c'', demo_card CARD_ACTIVE)], card_txs = [], stripe_calls = []\<rparr>"

definition demo_card_env :: card_env where
  "demo_card_env = \<lparr>ce_uuid = (\<lambda>n. replicate n CHR ''x''),
     ce_stripe = (\<lambda>n c. Inr \<lparr>so_id = ''id'', so_last4 = ''4242'', so_expMonth = ''1'', so_expYear = ''2030'', so_brand = None,
       so_secret = ''ek_secret''\<rparr>), ce_date = (\<lambda>_. None), ce_metadata = (=), ce_secret = Some ''whsec'', ce_construct = (\<lambda>_ _ _. None)\<rparr>"

text \<open>C39. The controller reads an id that the token check does not attach to the request: whoever is signed in is shown
  the cards of all users, and can reveal the secret of any card and freeze it.\<close>

theorem cards_open_to_all:
  assumes "JwtStrategy_validate p s = (Inr ru, s)" and "tbl_find i (cards s) = Some c"
    and "\<And>call. \<exists>answer. ce_stripe E (calls s) call = Inr answer"
  shows "controller_getCards ru s = cards s \<and>
    (\<exists>answer t. ce_stripe E (calls s) (CreateEphemeralKey (vc_stripeCardId c)) = Inr answer \<and>
      controller_revealCard E ru i s = (Inr (so_secret answer), t)) \<and>
    (\<exists>t d. controller_freezeCard E ru i s = (Inr d, t) \<and> map_option vc_status (tbl_find i (cards t)) = Some CARD_FROZEN)"
proof (intro conjI)
  show "controller_getCards ru s = cards s"
    by (simp add: controller_getCards_def getCards_def req_user_id_def where_is_def)
  obtain a where "ce_stripe E (calls s) (CreateEphemeralKey (vc_stripeCardId c)) = Inr a" using assms(3) by blast
  with assms(2) show "\<exists>answer t. ce_stripe E (calls s) (CreateEphemeralKey (vc_stripeCardId c)) = Inr answer \<and>
      controller_revealCard E ru i s = (Inr (so_secret answer), t)"
    by (simp add: controller_revealCard_def revealCard_def req_user_id_def getCardById_anyone bindE_def from_option_def ret_def
        stripe_def gets_def modify_def from_sum_def)
  obtain b where "ce_stripe E (calls s) (UpdateIssuedCard (vc_stripeCardId c) ''inactive'') = Inr b" using assms(3) by blast
  with assms(2) show "\<exists>t d. controller_freezeCard E ru i s = (Inr d, t) \<and> map_option vc_status (tbl_find i (cards t)) = Some CARD_FROZEN"
    by (simp add: controller_freezeCard_def freezeCard_def change_status_def save_card_def req_user_id_def getCardById_anyone
        bindE_def from_option_def ret_def stripe_def gets_def modify_def from_sum_def Let_def tbl_simps)
qed

theorem cards_open_to_all_witness:
  "\<exists>ru t. JwtStrategy_validate (impersonation_payload ''root'' ''eve'' ''j'') (demo_cards 5) = (Inr ru, demo_cards 5) \<and>
     ru_userId ru = ''eve'' \<and> vc_userId (demo_card CARD_ACTIVE) = ''bob'' \<and>
     controller_revealCard demo_card_env ru ''c'' (demo_cards 5) = (Inr ''ek_secret'', t)"
proof -
  obtain ru where v: "JwtStrategy_validate (impersonation_payload ''root'' ''eve'' ''j'') (demo_cards 5) = (Inr ru, demo_cards 5)"
    and e: "ru_userId ru = ''eve''"
    by (simp add: JwtStrategy_validate_def impersonation_payload_def demo_cards_def findById_def tbl_find_def bindE_def gets_def
        from_option_def require_def ret_def demo_user_def)
  have c: "tbl_find ''c'' (cards (demo_cards 5)) = Some (demo_card CARD_ACTIVE)" by (simp add: demo_cards_def tbl_find_def)
  from cards_open_to_all [OF v c, of demo_card_env] e v show ?thesis by (auto simp: demo_card_env_def demo_card_def)
qed

section \<open>Notices of payments\<close>

text \<open>The rows that the service writes: the metadata have two entries.\<close>

definition card_rows :: "'a card_state_scheme \<Rightarrow> bool" where
  "card_rows s \<longleftrightarrow> (\<forall>(j, t) \<in> set (card_txs s). length (t_metadata t) = 2)"

lemma handleTransactionCreated_booked:
  assumes "card_by_stripe (st_card x) s = Some (i, c)" and "\<not> booked E (vc_userId c) (st_id x) s"
    and "findById (vc_userId c) s = Some u"
    and "amount = js_div (of_int (st_amount x)) 100" and "currency = toUpperCase (st_currency x)"
    and "0 \<le> js_sub (user_balance (vc_userId c) currency s) amount"
  shows "\<exists>t. handleTransactionCreated E now x s = (Inr (), t) \<and>
    (\<forall>w d. user_balance w d t = (if w = vc_userId c \<and> d = currency
      then js_sub (user_balance w d s) amount else user_balance w d s)) \<and>
    card_txs t = tbl_save (ce_uuid E (calls s)) (card_tx_row now i c x amount) (card_txs s) \<and>
    cards t = cards s \<and> (\<exists>w. findById (vc_userId c) t = Some w)"
proof -
  have b: "user_balance (vc_userId c) currency s = balance_of u currency" using assms(3) by (simp add: user_balance_def)
  show ?thesis using assms unfolding b
    by (auto simp: handleTransactionCreated_def bindE_def gets_def from_option_def ret_def require_def modify_def next_id_def Let_def
        updateByUserId_def findById_def tbl_simps user_balance_def set_balance_def balance_of_def not_less split: option.splits)
qed



text \<open>The driver hands over a date column as a text, and the methods of \<open>Date\<close> do not exist on it: as long as nobody
  has a cardholder, no card and no cardholder is created.\<close>

lemma createCard_without_dates:
  assumes "\<And>d. ce_date E d = None" and "cardholders s = []"
  shows "\<exists>e. createCard E userId s = (Inl e, s)"
  using assms(2)
  by (auto simp: createCard_def checkUserKycApproved_def getOrCreateStripeCardholder_def assms(1) truthy_def tbl_find_def
      bindE_def gets_def require_def from_option_def ret_def throw_def split: option.split)

end
