(* ===== verification/RateAlerts.thy ===== *)
theory RateAlerts
  imports Markets
begin

text \<open>
  Alerts on exchange rates (\<open>rate-alerts/rate-alerts.service.ts\<close>, \<open>rate-alerts/entities/rate-alert.entity.ts\<close>) and
  the scheduled check that triggers them. The rates of the provider and whether the dispatch of a notification throws are parameters. A rate is a
  number that is compared through its printed decimal. Audit entries and webhooks are left out. The pair of an
  alert, which the code joins with a bar and splits again, is a pair of codes.
\<close>

section \<open>Data\<close>

datatype alert_condition = ABOVE | BELOW

record rate_alert =
  ra_userId :: string
  ra_fromCurrency :: string
  ra_toCurrency :: string
  ra_targetRate :: rat
  ra_condition :: alert_condition
  ra_isActive :: bool
  ra_recurring :: bool
  ra_triggeredAt :: "int option"
  ra_createdAt :: int

record create_alert_dto =
  ad_fromCurrency :: string
  ad_toCurrency :: string
  ad_targetRate :: rat
  ad_condition :: alert_condition
  ad_recurring :: "bool option"

record check_result =
  cr_checked :: nat
  cr_triggered :: nat
  cr_reactivated :: nat

record alert_state = base +
  alert_currencies :: currencies
  alerts :: "rate_alert table"

record alert_env =
  al_rate :: rates
  al_dispatch :: "string \<Rightarrow> exn option"

section \<open>Requests\<close>

definition createAlert :: "int \<Rightarrow> string \<Rightarrow> string \<Rightarrow> create_alert_dto \<Rightarrow> ('a alert_state_scheme, string \<times> rate_alert) op" where
  "createAlert now newId userId dto =
     (let fromCurrency = trim (toUpperCase (ad_fromCurrency dto)); toCurrency = trim (toUpperCase (ad_toCurrency dto))
      in
      bindE (require (fromCurrency \<noteq> toCurrency) (BadRequestException ''fromCurrency and toCurrency must be different'')) (\<lambda>_.
      bindE (readE alert_currencies (validateCurrency fromCurrency)) (\<lambda>_.
      bindE (readE alert_currencies (validateCurrency toCurrency)) (\<lambda>_.
      let alert = \<lparr>ra_userId = userId, ra_fromCurrency = fromCurrency, ra_toCurrency = toCurrency,
            ra_targetRate = num_to_string (ad_targetRate dto), ra_condition = ad_condition dto, ra_isActive = True,
            ra_recurring = (case ad_recurring dto of None \<Rightarrow> False | Some b \<Rightarrow> b), ra_triggeredAt = None, ra_createdAt = now\<rparr>
      in
      bindE (modify (\<lambda>s. s\<lparr>alerts := tbl_save newId (alert\<lparr>ra_targetRate := pg_numeric 8 (ra_targetRate alert)\<rparr>) (alerts s)\<rparr>)) (\<lambda>_.
      ret (newId, alert))))))"

definition getUserAlerts :: "string \<Rightarrow> 'a alert_state_scheme \<Rightarrow> (string \<times> rate_alert) list" where
  "getUserAlerts userId s = rev (sort_key (\<lambda>(i, a). ra_createdAt a) (filter (\<lambda>(i, a). ra_userId a = userId) (alerts s)))"

definition find_alert :: "string \<Rightarrow> string \<Rightarrow> ('a alert_state_scheme, rate_alert) op" where
  "find_alert userId alertId =
     bindE (gets (\<lambda>s. List.find (\<lambda>(i, a). i = alertId \<and> ra_userId a = userId) (alerts s))) (\<lambda>found.
     from_option (NotFoundException ''Rate alert not found'') (map_option snd found))"

definition deleteAlert :: "string \<Rightarrow> string \<Rightarrow> ('a alert_state_scheme, unit) op" where
  "deleteAlert userId alertId =
     bindE (find_alert userId alertId) (\<lambda>_.
     modify (\<lambda>s. s\<lparr>alerts := tbl_remove alertId (alerts s)\<rparr>))"

definition resetAlert :: "string \<Rightarrow> string \<Rightarrow> ('a alert_state_scheme, rate_alert) op" where
  "resetAlert userId alertId =
     bindE (find_alert userId alertId) (\<lambda>alert.
     let saved = alert\<lparr>ra_isActive := True, ra_triggeredAt := None\<rparr>
     in bindE (modify (\<lambda>s. s\<lparr>alerts := tbl_save alertId saved (alerts s)\<rparr>)) (\<lambda>_. ret saved))"

section \<open>The check\<close>

definition one_day :: int where
  "one_day = 24 * 60 * 60 * 1000"

definition due_again :: "int \<Rightarrow> rate_alert \<Rightarrow> bool" where
  "due_again now a \<longleftrightarrow> ra_recurring a \<and> \<not> ra_isActive a \<and>
     (case ra_triggeredAt a of None \<Rightarrow> False | Some t \<Rightarrow> t \<le> now - one_day)"

definition reactivateRecurringAlerts :: "int \<Rightarrow> ('a alert_state_scheme, nat) op" where
  "reactivateRecurringAlerts now =
     bindE (gets (\<lambda>s. filter (\<lambda>(i, a). due_again now a) (alerts s))) (\<lambda>recurringAlerts.
     if recurringAlerts = [] then ret 0
     else
       bindE (modify (\<lambda>s. s\<lparr>alerts := fold (\<lambda>(i, a). tbl_save i (a\<lparr>ra_isActive := True\<rparr>)) recurringAlerts (alerts s)\<rparr>)) (\<lambda>_.
       ret (length recurringAlerts)))"

definition shouldTriggerAlert :: "alert_condition \<Rightarrow> rat \<Rightarrow> rat \<Rightarrow> bool" where
  "shouldTriggerAlert condition currentRate targetRate =
     (if condition = ABOVE then targetRate \<le> currentRate else currentRate \<le> targetRate)"

definition triggerAlert :: "alert_env \<Rightarrow> int \<Rightarrow> string \<Rightarrow> rate_alert \<Rightarrow> ('a alert_state_scheme, unit) op" where
  "triggerAlert E now i alert =
     bindE (case al_dispatch E i of Some e \<Rightarrow> throw e | None \<Rightarrow>
       modify (notify (ra_userId alert) ''Rate Alert Triggered''
         ''${alert.fromCurrency}/${alert.toCurrency} is now ${currentRateNum}. Your ${alert.condition} ${alert.targetRate} alert was triggered.'')) (\<lambda>_.
     modify (\<lambda>s. s\<lparr>alerts := tbl_update i (\<lambda>a. if ra_isActive a then a\<lparr>ra_isActive := False, ra_triggeredAt := Some now\<rparr> else a)
       (alerts s)\<rparr>))"

definition pair_of :: "rate_alert \<Rightarrow> string \<times> string" where
  "pair_of a = (ra_fromCurrency a, ra_toCurrency a)"

text \<open>The rates of the pairs of the active alerts; a pair without a rate has no entry.\<close>

definition rates_by_pair :: "alert_env \<Rightarrow> (string \<times> rate_alert) list \<Rightarrow> ((string \<times> string) \<times> rat) list" where
  "rates_by_pair E active = concat (map (\<lambda>(f, t). case al_rate E f t of Inl _ \<Rightarrow> [] | Inr r \<Rightarrow> [((f, t), num_to_string r)])
     (remdups (map (\<lambda>(i, a). pair_of a) active)))"

fun evaluate_alerts ::
    "alert_env \<Rightarrow> int \<Rightarrow> ((string \<times> string) \<times> rat) list \<Rightarrow> (string \<times> rate_alert) list \<Rightarrow> nat \<Rightarrow> ('a alert_state_scheme, nat) op" where
  "evaluate_alerts E now rateByPair [] triggered = ret triggered"
| "evaluate_alerts E now rateByPair ((i, alert) # rest) triggered =
     (case map_of rateByPair (pair_of alert) of
        None \<Rightarrow> evaluate_alerts E now rateByPair rest triggered
      | Some currentRate \<Rightarrow>
          if \<not> shouldTriggerAlert (ra_condition alert) currentRate (ra_targetRate alert)
          then evaluate_alerts E now rateByPair rest triggered
          else bindE (triggerAlert E now i alert) (\<lambda>_. evaluate_alerts E now rateByPair rest (triggered + 1)))"

definition checkAndTriggerAlerts :: "alert_env \<Rightarrow> int \<Rightarrow> ('a alert_state_scheme, check_result) op" where
  "checkAndTriggerAlerts E now =
     bindE (reactivateRecurringAlerts now) (\<lambda>reactivated.
     bindE (gets (\<lambda>s. filter (\<lambda>(i, a). ra_isActive a) (alerts s))) (\<lambda>activeAlerts.
     if activeAlerts = [] then ret \<lparr>cr_checked = 0, cr_triggered = 0, cr_reactivated = reactivated\<rparr>
     else
       bindE (evaluate_alerts E now (rates_by_pair E activeAlerts) activeAlerts 0) (\<lambda>triggered.
       ret \<lparr>cr_checked = length activeAlerts, cr_triggered = triggered, cr_reactivated = reactivated\<rparr>)))"

section \<open>What a check does\<close>

definition reactivated :: "int \<Rightarrow> rate_alert \<Rightarrow> rate_alert" where
  "reactivated now a = (if due_again now a then a\<lparr>ra_isActive := True\<rparr> else a)"

definition meets_target :: "alert_env \<Rightarrow> rate_alert \<Rightarrow> bool" where
  "meets_target E a \<longleftrightarrow> (case al_rate E (ra_fromCurrency a) (ra_toCurrency a) of
     Inl _ \<Rightarrow> False | Inr r \<Rightarrow> shouldTriggerAlert (ra_condition a) (num_to_string r) (ra_targetRate a))"

definition fires :: "alert_env \<Rightarrow> int \<Rightarrow> rate_alert \<Rightarrow> bool" where
  "fires E now a \<longleftrightarrow> ra_isActive (reactivated now a) \<and> meets_target E a"

definition after_check :: "alert_env \<Rightarrow> int \<Rightarrow> rate_alert \<Rightarrow> rate_alert" where
  "after_check E now a = (if fires E now a then a\<lparr>ra_isActive := False, ra_triggeredAt := Some now\<rparr> else reactivated now a)"

definition alert_notice :: "rate_alert \<Rightarrow> notification" where
  "alert_notice a = \<lparr>n_userId = ra_userId a, n_title = ''Rate Alert Triggered'', n_message =
     ''${alert.fromCurrency}/${alert.toCurrency} is now ${currentRateNum}. Your ${alert.condition} ${alert.targetRate} alert was triggered.''\<rparr>"

lemma tbl_save_map: "distinct (map fst t) \<Longrightarrow> (i, a) \<in> set t \<Longrightarrow> tbl_save i b t = map (\<lambda>(j, v). if j = i then (j, b) else (j, v)) t"
proof (induction t)
  case (Cons x t)
  obtain k w where x: "x = (k, w)" by fastforce
  show ?case
  proof (cases "k = i")
    case True
    with Cons.prems have "i \<notin> fst ` set t" by (simp add: x)
    then have "map (\<lambda>(j, v). if j = i then (j, b) else (j, v)) t = t" by (force intro: map_idI)
    with True show ?thesis by (simp add: x tbl_save_def)
  next
    case False
    with Cons show ?thesis by (auto simp: x tbl_save_def)
  qed
qed simp

lemma save_all_map:
  assumes "distinct (map fst t)" and "distinct (map fst rs)" and "set rs \<subseteq> set t"
  shows "fold (\<lambda>(i, a). tbl_save i (f a)) rs t = map (\<lambda>(j, v). if j \<in> fst ` set rs then (j, f v) else (j, v)) t"
  using assms(2,3)
proof (induction rs rule: rev_induct)
  case Nil
  then show ?case by simp
next
  case (snoc x rs)
  obtain i a where x: "x = (i, a)" by fastforce
  let ?t = "map (\<lambda>(j, v). if j \<in> fst ` set rs then (j, f v) else (j, v)) t"
  have IH: "fold (\<lambda>(i, a). tbl_save i (f a)) rs t = ?t" using snoc by simp
  have keys: "map fst ?t = map fst t" by (simp add: comp_def case_prod_beta if_distrib cong: if_cong)
  have "i \<notin> fst ` set rs" "(i, a) \<in> set t" using snoc.prems by (auto simp: x)
  then have "(i, a) \<in> set ?t" by (intro image_eqI [of _ _ "(i, a)", THEN subsetD [OF eq_refl [OF set_map [symmetric]]]]) simp_all
  moreover have "distinct (map fst ?t)" unfolding keys by (rule assms(1))
  ultimately have "tbl_save i (f a) ?t = map (\<lambda>(j, v). if j = i then (j, f a) else (j, v)) ?t" by (intro tbl_save_map)
  also have "\<dots> = map (\<lambda>(j, v). if j \<in> fst ` set (rs @ [x]) then (j, f v) else (j, v)) t"
    using \<open>i \<notin> fst ` set rs\<close> \<open>(i, a) \<in> set t\<close> by (auto simp: x dest: eq_key_imp_eq_value [OF assms(1)])
  finally show ?case using IH by (simp add: x)
qed

lemma reactivate_result:
  assumes "distinct (map fst (alerts s))"
  shows "reactivateRecurringAlerts now s =
    (Inr (length (filter (\<lambda>(i, a). due_again now a) (alerts s))), s\<lparr>alerts := map (\<lambda>(i, a). (i, reactivated now a)) (alerts s)\<rparr>)"
proof -
  let ?rs = "filter (\<lambda>(i, a). due_again now a) (alerts s)"
  have "j \<in> fst ` set ?rs \<longleftrightarrow> due_again now v" if "(j, v) \<in> set (alerts s)" for j v
    using that eq_key_imp_eq_value [OF assms] by (auto simp: image_iff)
  then have "fold (\<lambda>(i, a). tbl_save i (a\<lparr>ra_isActive := True\<rparr>)) ?rs (alerts s) = map (\<lambda>(i, a). (i, reactivated now a)) (alerts s)"
    by (subst save_all_map [OF assms distinct_fst_filter [OF assms]]) (auto simp: reactivated_def)
  moreover have "map (\<lambda>(i, a). (i, reactivated now a)) (alerts s) = alerts s" if "?rs = []"
    using that by (auto simp: filter_empty_conv reactivated_def intro!: map_idI)
  ultimately show ?thesis by (auto simp: reactivateRecurringAlerts_def bindE_def gets_def modify_def ret_def)
qed


lemma rates_by_pair_meets:
  assumes "(i, a) \<in> set active"
  shows "(case map_of (rates_by_pair E active) (pair_of a) of None \<Rightarrow> False
    | Some r \<Rightarrow> shouldTriggerAlert (ra_condition a) r (ra_targetRate a)) = meets_target E a"
proof -
  let ?f = "\<lambda>(f, t). case al_rate E f t of Inl _ \<Rightarrow> [] | Inr r \<Rightarrow> [((f, t), num_to_string r)]"
  have "map_of (concat (map ?f ps)) p = (if p \<in> set ps then (case al_rate E (fst p) (snd p) of Inl _ \<Rightarrow> None
      | Inr r \<Rightarrow> Some (num_to_string r)) else None)" for ps p
    by (induction ps) (auto split: sum.split)
  moreover have "pair_of a \<in> (\<lambda>(i, a). pair_of a) ` set active" using assms by force
  ultimately show ?thesis by (auto simp: rates_by_pair_def meets_target_def pair_of_def split: sum.split)
qed

text \<open>The rows that a list of evaluated alerts deactivates.\<close>

definition deactivate :: "alert_env \<Rightarrow> int \<Rightarrow> (string \<times> rate_alert) list \<Rightarrow> rate_alert table \<Rightarrow> rate_alert table" where
  "deactivate E now xs t = map (\<lambda>(j, v). (j, if ra_isActive v \<and> (\<exists>a. (j, a) \<in> set xs \<and> meets_target E a)
     then v\<lparr>ra_isActive := False, ra_triggeredAt := Some now\<rparr> else v)) t"

lemma deactivate_Nil: "deactivate E now [] t = t"
  by (simp add: deactivate_def)

lemma deactivate_Cons: "deactivate E now ((i, a) # xs) t = deactivate E now xs (if meets_target E a
    then tbl_update i (\<lambda>a. if ra_isActive a then a\<lparr>ra_isActive := False, ra_triggeredAt := Some now\<rparr> else a) t else t)"
  by (auto simp: deactivate_def tbl_update_def)

lemma evaluate_alerts_result:
  assumes "\<And>i. al_dispatch E i = None"
    and "\<And>i a. (i, a) \<in> set xs \<Longrightarrow> (case map_of R (pair_of a) of None \<Rightarrow> False
      | Some r \<Rightarrow> shouldTriggerAlert (ra_condition a) r (ra_targetRate a)) = meets_target E a"
  shows "evaluate_alerts E now R xs n s = (Inr (n + length (filter (\<lambda>(i, a). meets_target E a) xs)),
    s\<lparr>notifications := notifications s @ map (\<lambda>(i, a). alert_notice a) (filter (\<lambda>(i, a). meets_target E a) xs),
      alerts := deactivate E now xs (alerts s)\<rparr>)"
  using assms(2)
proof (induction xs arbitrary: n s)
  case Nil
  then show ?case by (simp add: ret_def deactivate_Nil)
next
  case (Cons x xs)
  obtain i a where x: "x = (i, a)" by fastforce
  have IH: "evaluate_alerts E now R xs n s = (Inr (n + length (filter (\<lambda>(i, a). meets_target E a) xs)),
    s\<lparr>notifications := notifications s @ map (\<lambda>(i, a). alert_notice a) (filter (\<lambda>(i, a). meets_target E a) xs),
      alerts := deactivate E now xs (alerts s)\<rparr>)" for n and s :: "'a alert_state_scheme"
    using Cons.prems unfolding x by (intro Cons.IH) (meson list.set_intros(2))
  show ?case
  proof (cases "meets_target E a")
    case True
    have "evaluate_alerts E now R (x # xs) n s = evaluate_alerts E now R xs (n + 1) (s\<lparr>notifications := notifications s @ [alert_notice a],
      alerts := tbl_update i (\<lambda>a. if ra_isActive a then a\<lparr>ra_isActive := False, ra_triggeredAt := Some now\<rparr> else a) (alerts s)\<rparr>)"
      using True Cons.prems [of i a]
      by (auto simp: x triggerAlert_def assms(1) bindE_def modify_def notify_def alert_notice_def split: option.splits)
    then show ?thesis using True by (simp add: x IH deactivate_Cons)
  next
    case False
    then have "evaluate_alerts E now R (x # xs) n s = evaluate_alerts E now R xs n s"
      using Cons.prems [of i a] by (auto simp: x split: option.splits)
    with False show ?thesis by (simp add: x IH deactivate_Cons)
  qed
qed




text \<open>A concrete table: an alert that fires, one that is not reached, one that is due again and fires, one that fired an hour ago.\<close>

definition demo_alert :: "alert_condition \<Rightarrow> rat \<Rightarrow> bool \<Rightarrow> int option \<Rightarrow> rate_alert" where
  "demo_alert c r active t = \<lparr>ra_userId = ''bob'', ra_fromCurrency = ''USD'', ra_toCurrency = ''NGN'', ra_targetRate = r,
     ra_condition = c, ra_isActive = active, ra_recurring = True, ra_triggeredAt = t, ra_createdAt = 0\<rparr>"

definition demo_alerts :: alert_state where
  "demo_alerts = \<lparr>users = [], wallets = [], notifications = [], alert_currencies = [],
     alerts = [(''a'', demo_alert ABOVE 1500 True None), (''b'', demo_alert BELOW 1500 True None),
       (''c'', demo_alert ABOVE 1600 False (Some 0)), (''d'', demo_alert ABOVE 1600 False (Some 82800000))]\<rparr>"


end
