(* ===== verification/Preferences.thy ===== *)
theory Preferences
  imports Encryption
begin

text \<open>
  The preferences of users for notifications (\<open>notifications/services/notification-preference.service.ts\<close>,
  \<open>notifications/entities/notification-preference.entity.ts\<close>): one row for each type, channels that cannot be
  switched off, and links to unsubscribe whose tokens are signed. The keyed hash and the reading of bytes as UTF-8 are
  parameters. The type \<open>SYSTEM\<close>, which the service names and the enumeration does not declare, is no type.
\<close>

section \<open>Data\<close>

datatype notification_type =
    NT_TRANSACTION | NT_OTP | NT_MESSAGING | NT_CONTRIBUTION | NT_INVITATION | NT_SWAP_COMPLETED | NT_WALLET_UPDATED
  | NT_TRANSACTION_FAILED | NT_DEPOSIT_CONFIRMED | NT_WITHDRAWAL_PROCESSED | NT_REFERRAL_REWARDED | NT_KYC_APPROVED
  | NT_KYC_REJECTED | NT_RATE_ALERT_TRIGGERED | NT_ESCROW_FUNDED | NT_ESCROW_RELEASED | NT_ESCROW_DISPUTED
  | NT_VAULT_MATURITY | NT_SUPPORT_TICKET_UPDATE | NT_SECURITY_ALERT | NT_LOAN_REPAYMENT_DUE | NT_STAKING_UNLOCK

definition notification_types :: "(notification_type \<times> string) list" where
  "notification_types = [
     (NT_TRANSACTION, ''TRANSACTION''), (NT_OTP, ''OTP''), (NT_MESSAGING, ''MESSAGING''), (NT_CONTRIBUTION, ''CONTRIBUTION''),
     (NT_INVITATION, ''INVITATION''), (NT_SWAP_COMPLETED, ''SWAP_COMPLETED''), (NT_WALLET_UPDATED, ''WALLET_UPDATED''),
     (NT_TRANSACTION_FAILED, ''TRANSACTION_FAILED''), (NT_DEPOSIT_CONFIRMED, ''DEPOSIT_CONFIRMED''),
     (NT_WITHDRAWAL_PROCESSED, ''WITHDRAWAL_PROCESSED''), (NT_REFERRAL_REWARDED, ''REFERRAL_REWARDED''),
     (NT_KYC_APPROVED, ''KYC_APPROVED''), (NT_KYC_REJECTED, ''KYC_REJECTED''), (NT_RATE_ALERT_TRIGGERED, ''RATE_ALERT_TRIGGERED''),
     (NT_ESCROW_FUNDED, ''ESCROW_FUNDED''), (NT_ESCROW_RELEASED, ''ESCROW_RELEASED''), (NT_ESCROW_DISPUTED, ''ESCROW_DISPUTED''),
     (NT_VAULT_MATURITY, ''VAULT_MATURITY''), (NT_SUPPORT_TICKET_UPDATE, ''SUPPORT_TICKET_UPDATE''),
     (NT_SECURITY_ALERT, ''SECURITY_ALERT''), (NT_LOAN_REPAYMENT_DUE, ''LOAN_REPAYMENT_DUE''), (NT_STAKING_UNLOCK, ''STAKING_UNLOCK'')]"

definition type_text :: "notification_type \<Rightarrow> string" where
  "type_text ty = the (map_of notification_types ty)"

definition type_of_text :: "string \<Rightarrow> notification_type option" where
  "type_of_text x = map_option fst (List.find (\<lambda>(ty, y). y = x) notification_types)"

datatype digest_mode = DIGEST_IMMEDIATE | DIGEST_DAILY | DIGEST_WEEKLY

datatype channel = CHANNEL_EMAIL | CHANNEL_PUSH | CHANNEL_IN_APP

record preference =
  pf_emailEnabled :: bool
  pf_pushEnabled :: bool
  pf_inAppEnabled :: bool
  pf_digestMode :: digest_mode

type_synonym preferences = "((string \<times> notification_type) \<times> preference) list"

record preference_update =
  pu_emailEnabled :: "bool option"
  pu_pushEnabled :: "bool option"
  pu_inAppEnabled :: "bool option"
  pu_digestMode :: "digest_mode option"

record preference_env =
  np_secret :: "string option"
  np_hmac :: "string \<Rightarrow> string \<Rightarrow> string"
  np_utf8 :: "string \<Rightarrow> string"

definition NON_DISABLEABLE_TYPES :: "notification_type set" where
  "NON_DISABLEABLE_TYPES = {NT_TRANSACTION}"

section \<open>Rows\<close>

definition default_preference :: preference where
  "default_preference = \<lparr>pf_emailEnabled = True, pf_pushEnabled = True, pf_inAppEnabled = True, pf_digestMode = DIGEST_IMMEDIATE\<rparr>"

definition createDefaults :: "string \<Rightarrow> (preferences, unit) op" where
  "createDefaults userId = modify (\<lambda>ps. ps @
     map (\<lambda>(ty, x). ((userId, ty), default_preference))
       (filter (\<lambda>(ty, x). map_of ps (userId, ty) = None) notification_types))"

definition set_if :: "'a option \<Rightarrow> 'a \<Rightarrow> 'a" where
  "set_if x old = (case x of None \<Rightarrow> old | Some new \<Rightarrow> new)"

definition update_preference :: "string \<Rightarrow> notification_type \<Rightarrow> preference_update \<Rightarrow> (preferences, unit) op" where
  "update_preference userId ty u = modify (map (\<lambda>(k, p). (k, if k = (userId, ty)
     then \<lparr>pf_emailEnabled = set_if (pu_emailEnabled u) (pf_emailEnabled p),
       pf_pushEnabled = set_if (pu_pushEnabled u) (pf_pushEnabled p),
       pf_inAppEnabled = set_if (pu_inAppEnabled u) (pf_inAppEnabled p),
       pf_digestMode = set_if (pu_digestMode u) (pf_digestMode p)\<rparr> else p)))"

definition type_index :: "notification_type \<Rightarrow> nat" where
  "type_index ty = length (takeWhile (\<lambda>(t, x). t \<noteq> ty) notification_types)"

definition findAllPreferences :: "string \<Rightarrow> (preferences, ((string \<times> notification_type) \<times> preference) list) op" where
  "findAllPreferences userId =
     bindE (createDefaults userId) (\<lambda>_.
     gets (\<lambda>ps. sort_key (\<lambda>((u, ty), p). type_index ty) (filter (\<lambda>((u, ty), p). u = userId) ps)))"

definition applyMandatoryChannels :: "notification_type \<Rightarrow> preference_update \<Rightarrow> preference_update" where
  "applyMandatoryChannels ty u =
     (if ty \<in> NON_DISABLEABLE_TYPES
      then \<lparr>pu_emailEnabled = Some True, pu_pushEnabled = Some True, pu_inAppEnabled = Some True, pu_digestMode = Some DIGEST_IMMEDIATE\<rparr>
      else u)"

definition updateMany ::
    "string \<Rightarrow> (notification_type \<times> preference_update) list \<Rightarrow> (preferences, ((string \<times> notification_type) \<times> preference) list) op" where
  "updateMany userId updates =
     bindE (require (updates \<noteq> []) (BadRequestException ''At least one preference is required'')) (\<lambda>_.
     bindE (createDefaults userId) (\<lambda>_.
     bindE (forE updates (\<lambda>(ty, u). update_preference userId ty (applyMandatoryChannels ty u))) (\<lambda>_.
     findAllPreferences userId)))"

definition getPreference :: "string \<Rightarrow> notification_type \<Rightarrow> (preferences, preference) op" where
  "getPreference userId ty =
     bindE (createDefaults userId) (\<lambda>_.
     bindE (gets (\<lambda>ps. map_of ps (userId, ty)))
       (from_option (BadRequestException ''Notification preference was not created'')))"

definition isChannelEnabled :: "string \<Rightarrow> notification_type \<Rightarrow> channel \<Rightarrow> (preferences, bool) op" where
  "isChannelEnabled userId ty ch =
     (if ty \<in> NON_DISABLEABLE_TYPES then ret True
      else bindE (getPreference userId ty) (\<lambda>p. ret (case ch of CHANNEL_EMAIL \<Rightarrow> pf_emailEnabled p
        | CHANNEL_PUSH \<Rightarrow> pf_pushEnabled p | CHANNEL_IN_APP \<Rightarrow> pf_inAppEnabled p)))"

section \<open>Unsubscribing\<close>

definition sign :: "preference_env \<Rightarrow> string \<Rightarrow> exn + string" where
  "sign E payload = (if truthy (np_secret E) then Inr (np_hmac E (the (np_secret E)) payload)
     else Inl (BadRequestException ''JWT_SECRET is required''))"

definition base64url_alphabet :: string where
  "base64url_alphabet = ''ABCDEFGHIJKLMNOPQRSTUVWXYZabcdefghijklmnopqrstuvwxyz0123456789-_''"

definition to_base64url :: "string \<Rightarrow> string" where
  "to_base64url s = map (\<lambda>bs. base64url_alphabet ! bits_nat bs) (sextets (concat (map char_bits s)))"

definition generateUnsubscribeToken :: "preference_env \<Rightarrow> string \<Rightarrow> notification_type \<Rightarrow> exn + string" where
  "generateUnsubscribeToken E userId ty =
     (let body = userId @ '':'' @ type_text ty in
      case sign E body of Inl e \<Rightarrow> Inl e | Inr signature \<Rightarrow> Inr (to_base64url (body @ '':'' @ signature)))"

fun split_colon :: "string \<Rightarrow> string list" where
  "split_colon [] = [[]]"
| "split_colon (c # cs) = (if c = CHR '':'' then [] # split_colon cs
     else (case split_colon cs of [] \<Rightarrow> [[c]] | p # ps \<Rightarrow> (c # p) # ps))"

definition invalid_token :: exn where
  "invalid_token = ForbiddenException ''Invalid unsubscribe token''"

definition verifyToken :: "preference_env \<Rightarrow> string \<Rightarrow> exn + string \<times> notification_type" where
  "verifyToken E token =
     (case split_colon (np_utf8 E (from_base64 token)) of
        [userId, notificationType, signature] \<Rightarrow>
          (case type_of_text notificationType of
             None \<Rightarrow> Inl invalid_token
           | Some ty \<Rightarrow>
               (case sign E (userId @ '':'' @ notificationType) of
                  Inl e \<Rightarrow> Inl e
                | Inr expected \<Rightarrow> if expected \<noteq> signature then Inl invalid_token else Inr (userId, ty)))
      | _ \<Rightarrow> Inl invalid_token)"

definition unsubscribe :: "preference_env \<Rightarrow> string \<Rightarrow> (preferences, string) op" where
  "unsubscribe E token =
     bindE (from_sum (verifyToken E token)) (\<lambda>(userId, ty).
     bindE (createDefaults userId) (\<lambda>_.
     if ty \<in> NON_DISABLEABLE_TYPES then ret ''This notification type cannot be unsubscribed''
     else
       bindE (update_preference userId ty \<lparr>pu_emailEnabled = Some False, pu_pushEnabled = None, pu_inAppEnabled = None,
         pu_digestMode = Some DIGEST_IMMEDIATE\<rparr>) (\<lambda>_.
       ret ''You have been unsubscribed from these emails'')))"

section \<open>Tokens\<close>

lemma type_texts: "list_all (\<lambda>(ty, x). type_text ty = x \<and> type_of_text x = Some ty \<and> CHR '':'' \<notin> set x) notification_types"
  by code_simp

lemma types_complete: "ty \<in> fst ` set notification_types"
  by (cases ty) (simp_all add: notification_types_def)

lemma type_of_text_text [simp]: "type_of_text (type_text ty) = Some ty" "CHR '':'' \<notin> set (type_text ty)"
  using type_texts types_complete [of ty] by (auto simp: list_all_iff)

lemma type_of_textD: "type_of_text x = Some ty \<Longrightarrow> type_text ty = x"
  using type_texts by (auto simp: type_of_text_def list_all_iff dest!: find_SomeD)

lemma type_text_inject: "type_text a = type_text b \<longleftrightarrow> a = b"
  by (metis option.inject type_of_text_text(1))

lemma split_colon_none: "CHR '':'' \<notin> set x \<Longrightarrow> split_colon x = [x]"
  by (induction x) auto

lemma split_colon_append: "CHR '':'' \<notin> set x \<Longrightarrow> split_colon (x @ CHR '':'' # y) = x # split_colon y"
  by (induction x) auto

lemma base64url_digits: "list_all (\<lambda>n. base64_value (base64url_alphabet ! n) = Some n) [0..<64]"
  by code_simp

lemma from_to_base64url: "from_base64 (to_base64url s) = s"
proof -
  let ?bs = "concat (map char_bits s)"
  have "List.map_filter base64_value (map (\<lambda>bs. base64url_alphabet ! bits_nat bs) xs) = map bits_nat xs"
    if "\<forall>bs\<in>set xs. length bs = 6" for xs
    using that base64url_digits by (induction xs) (auto simp: map_filter_def list_all_iff bits_nat_less)
  moreover have "map digit_bits (map bits_nat (sextets ?bs)) = sextets ?bs"
    by (simp add: map_idI digit_bits_nat sextets_six)
  ultimately have "from_base64 (to_base64url s) = octets (concat (sextets ?bs))"
    using sextets_six by (simp add: from_base64_def to_base64url_def)
  with sextets_concat [of ?bs] octets_bits [of _ s] show ?thesis by fastforce
qed

text \<open>A token is accepted exactly when it carries the keyed hash of the user and the type it names.\<close>

lemma verifyToken_iff:
  "verifyToken E token = Inr (u, ty) \<longleftrightarrow> truthy (np_secret E) \<and> split_colon (np_utf8 E (from_base64 token)) =
     [u, type_text ty, np_hmac E (the (np_secret E)) (u @ '':'' @ type_text ty)]"
  by (auto simp: verifyToken_def sign_def type_text_inject split: list.splits option.splits if_splits dest!: type_of_textD)


section \<open>What the operations change\<close>

definition pref_of :: "preferences \<Rightarrow> string \<Rightarrow> notification_type \<Rightarrow> preference" where
  "pref_of ps u ty = (case map_of ps (u, ty) of None \<Rightarrow> default_preference | Some p \<Rightarrow> p)"

definition updated_preference :: "preference_update \<Rightarrow> preference \<Rightarrow> preference" where
  "updated_preference x p = \<lparr>pf_emailEnabled = set_if (pu_emailEnabled x) (pf_emailEnabled p),
     pf_pushEnabled = set_if (pu_pushEnabled x) (pf_pushEnabled p), pf_inAppEnabled = set_if (pu_inAppEnabled x) (pf_inAppEnabled p),
     pf_digestMode = set_if (pu_digestMode x) (pf_digestMode p)\<rparr>"

lemma map_of_defaults: "map_of (map (\<lambda>(ty, x). ((u, ty), d)) xs) (v, ty) = (if v = u \<and> ty \<in> fst ` set xs then Some d else None)"
  by (induction xs) force+

lemma createDefaults_iff: "createDefaults u ps = (r, qs) \<longleftrightarrow> r = Inr () \<and> qs = snd (createDefaults u ps)"
  by (auto simp: createDefaults_def modify_def)

lemma map_of_createDefaults:
  "map_of (snd (createDefaults u ps)) (v, ty) = (if v = u then Some (pref_of ps u ty) else map_of ps (v, ty))"
  using types_complete [of ty]
  by (auto simp: createDefaults_def modify_def map_add_def map_of_defaults pref_of_def image_iff split: option.split)

lemma map_of_update: "map_of (map (\<lambda>(k, p). (k, if k = a then f p else p)) ps) k =
    (if k = a then map_option f (map_of ps k) else map_of ps k)"
  by (induction ps) auto

lemma update_preference_iff: "update_preference u ty x ps = (r, qs) \<longleftrightarrow>
    r = Inr () \<and> qs = map (\<lambda>(k, p). (k, if k = (u, ty) then updated_preference x p else p)) ps"
  by (auto simp: update_preference_def modify_def updated_preference_def)

lemma map_of_update_preference: "map_of (snd (update_preference u ty x ps)) k =
    (if k = (u, ty) then map_option (updated_preference x) (map_of ps k) else map_of ps k)"
  by (simp add: update_preference_def modify_def map_of_update flip: updated_preference_def)

lemma unsubscribe_Inr:
  assumes "unsubscribe E token ps = (Inr m, qs)"
  shows "\<exists>u ty. verifyToken E token = Inr (u, ty) \<and>
    (\<forall>v ty'. map_of qs (v, ty') = (if v = u then Some (if ty' = ty \<and> ty \<notin> NON_DISABLEABLE_TYPES
      then (pref_of ps u ty')\<lparr>pf_emailEnabled := False, pf_digestMode := DIGEST_IMMEDIATE\<rparr> else pref_of ps u ty') else map_of ps (v, ty')))"
proof -
  let ?x = "\<lparr>pu_emailEnabled = Some False, pu_pushEnabled = None, pu_inAppEnabled = None, pu_digestMode = Some DIGEST_IMMEDIATE\<rparr>"
  from assms obtain u ty where v: "verifyToken E token = Inr (u, ty)"
    and q: "qs = (if ty \<in> NON_DISABLEABLE_TYPES then snd (createDefaults u ps)
      else snd (update_preference u ty ?x (snd (createDefaults u ps))))"
    by (auto simp: unsubscribe_def op_iff createDefaults_iff split: if_splits)
  have e: "updated_preference ?x p = p\<lparr>pf_emailEnabled := False, pf_digestMode := DIGEST_IMMEDIATE\<rparr>" for p
    by (simp add: updated_preference_def set_if_def)
  show ?thesis using v by (intro exI [of _ u] exI [of _ ty]) (simp add: q map_of_update_preference map_of_createDefaults e)
qed

lemma unsubscribe_Inl: "unsubscribe E token ps = (Inl e, qs) \<Longrightarrow> qs = ps"
  by (auto simp: unsubscribe_def op_iff createDefaults_def update_preference_def split: if_splits)

section \<open>Runs\<close>

datatype preference_event =
    PrefList string
  | PrefUpdate string "(notification_type \<times> preference_update) list"
  | PrefQuery string notification_type channel
  | PrefUnsubscribe string

fun preference_step :: "preference_env \<Rightarrow> preference_event \<Rightarrow> preferences \<Rightarrow> preferences" where
  "preference_step E (PrefList u) ps = snd (findAllPreferences u ps)"
| "preference_step E (PrefUpdate u xs) ps = snd (updateMany u xs ps)"
| "preference_step E (PrefQuery u ty ch) ps = snd (isChannelEnabled u ty ch ps)"
| "preference_step E (PrefUnsubscribe token) ps = snd (unsubscribe E token ps)"

definition mandatory_on :: "preferences \<Rightarrow> bool" where
  "mandatory_on ps \<longleftrightarrow> distinct (map fst ps) \<and> (\<forall>u ty p. map_of ps (u, ty) = Some p \<and> ty \<in> NON_DISABLEABLE_TYPES \<longrightarrow> p = default_preference)"

lemma createDefaults_mandatory: "preserves mandatory_on (createDefaults u)"
proof -
  have "mandatory_on (snd (createDefaults u ps))" if "mandatory_on ps" for ps
  proof -
    have "distinct (map fst notification_types)" by code_simp
    then have "distinct (map (Pair u) (map fst (filter (\<lambda>(ty, x). map_of ps (u, ty) = None) notification_types)))"
      unfolding distinct_map [of "Pair u"] by (auto simp: distinct_fst_filter inj_on_def)
    moreover have "map fst (snd (createDefaults u ps)) = map fst ps @
        map (Pair u) (map fst (filter (\<lambda>(ty, x). map_of ps (u, ty) = None) notification_types))"
      by (auto simp: createDefaults_def modify_def)
    moreover have "(u, ty) \<notin> set (map fst ps)" if "map_of ps (u, ty) = None" for ty
      using that by (simp add: map_of_eq_None_iff)
    ultimately have d: "distinct (map fst (snd (createDefaults u ps)))" using that by (auto simp: mandatory_on_def)
    have "\<forall>v ty p. map_of ps (v, ty) = Some p \<and> ty \<in> NON_DISABLEABLE_TYPES \<longrightarrow> p = default_preference"
      using that unfolding mandatory_on_def by blast
    then have "\<forall>v ty p. map_of (snd (createDefaults u ps)) (v, ty) = Some p \<and> ty \<in> NON_DISABLEABLE_TYPES \<longrightarrow> p = default_preference"
      unfolding map_of_createDefaults by (auto simp: pref_of_def split: if_splits option.splits)
    with d show ?thesis by (simp only: mandatory_on_def)
  qed
  then show ?thesis by (simp add: preserves_def)
qed

lemma update_preference_mandatory:
  assumes "ty \<in> NON_DISABLEABLE_TYPES \<Longrightarrow> updated_preference x default_preference = default_preference"
  shows "preserves mandatory_on (update_preference u ty x)"
proof -
  have "mandatory_on (snd (update_preference u ty x ps))" if "mandatory_on ps" for ps
  proof -
    have d: "map fst (snd (update_preference u ty x ps)) = map fst ps" by (auto simp: update_preference_def modify_def)
    have "\<forall>v ty p. map_of ps (v, ty) = Some p \<and> ty \<in> NON_DISABLEABLE_TYPES \<longrightarrow> p = default_preference"
      using that unfolding mandatory_on_def by blast
    with assms have "\<forall>v ty' p. map_of (snd (update_preference u ty x ps)) (v, ty') = Some p \<and> ty' \<in> NON_DISABLEABLE_TYPES
        \<longrightarrow> p = default_preference"
      unfolding map_of_update_preference by (fastforce split: if_splits)
    with that d show ?thesis by (simp only: mandatory_on_def)
  qed
  then show ?thesis by (simp add: preserves_def)
qed

lemma guarded_mandatory: "ty \<in> NON_DISABLEABLE_TYPES \<Longrightarrow> updated_preference (applyMandatoryChannels ty x) p = default_preference"
  by (simp add: applyMandatoryChannels_def updated_preference_def set_if_def default_preference_def)

lemma findAll_mandatory: "preserves mandatory_on (findAllPreferences u)"
  unfolding findAllPreferences_def by (intro pres createDefaults_mandatory)

interpretation preference_run: invariant_system "preference_step E" "\<lambda>_. True" mandatory_on for E
proof unfold_locales
  fix ps e assume m: "mandatory_on ps"
  have "preserves mandatory_on (updateMany u xs)" for u xs
    unfolding updateMany_def
    by (intro pres createDefaults_mandatory findAll_mandatory) (auto intro: update_preference_mandatory simp: guarded_mandatory)
  moreover have "preserves mandatory_on (isChannelEnabled u ty ch)" for u ty ch
    unfolding isChannelEnabled_def getPreference_def by (intro pres createDefaults_mandatory)
  moreover have "preserves mandatory_on (unsubscribe E token)" for token
  proof -
    have "preserves mandatory_on (if ty \<in> NON_DISABLEABLE_TYPES then ret a else bindE (update_preference u ty x) (\<lambda>_. ret b))"
      for u ty x and a b :: string
      by (cases "ty \<in> NON_DISABLEABLE_TYPES") (auto intro!: pres update_preference_mandatory)
    then show ?thesis unfolding unsubscribe_def case_prod_beta by (intro preserves_bindE preserves_from_sum createDefaults_mandatory)
  qed
  ultimately show "mandatory_on (preference_step E e ps)"
    using m findAll_mandatory by (cases e) (auto simp: preserves_def)
qed

section \<open>Properties\<close>

text \<open>Notifications about transactions stay on: after any listings, updates, questions and links to unsubscribe every
  user has at most one row for each type, the rows of types that cannot be switched off have all channels on, and
  such a channel is always reported as on.\<close>

theorem mandatory_channels_stay_on:
  assumes "mandatory_on ps" and "qs = fold (preference_step E) es ps"
  shows "distinct (map fst qs) \<and>
    (\<forall>u ty p. map_of qs (u, ty) = Some p \<and> ty \<in> NON_DISABLEABLE_TYPES \<longrightarrow> p = default_preference) \<and>
    (\<forall>u ty ch. ty \<in> NON_DISABLEABLE_TYPES \<longrightarrow> isChannelEnabled u ty ch qs = (Inr True, qs))"
proof -
  have "mandatory_on qs" unfolding assms(2) by (rule preference_run.inv_run [OF assms(1)]) simp
  then show ?thesis unfolding mandatory_on_def by (simp add: isChannelEnabled_def ret_def)
qed

theorem mandatory_channels_stay_on_witness:
  "distinct (map fst (fold (preference_step E) [PrefUpdate ''bob'' [(NT_TRANSACTION, \<lparr>pu_emailEnabled = Some False,
     pu_pushEnabled = Some False, pu_inAppEnabled = None, pu_digestMode = Some DIGEST_DAILY\<rparr>)], PrefUnsubscribe ''eA''] []))"
  by (rule mandatory_channels_stay_on [where E = E and ps = "[]", THEN conjunct1, OF _ refl]) (simp add: mandatory_on_def)

definition ascii :: "string \<Rightarrow> bool" where
  "ascii x \<longleftrightarrow> list_all (\<lambda>c. of_char c < (128 :: nat)) x"

lemma type_text_ascii: "ascii (type_text ty)"
proof -
  have "list_all (\<lambda>(ty, x). ascii (type_text ty)) notification_types" by code_simp
  with types_complete [of ty] show ?thesis by (auto simp: list_all_iff)
qed

text \<open>C34. A link to unsubscribe works, and only such a link: the token that was generated for a user and a type is accepted
  and switches off exactly the e-mails of that type for that user; conversely, whatever token is sent, either nothing
  changes, or the token carries the keyed hash of the user and the type it names and changes no other row.\<close>

theorem unsubscribe_roundtrip:
  assumes "np_secret E = Some secret" and "secret \<noteq> []" and "\<And>x. ascii x \<Longrightarrow> np_utf8 E x = x"
    and "\<And>x. ascii (np_hmac E secret x) \<and> CHR '':'' \<notin> set (np_hmac E secret x)" and "ascii u" and "CHR '':'' \<notin> set u"
  shows "(\<exists>token m qs. generateUnsubscribeToken E u ty = Inr token \<and> unsubscribe E token ps = (Inr m, qs) \<and>
      (\<forall>v ty'. map_of qs (v, ty') = (if v = u then Some (if ty' = ty \<and> ty \<notin> NON_DISABLEABLE_TYPES
        then (pref_of ps u ty')\<lparr>pf_emailEnabled := False, pf_digestMode := DIGEST_IMMEDIATE\<rparr> else pref_of ps u ty')
        else map_of ps (v, ty')))) \<and>
    (\<forall>token r qs. unsubscribe E token ps = (r, qs) \<longrightarrow> qs = ps \<or>
      (\<exists>w ty0. split_colon (np_utf8 E (from_base64 token)) = [w, type_text ty0, np_hmac E secret (w @ '':'' @ type_text ty0)] \<and>
        (\<forall>v ty'. (v, ty') \<noteq> (w, ty0) \<longrightarrow> map_of qs (v, ty') = (if v = w then Some (pref_of ps w ty') else map_of ps (v, ty')))))"
proof (intro conjI allI impI)
  let ?h = "np_hmac E secret (u @ '':'' @ type_text ty)"
  let ?t = "to_base64url (u @ CHR '':'' # type_text ty @ CHR '':'' # ?h)"
  have g: "generateUnsubscribeToken E u ty = Inr ?t"
    using assms(1,2) by (simp add: generateUnsubscribeToken_def sign_def truthy_def)
  have "ascii (u @ CHR '':'' # type_text ty @ CHR '':'' # ?h)"
    using assms(4,5) type_text_ascii [of ty] by (simp add: ascii_def)
  then have "split_colon (np_utf8 E (from_base64 ?t)) = [u, type_text ty, ?h]"
    using assms(3,4,6) by (simp add: from_to_base64url split_colon_append split_colon_none)
  then have v: "verifyToken E ?t = Inr (u, ty)" using assms(1,2) by (simp add: verifyToken_iff truthy_def)
  then obtain m qs where q: "unsubscribe E ?t ps = (Inr m, qs)"
    by (cases "ty \<in> NON_DISABLEABLE_TYPES")
      (auto simp: unsubscribe_def bindE_def from_sum_def createDefaults_def modify_def update_preference_def ret_def)
  from unsubscribe_Inr [OF q] v g q show "\<exists>token m qs. generateUnsubscribeToken E u ty = Inr token \<and> unsubscribe E token ps = (Inr m, qs) \<and>
      (\<forall>v ty'. map_of qs (v, ty') = (if v = u then Some (if ty' = ty \<and> ty \<notin> NON_DISABLEABLE_TYPES
        then (pref_of ps u ty')\<lparr>pf_emailEnabled := False, pf_digestMode := DIGEST_IMMEDIATE\<rparr> else pref_of ps u ty')
        else map_of ps (v, ty')))" by auto
next
  fix token r qs assume r: "unsubscribe E token ps = (r, qs)"
  show "qs = ps \<or> (\<exists>w ty0. split_colon (np_utf8 E (from_base64 token)) =
        [w, type_text ty0, np_hmac E secret (w @ '':'' @ type_text ty0)] \<and>
      (\<forall>v ty'. (v, ty') \<noteq> (w, ty0) \<longrightarrow> map_of qs (v, ty') = (if v = w then Some (pref_of ps w ty') else map_of ps (v, ty'))))"
  proof (cases r)
    case (Inl e)
    with r show ?thesis using unsubscribe_Inl by blast
  next
    case (Inr m)
    from unsubscribe_Inr [OF r [unfolded Inr]] obtain w ty0 where "verifyToken E token = Inr (w, ty0)" and
      "\<forall>v ty'. map_of qs (v, ty') = (if v = w then Some (if ty' = ty0 \<and> ty0 \<notin> NON_DISABLEABLE_TYPES
        then (pref_of ps w ty')\<lparr>pf_emailEnabled := False, pf_digestMode := DIGEST_IMMEDIATE\<rparr> else pref_of ps w ty') else map_of ps (v, ty'))"
      by blast
    with assms(1) show ?thesis by (intro disjI2 exI [of _ w] exI [of _ ty0]) (auto simp: verifyToken_iff)
  qed
qed

definition demo_preferences :: preference_env where
  "demo_preferences = \<lparr>np_secret = Some ''key'', np_hmac = (\<lambda>k x. replicate (length x) CHR ''f''), np_utf8 = (\<lambda>x. x)\<rparr>"

theorem unsubscribe_roundtrip_witness:
  "\<exists>token m qs. generateUnsubscribeToken demo_preferences ''bob'' NT_KYC_APPROVED = Inr token \<and>
     unsubscribe demo_preferences token [] = (Inr m, qs) \<and> map_option pf_emailEnabled (map_of qs (''bob'', NT_KYC_APPROVED)) = Some False"
proof -
  have a: "ascii (replicate n CHR ''f'') \<and> CHR '':'' \<notin> set (replicate n CHR ''f'')" for n
    by (induction n) (simp_all add: ascii_def)
  have b: "ascii ''bob''" "CHR '':'' \<notin> set ''bob''" "''key'' \<noteq> []" by (simp_all add: ascii_def)
  have s: "np_secret demo_preferences = Some ''key''" "\<And>x. np_utf8 demo_preferences x = x"
    "\<And>x. np_hmac demo_preferences ''key'' x = replicate (length x) CHR ''f''" by (simp_all add: demo_preferences_def)
  from unsubscribe_roundtrip [of demo_preferences "''key''" "''bob''" NT_KYC_APPROVED "[]"] s a b obtain token m qs
    where "generateUnsubscribeToken demo_preferences ''bob'' NT_KYC_APPROVED = Inr token"
      "unsubscribe demo_preferences token [] = (Inr m, qs)"
      "\<forall>v ty'. map_of qs (v, ty') = (if v = ''bob'' then Some (if ty' = NT_KYC_APPROVED \<and> NT_KYC_APPROVED \<notin> NON_DISABLEABLE_TYPES
        then (pref_of [] ''bob'' ty')\<lparr>pf_emailEnabled := False, pf_digestMode := DIGEST_IMMEDIATE\<rparr> else pref_of [] ''bob'' ty')
        else map_of [] (v, ty'))"
    by metis
  then show ?thesis by (intro exI [of _ token] exI [of _ m] exI [of _ qs]) (simp add: NON_DISABLEABLE_TYPES_def)
qed

end
