(* ===== verification/Tax.thy ===== *)
theory Tax
  imports TxLimits Decimals
begin

text \<open>
  Tax records of the users (\<open>tax/tax.service.ts\<close>, \<open>tax/tax.processor.ts\<close> and the entities): prices at the time of a
  transaction, lots of what was acquired, their consumption first in first out by disposals, and the yearly summary and exports. Amount
  columns hold eight decimal places below a trillion; other values are refused. The rates are a parameter. A new row has
  the next id of a generator that is indexed by the size of its table, as in \<open>Ledger\<close>. An export is a header and rows of
  fields instead of one text, a date in it is a number of days.
\<close>

section \<open>Data\<close>

datatype tax_event_type = ACQUISITION | DISPOSAL

datatype jurisdiction = UK | US | GENERIC

datatype export_status = EXPORT_PENDING | EXPORT_PROCESSING | EXPORT_COMPLETED | EXPORT_FAILED

record lot =
  lot_userId :: string
  lot_currency :: string
  lot_quantity :: rat
  lot_costBasisUsd :: rat
  lot_acquiredAt :: int
  lot_sourceTransactionId :: string
  lot_remainingQuantity :: rat

record tax_event =
  te_userId :: string
  te_transactionId :: string
  te_eventType :: tax_event_type
  te_currency :: string
  te_quantity :: rat
  te_priceUsdAtEvent :: rat
  te_costBasisUsd :: "rat option"
  te_proceedsUsd :: "rat option"
  te_gainLossUsd :: "rat option"
  te_holdingPeriodDays :: "int option"
  te_acquiredAt :: "int option"
  te_taxYear :: int

datatype csv_field = CText string | CDisposal rat string | CDate int | CAmount rat

record export_job =
  xj_userId :: string
  xj_year :: int
  xj_jurisdiction :: jurisdiction
  xj_status :: export_status
  xj_csv :: "(string \<times> csv_field list list) option"
  xj_errorMessage :: "string option"

record tax_state = books +
  lots :: "lot table"
  tax_events :: "tax_event list"
  price_snapshots :: "((string \<times> string) \<times> rat) list"
  export_jobs :: "export_job table"
  export_queue :: "string list"

section \<open>Rows\<close>

definition overflow :: exn where
  "overflow = PlainError ''numeric field overflow''"

definition save_lot :: "string \<Rightarrow> lot \<Rightarrow> ('a tax_state_scheme, unit) op" where
  "save_lot i l =
     bindE (require (fits_column (lot_quantity l) \<and> fits_column (lot_costBasisUsd l) \<and> fits_column (lot_remainingQuantity l)) overflow) (\<lambda>_.
     modify (\<lambda>s. s\<lparr>lots := tbl_save i l (lots s)\<rparr>))"

definition fits_option :: "rat option \<Rightarrow> bool" where
  "fits_option x \<longleftrightarrow> (case x of None \<Rightarrow> True | Some a \<Rightarrow> fits_column a)"

definition save_tax_event :: "tax_event \<Rightarrow> ('a tax_state_scheme, unit) op" where
  "save_tax_event e =
     bindE (require (fits_column (te_quantity e) \<and> fits_column (te_priceUsdAtEvent e) \<and> fits_option (te_costBasisUsd e) \<and>
       fits_option (te_proceedsUsd e) \<and> fits_option (te_gainLossUsd e)) overflow) (\<lambda>_.
     modify (\<lambda>s. s\<lparr>tax_events := tax_events s @ [e]\<rparr>))"

definition new_lot :: "(nat \<Rightarrow> string) \<Rightarrow> lot \<Rightarrow> ('a tax_state_scheme, unit) op" where
  "new_lot uuid l = bindE (gets (\<lambda>s. uuid (length (lots s)))) (\<lambda>i. save_lot i l)"

section \<open>Prices\<close>

definition is_dollar :: "string \<Rightarrow> bool" where
  "is_dollar c \<longleftrightarrow> c = ''USD'' \<or> c = ''USDC''"

definition currenciesToFetch :: "transaction \<Rightarrow> string list" where
  "currenciesToFetch t = rev (remdups (rev (
     [toUpperCase (t_currency t)] @ (if truthy (t_toCurrency t) then [toUpperCase (the (t_toCurrency t))] else []) @ [''GBP''])))"

definition save_snapshot :: "rates \<Rightarrow> string \<Rightarrow> string \<Rightarrow> ('a tax_state_scheme, unit) op" where
  "save_snapshot rate transactionId currency =
     bindE (gets (\<lambda>s. map_of (price_snapshots s) (transactionId, currency))) (\<lambda>existing.
     if existing \<noteq> None then ret ()
     else
       bindE (if is_dollar currency then ret 1 else from_sum (case rate currency ''USD'' of Inl e \<Rightarrow> Inl e | Inr r \<Rightarrow> Inr (num_to_string r))) (\<lambda>priceUsd.
       bindE (require (fits_column (pg_numeric 8 priceUsd)) overflow) (\<lambda>_.
       modify (\<lambda>s. s\<lparr>price_snapshots := price_snapshots s @ [((transactionId, currency), pg_numeric 8 priceUsd)]\<rparr>))))"

definition savePriceSnapshots :: "rates \<Rightarrow> string \<Rightarrow> transaction \<Rightarrow> ('a tax_state_scheme, unit) op" where
  "savePriceSnapshots rate i t = forE (currenciesToFetch t) (save_snapshot rate i)"

definition getUsdRate :: "rates \<Rightarrow> string \<Rightarrow> string \<Rightarrow> 'a tax_state_scheme \<Rightarrow> rat" where
  "getUsdRate rate currency transactionId s =
     (let uc = toUpperCase currency in
      if is_dollar uc then 1
      else (case map_of (price_snapshots s) (transactionId, uc) of
          Some p \<Rightarrow> p
        | None \<Rightarrow> (case rate uc ''USD'' of Inl _ \<Rightarrow> 1 | Inr r \<Rightarrow> num_to_string r)))"

section \<open>Disposals\<close>

definition disposal_event :: "string \<Rightarrow> transaction \<Rightarrow> string \<Rightarrow> rat \<Rightarrow> rat \<Rightarrow> rat \<Rightarrow> lot option \<Rightarrow> tax_event" where
  "disposal_event i t currency qty price costBasis from =
     (let proceeds = decimal_times qty price
      in \<lparr>te_userId = t_userId t, te_transactionId = i, te_eventType = DISPOSAL, te_currency = toUpperCase currency,
          te_quantity = to_fixed 8 qty, te_priceUsdAtEvent = to_fixed 8 price, te_costBasisUsd = Some (to_fixed 8 costBasis),
          te_proceedsUsd = Some (to_fixed 8 proceeds),
          te_gainLossUsd = Some (to_fixed 8 (case from of None \<Rightarrow> proceeds | Some l \<Rightarrow> decimal_minus proceeds costBasis)),
          te_holdingPeriodDays = map_option (\<lambda>l. \<lceil>js_div (of_int (t_createdAt t - lot_acquiredAt l)) 86400000\<rceil>) from,
          te_acquiredAt = map_option lot_acquiredAt from, te_taxYear = getUTCFullYear (t_createdAt t)\<rparr>)"

fun dispose_lots ::
    "string \<Rightarrow> transaction \<Rightarrow> string \<Rightarrow> rat \<Rightarrow> (string \<times> lot) list \<Rightarrow> rat \<Rightarrow> ('a tax_state_scheme, rat) op" where
  "dispose_lots i t currency price [] remaining = ret remaining"
| "dispose_lots i t currency price ((j, l) # rest) remaining =
     (if lot_remainingQuantity l = 0 then dispose_lots i t currency price rest remaining
      else if remaining = 0 then ret remaining
      else
        let matchQty = min remaining (lot_remainingQuantity l);
            costBasis = decimal_times matchQty (decimal_div (lot_costBasisUsd l) (lot_quantity l))
        in
        bindE (save_lot j (l\<lparr>lot_remainingQuantity := to_fixed 8 (decimal_minus (lot_remainingQuantity l) matchQty)\<rparr>)) (\<lambda>_.
        bindE (save_tax_event (disposal_event i t currency matchQty price costBasis (Some l))) (\<lambda>_.
        dispose_lots i t currency price rest (decimal_minus remaining matchQty))))"

definition lots_of :: "string \<Rightarrow> string \<Rightarrow> 'a tax_state_scheme \<Rightarrow> (string \<times> lot) list" where
  "lots_of userId currency s =
     sort_key (\<lambda>(i, l). lot_acquiredAt l) (filter (\<lambda>(i, l). lot_userId l = userId \<and> lot_currency l = toUpperCase currency) (lots s))"

definition processDisposal :: "string \<Rightarrow> transaction \<Rightarrow> string \<Rightarrow> rat \<Rightarrow> rat \<Rightarrow> ('a tax_state_scheme, unit) op" where
  "processDisposal i t currency qty price =
     bindE (gets (lots_of (t_userId t) currency)) (\<lambda>ls.
     bindE (dispose_lots i t currency price ls qty) (\<lambda>remaining.
     if 0 < remaining then save_tax_event (disposal_event i t currency remaining price 0 None)
     else ret ()))"

section \<open>Transactions\<close>

definition acquire :: "(nat \<Rightarrow> string) \<Rightarrow> string \<Rightarrow> transaction \<Rightarrow> string \<Rightarrow> rat \<Rightarrow> rat \<Rightarrow> ('a tax_state_scheme, unit) op" where
  "acquire uuid i t currency qty price =
     (let costBasis = to_fixed 8 (decimal_times qty price)
      in
      bindE (new_lot uuid \<lparr>lot_userId = t_userId t, lot_currency = toUpperCase currency, lot_quantity = to_fixed 8 qty,
        lot_costBasisUsd = costBasis, lot_acquiredAt = t_createdAt t, lot_sourceTransactionId = i,
        lot_remainingQuantity = to_fixed 8 qty\<rparr>) (\<lambda>_.
      save_tax_event \<lparr>te_userId = t_userId t, te_transactionId = i, te_eventType = ACQUISITION, te_currency = toUpperCase currency,
        te_quantity = to_fixed 8 qty, te_priceUsdAtEvent = to_fixed 8 price, te_costBasisUsd = Some costBasis,
        te_proceedsUsd = None, te_gainLossUsd = None, te_holdingPeriodDays = None, te_acquiredAt = Some (t_createdAt t),
        te_taxYear = getUTCFullYear (t_createdAt t)\<rparr>))"

definition process_by_type :: "rates \<Rightarrow> (nat \<Rightarrow> string) \<Rightarrow> string \<Rightarrow> transaction \<Rightarrow> ('a tax_state_scheme, unit) op" where
  "process_by_type rate uuid i t =
     (if t_type t = DEPOSIT then
        bindE (gets (getUsdRate rate (t_currency t) i)) (\<lambda>rateUsd. acquire uuid i t (t_currency t) (t_amount t) rateUsd)
      else if t_type t = WITHDRAW then
        bindE (gets (getUsdRate rate (t_currency t) i)) (\<lambda>rateUsd. processDisposal i t (t_currency t) (t_amount t) rateUsd)
      else if t_type t = SWAP then
        (let destQty = (case t_toAmount t of None \<Rightarrow> 0 | Some q \<Rightarrow> q)
         in if \<not> truthy (t_toCurrency t) \<or> destQty = 0 then ret ()
            else
              bindE (gets (getUsdRate rate (t_currency t) i)) (\<lambda>sourceRateUsd.
              bindE (gets (getUsdRate rate (the (t_toCurrency t)) i)) (\<lambda>destRateUsd.
              bindE (processDisposal i t (t_currency t) (t_amount t) sourceRateUsd) (\<lambda>_.
              acquire uuid i t (the (t_toCurrency t)) destQty destRateUsd))))
      else ret ())"

definition processTransaction :: "rates \<Rightarrow> (nat \<Rightarrow> string) \<Rightarrow> string \<Rightarrow> ('a tax_state_scheme, unit) op" where
  "processTransaction rate uuid transactionId =
     bindE (gets (\<lambda>s. tbl_find transactionId (transactions s))) (\<lambda>found.
     case found of None \<Rightarrow> ret () | Some t \<Rightarrow>
     if t_status t \<noteq> SUCCESS then ret ()
     else
       bindE (gets (\<lambda>s. \<exists>e \<in> set (tax_events s). te_transactionId e = transactionId)) (\<lambda>alreadyProcessed.
       if alreadyProcessed then ret ()
       else
         bindE (savePriceSnapshots rate transactionId t) (\<lambda>_.
         process_by_type rate uuid transactionId t)))"

section \<open>Summaries and exports\<close>

record tax_summary =
  ts_totalCapitalGainsUsd :: rat
  ts_totalProceedsUsd :: rat
  ts_totalCostBasisUsd :: rat
  ts_shortTermGainUsd :: rat
  ts_longTermGainUsd :: rat
  ts_taxYear :: int

definition or_zero :: "rat option \<Rightarrow> rat" where
  "or_zero x = (case x of None \<Rightarrow> 0 | Some a \<Rightarrow> a)"

definition long_term :: "tax_event \<Rightarrow> bool" where
  "long_term e \<longleftrightarrow> (case te_holdingPeriodDays e of None \<Rightarrow> False | Some d \<Rightarrow> 365 < d)"

definition add_event :: "tax_event \<Rightarrow> tax_summary \<Rightarrow> tax_summary" where
  "add_event e m =
     (let gl = or_zero (te_gainLossUsd e)
      in m\<lparr>ts_totalProceedsUsd := decimal_plus (ts_totalProceedsUsd m) (or_zero (te_proceedsUsd e)),
           ts_totalCostBasisUsd := decimal_plus (ts_totalCostBasisUsd m) (or_zero (te_costBasisUsd e)),
           ts_totalCapitalGainsUsd := decimal_plus (ts_totalCapitalGainsUsd m) gl,
           ts_longTermGainUsd := (if long_term e then decimal_plus (ts_longTermGainUsd m) gl else ts_longTermGainUsd m),
           ts_shortTermGainUsd := (if long_term e then ts_shortTermGainUsd m else decimal_plus (ts_shortTermGainUsd m) gl)\<rparr>)"

definition getTaxSummary :: "string \<Rightarrow> int \<Rightarrow> 'a tax_state_scheme \<Rightarrow> tax_summary" where
  "getTaxSummary userId year s =
     (let m = fold add_event (filter (\<lambda>e. te_userId e = userId \<and> te_taxYear e = year \<and> te_eventType e = DISPOSAL) (tax_events s))
            \<lparr>ts_totalCapitalGainsUsd = 0, ts_totalProceedsUsd = 0, ts_totalCostBasisUsd = 0, ts_shortTermGainUsd = 0,
             ts_longTermGainUsd = 0, ts_taxYear = year\<rparr>
      in \<lparr>ts_totalCapitalGainsUsd = parse_float (ts_totalCapitalGainsUsd m), ts_totalProceedsUsd = parse_float (ts_totalProceedsUsd m),
          ts_totalCostBasisUsd = parse_float (ts_totalCostBasisUsd m), ts_shortTermGainUsd = parse_float (ts_shortTermGainUsd m),
          ts_longTermGainUsd = parse_float (ts_longTermGainUsd m), ts_taxYear = year\<rparr>)"

definition getTaxEvents :: "string \<Rightarrow> nat \<Rightarrow> nat \<Rightarrow> string option \<Rightarrow> 'a tax_state_scheme \<Rightarrow> tax_event list \<times> nat" where
  "getTaxEvents userId page limit currency s =
     (let mine = filter (\<lambda>e. te_userId e = userId \<and> (truthy currency \<longrightarrow> te_currency e = toUpperCase (the currency))) (tax_events s)
      in (take limit (drop ((page - 1) * limit) (rev mine)), length mine))"

definition enqueueExportJob :: "string \<Rightarrow> string \<Rightarrow> int \<Rightarrow> jurisdiction \<Rightarrow> ('a tax_state_scheme, string \<times> export_status) op" where
  "enqueueExportJob newId userId year j =
     bindE (modify (\<lambda>s. s\<lparr>export_jobs := tbl_save newId \<lparr>xj_userId = userId, xj_year = year, xj_jurisdiction = j,
       xj_status = EXPORT_PENDING, xj_csv = None, xj_errorMessage = None\<rparr> (export_jobs s)\<rparr>)) (\<lambda>_.
     bindE (modify (\<lambda>s. s\<lparr>export_queue := export_queue s @ [newId]\<rparr>)) (\<lambda>_.
     ret (newId, EXPORT_PENDING)))"

definition getExportJobStatus :: "string \<Rightarrow> string \<Rightarrow> ('a tax_state_scheme, export_job) op" where
  "getExportJobStatus userId jobId =
     bindE (gets (\<lambda>s. List.find (\<lambda>(i, j). i = jobId \<and> xj_userId j = userId) (export_jobs s))) (\<lambda>found.
     from_option (NotFoundException ''Tax export job not found.'') (map_option snd found))"

definition money :: "rat option \<Rightarrow> csv_field" where
  "money x = CAmount (to_fixed 2 (parse_float (or_zero x)))"

definition sold_on :: "tax_event \<Rightarrow> 'a tax_state_scheme \<Rightarrow> (string, csv_field) sum" where
  "sold_on e s = (case tbl_find (te_transactionId e) (transactions s) of
     None \<Rightarrow> Inl ''Cannot read properties of null'' | Some t \<Rightarrow> Inr (CDate (utc_days (t_createdAt t))))"

definition csv_row :: "jurisdiction \<Rightarrow> 'a tax_state_scheme \<Rightarrow> tax_event \<Rightarrow> string + csv_field list" where
  "csv_row jur s e =
     (case sold_on e s of Inl m \<Rightarrow> Inl m | Inr dateSold \<Rightarrow>
      let desc = CDisposal (te_quantity e) (te_currency e)
      in Inr (case jur of
        US \<Rightarrow> [desc, (case te_acquiredAt e of None \<Rightarrow> CText ''Various'' | Some a \<Rightarrow> CDate (utc_days a)), dateSold,
          money (te_proceedsUsd e), money (te_costBasisUsd e), money (te_gainLossUsd e)]
      | UK \<Rightarrow>
          (let rateGbpUsd = (case map_of (price_snapshots s) (te_transactionId e, ''GBP'') of None \<Rightarrow> 5 / 4 | Some p \<Rightarrow> p);
               proceedsGbp = decimal_div (or_zero (te_proceedsUsd e)) rateGbpUsd;
               costBasisGbp = decimal_div (or_zero (te_costBasisUsd e)) rateGbpUsd
           in [dateSold, desc, CAmount (to_fixed 2 proceedsGbp), CAmount (to_fixed 2 costBasisGbp),
               CAmount (to_fixed 2 (decimal_minus proceedsGbp costBasisGbp))])
      | GENERIC \<Rightarrow> [dateSold, desc, money (te_proceedsUsd e), money (te_costBasisUsd e), money (te_gainLossUsd e)]))"

definition csv_header :: "jurisdiction \<Rightarrow> string" where
  "csv_header jur = (case jur of
     US \<Rightarrow> ''Description,Date Acquired,Date Sold,Proceeds,Cost Basis,Gain/Loss''
   | UK \<Rightarrow> ''Date,Description,Proceeds (GBP),Allowable Costs (GBP),Gain/Loss (GBP)''
   | GENERIC \<Rightarrow> ''Date,Description,Proceeds (USD),Cost Basis (USD),Gain/Loss (USD)'')"

fun csv_rows :: "jurisdiction \<Rightarrow> 'a tax_state_scheme \<Rightarrow> tax_event list \<Rightarrow> string + csv_field list list" where
  "csv_rows jur s [] = Inr []"
| "csv_rows jur s (e # es) = (if te_eventType e \<noteq> DISPOSAL then csv_rows jur s es
     else (case csv_row jur s e of Inl m \<Rightarrow> Inl m
       | Inr r \<Rightarrow> (case csv_rows jur s es of Inl m \<Rightarrow> Inl m | Inr rs \<Rightarrow> Inr (r # rs))))"

definition generateCsvContent :: "jurisdiction \<Rightarrow> tax_event list \<Rightarrow> 'a tax_state_scheme \<Rightarrow> string + (string \<times> csv_field list list)" where
  "generateCsvContent jur es s = (case csv_rows jur s es of Inl m \<Rightarrow> Inl m | Inr rs \<Rightarrow> Inr (csv_header jur, rs))"

definition update_job :: "string \<Rightarrow> (export_job \<Rightarrow> export_job) \<Rightarrow> ('a tax_state_scheme, unit) op" where
  "update_job jobId f = modify (\<lambda>s. s\<lparr>export_jobs := tbl_update jobId f (export_jobs s)\<rparr>)"

definition processExportJob :: "string \<Rightarrow> ('a tax_state_scheme, unit) op" where
  "processExportJob jobId =
     bindE (gets (\<lambda>s. tbl_find jobId (export_jobs s))) (\<lambda>found.
     case found of None \<Rightarrow> ret () | Some job \<Rightarrow>
     bindE (update_job jobId (\<lambda>j. j\<lparr>xj_status := EXPORT_PROCESSING\<rparr>)) (\<lambda>_.
     bindE (gets (\<lambda>s. generateCsvContent (xj_jurisdiction job)
       (filter (\<lambda>e. te_userId e = xj_userId job \<and> te_taxYear e = xj_year job) (tax_events s)) s)) (\<lambda>csvContent.
     case csvContent of
       Inr csv \<Rightarrow> update_job jobId (\<lambda>j. j\<lparr>xj_status := EXPORT_COMPLETED, xj_csv := Some csv\<rparr>)
     | Inl m \<Rightarrow> update_job jobId (\<lambda>j. j\<lparr>xj_status := EXPORT_FAILED, xj_errorMessage := Some m\<rparr>))))"

datatype tax_job = ProcessTransactionJob "string option" | ExportTaxCsvJob "string option" | UnknownJob string

definition process_tax_job :: "rates \<Rightarrow> (nat \<Rightarrow> string) \<Rightarrow> tax_job \<Rightarrow> ('a tax_state_scheme, unit) op" where
  "process_tax_job rate uuid job = (case job of
     ProcessTransactionJob i \<Rightarrow> bindE (require (truthy i) (PlainError ''Missing transactionId in process-transaction job'')) (\<lambda>_.
       processTransaction rate uuid (the i))
   | ExportTaxCsvJob i \<Rightarrow> bindE (require (truthy i) (PlainError ''Missing jobId in export-tax-csv job'')) (\<lambda>_.
       processExportJob (the i))
   | UnknownJob name \<Rightarrow> ret ())"

section \<open>First in, first out\<close>

text \<open>What a disposal leaves of quantities that were acquired one after the other.\<close>

fun fifo :: "rat \<Rightarrow> rat list \<Rightarrow> rat list" where
  "fifo q [] = []"
| "fifo q (r # rs) = (r - min q r) # fifo (q - min q r) rs"

lemma fifo_0 [simp]: "(\<And>r. r \<in> set rs \<Longrightarrow> 0 \<le> r) \<Longrightarrow> fifo 0 rs = rs"
  by (induction rs) auto

lemma fifo_sum: "0 \<le> q \<Longrightarrow> (\<And>r. r \<in> set rs \<Longrightarrow> 0 \<le> r) \<Longrightarrow> sum_list (fifo q rs) = sum_list rs - min q (sum_list rs)"
proof (induction q rs rule: fifo.induct)
  case (2 q r rs)
  from 2 have "sum_list (fifo (q - min q r) rs) = sum_list rs - min (q - min q r) (sum_list rs)" by simp
  moreover have "0 \<le> r" "0 \<le> sum_list rs" using 2 by (auto intro: sum_list_nonneg)
  ultimately show ?case using 2(2) by (auto simp: min_def)
qed simp

definition lot_ok :: "lot \<Rightarrow> bool" where
  "lot_ok l \<longleftrightarrow> is_dec 8 (lot_remainingQuantity l) \<and> 0 \<le> lot_remainingQuantity l \<and> lot_remainingQuantity l \<le> lot_quantity l \<and>
     fits_column (lot_quantity l)"

text \<open>The rows of the lots after a disposal, and the quantities of the events it wrote.\<close>

definition quantities :: "(string \<times> lot) list \<Rightarrow> rat list" where
  "quantities ls = map (\<lambda>(j, l). lot_remainingQuantity l) ls"

lemma quantities_simps [simp]: "quantities [] = []" "quantities ((j, l) # ls) = lot_remainingQuantity l # quantities ls"
  by (simp_all add: quantities_def)

definition consumed_lots :: "(string \<times> lot) list \<Rightarrow> rat \<Rightarrow> (string \<times> lot) list" where
  "consumed_lots ls q = map2 (\<lambda>(j, l) r. (j, l\<lparr>lot_remainingQuantity := r\<rparr>)) ls (fifo q (quantities ls))"


lemma consumed_Cons: "consumed_lots ((j, l) # ls) q =
    (j, l\<lparr>lot_remainingQuantity := lot_remainingQuantity l - min q (lot_remainingQuantity l)\<rparr>) #
    consumed_lots ls (q - min q (lot_remainingQuantity l))"
  by (simp add: consumed_lots_def)

lemma consumed_0: "\<forall>(j, l) \<in> set ls. lot_ok l \<Longrightarrow> consumed_lots ls 0 = ls"
  by (induction ls) (auto simp: consumed_Cons lot_ok_def, simp add: consumed_lots_def)

lemma consumed_keys [simp]: "map fst (consumed_lots ls q) = map fst ls"
  by (induction ls arbitrary: q) (auto simp: consumed_Cons, simp add: consumed_lots_def)

definition matched :: "string \<Rightarrow> tax_event list \<Rightarrow> rat \<Rightarrow> bool" where
  "matched i es q \<longleftrightarrow> sum_list (map te_quantity es) = q \<and>
     (\<forall>e \<in> set es. te_transactionId e = i \<and> te_eventType e = DISPOSAL \<and> te_acquiredAt e \<noteq> None)"

lemma save_lot_Inr: "save_lot j l s = (Inr u, s') \<Longrightarrow> s' = s\<lparr>lots := tbl_save j l (lots s)\<rparr>"
  by (auto simp: save_lot_def op_iff)

lemma save_tax_event_Inr: "save_tax_event e s = (Inr u, s') \<Longrightarrow> s' = s\<lparr>tax_events := tax_events s @ [e]\<rparr>"
  by (auto simp: save_tax_event_def op_iff)

lemma dispose_lots_Inr:
  assumes "dispose_lots i t cur price ls q s = (Inr rem, s')" and "distinct (map fst ls)"
    and "\<And>j l. (j, l) \<in> set ls \<Longrightarrow> lot_ok l \<and> tbl_find j (lots s) = Some l"
    and "is_dec 8 q" and "0 \<le> q" and "fits_column q"
  shows "rem = q - min q (sum_list (quantities ls)) \<and>
    (\<forall>k. tbl_find k (lots s') = (case map_of (consumed_lots ls q) k of None \<Rightarrow> tbl_find k (lots s) | Some l \<Rightarrow> Some l)) \<and>
    (\<exists>es. tax_events s' = tax_events s @ es \<and> matched i es (q - rem))"
  using assms
proof (induction ls arbitrary: q s)
  case Nil
  then show ?case by (auto simp: op_iff consumed_lots_def matched_def)
next
  case (Cons x ls)
  obtain j l where x: "x = (j, l)" by fastforce
  let ?r = "lot_remainingQuantity l" and ?S = "sum_list (quantities ls)"
  have ok: "lot_ok l" "tbl_find j (lots s) = Some l" "j \<notin> set (map fst ls)" using Cons.prems(2,3) by (auto simp: x)
  have r: "is_dec 8 ?r" "0 \<le> ?r" "fits_column ?r" using ok(1) by (auto simp: lot_ok_def fits_column_def)
  have rest: "\<And>k m. (k, m) \<in> set ls \<Longrightarrow> lot_ok m \<and> tbl_find k (lots s) = Some m"
    using Cons.prems(3) by (meson list.set_intros(2))
  have "0 \<le> lot_remainingQuantity m" if "(k, m) \<in> set ls" for k m using rest [OF that] by (simp add: lot_ok_def)
  then have S: "0 \<le> ?S" by (auto simp: quantities_def intro!: sum_list_nonneg)
  have no_j: "map_of (consumed_lots ls p) j = None" for p
    using ok(3) by (metis consumed_keys map_of_eq_None_iff list.set_map)
  consider "?r = 0" | "?r \<noteq> 0" "q = 0" | "?r \<noteq> 0" "q \<noteq> 0" by blast
  then show ?case
  proof cases
    case 1
    then have "dispose_lots i t cur price ls q s = (Inr rem, s')" using Cons.prems(1) by (simp add: x)
    moreover have "distinct (map fst ls)" using Cons.prems(2) by simp
    ultimately have IH: "rem = q - min q ?S"
      "\<forall>k. tbl_find k (lots s') = (case map_of (consumed_lots ls q) k of None \<Rightarrow> tbl_find k (lots s) | Some l \<Rightarrow> Some l)"
      "\<exists>es. tax_events s' = tax_events s @ es \<and> matched i es (q - rem)"
      using Cons.IH [OF _ _ rest Cons.prems(4-6)] by blast+
    have l: "l\<lparr>lot_remainingQuantity := 0\<rparr> = l" using 1 by (metis lot.surjective lot.update_convs(7))
    have "consumed_lots (x # ls) q = (j, l) # consumed_lots ls q" using 1 Cons.prems(5) by (simp add: x consumed_Cons l)
    then have "\<forall>k. tbl_find k (lots s') = (case map_of (consumed_lots (x # ls) q) k of None \<Rightarrow> tbl_find k (lots s) | Some l \<Rightarrow> Some l)"
      using IH(2) no_j ok(2) by auto
    with IH(1,3) 1 show ?thesis by (simp add: x)
  next
    case 2
    then have "rem = 0" "s' = s" using Cons.prems(1) by (auto simp: x op_iff)
    moreover have "consumed_lots (x # ls) 0 = x # ls" using Cons.prems(3) by (intro consumed_0) (auto simp: x)
    moreover have "map_of (x # ls) k = Some m \<Longrightarrow> tbl_find k (lots s) = Some m" for k m
      using Cons.prems(3) map_of_SomeD [of "x # ls" k m] by blast
    ultimately show ?thesis using 2 r(2) S by (auto simp: x matched_def split: option.splits)
  next
    case 3
    let ?m = "min q ?r"
    have m: "is_dec 8 ?m" "0 \<le> ?m" "?m \<le> ?r" "?m \<le> q" using Cons.prems(4,5) r by (auto simp: min_def)
    have e1: "to_fixed 8 (decimal_minus ?r ?m) = ?r - ?m"
      using r m by (simp add: decimal_minus_exact is_dec_diff)
    have e2: "decimal_minus q ?m = q - ?m" using Cons.prems(4-6) m by (simp add: decimal_minus_exact)
    let ?e = "disposal_event i t cur ?m price (decimal_times ?m (decimal_div (lot_costBasisUsd l) (lot_quantity l))) (Some l)"
    let ?u = "s\<lparr>lots := tbl_save j (l\<lparr>lot_remainingQuantity := ?r - ?m\<rparr>) (lots s), tax_events := tax_events s @ [?e]\<rparr>"
    from Cons.prems(1) 3 have d: "dispose_lots i t cur price ls (q - ?m) ?u = (Inr rem, s')"
      by (auto simp: x op_iff Let_def e1 e2 dest!: save_lot_Inr save_tax_event_Inr)
    have "is_dec 8 (q - ?m)" "0 \<le> q - ?m" "fits_column (q - ?m)"
      using Cons.prems(4-6) m by (auto simp: is_dec_diff fits_column_def)
    moreover have "lot_ok m' \<and> tbl_find k (lots ?u) = Some m'" if "(k, m') \<in> set ls" for k m'
      using rest [OF that] ok(3) that by (auto simp: tbl_simps image_iff)
    ultimately have IH: "rem = q - ?m - min (q - ?m) ?S"
      "\<forall>k. tbl_find k (lots s') = (case map_of (consumed_lots ls (q - ?m)) k of None \<Rightarrow> tbl_find k (lots ?u) | Some l \<Rightarrow> Some l)"
      "\<exists>es. tax_events s' = tax_events ?u @ es \<and> matched i es (q - ?m - rem)"
      using Cons.IH [OF d] Cons.prems(2) by (auto simp: x)
    have "\<forall>k. tbl_find k (lots s') = (case map_of (consumed_lots (x # ls) q) k of None \<Rightarrow> tbl_find k (lots s) | Some l \<Rightarrow> Some l)"
      using IH(2) no_j by (auto simp: x consumed_Cons tbl_simps split: option.splits)
    moreover have "rem = q - min q (sum_list (quantities (x # ls)))"
      using IH(1) S Cons.prems(5) r(2) by (auto simp: x min_def)
    moreover obtain es where "tax_events s' = tax_events s @ ?e # es" "matched i es (q - ?m - rem)" using IH(3) by auto
    moreover have "matched i (?e # es) (q - rem)" if "matched i es (q - ?m - rem)" for es
      using that m(1) by (auto simp: matched_def disposal_event_def Let_def)
    ultimately show ?thesis by blast
  qed
qed


lemma quantities_consumed: "quantities (consumed_lots ls q) = fifo q (quantities ls)"
  by (induction ls arbitrary: q) (auto simp: consumed_Cons, simp add: consumed_lots_def)

lemma sort_key_distinct: "distinct (map fst xs) \<Longrightarrow> distinct (map fst (sort_key f xs))"
  by (simp add: distinct_map inj_on_def)

definition lots_wf :: "'a tax_state_scheme \<Rightarrow> bool" where
  "lots_wf s \<longleftrightarrow> distinct (map fst (lots s)) \<and> (\<forall>(j, l) \<in> set (lots s). lot_ok l)"

text \<open>C21. A disposal consumes what was acquired first in, first out: the lots of the user in the currency are reduced as
  the list function \<open>fifo\<close> says, in the order in which they were acquired, and no other lot changes; the events
  written for it add up to what was disposed of, and those that name a lot add up to what the lots lost.\<close>

theorem tax_fifo:
  assumes "lots_wf s" and "is_dec 8 q" and "0 \<le> q" and "fits_column q"
    and "processDisposal i t cur q price s = (Inr (), s')" and "ls = lots_of (t_userId t) cur s"
  shows "sorted (map (\<lambda>(j, l). lot_acquiredAt l) ls) \<and>
    set ls = {(j, l) \<in> set (lots s). lot_userId l = t_userId t \<and> lot_currency l = toUpperCase cur} \<and>
    (\<forall>k. tbl_find k (lots s') = (case map_of (consumed_lots ls q) k of None \<Rightarrow> tbl_find k (lots s) | Some l \<Rightarrow> Some l)) \<and>
    quantities (consumed_lots ls q) = fifo q (quantities ls) \<and>
    (\<exists>es. tax_events s' = tax_events s @ es \<and> sum_list (map te_quantity es) = q \<and>
      sum_list (map te_quantity (filter (\<lambda>e. te_acquiredAt e \<noteq> None) es)) = sum_list (quantities ls) - sum_list (fifo q (quantities ls)))"
proof -
  have wf: "distinct (map fst (lots s))" "\<And>j l. (j, l) \<in> set (lots s) \<Longrightarrow> lot_ok l" using assms(1) by (auto simp: lots_wf_def)
  have d: "distinct (map fst ls)" using wf(1) by (simp add: assms(6) lots_of_def sort_key_distinct distinct_fst_filter)
  have l: "lot_ok l \<and> tbl_find j (lots s) = Some l" if "(j, l) \<in> set ls" for j l
    using that wf by (auto simp: assms(6) lots_of_def tbl_distinct_in)
  have nn: "0 \<le> r" if "r \<in> set (quantities ls)" for r using that l by (auto simp: quantities_def lot_ok_def)
  from assms(5,6) obtain rem u where u: "dispose_lots i t cur price ls q s = (Inr rem, u)"
    and "(if 0 < rem then save_tax_event (disposal_event i t cur rem price 0 None) else ret ()) u = (Inr (), s')"
    by (auto simp: processDisposal_def op_iff)
  then have e: "s' = (if 0 < rem then u\<lparr>tax_events := tax_events u @ [disposal_event i t cur rem price 0 None]\<rparr> else u)"
    by (auto simp: op_iff split: if_splits dest: save_tax_event_Inr)
  from dispose_lots_Inr [OF u d l assms(2-4)] obtain es where rem: "rem = q - min q (sum_list (quantities ls))"
    and lots: "\<forall>k. tbl_find k (lots u) = (case map_of (consumed_lots ls q) k of None \<Rightarrow> tbl_find k (lots s) | Some l \<Rightarrow> Some l)"
    and es: "tax_events u = tax_events s @ es" "matched i es (q - rem)" by blast
  let ?fs = "if 0 < rem then [disposal_event i t cur rem price 0 None] else []"
  have m: "is_dec 8 (sum_list (quantities ls))" "0 \<le> sum_list (quantities ls)"
    using l nn by (auto intro!: is_dec_sum_list sum_list_nonneg simp: quantities_def lot_ok_def)
  then have "is_dec 8 rem" "0 \<le> rem" using assms(2,3) by (auto simp: rem min_def is_dec_diff)
  then have fs: "sum_list (map te_quantity ?fs) = rem" "filter (\<lambda>e. te_acquiredAt e \<noteq> None) ?fs = []"
    by (auto simp: disposal_event_def Let_def)
  have es': "filter (\<lambda>e. te_acquiredAt e \<noteq> None) es = es" "sum_list (map te_quantity es) = q - rem"
    using es(2) by (auto simp: matched_def filter_id_conv)
  have "tax_events s' = tax_events s @ (es @ ?fs)" "lots s' = lots u" using e es(1) by auto
  moreover have "sum_list (map te_quantity (es @ ?fs)) = q" using fs(1) es'(2) by simp
  moreover have "sum_list (map te_quantity (filter (\<lambda>e. te_acquiredAt e \<noteq> None) (es @ ?fs))) =
      sum_list (quantities ls) - sum_list (fifo q (quantities ls))"
    unfolding filter_append fs(2) es'(1) using es'(2) rem fifo_sum [OF assms(3) nn] by simp
  moreover have "sorted (map (\<lambda>(j, l). lot_acquiredAt l) ls)" unfolding assms(6) lots_of_def by (rule sorted_sort_key)
  moreover have "set ls = {(j, l) \<in> set (lots s). lot_userId l = t_userId t \<and> lot_currency l = toUpperCase cur}"
    by (auto simp: assms(6) lots_of_def)
  ultimately show ?thesis using lots by (simp add: quantities_consumed)
qed

definition demo_lot :: "int \<Rightarrow> rat \<Rightarrow> rat \<Rightarrow> lot" where
  "demo_lot acquired q r = \<lparr>lot_userId = ''bob'', lot_currency = ''BTC'', lot_quantity = q, lot_costBasisUsd = 100,
     lot_acquiredAt = acquired, lot_sourceTransactionId = ''t0'', lot_remainingQuantity = r\<rparr>"

definition demo_tax_tx :: "tx_type \<Rightarrow> rat \<Rightarrow> transaction" where
  "demo_tax_tx ty a = \<lparr>t_userId = ''bob'', t_type = ty, t_amount = a, t_currency = ''BTC'', t_rate = None, t_status = SUCCESS,
     t_txHash = None, t_failureReason = None, t_feeAmount = None, t_feeCurrency = None, t_toCurrency = None, t_toAmount = None,
     t_createdAt = 9000, t_reference = None, t_counterpartyMemo = None, t_userNote = None, t_tags = None, t_categoryId = None\<rparr>"

definition keeps_events :: "tax_event list \<Rightarrow> 'a tax_state_scheme \<Rightarrow> bool" where
  "keeps_events es s \<longleftrightarrow> set es \<subseteq> set (tax_events s)"

lemma keeps_save [pres]: "preserves (keeps_events es) (save_lot j l)" "preserves (keeps_events es) (save_tax_event e)"
  unfolding save_lot_def save_tax_event_def by (intro pres; auto simp: keeps_events_def)+

lemma keeps_dispose [pres]: "preserves (keeps_events es) (dispose_lots i t cur price ls q)"
  by (induction ls arbitrary: q) (auto simp: Let_def intro!: pres)

lemma dispose_exists:
  "dispose_lots i t cur price ls q s = (Inr rem, s') \<Longrightarrow> s' = s \<or> (\<exists>e \<in> set (tax_events s'). te_transactionId e = i)"
proof (induction ls arbitrary: q s)
  case (Cons x ls)
  obtain j l where x: "x = (j, l)" by fastforce
  show ?case
  proof (cases "lot_remainingQuantity l = 0 \<or> q = 0")
    case True
    with Cons show ?thesis by (auto simp: x op_iff split: if_splits)
  next
    case False
    let ?m = "min q (lot_remainingQuantity l)"
    let ?e = "disposal_event i t cur ?m price (decimal_times ?m (decimal_div (lot_costBasisUsd l) (lot_quantity l))) (Some l)"
    from False Cons.prems obtain v u where "save_tax_event ?e v = (Inr (), u)"
      and u: "dispose_lots i t cur price ls (decimal_minus q ?m) u = (Inr rem, s')"
      by (auto simp: x Let_def bindE_Inr)
    then have e: "?e \<in> set (tax_events u)" "te_transactionId ?e = i"
      using save_tax_event_Inr by (force, simp add: disposal_event_def Let_def)
    from preservesD [OF keeps_dispose [of "tax_events u"] _ u] e show ?thesis by (auto simp: keeps_events_def)
  qed
qed (auto simp: op_iff)

lemma processDisposal_exists:
  "processDisposal i t cur q price s = (Inr (), s') \<Longrightarrow> s' = s \<or> (\<exists>e \<in> set (tax_events s'). te_transactionId e = i)"
  by (auto simp: processDisposal_def op_iff disposal_event_def Let_def split: if_splits dest!: save_tax_event_Inr dispose_exists)

lemma acquire_exists: "acquire uuid i t cur q price s = (Inr (), s') \<Longrightarrow> \<exists>e \<in> set (tax_events s'). te_transactionId e = i"
  by (auto simp: acquire_def op_iff Let_def dest!: save_tax_event_Inr)

lemma process_by_type_exists:
  "process_by_type rate uuid i t s = (Inr (), s') \<Longrightarrow> s' = s \<or> (\<exists>e \<in> set (tax_events s'). te_transactionId e = i)"
  by (auto simp: process_by_type_def op_iff Let_def split: if_splits dest: processDisposal_exists acquire_exists)

text \<open>Operations that change neither the transactions nor the prices.\<close>

definition same_tx :: "'a tax_state_scheme \<Rightarrow> 'a tax_state_scheme \<Rightarrow> bool" where
  "same_tx s t \<longleftrightarrow> transactions t = transactions s \<and> price_snapshots t = price_snapshots s"

lemma preserves_save [pres]: "preserves (same_tx s) (save_lot j l)" "preserves (same_tx s) (save_tax_event e)"
  unfolding save_lot_def save_tax_event_def by (intro pres; simp add: same_tx_def)+

lemma preserves_dispose [pres]: "preserves (same_tx s) (dispose_lots i t cur price ls q)"
  by (induction ls arbitrary: q) (auto simp: Let_def intro!: pres)

lemma preserves_by_type: "preserves (same_tx s) (process_by_type rate uuid i t)"
  unfolding process_by_type_def processDisposal_def acquire_def new_lot_def Let_def by (intro pres)


lemma save_snapshot_Inr:
  assumes "save_snapshot rate i c s = (Inr (), t)"
  shows "\<exists>ps. t = s\<lparr>price_snapshots := price_snapshots s @ ps\<rparr> \<and> map_of (price_snapshots t) (i, c) \<noteq> None"
proof (cases "map_of (price_snapshots s) (i, c)")
  case None
  with assms show ?thesis
    by (auto simp: save_snapshot_def op_iff map_add_def intro!: exI [of _ "[((i, c), _)]"] split: if_splits sum.splits)
next
  case (Some p)
  with assms show ?thesis by (auto simp: save_snapshot_def op_iff intro!: exI [of _ "[]"])
qed

lemma snapshots_Inr:
  assumes "forE cs (save_snapshot rate i) s = (Inr (), t)"
  shows "(\<exists>ps. t = s\<lparr>price_snapshots := price_snapshots s @ ps\<rparr>) \<and> (\<forall>c \<in> set cs. map_of (price_snapshots t) (i, c) \<noteq> None)"
  using assms
proof (induction cs arbitrary: s)
  case Nil
  then show ?case by (auto simp: op_iff intro!: exI [of _ "[]"])
next
  case (Cons c cs)
  then obtain u where u: "save_snapshot rate i c s = (Inr (), u)" "forE cs (save_snapshot rate i) u = (Inr (), t)" by (auto simp: op_iff)
  obtain ps where ps: "u = s\<lparr>price_snapshots := price_snapshots s @ ps\<rparr>" "map_of (price_snapshots u) (i, c) \<noteq> None"
    using save_snapshot_Inr [OF u(1)] by blast
  obtain qs where qs: "t = u\<lparr>price_snapshots := price_snapshots u @ qs\<rparr>" "\<forall>c \<in> set cs. map_of (price_snapshots t) (i, c) \<noteq> None"
    using Cons.IH [OF u(2)] by blast
  have "map_of (price_snapshots t) (i, c) \<noteq> None" using ps(2) by (auto simp: qs(1) map_add_def split: option.split)
  moreover have "\<exists>rs. t = s\<lparr>price_snapshots := price_snapshots s @ rs\<rparr>" by (intro exI [of _ "ps @ qs"]) (simp add: qs(1) ps(1))
  ultimately show ?case using qs(2) by simp
qed

lemma snapshots_again: "(\<And>c. c \<in> set cs \<Longrightarrow> map_of (price_snapshots s) (i, c) \<noteq> None) \<Longrightarrow> forE cs (save_snapshot rate i) s = (Inr (), s)"
  by (induction cs) (auto simp: save_snapshot_def bindE_def gets_def ret_def)

text \<open>Tax processing is safe to repeat: when a job for a transaction has succeeded, running it again, as a queue does,
  succeeds and changes nothing, whatever the type of the transaction and the amounts.\<close>

theorem tax_processed_once:
  assumes "processTransaction rate uuid i s = (Inr (), t)"
  shows "processTransaction rate uuid i t = (Inr (), t)"
proof (cases "t = s")
  case False
  obtain x u where x: "tbl_find i (transactions s) = Some x" "t_status x = SUCCESS" "\<not> (\<exists>e \<in> set (tax_events s). te_transactionId e = i)"
    and u: "savePriceSnapshots rate i x s = (Inr (), u)" "process_by_type rate uuid i x u = (Inr (), t)"
    using assms False by (auto simp: processTransaction_def op_iff split: option.splits if_splits)
  obtain ps where u': "u = s\<lparr>price_snapshots := price_snapshots s @ ps\<rparr>"
    and all: "\<And>c. c \<in> set (currenciesToFetch x) \<Longrightarrow> map_of (price_snapshots u) (i, c) \<noteq> None"
    using snapshots_Inr [OF u(1) [unfolded savePriceSnapshots_def]] by blast
  have same: "same_tx u t" using preservesD [OF preserves_by_type _ u(2), of u] by (simp add: same_tx_def)
  have tx: "tbl_find i (transactions t) = Some x" using x(1) same by (simp add: same_tx_def u')
  show ?thesis
  proof (cases "\<exists>e \<in> set (tax_events t). te_transactionId e = i")
    case True
    with tx x(2) show ?thesis by (simp add: processTransaction_def bindE_def gets_def ret_def)
  next
    case none: False
    with process_by_type_exists [OF u(2)] have t: "t = u" by blast
    have "savePriceSnapshots rate i x t = (Inr (), t)"
      unfolding savePriceSnapshots_def t by (rule snapshots_again) (rule all)
    with none tx x(2) u(2) t show ?thesis by (simp add: processTransaction_def bindE_def gets_def)
  qed
qed (use assms in simp)

definition demo_tax :: "rat \<Rightarrow> tax_state" where
  "demo_tax a = \<lparr>users = [], wallets = [], notifications = [], calls = 0, payments = [], ledger = [],
     transactions = [(''t'', demo_tax_tx WITHDRAW a)], lots = [(''b'', demo_lot 20 5 5), (''a'', demo_lot 10 4 3)], tax_events = [],
     price_snapshots = [], export_jobs = [], export_queue = []\<rparr>"


lemma demo_decimals: "decimal_div 100 4 = 25" "decimal_div 100 5 = 20" "decimal_times 3 25 = 75" "decimal_times 3 30 = 90"
    "decimal_times 1 20 = 20" "decimal_times 1 30 = 30" "decimal_minus 90 75 = 15" "decimal_minus 30 20 = 10"
    "decimal_minus 3 3 = 0" "decimal_minus 4 3 = 1" "decimal_minus 5 1 = 4" "decimal_minus 1 1 = 0"
  by (simp_all add: decimal_div_def decimal_times_def decimal_minus_def decimal_round_exact)

lemma demo_upper: "toUpperCase ''BTC'' = ''BTC''" by code_simp

lemma demo_lots_of: "price_snapshots s = ps \<Longrightarrow> lots s = lots (demo_tax 4) \<Longrightarrow>
    lots_of ''bob'' ''BTC'' s = [(''a'', demo_lot 10 4 3), (''b'', demo_lot 20 5 5)]"
  by (simp add: lots_of_def demo_upper demo_tax_def demo_lot_def)

lemma demo_disposal:
  assumes "lots s = lots (demo_tax 4)"
  shows "\<exists>t. processDisposal ''t'' (demo_tax_tx WITHDRAW 4) ''BTC'' 4 30 s = (Inr (), t)"
  using demo_lots_of [OF refl assms]
  by (simp add: processDisposal_def bindE_def gets_def ret_def demo_tax_tx_def demo_lot_def Let_def save_lot_def save_tax_event_def
      require_def modify_def disposal_event_def demo_decimals fits_column_def fits_option_def)

theorem tax_fifo_witness:
  "\<exists>t. processDisposal ''t'' (demo_tax_tx WITHDRAW 4) ''BTC'' 4 30 (demo_tax 4) = (Inr (), t) \<and>
     map_option lot_remainingQuantity (tbl_find ''a'' (lots t)) = Some 0 \<and>
     map_option lot_remainingQuantity (tbl_find ''b'' (lots t)) = Some 4"
proof -
  let ?ls = "[(''a'', demo_lot 10 4 3), (''b'', demo_lot 20 5 5)]"
  obtain t where t: "processDisposal ''t'' (demo_tax_tx WITHDRAW 4) ''BTC'' 4 30 (demo_tax 4) = (Inr (), t)"
    using demo_disposal by blast
  have wf: "lots_wf (demo_tax 4)" by (simp add: lots_wf_def demo_tax_def demo_lot_def lot_ok_def fits_column_def)
  have ls: "?ls = lots_of (t_userId (demo_tax_tx WITHDRAW 4)) ''BTC'' (demo_tax 4)"
    using demo_lots_of [of "demo_tax 4"] by (simp add: demo_tax_tx_def)
  have "is_dec 8 4" "(0 :: rat) \<le> 4" "fits_column 4" by (simp_all add: fits_column_def)
  from tax_fifo [OF wf this t ls] t show ?thesis by (auto simp: consumed_lots_def demo_lot_def)
qed

theorem tax_processed_once_witness:
  "\<exists>t. processTransaction (\<lambda>_ _. Inr 30) (\<lambda>n. replicate n CHR ''x'') ''t'' (demo_tax 4) = (Inr (), t) \<and>
     processTransaction (\<lambda>_ _. Inr 30) (\<lambda>n. replicate n CHR ''x'') ''t'' t = (Inr (), t)"
proof -
  let ?s = "(demo_tax 4)\<lparr>price_snapshots := [((''t'', ''BTC''), 30), ((''t'', ''GBP''), 30)]\<rparr>"
  have "savePriceSnapshots (\<lambda>_ _. Inr 30) ''t'' (demo_tax_tx WITHDRAW 4) (demo_tax 4) = (Inr (), ?s)"
    by (simp add: savePriceSnapshots_def currenciesToFetch_def demo_tax_tx_def demo_upper truthy_def demo_tax_def save_snapshot_def
        is_dollar_def bindE_def gets_def ret_def from_sum_def require_def modify_def fits_column_def)
  moreover obtain t where "processDisposal ''t'' (demo_tax_tx WITHDRAW 4) ''BTC'' 4 30 ?s = (Inr (), t)"
    using demo_disposal [of ?s] by auto
  ultimately have "processTransaction (\<lambda>_ _. Inr 30) (\<lambda>n. replicate n CHR ''x'') ''t'' (demo_tax 4) = (Inr (), t)"
    by (simp add: processTransaction_def process_by_type_def bindE_def gets_def demo_tax_def tbl_find_def demo_tax_tx_def getUsdRate_def
        demo_upper is_dollar_def)
  with tax_processed_once [OF this] show ?thesis by blast
qed

end
