(* ===== verification/Conversions.thy ===== *)
theory Conversions
  imports TxLimits Decimals
begin

text \<open>
  Currency conversions (\<open>modules/conversions/conversions.service.ts\<close>): a quote locks a rate for thirty seconds, and
  executing it debits one balance of the user, credits another, and records a transaction with its ledger entries.
  The execution reads the quote, compares the rate with the market, and settles inside a database transaction; other
  requests run between these three steps, so each is an operation of its own and the runs interleave them.
\<close>

section \<open>Rows and state\<close>

datatype quote_status = QUOTE_PENDING | QUOTE_USED | QUOTE_EXPIRED

record conv_quote =
  cq_userId :: string
  cq_fromCurrency :: string
  cq_toCurrency :: string
  cq_fromAmount :: rat
  cq_toAmount :: rat
  cq_rate :: rat
  cq_fee :: rat
  cq_feePercent :: rat
  cq_expiresAt :: int
  cq_usedAt :: "int option"
  cq_status :: quote_status
  cq_createdAt :: int

text \<open>The column \<open>label\<close> of the wallets and the key \<open>quoteId\<close> of a transaction's \<open>metadata\<close> are tables beside the
  rows, by the id of the row.\<close>

record conv_state = books +
  quotes :: "conv_quote table"
  wallet_labels :: "string table"
  tx_quote :: "string table"

text \<open>Ids of new rows, and \<open>CONVERSION_FEE_PERCENT\<close>, when it is set.\<close>

record conv_env =
  ce_quote_id :: "nat \<Rightarrow> string"
  ce_tx_id :: "nat \<Rightarrow> string"
  ce_wallet_id :: "nat \<Rightarrow> string"
  ce_fee_percent :: "rat option"

text \<open>What \<open>new Decimal(text)\<close> makes of the amount of a request.\<close>

datatype parsed = NotDecimal | NotFinite | Finite rat

record quote_dto =
  qd_fromCurrency :: string
  qd_toCurrency :: string
  qd_fromAmount :: parsed

section \<open>Quotes\<close>

definition conv_fee :: "conv_env \<Rightarrow> rat \<Rightarrow> rat" where
  "conv_fee E a = decimal_div (decimal_times a (case ce_fee_percent E of None \<Rightarrow> 1 / 2 | Some p \<Rightarrow> p)) 100"

definition conv_to_amount :: "conv_env \<Rightarrow> rat \<Rightarrow> rat \<Rightarrow> rat" where
  "conv_to_amount E a r = decimal_times (decimal_minus a (conv_fee E a)) r"

definition quote_row :: "conv_env \<Rightarrow> int \<Rightarrow> string \<Rightarrow> string \<Rightarrow> string \<Rightarrow> rat \<Rightarrow> rat \<Rightarrow> conv_quote" where
  "quote_row E now userId c d a r =
     \<lparr>cq_userId = userId, cq_fromCurrency = c, cq_toCurrency = d, cq_fromAmount = to_fixed 8 a,
      cq_toAmount = to_fixed 8 (conv_to_amount E a r), cq_rate = to_fixed 8 r, cq_fee = to_fixed 8 (conv_fee E a),
      cq_feePercent = to_fixed 4 (case ce_fee_percent E of None \<Rightarrow> 1 / 2 | Some p \<Rightarrow> p),
      cq_expiresAt = now + 30000, cq_usedAt = None, cq_status = QUOTE_PENDING, cq_createdAt = now\<rparr>"

definition quote_fits :: "conv_quote \<Rightarrow> bool" where
  "quote_fits q \<longleftrightarrow> fits_column (cq_fromAmount q) \<and> fits_column (cq_toAmount q) \<and> fits_column (cq_rate q) \<and>
     fits_column (cq_fee q) \<and> \<bar>cq_feePercent q\<bar> < 10 ^ 6 \<and> length (cq_fromCurrency q) \<le> 10 \<and> length (cq_toCurrency q) \<le> 10"

definition createQuote :: "conv_env \<Rightarrow> int \<Rightarrow> rates \<Rightarrow> string \<Rightarrow> quote_dto \<Rightarrow> ('a conv_state_scheme, string \<times> conv_quote) op" where
  "createQuote E now getRate userId dto =
     (let fromCurrency = toUpperCase (qd_fromCurrency dto); toCurrency = toUpperCase (qd_toCurrency dto) in
      bindE (require (fromCurrency \<noteq> [] \<and> toCurrency \<noteq> [])
        (BadRequestException ''fromCurrency and toCurrency are required'')) (\<lambda>_.
      bindE (require (fromCurrency \<noteq> toCurrency) (BadRequestException ''Cannot convert same currency'')) (\<lambda>_.
      bindE (require (qd_fromAmount dto \<noteq> NotDecimal) (BadRequestException ''Invalid fromAmount'')) (\<lambda>_.
      case qd_fromAmount dto of
        Finite a \<Rightarrow>
          bindE (require (0 < a) (BadRequestException ''Amount must be positive'')) (\<lambda>_.
          bindE (from_sum (getRate fromCurrency toCurrency)) (\<lambda>rate.
          let q = quote_row E now userId fromCurrency toCurrency a (num_to_string rate) in
          bindE (gets (\<lambda>s. ce_quote_id E (length (quotes s)))) (\<lambda>i.
          bindE (require (quote_fits q) (PlainError ''numeric field overflow'')) (\<lambda>_.
          bindE (modify (\<lambda>s. s\<lparr>quotes := tbl_save i q (quotes s)\<rparr>)) (\<lambda>_.
          ret (i, q))))))
      | _ \<Rightarrow> throw (BadRequestException ''Amount must be positive'')))))"

section \<open>Executing a quote\<close>

text \<open>\<open>save(quote)\<close> writes the columns of the row as this request read it.\<close>

definition save_quote :: "string \<Rightarrow> conv_quote \<Rightarrow> ('a conv_state_scheme, unit) op" where
  "save_quote i q = modify (\<lambda>s. s\<lparr>quotes := tbl_save i q (quotes s)\<rparr>)"

definition expire_quote :: "string \<Rightarrow> conv_quote \<Rightarrow> exn \<Rightarrow> ('a conv_state_scheme, 'b) op" where
  "expire_quote i q e = bindE (save_quote i (q\<lparr>cq_status := QUOTE_EXPIRED\<rparr>)) (\<lambda>_. throw e)"

definition load_quote :: "int \<Rightarrow> string \<Rightarrow> string \<Rightarrow> ('a conv_state_scheme, conv_quote) op" where
  "load_quote now userId i =
     bindE (gets (\<lambda>s. tbl_find i (quotes s))) (\<lambda>found.
     bindE (from_option (UnprocessableEntityException ''Quote not found'') found) (\<lambda>q.
     bindE (require (cq_userId q = userId)
       (UnprocessableEntityException ''Quote does not belong to authenticated user'')) (\<lambda>_.
     bindE (require (cq_status q = QUOTE_PENDING)
       (UnprocessableEntityException ''Quote is not pending or already used'')) (\<lambda>_.
     bindE (require (cq_usedAt q = None) (UnprocessableEntityException ''Quote already used'')) (\<lambda>_.
     if cq_expiresAt q < now then expire_quote i q (UnprocessableEntityException ''Quote has expired'') else ret q)))))"

text \<open>A quoted rate of zero: the relative difference is \<open>NaN\<close> when the market is at zero too, else infinite.\<close>

definition slipped :: "rat \<Rightarrow> rat \<Rightarrow> bool" where
  "slipped quoted current =
     (if quoted = 0 then current \<noteq> 0 else 1 / 100 < decimal_div \<bar>decimal_minus current quoted\<bar> quoted)"

definition check_slippage :: "rates \<Rightarrow> string \<Rightarrow> conv_quote \<Rightarrow> ('a conv_state_scheme, unit) op" where
  "check_slippage getRate i q =
     bindE (from_sum (getRate (cq_fromCurrency q) (cq_toCurrency q))) (\<lambda>rate.
     if slipped (cq_rate q) (num_to_string rate)
     then expire_quote i q (UnprocessableEntityException
       ''Rate movement exceeds 1% slippage threshold. Quote is no longer valid.'')
     else ret ())"

definition wallet_label :: "string \<Rightarrow> string" where
  "wallet_label c = c @ '' Wallet''"

definition labelled_wallet :: "string \<Rightarrow> string \<Rightarrow> 'a conv_state_scheme \<Rightarrow> (string \<times> wallet) option" where
  "labelled_wallet userId l s = List.find (\<lambda>(i, w). w_userId w = userId \<and> tbl_find i (wallet_labels s) = Some l) (wallets s)"

definition key_taken :: "string \<Rightarrow> string \<Rightarrow> 'a base_scheme \<Rightarrow> bool" where
  "key_taken userId k s \<longleftrightarrow> (\<exists>(i, w) \<in> set (wallets s). w_userId w = userId \<and> w_publicKey w = k)"

definition ensure_wallet :: "conv_env \<Rightarrow> string \<Rightarrow> user \<Rightarrow> string \<Rightarrow> ('a conv_state_scheme, unit) op" where
  "ensure_wallet E userId u c =
     bindE (gets (labelled_wallet userId (wallet_label c))) (\<lambda>found.
     if found \<noteq> None then ret ()
     else let k = (if u_walletPublicKey u \<noteq> [] then u_walletPublicKey u
                   else ''auto-'' @ userId @ ''-'' @ map ascii_lower c);
              w = \<lparr>w_userId = userId, w_publicKey = k,
                   w_encryptedSecretKey = (if truthy (u_walletSecretKeyEncrypted u) then u_walletSecretKeyEncrypted u else None),
                   w_isDefault = False\<rparr> in
       bindE (gets (key_taken userId k)) (\<lambda>taken.
       bindE (require (\<not> taken) (PlainError ''UQ_wallets_user_publicKey'')) (\<lambda>_.
       bindE (gets (\<lambda>s. ce_wallet_id E (length (wallets s)))) (\<lambda>i.
       modify (\<lambda>s. s\<lparr>wallets := tbl_save i w (wallets s),
                    wallet_labels := tbl_save i (wallet_label c) (wallet_labels s)\<rparr>)))))"

definition conv_tx :: "int \<Rightarrow> string \<Rightarrow> conv_quote \<Rightarrow> transaction" where
  "conv_tx now userId q =
     \<lparr>t_userId = userId, t_type = SWAP, t_amount = cq_fromAmount q, t_currency = cq_fromCurrency q,
      t_rate = Some (cq_rate q), t_status = SUCCESS, t_txHash = None, t_failureReason = None,
      t_feeAmount = Some (cq_fee q), t_feeCurrency = Some (cq_fromCurrency q),
      t_toCurrency = Some (cq_toCurrency q), t_toAmount = Some (cq_toAmount q), t_createdAt = now,
      t_reference = None, t_counterpartyMemo = None, t_userNote = None, t_tags = None, t_categoryId = None\<rparr>"

definition debited :: "user \<Rightarrow> conv_quote \<Rightarrow> rat" where
  "debited u q = rnd (decimal_minus (num_to_string (balance_of u (cq_fromCurrency q))) (cq_fromAmount q))"

definition credited :: "user \<Rightarrow> conv_quote \<Rightarrow> rat" where
  "credited u q = rnd (decimal_plus (num_to_string (balance_of u (cq_toCurrency q))) (cq_toAmount q))"

definition move_balances :: "string \<Rightarrow> user \<Rightarrow> conv_quote \<Rightarrow> ('a conv_state_scheme, unit) op" where
  "move_balances userId u q =
     modify (\<lambda>s. s\<lparr>users := tbl_save userId
       (u\<lparr>u_balances := set_balance (cq_toCurrency q) (credited u q)
            (set_balance (cq_fromCurrency q) (debited u q) (u_balances u))\<rparr>) (users s)\<rparr>)"

definition conv_rollback :: "'a conv_state_scheme \<Rightarrow> 'a conv_state_scheme \<Rightarrow> 'a conv_state_scheme" where
  "conv_rollback s t = t\<lparr>users := users s, wallets := wallets s, ledger := ledger s, transactions := transactions s,
     quotes := quotes s, wallet_labels := wallet_labels s, tx_quote := tx_quote s\<rparr>"

text \<open>The body of the database transaction.\<close>

definition settle_body :: "conv_env \<Rightarrow> int \<Rightarrow> string \<Rightarrow> string \<Rightarrow> conv_quote \<Rightarrow> ('a conv_state_scheme, string \<times> conv_quote) op" where
  "settle_body E now userId i q =
      bindE (gets (\<lambda>s. tbl_find i (quotes s))) (\<lambda>found.
      bindE (require (\<exists>l. found = Some l \<and> cq_status l = QUOTE_PENDING \<and> cq_usedAt l = None)
        (UnprocessableEntityException ''Quote is no longer available for execution'')) (\<lambda>_.
      bindE (gets (findById userId)) (\<lambda>found_user.
      bindE (from_option (NotFoundException ''User not found'') found_user) (\<lambda>u.
      bindE (require (cq_fromAmount q \<le> num_to_string (balance_of u (cq_fromCurrency q)))
        (UnprocessableEntityException ''Insufficient balance in source wallet'')) (\<lambda>_.
      bindE (ensure_wallet E userId u (cq_toCurrency q)) (\<lambda>_.
      bindE (move_balances userId u q) (\<lambda>_.
      bindE (insert_transaction (ce_tx_id E) (conv_tx now userId q)) (\<lambda>j.
      bindE (modify (\<lambda>s. s\<lparr>tx_quote := tbl_save j i (tx_quote s)\<rparr>)) (\<lambda>_.
      bindE (from_sum (buildEntries j (conv_tx now userId q))) (\<lambda>es.
      bindE (insert_entries es) (\<lambda>_.
      let used = (the found)\<lparr>cq_status := QUOTE_USED, cq_usedAt := Some now\<rparr> in
      bindE (save_quote i used) (\<lambda>_.
      ret (j, used)))))))))))))"

definition settle_quote :: "conv_env \<Rightarrow> int \<Rightarrow> string \<Rightarrow> string \<Rightarrow> conv_quote \<Rightarrow> ('a conv_state_scheme, string \<times> conv_quote) op" where
  "settle_quote E now userId i q = transactionE conv_rollback (settle_body E now userId i q)"

definition executeConversion :: "conv_env \<Rightarrow> int \<Rightarrow> rates \<Rightarrow> string \<Rightarrow> string \<Rightarrow> ('a conv_state_scheme, string \<times> conv_quote) op" where
  "executeConversion E now getRate userId i =
     bindE (load_quote now userId i) (\<lambda>q.
     bindE (check_slippage getRate i q) (\<lambda>_.
     settle_quote E now userId i q))"

section \<open>Reading\<close>

record conversion_page =
  cp_data :: "(string \<times> conv_quote) list"
  cp_total :: nat
  cp_page :: nat
  cp_limit :: nat
  cp_totalPages :: nat

text \<open>A query parameter that is not a number reads as zero, and zero as the default.\<close>

definition getConversions :: "string \<Rightarrow> int \<Rightarrow> int \<Rightarrow> ('a conv_state_scheme, conversion_page) op" where
  "getConversions userId page limit = gets (\<lambda>s.
     let pageNum = nat (max 1 (if page = 0 then 1 else page));
         limitNum = nat (max 1 (min 100 (if limit = 0 then 10 else limit)));
         mine = sort_key (\<lambda>(i, q). - cq_createdAt q) (filter (\<lambda>(i, q). cq_userId q = userId) (quotes s))
     in \<lparr>cp_data = take limitNum (drop ((pageNum - 1) * limitNum) mine), cp_total = length mine, cp_page = pageNum,
         cp_limit = limitNum, cp_totalPages = (length mine + limitNum - 1) div limitNum\<rparr>)"

definition matches_quote :: "string \<Rightarrow> conv_quote \<Rightarrow> 'a conv_state_scheme \<Rightarrow> string \<times> transaction \<Rightarrow> bool" where
  "matches_quote i q s = (\<lambda>(j, t). tbl_find j (tx_quote s) = Some i \<or>
     t_currency t = cq_fromCurrency q \<and> t_toCurrency t = Some (cq_toCurrency q) \<and> t_amount t = cq_fromAmount q)"

definition getConversionById ::
    "string \<Rightarrow> string \<Rightarrow> ('a conv_state_scheme, conv_quote \<times> (string \<times> transaction) option \<times> ledger_entry list) op" where
  "getConversionById userId i =
     bindE (gets (\<lambda>s. tbl_find i (quotes s))) (\<lambda>found.
     bindE (from_option (NotFoundException ''Conversion quote not found'')
       (case found of None \<Rightarrow> None | Some q \<Rightarrow> if cq_userId q = userId then Some q else None)) (\<lambda>q.
     gets (\<lambda>s.
       let tx = List.find (matches_quote i q s)
             (sort_key (\<lambda>(j, t). - t_createdAt t) (filter (\<lambda>(j, t). t_userId t = userId) (transactions s)))
       in (q, tx, case tx of None \<Rightarrow> [] | Some (j, t) \<Rightarrow> filter (\<lambda>e. le_transactionId e = j) (ledger s)))))"

section \<open>Interleaved requests\<close>

text \<open>A request that executes a quote is in flight after it has loaded the quote, and again after the comparison of the
  rates; it goes on when the network or the database answers it.\<close>

type_synonym conv_request = "string \<times> string \<times> conv_quote"

record conv_system =
  store :: conv_state
  loaded :: "conv_request list"
  compared :: "conv_request list"

datatype conv_event =
    Quote int rates string quote_dto
  | Load int string string
  | Compare nat rates
  | Settle nat int

definition without :: "nat \<Rightarrow> 'a list \<Rightarrow> 'a list" where
  "without n xs = take n xs @ drop (Suc n) xs"

fun conv_step :: "conv_env \<Rightarrow> conv_event \<Rightarrow> conv_system \<Rightarrow> conv_system" where
  "conv_step E (Quote now getRate userId dto) y = y\<lparr>store := snd (createQuote E now getRate userId dto (store y))\<rparr>"
| "conv_step E (Load now userId i) y =
     (case load_quote now userId i (store y) of
        (Inl _, s) \<Rightarrow> y\<lparr>store := s\<rparr>
      | (Inr q, s) \<Rightarrow> y\<lparr>store := s, loaded := loaded y @ [(userId, i, q)]\<rparr>)"
| "conv_step E (Compare n getRate) y =
     (if n < length (loaded y) then
        case loaded y ! n of (userId, i, q) \<Rightarrow>
          (case check_slippage getRate i q (store y) of
             (Inl _, s) \<Rightarrow> y\<lparr>store := s, loaded := without n (loaded y)\<rparr>
           | (Inr _, s) \<Rightarrow> y\<lparr>store := s, loaded := without n (loaded y), compared := compared y @ [(userId, i, q)]\<rparr>)
      else y)"
| "conv_step E (Settle n now) y =
     (if n < length (compared y) then
        case compared y ! n of (userId, i, q) \<Rightarrow>
          y\<lparr>store := snd (settle_quote E now userId i q (store y)), compared := without n (compared y)\<rparr>
      else y)"

section \<open>Outcomes of the steps\<close>

lemma createQuote_cases: "createQuote E now getRate userId dto s = (r, t) \<Longrightarrow>
    t = s \<or> (\<exists>c d a p. t = s\<lparr>quotes := tbl_save (ce_quote_id E (length (quotes s))) (quote_row E now userId c d a p) (quotes s)\<rparr>)"
  by (cases r; cases "qd_fromAmount dto") (auto simp: createQuote_def Let_def op_iff)

lemma load_quote_Inr: "load_quote now userId i s = (Inr q, t) \<Longrightarrow>
    t = s \<and> tbl_find i (quotes s) = Some q \<and> cq_userId q = userId \<and> cq_status q = QUOTE_PENDING \<and> cq_usedAt q = None \<and> now \<le> cq_expiresAt q"
  by (auto simp: load_quote_def expire_quote_def op_iff split: if_splits)

lemma load_quote_Inl: "load_quote now userId i s = (Inl e, t) \<Longrightarrow>
    t = s \<or> (\<exists>q. tbl_find i (quotes s) = Some q \<and> t = s\<lparr>quotes := tbl_save i (q\<lparr>cq_status := QUOTE_EXPIRED\<rparr>) (quotes s)\<rparr>)"
  by (auto simp: load_quote_def expire_quote_def save_quote_def op_iff split: if_splits)

lemma check_slippage_Inr: "check_slippage getRate i q s = (Inr x, t) \<Longrightarrow> t = s"
  by (auto simp: check_slippage_def expire_quote_def op_iff split: if_splits)

lemma check_slippage_Inl: "check_slippage getRate i q s = (Inl e, t) \<Longrightarrow>
    t = s \<or> t = s\<lparr>quotes := tbl_save i (q\<lparr>cq_status := QUOTE_EXPIRED\<rparr>) (quotes s)\<rparr>"
  by (auto simp: check_slippage_def expire_quote_def save_quote_def op_iff split: if_splits)

text \<open>What opening the wallet may change.\<close>

definition opened :: "'a conv_state_scheme \<Rightarrow> 'a conv_state_scheme \<Rightarrow> bool" where
  "opened s t \<longleftrightarrow> (\<exists>ws ls. t = s\<lparr>wallets := ws, wallet_labels := ls\<rparr>)"

lemma opened_refl: "opened s s"
  unfolding opened_def by (intro exI [of _ "wallets s"] exI [of _ "wallet_labels s"]) simp

lemma openedI: "opened s (s\<lparr>wallets := ws, wallet_labels := ls\<rparr>)"
  by (auto simp: opened_def)

lemma ensure_wallet_Inr: "ensure_wallet E userId u c s = (Inr x, t) \<Longrightarrow> opened s t"
  by (auto simp: ensure_wallet_def Let_def op_iff opened_refl openedI split: if_splits)

definition settled_row :: "int \<Rightarrow> conv_quote \<Rightarrow> conv_quote" where
  "settled_row now q = q\<lparr>cq_status := QUOTE_USED, cq_usedAt := Some now\<rparr>"

lemma settle_quote_Inr:
  assumes "settle_quote E now userId i q s = (Inr r, t)"
  shows "\<exists>l u j es. tbl_find i (quotes s) = Some l \<and> cq_status l = QUOTE_PENDING \<and> cq_usedAt l = None \<and>
     findById userId s = Some u \<and> cq_fromAmount q \<le> num_to_string (balance_of u (cq_fromCurrency q)) \<and>
     j = ce_tx_id E (length (transactions s)) \<and> buildEntries j (conv_tx now userId q) = Inr es \<and>
     r = (j, settled_row now l) \<and>
     users t = tbl_save userId
       (u\<lparr>u_balances := set_balance (cq_toCurrency q) (credited u q)
            (set_balance (cq_fromCurrency q) (debited u q) (u_balances u))\<rparr>) (users s) \<and>
     ledger t = ledger s @ es \<and> transactions t = tbl_save j (conv_tx now userId q) (transactions s) \<and>
     quotes t = tbl_save i (settled_row now l) (quotes s) \<and> tx_quote t = tbl_save j i (tx_quote s)"
  using assms
  by (auto simp: settle_quote_def settle_body_def Let_def op_iff move_balances_def insert_transaction_def insert_entries_def save_quote_def
      settled_row_def opened_def dest!: ensure_wallet_Inr)

definition conv_frame :: "conv_state \<Rightarrow> conv_state \<Rightarrow> bool" where
  "conv_frame s t \<longleftrightarrow> notifications t = notifications s \<and> calls t = calls s \<and> payments t = payments s"

lemma frame_rollback: "conv_frame s t \<Longrightarrow> conv_rollback s t = s"
  by (simp add: conv_frame_def conv_rollback_def)

lemma frame_refl: "conv_frame s s"
  by (simp add: conv_frame_def)

lemma frame_ensure_wallet [pres]: "preserves (conv_frame s) (ensure_wallet E userId u c)"
  unfolding ensure_wallet_def Let_def by (intro pres) (simp_all add: conv_frame_def)

lemma frame_settle_body: "preserves (conv_frame s) (settle_body E now userId i q)"
  unfolding settle_body_def Let_def move_balances_def insert_entries_def save_quote_def
  by (intro pres) (auto simp: conv_frame_def preserves_def insert_transaction_def Let_def)

lemma settle_quote_Inl: "settle_quote E now userId i q (s :: conv_state) = (Inl e, t) \<Longrightarrow> t = s"
  unfolding settle_quote_def transactionE_Inl using preservesD [OF frame_settle_body frame_refl] frame_rollback by metis

section \<open>What every interleaving keeps\<close>

text \<open>Every transaction of the books settles a quote that is no longer pending, at the terms of the quote; every used quote
  has a transaction, and no quote has two.\<close>

definition terms :: "conv_quote \<Rightarrow> conv_quote" where
  "terms q = q\<lparr>cq_status := QUOTE_PENDING, cq_usedAt := None\<rparr>"

definition settles :: "conv_state \<Rightarrow> string \<times> string \<Rightarrow> bool" where
  "settles s = (\<lambda>(j, i). \<exists>t q. tbl_find j (transactions s) = Some t \<and> tbl_find i (quotes s) = Some q \<and>
     cq_status q \<noteq> QUOTE_PENDING \<and> t = conv_tx (t_createdAt t) (cq_userId q) q)"

definition conv_keys :: "conv_env \<Rightarrow> conv_state \<Rightarrow> bool" where
  "conv_keys E s \<longleftrightarrow>
     map fst (quotes s) = map (ce_quote_id E) [0..<length (quotes s)] \<and>
     map fst (transactions s) = map (ce_tx_id E) [0..<length (transactions s)] \<and>
     map fst (tx_quote s) = map fst (transactions s)"

definition used_settled :: "conv_state \<Rightarrow> bool" where
  "used_settled s \<longleftrightarrow> (\<forall>(i, q) \<in> set (quotes s). cq_status q = QUOTE_USED \<longrightarrow> i \<in> snd ` set (tx_quote s))"

definition conv_ok :: "conv_env \<Rightarrow> conv_state \<Rightarrow> bool" where
  "conv_ok E s \<longleftrightarrow> conv_keys E s \<and> distinct (map snd (tx_quote s)) \<and> (\<forall>p \<in> set (tx_quote s). settles s p) \<and>
     used_settled s \<and> ledger s = concat (map entries_of (transactions s))"

definition request_ok :: "conv_state \<Rightarrow> conv_request \<Rightarrow> bool" where
  "request_ok s = (\<lambda>(userId, i, q0). \<exists>q. tbl_find i (quotes s) = Some q \<and> terms q = terms q0 \<and> cq_userId q = userId)"

definition system_ok :: "conv_env \<Rightarrow> conv_system \<Rightarrow> bool" where
  "system_ok E y \<longleftrightarrow> conv_ok E (store y) \<and> (\<forall>r \<in> set (loaded y @ compared y). request_ok (store y) r)"

lemma conv_tx_terms: "terms q = terms q' \<Longrightarrow> conv_tx now u q = conv_tx now u q'"
  by (cases q; cases q') (simp add: terms_def conv_tx_def)

lemma terms_user: "terms q = terms q' \<Longrightarrow> cq_userId q = cq_userId q'"
  by (cases q; cases q') (simp add: terms_def)

lemma terms_simps [simp]: "terms (q\<lparr>cq_status := x\<rparr>) = terms q" "terms (settled_row now q) = terms q"
  by (simp_all add: terms_def settled_row_def)

lemma settled_simps [simp]: "cq_status (settled_row now q) = QUOTE_USED" "cq_userId (settled_row now q) = cq_userId q"
  by (simp_all add: settled_row_def)

lemma ids_fresh: "inj f \<Longrightarrow> map fst t = map f [0..<length t] \<Longrightarrow> tbl_find (f (length t)) t = None"
  by (auto simp: tbl_find_None_keys inj_eq)

definition advances :: "conv_state \<Rightarrow> conv_state \<Rightarrow> bool" where
  "advances s t \<longleftrightarrow> (\<forall>i q. tbl_find i (quotes s) = Some q \<longrightarrow>
     (\<exists>q'. tbl_find i (quotes t) = Some q' \<and> terms q' = terms q \<and>
       (cq_status q \<noteq> QUOTE_PENDING \<longrightarrow> cq_status q' \<noteq> QUOTE_PENDING)))"

lemma settles_advances:
  assumes "settles s p" and "advances s t" and "tbl_find (fst p) (transactions t) = tbl_find (fst p) (transactions s)"
  shows "settles t p"
proof -
  obtain x q where p: "tbl_find (fst p) (transactions s) = Some x" "tbl_find (snd p) (quotes s) = Some q"
      "cq_status q \<noteq> QUOTE_PENDING" "x = conv_tx (t_createdAt x) (cq_userId q) q"
    using assms(1) by (auto simp: settles_def split: prod.splits)
  then obtain q' where q': "tbl_find (snd p) (quotes t) = Some q'" "terms q' = terms q" "cq_status q' \<noteq> QUOTE_PENDING"
    using assms(2) unfolding advances_def by blast
  with p(4) have "x = conv_tx (t_createdAt x) (cq_userId q') q'" using terms_user conv_tx_terms by metis
  with p q' assms(3) show ?thesis by (auto simp: settles_def split: prod.splits)
qed

lemma settles_all:
  assumes "conv_ok E s" and "advances s t" and "tx_quote t = tx_quote s" and "transactions t = transactions s"
  shows "\<forall>p \<in> set (tx_quote t). settles t p"
proof
  fix p assume "p \<in> set (tx_quote t)"
  with assms(1,3) have "settles s p" by (simp add: conv_ok_def)
  then show "settles t p" by (rule settles_advances [OF _ assms(2)]) (simp add: assms(4))
qed

lemma request_advances: "request_ok s r \<Longrightarrow> advances s t \<Longrightarrow> request_ok t r"
  by (auto simp: request_ok_def advances_def) (metis terms_user)

lemma advances_refl: "advances s s"
  by (simp add: advances_def)

text \<open>A change of a quote's status and time of use.\<close>

lemma advances_save:
  assumes "tbl_find i (quotes s) = Some q" and "terms q' = terms q" and "cq_status q' \<noteq> QUOTE_PENDING"
    and "quotes t = tbl_save i q' (quotes s)"
  shows "advances s t"
  using assms by (auto simp: advances_def tbl.find_save)

lemma used_settled_save:
  assumes "used_settled s" and "quotes t = tbl_save i q' (quotes s)" and "snd ` set (tx_quote s) \<subseteq> snd ` set (tx_quote t)"
    and "cq_status q' = QUOTE_USED \<Longrightarrow> i \<in> snd ` set (tx_quote t)"
  shows "used_settled t"
  unfolding used_settled_def
proof (intro ballI, clarify)
  fix k q assume "(k, q) \<in> set (quotes t)" and used: "cq_status q = QUOTE_USED"
  then consider "(k, q) = (i, q')" | "(k, q) \<in> set (quotes s)" using set_tbl_save [of i q' "quotes s"] assms(2) by auto
  then show "k \<in> snd ` set (tx_quote t)"
  proof cases
    case 1
    with assms(4) used show ?thesis by simp
  next
    case 2
    with assms(1) used have "k \<in> snd ` set (tx_quote s)" by (fastforce simp: used_settled_def)
    with assms(3) show ?thesis by blast
  qed
qed

lemma conv_ok_expire:
  assumes "conv_ok E s" and "tbl_find i (quotes s) = Some q" and "terms q' = terms q" and "cq_status q' = QUOTE_EXPIRED"
  shows "conv_ok E (s\<lparr>quotes := tbl_save i q' (quotes s)\<rparr>)"
proof -
  let ?t = "s\<lparr>quotes := tbl_save i q' (quotes s)\<rparr>"
  have keys: "map fst (quotes ?t) = map fst (quotes s)" using tbl_save_keys [OF assms(2)] by simp
  then have len: "length (quotes ?t) = length (quotes s)" by (metis length_map)
  have adv: "advances s ?t" using assms by (intro advances_save) auto
  have "\<forall>p \<in> set (tx_quote ?t). settles ?t p" by (rule settles_all [OF assms(1) adv]) simp_all
  moreover have "used_settled ?t" by (rule used_settled_save [of s ?t i q']) (use assms(1,4) in \<open>simp_all add: conv_ok_def\<close>)
  moreover have "conv_keys E ?t" using assms(1) keys len by (simp add: conv_ok_def conv_keys_def)
  ultimately show ?thesis using assms(1) by (simp add: conv_ok_def)
qed

lemma conv_ok_new_quote:
  assumes inj: "inj (ce_quote_id E)" and ok: "conv_ok E s"
    and t: "t = s\<lparr>quotes := tbl_save (ce_quote_id E (length (quotes s))) (quote_row E now userId c d a p) (quotes s)\<rparr>"
  shows "conv_ok E t \<and> advances s t"
proof -
  let ?i = "ce_quote_id E (length (quotes s))"
  from ok have keys: "map fst (quotes s) = map (ce_quote_id E) [0..<length (quotes s)]" by (simp add: conv_ok_def conv_keys_def)
  then have new: "tbl_find ?i (quotes s) = None" by (rule ids_fresh [OF inj])
  with t have q: "quotes t = quotes s @ [(?i, quote_row E now userId c d a p)]" by (simp add: tbl_save_new)
  have adv: "advances s t" using new by (auto simp: advances_def t tbl.find_save)
  have "\<forall>x \<in> set (tx_quote t). settles t x"
    by (rule settles_all [OF ok adv]) (simp_all add: t)
  moreover have "used_settled t"
    by (rule used_settled_save [of s t ?i "quote_row E now userId c d a p"]) (use ok t in \<open>simp_all add: conv_ok_def quote_row_def\<close>)
  moreover have "conv_keys E t"
  proof -
    have "map fst (quotes t) = map (ce_quote_id E) [0..<length (quotes t)]" using keys q by simp
    with ok t show ?thesis by (simp add: conv_ok_def conv_keys_def)
  qed
  ultimately show ?thesis using ok adv t by (simp add: conv_ok_def)
qed

lemma conv_ok_settle:
  assumes inj: "inj (ce_tx_id E)" and ok: "conv_ok E s" and req: "request_ok s (userId, i, q)"
    and run: "settle_quote E now userId i q s = (Inr r, t)"
  shows "conv_ok E t \<and> advances s t"
proof -
  obtain l u j es where l: "tbl_find i (quotes s) = Some l" "cq_status l = QUOTE_PENDING"
    and j: "j = ce_tx_id E (length (transactions s))" and es: "buildEntries j (conv_tx now userId q) = Inr es"
    and t: "ledger t = ledger s @ es" "transactions t = tbl_save j (conv_tx now userId q) (transactions s)"
      "quotes t = tbl_save i (settled_row now l) (quotes s)" "tx_quote t = tbl_save j i (tx_quote s)"
    using settle_quote_Inr [OF run] by (elim exE conjE) (rule that; assumption)
  have tq: "terms l = terms q" "cq_userId l = userId" using req l(1) by (auto simp: request_ok_def)
  have ids: "map fst (transactions s) = map (ce_tx_id E) [0..<length (transactions s)]"
    and links: "map fst (tx_quote s) = map fst (transactions s)" using ok by (simp_all add: conv_ok_def conv_keys_def)
  have new: "tbl_find j (transactions s) = None" unfolding j using ids by (rule ids_fresh [OF inj])
  then have newq: "tbl_find j (tx_quote s) = None" using links by (simp add: tbl_find_None_keys)
  have tx: "transactions t = transactions s @ [(j, conv_tx now userId q)]" "tx_quote t = tx_quote s @ [(j, i)]"
    using t new newq by (simp_all add: tbl_save_new)
  have keys: "map fst (quotes t) = map fst (quotes s)" using tbl_save_keys [OF l(1)] t(3) by simp
  then have len: "length (quotes t) = length (quotes s)" by (metis length_map)
  have adv: "advances s t" using l t(3) by (intro advances_save [of i s l "settled_row now l"]) simp_all
  have "i \<notin> snd ` set (tx_quote s)" using ok l by (auto simp: conv_ok_def settles_def)
  then have "distinct (map snd (tx_quote t))" using ok tx(2) by (simp add: conv_ok_def)
  moreover have "settles t x" if "x \<in> set (tx_quote t)" for x
  proof (cases "x = (j, i)")
    case False
    with that tx(2) have x: "x \<in> set (tx_quote s)" by simp
    with newq have "fst x \<noteq> j" by (force simp: tbl_find_None_keys)
    then have "tbl_find (fst x) (transactions t) = tbl_find (fst x) (transactions s)" by (simp add: t(2) tbl.find_save)
    moreover have "settles s x" using x ok by (simp add: conv_ok_def)
    ultimately show ?thesis using settles_advances [OF _ adv] by blast
  next
    case True
    have "conv_tx now userId q = conv_tx now (cq_userId (settled_row now l)) (settled_row now l)"
      using tq conv_tx_terms [of q "settled_row now l"] by simp
    moreover have "t_createdAt (conv_tx now userId q) = now" by (simp add: conv_tx_def)
    ultimately show ?thesis using t(2,3) True by (simp add: settles_def)
  qed
  moreover have "used_settled t"
    by (rule used_settled_save [OF _ t(3)]) (use ok tx(2) in \<open>auto simp: conv_ok_def\<close>)
  moreover have "conv_keys E t" using ids links tx keys len ok j by (simp add: conv_keys_def conv_ok_def)
  moreover have "ledger t = concat (map entries_of (transactions t))"
    using ok t(1) tx(1) es by (simp add: conv_ok_def entries_of_Inr)
  ultimately show ?thesis using adv by (simp add: conv_ok_def)
qed

lemma set_without: "set (without n xs) \<subseteq> set xs"
  using set_take_subset [of n xs] set_drop_subset [of "Suc n" xs] by (auto simp: without_def)

definition keeps_ok :: "conv_env \<Rightarrow> conv_state \<Rightarrow> conv_state \<Rightarrow> bool" where
  "keeps_ok E s t \<longleftrightarrow> conv_ok E t \<and> advances s t"

lemma system_okI:
  assumes "system_ok E y" and "keeps_ok E (store y) s"
    and "set (loaded z) \<union> set (compared z) \<subseteq> set (loaded y) \<union> set (compared y) \<union> {r. request_ok s r}" and "store z = s"
  shows "system_ok E z"
  using assms unfolding system_ok_def keeps_ok_def by (auto dest: request_advances)

lemma createQuote_keeps:
  assumes "inj (ce_quote_id E)" and "conv_ok E s" and "createQuote E now getRate userId dto s = (r, t)"
  shows "keeps_ok E s t"
proof -
  from createQuote_cases [OF assms(3)] show ?thesis
    unfolding keeps_ok_def using assms(2) advances_refl conv_ok_new_quote [OF assms(1,2)] by blast
qed

lemma expire_keeps:
  assumes "conv_ok E s" and "tbl_find i (quotes s) = Some q" and "terms q = terms q'"
  shows "keeps_ok E s (s\<lparr>quotes := tbl_save i (q'\<lparr>cq_status := QUOTE_EXPIRED\<rparr>) (quotes s)\<rparr>)"
  unfolding keeps_ok_def
proof
  show "conv_ok E (s\<lparr>quotes := tbl_save i (q'\<lparr>cq_status := QUOTE_EXPIRED\<rparr>) (quotes s)\<rparr>)"
    by (rule conv_ok_expire [OF assms(1,2)]) (simp_all add: assms(3))
  show "advances s (s\<lparr>quotes := tbl_save i (q'\<lparr>cq_status := QUOTE_EXPIRED\<rparr>) (quotes s)\<rparr>)"
    by (rule advances_save [OF assms(2), where q' = "q'\<lparr>cq_status := QUOTE_EXPIRED\<rparr>"]) (simp_all add: assms(3))
qed

lemma load_keeps:
  assumes "conv_ok E s" and "load_quote now userId i s = (r, t)"
  shows "keeps_ok E s t"
proof (cases r)
  case (Inl e)
  with assms(2) load_quote_Inl consider "t = s"
    | q where "tbl_find i (quotes s) = Some q" "t = s\<lparr>quotes := tbl_save i (q\<lparr>cq_status := QUOTE_EXPIRED\<rparr>) (quotes s)\<rparr>"
    by blast
  then show ?thesis
    by cases (use assms(1) in \<open>simp_all add: keeps_ok_def advances_refl expire_keeps [unfolded keeps_ok_def]\<close>)
next
  case (Inr q)
  then have "t = s" using assms(2) load_quote_Inr by blast
  with assms(1) show ?thesis by (simp add: keeps_ok_def advances_refl)
qed

lemma load_request: "load_quote now userId i s = (Inr q, t) \<Longrightarrow> request_ok t (userId, i, q)"
  by (drule load_quote_Inr) (auto simp: request_ok_def)

lemma compare_keeps:
  assumes "conv_ok E s" and "request_ok s (userId, i, q)" and "check_slippage getRate i q s = (r, t)"
  shows "keeps_ok E s t"
proof -
  from assms(2) obtain l where l: "tbl_find i (quotes s) = Some l" "terms l = terms q" by (auto simp: request_ok_def)
  have "t = s \<or> t = s\<lparr>quotes := tbl_save i (q\<lparr>cq_status := QUOTE_EXPIRED\<rparr>) (quotes s)\<rparr>"
    using assms(3) check_slippage_Inl check_slippage_Inr by (cases r) blast+
  with expire_keeps [OF assms(1) l] assms(1) show ?thesis by (auto simp: keeps_ok_def advances_refl)
qed

lemma settle_keeps:
  assumes "inj (ce_tx_id E)" and "conv_ok E s" and "request_ok s (userId, i, q)"
    and "settle_quote E now userId i q s = (r, t)"
  shows "keeps_ok E s t"
proof (cases r)
  case (Inl e)
  with assms(4) settle_quote_Inl have "t = s" by blast
  with assms(2) show ?thesis by (simp add: keeps_ok_def advances_refl)
next
  case (Inr x)
  with assms conv_ok_settle show ?thesis unfolding keeps_ok_def by blast
qed

lemma system_ok_step:
  assumes inj: "inj (ce_quote_id E)" "inj (ce_tx_id E)" and ok: "system_ok E y"
  shows "system_ok E (conv_step E e y)"
proof -
  have s: "conv_ok E (store y)" using ok by (simp add: system_ok_def)
  have req: "request_ok (store y) r" if "r \<in> set (loaded y) \<union> set (compared y)" for r
    using ok that by (auto simp: system_ok_def)
  show ?thesis
  proof (cases e)
    case (Quote now getRate userId dto)
    obtain r t where run: "createQuote E now getRate userId dto (store y) = (r, t)" by fastforce
    show ?thesis by (rule system_okI [OF ok createQuote_keeps [OF inj(1) s run]]) (simp_all add: Quote run)
  next
    case (Load now userId i)
    obtain r t where run: "load_quote now userId i (store y) = (r, t)" by fastforce
    show ?thesis
      by (rule system_okI [OF ok load_keeps [OF s run]]; cases r) (use load_request run in \<open>auto simp: Load\<close>)
  next
    case (Compare n getRate)
    show ?thesis
    proof (cases "n < length (loaded y)")
      case True
      obtain userId i q where q: "loaded y ! n = (userId, i, q)" using prod_cases3 by blast
      then have m: "(userId, i, q) \<in> set (loaded y)" using True nth_mem by metis
      obtain r t where run: "check_slippage getRate i q (store y) = (r, t)" by fastforce
      show ?thesis
        by (rule system_okI [OF ok compare_keeps [OF s req run]]; cases r)
          (use m q run True set_without [of n "loaded y"] in \<open>auto simp: Compare\<close>)
    qed (simp add: Compare ok)
  next
    case (Settle n now)
    show ?thesis
    proof (cases "n < length (compared y)")
      case True
      obtain userId i q where q: "compared y ! n = (userId, i, q)" using prod_cases3 by blast
      then have m: "(userId, i, q) \<in> set (compared y)" using True nth_mem by metis
      obtain r t where run: "settle_quote E now userId i q (store y) = (r, t)" by fastforce
      show ?thesis
        by (rule system_okI [OF ok settle_keeps [OF inj(2) s req run]])
          (use m q run True set_without [of n "compared y"] in \<open>auto simp: Settle\<close>)
    qed (simp add: Settle ok)
  qed
qed

interpretation conv_run: invariant_system "conv_step E" "\<lambda>_. inj (ce_quote_id E) \<and> inj (ce_tx_id E)" "system_ok E" for E
  by unfold_locales (simp add: system_ok_step)

section \<open>Which conversions go through\<close>

lemma createQuote_Inr:
  assumes "createQuote E now getRate userId dto s = (Inr (i, q), t)"
  shows "\<exists>a r. qd_fromAmount dto = Finite a \<and> 0 < a \<and>
     getRate (toUpperCase (qd_fromCurrency dto)) (toUpperCase (qd_toCurrency dto)) = Inr r \<and>
     toUpperCase (qd_fromCurrency dto) \<noteq> toUpperCase (qd_toCurrency dto) \<and>
     q = quote_row E now userId (toUpperCase (qd_fromCurrency dto)) (toUpperCase (qd_toCurrency dto)) a (num_to_string r) \<and>
     i = ce_quote_id E (length (quotes s)) \<and> t = s\<lparr>quotes := tbl_save i q (quotes s)\<rparr>"
  using assms by (cases "qd_fromAmount dto") (auto simp: createQuote_def Let_def op_iff)

lemma to_fixed_tiny: "0 \<le> x \<Longrightarrow> x < 5 / 10 ^ 9 \<Longrightarrow> to_fixed 8 x = 0"
  by (auto simp: to_fixed_def dec_round_def sgn_if floor_eq_iff)

lemma settled_balance:
  assumes "settle_quote E now userId i q s = (Inr r, t)" and "findById userId s = Some u"
    and "cq_fromCurrency q \<noteq> cq_toCurrency q"
  shows "user_balance userId (cq_fromCurrency q) t = debited u q"
    and "user_balance userId (cq_toCurrency q) t = credited u q"
  using settle_quote_Inr [OF assms(1)] assms(2,3)
  by (auto simp: user_balance_def findById_def balance_of_def set_balance_def)

section \<open>Properties\<close>

text \<open>C17. However the requests of any users interleave, no quote is settled twice: every transaction of the conversion
  books settles one quote, of the user who asked for it, at the amounts, the rate and the fee the quote froze, that
  quote is pending no more, a used quote has its transaction, and the ledger stays balanced.\<close>

theorem conversions_settle_once:
  assumes "inj (ce_quote_id E)" and "inj (ce_tx_id E)"
    and "quotes (store y) = []" "transactions (store y) = []" "tx_quote (store y) = []" "ledger (store y) = []"
    and "loaded y = []" "compared y = []"
    and "s = store (fold (conv_step E) es y)"
  shows "distinct (map snd (tx_quote s)) \<and> map fst (tx_quote s) = map fst (transactions s) \<and>
     (\<forall>(j, i) \<in> set (tx_quote s). \<exists>t q. tbl_find j (transactions s) = Some t \<and> tbl_find i (quotes s) = Some q \<and>
        cq_status q \<noteq> QUOTE_PENDING \<and> t = conv_tx (t_createdAt t) (cq_userId q) q) \<and>
     (\<forall>(i, q) \<in> set (quotes s). cq_status q = QUOTE_USED \<longrightarrow> i \<in> snd ` set (tx_quote s)) \<and>
     discrepancies (ledger s) = []"
proof -
  have "system_ok E y" using assms(3-8) by (simp add: system_ok_def conv_ok_def conv_keys_def used_settled_def)
  then have "system_ok E (fold (conv_step E) es y)" by (rule conv_run.inv_run) (simp add: assms(1,2))
  then have "conv_ok E s" by (simp add: assms(9) system_ok_def)
  then show ?thesis
    using book.history_balanced [of "transactions s"] by (auto simp: conv_ok_def conv_keys_def used_settled_def settles_def)
qed

text \<open>C18. An amount below half a hundred-millionth converts for free: the quote charges nothing, its amount rounds to
  zero, but pays the exact amount at the exact rate, so executing it credits the target currency and leaves the source
  balance as it was.\<close>

theorem dust_converts_for_free:
  assumes "createQuote E now getRate userId dto s = (Inr (i, q), s')"
    and "qd_fromAmount dto = Finite a" and "a < 5 / 10 ^ 9"
    and "settle_quote E now' userId i q t = (Inr r, t')" and "findById userId t = Some u"
    and "balances_ok (u_balances u)"
    and "is_dec 8 (num_to_string (balance_of u (cq_fromCurrency q)))"
    and "num_to_string (balance_of u (cq_fromCurrency q)) < 10 ^ 12"
  shows "cq_fromAmount q = 0 \<and> user_balance userId (cq_fromCurrency q) t' = user_balance userId (cq_fromCurrency q) t \<and>
     (\<exists>rate. getRate (cq_fromCurrency q) (cq_toCurrency q) = Inr rate \<and>
        user_balance userId (cq_toCurrency q) t' = rnd (decimal_plus (num_to_string (user_balance userId (cq_toCurrency q) t))
          (to_fixed 8 (conv_to_amount E a (num_to_string rate)))))"
proof -
  from createQuote_Inr [OF assms(1)] assms(2) obtain rate where a: "0 < a"
    and rate: "getRate (toUpperCase (qd_fromCurrency dto)) (toUpperCase (qd_toCurrency dto)) = Inr rate"
    and ne: "toUpperCase (qd_fromCurrency dto) \<noteq> toUpperCase (qd_toCurrency dto)"
    and q: "q = quote_row E now userId (toUpperCase (qd_fromCurrency dto)) (toUpperCase (qd_toCurrency dto)) a (num_to_string rate)"
    by auto
  have zero: "cq_fromAmount q = 0" using a assms(3) by (simp add: q quote_row_def to_fixed_tiny)
  let ?b = "balance_of u (cq_fromCurrency q)"
  have "is_double ?b" "0 \<le> ?b" using balances_ok_read [OF assms(6)] by auto
  then have "debited u q = ?b"
    using assms(7,8) zero parse_float_to_string [of ?b]
    by (simp add: debited_def decimal_minus_def decimal_round_exact num_to_string_nonneg parse_float_def)
  moreover have "cq_fromCurrency q \<noteq> cq_toCurrency q" using ne by (simp add: q quote_row_def)
  ultimately show ?thesis
    using settled_balance [OF assms(4,5)] zero rate assms(5)
    by (simp add: user_balance_def credited_def) (simp add: q quote_row_def)
qed

text \<open>A pair whose rate is below half a hundred-millionth never converts: the quote stores the rate as zero, and
  executing it under the very rate it was made with reports that the rate has moved and expires it.\<close>

theorem small_rate_never_converts:
  assumes "createQuote E now getRate userId dto s = (Inr (i, q), t)"
    and "getRate (cq_fromCurrency q) (cq_toCurrency q) = Inr r" and "0 < num_to_string r" and "num_to_string r < 5 / 10 ^ 9"
    and "now' \<le> now + 30000"
  shows "executeConversion E now' getRate userId i t =
     (Inl (UnprocessableEntityException ''Rate movement exceeds 1% slippage threshold. Quote is no longer valid.''),
      t\<lparr>quotes := tbl_save i (q\<lparr>cq_status := QUOTE_EXPIRED\<rparr>) (quotes t)\<rparr>)"
proof -
  from createQuote_Inr [OF assms(1)] assms(2) obtain a
    where q: "q = quote_row E now userId (toUpperCase (qd_fromCurrency dto)) (toUpperCase (qd_toCurrency dto)) a (num_to_string r)"
      and t: "t = s\<lparr>quotes := tbl_save i q (quotes s)\<rparr>"
    by (auto simp: quote_row_def)
  have "cq_rate q = 0" using assms(3,4) by (simp add: q quote_row_def to_fixed_tiny)
  moreover have "cq_userId q = userId" "cq_status q = QUOTE_PENDING" "cq_usedAt q = None" "\<not> cq_expiresAt q < now'"
    using assms(5) by (simp_all add: q quote_row_def)
  moreover have "tbl_find i (quotes t) = Some q" by (simp add: t)
  ultimately show ?thesis
    using assms(2,3) by (simp add: executeConversion_def load_quote_def check_slippage_def slipped_def expire_quote_def save_quote_def op_defs)
qed

text \<open>C19. A user whose wallet already holds the key of the account, as every wallet seeded at sign-up does, converts into
  no currency without a labelled wallet: opening that wallet copies the key, which the index on user and key refuses,
  and the whole conversion is rolled back.\<close>

theorem conversion_needs_labelled_wallet:
  fixes s :: conv_state
  assumes "findById userId s = Some u" and "u_walletPublicKey u \<noteq> []" and "key_taken userId (u_walletPublicKey u) s"
    and "tbl_find i (quotes s) = Some q" and "labelled_wallet userId (wallet_label (cq_toCurrency q)) s = None"
  shows "\<exists>e t. executeConversion E now getRate userId i s = (Inl e, t) \<and>
     users t = users s \<and> wallets t = wallets s \<and> transactions t = transactions s \<and> ledger t = ledger s"
proof -
  have refused: "settle_quote E now userId i q s \<noteq> (Inr r, t)" for r t
    using assms by (auto simp: settle_quote_def settle_body_def op_iff ensure_wallet_def Let_def)
  obtain r t where run: "executeConversion E now getRate userId i s = (r, t)" by fastforce
  show ?thesis
  proof (cases r)
    case (Inr x)
    with run assms(4) have "settle_quote E now userId i q s = (Inr x, t)"
      by (auto simp: executeConversion_def op_iff dest!: load_quote_Inr check_slippage_Inr)
    with refused show ?thesis by blast
  next
    case (Inl e)
    with run have "users t = users s \<and> wallets t = wallets s \<and> transactions t = transactions s \<and> ledger t = ledger s"
      by (auto simp: executeConversion_def op_iff dest!: load_quote_Inr load_quote_Inl check_slippage_Inr check_slippage_Inl settle_quote_Inl)
    with run Inl show ?thesis by blast
  qed
qed

section \<open>Witnesses\<close>

definition demo_conv_env :: conv_env where
  "demo_conv_env = \<lparr>ce_quote_id = \<lambda>n. replicate n CHR ''q'', ce_tx_id = \<lambda>n. replicate n CHR ''t'',
     ce_wallet_id = \<lambda>n. replicate n CHR ''w'', ce_fee_percent = Some 0\<rparr>"

lemma demo_conv_ids: "inj (ce_quote_id demo_conv_env)" "inj (ce_tx_id demo_conv_env)"
  unfolding demo_conv_env_def inj_def by (auto dest: arg_cong [of _ _ length])

text \<open>A user with five lumens and one wallet with the key of the account and the given label.\<close>

definition demo_conv :: "string \<Rightarrow> conv_state" where
  "demo_conv l = \<lparr>users = [(''u'', demo_user 5)],
     wallets = [(''w'', \<lparr>w_userId = ''u'', w_publicKey = ''G'', w_encryptedSecretKey = None, w_isDefault = True\<rparr>)],
     notifications = [], calls = 0, payments = [], ledger = [], transactions = [], quotes = [],
     wallet_labels = [(''w'', l)], tx_quote = []\<rparr>"

definition demo_quote_dto :: "rat \<Rightarrow> quote_dto" where
  "demo_quote_dto a = \<lparr>qd_fromCurrency = ''xlm'', qd_toCurrency = ''ngn'', qd_fromAmount = Finite a\<rparr>"

lemma demo_codes: "toUpperCase ''xlm'' = ''XLM''" "toUpperCase ''ngn'' = ''NGN''"
  by code_simp+

lemma demo_decimal: "decimal_round (1 / 1000000000) = 1 / 1000000000" "decimal_round 0 = 0" "decimal_round 1 = 1"
proof -
  have "log10n 999999999 = 8" by (simp add: log10n.simps)
  then show "decimal_round (1 / 1000000000) = 1 / 1000000000"
    by (simp add: decimal_round_def ilog10_def power_int_def floor_eq_iff)
  show "decimal_round 0 = 0" by (simp add: decimal_round_def)
  show "decimal_round 1 = 1" using is_dec_int [of 8 1] by (simp add: decimal_round_exact)
qed

lemma demo_fixed: "to_fixed 8 1 = 1" "to_fixed 8 1000000000 = 1000000000" "to_fixed 8 0 = 0" "to_fixed 4 0 = 0" "to_fixed 8 (1 / 1000000000) = 0"
  using is_dec_int [of 8 1] is_dec_int [of 8 1000000000] is_dec_int [of 8 0] is_dec_int [of 4 0] to_fixed_tiny [of "1 / 1000000000"]
  by (simp_all add: to_fixed_def is_dec_def)

lemma demo_dust:
  "quote_row demo_conv_env 0 ''u'' ''XLM'' ''NGN'' (1 / 1000000000) 1000000000 =
     \<lparr>cq_userId = ''u'', cq_fromCurrency = ''XLM'', cq_toCurrency = ''NGN'', cq_fromAmount = 0, cq_toAmount = 1,
      cq_rate = 1000000000, cq_fee = 0, cq_feePercent = 0, cq_expiresAt = 30000, cq_usedAt = None,
      cq_status = QUOTE_PENDING, cq_createdAt = 0\<rparr>"
  by (simp add: quote_row_def conv_fee_def conv_to_amount_def demo_conv_env_def decimal_times_def decimal_div_def
      decimal_minus_def demo_decimal demo_fixed)

lemma demo_dust_quote:
  "\<exists>q t. createQuote demo_conv_env 0 (\<lambda>c d. Inr 1000000000) ''u'' (demo_quote_dto (1 / 1000000000)) (demo_conv ''NGN Wallet'') =
     (Inr ([], q), t) \<and> tbl_find [] (quotes t) = Some q \<and> cq_status q = QUOTE_PENDING \<and> cq_usedAt q = None \<and>
     cq_fromAmount q = 0 \<and> cq_fromCurrency q = ''XLM'' \<and> cq_toCurrency q = ''NGN'' \<and>
     findById ''u'' t = Some (demo_user 5) \<and> labelled_wallet ''u'' (wallet_label ''NGN'') t \<noteq> None"
  by (simp add: createQuote_def demo_quote_dto_def Let_def demo_codes demo_dust op_defs quote_fits_def fits_column_def demo_conv_def)
    (simp add: demo_conv_env_def findById_def labelled_wallet_def wallet_label_def tbl_find_def tbl_save_def)

lemma settle_quote_succeeds:
  assumes "tbl_find i (quotes s) = Some l" "cq_status l = QUOTE_PENDING" "cq_usedAt l = None"
    and "findById userId s = Some u" "cq_fromAmount q \<le> num_to_string (balance_of u (cq_fromCurrency q))"
    and "labelled_wallet userId (wallet_label (cq_toCurrency q)) s \<noteq> None"
  shows "\<exists>r t. settle_quote E now userId i q s = (Inr r, t)"
proof -
  obtain es where "buildEntries (ce_tx_id E (length (transactions s))) (conv_tx now userId q) = Inr es"
    using buildEntries_total by blast
  with assms show ?thesis
    by (auto simp: settle_quote_def settle_body_def ensure_wallet_def move_balances_def insert_transaction_def
        insert_entries_def save_quote_def Let_def op_defs)
qed

theorem conversions_settle_once_witness:
  "distinct (map snd (tx_quote (store (fold (conv_step demo_conv_env)
     [Quote 0 (\<lambda>c d. Inr 1000000000) ''u'' (demo_quote_dto (1 / 1000000000)), Load 1 ''u'' [], Load 1 ''u'' [],
      Compare 0 (\<lambda>c d. Inr 1000000000), Compare 0 (\<lambda>c d. Inr 1000000000), Settle 1 2, Settle 0 3]
     \<lparr>store = demo_conv ''NGN Wallet'', loaded = [], compared = []\<rparr>))))"
proof -
  let ?y = "\<lparr>store = demo_conv ''NGN Wallet'', loaded = [], compared = []\<rparr> :: conv_system"
  have "quotes (store ?y) = []" "transactions (store ?y) = []" "tx_quote (store ?y) = []" "ledger (store ?y) = []"
      "loaded ?y = []" "compared ?y = []" by (simp_all add: demo_conv_def)
  from conversions_settle_once [OF demo_conv_ids this refl] show ?thesis by blast
qed

theorem dust_converts_for_free_witness:
  "\<exists>i q s r t. createQuote demo_conv_env 0 (\<lambda>c d. Inr 1000000000) ''u'' (demo_quote_dto (1 / 1000000000)) (demo_conv ''NGN Wallet'') =
       (Inr (i, q), s) \<and> settle_quote demo_conv_env 5 ''u'' i q s = (Inr r, t) \<and>
     cq_fromAmount q = 0 \<and> user_balance ''u'' ''XLM'' t = 5"
proof -
  from demo_dust_quote obtain q s where q: "createQuote demo_conv_env 0 (\<lambda>c d. Inr 1000000000) ''u''
        (demo_quote_dto (1 / 1000000000)) (demo_conv ''NGN Wallet'') = (Inr ([], q), s)"
      "tbl_find [] (quotes s) = Some q" "cq_status q = QUOTE_PENDING" "cq_usedAt q = None"
      "cq_fromAmount q = 0" "cq_fromCurrency q = ''XLM''" "cq_toCurrency q = ''NGN''"
      "findById ''u'' s = Some (demo_user 5)" "labelled_wallet ''u'' (wallet_label ''NGN'') s \<noteq> None"
    by blast
  have b: "balance_of (demo_user 5) ''XLM'' = 5" by (simp add: demo_user_def balance_of_def)
  with q settle_quote_succeeds [of "[]" s q "''u''" "demo_user 5" q demo_conv_env 5]
  obtain r t where t: "settle_quote demo_conv_env 5 ''u'' [] q s = (Inr r, t)" by auto
  have "balances_ok (u_balances (demo_user 5))" using is_double_int [of 5] by (intro demo_user_ok) simp_all
  moreover have "is_dec 8 (num_to_string (balance_of (demo_user 5) (cq_fromCurrency q)))"
      "num_to_string (balance_of (demo_user 5) (cq_fromCurrency q)) < 10 ^ 12"
    using is_dec_int [of 8 5] by (simp_all add: b q(6))
  moreover have "qd_fromAmount (demo_quote_dto (1 / 1000000000)) = Finite (1 / 1000000000)" by (simp add: demo_quote_dto_def)
  moreover have "(1 / 1000000000 :: rat) < 5 / 10 ^ 9" by simp
  ultimately have "user_balance ''u'' (cq_fromCurrency q) t = user_balance ''u'' (cq_fromCurrency q) s"
    by (intro conjunct1 [OF conjunct2 [OF dust_converts_for_free [OF q(1) _ _ t q(8)]]])
  with q t show ?thesis by (auto simp: user_balance_def b)
qed

lemma decimal_round_below_one: "0 < x \<Longrightarrow> x < 1 \<Longrightarrow> 0 \<le> decimal_round x \<and> decimal_round x \<le> x + 1"
proof -
  assume x: "0 < x" "x < 1"
  let ?q = "(10 :: rat) powi (19 - ilog10 x)"
  have "ilog10 x \<le> 0" using ilog10_small [of x 0] x by simp
  then have "19 - ilog10 x = int (nat (19 - ilog10 x))" by simp
  then have "?q = 10 ^ nat (19 - ilog10 x)" by (metis power_int_of_nat)
  then have q: "1 \<le> ?q" by simp
  have "of_int \<lfloor>x * ?q + 1 / 2\<rfloor> \<le> x * ?q + 1 / 2" by (rule of_int_floor_le)
  also have "\<dots> \<le> (x + 1) * ?q" using q by (simp add: distrib_right)
  finally have "of_int \<lfloor>x * ?q + 1 / 2\<rfloor> / ?q \<le> x + 1" using q by (simp add: pos_divide_le_eq)
  moreover have "0 \<le> \<lfloor>x * ?q + 1 / 2\<rfloor>" using x q by simp
  ultimately show ?thesis using x q by (simp add: decimal_round_def Let_def)
qed

text \<open>The rate \<open>2\<^sup>-\<^sup>3\<^sup>0\<close>, about a billionth.\<close>

lemma demo_small_rate:
  defines "r \<equiv> num_to_string (1 / 1073741824)"
  shows "0 < r" "r < 5 / 10 ^ 9"
proof -
  have d: "is_double (1 / 1073741824)" using is_double_dyadic [of 1 "- 30"] by (simp add: power_int_def power_one_over)
  from printed_error [OF d] num_to_string_nonneg [OF d] have "\<bar>r - 1 / 1073741824\<bar> \<le> r * 2 powi - 53" "0 \<le> r" by (simp_all add: r_def)
  then have e: "\<bar>r - 1 / 1073741824\<bar> \<le> r / 9007199254740992" by (simp add: power_int_def power_one_over)
  show "0 < r" using e \<open>0 \<le> r\<close> by (cases "r = 0") auto
  have "r < 1 / 200000000" using e by linarith
  then show "r < 5 / 10 ^ 9" by simp
qed

theorem small_rate_never_converts_witness:
  "\<exists>i q s t. createQuote demo_conv_env 0 (\<lambda>c d. Inr (1 / 1073741824)) ''u'' (demo_quote_dto 1) (demo_conv ''NGN Wallet'') = (Inr (i, q), s) \<and>
     executeConversion demo_conv_env 1 (\<lambda>c d. Inr (1 / 1073741824)) ''u'' i s =
       (Inl (UnprocessableEntityException ''Rate movement exceeds 1% slippage threshold. Quote is no longer valid.''), t)"
proof -
  let ?g = "\<lambda>c d :: string. Inr (1 / 1073741824) :: exn + rat" and ?r = "num_to_string (1 / 1073741824)"
  have r: "0 \<le> decimal_round ?r" "decimal_round ?r \<le> 2"
    using decimal_round_below_one [of ?r] demo_small_rate by auto
  then have "to_fixed 8 (decimal_round ?r) \<le> 2" using to_fixed_mono [of "decimal_round ?r" 2 8] is_dec_int [of 8 2] by (simp add: is_dec_def to_fixed_def)
  moreover have "0 \<le> to_fixed 8 (decimal_round ?r)" using r(1) by (rule to_fixed_nonneg)
  ultimately have f: "fits_column (to_fixed 8 (decimal_round ?r))" by (simp add: fits_column_def)
  have "to_fixed 8 ?r = 0" using demo_small_rate by (simp add: to_fixed_tiny)
  then have "quote_fits (quote_row demo_conv_env 0 ''u'' ''XLM'' ''NGN'' 1 ?r)"
    using f by (simp add: quote_fits_def quote_row_def conv_fee_def conv_to_amount_def demo_conv_env_def decimal_times_def
        decimal_div_def decimal_minus_def demo_decimal demo_fixed fits_column_def)
  then obtain i q s where q: "createQuote demo_conv_env 0 ?g ''u'' (demo_quote_dto 1) (demo_conv ''NGN Wallet'') = (Inr (i, q), s)"
    by (simp add: createQuote_def demo_quote_dto_def Let_def demo_codes op_defs)
  show ?thesis using small_rate_never_converts [OF q refl demo_small_rate, of 1] q by auto
qed

theorem conversion_needs_labelled_wallet_witness:
  "\<exists>e t. executeConversion demo_conv_env 1 (\<lambda>c d. Inr 1000000000) ''u'' []
     ((demo_conv ''Primary'')\<lparr>quotes := [([], quote_row demo_conv_env 0 ''u'' ''XLM'' ''NGN'' (1 / 1000000000) 1000000000)]\<rparr>) = (Inl e, t) \<and>
     transactions t = []"
proof -
  let ?q = "quote_row demo_conv_env 0 ''u'' ''XLM'' ''NGN'' (1 / 1000000000) 1000000000"
  let ?s = "(demo_conv ''Primary'')\<lparr>quotes := [([], ?q)]\<rparr>"
  have "findById ''u'' ?s = Some (demo_user 5)" by (simp add: findById_def tbl_find_def demo_conv_def)
  moreover have "u_walletPublicKey (demo_user 5) \<noteq> []" "key_taken ''u'' (u_walletPublicKey (demo_user 5)) ?s"
    by (simp_all add: demo_user_def key_taken_def demo_conv_def)
  moreover have "tbl_find [] (quotes ?s) = Some ?q" by (simp add: tbl_find_def)
  moreover have "labelled_wallet ''u'' (wallet_label (cq_toCurrency ?q)) ?s = None"
    by (simp add: labelled_wallet_def wallet_label_def demo_conv_def tbl_find_def quote_row_def)
  ultimately show ?thesis
    using conversion_needs_labelled_wallet [of "''u''" ?s "demo_user 5" "[]" ?q demo_conv_env 1 "\<lambda>c d. Inr 1000000000"]
    by (auto simp: demo_conv_def)
qed

end
