(* ===== verification/Spec2Isabelle.thy ===== *)
theory Spec2Isabelle
  imports Escrow Ledger Fees Vaults Loans TxLimits Markets Beneficiaries Referrals Transactions TxSafety Reversals Reconciliation Dao Disputes
    Idempotency Kyc Fiat MicroSavings Cards RateAlerts Preferences Tax Conversions
begin

text \<open>
  A verification library for the NexaFx backend (\<open>src/src\<close>), a NestJS service that keeps accounts of users,
  moves money between them and the Stellar network, and governs both. This header says how the program is put together,
  which theory models which part, what the lemmas show, and what is left out.

  \<^bold>\<open>The program.\<close> A request passes the guards (\<open>common/guards\<close>, registered in \<open>app.module.ts\<close>) and the interceptors
  (\<open>main.ts\<close>) and reaches a controller, which calls a service. A service reads and writes rows of a relational
  database, some of it inside transactions, and calls the network through the Stellar client. Timed jobs call the same
  services. The balance of a user is a JSON map in the row of the user; transactions, vaults, loans, escrows and disputes
  all write it, and most of them also write entries of a double-entry ledger. One-time codes, refresh tokens, authenticator
  codes and sessions of administrators decide who may call what.

  \<^bold>\<open>How it is modelled.\<close> An operation is a function from a state to an exception or a result, and a new state (\<open>op\<close> in
  \<open>Prelude\<close>). A table is an association list of ids and rows. The state of a component is a record; records extend one
  another along \<open>base\<close> (users, wallets, notifications), \<open>chain\<close> (calls to the outside and payments), and the tables of a
  component, so that an operation on the users is used by every component. What the repository does not contain
  (Horizon, the exchange rates, bcrypt, the cipher, the keyed hash, random numbers, generated ids) is a field of an
  environment record, often indexed by the number of the call; what the code relies on is a hypothesis of the theorem
  that needs it. Dates are milliseconds of UTC. Messages that are put together from values are templates.

  \<^bold>\<open>Theories and the code they model.\<close>
  \<^item> \<open>JsNumber\<close>, \<open>JsDate\<close>: the arithmetic of double-precision numbers as rationals that are rounded to 53 bits, \<open>toFixed\<close>,
    \<open>parseFloat\<close>, decimal columns; calendars of \<open>Date\<close>.
  \<^item> \<open>Prelude\<close>: exceptions, operations and their outcomes (\<open>op_iff\<close>), predicates that operations keep (\<open>pres\<close>), tables
    (locale \<open>repository\<close> and its instance \<open>tbl\<close>), runs of events (locales \<open>invariant_system\<close> and \<open>status_machine\<close>).
  \<^item> \<open>Users\<close>, \<open>Accounts\<close>: \<open>users/users.service.ts\<close>, \<open>users/user.entity.ts\<close> and the choice of a wallet in
    \<open>wallets/wallets.service.ts\<close>. \<open>Stellar\<close>: payments of \<open>modules/stellar/stellar.service.ts\<close>.
  \<^item> \<open>Ledger\<close>: \<open>ledger/services\<close>. \<open>Fees\<close>: \<open>fees/fees.service.ts\<close>. \<open>TxLimits\<close>, \<open>Transactions\<close>, \<open>TxSafety\<close>, \<open>Reversals\<close>:
    \<open>transactions/services\<close>. \<open>Markets\<close>: \<open>currencies\<close>. \<open>Beneficiaries\<close>, \<open>Referrals\<close>, \<open>Escrow\<close>, \<open>Vaults\<close>, \<open>Loans\<close>: the
    directories of these names. \<open>Dao\<close>: \<open>dao\<close>. \<open>Disputes\<close>: \<open>disputes\<close>.
  \<^item> \<open>Encryption\<close>: \<open>common/services/encryption.service.ts\<close> and its helper. \<open>Otps\<close>: \<open>otps\<close>, \<open>tokens\<close>. \<open>TwoFactor\<close>:
    \<open>two-factor\<close>. \<open>Auth\<close>: \<open>auth/auth.service.ts\<close>. \<open>Guards\<close>: \<open>common/guards\<close>, \<open>auth/guards\<close>, \<open>auth/strategies/jwt.strategy.ts\<close>,
    \<open>admin/impersonation\<close>. \<open>Idempotency\<close>: \<open>common/interceptors/idempotency.interceptor.ts\<close> and its service.
  \<^item> \<open>Sanctions\<close>: \<open>sanctions\<close> (names, lists, OpenSanctions answers, reviews). \<open>Kyc\<close>: \<open>kyc\<close> with the scan of documents.
    \<open>Decimals\<close>: the arithmetic of the package \<open>decimal.js\<close>. \<open>Fiat\<close>: \<open>modules/fiat\<close>. \<open>Conversions\<close>: \<open>modules/conversions\<close>.
    \<open>MicroSavings\<close>: \<open>modules/micro-savings\<close>. \<open>Cards\<close>: \<open>cards\<close>. \<open>RateAlerts\<close>: \<open>rate-alerts\<close>. \<open>Tax\<close>: \<open>tax\<close>. \<open>Preferences\<close>:
    \<open>notifications/services/notification-preference.service.ts\<close>. \<open>Reconciliation\<close>: the settlement jobs of \<open>scheduled-jobs\<close>.

  \<^bold>\<open>What is shown.\<close>
  \<^item> Money: along every run of requests, jobs and answers of the network no balance is negative and the ledger verifies
    (\<open>TxSafety\<close>, \<open>Loans\<close>), an escrow is paid out once (\<open>Escrow\<close>), and what each payment, repayment, withdrawal and swap
    moves is an exact functional statement. Settled transactions, decided proposals, resolved disputes and finished loans
    stay as they are.
  \<^item> Refinements: referrals implement an abstract book, backup codes a set, the fee and the count of votes agree with
    exact arithmetic within their rounding (\<open>rnd\<close> is monotone and exact on 53 bits).
  \<^item> Access: codes open once, guesses are bounded, tokens need codes, a reset ends every session, the guards admit only
    entitled requests; the cipher, base64 and one-time codes are round trips.
  \<^item> Termination: sequential loops are structural recursions; the loop that draws backup codes is a partial function, and
    ends exactly when the random numbers produce enough codes. Loops over attempts (twenty for a referral code) carry
    their bound as an argument, as the code does.
  \<^item> Failures: theorems of kind \<open>error\<close> describe what the code does where it does not do what it means to: a sign-up that
    never completes, an interceptor that never replays, a memo that is always too long, a reversal that pays nothing.
  \<^item> Compliance: a tier changes only to the target of an approved application, listed names are blocked even when the
    outside service fails (\<open>Kyc\<close>, \<open>Sanctions\<close>); disposals consume lots first in, first out (\<open>Tax\<close>).
  \<^item> Payments from outside: wallets grow by exactly the completed deposits (\<open>Fiat\<close>), no quote is settled twice however the
    requests interleave (\<open>Conversions\<close>), a settlement job credits exactly what it claimed (\<open>Reconciliation\<close>), the daily cap of a savings rule is exact (\<open>MicroSavings\<close>), an alert fires exactly
    when its rate is reached (\<open>RateAlerts\<close>), a link to unsubscribe is a round trip (\<open>Preferences\<close>).

  \<^bold>\<open>Interfaces.\<close> Tables are used through the laws of \<open>repository\<close>, balances through \<open>balance_store\<close>, runs through
  \<open>invariant_system\<close> and \<open>status_machine\<close>, writers of the ledger through \<open>balanced_source\<close>, the effects of an escrow
  through \<open>effect_invariant\<close>; each locale is interpreted on the definitions of the model in the theory that provides them.

  \<^bold>\<open>Abstractions.\<close> Infinities and NaN do not arise for the values that reach the arithmetic, except where an operation
  tests for them; the exponent of a double is not bounded. Decimal columns hold values, not texts; the range of a column is modelled where the
  code can leave it (the rate of a loan). Rows are created with ids that a generator has not used before. Notifications,
  mails and pushes are recorded as requests to send, audit logs are left out. A job runs to its end before the next
  request, except where the interleaving is what a statement is about (deposits of a vault). Letter case is that of ASCII.
  The double credit of a chargeback has a table of its own, because its type is missing in the declared enumeration.

  \<^bold>\<open>Not modelled.\<close> Controllers, modules, data transfer objects and migrations (declarations and glue); delivery of mails,
  pushes and webhooks (input and output); exchange rate providers, payment gateways and document recognition (services outside); the
  merge-damaged parts of \<open>wallets/wallets.service.ts\<close> and the duplicate \<open>modules/auth\<close>, which do not compile; reports,
  dashboards and searches, which only read.

  \<^bold>\<open>Plan.\<close> Next are the remaining services that keep state of their own: account deletion, organisations, support tickets and the scheduled jobs.
\<close>

end
